(* ===== verification/Prelude.thy ===== *)
theory Prelude
  imports Main "HOL-Library.Word" "HOL-Library.AList"
begin

text \<open>
  Shared vocabulary of the development.

  A Go \<^verbatim>\<open>string\<close> and a Go \<^verbatim>\<open>[]byte\<close> are both sequences of bytes, and a HOL
  \<^typ>\<open>char\<close> is a byte, so both are \<^typ>\<open>string\<close> here and the conversions between them
  are the identity.  A Go \<^verbatim>\<open>map\<close> is an association list with distinct keys: the order
  of the list is the order in which a \<^verbatim>\<open>range\<close> loop visits the map.  Go leaves that
  order open; every theorem quantifies over all states, hence over all orders.
  Pointers are natural numbers into explicit stores.  \<^verbatim>\<open>int64\<close> and the unsigned
  integers keep their width.
\<close>

section \<open>Names for the types of the model\<close>

type_synonym bytes = string
type_synonym int64 = "64 word"
type_synonym uint64 = "64 word"
type_synonym uint32 = "32 word"
type_synonym uint16 = "16 word"
type_synonym connref = nat
type_synonym ('k, 'v) gomap = "('k \<times> 'v) list"

named_theorems heap_simps \<open>reads after writes of the stores and tables\<close>
named_theorems frame_simps \<open>what an operation leaves unchanged\<close>
named_theorems wf_intros \<open>operations keep the well-formedness invariants\<close>

text \<open>
  A Go function returns or panics.  The state after a panic is the state at the
  panic: the task worker recovers it and the process goes on.
\<close>

datatype 'a outcome = Ret 'a | Panics

section \<open>Maps\<close>

abbreviation mget :: "('k, 'v) gomap \<Rightarrow> 'k \<Rightarrow> 'v option" where
  "mget m k \<equiv> map_of m k"

abbreviation mput :: "'k \<Rightarrow> 'v \<Rightarrow> ('k, 'v) gomap \<Rightarrow> ('k, 'v) gomap" where
  "mput k v m \<equiv> AList.update k v m"

abbreviation mdel :: "'k \<Rightarrow> ('k, 'v) gomap \<Rightarrow> ('k, 'v) gomap" where
  "mdel k m \<equiv> AList.delete k m"

text \<open>Reading a missing key of a map of slices gives the nil slice.\<close>

definition mgets :: "('k, 'v list) gomap \<Rightarrow> 'k \<Rightarrow> 'v list" where
  "mgets m k = (case mget m k of None \<Rightarrow> [] | Some l \<Rightarrow> l)"

definition gomap_ok :: "('k, 'v) gomap \<Rightarrow> bool" where
  "gomap_ok m \<longleftrightarrow> distinct (map fst m)"

lemma mget_mput [simp, heap_simps]: "mget (mput k v m) k' = (if k' = k then Some v else mget m k')"
  by (simp add: update_conv')

lemma mget_mdel [simp, heap_simps]: "mget (mdel k m) k' = (if k' = k then None else mget m k')"
  by (simp add: delete_conv')

lemma mgets_mput [simp, heap_simps]: "mgets (mput k v m) k' = (if k' = k then v else mgets m k')"
  by (simp add: mgets_def)

lemma mgets_empty [simp]: "mgets [] k = []"
  by (simp add: mgets_def)

lemma set_mput_subset: "set (mput k v m) \<subseteq> insert (k, v) (set m)"
  by (induction m) auto

lemma mget_pair: "mget [(a, x), (b, y)] k \<noteq> None \<longleftrightarrow> k = a \<or> k = b"
  by simp

lemma gomap_ok_empty [simp, wf_intros]: "gomap_ok []"
  by (simp add: gomap_ok_def)

lemma gomap_ok_mput [simp, wf_intros]: "gomap_ok m \<Longrightarrow> gomap_ok (mput k v m)"
  by (simp add: gomap_ok_def distinct_update)

lemma gomap_ok_mdel [simp, wf_intros]: "gomap_ok m \<Longrightarrow> gomap_ok (mdel k m)"
  by (simp add: gomap_ok_def distinct_delete)

lemma gomap_ok_in: "gomap_ok m \<Longrightarrow> (k, v) \<in> set m \<longleftrightarrow> mget m k = Some v"
  by (simp add: gomap_ok_def)

lemma gomap_ok_distinct: "gomap_ok m \<Longrightarrow> distinct m"
  unfolding gomap_ok_def by (simp add: distinct_map)

lemma mget_in_set: "mget m k = Some v \<Longrightarrow> (k, v) \<in> set m"
  by (rule map_of_SomeD)

lemma set_mget_dom: "k \<in> fst ` set m \<longleftrightarrow> mget m k \<noteq> None"
  by (simp add: map_of_eq_None_iff)

lemma mgets_Some: "x \<in> set (mgets m k) \<Longrightarrow> \<exists>l. mget m k = Some l \<and> x \<in> set l"
  by (cases "mget m k") (auto simp: mgets_def)

section \<open>Integers\<close>

text \<open>The signed comparison of two \<^verbatim>\<open>int64\<close> values; \<^verbatim>\<open>+\<close> on them wraps.\<close>

definition gt64 :: "int64 \<Rightarrow> int64 \<Rightarrow> bool" where
  "gt64 a b \<longleftrightarrow> sint b < sint a"

text \<open>
  \<^verbatim>\<open>rand.Intn(n)\<close> returns some number below n.  The model takes the source of
  randomness as an argument r; every number below n is the result for some r.
\<close>

definition rand_Intn :: "nat \<Rightarrow> nat \<Rightarrow> nat" where
  "rand_Intn r n = r mod n"

lemma rand_Intn_less [simp]: "0 < n \<Longrightarrow> rand_Intn r n < n"
  by (simp add: rand_Intn_def)

lemma rand_Intn_onto: "k < n \<Longrightarrow> rand_Intn k n = k"
  by (simp add: rand_Intn_def)

text \<open>\<^verbatim>\<open>xs[rand.Intn(len(xs))]\<close> for a slice that is not empty.\<close>

definition pick :: "nat \<Rightarrow> 'a list \<Rightarrow> 'a" where
  "pick r xs = xs ! rand_Intn r (length xs)"

lemma pick_in_set [simp]: "xs \<noteq> [] \<Longrightarrow> pick r xs \<in> set xs"
  by (simp add: pick_def)

section \<open>Running a list of effects\<close>

text \<open>A \<^verbatim>\<open>for\<close> loop over a slice whose body changes the state.\<close>

fun forEach :: "('a \<Rightarrow> 's \<Rightarrow> 's) \<Rightarrow> 'a list \<Rightarrow> 's \<Rightarrow> 's" where
  "forEach f [] s = s"
| "forEach f (x # xs) s = forEach f xs (f x s)"

lemma forEach_append: "forEach f (xs @ ys) s = forEach f ys (forEach f xs s)"
  by (induction xs arbitrary: s) auto

lemma forEach_invariant:
  assumes "\<And>x s. x \<in> set xs \<Longrightarrow> P s \<Longrightarrow> P (f x s)" and "P s"
  shows "P (forEach f xs s)"
  using assms by (induction xs arbitrary: s) auto

lemma forEach_frame:
  assumes "\<And>x s. x \<in> set xs \<Longrightarrow> g (f x s) = g s"
  shows "g (forEach f xs s) = g s"
  using assms by (induction xs arbitrary: s) auto

section \<open>Lists\<close>

lemma distinct_filter_length: "length (filter P xs) \<le> length xs"
  by simp

lemma nth_mod_in_set: "xs \<noteq> [] \<Longrightarrow> xs ! (i mod length xs) \<in> set xs"
  by simp

lemma filter_neq_notin: "x \<notin> set (filter (\<lambda>y. y \<noteq> x) xs)"
  by simp

definition drop_nth :: "nat \<Rightarrow> 'a list \<Rightarrow> 'a list" where
  "drop_nth i xs = take i xs @ drop (Suc i) xs"

lemma set_drop_nth: "x \<in> set (drop_nth i xs) \<Longrightarrow> x \<in> set xs"
  by (auto simp: drop_nth_def dest: in_set_takeD in_set_dropD)

section \<open>Transition systems\<close>

text \<open>
  The shape of every safety argument below: an initial condition, a step
  relation and an invariant that the steps keep.
\<close>

inductive reaches :: "('s \<Rightarrow> bool) \<Rightarrow> ('s \<Rightarrow> 's \<Rightarrow> bool) \<Rightarrow> 's \<Rightarrow> bool"
  for start :: "'s \<Rightarrow> bool" and step :: "'s \<Rightarrow> 's \<Rightarrow> bool" where
  reaches_start: "start s \<Longrightarrow> reaches start step s"
| reaches_step: "reaches start step s \<Longrightarrow> step s t \<Longrightarrow> reaches start step t"

locale inductive_invariant =
  fixes start :: "'s \<Rightarrow> bool" and step :: "'s \<Rightarrow> 's \<Rightarrow> bool" and inv :: "'s \<Rightarrow> bool"
  assumes inv_start: "start s \<Longrightarrow> inv s"
    and inv_step: "inv s \<Longrightarrow> step s t \<Longrightarrow> inv t"
begin

lemma reachable_inv: "reaches start step s \<Longrightarrow> inv s"
  by (induction rule: reaches.induct) (auto intro: inv_start inv_step)

end

end
