(* ===== verification/GoLib.thy ===== *)
theory GoLib
  imports Prelude
begin

text \<open>
  The functions of the Go standard library that the modelled code computes with:
  \<^verbatim>\<open>strconv.FormatInt\<close>, \<^verbatim>\<open>encoding/hex\<close>, \<^verbatim>\<open>encoding/binary\<close> in little-endian order,
  \<^verbatim>\<open>crypto/md5\<close>, \<^verbatim>\<open>crypto/hmac\<close> over MD5, and \<^verbatim>\<open>hash/crc32\<close> with the IEEE polynomial.
  They are executable, so that signatures and hash codes can be computed on concrete
  inputs.
\<close>

unbundle bit_operations_syntax

section \<open>Numbers as text\<close>

definition digit :: "nat \<Rightarrow> char" where
  "digit n = char_of (48 + n)"

fun itoa :: "nat \<Rightarrow> string" where
  "itoa n = (if n < 10 then [digit n] else itoa (n div 10) @ [digit (n mod 10)])"

declare itoa.simps [simp del]

definition FormatInt :: "int64 \<Rightarrow> string" where
  "FormatInt x = (if sint x < 0 then CHR ''-'' # itoa (nat (- sint x)) else itoa (nat (sint x)))"

definition FormatUint :: "'a::len word \<Rightarrow> string" where
  "FormatUint x = itoa (unat x)"

lemma itoa_not_Nil: "itoa n \<noteq> []"
  by (subst itoa.simps) simp

definition hexdigit :: "nat \<Rightarrow> char" where
  "hexdigit n = (if n < 10 then char_of (48 + n) else char_of (87 + n))"

definition hex_EncodeToString :: "bytes \<Rightarrow> string" where
  "hex_EncodeToString bs =
     concat (map (\<lambda>c. let n = of_char c :: nat in [hexdigit (n div 16), hexdigit (n mod 16)]) bs)"

lemma length_hex_EncodeToString: "length (hex_EncodeToString bs) = 2 * length bs"
  by (induction bs) (simp_all add: hex_EncodeToString_def Let_def)

section \<open>Little-endian integers\<close>

fun le_bytes :: "nat \<Rightarrow> nat \<Rightarrow> bytes" where
  "le_bytes 0 n = []"
| "le_bytes (Suc k) n = char_of (n mod 256) # le_bytes k (n div 256)"

fun le_value :: "bytes \<Rightarrow> nat" where
  "le_value [] = 0"
| "le_value (c # cs) = of_char c + 256 * le_value cs"

lemma length_le_bytes [simp]: "length (le_bytes k n) = k"
  by (induction k arbitrary: n) auto

lemma le_value_le_bytes: "n < 256 ^ k \<Longrightarrow> le_value (le_bytes k n) = n"
proof (induction k arbitrary: n)
  case 0
  then show ?case by simp
next
  case (Suc k)
  then have "n div 256 < 256 ^ k" by (simp add: div_less_iff_less_mult mult.commute)
  then have "le_value (le_bytes k (n div 256)) = n div 256" by (rule Suc.IH)
  then show ?case by simp
qed

section \<open>MD5 and HMAC\<close>

definition md5_shift :: "nat list" where
  "md5_shift = [
   7, 12, 17, 22, 7, 12, 17, 22, 7, 12, 17, 22, 7, 12, 17, 22,
   5, 9, 14, 20, 5, 9, 14, 20, 5, 9, 14, 20, 5, 9, 14, 20,
   4, 11, 16, 23, 4, 11, 16, 23, 4, 11, 16, 23, 4, 11, 16, 23,
   6, 10, 15, 21, 6, 10, 15, 21, 6, 10, 15, 21, 6, 10, 15, 21]"

definition md5_sine :: "32 word list" where
  "md5_sine = [
   3614090360, 3905402710, 606105819, 3250441966, 4118548399, 1200080426,
   2821735955, 4249261313, 1770035416, 2336552879, 4294925233, 2304563134,
   1804603682, 4254626195, 2792965006, 1236535329, 4129170786, 3225465664,
   643717713, 3921069994, 3593408605, 38016083, 3634488961, 3889429448,
   568446438, 3275163606, 4107603335, 1163531501, 2850285829, 4243563512,
   1735328473, 2368359562, 4294588738, 2272392833, 1839030562, 4259657740,
   2763975236, 1272893353, 4139469664, 3200236656, 681279174, 3936430074,
   3572445317, 76029189, 3654602809, 3873151461, 530742520, 3299628645,
   4096336452, 1126891415, 2878612391, 4237533241, 1700485571, 2399980690,
   4293915773, 2240044497, 1873313359, 4264355552, 2734768916, 1309151649,
   4149444226, 3174756917, 718787259, 3951481745]"

fun split_every :: "nat \<Rightarrow> nat \<Rightarrow> 'a list \<Rightarrow> 'a list list" where
  "split_every 0 n xs = []"
| "split_every (Suc k) n xs = (if xs = [] then [] else take n xs # split_every k n (drop n xs))"

definition md5_pad :: "bytes \<Rightarrow> bytes" where
  "md5_pad m =
     m @ [char_of (128::nat)] @ replicate ((119 - length m mod 64) mod 64) (char_of (0::nat))
       @ le_bytes 8 (8 * length m mod 2 ^ 64)"

definition md5_round ::
  "32 word list \<Rightarrow> 32 word \<times> 32 word \<times> 32 word \<times> 32 word \<Rightarrow> nat
    \<Rightarrow> 32 word \<times> 32 word \<times> 32 word \<times> 32 word" where
  "md5_round M s i =
     (case s of (a, b, c, d) \<Rightarrow>
       let (f, g) =
         (if i < 16 then ((b AND c) OR (NOT b AND d), i)
          else if i < 32 then ((d AND b) OR (NOT d AND c), (5 * i + 1) mod 16)
          else if i < 48 then (b XOR c XOR d, (3 * i + 5) mod 16)
          else (c XOR (b OR NOT d), (7 * i) mod 16))
       in (d, b + word_rotl (md5_shift ! i) (a + f + md5_sine ! i + M ! g), b, c))"

definition md5_block ::
  "32 word \<times> 32 word \<times> 32 word \<times> 32 word \<Rightarrow> bytes
    \<Rightarrow> 32 word \<times> 32 word \<times> 32 word \<times> 32 word" where
  "md5_block s blk =
     (let M = map (\<lambda>w. word_of_nat (le_value w)) (split_every 16 4 blk);
          (a', b', c', d') = foldl (md5_round M) s [0..<64]
      in case s of (a, b, c, d) \<Rightarrow> (a + a', b + b', c + c', d + d'))"

definition md5 :: "bytes \<Rightarrow> bytes" where
  "md5 m =
     (let p = md5_pad m in
      case foldl md5_block (1732584193, 4023233417, 2562383102, 271733878)
             (split_every (length p) 64 p)
      of (a, b, c, d) \<Rightarrow> concat (map (\<lambda>w. le_bytes 4 (unat w)) [a, b, c, d]))"

definition xor_pad :: "8 word \<Rightarrow> bytes \<Rightarrow> bytes" where
  "xor_pad p = map (\<lambda>c. char_of (unat (word_of_nat (of_char c) XOR p)))"

definition hmac_md5 :: "bytes \<Rightarrow> bytes \<Rightarrow> bytes" where
  "hmac_md5 key m =
     (let k = (if 64 < length key then md5 key else key);
          k' = k @ replicate (64 - length k) (char_of (0::nat))
      in md5 (xor_pad 92 k' @ md5 (xor_pad 54 k' @ m)))"

lemma length_md5: "length (md5 m) = 16"
  by (simp add: md5_def Let_def split: prod.splits)

lemma length_hmac_md5: "length (hmac_md5 k m) = 16"
  by (simp add: hmac_md5_def Let_def length_md5)

section \<open>CRC-32\<close>

fun crc32_shift :: "nat \<Rightarrow> 32 word \<Rightarrow> 32 word" where
  "crc32_shift 0 c = c"
| "crc32_shift (Suc k) c =
     crc32_shift k (if bit c 0 then drop_bit 1 c XOR 3988292384 else drop_bit 1 c)"

definition crc32_ChecksumIEEE :: "bytes \<Rightarrow> 32 word" where
  "crc32_ChecksumIEEE bs =
     NOT (foldl (\<lambda>c b. crc32_shift 8 (c XOR word_of_nat (of_char b))) (NOT 0) bs)"

end
