(* ===== verification/Proto.thy ===== *)
theory Proto
  imports Prelude
begin

text \<open>
  The messages of \<^verbatim>\<open>protocol/node/node.pb.go\<close> and \<^verbatim>\<open>protocol/agent/agent.pb.go\<close>.

  Protobuf enumerations are open: a field holds any 32-bit number, and only some
  numbers have a name.  They are numbers here too, with the declared ones named.
  A field that points to a message may be nil (\<^verbatim>\<open>NodeInfo\<close> of a hello), hence an
  option; the elements of a repeated field are never nil after decoding.

  The protobuf runtime is not part of the repository.  It is the record
  \<open>proto_lib\<close>: what \<^verbatim>\<open>proto.Marshal\<close>, \<^verbatim>\<open>proto.Unmarshal\<close> and \<^verbatim>\<open>proto.EnumName\<close> compute.
\<close>

section \<open>Enumerations\<close>

type_synonym ResultCode = int
type_synonym EntryType = int
type_synonym RequestMode = int

abbreviation (input) ResultCode_SUCCESS :: ResultCode where "ResultCode_SUCCESS \<equiv> 0"
abbreviation (input) ResultCode_ERROR :: ResultCode where "ResultCode_ERROR \<equiv> 1"
abbreviation (input) ResultCode_SIGN_VALIDATE_FAIL :: ResultCode where "ResultCode_SIGN_VALIDATE_FAIL \<equiv> 401"
abbreviation (input) ResultCode_SIGN_TIMEOUT :: ResultCode where "ResultCode_SIGN_TIMEOUT \<equiv> 402"
abbreviation (input) ResultCode_ENTRY_NOT_FOUND :: ResultCode where "ResultCode_ENTRY_NOT_FOUND \<equiv> 403"
abbreviation (input) ResultCode_ENTRY_INVALIDATE :: ResultCode where "ResultCode_ENTRY_INVALIDATE \<equiv> 404"
abbreviation (input) ResultCode_CALL_YOUR_SELF :: ResultCode where "ResultCode_CALL_YOUR_SELF \<equiv> 405"
abbreviation (input) ResultCode_CALL_STACK_ERROR :: ResultCode where "ResultCode_CALL_STACK_ERROR \<equiv> 406"
abbreviation (input) ResultCode_NODE_NOT_EXIST :: ResultCode where "ResultCode_NODE_NOT_EXIST \<equiv> 407"
abbreviation (input) ResultCode_STACK_EMPTY :: ResultCode where "ResultCode_STACK_EMPTY \<equiv> 408"

definition ResultCode_name :: "(int, string) gomap" where
  "ResultCode_name =
     [(0, ''SUCCESS''), (1, ''ERROR''), (401, ''SIGN_VALIDATE_FAIL''), (402, ''SIGN_TIMEOUT''),
      (403, ''ENTRY_NOT_FOUND''), (404, ''ENTRY_INVALIDATE''), (405, ''CALL_YOUR_SELF''),
      (406, ''CALL_STACK_ERROR''), (407, ''NODE_NOT_EXIST''), (408, ''STACK_EMPTY'')]"

abbreviation (input) EntryType_INVALIDATE :: EntryType where "EntryType_INVALIDATE \<equiv> 0"
abbreviation (input) EntryType_HTTP :: EntryType where "EntryType_HTTP \<equiv> 1"
abbreviation (input) EntryType_RPC :: EntryType where "EntryType_RPC \<equiv> 2"

definition EntryType_name :: "(int, string) gomap" where
  "EntryType_name = [(0, ''INVALIDATE''), (1, ''HTTP''), (2, ''RPC'')]"

abbreviation (input) RequestMode_DEFAULT :: RequestMode where "RequestMode_DEFAULT \<equiv> 0"
abbreviation (input) RequestMode_LOCAL_FORCE :: RequestMode where "RequestMode_LOCAL_FORCE \<equiv> 2"
abbreviation (input) RequestMode_LOCAL_BETTER :: RequestMode where "RequestMode_LOCAL_BETTER \<equiv> 3"

definition agent_ResultCode_name :: "(int, string) gomap" where
  "agent_ResultCode_name =
     [(0, ''SUCCESS''), (1, ''ERROR''), (401, ''SIGN_VALIDATE_FAIL''), (402, ''SIGN_TIMEOUT''),
      (403, ''ENTRY_NOT_FOUND'')]"

definition agent_EntryType_name :: "(int, string) gomap" where
  "agent_EntryType_name = [(0, ''INVALIDATE''), (1, ''HTTP''), (2, ''RPC'')]"

section \<open>Messages between nodes\<close>

record NodeInfo =
  NodeInfo_Name :: string
  NodeInfo_IP :: string
  NodeInfo_Port :: uint32
  NodeInfo_InstanceID :: uint64
  NodeInfo_AgentPort :: uint32

record SayHelloReq =
  SayHelloReq_NodeInfo :: "NodeInfo option"
  SayHelloReq_Sign :: string
  SayHelloReq_TimeStamp :: int64
  SayHelloReq_DataVersion :: uint64

record SayHelloRsp =
  SayHelloRsp_Result :: ResultCode
  SayHelloRsp_Sign :: string
  SayHelloRsp_TimeStamp :: int64
  SayHelloRsp_NodeInfo :: "NodeInfo option"
  SayHelloRsp_DataVersion :: uint64

record EntryInfo =
  EntryInfo_URI :: string
  EntryInfo_EntryType :: EntryType
  EntryInfo_IsNew :: bool

record NewEntryNotify =
  NewEntryNotify_EntryInfo :: "EntryInfo list"
  NewEntryNotify_DataVersion :: uint64

datatype GetEntryReq = GetEntryReq

record GetEntryResp =
  GetEntryResp_EntryInfo :: "EntryInfo list"
  GetEntryResp_DataVersion :: uint64

datatype SayGoodbyeNotify = SayGoodbyeNotify

record KeepAliveNotify =
  KeepAliveNotify_DataVersion :: uint64
  KeepAliveNotify_Neighbours :: "NodeInfo list"

record RpcCallReq =
  RpcCallReq_Data :: bytes
  RpcCallReq_URI :: string
  RpcCallReq_Caller :: "string list"
  RpcCallReq_RequestMode :: RequestMode
  RpcCallReq_Key :: string
  RpcCallReq_EntryType :: EntryType

record RpcCallResp =
  RpcCallResp_Result :: ResultCode
  RpcCallResp_Data :: bytes
  RpcCallResp_URI :: string
  RpcCallResp_Caller :: "string list"
  RpcCallResp_EntryType :: EntryType

section \<open>Messages between a client and its agent\<close>

record agent_EntryInfo =
  agent_EntryInfo_URI :: string
  agent_EntryInfo_EntryType :: EntryType

record AgentRegisterReq =
  AgentRegisterReq_InstanceID :: string
  AgentRegisterReq_AryEntry :: "agent_EntryInfo list"
  AgentRegisterReq_Sign :: string
  AgentRegisterReq_TimeStamp :: int64

record AgentRegisterRsp =
  AgentRegisterRsp_Result :: ResultCode
  AgentRegisterRsp_Sign :: string
  AgentRegisterRsp_TimeStamp :: int64

record AgentUnRegisterReq =
  AgentUnRegisterReq_InstanceID :: string
  AgentUnRegisterReq_AryEntry :: "agent_EntryInfo list"
  AgentUnRegisterReq_Sign :: string
  AgentUnRegisterReq_TimeStamp :: int64

record agent_AgentInfo =
  agent_AgentInfo_Name :: string
  agent_AgentInfo_IP :: string
  agent_AgentInfo_Port :: uint32

record AgentKeepAliveNotify =
  AgentKeepAliveNotify_AryEntry :: "agent_EntryInfo list"

record AgentKeepAliveRsp =
  AgentKeepAliveRsp_AryAgent :: "agent_AgentInfo list"

record AgentEntryCheckReq =
  AgentEntryCheckReq_URI :: string
  AgentEntryCheckReq_EntryType :: EntryType

record AgentEntryCheckRsp =
  AgentEntryCheckRsp_Result :: ResultCode

section \<open>The protobuf runtime\<close>

datatype ProtoMsg =
    MSayHelloReq SayHelloReq
  | MSayHelloRsp SayHelloRsp
  | MNewEntryNotify NewEntryNotify
  | MGetEntryReq GetEntryReq
  | MGetEntryResp GetEntryResp
  | MSayGoodbyeNotify SayGoodbyeNotify
  | MKeepAliveNotify KeepAliveNotify
  | MRpcCallReq RpcCallReq
  | MRpcCallResp RpcCallResp
  | MAgentRegisterReq AgentRegisterReq
  | MAgentRegisterRsp AgentRegisterRsp
  | MAgentUnRegisterReq AgentUnRegisterReq
  | MAgentKeepAliveNotify AgentKeepAliveNotify
  | MAgentKeepAliveRsp AgentKeepAliveRsp
  | MAgentEntryCheckReq AgentEntryCheckReq
  | MAgentEntryCheckRsp AgentEntryCheckRsp

text \<open>
  \<open>Marshal m\<close> is the byte slice \<^verbatim>\<open>proto.Marshal\<close> returns for m (the callers drop the
  error; the slice is nil then).  \<open>Unmarshal_T bs\<close> is \<^verbatim>\<open>None\<close> when \<^verbatim>\<open>proto.Unmarshal\<close>
  of bs into a T reports an error, and the decoded message otherwise.
\<close>

record proto_lib =
  EnumName :: "(int, string) gomap \<Rightarrow> int \<Rightarrow> string"
  Marshal :: "ProtoMsg \<Rightarrow> bytes"
  Unmarshal_SayHelloReq :: "bytes \<Rightarrow> SayHelloReq option"
  Unmarshal_SayHelloRsp :: "bytes \<Rightarrow> SayHelloRsp option"
  Unmarshal_NewEntryNotify :: "bytes \<Rightarrow> NewEntryNotify option"
  Unmarshal_GetEntryReq :: "bytes \<Rightarrow> GetEntryReq option"
  Unmarshal_GetEntryResp :: "bytes \<Rightarrow> GetEntryResp option"
  Unmarshal_SayGoodbyeNotify :: "bytes \<Rightarrow> SayGoodbyeNotify option"
  Unmarshal_KeepAliveNotify :: "bytes \<Rightarrow> KeepAliveNotify option"
  Unmarshal_RpcCallReq :: "bytes \<Rightarrow> RpcCallReq option"
  Unmarshal_RpcCallResp :: "bytes \<Rightarrow> RpcCallResp option"
  Unmarshal_AgentRegisterReq :: "bytes \<Rightarrow> AgentRegisterReq option"
  Unmarshal_AgentRegisterRsp :: "bytes \<Rightarrow> AgentRegisterRsp option"
  Unmarshal_AgentUnRegisterReq :: "bytes \<Rightarrow> AgentUnRegisterReq option"
  Unmarshal_AgentKeepAliveNotify :: "bytes \<Rightarrow> AgentKeepAliveNotify option"
  Unmarshal_AgentKeepAliveRsp :: "bytes \<Rightarrow> AgentKeepAliveRsp option"
  Unmarshal_AgentEntryCheckReq :: "bytes \<Rightarrow> AgentEntryCheckReq option"
  Unmarshal_AgentEntryCheckRsp :: "bytes \<Rightarrow> AgentEntryCheckRsp option"

definition ResultCode_String :: "proto_lib \<Rightarrow> ResultCode \<Rightarrow> string" where
  "ResultCode_String pb x = EnumName pb ResultCode_name x"

definition EntryType_String :: "proto_lib \<Rightarrow> EntryType \<Rightarrow> string" where
  "EntryType_String pb x = EnumName pb EntryType_name x"

definition agent_ResultCode_String :: "proto_lib \<Rightarrow> ResultCode \<Rightarrow> string" where
  "agent_ResultCode_String pb x = EnumName pb agent_ResultCode_name x"

definition agent_EntryType_String :: "proto_lib \<Rightarrow> EntryType \<Rightarrow> string" where
  "agent_EntryType_String pb x = EnumName pb agent_EntryType_name x"

text \<open>
  What the documentation of \<^verbatim>\<open>proto.EnumName\<close> says: the name of a declared number.
\<close>

definition EnumName_declared :: "proto_lib \<Rightarrow> bool" where
  "EnumName_declared pb \<longleftrightarrow> (\<forall>m k s. mget m k = Some s \<longrightarrow> EnumName pb m k = s)"

text \<open>A runtime to compute with in the examples: unknown numbers have no name.\<close>

definition lib_stub :: proto_lib where
  "lib_stub = \<lparr>
     EnumName = (\<lambda>m k. case mget m k of Some s \<Rightarrow> s | None \<Rightarrow> []),
     Marshal = (\<lambda>_. []),
     Unmarshal_SayHelloReq = (\<lambda>_. None), Unmarshal_SayHelloRsp = (\<lambda>_. None),
     Unmarshal_NewEntryNotify = (\<lambda>_. None), Unmarshal_GetEntryReq = (\<lambda>_. None),
     Unmarshal_GetEntryResp = (\<lambda>_. None), Unmarshal_SayGoodbyeNotify = (\<lambda>_. None),
     Unmarshal_KeepAliveNotify = (\<lambda>_. None), Unmarshal_RpcCallReq = (\<lambda>_. None),
     Unmarshal_RpcCallResp = (\<lambda>_. None), Unmarshal_AgentRegisterReq = (\<lambda>_. None),
     Unmarshal_AgentRegisterRsp = (\<lambda>_. None), Unmarshal_AgentUnRegisterReq = (\<lambda>_. None),
     Unmarshal_AgentKeepAliveNotify = (\<lambda>_. None), Unmarshal_AgentKeepAliveRsp = (\<lambda>_. None),
     Unmarshal_AgentEntryCheckReq = (\<lambda>_. None), Unmarshal_AgentEntryCheckRsp = (\<lambda>_. None)\<rparr>"

lemma EnumName_declared_stub [simp]: "EnumName_declared lib_stub"
  by (simp add: EnumName_declared_def lib_stub_def)

end
