(* ===== verification/Wire.thy ===== *)
theory Wire
  imports GoLib Proto
begin

text \<open>
  The packet format of \<^verbatim>\<open>protocol/common.go\<close>: a packet is a 32-bit size, a URI, a type
  byte, a request id and a body; the two strings carry a 16-bit length.
  A writer into a \<^verbatim>\<open>bytes.Buffer\<close> never fails, so the writing functions return the
  extended buffer and \<^term>\<open>True\<close>.  A reader returns the value and what is left, or
  \<^term>\<open>None\<close> for an error.

  The lemmas show when what was written is read back, what happens to a string whose
  length does not fit 16 bits, and what a reader does with a packet that is cut short.
\<close>

section \<open>Prefix codecs\<close>

text \<open>
  A self-delimiting encoding: the decoder finds the end of an encoded value in a longer
  stream.  Such an encoding is injective, and a concatenation of encoded values decodes
  to the values in order.
\<close>

fun dec_all :: "(bytes \<Rightarrow> ('a \<times> bytes) option) \<Rightarrow> nat \<Rightarrow> bytes \<Rightarrow> 'a list" where
  "dec_all dec 0 bs = []"
| "dec_all dec (Suc k) bs =
     (case dec bs of None \<Rightarrow> [] | Some (x, r) \<Rightarrow> x # dec_all dec k r)"

locale prefix_codec =
  fixes enc :: "'a \<Rightarrow> bytes" and dec :: "bytes \<Rightarrow> ('a \<times> bytes) option" and fits :: "'a \<Rightarrow> bool"
  assumes dec_enc: "fits x \<Longrightarrow> dec (enc x @ r) = Some (x, r)"
begin

lemma enc_inj: "fits x \<Longrightarrow> fits y \<Longrightarrow> enc x @ r = enc y @ s \<Longrightarrow> x = y \<and> r = s"
  by (metis dec_enc option.inject prod.inject)

lemma dec_all_concat:
  "list_all fits xs \<Longrightarrow> dec_all dec (length xs) (concat (map enc xs) @ r) = xs"
  by (induction xs) (simp_all add: dec_enc)

end

section \<open>Strings\<close>

definition binary_Read :: "nat \<Rightarrow> bytes \<Rightarrow> (nat \<times> bytes) option" where
  "binary_Read k bs = (if length bs < k then None else Some (le_value (take k bs), drop k bs))"

definition ReadString :: "bytes \<Rightarrow> (string \<times> bytes) option" where
  "ReadString ptrIOReader =
     (case binary_Read 2 ptrIOReader of
        None \<Rightarrow> None
      | Some (nLength, rest) \<Rightarrow> Some (take nLength rest, drop nLength rest))"

definition WriteString :: "bytes \<Rightarrow> string \<Rightarrow> bytes \<times> bool" where
  "WriteString ptrIOWriter szStr =
     (let nLength = word_of_nat (length szStr) :: uint16
      in (ptrIOWriter @ le_bytes 2 (unat nLength) @ szStr, True))"

lemma fst_WriteString:
  "fst (WriteString w s) = w @ le_bytes 2 (length s mod 65536) @ s"
  by (simp add: WriteString_def unat_of_nat)

lemma ReadString_written:
  "ReadString (fst (WriteString [] s) @ r)
     = Some (take (length s mod 65536) (s @ r), drop (length s mod 65536) (s @ r))"
  by (simp add: fst_WriteString ReadString_def binary_Read_def le_value_le_bytes)

definition string_fits :: "string \<Rightarrow> bool" where
  "string_fits s \<longleftrightarrow> length s < 65536"

lemma ReadString_exact: "string_fits s \<Longrightarrow> ReadString (fst (WriteString [] s) @ r) = Some (s, r)"
  by (simp add: ReadString_written string_fits_def)

interpretation str: prefix_codec "\<lambda>s. fst (WriteString [] s)" ReadString string_fits
  by unfold_locales (rule ReadString_exact)

lemma ReadString_lost:
  assumes "\<not> string_fits s"
  shows "ReadString (fst (WriteString [] s) @ r) \<noteq> Some (s, r)"
proof
  assume "ReadString (fst (WriteString [] s) @ r) = Some (s, r)"
  then have "length (take (length s mod 65536) (s @ r)) = length s"
    by (simp add: ReadString_written)
  moreover have "length s mod 65536 < length s"
    using assms mod_less_divisor [of 65536 "length s"] by (simp add: string_fits_def)
  ultimately show False by simp
qed

section \<open>Packets\<close>

abbreviation (input) MSG_TYPE_REQUEST :: nat where "MSG_TYPE_REQUEST \<equiv> 1"
abbreviation (input) MSG_TYPE_RESPONE :: nat where "MSG_TYPE_RESPONE \<equiv> 2"
abbreviation (input) MSG_TYPE_CAST :: nat where "MSG_TYPE_CAST \<equiv> 3"
abbreviation (input) PROTO_SIZE_BASE :: nat where "PROTO_SIZE_BASE \<equiv> 5"

definition NewProtocol ::
  "proto_lib \<Rightarrow> string \<Rightarrow> nat \<Rightarrow> string \<Rightarrow> ProtoMsg \<Rightarrow> bytes \<times> bool" where
  "NewProtocol pb szUri nMsgType szRequestID objMsg =
     (let byteMsg = Marshal pb objMsg;
          nSize = PROTO_SIZE_BASE + length szUri + length szRequestID + length byteMsg;
          byteBuffer = le_bytes 4 (unat (word_of_nat nSize :: uint32));
          (byteBuffer1, ok1) = WriteString byteBuffer szUri
      in if \<not> ok1 then ([], False)
         else
           let byteBuffer2 = byteBuffer1 @ le_bytes 1 nMsgType;
               (byteBuffer3, ok3) = WriteString byteBuffer2 szRequestID
           in if \<not> ok3 then ([], False) else (byteBuffer3 @ byteMsg, True))"

text \<open>
  The fields of a packet without its size, as \<^verbatim>\<open>Router.Process\<close> and the client's
  \<^verbatim>\<open>OnRead\<close> take them off the buffer; the error says which field could not be read.
\<close>

datatype read_error = read_uri_fail | read_binary_fail | read_request_id_fail

definition read_packet :: "bytes \<Rightarrow> read_error + (string \<times> nat \<times> string \<times> bytes)" where
  "read_packet byteData =
     (case ReadString byteData of
        None \<Rightarrow> Inl read_uri_fail
      | Some (szUri, r1) \<Rightarrow>
          (case binary_Read 1 r1 of
             None \<Rightarrow> Inl read_binary_fail
           | Some (nMsgType, r2) \<Rightarrow>
               (case ReadString r2 of
                  None \<Rightarrow> Inl read_request_id_fail
                | Some (szRequestID, r3) \<Rightarrow> Inr (szUri, nMsgType, szRequestID, r3))))"

definition payload :: "proto_lib \<Rightarrow> string \<Rightarrow> nat \<Rightarrow> string \<Rightarrow> ProtoMsg \<Rightarrow> bytes" where
  "payload pb u t q m =
     fst (WriteString [] u) @ le_bytes 1 t @ fst (WriteString [] q) @ Marshal pb m"

lemma snd_NewProtocol [simp]: "snd (NewProtocol pb u t q m) = True"
  by (simp add: NewProtocol_def WriteString_def Let_def)

lemma fst_NewProtocol:
  "fst (NewProtocol pb u t q m) =
     le_bytes 4 ((5 + length u + length q + length (Marshal pb m)) mod 4294967296) @ payload pb u t q m"
  by (simp add: NewProtocol_def payload_def WriteString_def Let_def unat_of_nat)

lemma length_payload: "length (payload pb u t q m) = 5 + length u + length q + length (Marshal pb m)"
  by (simp add: payload_def fst_WriteString)

lemma fst_NewProtocol_frame:
  "fst (NewProtocol pb u t q m) =
     le_bytes 4 (length (payload pb u t q m) mod 4294967296) @ payload pb u t q m"
  by (simp only: fst_NewProtocol length_payload)

lemma read_packet_payload:
  assumes "string_fits u" "string_fits q" "t < 256"
  shows "read_packet (payload pb u t q m) = Inr (u, t, q, Marshal pb m)"
proof -
  have "binary_Read 1 (le_bytes 1 t @ r) = Some (t, r)" for r
    using assms(3) by (simp add: binary_Read_def)
  then show ?thesis
    using assms(1,2) by (simp add: read_packet_def payload_def ReadString_exact)
qed

section \<open>Properties\<close>

text \<open>
  Packet round trip: the size field of a packet built by \<^verbatim>\<open>NewProtocol\<close> is the
  number of bytes that follow it, and reading those bytes gives back the URI, the
  message type, the request id and the marshalled message.
\<close>

lemma NewProtocol_roundtrip:
  assumes "string_fits u" "string_fits q" "t < 256"
    and "5 + length u + length q + length (Marshal pb m) < 2 ^ 32"
  shows "\<exists>pl. fst (NewProtocol pb u t q m) = le_bytes 4 (length pl) @ pl
           \<and> le_value (take 4 (fst (NewProtocol pb u t q m))) = length pl
           \<and> read_packet pl = Inr (u, t, q, Marshal pb m)"
proof (intro exI conjI)
  have small: "length (payload pb u t q m) < 4294967296"
    using assms(4) by (simp add: length_payload)
  show "fst (NewProtocol pb u t q m)
      = le_bytes 4 (length (payload pb u t q m)) @ payload pb u t q m"
    using small by (simp add: fst_NewProtocol_frame)
  then show "le_value (take 4 (fst (NewProtocol pb u t q m))) = length (payload pb u t q m)"
    using small by (simp add: le_value_le_bytes)
  show "read_packet (payload pb u t q m) = Inr (u, t, q, Marshal pb m)"
    using assms(1-3) by (rule read_packet_payload)
qed

lemma NewProtocol_roundtrip_example:
  "\<exists>pl. fst (NewProtocol lib_stub ''node.hello'' 1 ''n1_n2_1'' (MGetEntryReq GetEntryReq))
           = le_bytes 4 (length pl) @ pl
         \<and> le_value (take 4 (fst (NewProtocol lib_stub ''node.hello'' 1 ''n1_n2_1'' (MGetEntryReq GetEntryReq))))
           = length pl
         \<and> read_packet pl = Inr (''node.hello'', 1, ''n1_n2_1'', [])"
  using NewProtocol_roundtrip [of "''node.hello''" "''n1_n2_1''" 1 lib_stub "MGetEntryReq GetEntryReq"]
  by (simp add: string_fits_def lib_stub_def)

text \<open>
  The 16-bit length decides the round trip of a string: it is read back exactly
  when it is shorter than 65536 bytes; a longer one is cut to its length modulo 65536
  and the rest of it is left in the stream as if it were the next field.
\<close>

lemma string_roundtrip_iff:
  "(ReadString (fst (WriteString [] s) @ r) = Some (s, r) \<longleftrightarrow> length s < 65536)
   \<and> ReadString (fst (WriteString [] s) @ r)
       = Some (take (length s mod 65536) (s @ r), drop (length s mod 65536) (s @ r))"
  using ReadString_exact [of s r] ReadString_lost [of s r] ReadString_written [of s r]
  by (auto simp: string_fits_def)

text \<open>
  Reading a string fails only when the two bytes of its length are not there.  A
  length that promises more bytes than follow is not an error: what is there is returned.
\<close>

lemma ReadString_fails_iff:
  "(ReadString bs = None \<longleftrightarrow> length bs < 2)
   \<and> (\<forall>s r. ReadString bs = Some (s, r) \<longrightarrow>
        s @ r = drop 2 bs \<and> length s = min (le_value (take 2 bs)) (length bs - 2))"
  by (auto simp: ReadString_def binary_Read_def simp flip: drop_drop)

lemma ReadString_fails_iff_example:
  "ReadString [char_of (9::nat), char_of (0::nat), CHR ''a'', CHR ''b''] = Some (''ab'', [])
   \<and> ''ab'' @ [] = drop 2 [char_of (9::nat), char_of (0::nat), CHR ''a'', CHR ''b'']"
proof -
  have "ReadString [char_of (9::nat), char_of (0::nat), CHR ''a'', CHR ''b''] = Some (''ab'', [])"
    by (simp add: ReadString_def binary_Read_def)
  then show ?thesis
    using ReadString_fails_iff [of "[char_of (9::nat), char_of (0::nat), CHR ''a'', CHR ''b'']"] by blast
qed

end
