(* ===== verification/Network.thy ===== *)
theory Network
  imports Wire
begin

text \<open>
  \<^verbatim>\<open>network/common.go\<close>, \<^verbatim>\<open>network/client.go\<close>, \<^verbatim>\<open>network/server.go\<close> and
  \<^verbatim>\<open>network/request_context.go\<close>: connections, the table of calls that wait for a
  response, and the loop that cuts the incoming stream into packets.

  Connections, tables and waiting calls are shared by pointer in the code; here each
  kind has a store indexed by address.  The record \<open>net\<close> is the part of the process
  state this package owns; the states of the managers extend it, and the operations
  are written for every extension.  A task handed to the worker pool is appended to
  the list of pending tasks and runs later, in any order.
\<close>

section \<open>State\<close>

text \<open>What a handler stored in \<^verbatim>\<open>ServerConnection.Ctx\<close>: a node, a client, or a host name.\<close>

datatype ctxval = CtxNode nat | CtxClient nat | CtxHost string

record RpcContext =
  rc_szErrorMsg :: string
  rc_bCancel :: bool
  rc_bClosed :: bool
  rc_aryMsg :: "bytes list"

record ServerConnection =
  sc_szLocal :: string
  sc_szRemote :: string
  sc_bOpen :: bool
  sc_szWriteErr :: "string option"
  sc_nLastReceiveTime :: uint32
  sc_Ctx :: "ctxval option"
  sc_mRequestContext :: nat
  sc_arySent :: "bytes list"

datatype net_task = CleanRpc connref string | CleanRpcAndClose connref string

record net =
  n_conn :: "connref \<Rightarrow> ServerConnection"
  n_nextConn :: nat
  n_table :: "nat \<Rightarrow> (string, nat) gomap"
  n_nextTable :: nat
  n_rpc :: "nat \<Rightarrow> RpcContext"
  n_nextRpc :: nat
  n_task :: "net_task list"

definition set_conn :: "connref \<Rightarrow> ServerConnection \<Rightarrow> 'a net_scheme \<Rightarrow> 'a net_scheme" where
  "set_conn c v s = s\<lparr>n_conn := (n_conn s)(c := v)\<rparr>"

definition set_rpc :: "nat \<Rightarrow> RpcContext \<Rightarrow> 'a net_scheme \<Rightarrow> 'a net_scheme" where
  "set_rpc x v s = s\<lparr>n_rpc := (n_rpc s)(x := v)\<rparr>"

definition set_table :: "nat \<Rightarrow> (string, nat) gomap \<Rightarrow> 'a net_scheme \<Rightarrow> 'a net_scheme" where
  "set_table t v s = s\<lparr>n_table := (n_table s)(t := v)\<rparr>"

definition net_GoTask :: "net_task \<Rightarrow> 'a net_scheme \<Rightarrow> 'a net_scheme" where
  "net_GoTask k s = s\<lparr>n_task := n_task s @ [k]\<rparr>"

section \<open>Request contexts\<close>

record RequestContext =
  rq_szLocalAddress :: string
  rq_szRemoteAddress :: string
  rq_ptrServerConnection :: connref
  rq_szRequestID :: string

text \<open>A context carries a request context or, as \<^verbatim>\<open>context.TODO()\<close> does, none.\<close>

type_synonym ctx = "RequestContext option"

definition GetRequestContext :: "ctx \<Rightarrow> RequestContext option" where
  "GetRequestContext ctx = ctx"

definition newContext :: "connref \<Rightarrow> string \<Rightarrow> 'a net_scheme \<Rightarrow> RequestContext" where
  "newContext c szRequestID s =
     \<lparr>rq_szLocalAddress = sc_szLocal (n_conn s c), rq_szRemoteAddress = sc_szRemote (n_conn s c),
      rq_ptrServerConnection = c, rq_szRequestID = szRequestID\<rparr>"

definition GetServerConnection :: "ctx \<Rightarrow> connref option" where
  "GetServerConnection ctx =
     (case GetRequestContext ctx of
        Some ptrMsgContext \<Rightarrow> Some (rq_ptrServerConnection ptrMsgContext) | None \<Rightarrow> None)"

definition SetRequestID :: "ctx \<Rightarrow> string \<Rightarrow> ctx" where
  "SetRequestID ctx szRequestID =
     (case GetRequestContext ctx of
        Some ptrMsgContext \<Rightarrow> Some (ptrMsgContext\<lparr>rq_szRequestID := szRequestID\<rparr>) | None \<Rightarrow> None)"

definition GetRequestID :: "ctx \<Rightarrow> string" where
  "GetRequestID ctx =
     (case GetRequestContext ctx of
        Some ptrMsgContext \<Rightarrow> rq_szRequestID ptrMsgContext | None \<Rightarrow> '''')"

definition GetLocalAddress :: "ctx \<Rightarrow> string" where
  "GetLocalAddress ctx =
     (case GetRequestContext ctx of
        Some ptrMsgContext \<Rightarrow> rq_szLocalAddress ptrMsgContext | None \<Rightarrow> '''')"

definition GetRemoteAddress :: "ctx \<Rightarrow> string" where
  "GetRemoteAddress ctx =
     (case GetRequestContext ctx of
        Some ptrMsgContext \<Rightarrow> rq_szRemoteAddress ptrMsgContext | None \<Rightarrow> '''')"

section \<open>Waiting calls\<close>

definition setErrorMsg :: "nat \<Rightarrow> string \<Rightarrow> 'a net_scheme \<Rightarrow> 'a net_scheme" where
  "setErrorMsg x szErr s = set_rpc x ((n_rpc s x)\<lparr>rc_szErrorMsg := szErr\<rparr>) s"

definition ErrorMsg :: "nat \<Rightarrow> 'a net_scheme \<Rightarrow> string" where
  "ErrorMsg x s = rc_szErrorMsg (n_rpc s x)"

definition CancelFunc :: "nat \<Rightarrow> 'a net_scheme \<Rightarrow> 'a net_scheme" where
  "CancelFunc x s = set_rpc x ((n_rpc s x)\<lparr>rc_bCancel := True\<rparr>) s"

text \<open>\<^verbatim>\<open>close\<close> of a closed channel and a send on one panic.\<close>

definition chan_close :: "nat \<Rightarrow> 'a net_scheme \<Rightarrow> unit outcome \<times> 'a net_scheme" where
  "chan_close x s =
     (if rc_bClosed (n_rpc s x) then (Panics, s)
      else (Ret (), set_rpc x ((n_rpc s x)\<lparr>rc_bClosed := True\<rparr>) s))"

definition chan_send :: "nat \<Rightarrow> bytes \<Rightarrow> 'a net_scheme \<Rightarrow> unit outcome \<times> 'a net_scheme" where
  "chan_send x b s =
     (if rc_bClosed (n_rpc s x) then (Panics, s)
      else (Ret (), set_rpc x ((n_rpc s x)\<lparr>rc_aryMsg := rc_aryMsg (n_rpc s x) @ [b]\<rparr>) s))"

definition conn_table :: "connref \<Rightarrow> 'a net_scheme \<Rightarrow> (string, nat) gomap" where
  "conn_table c s = n_table s (sc_mRequestContext (n_conn s c))"

definition set_conn_table :: "connref \<Rightarrow> (string, nat) gomap \<Rightarrow> 'a net_scheme \<Rightarrow> 'a net_scheme" where
  "set_conn_table c m s = set_table (sc_mRequestContext (n_conn s c)) m s"

fun clean_contexts ::
  "connref \<Rightarrow> string \<Rightarrow> (string \<times> nat) list \<Rightarrow> 'a net_scheme \<Rightarrow> unit outcome \<times> 'a net_scheme" where
  "clean_contexts c szReason [] s = (Ret (), s)"
| "clean_contexts c szReason ((szRequestID, x) # rest) s =
     (case chan_close x (CancelFunc x (setErrorMsg x szReason s)) of
        (Panics, s') \<Rightarrow> (Panics, s')
      | (Ret _, s') \<Rightarrow>
          clean_contexts c szReason rest (set_conn_table c (mdel szRequestID (conn_table c s')) s'))"

definition cleanAllRpcContext ::
  "connref \<Rightarrow> string \<Rightarrow> 'a net_scheme \<Rightarrow> unit outcome \<times> 'a net_scheme" where
  "cleanAllRpcContext c szReason s = clean_contexts c szReason (conn_table c s) s"

definition GetRpcContext :: "connref \<Rightarrow> string \<Rightarrow> 'a net_scheme \<Rightarrow> nat option \<times> 'a net_scheme" where
  "GetRpcContext c szRequestID s =
     (mget (conn_table c s) szRequestID, set_conn_table c (mdel szRequestID (conn_table c s)) s)"

definition RemoveRpcContext ::
  "connref \<Rightarrow> string \<Rightarrow> 'a net_scheme \<Rightarrow> unit outcome \<times> 'a net_scheme" where
  "RemoveRpcContext c szRequestID s =
     (case mget (conn_table c s) szRequestID of
        None \<Rightarrow> (Ret (), s)
      | Some x \<Rightarrow>
          (case chan_close x s of
             (Panics, s') \<Rightarrow> (Panics, s')
           | (Ret _, s') \<Rightarrow> (Ret (), set_conn_table c (mdel szRequestID (conn_table c s')) s')))"

definition AddRpcContext :: "connref \<Rightarrow> string \<Rightarrow> 'a net_scheme \<Rightarrow> nat \<times> 'a net_scheme" where
  "AddRpcContext c szRequestID s =
     (let x = n_nextRpc s;
          objRpcContext =
            \<lparr>rc_szErrorMsg = '''', rc_bCancel = False, rc_bClosed = False, rc_aryMsg = []\<rparr>;
          s' = set_rpc x objRpcContext (s\<lparr>n_nextRpc := Suc x\<rparr>)
      in (x, set_conn_table c (mput szRequestID x (conn_table c s')) s'))"

section \<open>Connections\<close>

definition IsTimeout :: "connref \<Rightarrow> uint32 \<Rightarrow> uint32 \<Rightarrow> 'a net_scheme \<Rightarrow> bool" where
  "IsTimeout c nNow nTimeout s \<longleftrightarrow> nNow < sc_nLastReceiveTime (n_conn s c) + nTimeout"

text \<open>
  The transport refuses a write on a closed connection, and whenever
  \<open>sc_szWriteErr\<close> says that it fails.
\<close>

definition transport_error :: "connref \<Rightarrow> 'a net_scheme \<Rightarrow> string option" where
  "transport_error c s =
     (if sc_bOpen (n_conn s c) then sc_szWriteErr (n_conn s c)
      else Some ''use of closed network connection'')"

definition Write :: "connref \<Rightarrow> bytes \<Rightarrow> 'a net_scheme \<Rightarrow> bool \<times> 'a net_scheme" where
  "Write c data s =
     (case transport_error c s of
        Some anyErr \<Rightarrow> (False, net_GoTask (CleanRpcAndClose c (''write err:'' @ anyErr)) s)
      | None \<Rightarrow>
          (True, set_conn c ((n_conn s c)\<lparr>sc_arySent := sc_arySent (n_conn s c) @ [data]\<rparr>) s))"

definition objConnection_Close :: "connref \<Rightarrow> 'a net_scheme \<Rightarrow> bool \<times> 'a net_scheme" where
  "objConnection_Close c s =
     (sc_bOpen (n_conn s c), set_conn c ((n_conn s c)\<lparr>sc_bOpen := False\<rparr>) s)"

definition Close :: "connref \<Rightarrow> 'a net_scheme \<Rightarrow> 'a net_scheme" where
  "Close c s =
     snd (objConnection_Close c (net_GoTask (CleanRpc c ''user close connecion:'') s))"

definition run_net_task :: "net_task \<Rightarrow> 'a net_scheme \<Rightarrow> unit outcome \<times> 'a net_scheme" where
  "run_net_task k s =
     (case k of
        CleanRpc c szReason \<Rightarrow> cleanAllRpcContext c szReason s
      | CleanRpcAndClose c szReason \<Rightarrow>
          (case cleanAllRpcContext c szReason s of
             (Panics, s') \<Rightarrow> (Panics, s')
           | (Ret _, s') \<Rightarrow> (Ret (), snd (objConnection_Close c s'))))"

definition SetRequestContext :: "connref \<Rightarrow> nat \<Rightarrow> 'a net_scheme \<Rightarrow> 'a net_scheme" where
  "SetRequestContext c t s = set_conn c ((n_conn s c)\<lparr>sc_mRequestContext := t\<rparr>) s"

definition bind_ctx :: "connref \<Rightarrow> ctxval \<Rightarrow> 'a net_scheme \<Rightarrow> 'a net_scheme" where
  "bind_ctx c v s = set_conn c ((n_conn s c)\<lparr>sc_Ctx := Some v\<rparr>) s"

text \<open>
  A new connection at a fresh address with a new, empty table: what \<^verbatim>\<open>NewClient\<close>
  makes after a successful dial without initialisers, and what \<^verbatim>\<open>Server.Start\<close> makes
  for an accepted connection.  The dial itself belongs to the operating system.
\<close>

definition new_connection :: "string \<Rightarrow> string \<Rightarrow> 'a net_scheme \<Rightarrow> connref \<times> 'a net_scheme" where
  "new_connection szLocal szRemote s =
     (let c = n_nextConn s; t = n_nextTable s;
          v = \<lparr>sc_szLocal = szLocal, sc_szRemote = szRemote, sc_bOpen = True, sc_szWriteErr = None,
               sc_nLastReceiveTime = 0, sc_Ctx = None, sc_mRequestContext = t, sc_arySent = []\<rparr>
      in (c, set_conn c v (set_table t [] (s\<lparr>n_nextConn := Suc c, n_nextTable := Suc t\<rparr>))))"

text \<open>
  \<^verbatim>\<open>NewClient\<close> runs the given initialisers in order, nil ones skipped, and stops at the
  first that reports an error (\<^term>\<open>False\<close>).  With initialisers the code leaves the
  table to them; the fresh empty table allocated here is then unused.
\<close>

fun run_init ::
  "(connref \<Rightarrow> 'a net_scheme \<Rightarrow> bool \<times> 'a net_scheme) option list \<Rightarrow> connref \<Rightarrow> 'a net_scheme
     \<Rightarrow> connref option \<times> 'a net_scheme" where
  "run_init [] c s = (Some c, s)"
| "run_init (None # aryFn) c s = run_init aryFn c s"
| "run_init (Some ptrFn # aryFn) c s =
     (case ptrFn c s of (False, s') \<Rightarrow> (None, s') | (True, s') \<Rightarrow> run_init aryFn c s')"

definition NewClient ::
  "bool \<Rightarrow> string \<Rightarrow> string \<Rightarrow> uint16
     \<Rightarrow> (connref \<Rightarrow> 'a net_scheme \<Rightarrow> bool \<times> 'a net_scheme) option list
     \<Rightarrow> 'a net_scheme \<Rightarrow> connref option \<times> 'a net_scheme" where
  "NewClient dialed szLocal szIP nPort aryFn s =
     (if \<not> dialed then (None, s)
      else case new_connection szLocal (szIP @ '':'' @ FormatUint nPort) s of
             (c, s') \<Rightarrow> run_init aryFn c s')"

definition Server_accept :: "string \<Rightarrow> string \<Rightarrow> 'a net_scheme \<Rightarrow> connref \<times> 'a net_scheme" where
  "Server_accept szLocal szRemote s = new_connection szLocal szRemote s"

section \<open>The read loop\<close>

abbreviation (input) PACKET_LIMIT :: nat where "PACKET_LIMIT \<equiv> 1024 * 1024 * 8"

datatype read_end = EndEOF | EndHeadErr string | EndSize | EndBodyErr string

text \<open>
  The packets that a stream yields and how the loop ends.  The stream is the bytes that
  arrive, then the end of the connection: \<^term>\<open>None\<close> for an orderly end of file, or the
  text of a transport error.
\<close>

function read_frames :: "string option \<Rightarrow> bytes \<Rightarrow> bytes list \<times> read_end" where
  "read_frames fin bs =
     (if length bs < 4 then
        ([], case fin of Some e \<Rightarrow> EndHeadErr e
             | None \<Rightarrow> if bs = [] then EndEOF else EndHeadErr ''unexpected EOF'')
      else
        let nSize = le_value (take 4 bs); r = drop 4 bs in
        if PACKET_LIMIT < nSize then ([], EndSize)
        else if length r < nSize \<and> fin \<noteq> None then ([], EndBodyErr (the fin))
        else let (frames, e) = read_frames fin (drop nSize r) in (take nSize r # frames, e))"
  by pat_completeness auto
termination
  by (relation "measure (\<lambda>(fin, bs). length bs)") auto

declare read_frames.simps [simp del]

definition touch :: "uint32 \<Rightarrow> connref \<Rightarrow> 'a net_scheme \<Rightarrow> 'a net_scheme" where
  "touch nNow c s = set_conn c ((n_conn s c)\<lparr>sc_nLastReceiveTime := nNow\<rparr>) s"

definition readLoop_packet ::
  "(connref \<Rightarrow> bytes \<Rightarrow> ctx \<Rightarrow> 'a net_scheme \<Rightarrow> 'a net_scheme) \<Rightarrow> uint32 \<Rightarrow> connref \<Rightarrow> bytes
     \<Rightarrow> 'a net_scheme \<Rightarrow> 'a net_scheme" where
  "readLoop_packet fnOnRead nNow c ptrBuffer s =
     (let s' = touch nNow c s in fnOnRead c ptrBuffer (Some (newContext c '''' s')) s')"

definition readLoop_end ::
  "(connref \<Rightarrow> 'a net_scheme \<Rightarrow> 'a net_scheme) \<Rightarrow> uint32 \<Rightarrow> connref \<Rightarrow> read_end
     \<Rightarrow> 'a net_scheme \<Rightarrow> 'a net_scheme" where
  "readLoop_end fnOnClose nNow c e s =
     (let s' = (case e of
          EndEOF \<Rightarrow> s
        | EndHeadErr anyErr \<Rightarrow> net_GoTask (CleanRpc c (''read err:'' @ anyErr)) s
        | EndSize \<Rightarrow> net_GoTask (CleanRpc c ''unmarshal err: size error'') (touch nNow c s)
        | EndBodyErr anyErr \<Rightarrow> net_GoTask (CleanRpc c (''read err:'' @ anyErr)) (touch nNow c s))
      in Close c (fnOnClose c (Close c s')))"

definition readLoop ::
  "(connref \<Rightarrow> bytes \<Rightarrow> ctx \<Rightarrow> 'a net_scheme \<Rightarrow> 'a net_scheme)
     \<Rightarrow> (connref \<Rightarrow> 'a net_scheme \<Rightarrow> 'a net_scheme) \<Rightarrow> uint32 \<Rightarrow> string option \<Rightarrow> bytes \<Rightarrow> connref
     \<Rightarrow> 'a net_scheme \<Rightarrow> 'a net_scheme" where
  "readLoop fnOnRead fnOnClose nNow fin stream c s =
     (case read_frames fin stream of
        (frames, e) \<Rightarrow>
          readLoop_end fnOnClose nNow c e (forEach (readLoop_packet fnOnRead nNow c) frames s))"

section \<open>An empty process\<close>

definition conn_zero :: ServerConnection where
  "conn_zero = \<lparr>sc_szLocal = [], sc_szRemote = [], sc_bOpen = True, sc_szWriteErr = None,
     sc_nLastReceiveTime = 0, sc_Ctx = None, sc_mRequestContext = 0, sc_arySent = []\<rparr>"

definition rpc_zero :: RpcContext where
  "rpc_zero = \<lparr>rc_szErrorMsg = [], rc_bCancel = False, rc_bClosed = False, rc_aryMsg = []\<rparr>"

definition net_zero :: net where
  "net_zero = \<lparr>n_conn = (\<lambda>_. conn_zero), n_nextConn = 0, n_table = (\<lambda>_. []), n_nextTable = 0,
     n_rpc = (\<lambda>_. rpc_zero), n_nextRpc = 0, n_task = []\<rparr>"

end
