(* ===== verification/NetworkSafety.thy ===== *)
theory NetworkSafety
  imports Network
begin

text \<open>
  What the network layer guarantees: the packets of a stream come out whole and in
  order, and no interleaving of calls, responses, timeouts and failing connections
  closes a response channel twice or sends on a closed one.
\<close>

section \<open>Framing\<close>

definition frame :: "bytes \<Rightarrow> bytes" where
  "frame p = le_bytes 4 (length p) @ p"

definition frame_fits :: "bytes \<Rightarrow> bool" where
  "frame_fits p \<longleftrightarrow> length p \<le> PACKET_LIMIT"

definition read_frame :: "bytes \<Rightarrow> (bytes \<times> bytes) option" where
  "read_frame bs =
     (if length bs < 4 then None
      else let n = le_value (take 4 bs); r = drop 4 bs in
        if PACKET_LIMIT < n \<or> length r < n then None else Some (take n r, drop n r))"

interpretation framing: prefix_codec frame read_frame frame_fits
  by unfold_locales (simp add: frame_def frame_fits_def read_frame_def le_value_le_bytes)

lemma read_frames_Some:
  "read_frame bs = Some (p, r) \<Longrightarrow>
     read_frames fin bs = (case read_frames fin r of (ps, e) \<Rightarrow> (p # ps, e))"
  by (subst read_frames.simps) (auto simp: read_frame_def Let_def split: if_splits)

lemma read_frames_Cons:
  "frame_fits p \<Longrightarrow>
     read_frames fin (frame p @ r) = (case read_frames fin r of (ps, e) \<Rightarrow> (p # ps, e))"
  by (rule read_frames_Some) (rule framing.dec_enc)

lemma read_frames_append:
  "list_all frame_fits ps \<Longrightarrow>
     read_frames fin (concat (map frame ps) @ r)
       = (case read_frames fin r of (qs, e) \<Rightarrow> (ps @ qs, e))"
  by (induction ps) (simp_all add: read_frames_Cons split: prod.splits)

lemma read_frames_Nil: "read_frames None [] = ([], EndEOF)"
  by (subst read_frames.simps) simp

lemma read_frames_oversize:
  "PACKET_LIMIT < n \<Longrightarrow> n < 4294967296 \<Longrightarrow> read_frames fin (le_bytes 4 n @ r) = ([], EndSize)"
  by (subst read_frames.simps) (simp add: le_value_le_bytes)

lemma read_frames_short:
  assumes "n \<le> PACKET_LIMIT" "length r < n"
  shows "read_frames None (le_bytes 4 n @ r) = ([r], EndEOF)"
    and "read_frames (Some x) (le_bytes 4 n @ r) = ([], EndBodyErr x)"
  using assms
  by (subst read_frames.simps, simp add: le_value_le_bytes read_frames_Nil)+

lemma read_frames_bound: "p \<in> set (fst (read_frames fin bs)) \<Longrightarrow> frame_fits p"
proof (induction fin bs rule: read_frames.induct)
  case (1 fin bs)
  show ?case
    using 1 by (subst (asm) (2) read_frames.simps)
      (auto simp: Let_def frame_fits_def split: if_splits prod.splits)
qed

text \<open>
  A stream of packets, each at most \<^verbatim>\<open>PACKET_LIMIT\<close> bytes, is cut back into exactly
  these packets in order, whatever follows; with nothing after them the loop ends at an
  orderly end of file.
\<close>

lemma readLoop_frames_in_order:
  assumes "list_all frame_fits ps"
  shows "fst (read_frames fin (concat (map frame ps) @ r)) = ps @ fst (read_frames fin r)
         \<and> read_frames None (concat (map frame ps)) = (ps, EndEOF)"
  using read_frames_append [OF assms, of fin r] read_frames_append [OF assms, of None "[]"]
  by (simp add: read_frames_Nil split: prod.splits)

lemma readLoop_frames_in_order_example:
  "list_all frame_fits [''ab'', [], ''c'']
   \<and> read_frames None (concat (map frame [''ab'', [], ''c''])) = ([''ab'', [], ''c''], EndEOF)"
proof -
  have fits: "list_all frame_fits [''ab'', [], ''c'']" by (simp add: frame_fits_def)
  show ?thesis using fits readLoop_frames_in_order [OF fits, of None "[]"] by blast
qed

text \<open>
  How a bad packet ends the loop.  No packet handed to \<^verbatim>\<open>OnRead\<close> exceeds the limit.
  A size field over the limit stops the loop after the packets before it and nothing
  after it is looked at.  A body that the end of file cuts short is handed to
  \<^verbatim>\<open>OnRead\<close> as if it were a whole packet, and is dropped when a transport error cuts it.
\<close>

lemma readLoop_bad_packet:
  assumes "list_all frame_fits ps"
  shows "(\<forall>p \<in> set (fst (read_frames fin bs)). length p \<le> PACKET_LIMIT)
       \<and> (PACKET_LIMIT < n \<and> n < 2 ^ 32 \<longrightarrow>
            read_frames fin (concat (map frame ps) @ le_bytes 4 n @ r) = (ps, EndSize))
       \<and> (n \<le> PACKET_LIMIT \<and> length r < n \<longrightarrow>
            read_frames None (concat (map frame ps) @ le_bytes 4 n @ r) = (ps @ [r], EndEOF)
          \<and> read_frames (Some x) (concat (map frame ps) @ le_bytes 4 n @ r) = (ps, EndBodyErr x))"
  using read_frames_bound [of _ fin bs]
  by (simp add: read_frames_append [OF assms] read_frames_oversize read_frames_short frame_fits_def)

lemma readLoop_bad_packet_example:
  "read_frames None (concat (map frame [''ab'']) @ le_bytes 4 3 @ ''x'') = ([''ab'', ''x''], EndEOF)"
proof -
  have fits: "list_all frame_fits [''ab'']" by (simp add: frame_fits_def)
  show ?thesis using readLoop_bad_packet [OF fits, of None "[]" 3 "''x''"] by simp
qed

section \<open>The tables of waiting calls\<close>

text \<open>
  A call in a table has an open channel, and sits in one place of one table: whoever
  takes it out of the table is the only one who may close its channel.
\<close>

definition net_ok :: "'a net_scheme \<Rightarrow> bool" where
  "net_ok s \<longleftrightarrow>
     (\<forall>t. gomap_ok (n_table s t))
   \<and> (\<forall>t q x. mget (n_table s t) q = Some x \<longrightarrow> x < n_nextRpc s \<and> \<not> rc_bClosed (n_rpc s x))
   \<and> (\<forall>t q x t' q'. mget (n_table s t) q = Some x \<longrightarrow> mget (n_table s t') q' = Some x
        \<longrightarrow> t' = t \<and> q' = q)"

definition waiting :: "'a net_scheme \<Rightarrow> nat \<Rightarrow> bool" where
  "waiting s x \<longleftrightarrow> (\<exists>t q. mget (n_table s t) q = Some x)"

lemma net_okD_open: "net_ok s \<Longrightarrow> mget (n_table s t) q = Some x \<Longrightarrow> \<not> rc_bClosed (n_rpc s x)"
  unfolding net_ok_def by blast

lemma net_okD_less: "net_ok s \<Longrightarrow> mget (n_table s t) q = Some x \<Longrightarrow> x < n_nextRpc s"
  unfolding net_ok_def by blast

lemma net_okD_once:
  "net_ok s \<Longrightarrow> mget (n_table s t) q = Some x \<Longrightarrow> mget (n_table s t') q' = Some x \<Longrightarrow> t' = t \<and> q' = q"
  unfolding net_ok_def by blast

lemma net_okD_gomap: "net_ok s \<Longrightarrow> gomap_ok (n_table s t)"
  unfolding net_ok_def by blast

lemmas net_upd_defs = set_conn_def set_rpc_def set_table_def set_conn_table_def conn_table_def
  net_GoTask_def

lemma net_ok_frame [wf_intros]:
  "n_table t = n_table s \<Longrightarrow> n_rpc t = n_rpc s \<Longrightarrow> n_nextRpc t = n_nextRpc s \<Longrightarrow>
     net_ok s \<Longrightarrow> net_ok t"
  unfolding net_ok_def by simp

lemma net_ok_set_rpc:
  "net_ok s \<Longrightarrow> rc_bClosed v = rc_bClosed (n_rpc s x) \<Longrightarrow> net_ok (set_rpc x v s)"
  unfolding net_ok_def set_rpc_def by simp

lemma net_ok_take_out:
  assumes "net_ok s" "mget (conn_table c s) q = Some x"
  shows "net_ok (set_conn_table c (mdel q (conn_table c s)) (set_rpc x v s))"
  using assms unfolding net_ok_def net_upd_defs by simp blast

lemma take_out_not_waiting:
  assumes "net_ok s" "mget (conn_table c s) q = Some x"
  shows "\<not> waiting (set_conn_table c (mdel q (conn_table c s)) (set_rpc x v s)) x"
  using net_okD_once [OF assms(1)] assms(2)
  unfolding waiting_def net_upd_defs by (auto split: if_splits)

lemma clean_contexts_ok:
  "net_ok s \<Longrightarrow> conn_table c s = es \<Longrightarrow>
     (case clean_contexts c r es s of (z, t) \<Rightarrow>
        z = Ret () \<and> net_ok t \<and> conn_table c t = [] \<and> n_nextRpc t = n_nextRpc s
        \<and> (\<forall>y. \<not> waiting s y \<longrightarrow> \<not> waiting t y \<and> n_rpc t y = n_rpc s y))"
proof (induction c r es s rule: clean_contexts.induct)
  case (1 c r s)
  then show ?case by simp
next
  case (2 c r q x rest s)
  define s0 where "s0 = CancelFunc x (setErrorMsg x r s)"
  define v where "v = (n_rpc s0 x)\<lparr>rc_bClosed := True\<rparr>"
  define s1 where "s1 = set_rpc x v s0"
  define s2 where "s2 = set_conn_table c (mdel q (conn_table c s1)) s1"
  have look: "mget (conn_table c s) q = Some x" using 2(3) by simp
  have rest: "mdel q ((q, x) # rest) = rest"
    using net_okD_gomap [OF 2(2), of "sc_mRequestContext (n_conn s c)"] 2(3)
    by (simp add: gomap_ok_def conn_table_def delete_idem)
  have open0: "\<not> rc_bClosed (n_rpc s0 x)"
    using net_okD_open [OF 2(2)] look
    unfolding s0_def CancelFunc_def setErrorMsg_def conn_table_def set_rpc_def by simp
  have s1_eq: "s1 = set_rpc x v s"
    unfolding s1_def s0_def CancelFunc_def setErrorMsg_def set_rpc_def by simp
  have tab: "conn_table c s1 = conn_table c s"
    unfolding s1_eq by (simp add: net_upd_defs)
  have s2_eq: "s2 = set_conn_table c (mdel q (conn_table c s)) (set_rpc x v s)"
    using tab unfolding s2_def s1_eq by simp
  have ok2: "net_ok s2" unfolding s2_eq by (rule net_ok_take_out [OF 2(2) look])
  have tab2: "conn_table c s2 = rest"
    unfolding s2_eq 2(3) rest by (simp add: net_upd_defs)
  have close: "chan_close x s0 = (Ret (), s1)"
    using open0 unfolding chan_close_def s1_def v_def by simp
  have step: "clean_contexts c r ((q, x) # rest) s = clean_contexts c r rest s2"
    using close unfolding s0_def s2_def by simp
  have "(case clean_contexts c r rest s2 of (z, t) \<Rightarrow>
        z = Ret () \<and> net_ok t \<and> conn_table c t = [] \<and> n_nextRpc t = n_nextRpc s2
        \<and> (\<forall>y. \<not> waiting s2 y \<longrightarrow> \<not> waiting t y \<and> n_rpc t y = n_rpc s2 y))"
    using 2(1) [OF close [unfolded s0_def, symmetric] refl, folded s2_def, OF ok2 tab2] .
  moreover have "n_nextRpc s2 = n_nextRpc s" unfolding s2_eq by (simp add: net_upd_defs)
  moreover have "\<not> waiting s2 y \<and> n_rpc s2 y = n_rpc s y" if "\<not> waiting s y" for y
    using that look unfolding waiting_def s2_eq net_upd_defs by (auto split: if_splits)
  ultimately show ?case unfolding step by (auto split: prod.splits)
qed

section \<open>Every interleaving\<close>

text \<open>
  The operations of the network layer as events.  Taking a call out of the table and
  sending the response on its channel are separate events, because the code releases
  the lock in between; the calls taken out and not yet sent to are the ones in flight.
\<close>

record net_sys = net +
  ns_flight :: "nat list"

datatype net_event =
    EvAccept string string
  | EvShare connref nat
  | EvCall connref string
  | EvTake connref string
  | EvSend nat bytes
  | EvTimeout connref string
  | EvCancel nat
  | EvWrite connref bytes
  | EvClose connref
  | EvRun nat

definition drop_task :: "nat \<Rightarrow> 'a net_scheme \<Rightarrow> 'a net_scheme" where
  "drop_task i s = s\<lparr>n_task := take i (n_task s) @ drop (Suc i) (n_task s)\<rparr>"

fun net_exec :: "net_event \<Rightarrow> net_sys \<Rightarrow> unit outcome \<times> net_sys" where
  "net_exec (EvAccept l r) s = (Ret (), snd (Server_accept l r s))"
| "net_exec (EvShare c t) s = (Ret (), SetRequestContext c t s)"
| "net_exec (EvCall c q) s = (Ret (), snd (AddRpcContext c q s))"
| "net_exec (EvTake c q) s =
     (case GetRpcContext c q s of
        (None, s') \<Rightarrow> (Ret (), s')
      | (Some x, s') \<Rightarrow> (Ret (), s'\<lparr>ns_flight := x # ns_flight s'\<rparr>))"
| "net_exec (EvSend x b) s = (if x \<in> set (ns_flight s) then chan_send x b s else (Ret (), s))"
| "net_exec (EvTimeout c q) s = RemoveRpcContext c q s"
| "net_exec (EvCancel x) s = (Ret (), CancelFunc x s)"
| "net_exec (EvWrite c b) s = (Ret (), snd (Write c b s))"
| "net_exec (EvClose c) s = (Ret (), Close c s)"
| "net_exec (EvRun i) s =
     (if i < length (n_task s) then run_net_task (n_task s ! i) (drop_task i s) else (Ret (), s))"

text \<open>New connections get a fresh table; sharing points at a table that exists.\<close>

definition net_start :: "net_sys \<Rightarrow> bool" where
  "net_start s \<longleftrightarrow> (\<forall>t. n_table s t = []) \<and> ns_flight s = []"

inductive net_step :: "net_sys \<Rightarrow> net_sys \<Rightarrow> bool" where
  net_stepI: "net_exec e s = (z, t) \<Longrightarrow> net_step s t"

inductive_cases net_stepE: "net_step s t"

definition net_inv :: "net_sys \<Rightarrow> bool" where
  "net_inv s \<longleftrightarrow> net_ok s
     \<and> (\<forall>x \<in> set (ns_flight s). x < n_nextRpc s \<and> \<not> rc_bClosed (n_rpc s x) \<and> \<not> waiting s x)"

lemma net_inv_frame:
  assumes "net_inv s" "n_table t = n_table s" "n_rpc t = n_rpc s" "n_nextRpc t = n_nextRpc s"
    and "ns_flight t = ns_flight s"
  shows "net_inv t"
  using assms unfolding net_inv_def net_ok_def waiting_def by simp

lemma net_inv_set_rpc:
  assumes "net_inv s" "rc_bClosed v = rc_bClosed (n_rpc s x)"
  shows "net_inv (set_rpc x v s)"
  using assms net_ok_set_rpc [of s v x] unfolding net_inv_def waiting_def by (simp add: set_rpc_def)

lemma net_inv_new_connection:
  assumes "net_inv s"
  shows "net_inv (snd (new_connection l r s))"
  using assms unfolding net_inv_def net_ok_def waiting_def new_connection_def Let_def net_upd_defs
  by simp

lemma net_inv_AddRpcContext:
  assumes "net_inv s"
  shows "net_inv (snd (AddRpcContext c q s))"
proof -
  have fresh: "x < n_nextRpc s" if "mget (n_table s t) q' = Some x" for t q' x
    using assms that unfolding net_inv_def net_ok_def by blast
  have ne: "mget (n_table s t) q' \<noteq> Some (n_nextRpc s)" for t q'
    using fresh by blast
  have ok: "net_ok (snd (AddRpcContext c q s))"
    using assms ne fresh unfolding net_inv_def net_ok_def AddRpcContext_def Let_def net_upd_defs
    by (auto simp: less_Suc_eq)
  moreover have "x < Suc (n_nextRpc s) \<and> x \<noteq> n_nextRpc s \<and> \<not> rc_bClosed (n_rpc s x) \<and> \<not> waiting s x"
    if "x \<in> set (ns_flight s)" for x
    using assms that unfolding net_inv_def by auto
  ultimately show ?thesis
    unfolding net_inv_def AddRpcContext_def Let_def net_upd_defs waiting_def
    by (auto split: if_splits)
qed

lemma GetRpcContext_take_out:
  "mget (conn_table c s) q = Some x \<Longrightarrow>
     snd (GetRpcContext c q s)
       = set_conn_table c (mdel q (conn_table c s)) (set_rpc x (n_rpc s x) s)"
  by (simp add: GetRpcContext_def net_upd_defs)

lemma net_inv_take_out:
  assumes "net_inv s" "mget (conn_table c s) q = Some x"
  shows "net_inv (set_conn_table c (mdel q (conn_table c s)) (set_rpc x v s))"
proof -
  have "net_ok (set_conn_table c (mdel q (conn_table c s)) (set_rpc x v s))"
    using assms net_ok_take_out unfolding net_inv_def by blast
  moreover have "waiting s x"
    using assms(2) unfolding waiting_def conn_table_def by blast
  ultimately show ?thesis
    using assms(1) unfolding net_inv_def waiting_def net_upd_defs by (auto split: if_splits)
qed

lemma net_inv_GetRpcContext:
  assumes "net_inv s" "GetRpcContext c q s = (Some x, t)"
  shows "net_inv (t\<lparr>ns_flight := x # ns_flight t\<rparr>)"
proof -
  have look: "mget (conn_table c s) q = Some x"
    using assms(2) by (simp add: GetRpcContext_def)
  have t: "t = set_conn_table c (mdel q (conn_table c s)) (set_rpc x (n_rpc s x) s)"
    using GetRpcContext_take_out [OF look] assms(2) by simp
  have ok: "net_ok s" using assms(1) by (simp add: net_inv_def)
  have "net_inv t" unfolding t by (rule net_inv_take_out [OF assms(1) look])
  moreover have "\<not> waiting t x" unfolding t by (rule take_out_not_waiting [OF ok look])
  moreover have "x < n_nextRpc t" "\<not> rc_bClosed (n_rpc t x)"
    using net_okD_less [OF ok] net_okD_open [OF ok] look
    unfolding t net_upd_defs by auto
  ultimately show ?thesis
    unfolding net_inv_def net_ok_def waiting_def by simp
qed

lemma net_inv_miss:
  assumes "net_inv s" "GetRpcContext c q s = (None, t)"
  shows "net_inv t"
proof -
  have "mget (conn_table c s) q = None" using assms(2) by (simp add: GetRpcContext_def)
  then have "mdel q (conn_table c s) = conn_table c s"
    by (simp add: delete_idem map_of_eq_None_iff)
  then have "t = s" using assms(2) by (simp add: GetRpcContext_def net_upd_defs)
  then show ?thesis using assms(1) by simp
qed

lemma net_inv_RemoveRpcContext:
  assumes "net_inv s"
  shows "fst (RemoveRpcContext c q s) = Ret () \<and> net_inv (snd (RemoveRpcContext c q s))"
proof (cases "mget (conn_table c s) q")
  case None
  then show ?thesis using assms by (simp add: RemoveRpcContext_def)
next
  case (Some x)
  have "\<not> rc_bClosed (n_rpc s x)"
    using net_okD_open Some assms unfolding net_inv_def conn_table_def by blast
  then have "RemoveRpcContext c q s
      = (Ret (), set_conn_table c (mdel q (conn_table c s))
                   (set_rpc x ((n_rpc s x)\<lparr>rc_bClosed := True\<rparr>) s))"
    using Some by (simp add: RemoveRpcContext_def chan_close_def net_upd_defs)
  then show ?thesis using net_inv_take_out [OF assms Some] by simp
qed

lemma clean_contexts_flight: "ns_flight (snd (clean_contexts c r es s)) = ns_flight s"
  by (induction c r es s rule: clean_contexts.induct)
    (auto simp: chan_close_def CancelFunc_def setErrorMsg_def net_upd_defs
        split: prod.splits outcome.splits if_splits)

lemma net_inv_cleanAll:
  assumes "net_inv s"
  shows "fst (cleanAllRpcContext c r s) = Ret () \<and> net_inv (snd (cleanAllRpcContext c r s))"
proof -
  obtain z t where zt: "cleanAllRpcContext c r s = (z, t)" by (cases "cleanAllRpcContext c r s")
  have ok: "net_ok s" using assms by (simp add: net_inv_def)
  have "z = Ret () \<and> net_ok t \<and> n_nextRpc t = n_nextRpc s
        \<and> (\<forall>y. \<not> waiting s y \<longrightarrow> \<not> waiting t y \<and> n_rpc t y = n_rpc s y)"
    using clean_contexts_ok [OF ok refl, of c r] zt unfolding cleanAllRpcContext_def by simp
  moreover have "ns_flight t = ns_flight s"
    using clean_contexts_flight [of c r "conn_table c s" s] zt unfolding cleanAllRpcContext_def by simp
  ultimately show ?thesis using assms zt unfolding net_inv_def by simp
qed

lemma net_inv_close_conn: "net_inv s \<Longrightarrow> net_inv (snd (objConnection_Close c s))"
  by (rule net_inv_frame) (simp_all add: objConnection_Close_def net_upd_defs)

lemma net_inv_run:
  assumes "net_inv s"
  shows "fst (run_net_task k s) = Ret () \<and> net_inv (snd (run_net_task k s))"
proof (cases k)
  case (CleanRpc c r)
  then show ?thesis using net_inv_cleanAll [OF assms, of c r] by (simp add: run_net_task_def)
next
  case (CleanRpcAndClose c r)
  then show ?thesis
    using net_inv_cleanAll [OF assms, of c r] net_inv_close_conn
    by (cases "cleanAllRpcContext c r s") (simp add: run_net_task_def)
qed

lemma net_inv_send:
  assumes "net_inv s" "x \<in> set (ns_flight s)"
  shows "fst (chan_send x b s) = Ret () \<and> net_inv (snd (chan_send x b s))"
  using assms net_inv_set_rpc [OF assms(1)] unfolding net_inv_def [of s] chan_send_def by simp

lemma net_exec_safe:
  assumes "net_inv s"
  shows "fst (net_exec e s) = Ret () \<and> net_inv (snd (net_exec e s))"
proof (cases e)
  case (EvAccept l r)
  then show ?thesis using net_inv_new_connection [OF assms] by (simp add: Server_accept_def)
next
  case (EvShare c t)
  have "net_inv (SetRequestContext c t s)"
    by (rule net_inv_frame [OF assms]) (simp_all add: SetRequestContext_def net_upd_defs)
  then show ?thesis using EvShare by simp
next
  case (EvCall c q)
  then show ?thesis using net_inv_AddRpcContext [OF assms] by simp
next
  case (EvTake c q)
  then show ?thesis
    using net_inv_GetRpcContext [OF assms, of c q] net_inv_miss [OF assms, of c q]
    by (cases "GetRpcContext c q s") (auto split: option.splits)
next
  case (EvSend x b)
  then show ?thesis using net_inv_send [OF assms] assms by simp
next
  case (EvTimeout c q)
  then show ?thesis using net_inv_RemoveRpcContext [OF assms] by simp
next
  case (EvCancel x)
  have "net_inv (CancelFunc x s)"
    unfolding CancelFunc_def by (rule net_inv_set_rpc [OF assms]) simp
  then show ?thesis using EvCancel by simp
next
  case (EvWrite c b)
  have "net_inv (snd (Write c b s))"
    by (rule net_inv_frame [OF assms]) (simp_all add: Write_def net_upd_defs split: option.splits)
  then show ?thesis using EvWrite by simp
next
  case (EvClose c)
  have "net_inv (Close c s)" unfolding Close_def
    by (rule net_inv_close_conn, rule net_inv_frame [OF assms]) (simp_all add: net_upd_defs)
  then show ?thesis using EvClose by simp
next
  case (EvRun i)
  have "net_inv (drop_task i s)"
    by (rule net_inv_frame [OF assms]) (simp_all add: drop_task_def)
  then show ?thesis using EvRun net_inv_run assms by simp
qed

interpretation net_system: inductive_invariant net_start net_step net_inv
proof
  fix s assume "net_start s"
  then show "net_inv s"
    by (simp add: net_start_def net_inv_def net_ok_def waiting_def)
next
  fix s t assume "net_inv s" "net_step s t"
  then show "net_inv t" using net_exec_safe by (metis net_stepE snd_conv)
qed

text \<open>
  C10. Whatever the order of calls, responses, timeouts, writes, closings and clean-up
  tasks, no operation panics on a response channel: none closes a channel twice and none
  sends on a closed one.  The reason is the invariant that a call in a table has an open
  channel and sits in one place only.
\<close>

theorem rpc_channels_safe:
  assumes "reaches net_start net_step s"
  shows "fst (net_exec e s) = Ret () \<and> net_ok s"
  using net_exec_safe net_system.reachable_inv [OF assms] by (simp add: net_inv_def)

definition net_sys_zero :: net_sys where
  "net_sys_zero = net.extend net_zero \<lparr>ns_flight = []\<rparr>"

theorem rpc_channels_safe_witness:
  "reaches net_start net_step (snd (net_exec (EvCall 0 ''q'') net_sys_zero))
   \<and> fst (net_exec (EvTimeout 0 ''q'') (snd (net_exec (EvCall 0 ''q'') net_sys_zero))) = Ret ()"
proof -
  have start: "net_start net_sys_zero"
    by (simp add: net_start_def net_sys_zero_def net_zero_def net.defs)
  have "net_step net_sys_zero (snd (net_exec (EvCall 0 ''q'') net_sys_zero))"
    by (rule net_stepI [OF surjective_pairing])
  then have r: "reaches net_start net_step (snd (net_exec (EvCall 0 ''q'') net_sys_zero))"
    using reaches_start [of net_start, OF start] by (rule reaches_step [rotated])
  then show ?thesis using rpc_channels_safe [OF r, of "EvTimeout 0 ''q''"] by blast
qed

end
