(* ===== verification/Routing.thy ===== *)
theory Routing
  imports NetworkSafety
begin

text \<open>
  \<^verbatim>\<open>router/router.go\<close>: the table from URIs to handlers and the dispatch of one packet.

  A handler gets the body and the context and returns a result text that is only
  logged.  A response goes to the call that waits for its request id, and to the
  handler of its URI when none waits.
\<close>

type_synonym 's handler = "bytes \<Rightarrow> ctx \<Rightarrow> 's \<Rightarrow> string outcome \<times> 's"
type_synonym 's Router = "(string, 's handler) gomap"

definition NewRouter :: "'s Router" where
  "NewRouter = []"

definition RegisterRouter :: "string \<Rightarrow> 's handler \<Rightarrow> 's Router \<Rightarrow> bool \<times> 's Router" where
  "RegisterRouter szUri fnHandler mRouter =
     (case mget mRouter szUri of
        Some _ \<Rightarrow> (False, mRouter)
      | None \<Rightarrow> (True, mput szUri fnHandler mRouter))"

definition fnRouter2Handler ::
  "'s Router \<Rightarrow> string \<Rightarrow> bytes \<Rightarrow> ctx \<Rightarrow> 's \<Rightarrow> bool outcome \<times> 's" where
  "fnRouter2Handler mRouter szUri byteBody ctx s =
     (case mget mRouter szUri of
        None \<Rightarrow> (Ret True, s)
      | Some fnHandler \<Rightarrow>
          (case fnHandler byteBody ctx s of
             (Panics, s') \<Rightarrow> (Panics, s')
           | (Ret _, s') \<Rightarrow> (Ret True, s')))"

definition Process ::
  "('a net_scheme) Router \<Rightarrow> bytes \<Rightarrow> ctx \<Rightarrow> 'a net_scheme \<Rightarrow> bool outcome \<times> 'a net_scheme" where
  "Process mRouter byteData ctx s =
     (case GetRequestContext ctx of
        None \<Rightarrow> (Ret False, s)
      | Some ptrContext \<Rightarrow>
          (case read_packet byteData of
             Inl _ \<Rightarrow> (Ret False, s)
           | Inr (szUri, nMsgType, szRequestID, byteBody) \<Rightarrow>
               let ctx = SetRequestID ctx szRequestID in
               if nMsgType = MSG_TYPE_CAST \<or> nMsgType = MSG_TYPE_REQUEST then
                 fnRouter2Handler mRouter szUri byteBody ctx s
               else if nMsgType = MSG_TYPE_RESPONE then
                 (case GetRpcContext (rq_ptrServerConnection ptrContext) szRequestID s of
                    (Some x, s') \<Rightarrow>
                      (case chan_send x byteBody s' of
                         (Panics, s'') \<Rightarrow> (Panics, s'')
                       | (Ret _, s'') \<Rightarrow> (Ret True, s''))
                  | (None, s') \<Rightarrow> fnRouter2Handler mRouter szUri byteBody ctx s')
               else (Ret False, s)))"

lemma RegisterRouter_new:
  "mget m u = None \<Longrightarrow> RegisterRouter u h m = (True, mput u h m)"
  by (simp add: RegisterRouter_def)

lemma RegisterRouter_keeps:
  "mget m u = Some h \<Longrightarrow> mget (snd (RegisterRouter u' h' m)) u = Some h"
  by (cases "mget m u'") (auto simp: RegisterRouter_def)

lemma GetRpcContext_miss:
  "mget (conn_table c s) q = None \<Longrightarrow> GetRpcContext c q s = (None, s)"
  by (simp add: GetRpcContext_def delete_idem map_of_eq_None_iff net_upd_defs)

lemma GetRpcContext_hit:
  "mget (conn_table c s) q = Some x \<Longrightarrow>
     GetRpcContext c q s = (Some x, set_conn_table c (mdel q (conn_table c s)) s)"
  by (simp add: GetRpcContext_def)

text \<open>The message as the sender gives it and the frame the receiver cuts out.\<close>

type_synonym wire_msg = "string \<times> nat \<times> string \<times> ProtoMsg"

definition wire_fits :: "proto_lib \<Rightarrow> wire_msg \<Rightarrow> bool" where
  "wire_fits pb w = (case w of (u, t, q, m) \<Rightarrow>
     string_fits u \<and> string_fits q \<and> t < 256
     \<and> 5 + length u + length q + length (Marshal pb m) \<le> PACKET_LIMIT)"

definition wire_send :: "proto_lib \<Rightarrow> wire_msg \<Rightarrow> bytes" where
  "wire_send pb w = (case w of (u, t, q, m) \<Rightarrow> fst (NewProtocol pb u t q m))"

definition wire_frame :: "proto_lib \<Rightarrow> wire_msg \<Rightarrow> bytes" where
  "wire_frame pb w = (case w of (u, t, q, m) \<Rightarrow> payload pb u t q m)"

lemma wire_send_frame:
  "wire_fits pb w \<Longrightarrow> wire_send pb w = frame (wire_frame pb w) \<and> frame_fits (wire_frame pb w)"
  by (cases w)
    (simp add: wire_fits_def wire_send_def wire_frame_def frame_def frame_fits_def
      fst_NewProtocol_frame length_payload)

section \<open>Properties\<close>

text \<open>
  C33. What the senders write is what the routers read: a stream of packets built by
  \<^verbatim>\<open>NewProtocol\<close> is cut by the read loop into one packet per message, in order, and each
  is read back as its URI, type, request id and marshalled message.
\<close>

theorem wire_end_to_end:
  assumes "list_all (wire_fits pb) ws"
  shows "\<exists>ps. read_frames None (concat (map (wire_send pb) ws)) = (ps, EndEOF)
           \<and> map read_packet ps = map (\<lambda>(u, t, q, m). Inr (u, t, q, Marshal pb m)) ws"
proof (intro exI conjI)
  let ?ps = "map (wire_frame pb) ws"
  have eq: "map (wire_send pb) ws = map frame ?ps"
    using assms wire_send_frame by (auto simp: list_all_iff)
  have fits: "list_all frame_fits ?ps"
    using assms wire_send_frame by (auto simp: list_all_iff)
  show "read_frames None (concat (map (wire_send pb) ws)) = (?ps, EndEOF)"
    unfolding eq using read_frames_append [OF fits, of None "[]"] by (simp add: read_frames_Nil)
  show "map read_packet ?ps = map (\<lambda>(u, t, q, m). Inr (u, t, q, Marshal pb m)) ws"
    using assms
    by (auto simp: list_all_iff wire_fits_def wire_frame_def intro!: read_packet_payload)
qed

theorem wire_end_to_end_witness:
  "\<exists>ps. read_frames None (concat (map (wire_send lib_stub)
          [(''node.getEntry'', 1, ''q'', MGetEntryReq GetEntryReq), ([], 2, ''q'', MGetEntryReq GetEntryReq)]))
        = (ps, EndEOF)
      \<and> map read_packet ps = [Inr (''node.getEntry'', 1, ''q'', []), Inr ([], 2, ''q'', [])]"
  using wire_end_to_end [of lib_stub
      "[(''node.getEntry'', 1, ''q'', MGetEntryReq GetEntryReq), ([], 2, ''q'', MGetEntryReq GetEntryReq)]"]
  by (simp add: wire_fits_def string_fits_def lib_stub_def)

text \<open>
  Dispatch of a packet that arrives on connection c.  Casts and requests go to the
  handler registered for the URI.  A response is sent to the call waiting for its
  request id on c, which stops waiting; when no call waits it goes to the handler.  Any
  other type is refused, and so is every packet outside a request context.
\<close>

lemma Process_dispatch:
  fixes s :: "'a net_scheme"
  assumes "string_fits u" "string_fits q" "t < 256" and ctx: "GetRequestContext ctx = Some rc"
  defines "c \<equiv> rq_ptrServerConnection rc" and "ctx' \<equiv> Some (rc\<lparr>rq_szRequestID := q\<rparr>)"
  shows "(t = MSG_TYPE_CAST \<or> t = MSG_TYPE_REQUEST \<longrightarrow>
            Process rt (payload pb u t q m) ctx s = fnRouter2Handler rt u (Marshal pb m) ctx' s)
       \<and> (t = MSG_TYPE_RESPONE \<and> mget (conn_table c s) q = None \<longrightarrow>
            Process rt (payload pb u t q m) ctx s = fnRouter2Handler rt u (Marshal pb m) ctx' s)
       \<and> (t = MSG_TYPE_RESPONE \<and> mget (conn_table c s) q = Some x \<and> net_ok s \<longrightarrow>
            (\<exists>s'. Process rt (payload pb u t q m) ctx s = (Ret True, s')
              \<and> rc_aryMsg (n_rpc s' x) = rc_aryMsg (n_rpc s x) @ [Marshal pb m]
              \<and> mget (conn_table c s') q = None \<and> \<not> waiting s' x))
       \<and> (t \<noteq> MSG_TYPE_CAST \<and> t \<noteq> MSG_TYPE_REQUEST \<and> t \<noteq> MSG_TYPE_RESPONE \<longrightarrow>
            Process rt (payload pb u t q m) ctx s = (Ret False, s))
       \<and> Process rt (payload pb u t q m) None s = (Ret False, s)"
proof -
  have pk: "read_packet (payload pb u t q m) = Inr (u, t, q, Marshal pb m)"
    by (rule read_packet_payload) fact+
  have ctx_eq: "SetRequestID ctx q = ctx'" using ctx by (simp add: SetRequestID_def ctx'_def)
  have hit: "\<exists>s'. Process rt (payload pb u t q m) ctx s = (Ret True, s')
              \<and> rc_aryMsg (n_rpc s' x) = rc_aryMsg (n_rpc s x) @ [Marshal pb m]
              \<and> mget (conn_table c s') q = None \<and> \<not> waiting s' x"
    if "t = MSG_TYPE_RESPONE" and look: "mget (conn_table c s) q = Some x" and ok: "net_ok s"
  proof -
    let ?v = "(n_rpc s x)\<lparr>rc_aryMsg := rc_aryMsg (n_rpc s x) @ [Marshal pb m]\<rparr>"
    let ?s' = "set_conn_table c (mdel q (conn_table c s)) (set_rpc x ?v s)"
    have "\<not> rc_bClosed (n_rpc s x)" using net_okD_open [OF ok] look by (simp add: conn_table_def)
    then have "Process rt (payload pb u t q m) ctx s = (Ret True, ?s')"
      using that pk ctx look
      by (simp add: Process_def GetRpcContext_hit c_def chan_send_def net_upd_defs)
    moreover have "\<not> waiting ?s' x" using take_out_not_waiting [OF ok look] .
    ultimately show ?thesis by (simp add: net_upd_defs)
  qed
  show ?thesis
    using hit pk ctx ctx_eq by (auto simp: Process_def GetRpcContext_miss c_def GetRequestContext_def)
qed

definition example_ctx :: ctx where
  "example_ctx = Some \<lparr>rq_szLocalAddress = [], rq_szRemoteAddress = [],
     rq_ptrServerConnection = 0, rq_szRequestID = []\<rparr>"

lemma Process_dispatch_example:
  "Process [(''u'', \<lambda>b ctx s. (Ret (b @ GetRequestID ctx), s))] (payload lib_stub ''u'' 3 ''q''
       (MGetEntryReq GetEntryReq)) example_ctx net_zero = (Ret True, net_zero)"
  using Process_dispatch [of "''u''" "''q''" 3 example_ctx "the example_ctx"
      "[(''u'', \<lambda>b ctx s. (Ret (b @ GetRequestID ctx), s))]" lib_stub "MGetEntryReq GetEntryReq" net_zero]
  by (simp add: string_fits_def example_ctx_def GetRequestContext_def fnRouter2Handler_def)

lemma RegisterRouter_first_wins:
  "fst (RegisterRouter u h m) = (mget m u = None)
   \<and> mget (snd (RegisterRouter u h m)) u = (case mget m u of None \<Rightarrow> Some h | Some h' \<Rightarrow> Some h')
   \<and> (mget (snd (RegisterRouter u h m)) v = mget m v \<or> v = u)
   \<and> snd (RegisterRouter u h2 (snd (RegisterRouter u h m))) = snd (RegisterRouter u h m)"
  by (cases "mget m u") (simp_all add: RegisterRouter_def)

end
