(* ===== verification/Rpc.thy ===== *)
theory Rpc
  imports Routing
begin

text \<open>
  \<^verbatim>\<open>rpc/call.go\<close>, \<^verbatim>\<open>rpc/cast.go\<close>, \<^verbatim>\<open>rpc/reply.go\<close> and the URIs of \<^verbatim>\<open>rpc/rpc_func.go\<close>
  and \<^verbatim>\<open>rpc/agent_func.go\<close>.

  \<^verbatim>\<open>CallContext.Start\<close> blocks between sending the request and the response, the time
  limit or the loss of the connection, so it is two definitions: \<open>Call_begin\<close> up to the
  \<^verbatim>\<open>select\<close>, and \<open>Call_select\<close> for the branch the \<^verbatim>\<open>select\<close> takes.  A branch can be
  taken when \<open>select_ready\<close> says so; the passing of the time limit is an input.
\<close>

abbreviation (input) NODE_SAY_HELLO :: string where "NODE_SAY_HELLO \<equiv> ''node.hello''"
abbreviation (input) NODE_SAY_GOOBEY :: string where "NODE_SAY_GOOBEY \<equiv> ''node.goodbye''"
abbreviation (input) NODE_GET_ENTRY :: string where "NODE_GET_ENTRY \<equiv> ''node.getEntry''"
abbreviation (input) NODE_ENTRY_NOTIFY :: string where "NODE_ENTRY_NOTIFY \<equiv> ''node.entryNotify''"
abbreviation (input) NODE_KEEP_ALIVE :: string where "NODE_KEEP_ALIVE \<equiv> ''node.keepAlive''"
abbreviation (input) NODE_RPC_REQ :: string where "NODE_RPC_REQ \<equiv> ''node.rpcReq''"
abbreviation (input) NODE_RPC_RESP :: string where "NODE_RPC_RESP \<equiv> ''node.rpcResp''"
abbreviation (input) AGENT_REGISTER :: string where "AGENT_REGISTER \<equiv> ''agent.register''"
abbreviation (input) AGENT_UN_REGISTER :: string where "AGENT_UN_REGISTER \<equiv> ''agent.unregister''"
abbreviation (input) AGENT_KEEP_ALIVE :: string where "AGENT_KEEP_ALIVE \<equiv> ''agent.keepAlive''"
abbreviation (input) AGENT_RPC_REQ :: string where "AGENT_RPC_REQ \<equiv> ''agent.rpcReq''"
abbreviation (input) AGENT_RPC_RESP :: string where "AGENT_RPC_RESP \<equiv> ''agent.rpcResp''"
abbreviation (input) AGENT_ENTRY_CHECK :: string where "AGENT_ENTRY_CHECK \<equiv> ''agent.entry.check''"

section \<open>Casts and replies\<close>

record CastContext =
  cast_szUri :: string
  cast_szRequestID :: string
  cast_objMessage :: ProtoMsg
  cast_ptrServerConnection :: "connref option"

definition NewCast :: "string \<Rightarrow> string \<Rightarrow> ProtoMsg \<Rightarrow> connref option \<Rightarrow> CastContext" where
  "NewCast szUUID szUri objReq ptrServerConnection =
     \<lparr>cast_szUri = szUri, cast_szRequestID = szUUID, cast_objMessage = objReq,
      cast_ptrServerConnection = ptrServerConnection\<rparr>"

definition Cast_Start :: "proto_lib \<Rightarrow> CastContext \<Rightarrow> 'a net_scheme \<Rightarrow> bool \<times> 'a net_scheme" where
  "Cast_Start pb cc s =
     (case cast_ptrServerConnection cc of
        None \<Rightarrow> (False, s)
      | Some c \<Rightarrow>
          (case NewProtocol pb (cast_szUri cc) MSG_TYPE_CAST (cast_szRequestID cc)
                  (cast_objMessage cc) of
             (byteData, _) \<Rightarrow> Write c byteData s))"

text \<open>Outside a request context \<^verbatim>\<open>GetServerConnection\<close> is nil and \<^verbatim>\<open>Write\<close> on it panics.\<close>

definition Reply :: "proto_lib \<Rightarrow> ProtoMsg \<Rightarrow> ctx \<Rightarrow> 'a net_scheme \<Rightarrow> unit outcome \<times> 'a net_scheme" where
  "Reply pb objMsg ctx s =
     (case NewProtocol pb '''' MSG_TYPE_RESPONE (GetRequestID ctx) objMsg of
        (byteByte, bSuccess) \<Rightarrow>
          if bSuccess then
            (case GetServerConnection ctx of
               None \<Rightarrow> (Panics, s)
             | Some c \<Rightarrow> (Ret (), snd (Write c byteByte s)))
          else (Ret (), s))"

section \<open>Calls\<close>

record CallContext =
  call_szUri :: string
  call_szRequestID :: string
  call_objReq :: ProtoMsg
  call_nTimeoutMs :: int64
  call_ptrServerConnection :: "connref option"

abbreviation (input) DEFAULT_TIMEOUT :: int64 where "DEFAULT_TIMEOUT \<equiv> 2000"

definition NewCall :: "string \<Rightarrow> string \<Rightarrow> ProtoMsg \<Rightarrow> connref option \<Rightarrow> CallContext" where
  "NewCall szUUID szUri objReq ptrServerConnection =
     \<lparr>call_szUri = szUri, call_szRequestID = szUUID, call_objReq = objReq,
      call_nTimeoutMs = DEFAULT_TIMEOUT, call_ptrServerConnection = ptrServerConnection\<rparr>"

text \<open>\<^term>\<open>None\<close> when \<^verbatim>\<open>Start\<close> returns false before it waits.\<close>

definition Call_begin ::
  "proto_lib \<Rightarrow> CallContext \<Rightarrow> 'a net_scheme \<Rightarrow> nat option \<times> 'a net_scheme" where
  "Call_begin pb cc s =
     (case call_ptrServerConnection cc of
        None \<Rightarrow> (None, s)
      | Some c \<Rightarrow>
          (case NewProtocol pb (call_szUri cc) MSG_TYPE_REQUEST (call_szRequestID cc)
                  (call_objReq cc) of
             (byteData, _) \<Rightarrow>
               (case AddRpcContext c (call_szRequestID cc) s of
                  (x, s') \<Rightarrow>
                    (case Write c byteData s' of
                       (False, s'') \<Rightarrow> (None, s'')
                     | (True, s'') \<Rightarrow> (Some x, s'')))))"

datatype select = SelMsg | SelDone

definition select_ready :: "select \<Rightarrow> bool \<Rightarrow> nat \<Rightarrow> 'a net_scheme \<Rightarrow> bool" where
  "select_ready sel bTimeUp x s \<longleftrightarrow>
     (case sel of
        SelMsg \<Rightarrow> rc_aryMsg (n_rpc s x) \<noteq> [] \<or> rc_bClosed (n_rpc s x)
      | SelDone \<Rightarrow> rc_bCancel (n_rpc s x) \<or> bTimeUp)"

text \<open>A receive from a closed channel with nothing in it yields the nil slice.\<close>

definition chan_recv :: "nat \<Rightarrow> 'a net_scheme \<Rightarrow> bytes \<times> 'a net_scheme" where
  "chan_recv x s =
     (case rc_aryMsg (n_rpc s x) of
        [] \<Rightarrow> ([], s)
      | b # bs \<Rightarrow> (b, set_rpc x ((n_rpc s x)\<lparr>rc_aryMsg := bs\<rparr>) s))"

text \<open>The decoded response when \<^verbatim>\<open>Start\<close> returns true, \<^term>\<open>None\<close> when it returns false.\<close>

definition Call_select ::
  "(bytes \<Rightarrow> 'r option) \<Rightarrow> select \<Rightarrow> connref \<Rightarrow> string \<Rightarrow> nat \<Rightarrow> 'a net_scheme
     \<Rightarrow> 'r option outcome \<times> 'a net_scheme" where
  "Call_select unmarshal sel c szRequestID x s =
     (case sel of
        SelMsg \<Rightarrow>
          (case chan_recv x s of
             (byteResult, s') \<Rightarrow>
               if ErrorMsg x s' \<noteq> '''' then (Ret None, s')
               else (Ret (unmarshal byteResult), CancelFunc x s'))
      | SelDone \<Rightarrow>
          if ErrorMsg x s = '''' then
            (case RemoveRpcContext c szRequestID s of
               (Panics, s') \<Rightarrow> (Panics, s')
             | (Ret _, s') \<Rightarrow> (Ret None, s'))
          else (Ret None, s))"

section \<open>Lemmas\<close>

lemma AddRpcContext_waits:
  assumes "AddRpcContext c q s = (x, t)"
  shows "mget (conn_table c t) q = Some x \<and> n_rpc t x = rpc_zero \<and> x = n_nextRpc s"
  using assms by (auto simp: AddRpcContext_def Let_def net_upd_defs rpc_zero_def)

lemma net_ok_AddRpcContext:
  assumes "net_ok s"
  shows "net_ok (snd (AddRpcContext c q s))"
proof -
  have fresh: "x < n_nextRpc s" if "mget (n_table s t) q' = Some x" for t q' x
    using net_okD_less [OF assms that] .
  have ne: "mget (n_table s t) q' \<noteq> Some (n_nextRpc s)" for t q'
    using fresh by blast
  show ?thesis
    using assms ne fresh unfolding net_ok_def AddRpcContext_def Let_def net_upd_defs
    by (auto simp: less_Suc_eq)
qed

lemma Process_response:
  assumes "string_fits u" "string_fits q" "net_ok s"
    and "GetRequestContext ctx = Some rc" and "mget (conn_table (rq_ptrServerConnection rc) s) q = Some x"
  shows "Process rt (payload pb u 2 q m) ctx s
     = (Ret True, set_conn_table (rq_ptrServerConnection rc)
          (mdel q (conn_table (rq_ptrServerConnection rc) s))
          (set_rpc x ((n_rpc s x)\<lparr>rc_aryMsg := rc_aryMsg (n_rpc s x) @ [Marshal pb m]\<rparr>) s))"
proof -
  have "\<not> rc_bClosed (n_rpc s x)"
    using net_okD_open [OF assms(3)] assms(5) by (simp add: conn_table_def)
  moreover have "read_packet (payload pb u 2 q m) = Inr (u, 2, q, Marshal pb m)"
    by (rule read_packet_payload) (use assms in simp_all)
  ultimately show ?thesis
    using assms(4,5) by (simp add: Process_def GetRpcContext_hit chan_send_def net_upd_defs)
qed

text \<open>A call whose context carries an error text returns false.\<close>

lemma Call_select_error:
  assumes "rc_szErrorMsg (n_rpc s x) \<noteq> []"
  shows "fst (Call_select f sel c q x s) = Ret None" "n_conn (snd (Call_select f sel c q x s)) = n_conn s"
  using assms
  by (cases sel; cases "rc_aryMsg (n_rpc s x)"; simp add: Call_select_def chan_recv_def ErrorMsg_def set_rpc_def)+

text \<open>What losing the connection does to one waiting call.\<close>

lemma clean_contexts_marks:
  "net_ok s \<Longrightarrow> conn_table c s = es \<Longrightarrow> (q, x) \<in> set es \<Longrightarrow>
     (case n_rpc (snd (clean_contexts c r es s)) x of v \<Rightarrow>
        rc_szErrorMsg v = r \<and> rc_bCancel v \<and> rc_bClosed v)"
proof (induction c r es s rule: clean_contexts.induct)
  case (1 c r s)
  then show ?case by simp
next
  case (2 c r q' y rest s)
  define v where "v = (n_rpc s y)\<lparr>rc_szErrorMsg := r, rc_bCancel := True, rc_bClosed := True\<rparr>"
  define s2 where "s2 = set_conn_table c (mdel q' (conn_table c s)) (set_rpc y v s)"
  have look: "mget (conn_table c s) q' = Some y" using 2(3) by simp
  have rest: "mdel q' ((q', y) # rest) = rest"
    using net_okD_gomap [OF 2(2), of "sc_mRequestContext (n_conn s c)"] 2(3)
    by (simp add: gomap_ok_def conn_table_def delete_idem)
  have op: "\<not> rc_bClosed (n_rpc s y)"
    using net_okD_open [OF 2(2)] look by (simp add: conn_table_def)
  have close: "chan_close y (CancelFunc y (setErrorMsg y r s)) = (Ret (), set_rpc y v s)"
    using op by (simp add: chan_close_def CancelFunc_def setErrorMsg_def net_upd_defs v_def)
  have step: "clean_contexts c r ((q', y) # rest) s = clean_contexts c r rest s2"
    using close by (simp add: s2_def net_upd_defs)
  have ok2: "net_ok s2" unfolding s2_def by (rule net_ok_take_out [OF 2(2) look])
  have tab2: "conn_table c s2 = rest" using 2(3) rest by (simp add: s2_def net_upd_defs)
  show ?case
  proof (cases "(q, x) \<in> set rest")
    case True
    have "set_conn_table c (mdel q' (conn_table c (set_rpc y v s))) (set_rpc y v s) = s2"
      by (simp add: s2_def net_upd_defs)
    with 2(1) [OF close [symmetric] refl] ok2 tab2 True show ?thesis
      unfolding step by simp
  next
    case False
    then have xy: "x = y" using 2(4) by simp
    have "\<not> waiting s2 y" unfolding s2_def by (rule take_out_not_waiting [OF 2(2) look])
    then have "n_rpc (snd (clean_contexts c r rest s2)) y = n_rpc s2 y"
      using clean_contexts_ok [OF ok2 tab2, of r] by (auto split: prod.splits)
    then show ?thesis unfolding step xy by (simp add: s2_def v_def net_upd_defs)
  qed
qed

section \<open>Properties\<close>

text \<open>
  A call gets the response to its own request id: after the request is sent, a
  response with that id arriving on the connection wakes the call up, and \<^verbatim>\<open>Start\<close>
  returns what \<^verbatim>\<open>proto.Unmarshal\<close> makes of the body; the call waits no longer, so a
  second response with the id goes to the handlers.
\<close>

lemma call_response:
  assumes "net_ok s" "Call_begin pb cc s = (Some x, s1)"
    and "call_ptrServerConnection cc = Some c"
    and "string_fits u" "string_fits (call_szRequestID cc)"
    and "GetRequestContext ctx = Some rc" "rq_ptrServerConnection rc = c"
    and "Process rt (payload pb u 2 (call_szRequestID cc) m) ctx s1 = (z, s2)"
  shows "z = Ret True \<and> select_ready SelMsg False x s2
     \<and> fst (Call_select f SelMsg c (call_szRequestID cc) x s2) = Ret (f (Marshal pb m))
     \<and> mget (conn_table c s2) (call_szRequestID cc) = None"
proof -
  obtain s0 where add: "AddRpcContext c (call_szRequestID cc) s = (x, s0)"
    and wr: "\<exists>b. Write c b s0 = (True, s1)"
    using assms(2,3) by (auto simp: Call_begin_def split: prod.splits bool.splits)
  have ok0: "net_ok s0" using net_ok_AddRpcContext [OF assms(1)] add by (metis snd_conv)
  have eq: "n_rpc s1 = n_rpc s0" "n_table s1 = n_table s0" "n_nextRpc s1 = n_nextRpc s0"
    "conn_table c s1 = conn_table c s0"
    using wr by (auto simp: Write_def net_upd_defs split: option.splits)
  have ok1: "net_ok s1" using ok0 eq by (simp add: net_ok_def)
  have look: "mget (conn_table c s1) (call_szRequestID cc) = Some x" and fresh: "n_rpc s1 x = rpc_zero"
    using AddRpcContext_waits [OF add] eq by auto
  have "Process rt (payload pb u 2 (call_szRequestID cc) m) ctx s1
      = (Ret True, set_conn_table c (mdel (call_szRequestID cc) (conn_table c s1))
          (set_rpc x (rpc_zero\<lparr>rc_aryMsg := [Marshal pb m]\<rparr>) s1))"
    using Process_response [OF assms(4,5) ok1 assms(6)] look fresh assms(7) by (simp add: rpc_zero_def)
  then have "z = Ret True" and s2: "s2 = set_conn_table c (mdel (call_szRequestID cc) (conn_table c s1))
          (set_rpc x (rpc_zero\<lparr>rc_aryMsg := [Marshal pb m]\<rparr>) s1)"
    using assms(8) by simp_all
  then show ?thesis
    by (simp add: select_ready_def Call_select_def chan_recv_def ErrorMsg_def net_upd_defs rpc_zero_def)
qed

definition example_call :: CallContext where
  "example_call = NewCall ''id'' ''node.getEntry'' (MGetEntryReq GetEntryReq) (Some 0)"

lemma call_response_example:
  "fst (Call_select Some SelMsg 0 ''id'' 0 (snd (Process []
     (payload lib_stub [] 2 ''id'' (MGetEntryReq GetEntryReq)) example_ctx
     (snd (Call_begin lib_stub example_call net_zero))))) = Ret (Some [])"
proof -
  have sent: "Call_begin lib_stub example_call net_zero
      = (Some 0, snd (Call_begin lib_stub example_call net_zero))"
    by (simp add: Call_begin_def example_call_def NewCall_def AddRpcContext_def Let_def net_upd_defs
        Write_def transport_error_def net_zero_def conn_zero_def split: prod.splits)
  have ok: "net_ok net_zero" by (simp add: net_ok_def net_zero_def)
  show ?thesis
    using call_response [OF ok sent, where c = 0 and u = "[]" and ctx = example_ctx
        and rc = "the example_ctx" and rt = "[]" and m = "MGetEntryReq GetEntryReq" and f = Some,
        OF _ _ _ _ _ surjective_pairing]
    by (simp add: example_call_def NewCall_def string_fits_def example_ctx_def
        GetRequestContext_def lib_stub_def)
qed

text \<open>
  C31. Losing the connection fails every call that waits on it: when the table is
  cleaned for a reason that is not empty, both branches of the \<^verbatim>\<open>select\<close> of each waiting
  call are ready and both make \<^verbatim>\<open>Start\<close> return false, for good.
\<close>

theorem call_connection_lost:
  assumes "net_ok s" "mget (conn_table c s) q = Some x" "r \<noteq> []" "rc_aryMsg (n_rpc s x) = []"
    and "cleanAllRpcContext c r s = (z, t)"
  shows "z = Ret () \<and> conn_table c t = [] \<and> select_ready SelMsg False x t
     \<and> select_ready SelDone False x t
     \<and> fst (Call_select f sel c q x t) = Ret None"
proof -
  have "z = Ret () \<and> conn_table c t = []"
    using clean_contexts_ok [OF assms(1) refl, of c r] assms(5)
    by (simp add: cleanAllRpcContext_def)
  moreover have "rc_szErrorMsg (n_rpc t x) = r \<and> rc_bCancel (n_rpc t x) \<and> rc_bClosed (n_rpc t x)"
    using clean_contexts_marks [OF assms(1) refl mget_in_set [OF assms(2)], of r] assms(5)
    by (simp add: cleanAllRpcContext_def)
  ultimately show ?thesis
    using assms(3)
    by (cases sel)
      (auto simp: select_ready_def Call_select_def chan_recv_def ErrorMsg_def net_upd_defs
        split: list.splits)
qed

theorem call_connection_lost_witness:
  "fst (Call_select Some SelMsg 0 ''q'' 0
      (snd (cleanAllRpcContext 0 ''read err:'' (snd (AddRpcContext 0 ''q'' net_zero))))) = Ret None"
proof -
  define s where "s = snd (AddRpcContext 0 ''q'' net_zero)"
  have add: "AddRpcContext 0 ''q'' net_zero = (0, s)"
    by (simp add: s_def AddRpcContext_def Let_def net_zero_def)
  have "net_ok net_zero" by (simp add: net_ok_def net_zero_def)
  then have ok: "net_ok s" unfolding s_def by (rule net_ok_AddRpcContext)
  show ?thesis
    using call_connection_lost [OF ok, of 0 "''q''" 0 "''read err:''", OF _ _ _ surjective_pairing,
        of Some SelMsg] AddRpcContext_waits [OF add]
    by (simp add: s_def rpc_zero_def)
qed

text \<open>
  C32. A call that times out is forgotten: \<^verbatim>\<open>Start\<close> returns false, its id leaves the
  table and its channel is closed.  But the id names whatever call holds it: when a
  second call x2 took the id of x1 over, it is x2 whose channel the timeout of x1 closes,
  and x2, which carries no error text, then returns the decoding of the empty body as if
  it were the response.
\<close>

theorem call_timeout:
  assumes "net_ok s" "mget (conn_table c s) q = Some x2"
    and "rc_szErrorMsg (n_rpc s x1) = []" "rc_szErrorMsg (n_rpc s x2) = []"
    and "rc_aryMsg (n_rpc s x2) = []"
    and "Call_select f SelDone c q x1 s = (z, t)"
  shows "z = Ret None \<and> mget (conn_table c t) q = None \<and> rc_bClosed (n_rpc t x2) \<and> net_ok t
     \<and> select_ready SelMsg False x2 t
     \<and> fst (Call_select g SelMsg c q x2 t) = Ret (g [])"
proof -
  let ?t = "set_conn_table c (mdel q (conn_table c s))
              (set_rpc x2 ((n_rpc s x2)\<lparr>rc_bClosed := True\<rparr>) s)"
  have look: "mget (conn_table c s) q = Some x2" using assms(2) .
  have "\<not> rc_bClosed (n_rpc s x2)"
    using net_okD_open [OF assms(1)] look by (simp add: conn_table_def)
  then have zt: "z = Ret None \<and> t = ?t"
    using assms(3,6) look
    by (auto simp: Call_select_def ErrorMsg_def RemoveRpcContext_def chan_close_def net_upd_defs)
  moreover have "net_ok ?t" by (rule net_ok_take_out [OF assms(1) look])
  ultimately show ?thesis
    using assms(4,5)
    by (simp add: select_ready_def Call_select_def chan_recv_def ErrorMsg_def net_upd_defs)
qed

definition example_two_calls :: net where
  "example_two_calls = snd (AddRpcContext 0 ''q'' (snd (AddRpcContext 0 ''q'' net_zero)))"

theorem call_timeout_witness:
  "fst (Call_select Some SelMsg 0 ''q'' 1 (snd (Call_select Some SelDone 0 ''q'' 0 example_two_calls)))
     = Ret (Some [])"
proof -
  have "net_ok net_zero" by (simp add: net_ok_def net_zero_def)
  then have ok: "net_ok example_two_calls"
    unfolding example_two_calls_def by (intro net_ok_AddRpcContext)
  show ?thesis
    using call_timeout [OF ok, of 0 "''q''" 1 0 Some, OF _ _ _ _ surjective_pairing, of Some]
    by (simp add: example_two_calls_def AddRpcContext_def Let_def net_upd_defs net_zero_def)
qed

end
