(* ===== verification/Node.thy ===== *)
theory Node
  imports Rpc
begin

text \<open>
  \<^verbatim>\<open>node/node.go\<close> and \<^verbatim>\<open>node/common.go\<close>: what a node knows about a node, itself
  included: its address, its connections, its status, the entries it offers and the
  version of that knowledge.

  \<^verbatim>\<open>*Info\<close> pointers are addresses into the store \<open>nm_info\<close>.  The name and the address of
  the own node are \<open>nm_MyInfo\<close>, the value the code keeps in its context.  Time, random
  choices and new UUIDs are arguments.  A task given to the worker pool is appended to
  \<open>nm_task\<close>; a call that waits for its response is recorded in \<open>nm_wait\<close> together with
  what is done with the response.
\<close>

section \<open>Constants and configuration\<close>

abbreviation (input) NODE_STATUS_DEAD :: uint32 where "NODE_STATUS_DEAD \<equiv> 1"
abbreviation (input) NODE_STATUS_ALIVE :: uint32 where "NODE_STATUS_ALIVE \<equiv> 2"
abbreviation (input) NODE_STATUS_SYNCING :: uint32 where "NODE_STATUS_SYNCING \<equiv> 3"

record node_env =
  ne_pb :: proto_lib
  ne_szSecretKey :: string
  ne_NeighbourMaxConnection :: nat

text \<open>
  What the environment decides during one operation: a random number for a choice among
  nodes, and for each node it talks to a random number and a UUID.
\<close>

record choice =
  ch_pick :: nat
  ch_rand :: "nat \<Rightarrow> nat"
  ch_uuid :: "nat \<Rightarrow> string"

definition NeighbourMaxConnection :: "int \<Rightarrow> nat" where
  "NeighbourMaxConnection configured = (if 0 < configured then nat configured else 10)"

definition makeSign :: "string \<Rightarrow> string \<Rightarrow> int64 \<Rightarrow> string" where
  "makeSign szSecretKey szID nNow =
     hex_EncodeToString (hmac_md5 szSecretKey (szID @ FormatInt nNow))"

definition getUri2 :: "node_env \<Rightarrow> string \<Rightarrow> EntryType \<Rightarrow> string" where
  "getUri2 E szUri enmEntryType = szUri @ ''_'' @ EntryType_String (ne_pb E) enmEntryType"

definition getUri :: "node_env \<Rightarrow> EntryInfo \<Rightarrow> string" where
  "getUri E ptrEntry =
     EntryInfo_URI ptrEntry @ ''_'' @ EntryType_String (ne_pb E) (EntryInfo_EntryType ptrEntry)"

section \<open>State\<close>

record Info =
  info_szName :: string
  info_szIP :: string
  info_nPort :: uint16
  info_nAgentPort :: uint16
  info_aryConnectionList :: "connref list"
  info_nSequence :: uint32
  info_nStatus :: uint32
  info_mEntryInfo :: "(string, EntryInfo) gomap"
  info_nDataVersion :: uint64
  info_nLastKeepAliveTime :: int64
  info_nInstanceID :: uint64

type_synonym noderef = nat

datatype NodeTask =
    TProcess connref bytes ctx
  | TReconnect noderef
  | TTrySyncAll noderef uint64 ctx
  | THelloKeepAlive ctx
  | TCloseConnection ctx
  | TMakeFriends "NodeInfo list" ctx
  | TNotifyEntry EntryInfo

datatype NodeWait = WaitHello noderef | WaitEntry noderef

record WaitingCall =
  wt_rpc :: nat
  wt_conn :: connref
  wt_szRequestID :: string
  wt_then :: NodeWait

record nodes = net +
  nm_info :: "noderef \<Rightarrow> Info"
  nm_nNextInfo :: nat
  nm_MyInfo :: NodeInfo
  nm_task :: "NodeTask list"
  nm_wait :: "WaitingCall list"

definition set_info :: "noderef \<Rightarrow> Info \<Rightarrow> 'a nodes_scheme \<Rightarrow> 'a nodes_scheme" where
  "set_info n v s = s\<lparr>nm_info := (nm_info s)(n := v)\<rparr>"

definition GoTask :: "NodeTask \<Rightarrow> 'a nodes_scheme \<Rightarrow> 'a nodes_scheme" where
  "GoTask k s = s\<lparr>nm_task := nm_task s @ [k]\<rparr>"

definition go_wait ::
  "nat \<Rightarrow> connref \<Rightarrow> string \<Rightarrow> NodeWait \<Rightarrow> 'a nodes_scheme \<Rightarrow> 'a nodes_scheme" where
  "go_wait x c szRequestID k s =
     s\<lparr>nm_wait := nm_wait s @ [\<lparr>wt_rpc = x, wt_conn = c, wt_szRequestID = szRequestID, wt_then = k\<rparr>]\<rparr>"

section \<open>Operations\<close>

definition newNode ::
  "string \<Rightarrow> string \<Rightarrow> uint64 \<Rightarrow> uint16 \<Rightarrow> uint16 \<Rightarrow> int64 \<Rightarrow> 'a nodes_scheme
     \<Rightarrow> noderef \<times> 'a nodes_scheme" where
  "newNode szName szIP nInstanceID nPort nAgentPort nNow s =
     (let n = nm_nNextInfo s;
          v = \<lparr>info_szName = szName, info_szIP = szIP, info_nPort = nPort, info_nAgentPort = nAgentPort,
               info_aryConnectionList = [], info_nSequence = 0, info_nStatus = NODE_STATUS_ALIVE,
               info_mEntryInfo = [], info_nDataVersion = 0, info_nLastKeepAliveTime = nNow,
               info_nInstanceID = nInstanceID\<rparr>
      in (n, set_info n v (s\<lparr>nm_nNextInfo := Suc n\<rparr>)))"

definition removeConnection :: "noderef \<Rightarrow> connref \<Rightarrow> 'a nodes_scheme \<Rightarrow> nat \<times> 'a nodes_scheme" where
  "removeConnection n c s =
     (let aryConnectionList = filter (\<lambda>c'. c' \<noteq> c) (info_aryConnectionList (nm_info s n))
      in (length aryConnectionList,
          set_info n ((nm_info s n)\<lparr>info_aryConnectionList := aryConnectionList\<rparr>) s))"

definition alive :: "noderef \<Rightarrow> 'a nodes_scheme \<Rightarrow> bool" where
  "alive n s \<longleftrightarrow> info_nStatus (nm_info s n) \<noteq> NODE_STATUS_DEAD"

definition addConnection :: "node_env \<Rightarrow> noderef \<Rightarrow> connref \<Rightarrow> 'a nodes_scheme \<Rightarrow> 'a nodes_scheme" where
  "addConnection E n c s =
     (if \<not> alive n s then Close c s
      else if ne_NeighbourMaxConnection E < length (info_aryConnectionList (nm_info s n)) then Close c s
      else set_info n
        ((nm_info s n)\<lparr>info_aryConnectionList := info_aryConnectionList (nm_info s n) @ [c]\<rparr>) s)"

definition getAllEntry :: "noderef \<Rightarrow> 'a nodes_scheme \<Rightarrow> EntryInfo list" where
  "getAllEntry n s = map snd (info_mEntryInfo (nm_info s n))"

definition markDead :: "noderef \<Rightarrow> 'a nodes_scheme \<Rightarrow> EntryInfo list \<times> 'a nodes_scheme" where
  "markDead n s =
     (let s' = set_info n ((nm_info s n)\<lparr>info_nStatus := NODE_STATUS_DEAD\<rparr>) s
      in (getAllEntry n s', s'))"

definition connectionAvailable :: "node_env \<Rightarrow> noderef \<Rightarrow> 'a nodes_scheme \<Rightarrow> bool" where
  "connectionAvailable E n s \<longleftrightarrow>
     ne_NeighbourMaxConnection E div 2 \<le> length (info_aryConnectionList (nm_info s n))"

definition getInstanceID :: "noderef \<Rightarrow> 'a nodes_scheme \<Rightarrow> uint64" where
  "getInstanceID n s = info_nInstanceID (nm_info s n)"

definition setInstanceID :: "noderef \<Rightarrow> uint64 \<Rightarrow> 'a nodes_scheme \<Rightarrow> 'a nodes_scheme" where
  "setInstanceID n nInstanceID s =
     set_info n ((nm_info s n)\<lparr>info_nDataVersion := 0, info_nInstanceID := nInstanceID\<rparr>) s"

text \<open>\<^verbatim>\<open>atomic.AddUint32(&nSequence, 1)\<close> inside the request id of a call or cast.\<close>

definition nextRequestID :: "noderef \<Rightarrow> 'a nodes_scheme \<Rightarrow> string \<times> 'a nodes_scheme" where
  "nextRequestID n s =
     (let v = nm_info s n; q = info_nSequence v + 1
      in (NodeInfo_Name (nm_MyInfo s) @ ''_'' @ info_szName v @ ''_'' @ FormatUint q,
          set_info n (v\<lparr>info_nSequence := q\<rparr>) s))"

text \<open>
  \<^verbatim>\<open>reconnect\<close> up to the wait for the answer to its hello.  A dial that fails leaves a nil
  connection, and closing it panics.
\<close>

definition reconnect_begin ::
  "node_env \<Rightarrow> int64 \<Rightarrow> (bool \<times> string) \<Rightarrow> string \<Rightarrow> noderef \<Rightarrow> 'a nodes_scheme
     \<Rightarrow> unit outcome \<times> 'a nodes_scheme" where
  "reconnect_begin E nNow dial szUUID n s =
     (if \<not> alive n s then (Ret (), s)
      else if connectionAvailable E n s then (Ret (), s)
      else
        (case NewClient (fst dial) (snd dial) (info_szIP (nm_info s n)) (info_nPort (nm_info s n)) [] s of
           (None, s1) \<Rightarrow> (Panics, s1)
         | (Some c, s1) \<Rightarrow>
             let objReq = \<lparr>SayHelloReq_NodeInfo = Some (nm_MyInfo s1),
                   SayHelloReq_Sign = makeSign (ne_szSecretKey E) (NodeInfo_Name (nm_MyInfo s1)) nNow,
                   SayHelloReq_TimeStamp = nNow, SayHelloReq_DataVersion = 0\<rparr>;
                 (szRequestID, s2) = nextRequestID n s1;
                 cc = (NewCall szUUID NODE_SAY_HELLO (MSayHelloReq objReq) (Some c))
                        \<lparr>call_szRequestID := szRequestID, call_nTimeoutMs := 2000\<rparr>
             in (case Call_begin (ne_pb E) cc s2 of
                   (None, s3) \<Rightarrow> (Ret (), s3)
                 | (Some x, s3) \<Rightarrow> (Ret (), go_wait x c szRequestID (WaitHello n) s3))))"

text \<open>The rest of \<^verbatim>\<open>reconnect\<close>, for the answer \<^verbatim>\<open>Start\<close> returned (\<^term>\<open>None\<close> for false).\<close>

definition reconnect_finish ::
  "node_env \<Rightarrow> noderef \<Rightarrow> connref \<Rightarrow> SayHelloRsp option \<Rightarrow> 'a nodes_scheme \<Rightarrow> 'a nodes_scheme" where
  "reconnect_finish E n c rsp s =
     (case rsp of
        None \<Rightarrow> s
      | Some objRsp \<Rightarrow>
          if SayHelloRsp_Result objRsp \<noteq> ResultCode_SUCCESS then Close c s
          else (case SayHelloRsp_NodeInfo objRsp of
             None \<Rightarrow> Close c s
           | Some i \<Rightarrow>
               let szSign = makeSign (ne_szSecretKey E) (NodeInfo_Name i) (SayHelloRsp_TimeStamp objRsp)
               in if szSign \<noteq> SayHelloRsp_Sign objRsp then Close c s
                  else if NodeInfo_Name i \<noteq> info_szName (nm_info s n) then Close c s
                  else
                    let s1 = addConnection E n c (bind_ctx c (CtxNode n) s)
                    in if NodeInfo_InstanceID i \<noteq> getInstanceID n s1
                       then setInstanceID n (NodeInfo_InstanceID i) s1 else s1))"

definition getConnection :: "nat \<Rightarrow> noderef \<Rightarrow> 'a nodes_scheme \<Rightarrow> connref option \<times> 'a nodes_scheme" where
  "getConnection r n s =
     (let aryConnectionList = info_aryConnectionList (nm_info s n)
      in (if aryConnectionList = [] then None else Some (pick r aryConnectionList),
          GoTask (TReconnect n) s))"

definition cast_node ::
  "choice \<Rightarrow> noderef \<Rightarrow> string \<Rightarrow> ProtoMsg \<Rightarrow> ctx \<Rightarrow> 'a nodes_scheme
     \<Rightarrow> CastContext \<times> 'a nodes_scheme" where
  "cast_node ch n szUri objReq ctx s =
     (case getConnection (ch_rand ch n) n s of
        (ptrServerConnection, s1) \<Rightarrow>
          let cc = NewCast (ch_uuid ch n) szUri objReq ptrServerConnection
          in if GetRequestID ctx = '''' then
               (case nextRequestID n s1 of (q, s2) \<Rightarrow> (cc\<lparr>cast_szRequestID := q\<rparr>, s2))
             else (cc, s1))"

text \<open>\<^verbatim>\<open>ptrNode.cast(...).Start()\<close>\<close>

definition cast_Start ::
  "node_env \<Rightarrow> choice \<Rightarrow> noderef \<Rightarrow> string \<Rightarrow> ProtoMsg \<Rightarrow> ctx \<Rightarrow> 'a nodes_scheme
     \<Rightarrow> bool \<times> 'a nodes_scheme" where
  "cast_Start E ch n szUri objReq ctx s =
     (case cast_node ch n szUri objReq ctx s of (cc, s1) \<Rightarrow> Cast_Start (ne_pb E) cc s1)"

text \<open>
  \<^verbatim>\<open>call\<close> draws a request id when the context has none, and then returns a call that does
  not use it: its id is that of the context, and empty without one.
\<close>

definition call_node ::
  "choice \<Rightarrow> noderef \<Rightarrow> string \<Rightarrow> ProtoMsg \<Rightarrow> ctx \<Rightarrow> 'a nodes_scheme
     \<Rightarrow> CallContext \<times> 'a nodes_scheme" where
  "call_node ch n szUri objReq ctx s =
     (case getConnection (ch_rand ch n) n s of
        (ptrServerConnection, s1) \<Rightarrow>
          let szRequestID = GetRequestID ctx;
              s2 = (if szRequestID = '''' then snd (nextRequestID n s1) else s1)
          in ((NewCall (ch_uuid ch n) szUri objReq ptrServerConnection)
                \<lparr>call_szRequestID := szRequestID\<rparr>, s2))"

definition apply_entry ::
  "node_env \<Rightarrow> EntryInfo \<Rightarrow> (string, EntryInfo) gomap \<Rightarrow> (string, EntryInfo) gomap" where
  "apply_entry E ptrEntry m =
     (if EntryInfo_IsNew ptrEntry then mput (getUri E ptrEntry) ptrEntry m
      else mdel (getUri E ptrEntry) m)"

definition syncEntry ::
  "node_env \<Rightarrow> noderef \<Rightarrow> EntryInfo list \<Rightarrow> uint64 \<Rightarrow> 'a nodes_scheme \<Rightarrow> 'a nodes_scheme" where
  "syncEntry E n aryEntry nVersion s =
     set_info n ((nm_info s n)\<lparr>info_nDataVersion := nVersion, info_nStatus := NODE_STATUS_ALIVE,
       info_mEntryInfo := forEach (apply_entry E) aryEntry []\<rparr>) s"

definition entryExist2 ::
  "node_env \<Rightarrow> noderef \<Rightarrow> string \<Rightarrow> EntryType \<Rightarrow> bool \<Rightarrow> 'a nodes_scheme \<Rightarrow> bool" where
  "entryExist2 E n szUri enmEntryType bTolerateDeadNode s \<longleftrightarrow>
     (if \<not> bTolerateDeadNode \<and> \<not> alive n s then False
      else mget (info_mEntryInfo (nm_info s n)) (getUri2 E szUri enmEntryType) \<noteq> None)"

definition entryExist :: "node_env \<Rightarrow> noderef \<Rightarrow> EntryInfo \<Rightarrow> 'a nodes_scheme \<Rightarrow> bool" where
  "entryExist E n ptrEntry s \<longleftrightarrow> mget (info_mEntryInfo (nm_info s n)) (getUri E ptrEntry) \<noteq> None"

text \<open>One round of the loop of \<^verbatim>\<open>modifyEntry\<close>: the new map and whether the entry changed.\<close>

definition modify_one ::
  "node_env \<Rightarrow> bool \<Rightarrow> EntryInfo \<Rightarrow> (string, EntryInfo) gomap \<times> EntryInfo list
     \<Rightarrow> (string, EntryInfo) gomap \<times> EntryInfo list" where
  "modify_one E bAlive ptrEntry st =
     (if EntryInfo_IsNew ptrEntry \<and> bAlive then
        (mput (getUri E ptrEntry) ptrEntry (fst st), snd st @ [ptrEntry])
      else if \<not> EntryInfo_IsNew ptrEntry then
        (mdel (getUri E ptrEntry) (fst st), snd st @ [ptrEntry])
      else st)"

definition modifyEntry ::
  "node_env \<Rightarrow> noderef \<Rightarrow> EntryInfo list \<Rightarrow> uint64 \<Rightarrow> 'a nodes_scheme
     \<Rightarrow> (bool \<times> EntryInfo list) \<times> 'a nodes_scheme" where
  "modifyEntry E n aryEntry nVersion s =
     (let v = nm_info s n in
      if nVersion \<noteq> info_nDataVersion v + 1 then
        ((True, []), set_info n (v\<lparr>info_nStatus := NODE_STATUS_SYNCING\<rparr>) s)
      else
        (case forEach (modify_one E (alive n s)) aryEntry (info_mEntryInfo v, []) of
           (m, aryChangeEntry) \<Rightarrow>
             ((False, aryChangeEntry),
              set_info n (v\<lparr>info_nDataVersion := nVersion, info_mEntryInfo := m\<rparr>) s)))"

definition needSyncAll :: "noderef \<Rightarrow> uint64 \<Rightarrow> 'a nodes_scheme \<Rightarrow> bool \<times> 'a nodes_scheme" where
  "needSyncAll n nDataVersion s =
     (if info_nDataVersion (nm_info s n) \<noteq> nDataVersion then
        (True, set_info n ((nm_info s n)\<lparr>info_nStatus := NODE_STATUS_SYNCING\<rparr>) s)
      else (False, s))"

definition getState :: "noderef \<Rightarrow> 'a nodes_scheme \<Rightarrow> uint32" where
  "getState n s = info_nStatus (nm_info s n)"

definition refreshKeepLiveTime :: "int64 \<Rightarrow> noderef \<Rightarrow> 'a nodes_scheme \<Rightarrow> 'a nodes_scheme" where
  "refreshKeepLiveTime nNow n s =
     set_info n ((nm_info s n)\<lparr>info_nLastKeepAliveTime := nNow\<rparr>) s"

definition timeout :: "int64 \<Rightarrow> int64 \<Rightarrow> noderef \<Rightarrow> 'a nodes_scheme \<Rightarrow> bool" where
  "timeout nNow nTimeout n s \<longleftrightarrow> gt64 nNow (info_nLastKeepAliveTime (nm_info s n) + nTimeout)"

end
