(* ===== verification/Json.thy ===== *)
theory Json
  imports GoLib
begin

text \<open>
  What the code uses of \<^verbatim>\<open>encoding/json\<close>: the quoting of strings, which replaces bytes that
  are not UTF-8 and escapes the characters that are special in HTML, and the parser,
  which first checks the whole text and then decodes it.

  The parser recurses on fuel; one unit more than the length of the text is enough,
  because every recursive call has consumed at least one byte.
\<close>

abbreviation ord :: "char \<Rightarrow> nat" where "ord c \<equiv> of_char c"

abbreviation (input) BACKSLASH :: char where "BACKSLASH \<equiv> CHR 0x5C"
abbreviation (input) QUOTE :: char where "QUOTE \<equiv> CHR 0x22"

section \<open>UTF-8\<close>

text \<open>The length of the encoded rune at the front, 0 where the bytes are not UTF-8.\<close>

definition utf8_in :: "nat \<Rightarrow> nat \<Rightarrow> char \<Rightarrow> bool" where
  "utf8_in lo hi c \<longleftrightarrow> lo \<le> ord c \<and> ord c \<le> hi"

definition utf8_pair :: "char \<Rightarrow> char \<Rightarrow> bool" where
  "utf8_pair a b \<longleftrightarrow> utf8_in 194 223 a \<and> utf8_in 128 191 b"

definition utf8_triple :: "char \<Rightarrow> char \<Rightarrow> char \<Rightarrow> bool" where
  "utf8_triple a b d \<longleftrightarrow>
     utf8_in 224 239 a
   \<and> utf8_in (if ord a = 224 then 160 else 128) (if ord a = 237 then 159 else 191) b
   \<and> utf8_in 128 191 d"

definition utf8_quad :: "char \<Rightarrow> char \<Rightarrow> char \<Rightarrow> char \<Rightarrow> bool" where
  "utf8_quad a b d e \<longleftrightarrow>
     utf8_in 240 244 a
   \<and> utf8_in (if ord a = 240 then 144 else 128) (if ord a = 244 then 143 else 191) b
   \<and> utf8_in 128 191 d \<and> utf8_in 128 191 e"

fun utf8_len :: "bytes \<Rightarrow> nat" where
  "utf8_len [] = 0"
| "utf8_len (a # r) =
     (if ord a < 128 then 1
      else (case r of [] \<Rightarrow> 0 | b # r2 \<Rightarrow>
        if utf8_pair a b then 2
        else (case r2 of [] \<Rightarrow> 0 | d # r3 \<Rightarrow>
          if utf8_triple a b d then 3
          else (case r3 of [] \<Rightarrow> 0 | e # _ \<Rightarrow> if utf8_quad a b d e then 4 else 0))))"

declare utf8_len.simps [simp del]

definition utf8_enc :: "nat \<Rightarrow> bytes" where
  "utf8_enc n =
     (if n < 128 then [char_of n]
      else if n < 2048 then [char_of (192 + n div 64), char_of (128 + n mod 64)]
      else if n < 65536 then
        [char_of (224 + n div 4096), char_of (128 + n div 64 mod 64), char_of (128 + n mod 64)]
      else
        [char_of (240 + n div 262144), char_of (128 + n div 4096 mod 64),
         char_of (128 + n div 64 mod 64), char_of (128 + n mod 64)])"

abbreviation (input) rune_error :: bytes where "rune_error \<equiv> utf8_enc 65533"

function utf8_ok :: "bytes \<Rightarrow> bool" where
  "utf8_ok [] = True"
| "utf8_ok (c # cs) = (0 < utf8_len (c # cs) \<and> utf8_ok (drop (utf8_len (c # cs) - 1) cs))"
  by pat_completeness auto
termination
  by (relation "measure length") auto

declare utf8_ok.simps [simp del]

section \<open>Quoting\<close>

definition json_escape_byte :: "char \<Rightarrow> bytes" where
  "json_escape_byte c =
     (if c = QUOTE \<or> c = BACKSLASH then [BACKSLASH, c]
      else if c = CHR 0x0A then [BACKSLASH, CHR ''n'']
      else if c = CHR 0x0D then [BACKSLASH, CHR ''r'']
      else if c = CHR 0x09 then [BACKSLASH, CHR ''t'']
      else if ord c < 32 \<or> c = CHR ''<'' \<or> c = CHR ''>'' \<or> c = CHR ''&'' then
        [BACKSLASH, CHR ''u'', CHR ''0'', CHR ''0'', hexdigit (ord c div 16), hexdigit (ord c mod 16)]
      else [c])"

definition line_sep :: "bytes \<Rightarrow> bool" where
  "line_sep bs \<longleftrightarrow> bs = utf8_enc 8232 \<or> bs = utf8_enc 8233"

function json_escape :: "bytes \<Rightarrow> bytes" where
  "json_escape [] = []"
| "json_escape (c # cs) =
     (if ord c < 128 then json_escape_byte c @ json_escape cs
      else
        let k = utf8_len (c # cs); rune = take k (c # cs) in
        if k = 0 then BACKSLASH # ''ufffd'' @ json_escape cs
        else if line_sep rune then
          BACKSLASH # ''u202'' @ [if rune = utf8_enc 8232 then CHR ''8'' else CHR ''9'']
            @ json_escape (drop (k - 1) cs)
        else rune @ json_escape (drop (k - 1) cs))"
  by pat_completeness auto
termination
  by (relation "measure length") auto

declare json_escape.simps [simp del]

definition json_quote :: "bytes \<Rightarrow> bytes" where
  "json_quote s = QUOTE # json_escape s @ [QUOTE]"

section \<open>Reading strings\<close>

definition hexval :: "char \<Rightarrow> nat option" where
  "hexval c =
     (let n = ord c in
      if 48 \<le> n \<and> n \<le> 57 then Some (n - 48)
      else if 97 \<le> n \<and> n \<le> 102 then Some (n - 87)
      else if 65 \<le> n \<and> n \<le> 70 then Some (n - 55)
      else None)"

fun hex4 :: "bytes \<Rightarrow> (nat \<times> bytes) option" where
  "hex4 (a # b # c # d # r) =
     (case (hexval a, hexval b, hexval c, hexval d) of
        (Some w, Some x, Some y, Some z) \<Rightarrow> Some (4096 * w + 256 * x + 16 * y + z, r)
      | _ \<Rightarrow> None)"
| "hex4 _ = None"

text \<open>
  The rune of an escape that starts with four hexadecimal digits: two surrogates in a row
  make one rune, a surrogate alone is an error and becomes the replacement character.
\<close>

definition json_rune :: "nat \<Rightarrow> bytes \<Rightarrow> nat \<times> bytes" where
  "json_rune n r =
     (if n < 55296 \<or> 57344 \<le> n then (n, r)
      else if 56320 \<le> n then (65533, r)
      else (case r of
          x # y # r' \<Rightarrow>
            if x = BACKSLASH \<and> y = CHR ''u'' then
              (case hex4 r' of
                 Some (m, r'') \<Rightarrow>
                   if 56320 \<le> m \<and> m < 57344 then (65536 + 1024 * (n - 55296) + (m - 56320), r'')
                   else (65533, r)
               | None \<Rightarrow> (65533, r))
            else (65533, r)
        | _ \<Rightarrow> (65533, r)))"

definition json_unescape_byte :: "char \<Rightarrow> char option" where
  "json_unescape_byte e =
     (if e = QUOTE \<or> e = BACKSLASH \<or> e = CHR ''/'' then Some e
      else if e = CHR ''b'' then Some (CHR 0x08)
      else if e = CHR ''f'' then Some (CHR 0x0C)
      else if e = CHR ''n'' then Some (CHR 0x0A)
      else if e = CHR ''r'' then Some (CHR 0x0D)
      else if e = CHR ''t'' then Some (CHR 0x09)
      else None)"

lemma hex4_shorter: "hex4 r = Some (n, r') \<Longrightarrow> length r' < length r"
  by (cases r rule: hex4.cases) (auto split: option.splits)

lemma json_rune_shorter: "length (snd (json_rune n r)) \<le> length r"
  by (auto simp: json_rune_def split: list.splits option.splits dest: hex4_shorter)

text \<open>The string after an opening quote, up to its closing quote.\<close>

function json_string :: "bytes \<Rightarrow> (bytes \<times> bytes) option" where
  "json_string [] = None"
| "json_string (c # cs) =
     (if c = QUOTE then Some ([], cs)
      else if c = BACKSLASH then
        (case cs of [] \<Rightarrow> None | e # r \<Rightarrow>
           if e = CHR ''u'' then
             (case hex4 r of
                None \<Rightarrow> None
              | Some (n, r1) \<Rightarrow>
                  map_option (\<lambda>(s, rest). (utf8_enc (fst (json_rune n r1)) @ s, rest))
                    (json_string (snd (json_rune n r1))))
           else (case json_unescape_byte e of
              None \<Rightarrow> None
            | Some b \<Rightarrow> map_option (\<lambda>(s, rest). (b # s, rest)) (json_string r)))
      else if ord c < 32 then None
      else
        let k = utf8_len (c # cs) in
        if k = 0 then map_option (\<lambda>(s, rest). (rune_error @ s, rest)) (json_string cs)
        else map_option (\<lambda>(s, rest). (take k (c # cs) @ s, rest)) (json_string (drop (k - 1) cs)))"
  by pat_completeness auto
termination
proof (relation "measure length", goal_cases)
  case (2 c cs e r a n r1)
  then show ?case using hex4_shorter [of r n r1] json_rune_shorter [of n r1] by auto
qed auto

declare json_string.simps [simp del]

section \<open>A quoted string is read back\<close>

lemma hexval_hexdigit: "k < 16 \<Longrightarrow> hexval (hexdigit k) = Some k"
  by (auto simp: hexval_def hexdigit_def)

lemma utf8_len_le: "utf8_len bs \<le> length bs"
  by (cases bs) (simp_all add: utf8_len.simps split: list.splits)

lemma utf8_len_prefix:
  assumes "utf8_len bs = k" "0 < k"
  shows "utf8_len (take k bs @ x) = k"
proof (cases bs)
  case Nil
  then show ?thesis using assms by (simp add: utf8_len.simps)
next
  case (Cons a r)
  then show ?thesis
    using assms by (auto simp: utf8_len.simps split: list.splits if_splits)
qed

lemma utf8_len_ascii: "ord c < 128 \<Longrightarrow> utf8_len (c # cs) = 1"
  by (simp add: utf8_len.simps)

lemma json_string_plain:
  assumes "32 \<le> ord c" "c \<noteq> QUOTE" "c \<noteq> BACKSLASH" "ord c < 128"
  shows "json_string (c # r) = map_option (\<lambda>(s, rest). (c # s, rest)) (json_string r)"
  using assms by (subst json_string.simps) (simp add: utf8_len_ascii)

lemma json_string_escape:
  assumes "json_unescape_byte e = Some b"
  shows "json_string (BACKSLASH # e # r) = map_option (\<lambda>(s, rest). (b # s, rest)) (json_string r)"
proof -
  have "e \<noteq> CHR ''u''" using assms by (auto simp: json_unescape_byte_def)
  then show ?thesis using assms by (subst json_string.simps) simp
qed

lemma json_string_hex:
  assumes "n < 55296" "hex4 (w # x # y # z # r) = Some (n, r)"
  shows "json_string (BACKSLASH # CHR ''u'' # w # x # y # z # r)
    = map_option (\<lambda>(s, rest). (utf8_enc n @ s, rest)) (json_string r)"
  using assms by (subst json_string.simps) (simp add: json_rune_def del: hex4.simps)

lemma json_string_ascii:
  assumes "ord c < 128"
  shows "json_string (json_escape_byte c @ r) = map_option (\<lambda>(s, rest). (c # s, rest)) (json_string r)"
proof -
  have zero: "hexval (CHR ''0'') = Some 0" by (simp add: hexval_def)
  let ?hex = "ord c < 32 \<or> c = CHR ''<'' \<or> c = CHR ''>'' \<or> c = CHR ''&''"
  have hex: "json_string (BACKSLASH # CHR ''u'' # CHR ''0'' # CHR ''0'' # hexdigit (ord c div 16)
      # hexdigit (ord c mod 16) # r) = map_option (\<lambda>(s, rest). (c # s, rest)) (json_string r)"
    using assms
    by (subst json_string_hex [where n = "ord c"])
      (auto simp: zero hexval_hexdigit utf8_enc_def)
  show ?thesis
    using hex json_string_escape [of QUOTE QUOTE r] json_string_escape [of BACKSLASH BACKSLASH r]
      json_string_escape [of "CHR ''n''" "CHR 0x0A" r] json_string_escape [of "CHR ''r''" "CHR 0x0D" r]
      json_string_escape [of "CHR ''t''" "CHR 0x09" r] json_string_plain [of c r] assms
    by (auto simp: json_escape_byte_def json_unescape_byte_def not_less)
qed

lemma json_string_rune:
  assumes "128 \<le> ord c" "utf8_len (c # cs) = k" "0 < k"
  shows "json_string (take k (c # cs) @ r)
    = map_option (\<lambda>(s, rest). (take k (c # cs) @ s, rest)) (json_string r)"
proof -
  obtain k' where k: "k = Suc k'" using assms(3) by (cases k) auto
  have len: "utf8_len (c # take k' cs @ r) = Suc k'"
    using utf8_len_prefix [OF assms(2,3), of r] k by simp
  have le: "k' \<le> length cs" using utf8_len_le [of "c # cs"] assms(2) k by simp
  have "c \<noteq> QUOTE \<and> c \<noteq> BACKSLASH" using assms(1) by auto
  then show ?thesis
    using assms(1) le unfolding k
    by (simp add: json_string.simps len)
qed

lemma line_sep_cases:
  "line_sep rune \<Longrightarrow> rune = utf8_enc 8232 \<or> rune = utf8_enc 8233"
  by (simp add: line_sep_def)

lemma json_string_line_sep:
  assumes "line_sep rune"
  shows "json_string (BACKSLASH # ''u202'' @ [if rune = utf8_enc 8232 then CHR ''8'' else CHR ''9''] @ r)
    = map_option (\<lambda>(s, rest). (rune @ s, rest)) (json_string r)"
proof -
  have "json_string (BACKSLASH # ''u2028'' @ r)
      = map_option (\<lambda>(s, rest). (utf8_enc 8232 @ s, rest)) (json_string r)"
    "json_string (BACKSLASH # ''u2029'' @ r)
      = map_option (\<lambda>(s, rest). (utf8_enc 8233 @ s, rest)) (json_string r)"
    unfolding append_Cons append_Nil by (rule json_string_hex; simp add: hexval_def)+
  moreover have "utf8_enc 8232 \<noteq> utf8_enc 8233" by (simp add: utf8_enc_def)
  ultimately show ?thesis using assms unfolding line_sep_def by auto
qed

lemma json_string_quoted:
  "utf8_ok s \<Longrightarrow> json_string (json_escape s @ QUOTE # r) = Some (s, r)"
proof (induction s rule: json_escape.induct)
  case 1
  show ?case by (simp add: json_escape.simps json_string.simps)
next
  case (2 c cs)
  let ?k = "utf8_len (c # cs)"
  have pos: "0 < ?k" and rest: "utf8_ok (drop (?k - 1) cs)"
    using 2(5) by (simp_all add: utf8_ok.simps)
  have split: "take ?k (c # cs) @ drop (?k - 1) cs = c # cs"
    using pos by (cases ?k) simp_all
  show ?case
  proof (cases "ord c < 128")
    case True
    then show ?thesis
      using 2(1) rest by (simp add: json_escape.simps json_string_ascii utf8_len_ascii)
  next
    case False
    then have IH: "json_string (json_escape (drop (?k - 1) cs) @ QUOTE # r) = Some (drop (?k - 1) cs, r)"
      using 2(3,4) pos rest by (cases "line_sep (take ?k (c # cs))") auto
    show ?thesis
    proof (cases "line_sep (take ?k (c # cs))")
      case True
      then show ?thesis
        using False pos IH split json_string_line_sep [OF True]
        by (simp add: json_escape.simps Let_def)
    next
      case no: False
      then show ?thesis
        using False pos IH split json_string_rune [of c cs ?k]
        by (simp add: json_escape.simps Let_def)
    qed
  qed
qed

section \<open>Values\<close>

datatype json =
    JNull
  | JBool bool
  | JNum string
  | JStr bytes
  | JArr "json list"
  | JObj "(bytes \<times> json) list"

definition is_ws :: "char \<Rightarrow> bool" where
  "is_ws c \<longleftrightarrow> c = CHR '' '' \<or> c = CHR 0x09 \<or> c = CHR 0x0D \<or> c = CHR 0x0A"

definition skip_ws :: "bytes \<Rightarrow> bytes" where
  "skip_ws = dropWhile is_ws"

definition is_digit :: "char \<Rightarrow> bool" where
  "is_digit c \<longleftrightarrow> 48 \<le> ord c \<and> ord c \<le> 57"

text \<open>One or more digits; a minus sign, an integer part, a fraction and an exponent.\<close>

definition lex_digits :: "bytes \<Rightarrow> (bytes \<times> bytes) option" where
  "lex_digits bs =
     (if takeWhile is_digit bs = [] then None
      else Some (takeWhile is_digit bs, dropWhile is_digit bs))"

definition lex_int :: "bytes \<Rightarrow> (bytes \<times> bytes) option" where
  "lex_int bs =
     (case bs of
        [] \<Rightarrow> None
      | c # r \<Rightarrow> if c = CHR ''0'' then Some (''0'', r) else lex_digits bs)"

definition lex_frac :: "bytes \<Rightarrow> (bytes \<times> bytes) option" where
  "lex_frac bs =
     (case bs of
        c # r \<Rightarrow>
          if c = CHR ''.'' then map_option (\<lambda>(ds, r'). (c # ds, r')) (lex_digits r)
          else Some ([], bs)
      | [] \<Rightarrow> Some ([], []))"

definition lex_sign :: "bytes \<Rightarrow> bytes \<times> bytes" where
  "lex_sign bs =
     (case bs of
        c # r \<Rightarrow> if c = CHR ''+'' \<or> c = CHR ''-'' then ([c], r) else ([], bs)
      | [] \<Rightarrow> ([], []))"

definition lex_exp :: "bytes \<Rightarrow> (bytes \<times> bytes) option" where
  "lex_exp bs =
     (case bs of
        c # r \<Rightarrow>
          if c = CHR ''e'' \<or> c = CHR ''E'' then
            (case lex_sign r of (sg, r1) \<Rightarrow>
               map_option (\<lambda>(ds, r'). (c # sg @ ds, r')) (lex_digits r1))
          else Some ([], bs)
      | [] \<Rightarrow> Some ([], []))"

definition lex_minus :: "bytes \<Rightarrow> bytes \<times> bytes" where
  "lex_minus bs =
     (case bs of c # r \<Rightarrow> if c = CHR ''-'' then ([c], r) else ([], bs) | [] \<Rightarrow> ([], []))"

definition lex_number :: "bytes \<Rightarrow> (bytes \<times> bytes) option" where
  "lex_number bs =
     (case lex_minus bs of (sg, r0) \<Rightarrow>
      case lex_int r0 of None \<Rightarrow> None | Some (i, r1) \<Rightarrow>
      case lex_frac r1 of None \<Rightarrow> None | Some (f, r2) \<Rightarrow>
      case lex_exp r2 of None \<Rightarrow> None | Some (e, r3) \<Rightarrow> Some (sg @ i @ f @ e, r3))"

definition lex_word :: "string \<Rightarrow> json \<Rightarrow> bytes \<Rightarrow> (json \<times> bytes) option" where
  "lex_word w v bs = (if take (length w) bs = w then Some (v, drop (length w) bs) else None)"

fun json_value :: "nat \<Rightarrow> bytes \<Rightarrow> (json \<times> bytes) option"
  and json_elements :: "nat \<Rightarrow> bytes \<Rightarrow> (json list \<times> bytes) option"
  and json_members :: "nat \<Rightarrow> bytes \<Rightarrow> ((bytes \<times> json) list \<times> bytes) option" where
  "json_value 0 bs = None"
| "json_value (Suc k) bs =
     (case skip_ws bs of
        [] \<Rightarrow> None
      | c # r \<Rightarrow>
          if c = QUOTE then map_option (\<lambda>(s, r'). (JStr s, r')) (json_string r)
          else if c = CHR ''{'' then
            (if take 1 (skip_ws r) = ''}'' then Some (JObj [], drop 1 (skip_ws r))
             else map_option (\<lambda>(ms, r'). (JObj ms, r')) (json_members k r))
          else if c = CHR ''['' then
            (if take 1 (skip_ws r) = '']'' then Some (JArr [], drop 1 (skip_ws r))
             else map_option (\<lambda>(vs, r'). (JArr vs, r')) (json_elements k r))
          else if c = CHR ''n'' then lex_word ''null'' JNull (c # r)
          else if c = CHR ''t'' then lex_word ''true'' (JBool True) (c # r)
          else if c = CHR ''f'' then lex_word ''false'' (JBool False) (c # r)
          else map_option (\<lambda>(n, r'). (JNum n, r')) (lex_number (c # r)))"
| "json_elements 0 bs = None"
| "json_elements (Suc k) bs =
     (case json_value k bs of None \<Rightarrow> None | Some (v, r) \<Rightarrow>
        (case skip_ws r of
           [] \<Rightarrow> None
         | c # r' \<Rightarrow>
             if c = CHR '']'' then Some ([v], r')
             else if c = CHR '','' then
               map_option (\<lambda>(vs, r''). (v # vs, r'')) (json_elements k r')
             else None))"
| "json_members 0 bs = None"
| "json_members (Suc k) bs =
     (case skip_ws bs of
        [] \<Rightarrow> None
      | q # r0 \<Rightarrow>
          if q \<noteq> QUOTE then None
          else (case json_string r0 of None \<Rightarrow> None | Some (key, r1) \<Rightarrow>
            (case skip_ws r1 of
               [] \<Rightarrow> None
             | colon # r2 \<Rightarrow>
                 if colon \<noteq> CHR '':'' then None
                 else (case json_value k r2 of None \<Rightarrow> None | Some (v, r) \<Rightarrow>
                   (case skip_ws r of
                      [] \<Rightarrow> None
                    | c # r' \<Rightarrow>
                        if c = CHR ''}'' then Some ([(key, v)], r')
                        else if c = CHR '','' then
                          map_option (\<lambda>(ms, r''). ((key, v) # ms, r'')) (json_members k r')
                        else None)))))"

definition json_parse :: "bytes \<Rightarrow> json option" where
  "json_parse bs =
     (case json_value (Suc (length bs)) bs of
        None \<Rightarrow> None
      | Some (v, r) \<Rightarrow> if skip_ws r = [] then Some v else None)"

section \<open>Decoding into a struct\<close>

text \<open>
  A key matches a field exactly or up to the case of ASCII letters, where the long s and
  the Kelvin sign count as s and k.
\<close>

definition ascii_lower :: "char \<Rightarrow> char" where
  "ascii_lower c = (if 65 \<le> ord c \<and> ord c \<le> 90 then char_of (ord c + 32) else c)"

function json_fold :: "bytes \<Rightarrow> bytes" where
  "json_fold [] = []"
| "json_fold (c # cs) =
     (if take 2 (c # cs) = utf8_enc 383 then CHR ''s'' # json_fold (drop 1 cs)
      else if take 3 (c # cs) = utf8_enc 8490 then CHR ''k'' # json_fold (drop 2 cs)
      else ascii_lower c # json_fold cs)"
  by pat_completeness auto
termination
  by (relation "measure length") auto

definition json_key :: "string \<Rightarrow> bytes \<Rightarrow> bool" where
  "json_key field key \<longleftrightarrow> key = field \<or> json_fold key = json_fold field"

fun atoi :: "string \<Rightarrow> nat \<Rightarrow> nat option" where
  "atoi [] acc = Some acc"
| "atoi (c # cs) acc = (if is_digit c then atoi cs (10 * acc + (ord c - 48)) else None)"

text \<open>\<^verbatim>\<open>strconv.ParseInt\<close> of a number literal, refused outside the 32-bit range.\<close>

definition ParseInt32 :: "string \<Rightarrow> 32 word option" where
  "ParseInt32 s =
     (case lex_minus s of (sg, r) \<Rightarrow>
        if r = [] then None
        else (case atoi r 0 of
           Some n \<Rightarrow>
             if sg = [] then (if n < 2 ^ 31 then Some (word_of_nat n) else None)
             else if n \<le> 2 ^ 31 then Some (word_of_int (- int n)) else None
         | None \<Rightarrow> None))"

definition decode_int32 :: "json \<Rightarrow> 32 word \<Rightarrow> 32 word option" where
  "decode_int32 v old =
     (case v of JNull \<Rightarrow> Some old | JNum s \<Rightarrow> ParseInt32 s | _ \<Rightarrow> None)"

definition decode_string :: "json \<Rightarrow> string \<Rightarrow> string option" where
  "decode_string v old = (case v of JNull \<Rightarrow> Some old | JStr s \<Rightarrow> Some s | _ \<Rightarrow> None)"

section \<open>What the parser does on written text\<close>

lemma skip_ws_Cons [simp]: "\<not> is_ws c \<Longrightarrow> skip_ws (c # r) = c # r"
  by (simp add: skip_ws_def)

lemma is_ws_simps [simp]:
  "\<not> is_ws QUOTE" "\<not> is_ws (CHR '':'')" "\<not> is_ws (CHR '','')" "\<not> is_ws (CHR ''}'')" "\<not> is_ws (CHR ''{'')"
  by (simp_all add: is_ws_def)

lemma json_value_quote: "utf8_ok s \<Longrightarrow> json_value (Suc k) (json_quote s @ r) = Some (JStr s, r)"
  by (simp add: json_quote_def json_string_quoted)

lemma json_value_object:
  "json_value (Suc k) (CHR ''{'' # json_quote key @ r)
     = map_option (\<lambda>(ms, r'). (JObj ms, r')) (json_members k (json_quote key @ r))"
  by (simp add: json_quote_def)

lemma json_members_step:
  assumes "utf8_ok key" "json_value k (val @ c # r) = Some (v, c # r)" "c = CHR '','' \<or> c = CHR ''}''"
  shows "json_members (Suc k) (json_quote key @ CHR '':'' # val @ c # r)
    = (if c = CHR ''}'' then Some ([(key, v)], r)
       else map_option (\<lambda>(ms, r''). ((key, v) # ms, r'')) (json_members k r))"
  using assms by (auto simp: json_quote_def json_string_quoted)

lemma is_digit_digit: "n < 10 \<Longrightarrow> is_digit (digit n)"
  by (simp add: is_digit_def digit_def)

lemma itoa_digits: "list_all is_digit (itoa n)"
proof (induction n rule: itoa.induct)
  case (1 n)
  show ?case
    by (subst itoa.simps) (use 1 in \<open>simp add: is_digit_digit\<close>)
qed

lemma takeWhile_digits:
  "list_all P xs \<Longrightarrow> \<not> P c \<Longrightarrow> takeWhile P (xs @ c # r) = xs \<and> dropWhile P (xs @ c # r) = c # r"
  by (induction xs) auto

lemma itoa_lead: "hd (itoa n) = CHR ''0'' \<longleftrightarrow> n = 0"
proof (induction n rule: itoa.induct)
  case (1 n)
  show ?case
  proof (cases "n < 10")
    case True
    then have "(48 + n) mod 256 = 48 + n" by simp
    then have "ord (digit n) = 48 + n" by (simp add: digit_def)
    moreover have "ord (CHR ''0'') = (48 :: nat)" by simp
    ultimately have "digit n = CHR ''0'' \<longleftrightarrow> n = 0"
      by (metis add.right_neutral add_left_cancel char_of_char)
    then show ?thesis using True by (simp add: itoa.simps)
  next
    case False
    then show ?thesis using 1 by (subst itoa.simps) (auto simp: itoa_not_Nil)
  qed
qed

lemma atoi_snoc: "atoi (s @ [digit d]) acc = map_option (\<lambda>n. 10 * n + d) (atoi s acc)" if "d < 10"
  using that by (induction s acc rule: atoi.induct) (auto simp: is_digit_digit, simp add: digit_def)

lemma atoi_itoa: "atoi (itoa n) 0 = Some n"
proof (induction n rule: itoa.induct)
  case (1 n)
  show ?case
  proof (cases "n < 10")
    case True
    then show ?thesis using atoi_snoc [of n "[]" 0] by (simp add: itoa.simps)
  next
    case False
    then show ?thesis using 1 by (subst itoa.simps) (simp add: atoi_snoc)
  qed
qed

lemma itoa_first: "itoa n \<noteq> [] \<and> is_digit (hd (itoa n))"
  using itoa_digits [of n] itoa_not_Nil [of n] by (cases "itoa n") auto

lemma lex_minus_itoa: "lex_minus (itoa n @ r) = ([], itoa n @ r)"
  using itoa_first [of n] by (cases "itoa n") (auto simp: lex_minus_def is_digit_def)

lemma lex_int_itoa:
  assumes "\<not> is_digit c"
  shows "lex_int (itoa n @ c # r) = Some (itoa n, c # r)"
proof (cases "n = 0")
  case True
  moreover have "of_char (CHR ''0'') = (48 :: nat)" by simp
  then have "digit 0 = CHR ''0''" unfolding digit_def by (metis add.right_neutral char_of_char)
  ultimately show ?thesis by (simp add: itoa.simps lex_int_def)
next
  case False
  then have "hd (itoa n) \<noteq> CHR ''0''" by (simp add: itoa_lead)
  then have "lex_int (itoa n @ c # r) = lex_digits (itoa n @ c # r)"
    using itoa_not_Nil [of n] by (cases "itoa n") (auto simp: lex_int_def)
  then show ?thesis
    using takeWhile_digits [OF itoa_digits assms] itoa_not_Nil by (simp add: lex_digits_def)
qed

lemma lex_number_FormatInt:
  assumes "\<not> is_digit c" "c \<noteq> CHR ''.''" "c \<noteq> CHR ''e''" "c \<noteq> CHR ''E''"
  shows "lex_number (FormatInt x @ c # r) = Some (FormatInt x, c # r)"
proof -
  have "lex_frac (c # r) = Some ([], c # r)" "lex_exp (c # r) = Some ([], c # r)"
    using assms by (simp_all add: lex_frac_def lex_exp_def)
  then show ?thesis
    using lex_int_itoa [OF assms(1)]
    by (simp add: lex_number_def FormatInt_def lex_minus_itoa) (simp add: lex_minus_def)
qed

lemma FormatInt_first:
  "\<exists>d ds. FormatInt x = d # ds \<and> (is_digit d \<or> d = CHR ''-'')"
  using itoa_first by (cases "itoa (nat (sint x))") (auto simp: FormatInt_def, metis itoa_first list.sel(1))

lemma number_first:
  "is_digit d \<or> d = CHR ''-'' \<Longrightarrow> \<not> is_ws d \<and> d \<noteq> QUOTE \<and> d \<noteq> CHR ''{'' \<and> d \<noteq> CHR ''['' \<and> d \<noteq> CHR ''n''
     \<and> d \<noteq> CHR ''t'' \<and> d \<noteq> CHR ''f''"
  by (auto simp: is_digit_def is_ws_def)

lemma json_value_number:
  assumes "c = CHR '','' \<or> c = CHR ''}''"
  shows "json_value (Suc k) (FormatInt x @ c # r) = Some (JNum (FormatInt x), c # r)"
proof -
  obtain d ds where x: "FormatInt x = d # ds" "is_digit d \<or> d = CHR ''-''" using FormatInt_first by blast
  have "lex_number (FormatInt x @ c # r) = Some (FormatInt x, c # r)"
    by (rule lex_number_FormatInt) (use assms in \<open>auto simp: is_digit_def\<close>)
  then show ?thesis
    using x number_first [OF x(2)] by simp
qed

lemma ParseInt32_FormatInt: "ParseInt32 (FormatInt (scast (x :: 32 word))) = Some x"
proof -
  have s: "sint (scast x :: int64) = sint x" by (simp add: sint_up_scast is_up)
  have range: "- (2 ^ 31) \<le> sint x" "sint x < 2 ^ 31"
    using sint_ge [of x] sint_lt [of x] by simp_all
  show ?thesis
  proof (cases "sint x < 0")
    case True
    then show ?thesis
      using range s
      by (simp add: ParseInt32_def FormatInt_def lex_minus_def itoa_not_Nil atoi_itoa)
  next
    case False
    then show ?thesis
      using range s lex_minus_itoa [of _ "[]"]
      by (simp add: ParseInt32_def FormatInt_def itoa_not_Nil atoi_itoa)
  qed
qed

lemma json_fold_ascii: "list_all (\<lambda>c. ord c < 128) s \<Longrightarrow> json_fold s = map ascii_lower s"
proof (induction s rule: json_fold.induct)
  case 1
  show ?case by simp
next
  case (2 c cs)
  have "take 2 (c # cs) \<noteq> utf8_enc 383" "take 3 (c # cs) \<noteq> utf8_enc 8490"
    using 2(4) by (auto simp: utf8_enc_def)
  then show ?case using 2 by simp
qed

end
