(* ===== verification/CallerStack.thy ===== *)
theory CallerStack
  imports Json Proto
begin

text \<open>
  \<^verbatim>\<open>protocol/caller/caller.go\<close>: the stack of callers a request carries and a response
  unwinds.  An entry is the JSON text of a \<^verbatim>\<open>Caller\<close>, which names a node, or the agent
  connection and the request id of a client's call.
\<close>


record Caller =
  Caller_Type :: "32 word"
  Caller_AgentID :: string
  Caller_ConnectionID :: string
  Caller_RequestID :: string
  Caller_Node :: string

definition Caller_zero :: Caller where
  "Caller_zero = \<lparr>Caller_Type = 0, Caller_AgentID = [], Caller_ConnectionID = [],
     Caller_RequestID = [], Caller_Node = []\<rparr>"

section \<open>The JSON text of a caller\<close>

definition FormatInt32 :: "32 word \<Rightarrow> string" where
  "FormatInt32 x = FormatInt (scast x)"

definition json_Marshal :: "Caller \<Rightarrow> bytes" where
  "json_Marshal c =
     ''{'' @ json_quote ''nType'' @ '':'' @ FormatInt32 (Caller_Type c)
     @ '','' @ json_quote ''szAgentID'' @ '':'' @ json_quote (Caller_AgentID c)
     @ '','' @ json_quote ''szConnectionID'' @ '':'' @ json_quote (Caller_ConnectionID c)
     @ '','' @ json_quote ''szRequestID'' @ '':'' @ json_quote (Caller_RequestID c)
     @ '','' @ json_quote ''szNode'' @ '':'' @ json_quote (Caller_Node c) @ ''}''"

definition decode_member :: "bytes \<times> json \<Rightarrow> Caller \<Rightarrow> Caller option" where
  "decode_member m c =
     (case m of (k, v) \<Rightarrow>
        if json_key ''nType'' k then
          map_option (\<lambda>x. c\<lparr>Caller_Type := x\<rparr>) (decode_int32 v (Caller_Type c))
        else if json_key ''szAgentID'' k then
          map_option (\<lambda>x. c\<lparr>Caller_AgentID := x\<rparr>) (decode_string v (Caller_AgentID c))
        else if json_key ''szConnectionID'' k then
          map_option (\<lambda>x. c\<lparr>Caller_ConnectionID := x\<rparr>) (decode_string v (Caller_ConnectionID c))
        else if json_key ''szRequestID'' k then
          map_option (\<lambda>x. c\<lparr>Caller_RequestID := x\<rparr>) (decode_string v (Caller_RequestID c))
        else if json_key ''szNode'' k then
          map_option (\<lambda>x. c\<lparr>Caller_Node := x\<rparr>) (decode_string v (Caller_Node c))
        else Some c)"

fun decode_members :: "(bytes \<times> json) list \<Rightarrow> Caller \<Rightarrow> Caller option" where
  "decode_members [] c = Some c"
| "decode_members (m # ms) c =
     (case decode_member m c of None \<Rightarrow> None | Some c' \<Rightarrow> decode_members ms c')"

text \<open>\<^term>\<open>None\<close> when \<^verbatim>\<open>json.Unmarshal\<close> into a fresh \<^verbatim>\<open>Caller\<close> reports an error.\<close>

definition json_Unmarshal :: "bytes \<Rightarrow> Caller option" where
  "json_Unmarshal bs =
     (case json_parse bs of
        None \<Rightarrow> None
      | Some JNull \<Rightarrow> Some Caller_zero
      | Some (JObj ms) \<Rightarrow> decode_members ms Caller_zero
      | Some _ \<Rightarrow> None)"

section \<open>The stack\<close>

definition PushStack :: "RpcCallReq \<Rightarrow> string \<Rightarrow> RpcCallReq" where
  "PushStack ptrReq szStackValue =
     ptrReq\<lparr>RpcCallReq_Caller := RpcCallReq_Caller ptrReq @ [szStackValue]\<rparr>"

definition PopStack :: "RpcCallResp \<Rightarrow> (string \<times> bool) \<times> RpcCallResp" where
  "PopStack ptrResp =
     (if RpcCallResp_Caller ptrResp = [] then (('''', False), ptrResp)
      else ((last (RpcCallResp_Caller ptrResp), True),
            ptrResp\<lparr>RpcCallResp_Caller := butlast (RpcCallResp_Caller ptrResp)\<rparr>))"

definition GetTopStack :: "RpcCallResp \<Rightarrow> string \<times> bool" where
  "GetTopStack ptrResp =
     (if RpcCallResp_Caller ptrResp = [] then ('''', False)
      else (last (RpcCallResp_Caller ptrResp), True))"

definition GenNodeCaller :: "string \<Rightarrow> string" where
  "GenNodeCaller szNode = json_Marshal (Caller_zero\<lparr>Caller_Type := 2, Caller_Node := szNode\<rparr>)"

definition GenAgentCaller :: "string \<Rightarrow> string \<Rightarrow> string \<Rightarrow> string" where
  "GenAgentCaller szAgentID szRequestID szConnectionID =
     json_Marshal (Caller_zero\<lparr>Caller_Type := 1, Caller_AgentID := szAgentID,
       Caller_RequestID := szRequestID, Caller_ConnectionID := szConnectionID\<rparr>)"

section \<open>Lemmas\<close>

definition caller_ok :: "Caller \<Rightarrow> bool" where
  "caller_ok c \<longleftrightarrow> utf8_ok (Caller_AgentID c) \<and> utf8_ok (Caller_ConnectionID c)
     \<and> utf8_ok (Caller_RequestID c) \<and> utf8_ok (Caller_Node c)"

lemma keys_utf8:
  "utf8_ok ''nType''" "utf8_ok ''szAgentID''" "utf8_ok ''szConnectionID''"
  "utf8_ok ''szRequestID''" "utf8_ok ''szNode''"
  by (simp_all add: utf8_ok.simps utf8_len.simps)

lemma json_key_ascii:
  "list_all (\<lambda>c. ord c < 128) f \<Longrightarrow> list_all (\<lambda>c. ord c < 128) k \<Longrightarrow>
     json_key f k \<longleftrightarrow> map ascii_lower f = map ascii_lower k"
  by (auto simp: json_key_def json_fold_ascii)

lemma json_keys:
  "json_key ''nType'' ''nType''" "json_key ''szAgentID'' ''szAgentID''"
  "json_key ''szConnectionID'' ''szConnectionID''" "json_key ''szRequestID'' ''szRequestID''"
  "json_key ''szNode'' ''szNode''"
  "\<not> json_key ''nType'' ''szAgentID''" "\<not> json_key ''nType'' ''szConnectionID''"
  "\<not> json_key ''nType'' ''szRequestID''" "\<not> json_key ''nType'' ''szNode''"
  "\<not> json_key ''szAgentID'' ''szConnectionID''" "\<not> json_key ''szAgentID'' ''szRequestID''"
  "\<not> json_key ''szAgentID'' ''szNode''" "\<not> json_key ''szConnectionID'' ''szRequestID''"
  "\<not> json_key ''szConnectionID'' ''szNode''" "\<not> json_key ''szRequestID'' ''szNode''"
  by (simp_all add: json_key_ascii ascii_lower_def)

lemma json_parse_Marshal:
  assumes "caller_ok c"
  shows "json_parse (json_Marshal c) = Some (JObj
    [(''nType'', JNum (FormatInt32 (Caller_Type c))),
     (''szAgentID'', JStr (Caller_AgentID c)),
     (''szConnectionID'', JStr (Caller_ConnectionID c)),
     (''szRequestID'', JStr (Caller_RequestID c)),
     (''szNode'', JStr (Caller_Node c))])"
proof -
  have ok: "utf8_ok (Caller_AgentID c)" "utf8_ok (Caller_ConnectionID c)"
    "utf8_ok (Caller_RequestID c)" "utf8_ok (Caller_Node c)"
    using assms by (simp_all add: caller_ok_def)
  have num: "json_members (Suc (Suc k)) (json_quote ''nType'' @ CHR '':'' # FormatInt32 (Caller_Type c)
        @ CHR '','' # r)
      = map_option (\<lambda>(ms, r''). ((''nType'', JNum (FormatInt32 (Caller_Type c))) # ms, r''))
          (json_members (Suc k) r)" for k r
    using json_members_step [OF keys_utf8(1) json_value_number [of "CHR '',''"]]
    by (simp add: FormatInt32_def del: json_members.simps)
  have str: "json_members (Suc (Suc k)) (json_quote key @ CHR '':'' # json_quote x @ CHR '','' # r)
      = map_option (\<lambda>(ms, r''). ((key, JStr x) # ms, r'')) (json_members (Suc k) r)"
    "json_members (Suc (Suc k)) (json_quote key @ CHR '':'' # json_quote x @ ''}'')
      = Some ([(key, JStr x)], [])"
    if "utf8_ok key" "utf8_ok x" for k r key x
    using json_members_step [OF that(1) json_value_quote [OF that(2)], where c = "CHR '',''"]
      json_members_step [OF that(1) json_value_quote [OF that(2)], where c = "CHR ''}''" and r = "[]"]
    by (simp_all del: json_members.simps)
  have "\<exists>k. length (json_Marshal c) = Suc (Suc (Suc (Suc (Suc (Suc (Suc k))))))"
    by (simp add: json_Marshal_def json_quote_def)
  then obtain k where k: "length (json_Marshal c) = Suc (Suc (Suc (Suc (Suc (Suc (Suc k))))))" ..
  have "json_value (Suc (Suc (Suc (Suc (Suc (Suc (Suc (Suc k)))))))) (json_Marshal c) = Some (JObj
    [(''nType'', JNum (FormatInt32 (Caller_Type c))),
     (''szAgentID'', JStr (Caller_AgentID c)),
     (''szConnectionID'', JStr (Caller_ConnectionID c)),
     (''szRequestID'', JStr (Caller_RequestID c)),
     (''szNode'', JStr (Caller_Node c))], [])"
    unfolding json_Marshal_def append_Cons append_Nil append_assoc json_value_object
    by (simp add: num str keys_utf8 ok del: json_members.simps)
  then show ?thesis unfolding json_parse_def k by (simp add: skip_ws_def del: json_value.simps)
qed

lemma json_roundtrip: "caller_ok c \<Longrightarrow> json_Unmarshal (json_Marshal c) = Some c"
  by (simp add: json_Unmarshal_def json_parse_Marshal decode_member_def json_keys
      decode_int32_def decode_string_def FormatInt32_def ParseInt32_FormatInt Caller_zero_def)

lemma PopStack_snd: "RpcCallResp_Caller (snd (PopStack r)) = butlast (RpcCallResp_Caller r)"
  by (simp add: PopStack_def)

section \<open>Properties\<close>

text \<open>
  A caller survives its JSON text: whatever names a node, an agent connection or a
  request id carry, as long as they are UTF-8, the entry read from the stack is the entry
  that was pushed; in particular a node caller comes back as the node and an agent caller
  as the agent, connection and request.
\<close>

lemma Caller_json_roundtrip:
  assumes "caller_ok c"
  shows "json_Unmarshal (json_Marshal c) = Some c"
  using assms by (rule json_roundtrip)

lemma Caller_json_roundtrip_example:
  "json_Unmarshal (GenNodeCaller [CHR 0x22, CHR ''<'', CHR 0xC3, CHR 0xA9])
     = Some (Caller_zero\<lparr>Caller_Type := 2, Caller_Node := [CHR 0x22, CHR ''<'', CHR 0xC3, CHR 0xA9]\<rparr>)"
proof -
  have "caller_ok (Caller_zero\<lparr>Caller_Type := 2, Caller_Node := [CHR 0x22, CHR ''<'', CHR 0xC3, CHR 0xA9]\<rparr>)"
    by (simp add: caller_ok_def Caller_zero_def utf8_ok.simps utf8_len.simps utf8_pair_def utf8_in_def)
  then show ?thesis unfolding GenNodeCaller_def by (rule Caller_json_roundtrip)
qed

text \<open>
  The callers form a stack: what requests push, responses pop in reverse order, and
  a response whose stack is empty has nothing to pop and is left as it is.
\<close>

lemma caller_stack_lifo:
  "GetTopStack (rsp\<lparr>RpcCallResp_Caller := RpcCallReq_Caller (PushStack req v)\<rparr>) = (v, True)
   \<and> PopStack (rsp\<lparr>RpcCallResp_Caller := RpcCallReq_Caller (PushStack req v)\<rparr>)
       = ((v, True), rsp\<lparr>RpcCallResp_Caller := RpcCallReq_Caller req\<rparr>)
   \<and> RpcCallReq_Caller (foldl PushStack req vs) = RpcCallReq_Caller req @ vs
   \<and> PopStack (rsp\<lparr>RpcCallResp_Caller := []\<rparr>) = (('''', False), rsp\<lparr>RpcCallResp_Caller := []\<rparr>)"
proof -
  have "RpcCallReq_Caller (foldl PushStack req vs) = RpcCallReq_Caller req @ vs"
    by (induction vs arbitrary: req) (simp_all add: PushStack_def)
  then show ?thesis by (simp add: GetTopStack_def PopStack_def PushStack_def)
qed

end
