(* ===== verification/Manager.thy ===== *)
theory Manager
  imports Node CallerStack
begin

text \<open>
  \<^verbatim>\<open>node/manager.go\<close> and \<^verbatim>\<open>node/handler.go\<close>: the node manager.  It owns the map of known
  nodes, the routing table from entry keys to nodes, and the connections that have not
  said hello yet; it serves the messages of other nodes and the calls of the agent.

  Each operation is one step on the state \<open>NodeManager\<close>, as the code's locks make it,
  with the tasks it spawns left in \<open>nm_task\<close>.  What it hands to the agent's handler is
  appended to \<open>nm_upcall\<close>.
\<close>

section \<open>State\<close>

abbreviation (input) CONNECTION_TIMEOUT :: int64 where "CONNECTION_TIMEOUT \<equiv> 60"
abbreviation (input) SIGN_TIMNEOUT :: int64 where "SIGN_TIMNEOUT \<equiv> 5"
abbreviation (input) NODE_TIMEOUT :: int64 where "NODE_TIMEOUT \<equiv> 15"
abbreviation (input) MANAGER_STATUS_STARTED :: "32 word" where "MANAGER_STATUS_STARTED \<equiv> 1"
abbreviation (input) MANAGER_STATUS_STOPED :: "32 word" where "MANAGER_STATUS_STOPED \<equiv> 2"
abbreviation (input) GOOSIP_SIZE :: nat where "GOOSIP_SIZE \<equiv> 5"

record Neighbour =
  neighbour_szName :: string
  neighbour_szIP :: string
  neighbour_nPort :: uint16
  neighbour_nAgentPort :: uint16

datatype upcall = HandleRequest RpcCallReq ctx | HandleResponse RpcCallResp ctx

record NodeManager = nodes +
  nm_mTempConnection :: "(connref, int64) gomap"
  nm_mNodeInfo :: "(string, noderef) gomap"
  nm_mRpcFunc2Node :: "(string, noderef list) gomap"
  nm_ptrSelf :: noderef
  nm_nSequence :: uint64
  nm_aryNeighbour :: "Neighbour list"
  nm_nStatus :: "32 word"
  nm_upcall :: "upcall list"

abbreviation nm_name :: "'a NodeManager_scheme \<Rightarrow> noderef \<Rightarrow> string" where
  "nm_name s n \<equiv> info_szName (nm_info s n)"

abbreviation nm_nodes :: "'a NodeManager_scheme \<Rightarrow> noderef list" where
  "nm_nodes s \<equiv> map snd (nm_mNodeInfo s)"

definition set_route :: "string \<Rightarrow> noderef list \<Rightarrow> 'a NodeManager_scheme \<Rightarrow> 'a NodeManager_scheme" where
  "set_route u ns s = s\<lparr>nm_mRpcFunc2Node := mput u ns (nm_mRpcFunc2Node s)\<rparr>"

definition add_upcall :: "upcall \<Rightarrow> 'a NodeManager_scheme \<Rightarrow> 'a NodeManager_scheme" where
  "add_upcall u s = s\<lparr>nm_upcall := nm_upcall s @ [u]\<rparr>"

section \<open>Connections\<close>

definition OnNewConnection ::
  "int64 \<Rightarrow> connref \<Rightarrow> 'a NodeManager_scheme \<Rightarrow> 'a NodeManager_scheme" where
  "OnNewConnection nNow c s = s\<lparr>nm_mTempConnection := mput c nNow (nm_mTempConnection s)\<rparr>"

definition OnRead :: "connref \<Rightarrow> bytes \<Rightarrow> ctx \<Rightarrow> 'a NodeManager_scheme \<Rightarrow> 'a NodeManager_scheme" where
  "OnRead c aryBuffer ctx s = GoTask (TProcess c aryBuffer ctx) s"

definition getNodeByConnection :: "connref \<Rightarrow> 'a net_scheme \<Rightarrow> noderef option" where
  "getNodeByConnection c s =
     (case sc_Ctx (n_conn s c) of Some (CtxNode n) \<Rightarrow> Some n | _ \<Rightarrow> None)"

definition getNode :: "ctx \<Rightarrow> 'a net_scheme \<Rightarrow> noderef option" where
  "getNode ctx s =
     (case GetServerConnection ctx of None \<Rightarrow> None | Some c \<Rightarrow> getNodeByConnection c s)"

definition OnCloseConnection :: "connref \<Rightarrow> 'a NodeManager_scheme \<Rightarrow> 'a NodeManager_scheme" where
  "OnCloseConnection c s =
     (case getNodeByConnection c s of
        Some n \<Rightarrow>
          (case removeConnection n c s of
             (nLeft, s1) \<Rightarrow>
               if nLeft = 0 \<and> \<not> alive n s1 then
                 s1\<lparr>nm_mNodeInfo := mdel (nm_name s1 n) (nm_mNodeInfo s1)\<rparr>
               else s1)
      | None \<Rightarrow> s\<lparr>nm_mTempConnection := mdel c (nm_mTempConnection s)\<rparr>)"

section \<open>Routes\<close>

definition deleteEntry ::
  "node_env \<Rightarrow> noderef \<Rightarrow> EntryInfo list \<Rightarrow> 'a NodeManager_scheme \<Rightarrow> 'a NodeManager_scheme" where
  "deleteEntry E n aryEntry s =
     forEach (\<lambda>e s. set_route (getUri E e)
         (filter (\<lambda>n'. nm_name s n' \<noteq> nm_name s n) (mgets (nm_mRpcFunc2Node s) (getUri E e))) s)
       aryEntry s"

definition deleteNode :: "node_env \<Rightarrow> noderef \<Rightarrow> 'a NodeManager_scheme \<Rightarrow> 'a NodeManager_scheme" where
  "deleteNode E n s =
     (case markDead n s of
        (aryEntry, s1) \<Rightarrow>
          let s2 = deleteEntry E n aryEntry s1
          in s2\<lparr>nm_mNodeInfo := mdel (nm_name s2 n) (nm_mNodeInfo s2)\<rparr>)"

definition getRemoteNodeByUri :: "string \<Rightarrow> 'a NodeManager_scheme \<Rightarrow> noderef list" where
  "getRemoteNodeByUri szUri s =
     (case mget (nm_mRpcFunc2Node s) szUri of
        None \<Rightarrow> []
      | Some aryNode \<Rightarrow> filter (\<lambda>n. nm_name s n \<noteq> nm_name s (nm_ptrSelf s)) aryNode)"

definition EntryCheck :: "node_env \<Rightarrow> string \<Rightarrow> EntryType \<Rightarrow> 'a NodeManager_scheme \<Rightarrow> ResultCode" where
  "EntryCheck E szEntryUri nEntryType s =
     (case mget (nm_mRpcFunc2Node s) (getUri2 E szEntryUri nEntryType) of
        Some aryNode \<Rightarrow> if aryNode \<noteq> [] then ResultCode_SUCCESS else ResultCode_ENTRY_NOT_FOUND
      | None \<Rightarrow> ResultCode_ENTRY_NOT_FOUND)"

section \<open>Gossip\<close>

definition node_info :: "bool \<Rightarrow> 'a NodeManager_scheme \<Rightarrow> noderef \<Rightarrow> NodeInfo" where
  "node_info bAgentPort s n =
     (let v = nm_info s n in
      \<lparr>NodeInfo_Name = info_szName v, NodeInfo_IP = info_szIP v, NodeInfo_Port = ucast (info_nPort v),
       NodeInfo_InstanceID = info_nInstanceID v,
       NodeInfo_AgentPort = (if bAgentPort then ucast (info_nAgentPort v) else 0)\<rparr>)"

text \<open>At most five of the given elements, from a random one on and around the end.\<close>

definition gossip :: "nat \<Rightarrow> 'a list \<Rightarrow> 'a list" where
  "gossip r xs =
     (let nSize = length xs; nStart = rand_Intn r nSize
      in map (\<lambda>i. xs ! ((nStart + i) mod nSize)) [0..<min GOOSIP_SIZE nSize])"

definition cast_others ::
  "node_env \<Rightarrow> choice \<Rightarrow> string \<Rightarrow> ProtoMsg \<Rightarrow> ctx \<Rightarrow> 'a NodeManager_scheme
     \<Rightarrow> 'a NodeManager_scheme" where
  "cast_others E ch szUri objNotify ctx s =
     forEach (\<lambda>n s. if nm_name s n = nm_name s (nm_ptrSelf s) then s
                    else snd (cast_Start E ch n szUri objNotify ctx s)) (nm_nodes s) s"

definition keepalive ::
  "node_env \<Rightarrow> choice \<Rightarrow> 'a NodeManager_scheme \<Rightarrow> unit outcome \<times> 'a NodeManager_scheme" where
  "keepalive E ch s =
     (let aryNodeInfoTemp = map (node_info True s) (nm_nodes s) in
      if aryNodeInfoTemp = [] then (Panics, s)
      else
        let objNotify = \<lparr>KeepAliveNotify_DataVersion = nm_nSequence s,
                         KeepAliveNotify_Neighbours = gossip (ch_pick ch) aryNodeInfoTemp\<rparr>
        in (Ret (), cast_others E ch NODE_KEEP_ALIVE (MKeepAliveNotify objNotify) None s))"

definition NodeList :: "nat \<Rightarrow> 'a NodeManager_scheme \<Rightarrow> NodeInfo list" where
  "NodeList r s =
     (let aryNodeInfoTemp = map (node_info True s) (filter (\<lambda>n. alive n s) (nm_nodes s))
      in if aryNodeInfoTemp = [] then [] else gossip r aryNodeInfoTemp)"

text \<open>The task a hello leaves behind: two seconds later, gossip to the node that said it.\<close>

definition hello_keepalive ::
  "node_env \<Rightarrow> choice \<Rightarrow> ctx \<Rightarrow> 'a NodeManager_scheme \<Rightarrow> unit outcome \<times> 'a NodeManager_scheme" where
  "hello_keepalive E ch ctx s =
     (let aryNodeInfoTemp = map (node_info False s) (nm_nodes s) in
      if aryNodeInfoTemp = [] then (Panics, s)
      else
        let objNotify = \<lparr>KeepAliveNotify_DataVersion = info_nDataVersion (nm_info s (nm_ptrSelf s)),
                         KeepAliveNotify_Neighbours = gossip (ch_pick ch) aryNodeInfoTemp\<rparr>
        in (case getNode ctx s of
              None \<Rightarrow> (Panics, s)
            | Some n \<Rightarrow>
                (Ret (), snd (cast_Start E ch n NODE_KEEP_ALIVE (MKeepAliveNotify objNotify) ctx s))))"

section \<open>Knowing nodes\<close>

definition checkNeighbour :: "int64 \<Rightarrow> 'a NodeManager_scheme \<Rightarrow> 'a NodeManager_scheme" where
  "checkNeighbour nNow s =
     forEach (\<lambda>b s. case mget (nm_mNodeInfo s) (neighbour_szName b) of
         Some _ \<Rightarrow> s
       | None \<Rightarrow>
           (case newNode (neighbour_szName b) (neighbour_szIP b) 0 (neighbour_nPort b)
                   (neighbour_nAgentPort b) nNow s of
              (n, s1) \<Rightarrow>
                GoTask (TReconnect n)
                  (s1\<lparr>nm_mNodeInfo := mput (neighbour_szName b) n (nm_mNodeInfo s1)\<rparr>)))
       (nm_aryNeighbour s) s"

definition cleanTimeout :: "node_env \<Rightarrow> int64 \<Rightarrow> 'a NodeManager_scheme \<Rightarrow> 'a NodeManager_scheme" where
  "cleanTimeout E nNow s =
     (let aryTimeoutConnection =
            map fst (filter (\<lambda>(c, nTime). gt64 nNow (nTime + CONNECTION_TIMEOUT)) (nm_mTempConnection s));
          s1 = forEach Close aryTimeoutConnection s;
          aryTimeoutNode =
            filter (\<lambda>n. n \<noteq> nm_ptrSelf s1 \<and> timeout nNow NODE_TIMEOUT n s1) (nm_nodes s1)
      in forEach (deleteNode E) aryTimeoutNode s1)"

definition makefriends ::
  "NodeInfo list \<Rightarrow> ctx \<Rightarrow> 'a NodeManager_scheme \<Rightarrow> 'a NodeManager_scheme" where
  "makefriends aryNode ctx s = GoTask (TMakeFriends aryNode ctx) s"

definition makefriends_task ::
  "int64 \<Rightarrow> NodeInfo list \<Rightarrow> 'a NodeManager_scheme \<Rightarrow> 'a NodeManager_scheme" where
  "makefriends_task nNow aryNode s =
     (let aryNodeInfo = filter (\<lambda>i. mget (nm_mNodeInfo s) (NodeInfo_Name i) = None) aryNode in
      forEach (\<lambda>i s. case mget (nm_mNodeInfo s) (NodeInfo_Name i) of
         Some _ \<Rightarrow> s
       | None \<Rightarrow>
           (case newNode (NodeInfo_Name i) (NodeInfo_IP i) (NodeInfo_InstanceID i) (ucast (NodeInfo_Port i))
                   (ucast (NodeInfo_AgentPort i)) nNow s of
              (n, s1) \<Rightarrow>
                GoTask (TReconnect n)
                  (s1\<lparr>nm_mNodeInfo := mput (NodeInfo_Name i) n (nm_mNodeInfo s1)\<rparr>)))
        aryNodeInfo s)"

section \<open>Synchronisation\<close>

definition trySyncAll ::
  "node_env \<Rightarrow> choice \<Rightarrow> noderef \<Rightarrow> uint64 \<Rightarrow> ctx \<Rightarrow> 'a NodeManager_scheme
     \<Rightarrow> 'a NodeManager_scheme" where
  "trySyncAll E ch n nDataVersion ctx s =
     (case needSyncAll n nDataVersion s of
        (False, s1) \<Rightarrow> s1
      | (True, s1) \<Rightarrow>
          (case call_node ch n NODE_GET_ENTRY (MGetEntryReq GetEntryReq) ctx s1 of
             (cc, s2) \<Rightarrow>
               (case (Call_begin (ne_pb E) cc s2, call_ptrServerConnection cc) of
                  ((Some x, s3), Some c) \<Rightarrow> go_wait x c (call_szRequestID cc) (WaitEntry n) s3
                | ((_, s3), _) \<Rightarrow> s3)))"

text \<open>What \<^verbatim>\<open>trySyncAll\<close> does with the answer (\<^term>\<open>None\<close> when \<^verbatim>\<open>Start\<close> returned false).\<close>

definition trySyncAll_finish ::
  "node_env \<Rightarrow> noderef \<Rightarrow> GetEntryResp option \<Rightarrow> 'a NodeManager_scheme \<Rightarrow> 'a NodeManager_scheme" where
  "trySyncAll_finish E n rsp s =
     (case rsp of
        None \<Rightarrow> s
      | Some objResp \<Rightarrow>
          let aryEntryOld = getAllEntry n s;
              s1 = syncEntry E n (GetEntryResp_EntryInfo objResp) (GetEntryResp_DataVersion objResp) s;
              s2 = deleteEntry E n aryEntryOld s1
          in forEach (\<lambda>e s. if EntryInfo_IsNew e
                 then set_route (getUri E e) (mgets (nm_mRpcFunc2Node s) (getUri E e) @ [n]) s
                 else s)
               (GetEntryResp_EntryInfo objResp) s2)"

end
