(* ===== verification/Handlers.thy ===== *)
theory Handlers
  imports Manager
begin

text \<open>
  \<^verbatim>\<open>node/manager.go\<close>, the messages: the handlers of the seven URIs, the entries the agent
  adds and removes, the dispatch of requests and responses, the shutdown, and the tasks
  of the worker pool.

  A handler returns the result text, which is only logged, and the new state.
\<close>

section \<open>Hello\<close>

definition SayHelloRsp_zero :: SayHelloRsp where
  "SayHelloRsp_zero = \<lparr>SayHelloRsp_Result = ResultCode_SUCCESS, SayHelloRsp_Sign = '''',
     SayHelloRsp_TimeStamp = 0, SayHelloRsp_NodeInfo = None, SayHelloRsp_DataVersion = 0\<rparr>"

text \<open>The critical section of \<^verbatim>\<open>handleSayHello\<close>: find or make the node and bind the connection.\<close>

definition hello_admit ::
  "node_env \<Rightarrow> int64 \<Rightarrow> NodeInfo \<Rightarrow> uint64 \<Rightarrow> ctx \<Rightarrow> connref \<Rightarrow> 'a NodeManager_scheme
     \<Rightarrow> 'a NodeManager_scheme" where
  "hello_admit E nNow i nDataVersion ctx c s =
     (case mget (nm_mNodeInfo s) (NodeInfo_Name i) of
        Some n \<Rightarrow>
          let s1 = bind_ctx c (CtxNode n) (addConnection E n c s);
              s2 = (if getInstanceID n s1 \<noteq> NodeInfo_InstanceID i
                    then setInstanceID n (NodeInfo_InstanceID i) s1 else s1)
          in GoTask (TTrySyncAll n nDataVersion ctx) s2
      | None \<Rightarrow>
          (case newNode (NodeInfo_Name i) (NodeInfo_IP i) (NodeInfo_InstanceID i) (ucast (NodeInfo_Port i))
                  (ucast (NodeInfo_AgentPort i)) nNow s of
             (n, s1) \<Rightarrow>
               let s2 = bind_ctx c (CtxNode n) (addConnection E n c s1);
                   s3 = s2\<lparr>nm_mNodeInfo := mput (NodeInfo_Name i) n (nm_mNodeInfo s2)\<rparr>
               in GoTask (TTrySyncAll n nDataVersion ctx) s3))"

definition reply_hello ::
  "node_env \<Rightarrow> string \<Rightarrow> SayHelloRsp \<Rightarrow> ctx \<Rightarrow> 'a NodeManager_scheme
     \<Rightarrow> string outcome \<times> 'a NodeManager_scheme" where
  "reply_hello E szResult objRsp ctx s =
     (case Reply (ne_pb E) (MSayHelloRsp objRsp) ctx s of
        (Panics, s1) \<Rightarrow> (Panics, s1)
      | (Ret _, s1) \<Rightarrow>
          (Ret szResult, if szResult = ''SUCCESS'' then GoTask (THelloKeepAlive ctx) s1 else s1))"

definition handleSayHello ::
  "node_env \<Rightarrow> int64 \<Rightarrow> bytes \<Rightarrow> ctx \<Rightarrow> 'a NodeManager_scheme
     \<Rightarrow> string outcome \<times> 'a NodeManager_scheme" where
  "handleSayHello E nNow byteData ctx s =
     (case Unmarshal_SayHelloReq (ne_pb E) byteData of
        None \<Rightarrow> (Ret ''proto_Unmarshal_fail'', s)
      | Some objReq \<Rightarrow>
          (case SayHelloReq_NodeInfo objReq of
             None \<Rightarrow> (Panics, s)
           | Some i \<Rightarrow>
               if SayHelloReq_Sign objReq
                    \<noteq> makeSign (ne_szSecretKey E) (NodeInfo_Name i) (SayHelloReq_TimeStamp objReq) then
                 reply_hello E ''ResultCode_SIGN_VALIDATE_FAIL''
                   (SayHelloRsp_zero\<lparr>SayHelloRsp_Result := ResultCode_SIGN_VALIDATE_FAIL\<rparr>) ctx s
               else if gt64 nNow (SayHelloReq_TimeStamp objReq + SIGN_TIMNEOUT) then
                 reply_hello E ''ResultCode_SIGN_TIMEOUT''
                   (SayHelloRsp_zero\<lparr>SayHelloRsp_Result := ResultCode_SIGN_TIMEOUT\<rparr>) ctx s
               else if nm_nStatus s \<noteq> MANAGER_STATUS_STARTED then (Ret ''node stoped'', s)
               else
                 let s1 = (case GetServerConnection ctx of
                        None \<Rightarrow> s
                      | Some c \<Rightarrow> hello_admit E nNow i (SayHelloReq_DataVersion objReq) ctx c s);
                     s2 = (case GetServerConnection ctx of
                        None \<Rightarrow> s1
                      | Some c \<Rightarrow> s1\<lparr>nm_mTempConnection := mdel c (nm_mTempConnection s1)\<rparr>)
                 in reply_hello E ''SUCCESS''
                      (SayHelloRsp_zero\<lparr>
                         SayHelloRsp_Sign := makeSign (ne_szSecretKey E) (nm_name s (nm_ptrSelf s)) nNow,
                         SayHelloRsp_TimeStamp := nNow, SayHelloRsp_NodeInfo := Some (nm_MyInfo s)\<rparr>)
                      ctx s2))"

section \<open>Calls of other nodes\<close>

definition node_not_auth ::
  "ctx \<Rightarrow> 'a NodeManager_scheme \<Rightarrow> string outcome \<times> 'a NodeManager_scheme" where
  "node_not_auth ctx s = (Ret ''node_not_auth'', GoTask (TCloseConnection ctx) s)"

definition handleRpcCallReq ::
  "node_env \<Rightarrow> bytes \<Rightarrow> ctx \<Rightarrow> 'a NodeManager_scheme \<Rightarrow> string outcome \<times> 'a NodeManager_scheme" where
  "handleRpcCallReq E byteData ctx s =
     (case Unmarshal_RpcCallReq (ne_pb E) byteData of
        None \<Rightarrow> (Ret ''proto_Unmarshal_fail'', s)
      | Some objReq \<Rightarrow>
          (case getNode ctx s of
             None \<Rightarrow> node_not_auth ctx s
           | Some n \<Rightarrow> (Ret ''SUCCESS'', add_upcall (HandleRequest objReq ctx) s)))"

definition handleRpcCallResp ::
  "node_env \<Rightarrow> bytes \<Rightarrow> ctx \<Rightarrow> 'a NodeManager_scheme \<Rightarrow> string outcome \<times> 'a NodeManager_scheme" where
  "handleRpcCallResp E byteData ctx s =
     (case Unmarshal_RpcCallResp (ne_pb E) byteData of
        None \<Rightarrow> (Ret ''proto_Unmarshal_fail'', s)
      | Some objResp \<Rightarrow>
          (case getNode ctx s of
             None \<Rightarrow> node_not_auth ctx s
           | Some n \<Rightarrow> (Ret ''SUCCESS'', add_upcall (HandleResponse objResp ctx) s)))"

definition handleSayGoodbyeNotify ::
  "node_env \<Rightarrow> bytes \<Rightarrow> ctx \<Rightarrow> 'a NodeManager_scheme \<Rightarrow> string outcome \<times> 'a NodeManager_scheme" where
  "handleSayGoodbyeNotify E byteData ctx s =
     (case Unmarshal_SayGoodbyeNotify (ne_pb E) byteData of
        None \<Rightarrow> (Ret ''proto_Unmarshal_fail'', s)
      | Some objNotify \<Rightarrow>
          (case getNode ctx s of
             None \<Rightarrow> node_not_auth ctx s
           | Some n \<Rightarrow>
               (case markDead n s of
                  (aryEntry, s1) \<Rightarrow> (Ret ''SUCCESS'', deleteEntry E n aryEntry s1))))"

text \<open>The routes after one changed entry of a node: a new one is added, a removed one taken out.\<close>

definition route_change ::
  "node_env \<Rightarrow> noderef \<Rightarrow> EntryInfo \<Rightarrow> 'a NodeManager_scheme \<Rightarrow> 'a NodeManager_scheme" where
  "route_change E n e s =
     (if EntryInfo_IsNew e
      then set_route (getUri E e) (mgets (nm_mRpcFunc2Node s) (getUri E e) @ [n]) s
      else set_route (getUri E e) (filter (\<lambda>n'. n' \<noteq> n) (mgets (nm_mRpcFunc2Node s) (getUri E e))) s)"

definition handleNodeEntryNotify ::
  "node_env \<Rightarrow> bytes \<Rightarrow> ctx \<Rightarrow> 'a NodeManager_scheme \<Rightarrow> string outcome \<times> 'a NodeManager_scheme" where
  "handleNodeEntryNotify E byteData ctx s =
     (case Unmarshal_NewEntryNotify (ne_pb E) byteData of
        None \<Rightarrow> (Ret ''proto_Unmarshal_fail'', s)
      | Some objNotify \<Rightarrow>
          (case getNode ctx s of
             None \<Rightarrow> node_not_auth ctx s
           | Some n \<Rightarrow>
               if getState n s = NODE_STATUS_SYNCING \<or> getState n s = NODE_STATUS_DEAD then
                 (Ret ''node_dead_or_syncing'', s)
               else
                 (case modifyEntry E n (NewEntryNotify_EntryInfo objNotify)
                         (NewEntryNotify_DataVersion objNotify) s of
                    ((bNeedSyncAll, aryChangeEntry), s1) \<Rightarrow>
                      (Ret ''SUCCESS'',
                       if \<not> bNeedSyncAll \<and> aryChangeEntry \<noteq> []
                       then forEach (route_change E n) aryChangeEntry s1 else s1))))"

definition handleGetEntryReq ::
  "node_env \<Rightarrow> bytes \<Rightarrow> ctx \<Rightarrow> 'a NodeManager_scheme \<Rightarrow> string outcome \<times> 'a NodeManager_scheme" where
  "handleGetEntryReq E byteData ctx s =
     (case Unmarshal_GetEntryReq (ne_pb E) byteData of
        None \<Rightarrow> (Ret ''proto_Unmarshal_fail'', s)
      | Some objReq \<Rightarrow>
          (case getNode ctx s of
             None \<Rightarrow> node_not_auth ctx s
           | Some n \<Rightarrow>
               if nm_nStatus s \<noteq> MANAGER_STATUS_STARTED then (Ret ''node stoped'', s)
               else
                 let objResp = \<lparr>GetEntryResp_EntryInfo = getAllEntry (nm_ptrSelf s) s,
                                GetEntryResp_DataVersion = info_nDataVersion (nm_info s (nm_ptrSelf s))\<rparr>
                 in (case Reply (ne_pb E) (MGetEntryResp objResp) ctx s of
                       (Panics, s1) \<Rightarrow> (Panics, s1)
                     | (Ret _, s1) \<Rightarrow> (Ret ''SUCCESS'', s1))))"

text \<open>
  The code returns only after the synchronisation it may start has ended; here the rest
  of it waits in \<open>nm_wait\<close>.
\<close>

definition handleKeepAlive ::
  "node_env \<Rightarrow> choice \<Rightarrow> bytes \<Rightarrow> ctx \<Rightarrow> 'a NodeManager_scheme
     \<Rightarrow> string outcome \<times> 'a NodeManager_scheme" where
  "handleKeepAlive E ch byteData ctx s =
     (case Unmarshal_KeepAliveNotify (ne_pb E) byteData of
        None \<Rightarrow> (Ret ''proto_Unmarshal_fail'', s)
      | Some objNotify \<Rightarrow>
          (case getNode ctx s of
             None \<Rightarrow> node_not_auth ctx s
           | Some n \<Rightarrow>
               if \<not> alive n s then (Ret ''node_dead'', s)
               else
                 (Ret ''SUCCESS'',
                  trySyncAll E ch n (KeepAliveNotify_DataVersion objNotify) ctx
                    (makefriends (KeepAliveNotify_Neighbours objNotify) ctx s))))"

section \<open>Entries of the own agent\<close>

definition RemoveEntry ::
  "node_env \<Rightarrow> string \<Rightarrow> EntryType \<Rightarrow> 'a NodeManager_scheme \<Rightarrow> 'a NodeManager_scheme" where
  "RemoveEntry E szUri enumEntryType s =
     (let objEntry = \<lparr>EntryInfo_URI = szUri, EntryInfo_EntryType = enumEntryType, EntryInfo_IsNew = False\<rparr>;
          s1 = set_route szUri (filter (\<lambda>n. nm_name s n \<noteq> nm_name s (nm_ptrSelf s))
                 (mgets (nm_mRpcFunc2Node s) szUri)) s;
          s2 = s1\<lparr>nm_nSequence := nm_nSequence s1 + 1\<rparr>
      in (case modifyEntry E (nm_ptrSelf s2) [objEntry] (nm_nSequence s2) s2 of
            ((_, aryChangeEntry), s3) \<Rightarrow>
              if aryChangeEntry \<noteq> [] then GoTask (TNotifyEntry objEntry) s3 else s3))"

definition AddEntry ::
  "node_env \<Rightarrow> string \<Rightarrow> EntryType \<Rightarrow> 'a NodeManager_scheme \<Rightarrow> 'a NodeManager_scheme" where
  "AddEntry E szUri enumEntryType s =
     (let objEntry = \<lparr>EntryInfo_URI = szUri, EntryInfo_EntryType = enumEntryType, EntryInfo_IsNew = True\<rparr>
      in if entryExist E (nm_ptrSelf s) objEntry s \<or> \<not> alive (nm_ptrSelf s) s then s
         else
           let s1 = set_route (getUri E objEntry)
                 (mgets (nm_mRpcFunc2Node s) (getUri E objEntry) @ [nm_ptrSelf s]) s;
               s2 = s1\<lparr>nm_nSequence := nm_nSequence s1 + 1\<rparr>
           in (case modifyEntry E (nm_ptrSelf s2) [objEntry] (nm_nSequence s2) s2 of
                 ((_, aryChangeEntry), s3) \<Rightarrow>
                   if aryChangeEntry \<noteq> [] then GoTask (TNotifyEntry objEntry) s3 else s3))"

text \<open>The task both leave behind: tell every other node, with the version at that time.\<close>

definition notify_entry ::
  "node_env \<Rightarrow> choice \<Rightarrow> EntryInfo \<Rightarrow> 'a NodeManager_scheme \<Rightarrow> 'a NodeManager_scheme" where
  "notify_entry E ch objEntry s =
     cast_others E ch NODE_ENTRY_NOTIFY
       (MNewEntryNotify \<lparr>NewEntryNotify_EntryInfo = [objEntry],
          NewEntryNotify_DataVersion = info_nDataVersion (nm_info s (nm_ptrSelf s))\<rparr>) None s"

definition Stop :: "node_env \<Rightarrow> choice \<Rightarrow> 'a NodeManager_scheme \<Rightarrow> 'a NodeManager_scheme" where
  "Stop E ch s =
     (let s1 = s\<lparr>nm_nStatus := MANAGER_STATUS_STOPED\<rparr> in
      case markDead (nm_ptrSelf s1) s1 of
        (aryEntry, s2) \<Rightarrow>
          cast_others E ch NODE_SAY_GOOBEY (MSayGoodbyeNotify SayGoodbyeNotify) None
            (deleteEntry E (nm_ptrSelf s2) aryEntry s2))"

section \<open>Dispatch\<close>

text \<open>An \<^verbatim>\<open>int\<close> has 64 bits and holds every checksum, so the result is the checksum.\<close>

definition string2HashCode :: "string \<Rightarrow> nat" where
  "string2HashCode szInput =
     (let nResult = int (unat (crc32_ChecksumIEEE szInput)) in
      nat (if 0 \<le> nResult then nResult else if 0 \<le> - nResult then - nResult else 0))"

lemma string2HashCode_checksum: "string2HashCode s = unat (crc32_ChecksumIEEE s)"
  by (simp add: string2HashCode_def)

definition DispatchRsp ::
  "node_env \<Rightarrow> choice \<Rightarrow> RpcCallResp \<Rightarrow> ctx \<Rightarrow> 'a NodeManager_scheme
     \<Rightarrow> (ResultCode \<times> RpcCallResp) \<times> 'a NodeManager_scheme" where
  "DispatchRsp E ch ptrRsp ctx s =
     (case GetTopStack ptrRsp of
        (szCaller, bSuccess) \<Rightarrow>
          if bSuccess then
            (case json_Unmarshal szCaller of
               None \<Rightarrow> ((ResultCode_ERROR, ptrRsp), s)
             | Some objCaller \<Rightarrow>
                 if Caller_Type objCaller \<noteq> 2 then ((ResultCode_CALL_YOUR_SELF, ptrRsp), s)
                 else (case mget (nm_mNodeInfo s) (Caller_Node objCaller) of
                    Some n \<Rightarrow>
                      let ptrRsp' = snd (PopStack ptrRsp)
                      in ((ResultCode_SUCCESS, ptrRsp'),
                          snd (cast_Start E ch n NODE_RPC_RESP (MRpcCallResp ptrRsp') ctx s))
                  | None \<Rightarrow> ((ResultCode_NODE_NOT_EXIST, ptrRsp), s)))
          else ((ResultCode_STACK_EMPTY, ptrRsp), s))"

text \<open>The node a request goes to among several: a random one, or the one its key hashes to.\<close>

definition pick_node :: "choice \<Rightarrow> RpcCallReq \<Rightarrow> noderef list \<Rightarrow> noderef" where
  "pick_node ch ptrReq aryNode =
     (if RpcCallReq_Key ptrReq = '''' then pick (ch_pick ch) aryNode
      else aryNode ! (string2HashCode (RpcCallReq_Key ptrReq) mod length aryNode))"

definition cast_request ::
  "node_env \<Rightarrow> choice \<Rightarrow> RpcCallReq \<Rightarrow> noderef list \<Rightarrow> ctx \<Rightarrow> 'a NodeManager_scheme
     \<Rightarrow> (ResultCode \<times> RpcCallReq) \<times> 'a NodeManager_scheme" where
  "cast_request E ch ptrReq aryNode ctx s =
     (let n = pick_node ch ptrReq aryNode;
          ptrReq' = PushStack ptrReq (GenNodeCaller (nm_name s (nm_ptrSelf s)))
      in ((ResultCode_SUCCESS, ptrReq'),
          snd (cast_Start E ch n NODE_RPC_REQ (MRpcCallReq ptrReq') ctx s)))"

definition DispatchReq ::
  "node_env \<Rightarrow> choice \<Rightarrow> RpcCallReq \<Rightarrow> ctx \<Rightarrow> 'a NodeManager_scheme
     \<Rightarrow> (ResultCode \<times> RpcCallReq) \<times> 'a NodeManager_scheme" where
  "DispatchReq E ch ptrReq ctx s =
     (let mode = RpcCallReq_RequestMode ptrReq; u = RpcCallReq_URI ptrReq; ty = RpcCallReq_EntryType ptrReq in
      if mode = RequestMode_LOCAL_FORCE then
        if entryExist2 E (nm_ptrSelf s) u ty True s then ((ResultCode_CALL_YOUR_SELF, ptrReq), s)
        else ((ResultCode_ENTRY_NOT_FOUND, ptrReq), s)
      else if mode = RequestMode_LOCAL_BETTER then
        if entryExist2 E (nm_ptrSelf s) u ty False s then ((ResultCode_CALL_YOUR_SELF, ptrReq), s)
        else
          let aryNode = getRemoteNodeByUri (getUri2 E u ty) s in
          if aryNode = [] then ((ResultCode_ENTRY_NOT_FOUND, ptrReq), s)
          else cast_request E ch ptrReq aryNode ctx s
      else if mode = RequestMode_DEFAULT then
        (case mget (nm_mRpcFunc2Node s) (getUri2 E u ty) of
           None \<Rightarrow> ((ResultCode_ENTRY_NOT_FOUND, ptrReq), s)
         | Some aryNode \<Rightarrow>
             if aryNode = [] then ((ResultCode_ENTRY_NOT_FOUND, ptrReq), s)
             else cast_request E ch ptrReq aryNode ctx s)
      else ((ResultCode_ENTRY_NOT_FOUND, ptrReq), s))"

section \<open>The router and the tasks\<close>

definition node_router :: "node_env \<Rightarrow> choice \<Rightarrow> int64 \<Rightarrow> ('a NodeManager_scheme) Router" where
  "node_router E ch nNow =
     snd (RegisterRouter NODE_RPC_RESP (handleRpcCallResp E)
     (snd (RegisterRouter NODE_RPC_REQ (handleRpcCallReq E)
     (snd (RegisterRouter NODE_KEEP_ALIVE (handleKeepAlive E ch)
     (snd (RegisterRouter NODE_ENTRY_NOTIFY (handleNodeEntryNotify E)
     (snd (RegisterRouter NODE_GET_ENTRY (handleGetEntryReq E)
     (snd (RegisterRouter NODE_SAY_GOOBEY (handleSayGoodbyeNotify E)
     (snd (RegisterRouter NODE_SAY_HELLO (handleSayHello E nNow) NewRouter)))))))))))))"

text \<open>The task of \<^verbatim>\<open>OnRead\<close>: dispatch the packet, then close or note that the node is alive.\<close>

definition process_task ::
  "node_env \<Rightarrow> choice \<Rightarrow> int64 \<Rightarrow> connref \<Rightarrow> bytes \<Rightarrow> ctx \<Rightarrow> 'a NodeManager_scheme
     \<Rightarrow> unit outcome \<times> 'a NodeManager_scheme" where
  "process_task E ch nNow c aryBuffer ctx s =
     (case Process (node_router E ch nNow) aryBuffer ctx s of
        (Panics, s1) \<Rightarrow> (Panics, s1)
      | (Ret bOk, s1) \<Rightarrow>
          (Ret (), if \<not> bOk then Close c s1
                   else (case getNode ctx s1 of
                      Some n \<Rightarrow> refreshKeepLiveTime nNow n s1
                    | None \<Rightarrow> s1)))"

definition run_node_task ::
  "node_env \<Rightarrow> choice \<Rightarrow> int64 \<Rightarrow> bool \<times> string \<Rightarrow> NodeTask \<Rightarrow> 'a NodeManager_scheme
     \<Rightarrow> unit outcome \<times> 'a NodeManager_scheme" where
  "run_node_task E ch nNow dial k s =
     (case k of
        TProcess c aryBuffer ctx \<Rightarrow> process_task E ch nNow c aryBuffer ctx s
      | TReconnect n \<Rightarrow> reconnect_begin E nNow dial (ch_uuid ch n) n s
      | TTrySyncAll n nDataVersion ctx \<Rightarrow> (Ret (), trySyncAll E ch n nDataVersion ctx s)
      | THelloKeepAlive ctx \<Rightarrow> hello_keepalive E ch ctx s
      | TCloseConnection ctx \<Rightarrow>
          (case GetServerConnection ctx of
             None \<Rightarrow> (Panics, s)
           | Some c \<Rightarrow> (Ret (), Close c s))
      | TMakeFriends aryNode ctx \<Rightarrow> (Ret (), makefriends_task nNow aryNode s)
      | TNotifyEntry objEntry \<Rightarrow> (Ret (), notify_entry E ch objEntry s))"

text \<open>A waiting call takes a branch of its \<^verbatim>\<open>select\<close> and goes on.\<close>

definition finish_call ::
  "node_env \<Rightarrow> select \<Rightarrow> WaitingCall \<Rightarrow> 'a NodeManager_scheme \<Rightarrow> unit outcome \<times> 'a NodeManager_scheme" where
  "finish_call E sel w s =
     (case wt_then w of
        WaitHello n \<Rightarrow>
          (case Call_select (Unmarshal_SayHelloRsp (ne_pb E)) sel (wt_conn w) (wt_szRequestID w) (wt_rpc w) s of
             (Panics, s1) \<Rightarrow> (Panics, s1)
           | (Ret rsp, s1) \<Rightarrow> (Ret (), reconnect_finish E n (wt_conn w) rsp s1))
      | WaitEntry n \<Rightarrow>
          (case Call_select (Unmarshal_GetEntryResp (ne_pb E)) sel (wt_conn w) (wt_szRequestID w) (wt_rpc w) s of
             (Panics, s1) \<Rightarrow> (Panics, s1)
           | (Ret rsp, s1) \<Rightarrow> (Ret (), trySyncAll_finish E n rsp s1)))"

section \<open>A new manager\<close>

definition info_zero :: Info where
  "info_zero = \<lparr>info_szName = '''', info_szIP = '''', info_nPort = 0, info_nAgentPort = 0,
     info_aryConnectionList = [], info_nSequence = 0, info_nStatus = 0, info_mEntryInfo = [],
     info_nDataVersion = 0, info_nLastKeepAliveTime = 0, info_nInstanceID = 0\<rparr>"

text \<open>
  The manager \<^verbatim>\<open>NewManager\<close> returns, in a process without connections.  The goroutines it
  starts are steps of the system: \<open>cleanTimeout\<close>, \<open>checkNeighbour\<close> and \<open>keepalive\<close>.
\<close>

definition NewManager ::
  "string \<Rightarrow> uint64 \<Rightarrow> int64 \<Rightarrow> string \<Rightarrow> string \<Rightarrow> uint16 \<Rightarrow> uint16 \<Rightarrow> Neighbour list \<Rightarrow> NodeManager" where
  "NewManager szUUID nInstance nNow szName szIP nPort nAgentPort aryNeighbour =
     (let szName' = (if szName = '''' then ''node_'' @ szUUID else szName);
          objInfo = \<lparr>NodeInfo_Name = szName', NodeInfo_IP = szIP, NodeInfo_Port = ucast nPort,
                     NodeInfo_InstanceID = nInstance, NodeInfo_AgentPort = ucast nAgentPort\<rparr>;
          s0 = \<lparr>n_conn = (\<lambda>_. conn_zero), n_nextConn = 0, n_table = (\<lambda>_. []), n_nextTable = 0,
                n_rpc = (\<lambda>_. rpc_zero), n_nextRpc = 0, n_task = [],
                nm_info = (\<lambda>_. info_zero), nm_nNextInfo = 0, nm_MyInfo = objInfo, nm_task = [],
                nm_wait = [], nm_mTempConnection = [], nm_mNodeInfo = [], nm_mRpcFunc2Node = [],
                nm_ptrSelf = 0, nm_nSequence = 0, nm_aryNeighbour = aryNeighbour,
                nm_nStatus = MANAGER_STATUS_STARTED, nm_upcall = []\<rparr>
      in (case newNode szName' szIP nInstance nPort nAgentPort nNow s0 of
            (n, s1) \<Rightarrow> s1\<lparr>nm_ptrSelf := n, nm_mNodeInfo := [(szName', n)]\<rparr>))"

end
