(* ===== verification/AgentClient.thy ===== *)
theory AgentClient
  imports Handlers
begin

text \<open>
  \<^verbatim>\<open>cli_agent/agent.go\<close>, \<^verbatim>\<open>cli_agent/common.go\<close> and \<^verbatim>\<open>cli_agent/handler.go\<close>: what an agent
  knows about one of its clients (its connections, status and entries), how it sends to
  a client, and the interface through which the agent uses the node it belongs to.

  The client manager extends the state of the node manager, because both run in one
  process and share the connections; names that the node package already uses carry the
  suffix \<open>_ci\<close> (client info) or \<open>_cm\<close> (client manager).
\<close>

section \<open>Constants and configuration\<close>

abbreviation (input) AGENT_STATUS_DEAD :: uint32 where "AGENT_STATUS_DEAD \<equiv> 1"
abbreviation (input) AGENT_STATUS_ALIVE :: uint32 where "AGENT_STATUS_ALIVE \<equiv> 2"

record agent_env =
  ae_node :: node_env
  ae_AgentClientMaxConnection :: nat
  ae_ConnectTimeout :: int64
  ae_SignTimeout :: int64
  ae_ClientTimeout :: int64

abbreviation ae_pb :: "agent_env \<Rightarrow> proto_lib" where "ae_pb A \<equiv> ne_pb (ae_node A)"

definition AgentClientMaxConnection :: "int \<Rightarrow> nat" where
  "AgentClientMaxConnection configured = (if 0 < configured then nat configured else 10)"

definition makeSign_ci :: "agent_env \<Rightarrow> string \<Rightarrow> int64 \<Rightarrow> string" where
  "makeSign_ci A szID nNow =
     hex_EncodeToString (hmac_md5 (ne_szSecretKey (ae_node A)) (szID @ FormatInt nNow))"

text \<open>
  What the environment decides during one operation: the node's choices, a random number
  for a choice among clients, and for each client a random number and a UUID.
\<close>

record agent_choice =
  ac_node :: choice
  ac_pick :: nat
  ac_rand :: "nat \<Rightarrow> nat"
  ac_uuid :: "nat \<Rightarrow> string"

section \<open>State\<close>

record ClientInfo =
  ci_szInstanceID :: string
  ci_aryConnectionList :: "connref list"
  ci_mEntryInfo :: "(string, agent_EntryInfo) gomap"
  ci_nStatus :: uint32
  ci_nLastKeepAliveTime :: int64

type_synonym clientref = nat

text \<open>A connection to close from the worker pool, or a packet to process there.\<close>

datatype ClientTask =
    CProcess connref bytes ctx
  | CCloseConnection ctx
  | CCloseNew connref

datatype NodeHandlerRef = DummyNodeHandler | NodeManagerHandler

record ClientManager = NodeManager +
  cm_info :: "clientref \<Rightarrow> ClientInfo"
  cm_nNextClient :: nat
  cm_szName :: string
  cm_mTempConnection :: "(connref, int64) gomap"
  cm_mClientInfo :: "(string, clientref) gomap"
  cm_mUri2Client :: "(string, clientref list) gomap"
  cm_nStatus :: "32 word"
  cm_objNodeHandler :: NodeHandlerRef
  cm_task :: "ClientTask list"

definition set_client :: "clientref \<Rightarrow> ClientInfo \<Rightarrow> 'a ClientManager_scheme \<Rightarrow> 'a ClientManager_scheme" where
  "set_client n v s = s\<lparr>cm_info := (cm_info s)(n := v)\<rparr>"

definition GoTask_cm :: "ClientTask \<Rightarrow> 'a ClientManager_scheme \<Rightarrow> 'a ClientManager_scheme" where
  "GoTask_cm k s = s\<lparr>cm_task := cm_task s @ [k]\<rparr>"

section \<open>The node as the agent sees it\<close>

text \<open>
  The interface \<^verbatim>\<open>NodeHandler\<close>.  Dispatching a request or a response changes the message
  the caller holds (its caller stack), so both return it.
\<close>

record 's NodeHandler =
  nh_DispatchReq :: "choice \<Rightarrow> RpcCallReq \<Rightarrow> ctx \<Rightarrow> 's \<Rightarrow> (ResultCode \<times> RpcCallReq) \<times> 's"
  nh_DispatchRsp :: "choice \<Rightarrow> RpcCallResp \<Rightarrow> ctx \<Rightarrow> 's \<Rightarrow> (ResultCode \<times> RpcCallResp) \<times> 's"
  nh_AddEntry :: "string \<Rightarrow> EntryType \<Rightarrow> 's \<Rightarrow> 's"
  nh_RemoveEntry :: "string \<Rightarrow> EntryType \<Rightarrow> 's \<Rightarrow> 's"
  nh_NodeList :: "nat \<Rightarrow> 's \<Rightarrow> NodeInfo list"
  nh_EntryCheck :: "string \<Rightarrow> EntryType \<Rightarrow> 's \<Rightarrow> ResultCode"

definition dummy_node_handler :: "'s NodeHandler" where
  "dummy_node_handler =
     \<lparr>nh_DispatchReq = (\<lambda>ch ptrReq ctx s. ((ResultCode_ERROR, ptrReq), s)),
      nh_DispatchRsp = (\<lambda>ch ptrResp ctx s. ((ResultCode_ERROR, ptrResp), s)),
      nh_AddEntry = (\<lambda>szUri enumEntryType s. s),
      nh_RemoveEntry = (\<lambda>szUri enumEntryType s. s),
      nh_NodeList = (\<lambda>r s. []),
      nh_EntryCheck = (\<lambda>szEntryUri nEntryType s. ResultCode_ERROR)\<rparr>"

text \<open>The node manager as a handler, as \<^verbatim>\<open>nbserver\<close> registers it.\<close>

definition node_manager_handler :: "node_env \<Rightarrow> ('a NodeManager_scheme) NodeHandler" where
  "node_manager_handler E =
     \<lparr>nh_DispatchReq = DispatchReq E, nh_DispatchRsp = DispatchRsp E, nh_AddEntry = AddEntry E,
      nh_RemoveEntry = RemoveEntry E, nh_NodeList = NodeList, nh_EntryCheck = EntryCheck E\<rparr>"

definition objNodeHandler :: "agent_env \<Rightarrow> NodeHandlerRef \<Rightarrow> ('a NodeManager_scheme) NodeHandler" where
  "objNodeHandler A r =
     (case r of
        DummyNodeHandler \<Rightarrow> dummy_node_handler
      | NodeManagerHandler \<Rightarrow> node_manager_handler (ae_node A))"

section \<open>Operations\<close>

definition NewClient_ci ::
  "string \<Rightarrow> int64 \<Rightarrow> 'a ClientManager_scheme \<Rightarrow> clientref \<times> 'a ClientManager_scheme" where
  "NewClient_ci szInstanceID nNow s =
     (let n = cm_nNextClient s;
          v = \<lparr>ci_szInstanceID = szInstanceID, ci_aryConnectionList = [], ci_mEntryInfo = [],
               ci_nStatus = AGENT_STATUS_ALIVE, ci_nLastKeepAliveTime = nNow\<rparr>
      in (n, set_client n v (s\<lparr>cm_nNextClient := Suc n\<rparr>)))"

definition getClientInfo :: "clientref \<Rightarrow> 'a ClientManager_scheme \<Rightarrow> string" where
  "getClientInfo n s = ci_szInstanceID (cm_info s n)"

definition onCloseConnection_ci ::
  "clientref \<Rightarrow> connref \<Rightarrow> 'a ClientManager_scheme \<Rightarrow> nat \<times> 'a ClientManager_scheme" where
  "onCloseConnection_ci n c s =
     (let aryConnectionList = filter (\<lambda>c'. c' \<noteq> c) (ci_aryConnectionList (cm_info s n))
      in (length aryConnectionList,
          set_client n ((cm_info s n)\<lparr>ci_aryConnectionList := aryConnectionList\<rparr>) s))"

definition alive_ci :: "clientref \<Rightarrow> 'a ClientManager_scheme \<Rightarrow> bool" where
  "alive_ci n s \<longleftrightarrow> ci_nStatus (cm_info s n) \<noteq> AGENT_STATUS_DEAD"

definition addConnection_ci ::
  "agent_env \<Rightarrow> clientref \<Rightarrow> connref \<Rightarrow> 'a ClientManager_scheme \<Rightarrow> 'a ClientManager_scheme" where
  "addConnection_ci A n c s =
     (let aryConnectionList = ci_aryConnectionList (cm_info s n) in
      if \<not> alive_ci n s then Close c s
      else if c \<in> set aryConnectionList then s
      else if ae_AgentClientMaxConnection A < length aryConnectionList then Close c s
      else set_client n ((cm_info s n)\<lparr>ci_aryConnectionList := aryConnectionList @ [c]\<rparr>) s)"

definition getAllEntry_ci :: "clientref \<Rightarrow> 'a ClientManager_scheme \<Rightarrow> agent_EntryInfo list" where
  "getAllEntry_ci n s = map snd (ci_mEntryInfo (cm_info s n))"

definition markDead_ci ::
  "clientref \<Rightarrow> 'a ClientManager_scheme \<Rightarrow> agent_EntryInfo list \<times> 'a ClientManager_scheme" where
  "markDead_ci n s =
     (let s1 = set_client n ((cm_info s n)\<lparr>ci_nStatus := AGENT_STATUS_DEAD\<rparr>) s;
          s2 = forEach Close (ci_aryConnectionList (cm_info s1 n)) s1
      in (getAllEntry_ci n s2, s2))"

definition connectionAvailable_ci :: "agent_env \<Rightarrow> clientref \<Rightarrow> 'a ClientManager_scheme \<Rightarrow> bool" where
  "connectionAvailable_ci A n s \<longleftrightarrow>
     ae_AgentClientMaxConnection A div 2 \<le> length (ci_aryConnectionList (cm_info s n))"

definition getConnection_ci :: "nat \<Rightarrow> clientref \<Rightarrow> 'a ClientManager_scheme \<Rightarrow> connref option" where
  "getConnection_ci r n s =
     (let aryConnectionList = ci_aryConnectionList (cm_info s n)
      in if aryConnectionList = [] then None else Some (pick r aryConnectionList))"

definition getConnectionID :: "connref option \<Rightarrow> 'a net_scheme \<Rightarrow> string" where
  "getConnectionID ptrConnection s =
     (case ptrConnection of
        None \<Rightarrow> ''''
      | Some c \<Rightarrow> sc_szLocal (n_conn s c) @ ''_'' @ sc_szRemote (n_conn s c))"

text \<open>The connection the request came on, or a random one of the client if it is gone.\<close>

definition getRespConnection ::
  "nat \<Rightarrow> clientref \<Rightarrow> Caller \<Rightarrow> 'a ClientManager_scheme \<Rightarrow> connref option" where
  "getRespConnection r n objCaller s =
     (let aryConnectionList = ci_aryConnectionList (cm_info s n) in
      if aryConnectionList = [] then None
      else (case find (\<lambda>c. getConnectionID (Some c) s = Caller_ConnectionID objCaller) aryConnectionList of
              Some c \<Rightarrow> Some c
            | None \<Rightarrow> Some (pick r aryConnectionList)))"

definition getUri_ci :: "agent_env \<Rightarrow> agent_EntryInfo \<Rightarrow> string" where
  "getUri_ci A ptrEntry = agent_EntryInfo_URI ptrEntry @ ''_''
     @ agent_EntryType_String (ae_pb A) (agent_EntryInfo_EntryType ptrEntry)"

definition syncEntry_ci ::
  "agent_env \<Rightarrow> clientref \<Rightarrow> agent_EntryInfo list \<Rightarrow> 'a ClientManager_scheme \<Rightarrow> 'a ClientManager_scheme" where
  "syncEntry_ci A n aryEntry s =
     set_client n ((cm_info s n)\<lparr>
       ci_mEntryInfo := forEach (\<lambda>e. mput (getUri_ci A e) e) aryEntry [],
       ci_nStatus := AGENT_STATUS_ALIVE\<rparr>) s"

definition getState_ci :: "clientref \<Rightarrow> 'a ClientManager_scheme \<Rightarrow> uint32" where
  "getState_ci n s = ci_nStatus (cm_info s n)"

definition refreshKeepLiveTime_ci ::
  "int64 \<Rightarrow> clientref \<Rightarrow> 'a ClientManager_scheme \<Rightarrow> 'a ClientManager_scheme" where
  "refreshKeepLiveTime_ci nNow n s = set_client n ((cm_info s n)\<lparr>ci_nLastKeepAliveTime := nNow\<rparr>) s"

definition timeout_ci :: "int64 \<Rightarrow> int64 \<Rightarrow> clientref \<Rightarrow> 'a ClientManager_scheme \<Rightarrow> bool" where
  "timeout_ci nNow nTimeout n s \<longleftrightarrow> gt64 nNow (ci_nLastKeepAliveTime (cm_info s n) + nTimeout)"

definition sendMessage ::
  "agent_env \<Rightarrow> string \<Rightarrow> nat \<Rightarrow> string \<Rightarrow> ProtoMsg \<Rightarrow> connref \<Rightarrow> 'a net_scheme
     \<Rightarrow> bool \<times> 'a net_scheme" where
  "sendMessage A szUri nMsgType szRequestID objMsg c s =
     (case NewProtocol (ae_pb A) szUri nMsgType szRequestID objMsg of
        (byteData, bRet) \<Rightarrow> if \<not> bRet then (False, s) else Write c byteData s)"

definition rpcCall ::
  "agent_env \<Rightarrow> agent_choice \<Rightarrow> clientref \<Rightarrow> RpcCallReq \<Rightarrow> 'a ClientManager_scheme
     \<Rightarrow> bool \<times> 'a ClientManager_scheme" where
  "rpcCall A ch n ptrReq s =
     (if ci_nStatus (cm_info s n) \<noteq> AGENT_STATUS_ALIVE then (False, s)
      else (case getConnection_ci (ac_rand ch n) n s of
         None \<Rightarrow> (False, s)
       | Some c \<Rightarrow> sendMessage A NODE_RPC_REQ MSG_TYPE_REQUEST (ac_uuid ch n) (MRpcCallReq ptrReq) c s))"

definition rpcResp ::
  "agent_env \<Rightarrow> agent_choice \<Rightarrow> clientref \<Rightarrow> RpcCallResp \<Rightarrow> Caller \<Rightarrow> 'a ClientManager_scheme
     \<Rightarrow> bool \<times> 'a ClientManager_scheme" where
  "rpcResp A ch n ptrResp objCaller s =
     (if ci_nStatus (cm_info s n) \<noteq> AGENT_STATUS_ALIVE then (False, s)
      else (case getRespConnection (ac_rand ch n) n objCaller s of
         None \<Rightarrow> (False, s)
       | Some c \<Rightarrow>
           sendMessage A NODE_RPC_RESP MSG_TYPE_RESPONE (Caller_RequestID objCaller)
             (MRpcCallResp ptrResp) c s))"

definition cast_ci ::
  "agent_env \<Rightarrow> agent_choice \<Rightarrow> clientref \<Rightarrow> string \<Rightarrow> ProtoMsg \<Rightarrow> 'a ClientManager_scheme
     \<Rightarrow> bool \<times> 'a ClientManager_scheme" where
  "cast_ci A ch n szUri objReq s =
     (case getConnection_ci (ac_rand ch n) n s of
        None \<Rightarrow> (False, s)
      | Some c \<Rightarrow> Cast_Start (ae_pb A) (NewCast (ac_uuid ch n) szUri objReq (Some c)) s)"

end
