(* ===== verification/AgentManager.thy ===== *)
theory AgentManager
  imports AgentClient
begin

text \<open>
  \<^verbatim>\<open>cli_agent/agent_manager.go\<close>: the client manager.  It owns the map of clients, the table
  from entry keys to the clients that offer them, and the connections that have not
  registered yet; it serves the messages of clients and the requests and responses the
  node hands up.

  The node is reached through a handler H, the value of \<^verbatim>\<open>objNodeHandler\<close>.  A nil client
  pointer is the reference 0, which no client has.
\<close>

abbreviation (input) nil_client :: clientref where "nil_client \<equiv> 0"

section \<open>Entries\<close>

definition set_clients :: "string \<Rightarrow> clientref list \<Rightarrow> 'a ClientManager_scheme \<Rightarrow> 'a ClientManager_scheme" where
  "set_clients u ns s = s\<lparr>cm_mUri2Client := mput u ns (cm_mUri2Client s)\<rparr>"

definition CheckAgentUri :: "agent_env \<Rightarrow> agent_EntryInfo \<Rightarrow> 'a ClientManager_scheme \<Rightarrow> bool" where
  "CheckAgentUri A ptrEntry s \<longleftrightarrow> mget (cm_mUri2Client s) (getUri_ci A ptrEntry) \<noteq> None"

text \<open>One round of the loop of \<^verbatim>\<open>AddEntry\<close>: the first client of an entry makes the node offer it.\<close>

definition AddEntry_one ::
  "agent_env \<Rightarrow> ('a ClientManager_scheme) NodeHandler \<Rightarrow> clientref \<Rightarrow> agent_EntryInfo
     \<Rightarrow> 'a ClientManager_scheme \<Rightarrow> 'a ClientManager_scheme" where
  "AddEntry_one A H n ptrEntry s =
     (let szUri = getUri_ci A ptrEntry in
      case mget (cm_mUri2Client s) szUri of
        Some aryClient \<Rightarrow>
          set_clients szUri (if n \<in> set aryClient then aryClient else aryClient @ [n]) s
      | None \<Rightarrow>
          set_clients szUri [n]
            (nh_AddEntry H (agent_EntryInfo_URI ptrEntry) (agent_EntryInfo_EntryType ptrEntry) s))"

definition AddEntry_cm ::
  "agent_env \<Rightarrow> ('a ClientManager_scheme) NodeHandler \<Rightarrow> agent_EntryInfo list \<Rightarrow> clientref
     \<Rightarrow> 'a ClientManager_scheme \<Rightarrow> 'a ClientManager_scheme" where
  "AddEntry_cm A H aryEntry n s = forEach (AddEntry_one A H n) aryEntry s"

text \<open>One round of the loop of \<^verbatim>\<open>RemoveEntry\<close>: without clients the node withdraws the entry.\<close>

definition RemoveEntry_one ::
  "agent_env \<Rightarrow> ('a ClientManager_scheme) NodeHandler \<Rightarrow> clientref \<Rightarrow> agent_EntryInfo
     \<Rightarrow> 'a ClientManager_scheme \<Rightarrow> 'a ClientManager_scheme" where
  "RemoveEntry_one A H n ptrEntry s =
     (let szUri = getUri_ci A ptrEntry;
          aryClientListNew = filter (\<lambda>n'. n' \<noteq> n) (mgets (cm_mUri2Client s) szUri);
          s1 = set_clients szUri aryClientListNew s
      in if aryClientListNew = [] then
           nh_RemoveEntry H (agent_EntryInfo_URI ptrEntry) (agent_EntryInfo_EntryType ptrEntry)
             (s1\<lparr>cm_mUri2Client := mdel szUri (cm_mUri2Client s1)\<rparr>)
         else s1)"

definition RemoveEntry_cm ::
  "agent_env \<Rightarrow> ('a ClientManager_scheme) NodeHandler \<Rightarrow> agent_EntryInfo list \<Rightarrow> clientref
     \<Rightarrow> 'a ClientManager_scheme \<Rightarrow> 'a ClientManager_scheme" where
  "RemoveEntry_cm A H aryEntry n s = forEach (RemoveEntry_one A H n) aryEntry s"

definition GetAllEntry :: "'a ClientManager_scheme \<Rightarrow> agent_EntryInfo list" where
  "GetAllEntry s = concat (map (\<lambda>(_, n). getAllEntry_ci n s) (cm_mClientInfo s))"

text \<open>The client a request goes to: a random one, or the one its key hashes to.\<close>

definition string2HashCode_cm :: "string \<Rightarrow> nat" where
  "string2HashCode_cm szInput =
     (let nResult = int (unat (crc32_ChecksumIEEE szInput)) in
      nat (if 0 \<le> nResult then nResult else if 0 \<le> - nResult then - nResult else 0))"

text \<open>The package has its own copy of the hash of \<^verbatim>\<open>node\<close>.\<close>

lemma string2HashCode_cm [simp]: "string2HashCode_cm = string2HashCode"
  by (simp add: fun_eq_iff string2HashCode_cm_def string2HashCode_def)

definition getClient4RpcCallReq ::
  "agent_env \<Rightarrow> agent_choice \<Rightarrow> RpcCallReq \<Rightarrow> 'a ClientManager_scheme \<Rightarrow> clientref option" where
  "getClient4RpcCallReq A ch ptrReq s =
     (let szUri = RpcCallReq_URI ptrReq @ ''_'' @ EntryType_String (ae_pb A) (RpcCallReq_EntryType ptrReq) in
      case mget (cm_mUri2Client s) szUri of
        None \<Rightarrow> None
      | Some aryClient \<Rightarrow>
          if aryClient = [] then None
          else
            let n = (if RpcCallReq_Key ptrReq = '''' then pick (ac_pick ch) aryClient
                     else aryClient ! (string2HashCode_cm (RpcCallReq_Key ptrReq) mod length aryClient))
            in if n = nil_client then None else Some n)"

section \<open>Connections\<close>

definition OnNewConnection_cm ::
  "int64 \<Rightarrow> connref \<Rightarrow> 'a ClientManager_scheme \<Rightarrow> 'a ClientManager_scheme" where
  "OnNewConnection_cm nNow c s =
     (let s1 = (if cm_nStatus s \<noteq> MANAGER_STATUS_STARTED then GoTask_cm (CCloseNew c) s else s)
      in s1\<lparr>cm_mTempConnection := mput c nNow (cm_mTempConnection s1)\<rparr>)"

definition OnRead_cm :: "connref \<Rightarrow> bytes \<Rightarrow> ctx \<Rightarrow> 'a ClientManager_scheme \<Rightarrow> 'a ClientManager_scheme" where
  "OnRead_cm c aryBuffer ctx s = GoTask_cm (CProcess c aryBuffer ctx) s"

definition getClientByConnection :: "connref \<Rightarrow> 'a net_scheme \<Rightarrow> clientref option" where
  "getClientByConnection c s =
     (case sc_Ctx (n_conn s c) of Some (CtxClient n) \<Rightarrow> Some n | _ \<Rightarrow> None)"

definition getClient :: "ctx \<Rightarrow> 'a net_scheme \<Rightarrow> clientref option" where
  "getClient ctx s =
     (case GetServerConnection ctx of None \<Rightarrow> None | Some c \<Rightarrow> getClientByConnection c s)"

definition deleteClient ::
  "agent_env \<Rightarrow> ('a ClientManager_scheme) NodeHandler \<Rightarrow> clientref
     \<Rightarrow> 'a ClientManager_scheme \<Rightarrow> 'a ClientManager_scheme" where
  "deleteClient A H n s =
     (case markDead_ci n s of
        (aryEntry, s1) \<Rightarrow>
          let s2 = RemoveEntry_cm A H aryEntry n s1
          in s2\<lparr>cm_mClientInfo := mdel (ci_szInstanceID (cm_info s2 n)) (cm_mClientInfo s2)\<rparr>)"

definition OnCloseConnection_cm ::
  "agent_env \<Rightarrow> ('a ClientManager_scheme) NodeHandler \<Rightarrow> connref
     \<Rightarrow> 'a ClientManager_scheme \<Rightarrow> 'a ClientManager_scheme" where
  "OnCloseConnection_cm A H c s =
     (case getClientByConnection c s of
        Some n \<Rightarrow>
          (case onCloseConnection_ci n c s of
             (nLeft, s1) \<Rightarrow> if nLeft = 0 then deleteClient A H n s1 else s1)
      | None \<Rightarrow> s\<lparr>cm_mTempConnection := mdel c (cm_mTempConnection s)\<rparr>)"

definition cleanTimeout_cm ::
  "agent_env \<Rightarrow> ('a ClientManager_scheme) NodeHandler \<Rightarrow> int64
     \<Rightarrow> 'a ClientManager_scheme \<Rightarrow> 'a ClientManager_scheme" where
  "cleanTimeout_cm A H nNow s =
     (let late = (\<lambda>(c, nTime). gt64 nNow (nTime + ae_ConnectTimeout A));
          aryTimeoutConnection = map fst (filter late (cm_mTempConnection s));
          s1 = forEach Close aryTimeoutConnection
                 (s\<lparr>cm_mTempConnection := filter (\<lambda>e. \<not> late e) (cm_mTempConnection s)\<rparr>);
          aryTimeoutClient =
            filter (\<lambda>n. timeout_ci nNow (ae_ClientTimeout A) n s1) (map snd (cm_mClientInfo s1))
      in forEach (deleteClient A H) aryTimeoutClient s1)"

section \<open>Messages of clients\<close>

definition agent_not_auth ::
  "ctx \<Rightarrow> 'a ClientManager_scheme \<Rightarrow> string outcome \<times> 'a ClientManager_scheme" where
  "agent_not_auth ctx s = (Ret ''agent_not_auth'', GoTask_cm (CCloseConnection ctx) s)"

definition reply_cm ::
  "agent_env \<Rightarrow> string \<Rightarrow> ProtoMsg \<Rightarrow> ctx \<Rightarrow> 'a net_scheme \<Rightarrow> string outcome \<times> 'a net_scheme" where
  "reply_cm A szResult objRsp ctx s =
     (case Reply (ae_pb A) objRsp ctx s of
        (Panics, s1) \<Rightarrow> (Panics, s1) | (Ret _, s1) \<Rightarrow> (Ret szResult, s1))"

text \<open>The critical section of \<^verbatim>\<open>handleAgentRegister\<close>: find or make the client and bind the connection.\<close>

definition register_admit ::
  "agent_env \<Rightarrow> int64 \<Rightarrow> AgentRegisterReq \<Rightarrow> connref \<Rightarrow> 'a ClientManager_scheme
     \<Rightarrow> clientref \<times> 'a ClientManager_scheme" where
  "register_admit A nNow objReq c s =
     (let szClientKey = AgentRegisterReq_InstanceID objReq in
      case mget (cm_mClientInfo s) szClientKey of
        Some n \<Rightarrow>
          (n, bind_ctx c (CtxClient n)
                (syncEntry_ci A n (AgentRegisterReq_AryEntry objReq) (addConnection_ci A n c s)))
      | None \<Rightarrow>
          (case NewClient_ci szClientKey nNow s of
             (n, s1) \<Rightarrow>
               let s2 = bind_ctx c (CtxClient n)
                     (syncEntry_ci A n (AgentRegisterReq_AryEntry objReq) (addConnection_ci A n c s1))
               in (n, s2\<lparr>cm_mClientInfo := mput szClientKey n (cm_mClientInfo s2)\<rparr>)))"

definition handleAgentRegister ::
  "agent_env \<Rightarrow> ('a ClientManager_scheme) NodeHandler \<Rightarrow> int64 \<Rightarrow> bytes \<Rightarrow> ctx
     \<Rightarrow> 'a ClientManager_scheme \<Rightarrow> string outcome \<times> 'a ClientManager_scheme" where
  "handleAgentRegister A H nNow byteData ctx s =
     (case Unmarshal_AgentRegisterReq (ae_pb A) byteData of
        None \<Rightarrow> (Ret ''proto_Unmarshal_fail'', s)
      | Some objReq \<Rightarrow>
          if AgentRegisterReq_Sign objReq
               \<noteq> makeSign_ci A (AgentRegisterReq_InstanceID objReq) (AgentRegisterReq_TimeStamp objReq) then
            reply_cm A (agent_ResultCode_String (ae_pb A) ResultCode_SIGN_VALIDATE_FAIL)
              (MAgentRegisterRsp \<lparr>AgentRegisterRsp_Result = ResultCode_SIGN_VALIDATE_FAIL,
                 AgentRegisterRsp_Sign = '''', AgentRegisterRsp_TimeStamp = 0\<rparr>) ctx s
          else if gt64 nNow (AgentRegisterReq_TimeStamp objReq + ae_SignTimeout A) then
            reply_cm A (agent_ResultCode_String (ae_pb A) ResultCode_SIGN_TIMEOUT)
              (MAgentRegisterRsp \<lparr>AgentRegisterRsp_Result = ResultCode_SIGN_TIMEOUT,
                 AgentRegisterRsp_Sign = '''', AgentRegisterRsp_TimeStamp = 0\<rparr>) ctx s
          else if cm_nStatus s \<noteq> MANAGER_STATUS_STARTED then (Ret ''agent manager stoped'', s)
          else
            (case (case GetServerConnection ctx of
                     None \<Rightarrow> (nil_client, s)
                   | Some c \<Rightarrow>
                       (case register_admit A nNow objReq c s of
                          (n, s1) \<Rightarrow> (n, s1\<lparr>cm_mTempConnection := mdel c (cm_mTempConnection s1)\<rparr>)))
             of (n, s2) \<Rightarrow>
               reply_cm A ''SUCCESS''
                 (MAgentRegisterRsp \<lparr>AgentRegisterRsp_Result = ResultCode_SUCCESS,
                    AgentRegisterRsp_Sign = makeSign_ci A (cm_szName s) nNow,
                    AgentRegisterRsp_TimeStamp = nNow\<rparr>) ctx
                 (AddEntry_cm A H (AgentRegisterReq_AryEntry objReq) n s2)))"

definition handleAgentUnRegister ::
  "agent_env \<Rightarrow> ('a ClientManager_scheme) NodeHandler \<Rightarrow> bytes \<Rightarrow> ctx
     \<Rightarrow> 'a ClientManager_scheme \<Rightarrow> string outcome \<times> 'a ClientManager_scheme" where
  "handleAgentUnRegister A H byteData ctx s =
     (case Unmarshal_AgentUnRegisterReq (ae_pb A) byteData of
        None \<Rightarrow> (Ret ''proto_Unmarshal_fail'', s)
      | Some objNotify \<Rightarrow>
          (case getClient ctx s of
             None \<Rightarrow> agent_not_auth ctx s
           | Some n \<Rightarrow> (Ret ''SUCCESS'', deleteClient A H n s)))"

definition handleKeepAlive_cm ::
  "agent_env \<Rightarrow> ('a ClientManager_scheme) NodeHandler \<Rightarrow> agent_choice \<Rightarrow> int64 \<Rightarrow> bytes \<Rightarrow> ctx
     \<Rightarrow> 'a ClientManager_scheme \<Rightarrow> string outcome \<times> 'a ClientManager_scheme" where
  "handleKeepAlive_cm A H ch nNow byteData ctx s =
     (case Unmarshal_AgentKeepAliveNotify (ae_pb A) byteData of
        None \<Rightarrow> (Ret ''proto_Unmarshal_fail'', s)
      | Some objNotify \<Rightarrow>
          (case getClient ctx s of
             None \<Rightarrow> agent_not_auth ctx s
           | Some n \<Rightarrow>
               if getState_ci n s = AGENT_STATUS_DEAD then (Ret ''agent_dead'', s)
               else
                 let s1 = refreshKeepLiveTime_ci nNow n s;
                     aryNode = nh_NodeList H (ch_pick (ac_node ch)) s1;
                     objRsp = \<lparr>AgentKeepAliveRsp_AryAgent =
                       map (\<lambda>i. \<lparr>agent_AgentInfo_Name = NodeInfo_Name i, agent_AgentInfo_IP = NodeInfo_IP i,
                                 agent_AgentInfo_Port = NodeInfo_AgentPort i\<rparr>) aryNode\<rparr>
                 in reply_cm A ''SUCCESS'' (MAgentKeepAliveRsp objRsp) ctx s1))"

definition RpcCallResp_failed :: "ResultCode \<Rightarrow> RpcCallResp" where
  "RpcCallResp_failed r = \<lparr>RpcCallResp_Result = r, RpcCallResp_Data = [], RpcCallResp_URI = '''',
     RpcCallResp_Caller = [], RpcCallResp_EntryType = 0\<rparr>"

text \<open>Hand a request to a client of the own agent, or answer that there is none.\<close>

definition call_local ::
  "agent_env \<Rightarrow> agent_choice \<Rightarrow> RpcCallReq \<Rightarrow> ctx \<Rightarrow> 'a ClientManager_scheme
     \<Rightarrow> string outcome \<times> 'a ClientManager_scheme" where
  "call_local A ch ptrReq ctx s =
     (case getClient4RpcCallReq A ch ptrReq s of
        None \<Rightarrow>
          reply_cm A (ResultCode_String (ae_pb A) ResultCode_ENTRY_NOT_FOUND)
            (MRpcCallResp (RpcCallResp_failed ResultCode_ENTRY_NOT_FOUND)) ctx s
      | Some n \<Rightarrow>
          (case rpcCall A ch n ptrReq s of
             (bOk, s1) \<Rightarrow> (Ret (if bOk then ''SUCCESS'' else ''agent call fail''), s1)))"

definition getConnectionIDFromCtx :: "ctx \<Rightarrow> 'a net_scheme \<Rightarrow> string" where
  "getConnectionIDFromCtx ctx s =
     (case GetServerConnection ctx of
        None \<Rightarrow> ''''
      | Some c \<Rightarrow> sc_szLocal (n_conn s c) @ ''_'' @ sc_szRemote (n_conn s c))"

lemma getConnectionIDFromCtx [simp]: "getConnectionIDFromCtx ctx s = getConnectionID (GetServerConnection ctx) s"
  by (simp add: getConnectionIDFromCtx_def getConnectionID_def)

definition handleRpcCallReq_cm ::
  "agent_env \<Rightarrow> ('a ClientManager_scheme) NodeHandler \<Rightarrow> agent_choice \<Rightarrow> bytes \<Rightarrow> ctx
     \<Rightarrow> 'a ClientManager_scheme \<Rightarrow> string outcome \<times> 'a ClientManager_scheme" where
  "handleRpcCallReq_cm A H ch byteData ctx s =
     (case Unmarshal_RpcCallReq (ae_pb A) byteData of
        None \<Rightarrow> (Ret ''proto_Unmarshal_fail'', s)
      | Some objReq \<Rightarrow>
          (case getClient ctx s of
             None \<Rightarrow> agent_not_auth ctx s
           | Some n \<Rightarrow>
               let szCaller = GenAgentCaller (getClientInfo n s) (GetRequestID ctx)
                     (getConnectionIDFromCtx ctx s)
               in (case nh_DispatchReq H (ac_node ch) (PushStack objReq szCaller) ctx s of
                     ((nResultCode, objReq'), s1) \<Rightarrow>
                       if nResultCode = ResultCode_CALL_YOUR_SELF then call_local A ch objReq' ctx s1
                       else if nResultCode = ResultCode_SUCCESS then
                         (Ret (ResultCode_String (ae_pb A) nResultCode), s1)
                       else
                         reply_cm A (ResultCode_String (ae_pb A) nResultCode)
                           (MRpcCallResp (RpcCallResp_failed nResultCode)) ctx s1)))"

text \<open>
  Hand a response to the client on top of its caller stack.  The result is \<^verbatim>\<open>false\<close> for a
  stack that is empty; it is only logged, as is a client that is not known.
\<close>

definition respond_local ::
  "agent_env \<Rightarrow> agent_choice \<Rightarrow> RpcCallResp \<Rightarrow> 'a ClientManager_scheme
     \<Rightarrow> string outcome \<times> 'a ClientManager_scheme" where
  "respond_local A ch objResp s =
     (case PopStack objResp of
        ((szCaller, bCaller), objResp') \<Rightarrow>
          if \<not> snd (GetTopStack objResp) \<or> \<not> bCaller then (Ret ''can not get top caller'', s)
          else (case json_Unmarshal szCaller of
             None \<Rightarrow> (Ret ''json.Unmarshal error: '', s)
           | Some objCaller \<Rightarrow>
               if Caller_Type objCaller = 1 then
                 (case mget (cm_mClientInfo s) (Caller_AgentID objCaller) of
                    Some n \<Rightarrow> (Ret ''SUCCESS'', snd (rpcResp A ch n objResp' objCaller s))
                  | None \<Rightarrow> (Ret ''SUCCESS'', s))
               else (Ret ''SUCCESS'', s)))"

definition handleRpcCallResp_cm ::
  "agent_env \<Rightarrow> ('a ClientManager_scheme) NodeHandler \<Rightarrow> agent_choice \<Rightarrow> bytes \<Rightarrow> ctx
     \<Rightarrow> 'a ClientManager_scheme \<Rightarrow> string outcome \<times> 'a ClientManager_scheme" where
  "handleRpcCallResp_cm A H ch byteData ctx s =
     (case Unmarshal_RpcCallResp (ae_pb A) byteData of
        None \<Rightarrow> (Ret ''proto_Unmarshal_fail'', s)
      | Some objResp \<Rightarrow>
          (case nh_DispatchRsp H (ac_node ch) objResp ctx s of
             ((nResultCode, objResp'), s1) \<Rightarrow>
               if nResultCode = ResultCode_CALL_YOUR_SELF then
                 (case getClient ctx s1 of
                    None \<Rightarrow> agent_not_auth ctx s1
                  | Some _ \<Rightarrow> respond_local A ch objResp' s1)
               else (Ret (ResultCode_String (ae_pb A) nResultCode), s1)))"

text \<open>The code asks the node and logs the answer; the reply it sends is the zero message.\<close>

definition handleEntryCheckReq ::
  "agent_env \<Rightarrow> ('a ClientManager_scheme) NodeHandler \<Rightarrow> bytes \<Rightarrow> ctx
     \<Rightarrow> 'a ClientManager_scheme \<Rightarrow> string outcome \<times> 'a ClientManager_scheme" where
  "handleEntryCheckReq A H byteData ctx s =
     (case Unmarshal_AgentEntryCheckReq (ae_pb A) byteData of
        None \<Rightarrow> (Ret ''proto_Unmarshal_fail'', s)
      | Some objReq \<Rightarrow>
          (case getClient ctx s of
             None \<Rightarrow> agent_not_auth ctx s
           | Some n \<Rightarrow>
               let nResultCode = nh_EntryCheck H (AgentEntryCheckReq_URI objReq)
                     (AgentEntryCheckReq_EntryType objReq) s;
                   objRsp = \<lparr>AgentEntryCheckRsp_Result = 0\<rparr>
               in reply_cm A ''SUCCESS'' (MAgentEntryCheckRsp objRsp) ctx s))"

section \<open>What the node hands up\<close>

definition HandleRequest_cm ::
  "agent_env \<Rightarrow> agent_choice \<Rightarrow> RpcCallReq \<Rightarrow> ctx \<Rightarrow> 'a ClientManager_scheme
     \<Rightarrow> unit outcome \<times> 'a ClientManager_scheme" where
  "HandleRequest_cm A ch ptrReq ctx s =
     (case call_local A ch ptrReq ctx s of
        (Panics, s1) \<Rightarrow> (Panics, s1) | (Ret _, s1) \<Rightarrow> (Ret (), s1))"

definition HandleResponse_cm ::
  "agent_env \<Rightarrow> agent_choice \<Rightarrow> RpcCallResp \<Rightarrow> ctx \<Rightarrow> 'a ClientManager_scheme
     \<Rightarrow> unit outcome \<times> 'a ClientManager_scheme" where
  "HandleResponse_cm A ch ptrResp ctx s =
     (case respond_local A ch ptrResp s of
        (Panics, s1) \<Rightarrow> (Panics, s1) | (Ret _, s1) \<Rightarrow> (Ret (), s1))"

section \<open>The router, the tasks and the shutdown\<close>

definition client_router ::
  "agent_env \<Rightarrow> ('a ClientManager_scheme) NodeHandler \<Rightarrow> agent_choice \<Rightarrow> int64
     \<Rightarrow> ('a ClientManager_scheme) Router" where
  "client_router A H ch nNow =
     snd (RegisterRouter AGENT_ENTRY_CHECK (handleEntryCheckReq A H)
     (snd (RegisterRouter NODE_RPC_RESP (handleRpcCallResp_cm A H ch)
     (snd (RegisterRouter NODE_RPC_REQ (handleRpcCallReq_cm A H ch)
     (snd (RegisterRouter AGENT_KEEP_ALIVE (handleKeepAlive_cm A H ch nNow)
     (snd (RegisterRouter AGENT_UN_REGISTER (handleAgentUnRegister A H)
     (snd (RegisterRouter AGENT_REGISTER (handleAgentRegister A H nNow) NewRouter)))))))))))"

definition process_task_cm ::
  "agent_env \<Rightarrow> ('a ClientManager_scheme) NodeHandler \<Rightarrow> agent_choice \<Rightarrow> int64 \<Rightarrow> connref \<Rightarrow> bytes
     \<Rightarrow> ctx \<Rightarrow> 'a ClientManager_scheme \<Rightarrow> unit outcome \<times> 'a ClientManager_scheme" where
  "process_task_cm A H ch nNow c aryBuffer ctx s =
     (case Process (client_router A H ch nNow) aryBuffer ctx s of
        (Panics, s1) \<Rightarrow> (Panics, s1)
      | (Ret bOk, s1) \<Rightarrow>
          (Ret (), if \<not> bOk then Close c s1
                   else (case getClient ctx s1 of
                      Some n \<Rightarrow> refreshKeepLiveTime_ci nNow n s1
                    | None \<Rightarrow> s1)))"

definition run_client_task ::
  "agent_env \<Rightarrow> ('a ClientManager_scheme) NodeHandler \<Rightarrow> agent_choice \<Rightarrow> int64 \<Rightarrow> ClientTask
     \<Rightarrow> 'a ClientManager_scheme \<Rightarrow> unit outcome \<times> 'a ClientManager_scheme" where
  "run_client_task A H ch nNow k s =
     (case k of
        CProcess c aryBuffer ctx \<Rightarrow> process_task_cm A H ch nNow c aryBuffer ctx s
      | CCloseConnection ctx \<Rightarrow>
          (case GetServerConnection ctx of
             None \<Rightarrow> (Panics, s) | Some c \<Rightarrow> (Ret (), Close c s))
      | CCloseNew c \<Rightarrow> (Ret (), Close c s))"

definition RegisterNodeHandler ::
  "NodeHandlerRef \<Rightarrow> 'a ClientManager_scheme \<Rightarrow> 'a ClientManager_scheme" where
  "RegisterNodeHandler h s = s\<lparr>cm_objNodeHandler := h\<rparr>"

definition Stop_cm ::
  "agent_env \<Rightarrow> agent_choice \<Rightarrow> 'a ClientManager_scheme \<Rightarrow> 'a ClientManager_scheme" where
  "Stop_cm A ch s =
     (let s1 = s\<lparr>cm_nStatus := MANAGER_STATUS_STOPED\<rparr> in
      forEach (\<lambda>n s. snd (cast_ci A ch n NODE_SAY_GOOBEY (MSayGoodbyeNotify SayGoodbyeNotify) s))
        (map snd (cm_mClientInfo s1)) s1)"

section \<open>A new manager\<close>

definition client_zero :: ClientInfo where
  "client_zero = \<lparr>ci_szInstanceID = '''', ci_aryConnectionList = [], ci_mEntryInfo = [],
     ci_nStatus = 0, ci_nLastKeepAliveTime = 0\<rparr>"

text \<open>
  The client manager \<^verbatim>\<open>NewClientManager\<close> returns, in the process of a node manager.  Its
  timer is the step \<open>cleanTimeout_cm\<close> of the system.
\<close>

definition NewClientManager :: "string \<Rightarrow> string \<Rightarrow> NodeManager \<Rightarrow> ClientManager" where
  "NewClientManager szUUID szName s =
     NodeManager.extend s
       \<lparr>cm_info = (\<lambda>_. client_zero), cm_nNextClient = Suc nil_client,
        cm_szName = (if szName = '''' then ''agent_'' @ szUUID else szName),
        cm_mTempConnection = [], cm_mClientInfo = [], cm_mUri2Client = [],
        cm_nStatus = MANAGER_STATUS_STARTED, cm_objNodeHandler = DummyNodeHandler, cm_task = []\<rparr>"

end
