(* ===== verification/NodeFacts.thy ===== *)
theory NodeFacts
  imports Handlers
begin

text \<open>
  Which parts of the state an operation leaves alone.

  \<open>quiet s t\<close>: t differs from s in the network part only, and no connection gained an
  owner.  \<open>keeps s t\<close>: the maps of nodes and routes are the same, every record keeps its
  name and entries, no record died, and all references added are to records that exist.
  Both relations are reflexive and transitive, so an operation is shown to be quiet or
  keeping by following its body.
\<close>

section \<open>The parts of the state\<close>

lemma more_nodes:
  fixes s t :: "'a nodes_scheme"
  assumes "net.more t = net.more s"
  shows "nm_info t = nm_info s" "nm_nNextInfo t = nm_nNextInfo s" "nm_MyInfo t = nm_MyInfo s"
    "nm_task t = nm_task s" "nm_wait t = nm_wait s" "nodes.more t = nodes.more s"
  using assms by (cases s; cases t; simp)+

lemma more_manager:
  fixes s t :: "'a NodeManager_scheme"
  assumes "nodes.more t = nodes.more s"
  shows "nm_mTempConnection t = nm_mTempConnection s" "nm_mNodeInfo t = nm_mNodeInfo s"
    "nm_mRpcFunc2Node t = nm_mRpcFunc2Node s" "nm_ptrSelf t = nm_ptrSelf s"
    "nm_nSequence t = nm_nSequence s" "nm_aryNeighbour t = nm_aryNeighbour s"
    "nm_nStatus t = nm_nStatus s" "nm_upcall t = nm_upcall s"
  using assms by (cases s; cases t; simp)+

definition quiet :: "'a net_scheme \<Rightarrow> 'a net_scheme \<Rightarrow> bool" where
  "quiet s t \<longleftrightarrow> net.more t = net.more s
     \<and> (\<forall>c. sc_Ctx (n_conn t c) = sc_Ctx (n_conn s c) \<or> sc_Ctx (n_conn t c) = None)"

named_theorems quiet_intros \<open>network operations are quiet\<close>

lemma quiet_refl [simp, intro, quiet_intros]: "quiet s s"
  by (simp add: quiet_def)

lemma quiet_trans: "quiet s t \<Longrightarrow> quiet t u \<Longrightarrow> quiet s u"
  unfolding quiet_def by metis

lemma quiet_set_conn [quiet_intros]:
  "sc_Ctx v = sc_Ctx (n_conn s c) \<or> sc_Ctx v = None \<Longrightarrow> quiet s (set_conn c v s)"
  by (simp add: quiet_def set_conn_def)

lemma quiet_upd [quiet_intros]:
  "quiet s (set_rpc x w s)" "quiet s (set_table i m s)" "quiet s (set_conn_table c m s)"
  "quiet s (net_GoTask k s)" "quiet s (s\<lparr>n_nextRpc := i\<rparr>)"
  "quiet s (s\<lparr>n_nextConn := i, n_nextTable := j\<rparr>)"
  by (simp_all add: quiet_def net_upd_defs)

lemma quiet_Close [quiet_intros]: "quiet s (Close c s)"
  by (simp add: quiet_def Close_def objConnection_Close_def net_upd_defs)

lemma quiet_Write [quiet_intros]: "quiet s (snd (Write c b s))"
  by (simp add: quiet_def Write_def net_upd_defs split: option.splits)

lemma quiet_chan_close [quiet_intros]: "quiet s (snd (chan_close x s))"
  by (simp add: quiet_def chan_close_def net_upd_defs)

lemma quiet_chan_send [quiet_intros]: "quiet s (snd (chan_send x b s))"
  by (simp add: quiet_def chan_send_def net_upd_defs)

lemma quiet_clean_contexts: "quiet s (snd (clean_contexts c r es s))"
proof (induction c r es s rule: clean_contexts.induct)
  case (1 c r s)
  then show ?case by simp
next
  case (2 c r q x rest s)
  let ?s0 = "CancelFunc x (setErrorMsg x r s)"
  have 0: "quiet s ?s0" by (simp add: quiet_def CancelFunc_def setErrorMsg_def net_upd_defs)
  obtain z s1 where cl: "chan_close x ?s0 = (z, s1)" by (cases "chan_close x ?s0")
  have 1: "quiet s s1" using quiet_trans [OF 0 quiet_chan_close [of ?s0 x]] cl by simp
  show ?case
  proof (cases z)
    case (Ret u)
    have "quiet s1 (snd (clean_contexts c r rest (set_conn_table c (mdel q (conn_table c s1)) s1)))"
      using 2 [OF cl [symmetric] Ret] quiet_upd(3) [of s1] quiet_trans by blast
    then show ?thesis using 1 cl Ret quiet_trans by auto
  qed (use 1 cl in simp)
qed

lemma quiet_cleanAll [quiet_intros]: "quiet s (snd (cleanAllRpcContext c r s))"
  by (simp add: cleanAllRpcContext_def quiet_clean_contexts)

lemma quiet_RemoveRpcContext [quiet_intros]: "quiet s (snd (RemoveRpcContext c q s))"
  by (auto simp: quiet_def RemoveRpcContext_def chan_close_def net_upd_defs
      split: option.splits prod.splits outcome.splits)

lemma quiet_GetRpcContext [quiet_intros]: "quiet s (snd (GetRpcContext c q s))"
  by (simp add: quiet_def GetRpcContext_def net_upd_defs)

lemma quiet_AddRpcContext [quiet_intros]: "quiet s (snd (AddRpcContext c q s))"
  by (simp add: quiet_def AddRpcContext_def Let_def net_upd_defs)

lemma quiet_run_net_task [quiet_intros]: "quiet s (snd (run_net_task k s))"
proof (cases k)
  case (CleanRpc c r)
  then show ?thesis by (simp add: run_net_task_def quiet_intros)
next
  case (CleanRpcAndClose c r)
  obtain z t where t: "cleanAllRpcContext c r s = (z, t)" by (cases "cleanAllRpcContext c r s")
  have "quiet s t" using quiet_cleanAll [of s c r] t by simp
  moreover have "quiet t (snd (objConnection_Close c t))"
    by (simp add: quiet_def objConnection_Close_def net_upd_defs)
  ultimately show ?thesis
    using CleanRpcAndClose t quiet_trans by (auto simp: run_net_task_def split: outcome.splits)
qed

lemma quiet_new_connection [quiet_intros]: "quiet s (snd (new_connection l r s))"
  by (simp add: quiet_def new_connection_def Let_def net_upd_defs)

lemma quiet_NewClient [quiet_intros]: "quiet s (snd (NewClient d l ip p [] s))"
  using quiet_new_connection [of s l "ip @ '':'' @ FormatUint p"]
  by (auto simp: NewClient_def split: prod.splits)

lemma quiet_Cast_Start [quiet_intros]: "quiet s (snd (Cast_Start pb cc s))"
  by (auto simp: Cast_Start_def intro: quiet_Write split: option.splits prod.splits)

lemma quiet_Reply [quiet_intros]: "quiet s (snd (Reply pb m ctx s))"
  by (auto simp: Reply_def intro: quiet_Write split: option.splits prod.splits)

lemma quiet_Call_begin [quiet_intros]: "quiet s (snd (Call_begin pb cc s))"
proof (cases "call_ptrServerConnection cc")
  case None
  then show ?thesis by (simp add: Call_begin_def)
next
  case (Some c)
  obtain x s1 where add: "AddRpcContext c (call_szRequestID cc) s = (x, s1)"
    by (cases "AddRpcContext c (call_szRequestID cc) s")
  obtain b where b: "NewProtocol pb (call_szUri cc) 1 (call_szRequestID cc) (call_objReq cc) = (b, True)"
    by (metis snd_NewProtocol surjective_pairing)
  obtain ok s2 where wr: "Write c b s1 = (ok, s2)" by (cases "Write c b s1")
  have "snd (Call_begin pb cc s) = s2" using Some add b wr by (cases ok) (simp_all add: Call_begin_def)
  moreover have "quiet s s1" using quiet_AddRpcContext [of s c "call_szRequestID cc"] add by simp
  moreover have "quiet s1 s2" using quiet_Write [of s1 c b] wr by simp
  ultimately show ?thesis using quiet_trans by blast
qed

lemma quiet_Call_select [quiet_intros]: "quiet s (snd (Call_select f sel c q x s))"
proof (cases sel)
  case SelMsg
  then show ?thesis
    by (auto simp: Call_select_def chan_recv_def CancelFunc_def quiet_def net_upd_defs
        split: prod.splits list.splits)
next
  case SelDone
  then show ?thesis
    using quiet_RemoveRpcContext [of s c q]
    by (auto simp: Call_select_def split: prod.splits outcome.splits)
qed

section \<open>Serving packets\<close>

text \<open>
  What a manager promises to the router: its invariant does not depend on the network
  part, and every handler it registered keeps it.  Then every packet keeps it, requests,
  responses and garbage alike.
\<close>

locale packet_service =
  fixes rt :: "('a net_scheme) Router" and inv :: "'a net_scheme \<Rightarrow> bool"
  assumes inv_net: "inv s \<Longrightarrow> quiet s t \<Longrightarrow> inv t"
    and inv_handler: "mget rt u = Some h \<Longrightarrow> inv s \<Longrightarrow> GetServerConnection ctx \<noteq> None \<Longrightarrow>
      inv (snd (h b ctx s))"
begin

lemma fnRouter2Handler_inv:
  assumes "inv s" "GetServerConnection ctx \<noteq> None"
  shows "inv (snd (fnRouter2Handler rt u b ctx s))"
proof (cases "mget rt u")
  case None
  then show ?thesis using assms by (simp add: fnRouter2Handler_def)
next
  case (Some h)
  obtain z t where "h b ctx s = (z, t)" by fastforce
  then show ?thesis
    using inv_handler [OF Some assms, of b] Some by (simp add: fnRouter2Handler_def split: outcome.split)
qed

lemma Process_inv:
  assumes inv: "inv s"
  shows "inv (snd (Process rt b ctx s))"
proof (cases "\<exists>rc u t q body. GetRequestContext ctx = Some rc \<and> read_packet b = Inr (u, t, q, body)")
  case False
  then have "snd (Process rt b ctx s) = s"
    by (auto simp: Process_def split: option.splits sum.splits)
  then show ?thesis using inv by simp
next
  case True
  then obtain rc u t q body where p: "GetRequestContext ctx = Some rc" "read_packet b = Inr (u, t, q, body)"
    by blast
  let ?ctx = "SetRequestID ctx q"
  have c: "GetServerConnection ?ctx \<noteq> None"
    using p(1) by (simp add: GetServerConnection_def SetRequestID_def GetRequestContext_def)
  obtain xo s1 where g: "GetRpcContext (rq_ptrServerConnection rc) q s = (xo, s1)" by fastforce
  have 1: "inv s1"
    using inv_net [OF inv quiet_GetRpcContext [of s "rq_ptrServerConnection rc" q]] g by simp
  note route = fnRouter2Handler_inv [OF inv c] fnRouter2Handler_inv [OF 1 c]
  show ?thesis
  proof (cases xo)
    case None
    then show ?thesis using p g inv 1 route by (simp add: Process_def Let_def)
  next
    case (Some x)
    obtain z s2 where sent: "chan_send x body s1 = (z, s2)" by fastforce
    have "inv s2" using inv_net [OF 1 quiet_chan_send [of s1 x body]] sent by simp
    then show ?thesis
      using Some p g sent inv 1 route by (simp add: Process_def Let_def split: outcome.splits)
  qed
qed

end

section \<open>Operations that keep nodes and routes\<close>

definition task_ref_ok :: "nat \<Rightarrow> NodeTask \<Rightarrow> bool" where
  "task_ref_ok N k \<longleftrightarrow>
     (case k of TReconnect n \<Rightarrow> n < N | TTrySyncAll n _ _ \<Rightarrow> n < N | _ \<Rightarrow> True)"

definition wait_ref_ok :: "nat \<Rightarrow> WaitingCall \<Rightarrow> bool" where
  "wait_ref_ok N w \<longleftrightarrow> (case wt_then w of WaitHello n \<Rightarrow> n < N | WaitEntry n \<Rightarrow> n < N)"

definition entries :: "'a nodes_scheme \<Rightarrow> noderef \<Rightarrow> (string, EntryInfo) gomap" where
  "entries s n = info_mEntryInfo (nm_info s n)"

definition routes :: "'a NodeManager_scheme \<Rightarrow> string \<Rightarrow> noderef list" where
  "routes s u = mgets (nm_mRpcFunc2Node s) u"

definition keeps :: "'a NodeManager_scheme \<Rightarrow> 'a NodeManager_scheme \<Rightarrow> bool" where
  "keeps s t \<longleftrightarrow>
     nm_mNodeInfo t = nm_mNodeInfo s \<and> nm_mRpcFunc2Node t = nm_mRpcFunc2Node s
   \<and> nm_ptrSelf t = nm_ptrSelf s \<and> nm_nNextInfo t = nm_nNextInfo s
   \<and> (\<forall>n. nm_name t n = nm_name s n \<and> entries t n = entries s n \<and> (alive n s \<longrightarrow> alive n t))
   \<and> (\<forall>c n. sc_Ctx (n_conn t c) = Some (CtxNode n) \<longrightarrow>
        sc_Ctx (n_conn s c) = Some (CtxNode n) \<or> n < nm_nNextInfo s)
   \<and> (\<forall>k \<in> set (nm_task t). k \<in> set (nm_task s) \<or> task_ref_ok (nm_nNextInfo s) k)
   \<and> (\<forall>w \<in> set (nm_wait t). w \<in> set (nm_wait s) \<or> wait_ref_ok (nm_nNextInfo s) w)"

lemma keeps_refl [simp, intro]: "keeps s s"
  by (simp add: keeps_def)

lemma keeps_trans [trans]: "keeps s t \<Longrightarrow> keeps t u \<Longrightarrow> keeps s u"
  unfolding keeps_def by (simp, metis)

lemma keepsD:
  assumes "keeps s t"
  shows "nm_mNodeInfo t = nm_mNodeInfo s" "routes t u = routes s u" "nm_ptrSelf t = nm_ptrSelf s"
    "nm_nNextInfo t = nm_nNextInfo s" "nm_name t n = nm_name s n" "entries t n = entries s n"
    "alive n s \<Longrightarrow> alive n t" "nm_mRpcFunc2Node t = nm_mRpcFunc2Node s"
  using assms by (simp_all add: keeps_def routes_def)

lemma keeps_quiet:
  fixes s :: "'a NodeManager_scheme"
  assumes "quiet s t"
  shows "keeps s t"
proof -
  have m: "net.more t = net.more s" using assms by (simp add: quiet_def)
  have ctx: "sc_Ctx (n_conn t c) = Some v \<Longrightarrow> sc_Ctx (n_conn s c) = Some v" for c v
    using assms unfolding quiet_def by (metis option.distinct(1))
  show ?thesis
    using more_nodes [OF m] more_manager [OF more_nodes(6) [OF m]] ctx
    by (auto simp: keeps_def entries_def alive_def)
qed

lemma keeps_set_info:
  assumes "info_szName v = nm_name s n" "info_mEntryInfo v = entries s n"
    "alive n s \<Longrightarrow> info_nStatus v \<noteq> 1"
  shows "keeps s (set_info n v s)"
  using assms by (simp add: keeps_def set_info_def entries_def alive_def)

lemma keeps_bind_ctx: "n < nm_nNextInfo s \<Longrightarrow> keeps s (bind_ctx c (CtxNode n) s)"
  by (simp add: keeps_def bind_ctx_def set_conn_def entries_def alive_def)

lemma keeps_GoTask: "task_ref_ok (nm_nNextInfo s) k \<Longrightarrow> keeps s (GoTask k s)"
  by (auto simp: keeps_def GoTask_def entries_def alive_def)

lemma keeps_go_wait:
  "(\<And>n. k = WaitHello n \<or> k = WaitEntry n \<Longrightarrow> n < nm_nNextInfo s) \<Longrightarrow> keeps s (go_wait x c q k s)"
  by (cases k) (auto simp: keeps_def go_wait_def entries_def alive_def wait_ref_ok_def)

lemma keeps_misc:
  "keeps s (s\<lparr>nm_mTempConnection := m\<rparr>)" "keeps s (s\<lparr>nm_nStatus := z\<rparr>)"
  "keeps s (s\<lparr>nm_nSequence := q\<rparr>)" "keeps s (s\<lparr>nm_upcall := us\<rparr>)"
  by (simp_all add: keeps_def entries_def alive_def)

lemma keeps_Close: "keeps s (Close c s)"
  by (rule keeps_quiet, rule quiet_Close)

lemma keeps_forEach:
  assumes "\<And>x t. x \<in> set xs \<Longrightarrow> keeps s t \<Longrightarrow> keeps t (f x t)"
  shows "keeps s (forEach f xs s)"
proof -
  have "keeps s u \<Longrightarrow> set ys \<subseteq> set xs \<Longrightarrow> keeps s (forEach f ys u)" for ys u
  proof (induction ys arbitrary: u)
    case (Cons y ys)
    have "keeps s (f y u)" using keeps_trans [OF Cons(2) assms] Cons(2,3) by auto
    then show ?case using Cons by simp
  qed simp
  then show ?thesis by blast
qed

text \<open>Operations on one record that change neither its name nor its entries.\<close>

lemma keeps_removeConnection: "keeps s (snd (removeConnection n c s))"
  by (simp add: removeConnection_def Let_def, rule keeps_set_info) (simp_all add: entries_def alive_def)

lemma keeps_setInstanceID: "keeps s (setInstanceID n i s)"
  unfolding setInstanceID_def by (rule keeps_set_info) (simp_all add: entries_def alive_def)

lemma keeps_refresh: "keeps s (refreshKeepLiveTime nNow n s)"
  unfolding refreshKeepLiveTime_def by (rule keeps_set_info) (simp_all add: entries_def alive_def)

lemma keeps_nextRequestID: "keeps s (snd (nextRequestID n s))"
  unfolding nextRequestID_def Let_def snd_conv
  by (rule keeps_set_info) (simp_all add: entries_def alive_def)

lemma keeps_needSyncAll: "keeps s (snd (needSyncAll n v s))"
proof -
  have "keeps s (set_info n ((nm_info s n)\<lparr>info_nStatus := NODE_STATUS_SYNCING\<rparr>) s)"
    by (rule keeps_set_info) (simp_all add: entries_def)
  then show ?thesis by (simp add: needSyncAll_def)
qed

lemma keeps_addConnection: "keeps s (addConnection E n c s)"
proof -
  have "keeps s (set_info n ((nm_info s n)\<lparr>info_aryConnectionList :=
      info_aryConnectionList (nm_info s n) @ [c]\<rparr>) s)"
    by (rule keeps_set_info) (simp_all add: entries_def alive_def)
  then show ?thesis by (simp add: addConnection_def keeps_Close)
qed

lemma keeps_getConnection: "n < nm_nNextInfo s \<Longrightarrow> keeps s (snd (getConnection r n s))"
  by (simp add: getConnection_def Let_def keeps_GoTask task_ref_ok_def)

lemma keeps_cast_Start:
  assumes "n < nm_nNextInfo s"
  shows "keeps s (snd (cast_Start E ch n u m ctx s))"
proof -
  obtain co s1 where g: "getConnection (ch_rand ch n) n s = (co, s1)"
    by (cases "getConnection (ch_rand ch n) n s")
  obtain cc s2 where c: "cast_node ch n u m ctx s = (cc, s2)" by (cases "cast_node ch n u m ctx s")
  have 1: "keeps s s1" using keeps_getConnection [OF assms] g by (metis snd_conv)
  have "s2 = s1 \<or> s2 = snd (nextRequestID n s1)"
    using c g by (auto simp: cast_node_def Let_def split: if_splits prod.splits)
  then have "keeps s1 s2" using keeps_nextRequestID by auto
  moreover have "keeps s2 (snd (Cast_Start (ne_pb E) cc s2))" by (rule keeps_quiet, rule quiet_Cast_Start)
  ultimately show ?thesis using 1 c keeps_trans by (simp add: cast_Start_def) blast
qed

lemma keeps_call_node:
  assumes "n < nm_nNextInfo s"
  shows "keeps s (snd (call_node ch n u m ctx s))"
proof -
  obtain co s1 where g: "getConnection (ch_rand ch n) n s = (co, s1)"
    by (cases "getConnection (ch_rand ch n) n s")
  have 1: "keeps s s1" using keeps_getConnection [OF assms] g by (metis snd_conv)
  then show ?thesis
    using g keeps_trans [OF 1 keeps_nextRequestID] by (auto simp: call_node_def Let_def)
qed

lemma keeps_cast_others:
  assumes "\<And>n. n \<in> set (nm_nodes s) \<Longrightarrow> n < nm_nNextInfo s"
  shows "keeps s (cast_others E ch u m ctx s)"
  unfolding cast_others_def
proof (rule keeps_forEach)
  fix n t
  assume n: "n \<in> set (nm_nodes s)" and t: "keeps s t"
  have "n < nm_nNextInfo t" using assms [OF n] keepsD(4) [OF t] by simp
  then show "keeps t (if nm_name t n = nm_name t (nm_ptrSelf t) then t
      else snd (cast_Start E ch n u m ctx t))"
    by (simp add: keeps_cast_Start)
qed

lemma keeps_trySyncAll:
  assumes "n < nm_nNextInfo s"
  shows "keeps s (trySyncAll E ch n v ctx s)"
proof (cases "needSyncAll n v s")
  case (Pair b s1)
  have 1: "keeps s s1" using keeps_needSyncAll [of s n v] Pair by simp
  show ?thesis
  proof (cases b)
    case False
    then show ?thesis using 1 Pair by (simp add: trySyncAll_def)
  next
    case True
    obtain cc s2 where c: "call_node ch n NODE_GET_ENTRY (MGetEntryReq GetEntryReq) ctx s1 = (cc, s2)"
      by (cases "call_node ch n NODE_GET_ENTRY (MGetEntryReq GetEntryReq) ctx s1")
    obtain xo s3 where b: "Call_begin (ne_pb E) cc s2 = (xo, s3)" by (cases "Call_begin (ne_pb E) cc s2")
    have n1: "n < nm_nNextInfo s1" using assms keepsD(4) [OF 1] by simp
    have "keeps s1 s2" using keeps_call_node [OF n1] c by (metis snd_conv)
    moreover have "keeps s2 s3" using keeps_quiet [OF quiet_Call_begin [of s2 "ne_pb E" cc]] b by simp
    ultimately have 3: "keeps s s3" using 1 keeps_trans by blast
    moreover have "keeps s3 (go_wait x c' q (WaitEntry n) s3)" for x c' q
      by (rule keeps_go_wait) (use assms keepsD(4) [OF 3] in auto)
    ultimately have "keeps s (go_wait x c' q (WaitEntry n) s3)" for x c' q
      using keeps_trans by blast
    then show ?thesis
      using True Pair c b 3 by (auto simp: trySyncAll_def split: option.splits)
  qed
qed

lemma keeps_reconnect_begin:
  assumes "n < nm_nNextInfo s"
  shows "keeps s (snd (reconnect_begin E nNow dial uu n s))"
proof -
  obtain co s1 where d: "NewClient (fst dial) (snd dial) (info_szIP (nm_info s n)) (info_nPort (nm_info s n)) [] s
      = (co, s1)" by fastforce
  have 1: "keeps s s1"
    using keeps_quiet [OF quiet_NewClient [of s "fst dial" "snd dial" "info_szIP (nm_info s n)" "info_nPort (nm_info s n)"]] d by simp
  obtain q s2 where q: "nextRequestID n s1 = (q, s2)" by (cases "nextRequestID n s1")
  have 2: "keeps s s2" using keeps_trans [OF 1 keeps_nextRequestID [of s1 n]] q by simp
  have 3: "keeps s (snd (Call_begin (ne_pb E) cc s2))" for cc
    using keeps_trans [OF 2 keeps_quiet [OF quiet_Call_begin]] .
  have "keeps s (go_wait x c q (WaitHello n) (snd (Call_begin (ne_pb E) cc s2)))" for x c cc
    by (rule keeps_trans [OF 3 keeps_go_wait]) (use assms keepsD(4) [OF 3] in auto)
  then show ?thesis
    using 1 3 d q
    by (simp add: reconnect_begin_def Let_def split: option.split prod.split) (metis snd_conv)
qed

lemma keeps_reconnect_finish:
  assumes "n < nm_nNextInfo s"
  shows "keeps s (reconnect_finish E n c rsp s)"
proof -
  have 1: "keeps s (addConnection E n c (bind_ctx c (CtxNode n) s))"
    by (rule keeps_trans [OF keeps_bind_ctx [OF assms] keeps_addConnection])
  show ?thesis
    using keeps_Close 1 keeps_trans [OF 1 keeps_setInstanceID]
    by (auto simp: reconnect_finish_def Let_def split: option.splits)
qed

end
