(* ===== verification/NodeSystem.thy ===== *)
theory NodeSystem
  imports NodeFacts
begin

text \<open>
  The node manager as a system: every message, task, timer and call of the agent is an
  event, events come in any order, and the invariants below hold after each of them.
\<close>

section \<open>The invariant\<close>

text \<open>Every reference is to a record that exists, and the map of nodes is keyed by name.\<close>

definition refs_ok :: "'a NodeManager_scheme \<Rightarrow> bool" where
  "refs_ok s \<longleftrightarrow>
     gomap_ok (nm_mNodeInfo s) \<and> nm_ptrSelf s < nm_nNextInfo s
   \<and> (\<forall>k n. mget (nm_mNodeInfo s) k = Some n \<longrightarrow> n < nm_nNextInfo s \<and> nm_name s n = k)
   \<and> (\<forall>u n. n \<in> set (routes s u) \<longrightarrow> n < nm_nNextInfo s)
   \<and> (\<forall>c n. sc_Ctx (n_conn s c) = Some (CtxNode n) \<longrightarrow> n < nm_nNextInfo s)
   \<and> (\<forall>k \<in> set (nm_task s). task_ref_ok (nm_nNextInfo s) k)
   \<and> (\<forall>w \<in> set (nm_wait s). wait_ref_ok (nm_nNextInfo s) w)"

text \<open>Every entry is stored under its own key, and none of the stored ones is a removal.\<close>

definition keyed :: "node_env \<Rightarrow> (string, EntryInfo) gomap \<Rightarrow> bool" where
  "keyed E m \<longleftrightarrow> gomap_ok m \<and> (\<forall>k e. mget m k = Some e \<longrightarrow> getUri E e = k \<and> EntryInfo_IsNew e)"

definition entries_ok :: "node_env \<Rightarrow> 'a nodes_scheme \<Rightarrow> bool" where
  "entries_ok E s \<longleftrightarrow> (\<forall>n. keyed E (entries s n))"

lemma keyed_simps [simp]:
  "keyed E []" "keyed E m \<Longrightarrow> EntryInfo_IsNew e \<Longrightarrow> keyed E (mput (getUri E e) e m)"
  "keyed E m \<Longrightarrow> keyed E (mdel k m)"
  by (simp_all add: keyed_def)

text \<open>A route to another node leads to a node that is not dead and offers the entry.\<close>

definition routes_ok :: "'a NodeManager_scheme \<Rightarrow> bool" where
  "routes_ok s \<longleftrightarrow>
     (\<forall>u n. n \<in> set (routes s u) \<longrightarrow> n \<noteq> nm_ptrSelf s
        \<longrightarrow> alive n s \<and> mget (entries s n) u \<noteq> None)"

definition node_inv :: "node_env \<Rightarrow> 'a NodeManager_scheme \<Rightarrow> bool" where
  "node_inv E s \<longleftrightarrow> refs_ok s \<and> entries_ok E s \<and> routes_ok s"

lemma node_inv_node: "node_inv E s \<Longrightarrow> mget (nm_mNodeInfo s) k = Some n \<Longrightarrow> n < nm_nNextInfo s"
  unfolding node_inv_def refs_ok_def by blast

lemma node_inv_nodes: "node_inv E s \<Longrightarrow> n \<in> set (nm_nodes s) \<Longrightarrow> n < nm_nNextInfo s"
  unfolding node_inv_def refs_ok_def by (auto simp: gomap_ok_in)

lemma node_inv_self: "node_inv E s \<Longrightarrow> nm_ptrSelf s < nm_nNextInfo s"
  unfolding node_inv_def refs_ok_def by blast

lemma node_inv_route: "node_inv E s \<Longrightarrow> n \<in> set (routes s u) \<Longrightarrow> n < nm_nNextInfo s"
  unfolding node_inv_def refs_ok_def by blast

lemma node_inv_getNode: "node_inv E s \<Longrightarrow> getNode ctx s = Some n \<Longrightarrow> n < nm_nNextInfo s"
  unfolding node_inv_def refs_ok_def getNode_def getNodeByConnection_def
  by (auto split: option.splits ctxval.splits)

lemma node_inv_keeps:
  assumes "node_inv E s" "keeps s t"
  shows "node_inv E t"
proof -
  note k = keepsD [OF assms(2)]
  have "refs_ok t"
    using assms unfolding node_inv_def refs_ok_def k(1-5) keeps_def [of s t] by blast
  moreover have "entries_ok E t"
    using assms(1) unfolding node_inv_def entries_ok_def k(6) by blast
  moreover have "routes_ok t"
    using assms(1) k(7) unfolding node_inv_def routes_ok_def k(2,3,6) by blast
  ultimately show ?thesis by (simp add: node_inv_def)
qed

lemma node_inv_forEach:
  assumes "\<And>x t. x \<in> set xs \<Longrightarrow> node_inv E t \<Longrightarrow> node_inv E (f x t)" "node_inv E s"
  shows "node_inv E (forEach f xs s)"
  using forEach_invariant [of xs "node_inv E" f s] assms by blast

section \<open>Changing routes\<close>

abbreviation with_routes :: "(string, noderef list) gomap \<Rightarrow> 'a NodeManager_scheme \<Rightarrow> 'a NodeManager_scheme" where
  "with_routes m s \<equiv> s\<lparr>nm_mRpcFunc2Node := m\<rparr>"

lemma routes_with_routes [simp]: "routes (with_routes m s) u = mgets m u"
  by (simp add: routes_def)

lemma set_route_with: "set_route u ns s = with_routes (mput u ns (nm_mRpcFunc2Node s)) s"
  by (simp add: set_route_def)

lemma refs_ok_with_routes:
  "refs_ok s \<Longrightarrow> (\<And>u n. n \<in> set (mgets m u) \<Longrightarrow> n < nm_nNextInfo s) \<Longrightarrow> refs_ok (with_routes m s)"
  by (simp add: refs_ok_def)

lemma node_inv_with_routes:
  assumes "refs_ok s" "entries_ok E s" "\<And>u n. n \<in> set (mgets m u) \<Longrightarrow> n < nm_nNextInfo s"
    and "\<And>u n. n \<in> set (mgets m u) \<Longrightarrow> n \<noteq> nm_ptrSelf s \<Longrightarrow> alive n s \<and> mget (entries s n) u \<noteq> None"
  shows "node_inv E (with_routes m s)"
proof -
  have "entries_ok E (with_routes m s)"
    using assms(2) by (simp add: entries_ok_def entries_def)
  moreover have "routes_ok (with_routes m s)"
    using assms(4) by (simp add: routes_ok_def alive_def entries_def)
  ultimately show ?thesis using refs_ok_with_routes [OF assms(1,3)] by (simp add: node_inv_def)
qed

lemma node_inv_fewer_routes:
  assumes "node_inv E s" "\<And>u n. n \<in> set (mgets m u) \<Longrightarrow> n \<in> set (routes s u) \<or> n = nm_ptrSelf s"
  shows "node_inv E (with_routes m s)"
proof (rule node_inv_with_routes)
  show "refs_ok s" "entries_ok E s" using assms(1) by (simp_all add: node_inv_def)
  show "n < nm_nNextInfo s" if "n \<in> set (mgets m u)" for u n
    using assms(2) [OF that] node_inv_route [OF assms(1)] node_inv_self [OF assms(1)] by blast
  show "alive n s \<and> mget (entries s n) u \<noteq> None" if "n \<in> set (mgets m u)" "n \<noteq> nm_ptrSelf s" for u n
    using assms(2) [OF that(1)] that(2) assms(1) unfolding node_inv_def routes_ok_def by blast
qed

text \<open>The routes after \<^verbatim>\<open>deleteEntry\<close>; nothing else changes.\<close>

definition drop_routes ::
  "node_env \<Rightarrow> (noderef \<Rightarrow> bool) \<Rightarrow> EntryInfo list \<Rightarrow> (string, noderef list) gomap
     \<Rightarrow> (string, noderef list) gomap" where
  "drop_routes E P es m =
     forEach (\<lambda>e m. mput (getUri E e) (filter P (mgets m (getUri E e))) m) es m"

lemma mgets_drop_routes:
  "mgets (drop_routes E P es m) u = (if u \<in> getUri E ` set es then filter P (mgets m u) else mgets m u)"
  unfolding drop_routes_def by (induction es arbitrary: m) auto

lemma deleteEntry_eq:
  "deleteEntry E n es s =
     with_routes (drop_routes E (\<lambda>n'. nm_name s n' \<noteq> nm_name s n) es (nm_mRpcFunc2Node s)) s"
proof -
  have "deleteEntry E n es (with_routes m s)
      = with_routes (drop_routes E (\<lambda>n'. nm_name s n' \<noteq> nm_name s n) es m) s" for m
    unfolding deleteEntry_def drop_routes_def
    by (induction es arbitrary: m) (simp_all add: set_route_def)
  from this [of "nm_mRpcFunc2Node s"] show ?thesis by simp
qed

lemma routes_deleteEntry:
  "routes (deleteEntry E n es s) u
     = (if u \<in> getUri E ` set es then filter (\<lambda>n'. nm_name s n' \<noteq> nm_name s n) (routes s u)
        else routes s u)"
  by (simp add: deleteEntry_eq mgets_drop_routes) (simp add: routes_def)

lemma refs_ok_set_info:
  assumes "refs_ok s" "info_szName v = nm_name s n"
  shows "refs_ok (set_info n v s)"
  using assms by (simp add: refs_ok_def set_info_def routes_def)

lemma set_info_simps [simp]:
  "alive n' (set_info n v s) \<longleftrightarrow> (if n' = n then info_nStatus v \<noteq> 1 else alive n' s)"
  "entries (set_info n v s) n' = (if n' = n then info_mEntryInfo v else entries s n')"
  "nm_info (set_info n v s) n' = (if n' = n then v else nm_info s n')"
  "nm_nNextInfo (set_info n v s) = nm_nNextInfo s"
  by (simp_all add: alive_def entries_def set_info_def)

lemma set_info_manager [simp]:
  "routes (set_info n v s) u = routes s u"
  "nm_mRpcFunc2Node (set_info n v s) = nm_mRpcFunc2Node s"
  "nm_ptrSelf (set_info n v s) = nm_ptrSelf s"
  "nm_mNodeInfo (set_info n v s) = nm_mNodeInfo s"
  "nm_nSequence (set_info n v s) = nm_nSequence s"
  by (simp_all add: set_info_def routes_def)

lemma entry_in_getAllEntry:
  assumes "entries_ok E s" "mget (entries s n) u \<noteq> None"
  shows "u \<in> getUri E ` set (getAllEntry n s)"
proof -
  obtain e where e: "mget (entries s n) u = Some e" using assms(2) by blast
  then have "e \<in> set (getAllEntry n s)"
    by (force simp: getAllEntry_def entries_def dest: mget_in_set)
  moreover have "getUri E e = u" using assms(1) e by (simp add: entries_ok_def keyed_def)
  ultimately show ?thesis by blast
qed

section \<open>A node that leaves\<close>

lemma node_inv_markDead:
  assumes inv: "node_inv E s" and "n < nm_nNextInfo s"
  shows "case markDead n s of (es, t) \<Rightarrow> node_inv E (deleteEntry E n es t)"
proof -
  let ?s1 = "set_info n ((nm_info s n)\<lparr>info_nStatus := NODE_STATUS_DEAD\<rparr>) s"
  have parts: "refs_ok s" "entries_ok E s" "routes_ok s" using inv by (simp_all add: node_inv_def)
  have all: "getAllEntry n ?s1 = getAllEntry n s" by (simp add: getAllEntry_def)
  let ?m = "drop_routes E (\<lambda>n'. nm_name ?s1 n' \<noteq> nm_name ?s1 n) (getAllEntry n s) (nm_mRpcFunc2Node ?s1)"
  have sub: "k \<in> set (routes s u) \<and> (u \<in> getUri E ` set (getAllEntry n s) \<longrightarrow> k \<noteq> n)"
    if "k \<in> set (mgets ?m u)" for k u
    using that by (auto simp: mgets_drop_routes routes_def split: if_splits)
  have "node_inv E (with_routes ?m ?s1)"
  proof (rule node_inv_with_routes)
    show "refs_ok ?s1" using parts(1) by (rule refs_ok_set_info) simp
    show "entries_ok E ?s1"
      using parts(2) by (simp add: entries_ok_def entries_def)
    show "k < nm_nNextInfo ?s1" if "k \<in> set (mgets ?m u)" for u k
      using sub [OF that] node_inv_route [OF inv, of k u] by simp
    show "alive k ?s1 \<and> mget (entries ?s1 k) u \<noteq> None"
      if k: "k \<in> set (mgets ?m u)" "k \<noteq> nm_ptrSelf ?s1" for u k
    proof -
      have old: "alive k s \<and> mget (entries s k) u \<noteq> None"
        using sub [OF k(1)] k(2) parts(3) by (auto simp: routes_ok_def)
      then have "k \<noteq> n" using sub [OF k(1)] entry_in_getAllEntry [OF parts(2)] by blast
      then show ?thesis using old by simp
    qed
  qed
  then show ?thesis by (simp add: markDead_def Let_def deleteEntry_eq all)
qed

lemma node_inv_forget:
  assumes "node_inv E s"
  shows "node_inv E (s\<lparr>nm_mNodeInfo := mdel k (nm_mNodeInfo s)\<rparr>)"
  using assms
  by (simp add: node_inv_def refs_ok_def entries_ok_def routes_ok_def routes_def entries_def alive_def)

lemma node_inv_deleteNode:
  assumes "node_inv E s" "n < nm_nNextInfo s"
  shows "node_inv E (deleteNode E n s)"
  using node_inv_markDead [OF assms] node_inv_forget
  by (auto simp: deleteNode_def Let_def split: prod.splits)

section \<open>A node that is found\<close>

lemma newNode_cases:
  assumes "newNode nm ip i p ap now s = (n, t)"
  shows "n = nm_nNextInfo s"
    and "t = set_info n (nm_info t n) (s\<lparr>nm_nNextInfo := Suc n\<rparr>)"
    and "nm_name t n = nm" "entries t n = []" "nm_nNextInfo t = Suc n"
  using assms by (auto simp: newNode_def Let_def entries_def set_info_def)

lemma node_inv_newNode:
  assumes inv: "node_inv E s" and new: "newNode nm ip i p ap now s = (n, t)"
    and free: "mget (nm_mNodeInfo s) nm = None"
  shows "node_inv E (t\<lparr>nm_mNodeInfo := mput nm n (nm_mNodeInfo t)\<rparr>)" "n < nm_nNextInfo t"
    "keeps t (t\<lparr>nm_mNodeInfo := nm_mNodeInfo t\<rparr>)" "node_inv E t"
    "nm_mNodeInfo t = nm_mNodeInfo s" "nm_name t n = nm"
proof -
  note c = newNode_cases [OF new]
  have eq: "nm_mNodeInfo t = nm_mNodeInfo s" "nm_ptrSelf t = nm_ptrSelf s" "n_conn t = n_conn s"
    "nm_task t = nm_task s" "nm_wait t = nm_wait s"
    "\<And>u. routes t u = routes s u" "\<And>k. k \<noteq> n \<Longrightarrow> nm_info t k = nm_info s k"
    by (subst c(2), simp add: set_info_def routes_def)+
  have parts: "refs_ok s" "entries_ok E s" "routes_ok s" using inv by (simp_all add: node_inv_def)
  have ref: "k < nm_nNextInfo s \<Longrightarrow> k < Suc n \<and> k \<noteq> n" for k using c(1) by simp
  have tr: "task_ref_ok (nm_nNextInfo s) k \<Longrightarrow> task_ref_ok (Suc n) k" for k
    using c(1) by (auto simp: task_ref_ok_def split: NodeTask.splits)
  have wr: "wait_ref_ok (nm_nNextInfo s) w \<Longrightarrow> wait_ref_ok (Suc n) w" for w
    using c(1) by (auto simp: wait_ref_ok_def split: NodeWait.splits)
  have refs: "refs_ok t"
    unfolding refs_ok_def eq(1-6) c(5)
  proof (intro conjI allI impI ballI)
    show "gomap_ok (nm_mNodeInfo s)" using parts(1) by (simp add: refs_ok_def)
    show "nm_ptrSelf s < Suc n" using parts(1) ref by (simp add: refs_ok_def)
    show "m < Suc n" "nm_name t m = k" if "mget (nm_mNodeInfo s) k = Some m" for k m
      using parts(1) that ref eq(7) by (auto simp: refs_ok_def)
    show "m < Suc n" if "m \<in> set (routes s u)" for u m
      using parts(1) that ref by (auto simp: refs_ok_def)
    show "m < Suc n" if "sc_Ctx (n_conn s c) = Some (CtxNode m)" for c m
      using parts(1) that ref by (auto simp: refs_ok_def)
    show "task_ref_ok (Suc n) k" if "k \<in> set (nm_task s)" for k
      using parts(1) that tr by (auto simp: refs_ok_def)
    show "wait_ref_ok (Suc n) w" if "w \<in> set (nm_wait s)" for w
      using parts(1) that wr by (auto simp: refs_ok_def)
  qed
  have ents: "entries_ok E t"
    unfolding entries_ok_def
  proof
    fix m show "keyed E (entries t m)"
      using parts(2) c(4) eq(7) [of m] by (cases "m = n") (auto simp: entries_ok_def entries_def)
  qed
  have rts: "routes_ok t"
    unfolding routes_ok_def eq(2,6)
  proof (intro allI impI)
    fix u m assume m: "m \<in> set (routes s u)" "m \<noteq> nm_ptrSelf s"
    then have "m \<noteq> n" using node_inv_route [OF inv] ref by blast
    then show "alive m t \<and> mget (entries t m) u \<noteq> None"
      using parts(3) m eq(7) by (simp add: routes_ok_def alive_def entries_def)
  qed
  show "node_inv E t" using refs ents rts by (simp add: node_inv_def)
  show "n < nm_nNextInfo t" using c(5) by simp
  show "keeps t (t\<lparr>nm_mNodeInfo := nm_mNodeInfo t\<rparr>)" by simp
  show "nm_mNodeInfo t = nm_mNodeInfo s" by (rule eq(1))
  show "nm_name t n = nm" by (rule c(3))
  show "node_inv E (t\<lparr>nm_mNodeInfo := mput nm n (nm_mNodeInfo t)\<rparr>)"
    using refs ents rts c(3,5)
    by (simp add: node_inv_def refs_ok_def entries_ok_def routes_ok_def routes_def entries_def alive_def)
qed

lemma node_inv_put:
  assumes "node_inv E s" "n < nm_nNextInfo s" "nm_name s n = k"
  shows "node_inv E (s\<lparr>nm_mNodeInfo := mput k n (nm_mNodeInfo s)\<rparr>)"
  using assms
  by (simp add: node_inv_def refs_ok_def entries_ok_def routes_ok_def routes_def entries_def alive_def)

lemma node_inv_find:
  assumes "node_inv E s" "newNode nm ip i p ap now s = (n, t)" "mget (nm_mNodeInfo s) nm = None"
  shows "node_inv E (GoTask (TReconnect n) (t\<lparr>nm_mNodeInfo := mput nm n (nm_mNodeInfo t)\<rparr>))"
  by (rule node_inv_keeps [OF node_inv_newNode(1) [OF assms] keeps_GoTask])
    (use node_inv_newNode(2) [OF assms] in \<open>simp add: task_ref_ok_def\<close>)

lemma node_inv_checkNeighbour: "node_inv E s \<Longrightarrow> node_inv E (checkNeighbour nNow s)"
  unfolding checkNeighbour_def
  by (rule node_inv_forEach) (auto intro: node_inv_find split: option.splits prod.splits)

lemma node_inv_makefriends_task: "node_inv E s \<Longrightarrow> node_inv E (makefriends_task nNow is s)"
  unfolding makefriends_task_def Let_def
  by (rule node_inv_forEach) (auto intro: node_inv_find split: option.splits prod.splits)

lemma node_inv_hello_admit:
  assumes inv: "node_inv E s"
  shows "node_inv E (hello_admit E nNow i v ctx c s)"
proof (cases "mget (nm_mNodeInfo s) (NodeInfo_Name i)")
  case (Some n)
  have n: "n < nm_nNextInfo s" by (rule node_inv_node [OF inv Some])
  let ?s1 = "bind_ctx c (CtxNode n) (addConnection E n c s)"
  have 0: "keeps s (addConnection E n c s)" by (rule keeps_addConnection)
  have 1: "keeps s ?s1"
    by (rule keeps_trans [OF 0 keeps_bind_ctx]) (simp add: keepsD(4) [OF 0] n)
  have 2: "keeps s (setInstanceID n k ?s1)" for k by (rule keeps_trans [OF 1 keeps_setInstanceID])
  have "keeps s (GoTask (TTrySyncAll n v ctx) t)" if "keeps s t" for t
    by (rule keeps_trans [OF that keeps_GoTask]) (simp add: task_ref_ok_def keepsD(4) [OF that] n)
  then show ?thesis
    using Some 1 2 node_inv_keeps [OF inv] by (simp add: hello_admit_def Let_def)
next
  case None
  obtain n t where new: "newNode (NodeInfo_Name i) (NodeInfo_IP i) (NodeInfo_InstanceID i)
      (ucast (NodeInfo_Port i)) (ucast (NodeInfo_AgentPort i)) nNow s = (n, t)" by fastforce
  note t = node_inv_newNode [OF inv new None]
  let ?s1 = "bind_ctx c (CtxNode n) (addConnection E n c t)"
  have 0: "keeps t (addConnection E n c t)" by (rule keeps_addConnection)
  have 1: "keeps t ?s1" by (rule keeps_trans [OF 0 keeps_bind_ctx]) (simp add: keepsD(4) [OF 0] t(2))
  have n1: "n < nm_nNextInfo ?s1" "nm_name ?s1 n = NodeInfo_Name i"
    using keepsD(4,5) [OF 1] t(2,6) by simp_all
  have "node_inv E (?s1\<lparr>nm_mNodeInfo := mput (NodeInfo_Name i) n (nm_mNodeInfo ?s1)\<rparr>)"
    by (rule node_inv_put [OF node_inv_keeps [OF t(4) 1] n1])
  then have "node_inv E (GoTask (TTrySyncAll n v ctx)
      (?s1\<lparr>nm_mNodeInfo := mput (NodeInfo_Name i) n (nm_mNodeInfo ?s1)\<rparr>))"
    by (rule node_inv_keeps [OF _ keeps_GoTask]) (use n1 in \<open>simp add: task_ref_ok_def\<close>)
  then show ?thesis using None new by (simp add: hello_admit_def Let_def)
qed

section \<open>Entries that change\<close>

lemma modify_one_alive:
  "forEach (modify_one E True) es (m, ch) = (forEach (apply_entry E) es m, ch @ es)"
  by (induction es arbitrary: m ch) (auto simp: modify_one_def apply_entry_def)

lemma keyed_modify_one:
  assumes "keyed E m"
  shows "keyed E (fst (forEach (modify_one E a) es (m, ch)))"
  by (rule forEach_invariant [where P = "\<lambda>st. keyed E (fst st)"]) (use assms in \<open>auto simp: modify_one_def\<close>)

lemma keyed_apply_entry:
  assumes "keyed E m"
  shows "keyed E (forEach (apply_entry E) es m)"
  by (rule forEach_invariant) (use assms in \<open>auto simp: apply_entry_def\<close>)

lemma entries_ok_set_info:
  "entries_ok E s \<Longrightarrow> keyed E (info_mEntryInfo v) \<Longrightarrow> entries_ok E (set_info n v s)"
  by (simp add: entries_ok_def)

definition route_upd ::
  "node_env \<Rightarrow> noderef \<Rightarrow> EntryInfo \<Rightarrow> (string, noderef list) gomap \<Rightarrow> (string, noderef list) gomap" where
  "route_upd E n e m =
     mput (getUri E e) (if EntryInfo_IsNew e then mgets m (getUri E e) @ [n]
       else filter (\<lambda>n'. n' \<noteq> n) (mgets m (getUri E e))) m"

lemma route_change_with:
  "forEach (route_change E n) es (with_routes m s) = with_routes (forEach (route_upd E n) es m) s"
  by (induction es arbitrary: m) (auto simp: route_change_def route_upd_def set_route_def)

lemma route_change_eq:
  "forEach (route_change E n) es s = with_routes (forEach (route_upd E n) es (nm_mRpcFunc2Node s)) s"
  using route_change_with [of E n es "nm_mRpcFunc2Node s" s] by simp

lemma route_upd_sound:
  assumes "k \<in> set (mgets (forEach (route_upd E n) es r) u)"
    and "n \<in> set (mgets r u) \<Longrightarrow> mget m u \<noteq> None"
  shows "(k \<noteq> n \<longrightarrow> k \<in> set (mgets r u))
       \<and> (k = n \<longrightarrow> mget (forEach (apply_entry E) es m) u \<noteq> None)"
  using assms
proof (induction es arbitrary: r m)
  case Nil
  then show ?case by auto
next
  case (Cons e es)
  have "n \<in> set (mgets (route_upd E n e r) u) \<Longrightarrow> mget (apply_entry E e m) u \<noteq> None"
    using Cons.prems(2) by (auto simp: route_upd_def apply_entry_def split: if_splits)
  then have "(k \<noteq> n \<longrightarrow> k \<in> set (mgets (route_upd E n e r) u))
       \<and> (k = n \<longrightarrow> mget (forEach (apply_entry E) es (apply_entry E e m)) u \<noteq> None)"
    using Cons.IH [of "route_upd E n e r" "apply_entry E e m"] Cons.prems(1) by simp
  then show ?case by (auto simp: route_upd_def split: if_splits)
qed

lemma modifyEntry_gap:
  "ver \<noteq> info_nDataVersion (nm_info s n) + 1 \<Longrightarrow>
     modifyEntry E n es ver s
       = ((True, []), set_info n ((nm_info s n)\<lparr>info_nStatus := NODE_STATUS_SYNCING\<rparr>) s)"
  by (simp add: modifyEntry_def Let_def)

lemma modifyEntry_next:
  assumes "ver = info_nDataVersion (nm_info s n) + 1" "alive n s"
  shows "modifyEntry E n es ver s
    = ((False, es), set_info n ((nm_info s n)\<lparr>info_nDataVersion := ver,
         info_mEntryInfo := forEach (apply_entry E) es (entries s n)\<rparr>) s)"
  using assms by (simp add: modifyEntry_def Let_def modify_one_alive entries_def)

lemma keeps_gap: "keeps s (set_info n ((nm_info s n)\<lparr>info_nStatus := NODE_STATUS_SYNCING\<rparr>) s)"
  by (rule keeps_set_info) (simp_all add: entries_def)

lemma node_inv_notify:
  assumes inv: "node_inv E s" and n: "n < nm_nNextInfo s" and alive: "alive n s"
  shows "case modifyEntry E n es ver s of ((gap, ch), t) \<Rightarrow>
    node_inv E (if \<not> gap \<and> ch \<noteq> [] then forEach (route_change E n) ch t else t)"
proof (cases "ver = info_nDataVersion (nm_info s n) + 1")
  case False
  then show ?thesis using node_inv_keeps [OF inv keeps_gap] by (simp add: modifyEntry_gap)
next
  case True
  let ?v = "(nm_info s n)\<lparr>info_nDataVersion := ver, info_mEntryInfo := forEach (apply_entry E) es (entries s n)\<rparr>"
  let ?m = "forEach (route_upd E n) es (nm_mRpcFunc2Node s)"
  have parts: "refs_ok s" "entries_ok E s" "routes_ok s" using inv by (simp_all add: node_inv_def)
  have up: "(k \<noteq> n \<longrightarrow> k \<in> set (routes s u)) \<and> (k = n \<and> n \<noteq> nm_ptrSelf s
      \<longrightarrow> mget (forEach (apply_entry E) es (entries s n)) u \<noteq> None)"
    if "k \<in> set (mgets ?m u)" for k u
  proof (cases "n = nm_ptrSelf s")
    case True
    show ?thesis
      using route_upd_sound [OF that, of "mput u undefined []"] True by (simp add: routes_def)
  next
    case False
    show ?thesis
      using route_upd_sound [OF that, of "entries s n"] parts(3) False
      by (simp add: routes_ok_def routes_def)
  qed
  have "node_inv E (with_routes ?m (set_info n ?v s))"
  proof (rule node_inv_with_routes)
    show "refs_ok (set_info n ?v s)" by (rule refs_ok_set_info [OF parts(1)]) simp
    have "keyed E (entries s n)" using parts(2) by (simp add: entries_ok_def)
    then show "entries_ok E (set_info n ?v s)"
      by (intro entries_ok_set_info [OF parts(2)]) (simp add: keyed_apply_entry)
    show "k < nm_nNextInfo (set_info n ?v s)" if "k \<in> set (mgets ?m u)" for u k
      using up [OF that] node_inv_route [OF inv, of k u] n by auto
    show "alive k (set_info n ?v s) \<and> mget (entries (set_info n ?v s) k) u \<noteq> None"
      if k: "k \<in> set (mgets ?m u)" "k \<noteq> nm_ptrSelf (set_info n ?v s)" for u k
    proof (cases "k = n")
      case True
      then show ?thesis using up [OF k(1)] k(2) alive by (simp add: alive_def)
    next
      case False
      then show ?thesis using up [OF k(1)] k(2) parts(3) by (simp add: routes_ok_def)
    qed
  qed
  moreover have eq: "with_routes (forEach (route_upd E n) es (nm_mRpcFunc2Node s)) (set_info n ?v s)
      = (if es \<noteq> [] then forEach (route_change E n) es (set_info n ?v s) else set_info n ?v s)"
    by (cases "es = []") (simp_all add: route_change_eq set_info_def)
  ultimately have "node_inv E (if es \<noteq> [] then forEach (route_change E n) es (set_info n ?v s)
      else set_info n ?v s)" by (rule back_subst)
  then show ?thesis
    using True alive by (cases "es = []") (simp_all add: modifyEntry_next)
qed

section \<open>Synchronising everything\<close>

definition add_routes ::
  "node_env \<Rightarrow> noderef \<Rightarrow> EntryInfo list \<Rightarrow> (string, noderef list) gomap \<Rightarrow> (string, noderef list) gomap" where
  "add_routes E n es m =
     forEach (\<lambda>e m. if EntryInfo_IsNew e then mput (getUri E e) (mgets m (getUri E e) @ [n]) m else m) es m"

lemma set_add_routes:
  "k \<in> set (mgets (add_routes E n es m) u) \<longleftrightarrow>
     k \<in> set (mgets m u) \<or> k = n \<and> (\<exists>e \<in> set es. EntryInfo_IsNew e \<and> getUri E e = u)"
  unfolding add_routes_def by (induction es arbitrary: m) auto

lemma trySyncAll_finish_eq:
  "trySyncAll_finish E n (Some r) s =
    (let t = syncEntry E n (GetEntryResp_EntryInfo r) (GetEntryResp_DataVersion r) s
     in with_routes (add_routes E n (GetEntryResp_EntryInfo r)
          (drop_routes E (\<lambda>n'. nm_name s n' \<noteq> nm_name s n) (getAllEntry n s) (nm_mRpcFunc2Node s))) t)"
proof -
  have "forEach (\<lambda>e s. if EntryInfo_IsNew e
            then set_route (getUri E e) (mgets (nm_mRpcFunc2Node s) (getUri E e) @ [n]) s
            else s) es (with_routes m t) = with_routes (add_routes E n es m) t"
    for es m and t :: "'a NodeManager_scheme"
    unfolding add_routes_def by (induction es arbitrary: m) (simp_all add: set_route_def)
  moreover have "nm_name (syncEntry E n es ver s) n' = nm_name s n'" for n' es ver
    by (simp add: syncEntry_def)
  moreover have "nm_mRpcFunc2Node (syncEntry E n es ver s) = nm_mRpcFunc2Node s" for es ver
    by (simp add: syncEntry_def)
  ultimately show ?thesis
    by (simp add: trySyncAll_finish_def Let_def deleteEntry_eq)
qed

lemma apply_entry_new:
  "list_all EntryInfo_IsNew es \<Longrightarrow> e \<in> set es \<or> mget m (getUri E e) \<noteq> None \<Longrightarrow>
     mget (forEach (apply_entry E) es m) (getUri E e) \<noteq> None"
  by (induction es arbitrary: m) (auto simp: apply_entry_def)

lemma node_inv_sync:
  assumes inv: "node_inv E s" and n: "n < nm_nNextInfo s"
    and new: "list_all EntryInfo_IsNew (GetEntryResp_EntryInfo r)"
  shows "node_inv E (trySyncAll_finish E n (Some r) s)"
proof -
  let ?es = "GetEntryResp_EntryInfo r"
  let ?t = "syncEntry E n ?es (GetEntryResp_DataVersion r) s"
  let ?d = "drop_routes E (\<lambda>n'. nm_name s n' \<noteq> nm_name s n) (getAllEntry n s) (nm_mRpcFunc2Node s)"
  have parts: "refs_ok s" "entries_ok E s" "routes_ok s" using inv by (simp_all add: node_inv_def)
  have self: "nm_ptrSelf ?t = nm_ptrSelf s" "nm_nNextInfo ?t = nm_nNextInfo s" by (simp_all add: syncEntry_def)
  have sub: "k \<in> set (routes s u) \<and> (u \<in> getUri E ` set (getAllEntry n s) \<longrightarrow> k \<noteq> n)"
    if "k \<in> set (mgets ?d u)" for k u
    using that by (auto simp: mgets_drop_routes routes_def split: if_splits)
  have "node_inv E (with_routes (add_routes E n ?es ?d) ?t)"
  proof (rule node_inv_with_routes)
    show "refs_ok ?t" unfolding syncEntry_def by (rule refs_ok_set_info [OF parts(1)]) simp
    show "entries_ok E ?t"
      unfolding syncEntry_def by (rule entries_ok_set_info [OF parts(2)]) (simp add: keyed_apply_entry)
    show "k < nm_nNextInfo ?t" if k: "k \<in> set (mgets (add_routes E n ?es ?d) u)" for u k
      unfolding self using k sub [of k u] node_inv_route [OF inv, of k u] n
      unfolding set_add_routes by blast
    show "alive k ?t \<and> mget (entries ?t k) u \<noteq> None"
      if k: "k \<in> set (mgets (add_routes E n ?es ?d) u)" "k \<noteq> nm_ptrSelf ?t" for u k
    proof (cases "k \<in> set (mgets ?d u)")
      case True
      then have old: "alive k s \<and> mget (entries s k) u \<noteq> None"
        using sub [OF True] k(2) parts(3) unfolding self by (auto simp: routes_ok_def)
      then have "k \<noteq> n" using sub [OF True] entry_in_getAllEntry [OF parts(2)] by blast
      then show ?thesis using old by (simp add: syncEntry_def)
    next
      case False
      then obtain e where e: "k = n" "e \<in> set ?es" "getUri E e = u"
        using k(1) unfolding set_add_routes by blast
      then show ?thesis using apply_entry_new [OF new, of e "[]" E] by (simp add: syncEntry_def)
    qed
  qed
  then show ?thesis by (simp add: trySyncAll_finish_eq Let_def)
qed

section \<open>The own entries\<close>

text \<open>What \<^verbatim>\<open>modifyEntry\<close> does to the own record keeps the invariant: no route depends on it.\<close>

lemma node_inv_modify_self:
  assumes inv: "node_inv E s" and mod: "modifyEntry E (nm_ptrSelf s) es ver s = (x, t)"
  shows "node_inv E t"
proof (cases "ver = info_nDataVersion (nm_info s (nm_ptrSelf s)) + 1")
  case False
  then show ?thesis using node_inv_keeps [OF inv keeps_gap] mod by (auto simp: modifyEntry_gap)
next
  case True
  let ?n = "nm_ptrSelf s"
  have parts: "refs_ok s" "entries_ok E s" "routes_ok s" using inv by (simp_all add: node_inv_def)
  obtain m ch where st: "forEach (modify_one E (alive ?n s)) es (entries s ?n, []) = (m, ch)" by fastforce
  let ?v = "(nm_info s ?n)\<lparr>info_nDataVersion := ver, info_mEntryInfo := m\<rparr>"
  have t: "t = set_info ?n ?v s" using mod True st by (simp add: modifyEntry_def Let_def entries_def)
  have "keyed E m" using keyed_modify_one [of E "entries s ?n" "alive ?n s" es "[]"] st parts(2)
    by (simp add: entries_ok_def)
  then have "entries_ok E t" unfolding t by (intro entries_ok_set_info [OF parts(2)]) simp
  moreover have "refs_ok t" unfolding t by (rule refs_ok_set_info [OF parts(1)]) simp
  moreover have "routes_ok t" using parts(3) unfolding t by (simp add: routes_ok_def)
  ultimately show ?thesis by (simp add: node_inv_def)
qed

lemma node_inv_GoTask: "node_inv E s \<Longrightarrow> task_ref_ok (nm_nNextInfo s) k \<Longrightarrow> node_inv E (GoTask k s)"
  using node_inv_keeps keeps_GoTask by blast

lemma node_inv_sequence: "node_inv E s \<Longrightarrow> node_inv E (s\<lparr>nm_nSequence := q\<rparr>)"
  using node_inv_keeps keeps_misc(3) by blast

lemma node_inv_AddEntry:
  assumes inv: "node_inv E s"
  shows "node_inv E (AddEntry E u ty s)"
proof -
  let ?e = "\<lparr>EntryInfo_URI = u, EntryInfo_EntryType = ty, EntryInfo_IsNew = True\<rparr>"
  let ?s2 = "(set_route (getUri E ?e) (mgets (nm_mRpcFunc2Node s) (getUri E ?e) @ [nm_ptrSelf s]) s)
    \<lparr>nm_nSequence := nm_nSequence s + 1\<rparr>"
  have "node_inv E ?s2"
    unfolding set_route_with
    by (rule node_inv_sequence, rule node_inv_fewer_routes [OF inv])
      (auto simp: routes_def split: if_splits)
  moreover have self: "nm_ptrSelf ?s2 = nm_ptrSelf s" by (simp add: set_route_def)
  ultimately have "node_inv E (snd (modifyEntry E (nm_ptrSelf s) es v ?s2))" for es v
    using node_inv_modify_self [of E ?s2 es v] by (metis surjective_pairing)
  then show ?thesis
    using inv by (auto simp: AddEntry_def Let_def set_route_def task_ref_ok_def
        intro!: node_inv_GoTask split: prod.splits) (metis snd_conv)+
qed

lemma node_inv_RemoveEntry:
  assumes inv: "node_inv E s"
  shows "node_inv E (RemoveEntry E u ty s)"
proof -
  let ?s2 = "(set_route u (filter (\<lambda>n. nm_name s n \<noteq> nm_name s (nm_ptrSelf s))
      (mgets (nm_mRpcFunc2Node s) u)) s)\<lparr>nm_nSequence := nm_nSequence s + 1\<rparr>"
  have "node_inv E ?s2"
    unfolding set_route_with
    by (rule node_inv_sequence, rule node_inv_fewer_routes [OF inv])
      (auto simp: routes_def split: if_splits)
  moreover have self: "nm_ptrSelf ?s2 = nm_ptrSelf s" by (simp add: set_route_def)
  ultimately have "node_inv E (snd (modifyEntry E (nm_ptrSelf s) es v ?s2))" for es v
    using node_inv_modify_self [of E ?s2 es v] by (metis surjective_pairing)
  then show ?thesis
    by (auto simp: RemoveEntry_def Let_def set_route_def task_ref_ok_def
        intro!: node_inv_GoTask split: prod.splits) (metis snd_conv)+
qed

section \<open>Events\<close>

text \<open>
  The events of the process around the manager: connections, packets, the tasks of the
  worker pool and of the network layer in any order, waiting calls that go on, the three
  timers, and the calls of the agent.
\<close>

datatype node_event =
    EvAccept string string
  | EvRead connref bytes
  | EvCloseConnection connref
  | EvTask nat
  | EvNetTask nat
  | EvFinish nat select
  | EvKeepalive
  | EvCleanTimeout
  | EvCheckNeighbour
  | EvAddEntry string EntryType
  | EvRemoveEntry string EntryType
  | EvDispatchReq RpcCallReq ctx
  | EvDispatchRsp RpcCallResp ctx
  | EvStop

fun node_exec ::
  "node_env \<Rightarrow> choice \<Rightarrow> int64 \<Rightarrow> bool \<times> string \<Rightarrow> node_event \<Rightarrow> 'a NodeManager_scheme
     \<Rightarrow> unit outcome \<times> 'a NodeManager_scheme"
where
  "node_exec E ch nNow dial (EvAccept l r) s =
     (case Server_accept l r s of (c, s1) \<Rightarrow> (Ret (), OnNewConnection nNow c s1))"
| "node_exec E ch nNow dial (EvRead c b) s =
     (let s1 = touch (ucast nNow) c s in (Ret (), OnRead c b (Some (newContext c '''' s1)) s1))"
| "node_exec E ch nNow dial (EvCloseConnection c) s =
     (Ret (), Close c (OnCloseConnection c (Close c s)))"
| "node_exec E ch nNow dial (EvTask i) s =
     (if i < length (nm_task s)
      then run_node_task E ch nNow dial (nm_task s ! i) (s\<lparr>nm_task := drop_nth i (nm_task s)\<rparr>)
      else (Ret (), s))"
| "node_exec E ch nNow dial (EvNetTask i) s =
     (if i < length (n_task s) then run_net_task (n_task s ! i) (drop_task i s) else (Ret (), s))"
| "node_exec E ch nNow dial (EvFinish i sel) s =
     (if i < length (nm_wait s)
      then finish_call E sel (nm_wait s ! i) (s\<lparr>nm_wait := drop_nth i (nm_wait s)\<rparr>)
      else (Ret (), s))"
| "node_exec E ch nNow dial EvKeepalive s = keepalive E ch s"
| "node_exec E ch nNow dial EvCleanTimeout s = (Ret (), cleanTimeout E nNow s)"
| "node_exec E ch nNow dial EvCheckNeighbour s = (Ret (), checkNeighbour nNow s)"
| "node_exec E ch nNow dial (EvAddEntry u ty) s = (Ret (), AddEntry E u ty s)"
| "node_exec E ch nNow dial (EvRemoveEntry u ty) s = (Ret (), RemoveEntry E u ty s)"
| "node_exec E ch nNow dial (EvDispatchReq r ctx) s = (Ret (), snd (DispatchReq E ch r ctx s))"
| "node_exec E ch nNow dial (EvDispatchRsp r ctx) s = (Ret (), snd (DispatchRsp E ch r ctx s))"
| "node_exec E ch nNow dial EvStop s = (Ret (), Stop E ch s)"

text \<open>
  The answers to \<^verbatim>\<open>node.getEntry\<close> list entries that exist, not removals: this is what a
  node answers (see \<open>getEntry_answers_new\<close>), and the code only warns about the opposite.
\<close>

definition answers_new :: "node_env \<Rightarrow> node_event \<Rightarrow> 'a NodeManager_scheme \<Rightarrow> bool" where
  "answers_new E ev s \<longleftrightarrow>
     (case ev of
        EvFinish i sel \<Rightarrow>
          (let w = nm_wait s ! i; s1 = s\<lparr>nm_wait := drop_nth i (nm_wait s)\<rparr> in
           case fst (Call_select (Unmarshal_GetEntryResp (ne_pb E)) sel (wt_conn w) (wt_szRequestID w)
                       (wt_rpc w) s1) of
             Ret (Some r) \<Rightarrow> list_all EntryInfo_IsNew (GetEntryResp_EntryInfo r)
           | _ \<Rightarrow> True)
      | _ \<Rightarrow> True)"

inductive node_step :: "node_env \<Rightarrow> NodeManager \<Rightarrow> NodeManager \<Rightarrow> bool" for E where
  node_stepI: "answers_new E ev s \<Longrightarrow> node_exec E ch nNow dial ev s = (z, t) \<Longrightarrow> node_step E s t"

inductive_cases node_stepE: "node_step E s t"

definition node_start :: "NodeManager \<Rightarrow> bool" where
  "node_start s \<longleftrightarrow> (\<exists>uu inst nNow nm ip p ap nb. s = NewManager uu inst nNow nm ip p ap nb)"

section \<open>Every event keeps the invariant\<close>

lemma node_inv_NewManager: "node_inv E (NewManager uu inst nNow nm ip p ap nb)"
proof -
  have "routes (NewManager uu inst nNow nm ip p ap nb) u = []" for u
    by (simp add: NewManager_def Let_def newNode_def routes_def set_info_def)
  then show ?thesis
    by (simp add: node_inv_def refs_ok_def entries_ok_def routes_ok_def)
      (simp add: NewManager_def Let_def newNode_def set_info_def entries_def info_zero_def
        conn_zero_def gomap_ok_def)
qed

lemma node_inv_quiet: "node_inv E s \<Longrightarrow> quiet s t \<Longrightarrow> node_inv E t" for s :: "'a NodeManager_scheme"
  by (rule node_inv_keeps, assumption, rule keeps_quiet)

lemma node_inv_temp: "node_inv E s \<Longrightarrow> node_inv E (s\<lparr>nm_mTempConnection := m\<rparr>)"
  using node_inv_keeps keeps_misc(1) by blast

lemma node_inv_OnCloseConnection:
  assumes "node_inv E s"
  shows "node_inv E (OnCloseConnection c s)"
proof (cases "getNodeByConnection c s")
  case None
  then show ?thesis using node_inv_temp [OF assms] by (simp add: OnCloseConnection_def)
next
  case (Some n)
  obtain l s1 where r: "removeConnection n c s = (l, s1)" by (cases "removeConnection n c s")
  have "node_inv E s1" using node_inv_keeps [OF assms keeps_removeConnection [of s n c]] r by simp
  then show ?thesis using Some r node_inv_forget [of E s1] by (simp add: OnCloseConnection_def)
qed

lemma node_inv_Reply:
  "node_inv E s \<Longrightarrow> node_inv E (snd (Reply pb m ctx s))" for s :: "'a NodeManager_scheme"
  by (rule node_inv_quiet, assumption, rule quiet_Reply)

lemma node_inv_reply_hello: "node_inv E s \<Longrightarrow> node_inv E (snd (reply_hello E res rsp ctx s))"
  using node_inv_Reply [of E s "ne_pb E" "MSayHelloRsp rsp" ctx]
  by (auto simp: reply_hello_def task_ref_ok_def intro!: node_inv_GoTask split: prod.splits outcome.splits)

lemma node_inv_node_not_auth: "node_inv E s \<Longrightarrow> node_inv E (snd (node_not_auth ctx s))"
  by (simp add: node_not_auth_def node_inv_GoTask task_ref_ok_def)

lemma node_inv_handleSayHello: "node_inv E s \<Longrightarrow> node_inv E (snd (handleSayHello E nNow b ctx s))"
  by (auto simp: handleSayHello_def Let_def
      intro!: node_inv_reply_hello node_inv_temp node_inv_hello_admit split: option.splits)

lemma node_inv_rpc_handlers:
  assumes "node_inv E s"
  shows "node_inv E (snd (handleRpcCallReq E b ctx s))" "node_inv E (snd (handleRpcCallResp E b ctx s))"
  using node_inv_node_not_auth [OF assms] node_inv_keeps [OF assms keeps_misc(4)] assms
  by (auto simp: handleRpcCallReq_def handleRpcCallResp_def add_upcall_def split: option.splits)

lemma node_inv_handleSayGoodbye: "node_inv E s \<Longrightarrow> node_inv E (snd (handleSayGoodbyeNotify E b ctx s))"
  using node_inv_markDead [OF _ node_inv_getNode]
  by (fastforce simp: handleSayGoodbyeNotify_def intro: node_inv_node_not_auth split: option.splits prod.splits)

lemma node_inv_handleNodeEntryNotify:
  assumes "node_inv E s"
  shows "node_inv E (snd (handleNodeEntryNotify E b ctx s))"
proof (cases "Unmarshal_NewEntryNotify (ne_pb E) b")
  case (Some m)
  show ?thesis
  proof (cases "getNode ctx s")
    case None
    then show ?thesis using Some node_inv_node_not_auth [OF assms] by (simp add: handleNodeEntryNotify_def)
  next
    case (Some n)
    show ?thesis
    proof (cases "getState n s = 3 \<or> getState n s = 1")
      case True
      then show ?thesis
        using Some \<open>Unmarshal_NewEntryNotify (ne_pb E) b = _\<close> assms by (simp add: handleNodeEntryNotify_def)
    next
      case False
      then have "alive n s" by (simp add: alive_def getState_def)
      note inv = node_inv_notify [OF assms node_inv_getNode [OF assms Some] this,
          of "NewEntryNotify_EntryInfo m" "NewEntryNotify_DataVersion m"]
      obtain gap ch t where mod: "modifyEntry E n (NewEntryNotify_EntryInfo m) (NewEntryNotify_DataVersion m) s
          = ((gap, ch), t)" by (metis prod.exhaust)
      have "snd (handleNodeEntryNotify E b ctx s)
          = (if \<not> gap \<and> ch \<noteq> [] then forEach (route_change E n) ch t else t)"
        using Some False \<open>Unmarshal_NewEntryNotify (ne_pb E) b = _\<close> mod
        by (simp add: handleNodeEntryNotify_def)
      then show ?thesis using inv mod by simp
    qed
  qed
qed (use assms in \<open>simp add: handleNodeEntryNotify_def\<close>)

lemma handleGetEntryReq_state:
  "snd (handleGetEntryReq E b ctx s)
     \<in> {s, snd (node_not_auth ctx s)} \<union> {snd (Reply (ne_pb E) m ctx s) | m. True}"
  by (auto simp: handleGetEntryReq_def Let_def split: option.splits prod.splits outcome.splits)
    (metis snd_conv)+

lemma node_inv_handleGetEntryReq: "node_inv E s \<Longrightarrow> node_inv E (snd (handleGetEntryReq E b ctx s))"
  using handleGetEntryReq_state [of E b ctx s] node_inv_Reply node_inv_node_not_auth by auto

lemma node_inv_handleKeepAlive:
  assumes "node_inv E s"
  shows "node_inv E (snd (handleKeepAlive E ch b ctx s))"
proof -
  have "node_inv E (trySyncAll E ch n v ctx (makefriends l ctx s))" if "getNode ctx s = Some n" for n v l
  proof -
    have "keeps s (makefriends l ctx s)" by (simp add: makefriends_def keeps_GoTask task_ref_ok_def)
    moreover from this have "n < nm_nNextInfo (makefriends l ctx s)"
      using node_inv_getNode [OF assms that] keepsD(4) by metis
    ultimately show ?thesis using keeps_trySyncAll keeps_trans node_inv_keeps [OF assms] by blast
  qed
  then show ?thesis
    using assms node_inv_node_not_auth [OF assms] by (auto simp: handleKeepAlive_def split: option.splits)
qed

lemma node_inv_cast_Start:
  "node_inv E s \<Longrightarrow> n < nm_nNextInfo s \<Longrightarrow> node_inv E (snd (cast_Start E ch n u m ctx s))"
  by (rule node_inv_keeps [OF _ keeps_cast_Start])

lemma node_inv_cast_others: "node_inv E s \<Longrightarrow> node_inv E (cast_others E ch u m ctx s)"
  by (rule node_inv_keeps, assumption, rule keeps_cast_others) (rule node_inv_nodes)

lemma node_inv_keepalive: "node_inv E s \<Longrightarrow> node_inv E (snd (keepalive E ch s))"
  by (simp add: keepalive_def Let_def node_inv_cast_others)

lemma node_inv_hello_keepalive: "node_inv E s \<Longrightarrow> node_inv E (snd (hello_keepalive E ch ctx s))"
  by (auto simp: hello_keepalive_def Let_def intro: node_inv_cast_Start node_inv_getNode split: option.splits)

lemma node_inv_cleanTimeout:
  assumes inv: "node_inv E s"
  shows "node_inv E (cleanTimeout E nNow s)"
proof -
  have close: "node_inv E (forEach Close cs s)" for cs
    by (rule node_inv_forEach) (auto intro: node_inv_quiet quiet_Close inv)
  have del: "node_inv E (forEach (deleteNode E) ns t) \<and> nm_nNextInfo (forEach (deleteNode E) ns t) = nm_nNextInfo t"
    if "node_inv E t" "\<And>n. n \<in> set ns \<Longrightarrow> n < nm_nNextInfo t" for ns t
    using that
  proof (induction ns arbitrary: t)
    case (Cons n ns)
    have next_eq: "nm_nNextInfo (deleteNode E n t) = nm_nNextInfo t"
      by (simp add: deleteNode_def markDead_def Let_def deleteEntry_eq)
    then show ?case using Cons.IH [of "deleteNode E n t"] Cons.prems node_inv_deleteNode [of E t n] by simp
  qed simp
  show ?thesis
    unfolding cleanTimeout_def Let_def
    by (rule conjunct1 [OF del]) (use close node_inv_nodes [OF close] in auto)
qed

lemma node_inv_cast_request:
  assumes "node_inv E s" "ns \<noteq> []" "\<And>n. n \<in> set ns \<Longrightarrow> n < nm_nNextInfo s"
  shows "node_inv E (snd (cast_request E ch r ns ctx s))"
proof -
  have "pick_node ch r ns \<in> set ns" using assms(2) by (simp add: pick_node_def)
  then show ?thesis using node_inv_cast_Start [OF assms(1)] assms(3) by (simp add: cast_request_def Let_def)
qed

lemma route_mget: "mget (nm_mRpcFunc2Node s) u = Some ns \<Longrightarrow> routes s u = ns"
  by (simp add: routes_def mgets_def)

lemma remote_routes:
  "getRemoteNodeByUri u s = filter (\<lambda>n. nm_name s n \<noteq> nm_name s (nm_ptrSelf s)) (routes s u)"
  by (simp add: getRemoteNodeByUri_def routes_def mgets_def split: option.splits)

lemma node_inv_DispatchReq:
  assumes "node_inv E s"
  shows "node_inv E (snd (DispatchReq E ch r ctx s))"
proof -
  have sub: "node_inv E (snd (cast_request E ch r ns ctx s))" if "ns \<noteq> []" "set ns \<subseteq> set (routes s u)" for ns u
    using that node_inv_route [OF assms] by (intro node_inv_cast_request [OF assms]) auto
  let ?u = "getUri2 E (RpcCallReq_URI r) (RpcCallReq_EntryType r)"
  have "node_inv E (snd (cast_request E ch r (getRemoteNodeByUri ?u s) ctx s))" if "getRemoteNodeByUri ?u s \<noteq> []"
    by (rule sub [OF that, of ?u]) (auto simp: remote_routes)
  moreover have "node_inv E (snd (cast_request E ch r ns ctx s))"
    if "mget (nm_mRpcFunc2Node s) ?u = Some ns" "ns \<noteq> []" for ns
    by (rule sub [OF that(2), of ?u]) (simp add: route_mget [OF that(1)])
  ultimately show ?thesis
    using assms by (auto simp: DispatchReq_def Let_def split: option.splits)
qed

lemma node_inv_DispatchRsp:
  assumes "node_inv E s"
  shows "node_inv E (snd (DispatchRsp E ch r ctx s))"
  using node_inv_cast_Start [OF assms node_inv_node [OF assms]] assms
  by (auto simp: DispatchRsp_def Let_def split: prod.splits option.splits)

lemma node_inv_Stop:
  assumes "node_inv E s"
  shows "node_inv E (Stop E ch s)"
proof -
  let ?s1 = "s\<lparr>nm_nStatus := MANAGER_STATUS_STOPED\<rparr>"
  have inv1: "node_inv E ?s1" by (rule node_inv_keeps [OF assms keeps_misc(2)])
  obtain es t where m: "markDead (nm_ptrSelf s) ?s1 = (es, t)" by fastforce
  have "nm_ptrSelf t = nm_ptrSelf s" using m by (auto simp: markDead_def Let_def)
  moreover have "node_inv E (deleteEntry E (nm_ptrSelf s) es t)"
    using node_inv_markDead [OF inv1, of "nm_ptrSelf s"] m node_inv_self [OF assms] by simp
  ultimately show ?thesis using m by (simp add: Stop_def node_inv_cast_others)
qed

lemma mgets_router:
  "mget (node_router E ch nNow) u = Some h \<Longrightarrow>
     h \<in> {handleSayHello E nNow, handleSayGoodbyeNotify E, handleGetEntryReq E, handleNodeEntryNotify E,
          handleKeepAlive E ch, handleRpcCallReq E, handleRpcCallResp E}"
  by (simp add: node_router_def RegisterRouter_def NewRouter_def split: if_splits)

lemma node_inv_handler:
  assumes "mget (node_router E ch nNow) u = Some h" "node_inv E s"
  shows "node_inv E (snd (h b ctx s))"
  using mgets_router [OF assms(1)] node_inv_handleSayHello [OF assms(2)]
    node_inv_handleSayGoodbye [OF assms(2)] node_inv_handleGetEntryReq [OF assms(2)]
    node_inv_handleNodeEntryNotify [OF assms(2)] node_inv_handleKeepAlive [OF assms(2)]
    node_inv_rpc_handlers [OF assms(2)] by blast

interpretation node_service: packet_service "node_router E ch nNow" "node_inv E" for E ch nNow
  by unfold_locales (simp_all add: node_inv_quiet node_inv_handler)

lemma node_inv_process_task:
  assumes "node_inv E s"
  shows "node_inv E (snd (process_task E ch nNow c b ctx s))"
proof -
  obtain z s1 where p: "Process (node_router E ch nNow) b ctx s = (z, s1)" by fastforce
  have 1: "node_inv E s1" using node_service.Process_inv [OF assms, of ch nNow b ctx] p by simp
  show ?thesis
    using p 1 node_inv_keeps [OF 1 keeps_Close] node_inv_keeps [OF 1 keeps_refresh]
    by (auto simp: process_task_def split: outcome.splits option.splits)
qed

lemma node_inv_run_node_task:
  assumes "node_inv E s" "task_ref_ok (nm_nNextInfo s) k"
  shows "node_inv E (snd (run_node_task E ch nNow dial k s))"
proof (cases k)
  case (TReconnect n)
  then show ?thesis
    using node_inv_keeps [OF assms(1) keeps_reconnect_begin] assms(2)
    by (simp add: run_node_task_def task_ref_ok_def)
next
  case (TTrySyncAll n v ctx)
  then show ?thesis
    using node_inv_keeps [OF assms(1) keeps_trySyncAll] assms(2)
    by (simp add: run_node_task_def task_ref_ok_def)
next
  case (TCloseConnection ctx)
  then show ?thesis
    using node_inv_keeps [OF assms(1) keeps_Close] assms(1)
    by (auto simp: run_node_task_def split: option.splits)
qed (use assms(1) in \<open>simp_all add: run_node_task_def node_inv_process_task node_inv_hello_keepalive
      node_inv_makefriends_task notify_entry_def node_inv_cast_others\<close>)

lemma node_inv_finish:
  assumes inv: "node_inv E s" and ref: "wait_ref_ok (nm_nNextInfo s) w"
    and new: "\<And>r. fst (Call_select (Unmarshal_GetEntryResp (ne_pb E)) sel (wt_conn w) (wt_szRequestID w)
        (wt_rpc w) s) = Ret (Some r) \<Longrightarrow> list_all EntryInfo_IsNew (GetEntryResp_EntryInfo r)"
  shows "node_inv E (snd (finish_call E sel w s))"
proof (cases "wt_then w")
  case (WaitHello n)
  obtain z t where c: "Call_select (Unmarshal_SayHelloRsp (ne_pb E)) sel (wt_conn w) (wt_szRequestID w)
      (wt_rpc w) s = (z, t)" by fastforce
  have k: "keeps s t"
    using keeps_quiet [OF quiet_Call_select [of s "Unmarshal_SayHelloRsp (ne_pb E)"]] c by (metis snd_conv)
  have t: "node_inv E t" by (rule node_inv_keeps [OF inv k])
  have n: "n < nm_nNextInfo t" using ref WaitHello keepsD(4) [OF k] by (simp add: wait_ref_ok_def)
  then show ?thesis
    using WaitHello c t node_inv_keeps [OF t keeps_reconnect_finish [OF n]]
    by (simp add: finish_call_def split: outcome.splits)
next
  case (WaitEntry n)
  obtain z t where c: "Call_select (Unmarshal_GetEntryResp (ne_pb E)) sel (wt_conn w) (wt_szRequestID w)
      (wt_rpc w) s = (z, t)" by fastforce
  have k: "keeps s t"
    using keeps_quiet [OF quiet_Call_select [of s "Unmarshal_GetEntryResp (ne_pb E)"]] c by (metis snd_conv)
  have t: "node_inv E t" by (rule node_inv_keeps [OF inv k])
  have n: "n < nm_nNextInfo t" using ref WaitEntry keepsD(4) [OF k] by (simp add: wait_ref_ok_def)
  have "node_inv E (trySyncAll_finish E n rsp t)" if "z = Ret rsp" for rsp
    using that new c node_inv_sync [OF t n] t by (cases rsp) (auto simp: trySyncAll_finish_def)
  then show ?thesis
    using WaitEntry c t by (simp add: finish_call_def split: outcome.splits)
qed

lemma node_inv_less_tasks:
  "node_inv E s \<Longrightarrow> node_inv E (s\<lparr>nm_task := drop_nth i (nm_task s)\<rparr>)"
  "node_inv E s \<Longrightarrow> node_inv E (s\<lparr>nm_wait := drop_nth i (nm_wait s)\<rparr>)"
  by (rule node_inv_keeps, assumption,
      auto simp: keeps_def entries_def alive_def drop_nth_def dest: in_set_takeD in_set_dropD)+

lemma node_inv_accept:
  assumes "node_inv E s"
  shows "node_inv E (snd (node_exec E ch nNow dial (EvAccept l r) s))"
proof -
  have "node_inv E (snd (Server_accept l r s))"
    unfolding Server_accept_def by (rule node_inv_quiet [OF assms quiet_new_connection])
  then show ?thesis using node_inv_temp by (auto simp: OnNewConnection_def split: prod.splits)
qed

lemma node_inv_touch: "node_inv E s \<Longrightarrow> node_inv E (touch t c s)" for s :: "'a NodeManager_scheme"
  by (rule node_inv_quiet, assumption) (simp add: touch_def quiet_set_conn)

lemma node_inv_exec:
  assumes inv: "node_inv E s" and new: "answers_new E ev s"
  shows "node_inv E (snd (node_exec E ch nNow dial ev s))"
proof (cases ev)
  case (EvAccept l r)
  then show ?thesis using node_inv_accept [OF inv] by simp
next
  case (EvRead c b)
  then show ?thesis
    by (simp add: Let_def OnRead_def node_inv_GoTask node_inv_touch [OF inv] task_ref_ok_def)
next
  case (EvCloseConnection c)
  have "node_inv E (OnCloseConnection c (Close c s))"
    by (rule node_inv_OnCloseConnection, rule node_inv_keeps [OF inv keeps_Close])
  then show ?thesis using EvCloseConnection node_inv_keeps [OF _ keeps_Close] by simp
next
  case (EvTask i)
  have "i < length (nm_task s) \<Longrightarrow> task_ref_ok (nm_nNextInfo s) (nm_task s ! i)"
    using inv by (simp add: node_inv_def refs_ok_def)
  then show ?thesis
    using EvTask node_inv_run_node_task [OF node_inv_less_tasks(1) [OF inv]] inv by simp
next
  case (EvNetTask i)
  have "quiet s (drop_task i s)" by (simp add: quiet_def drop_task_def)
  then have "node_inv E (drop_task i s)" by (rule node_inv_quiet [OF inv])
  then show ?thesis
    using EvNetTask node_inv_quiet [OF _ quiet_run_net_task, of E "drop_task i s"] inv by simp
next
  case (EvFinish i sel)
  have "i < length (nm_wait s) \<Longrightarrow> wait_ref_ok (nm_nNextInfo s) (nm_wait s ! i)"
    using inv by (simp add: node_inv_def refs_ok_def)
  moreover have "list_all EntryInfo_IsNew (GetEntryResp_EntryInfo r)"
    if "fst (Call_select (Unmarshal_GetEntryResp (ne_pb E)) sel (wt_conn (nm_wait s ! i))
        (wt_szRequestID (nm_wait s ! i)) (wt_rpc (nm_wait s ! i)) (s\<lparr>nm_wait := drop_nth i (nm_wait s)\<rparr>))
        = Ret (Some r)" for r
    using new EvFinish that by (simp add: answers_new_def Let_def)
  ultimately show ?thesis
    using EvFinish node_inv_finish [OF node_inv_less_tasks(2) [OF inv]] inv by simp
qed (use inv in \<open>simp_all add: node_inv_keepalive node_inv_cleanTimeout node_inv_checkNeighbour
      node_inv_AddEntry node_inv_RemoveEntry node_inv_DispatchReq node_inv_DispatchRsp node_inv_Stop\<close>)

interpretation node_system: inductive_invariant node_start "node_step E" "node_inv E" for E
proof
  show "node_inv E s" if "node_start s" for s
    using that node_inv_NewManager by (auto simp: node_start_def)
  show "node_inv E t" if "node_inv E s" "node_step E s t" for s t
    using that by (auto elim!: node_stepE) (metis node_inv_exec snd_conv)
qed

end
