(* ===== verification/NodeProps.thy ===== *)
theory NodeProps
  imports NodeSystem
begin

text \<open>
  What the node manager guarantees: where requests are routed, how the entries of a node
  reach its peers, what each message does on every branch, and where the code departs
  from that.
\<close>

section \<open>Example states\<close>

definition example_env :: node_env where
  "example_env = \<lparr>ne_pb = lib_stub, ne_szSecretKey = ''key'', ne_NeighbourMaxConnection = 2\<rparr>"

definition example_choice :: choice where
  "example_choice = \<lparr>ch_pick = 0, ch_rand = (\<lambda>_. 0), ch_uuid = (\<lambda>_. ''uuid'')\<rparr>"

definition node_a :: NodeManager where
  "node_a = NewManager ''uuid'' 7 100 ''a'' ''10.0.0.1'' 8800 8900
     [\<lparr>neighbour_szName = ''b'', neighbour_szIP = ''10.0.0.2'', neighbour_nPort = 8800,
       neighbour_nAgentPort = 8900\<rparr>]"

lemmas example_defs = example_env_def example_choice_def node_a_def NewManager_def newNode_def Let_def
  set_info_def

lemma node_a_start: "node_start node_a"
  unfolding node_start_def node_a_def by blast

section \<open>Routing\<close>


definition node_a1 :: NodeManager where
  "node_a1 = AddEntry example_env ''u'' 2 node_a"

lemma node_a1_reached: "reaches node_start (node_step example_env) node_a1"
proof -
  have "node_step example_env node_a node_a1"
    by (rule node_stepI [of _ "EvAddEntry ''u'' 2" _ example_choice 0 "(True, [])" "Ret ()"])
      (simp_all add: answers_new_def node_a1_def)
  then show ?thesis
    using reaches_start [of node_start, OF node_a_start] by (rule reaches_step [rotated])
qed

lemma node_a1_facts:
  "nm_ptrSelf node_a1 = 0" "routes node_a1 ''u_RPC'' = [0]" "nm_name node_a1 0 = ''a''"
  "getUri2 example_env ''u'' 2 = ''u_RPC''"
  by (simp_all add: node_a1_def AddEntry_def example_defs entryExist_def alive_def getUri_def
      EntryType_String_def lib_stub_def EntryType_name_def modifyEntry_def modify_one_def set_route_def
      GoTask_def routes_def getUri2_def mgets_def)


lemma pick_node_in: "ns \<noteq> [] \<Longrightarrow> pick_node ch r ns \<in> set ns"
  by (simp add: pick_node_def)

text \<open>
  Dispatch of a request, every mode.  \<^verbatim>\<open>LOCAL_FORCE\<close> only asks whether the own record
  has the entry; \<^verbatim>\<open>LOCAL_BETTER\<close> prefers it and otherwise uses a node of another name;
  \<^verbatim>\<open>DEFAULT\<close> uses any node routed for the entry; any other mode finds nothing.  A request
  that is sent on carries the own node on top of its callers, and a request with a key
  goes to the same node whatever the random choice is.
\<close>

lemma DispatchReq_cases:
  fixes s :: "'a NodeManager_scheme" and E :: node_env and r :: RpcCallReq
  defines "self \<equiv> nm_ptrSelf s"
  defines "u \<equiv> getUri2 E (RpcCallReq_URI r) (RpcCallReq_EntryType r)"
  defines "here \<equiv> mget (entries s self) u \<noteq> None"
  defines "ns \<equiv> (if RpcCallReq_RequestMode r = RequestMode_LOCAL_BETTER
                 then filter (\<lambda>n. nm_name s n \<noteq> nm_name s self) (routes s u) else routes s u)"
  defines "r' \<equiv> PushStack r (GenNodeCaller (nm_name s self))"
  shows "DispatchReq E ch r ctx s =
    (if RpcCallReq_RequestMode r = RequestMode_LOCAL_FORCE then
       ((if here then ResultCode_CALL_YOUR_SELF else ResultCode_ENTRY_NOT_FOUND, r), s)
     else if RpcCallReq_RequestMode r = RequestMode_LOCAL_BETTER \<and> alive self s \<and> here then
       ((ResultCode_CALL_YOUR_SELF, r), s)
     else if (RpcCallReq_RequestMode r = RequestMode_LOCAL_BETTER
              \<or> RpcCallReq_RequestMode r = RequestMode_DEFAULT) \<and> ns \<noteq> [] then
       ((ResultCode_SUCCESS, r'),
        snd (cast_Start E ch (pick_node ch r ns) NODE_RPC_REQ (MRpcCallReq r') ctx s))
     else ((ResultCode_ENTRY_NOT_FOUND, r), s))"
  unfolding assms
  by (auto simp: DispatchReq_def Let_def entryExist2_def entries_def cast_request_def remote_routes
      route_mget routes_def mgets_def split: option.splits)


definition example_req :: RpcCallReq where
  "example_req = \<lparr>RpcCallReq_Data = [], RpcCallReq_URI = ''u'', RpcCallReq_Caller = [],
     RpcCallReq_RequestMode = RequestMode_DEFAULT, RpcCallReq_Key = [], RpcCallReq_EntryType = EntryType_RPC\<rparr>"


text \<open>
  C15. The way back: a response whose top caller is a node of the map is handed to that
  node with this caller popped, so it travels the nodes of the request in reverse; a top
  caller that names an agent is left to the own agent, and a node that is not known, a
  text that is not JSON and an empty stack are reported and change nothing.
\<close>

theorem DispatchRsp_cases:
  assumes "utf8_ok nm" "caller_ok (Caller_zero\<lparr>Caller_Type := 1, Caller_AgentID := ag,
      Caller_RequestID := q, Caller_ConnectionID := co\<rparr>)"
  shows "DispatchRsp E ch (rsp\<lparr>RpcCallResp_Caller := cs @ [GenNodeCaller nm]\<rparr>) ctx s =
      (case mget (nm_mNodeInfo s) nm of
         Some n \<Rightarrow> ((ResultCode_SUCCESS, rsp\<lparr>RpcCallResp_Caller := cs\<rparr>),
           snd (cast_Start E ch n NODE_RPC_RESP (MRpcCallResp (rsp\<lparr>RpcCallResp_Caller := cs\<rparr>)) ctx s))
       | None \<Rightarrow> ((ResultCode_NODE_NOT_EXIST, rsp\<lparr>RpcCallResp_Caller := cs @ [GenNodeCaller nm]\<rparr>), s))
    \<and> DispatchRsp E ch (rsp\<lparr>RpcCallResp_Caller := cs @ [GenAgentCaller ag q co]\<rparr>) ctx s
      = ((ResultCode_CALL_YOUR_SELF, rsp\<lparr>RpcCallResp_Caller := cs @ [GenAgentCaller ag q co]\<rparr>), s)
    \<and> DispatchRsp E ch (rsp\<lparr>RpcCallResp_Caller := []\<rparr>) ctx s
      = ((ResultCode_STACK_EMPTY, rsp\<lparr>RpcCallResp_Caller := []\<rparr>), s)
    \<and> (json_Unmarshal bad = None \<longrightarrow>
        DispatchRsp E ch (rsp\<lparr>RpcCallResp_Caller := cs @ [bad]\<rparr>) ctx s
          = ((ResultCode_ERROR, rsp\<lparr>RpcCallResp_Caller := cs @ [bad]\<rparr>), s))"
proof -
  have "json_Unmarshal (GenNodeCaller nm) = Some (Caller_zero\<lparr>Caller_Type := 2, Caller_Node := nm\<rparr>)"
    unfolding GenNodeCaller_def by (rule json_roundtrip) (use assms(1) in \<open>simp add: caller_ok_def Caller_zero_def utf8_ok.simps\<close>)
  moreover have "json_Unmarshal (GenAgentCaller ag q co) = Some (Caller_zero\<lparr>Caller_Type := 1,
      Caller_AgentID := ag, Caller_RequestID := q, Caller_ConnectionID := co\<rparr>)"
    unfolding GenAgentCaller_def by (rule json_roundtrip) (rule assms(2))
  ultimately show ?thesis
    by (auto simp: DispatchRsp_def GetTopStack_def PopStack_def Let_def split: option.splits)
qed

definition example_rsp :: RpcCallResp where
  "example_rsp = \<lparr>RpcCallResp_Result = 0, RpcCallResp_Data = [], RpcCallResp_URI = ''u'',
     RpcCallResp_Caller = [], RpcCallResp_EntryType = 2\<rparr>"

theorem DispatchRsp_cases_witness:
  "fst (DispatchRsp example_env example_choice (example_rsp\<lparr>RpcCallResp_Caller := [GenNodeCaller ''a'']\<rparr>) None node_a)
     = (ResultCode_SUCCESS, example_rsp\<lparr>RpcCallResp_Caller := []\<rparr>)
   \<and> fst (DispatchRsp example_env example_choice (example_rsp\<lparr>RpcCallResp_Caller := [GenNodeCaller ''z'']\<rparr>) None node_a)
     = (ResultCode_NODE_NOT_EXIST, example_rsp\<lparr>RpcCallResp_Caller := [GenNodeCaller ''z'']\<rparr>)"
proof -
  have utf: "utf8_ok ''a''" "utf8_ok ''z''" by (simp_all add: utf8_ok.simps utf8_len.simps)
  have ag: "caller_ok (Caller_zero\<lparr>Caller_Type := 1, Caller_AgentID := [], Caller_RequestID := [],
      Caller_ConnectionID := []\<rparr>)" by (simp add: caller_ok_def Caller_zero_def utf8_ok.simps)
  have "mget (nm_mNodeInfo node_a) ''a'' = Some 0" "mget (nm_mNodeInfo node_a) ''z'' = None"
    by (simp_all add: example_defs)
  then show ?thesis
    using DispatchRsp_cases [OF utf(1) ag, where E = example_env and ch = example_choice
        and rsp = example_rsp and cs = "[]" and ctx = None and s = node_a]
      DispatchRsp_cases [OF utf(2) ag, where E = example_env and ch = example_choice
        and rsp = example_rsp and cs = "[]" and ctx = None and s = node_a] by simp
qed

section \<open>Entries\<close>

lemma snoc_split: "xs @ ''_'' @ ys = xs' @ ''_'' @ ys' \<Longrightarrow> CHR ''_'' \<notin> set ys \<Longrightarrow> CHR ''_'' \<notin> set ys' \<Longrightarrow> xs = xs' \<and> ys = ys'"
  by (auto simp: append_eq_append_conv2 append_eq_Cons_conv Cons_eq_append_conv)

text \<open>
  The key of an entry is unambiguous: two entries of declared types with the same key
  have the same URI and the same type.
\<close>

lemma getUri2_injective:
  assumes "EnumName_declared (ne_pb E)" "t \<in> {0, 1, 2}" "t' \<in> {0, 1, 2}"
    and "getUri2 E u t = getUri2 E u' t'"
  shows "u = u' \<and> t = t'"
proof -
  have nm: "EntryType_String (ne_pb E) 0 = ''INVALIDATE''" "EntryType_String (ne_pb E) 1 = ''HTTP''"
    "EntryType_String (ne_pb E) 2 = ''RPC''"
    using assms(1) by (simp_all add: EnumName_declared_def EntryType_String_def EntryType_name_def)
  have "u = u' \<and> EntryType_String (ne_pb E) t = EntryType_String (ne_pb E) t'"
    by (rule snoc_split) (use assms nm in \<open>auto simp: getUri2_def\<close>)
  then show ?thesis using assms(2,3) nm by auto
qed

lemma getUri2_injective_example:
  "getUri2 example_env ''u_HTTP'' 2 \<noteq> getUri2 example_env ''u'' 1"
  using getUri2_injective [of example_env 2 1 "''u_HTTP''" "''u''"] by (auto simp: example_env_def)

lemma getUri2_neq: "getUri2 E u t \<noteq> u"
  by (simp add: getUri2_def)

lemma modifyEntry_routes [simp]: "routes (snd (modifyEntry E n es v s)) u = routes s u"
  by (simp add: modifyEntry_def Let_def split: prod.splits)

lemma GoTask_routes [simp]: "routes (GoTask k s) u = routes s u"
  by (simp add: GoTask_def routes_def)

lemma RemoveEntry_routes:
  "routes (RemoveEntry E u ty s) v = (if v = u then filter (\<lambda>n. nm_name s n \<noteq> nm_name s (nm_ptrSelf s)) (routes s u)
     else routes s v)"
proof -
  let ?s1 = "set_route u (filter (\<lambda>n. nm_name s n \<noteq> nm_name s (nm_ptrSelf s)) (mgets (nm_mRpcFunc2Node s) u)) s"
  obtain b ch t where m: "modifyEntry E (nm_ptrSelf s)
      [\<lparr>EntryInfo_URI = u, EntryInfo_EntryType = ty, EntryInfo_IsNew = False\<rparr>] (nm_nSequence s + 1)
      (?s1\<lparr>nm_nSequence := nm_nSequence s + 1\<rparr>) = ((b, ch), t)" by (metis prod.exhaust)
  have "routes t v = routes (?s1\<lparr>nm_nSequence := nm_nSequence s + 1\<rparr>) v"
    using modifyEntry_routes m by (metis snd_conv)
  then show ?thesis
    using m by (cases "v = u") (simp_all add: RemoveEntry_def Let_def set_route_def, simp_all add: routes_def)
qed

text \<open>
  \<^verbatim>\<open>RemoveEntry\<close> never unroutes the entry it removes: it filters the routes stored
  under the bare URI, while routes are stored under URI and type.  After an entry of the
  own agent is added and removed, \<^verbatim>\<open>EntryCheck\<close> still finds it, and so does dispatch.
\<close>

lemma RemoveEntry_keeps_route:
  "routes (RemoveEntry E u ty s) (getUri2 E u ty) = routes s (getUri2 E u ty)
   \<and> EntryCheck E u ty (RemoveEntry E u ty s)
       = (if routes s (getUri2 E u ty) = [] then ResultCode_ENTRY_NOT_FOUND else ResultCode_SUCCESS)
   \<and> routes (RemoveEntry example_env ''u'' 2 node_a1) ''u_RPC'' = [0]"
proof -
  have r: "routes (RemoveEntry E u ty s) (getUri2 E u ty) = routes s (getUri2 E u ty)"
    by (simp add: RemoveEntry_routes getUri2_neq)
  moreover have "EntryCheck E u ty t = (if routes t (getUri2 E u ty) = [] then ResultCode_ENTRY_NOT_FOUND
      else ResultCode_SUCCESS)" for t :: "'a NodeManager_scheme"
    by (simp add: EntryCheck_def routes_def mgets_def split: option.split)
  ultimately show ?thesis by (simp add: RemoveEntry_routes node_a1_facts)
qed

end
