(* ===== verification/Replication.thy ===== *)
theory Replication
  imports NodeProps
begin

text \<open>
  How the entries of a node reach its peers.

  Abstractly a node's offer is a version and a map from keys to entries.  The owner moves
  it with \<^verbatim>\<open>AddEntry\<close> and \<^verbatim>\<open>RemoveEntry\<close>; a peer moves its copy with each notification, or
  replaces it by the owner's answer to \<^verbatim>\<open>node.getEntry\<close> when a version is missing.  The
  lemmas show that each operation refines the abstract one, and the theorems that the
  copy follows the original.
\<close>

section \<open>The abstract offer\<close>

type_synonym replica = "uint64 \<times> (string \<rightharpoonup> EntryInfo)"

definition replica :: "'a nodes_scheme \<Rightarrow> noderef \<Rightarrow> replica" where
  "replica s n = (info_nDataVersion (nm_info s n), map_of (entries s n))"

definition spec_entry :: "node_env \<Rightarrow> EntryInfo \<Rightarrow> (string \<rightharpoonup> EntryInfo) \<Rightarrow> (string \<rightharpoonup> EntryInfo)" where
  "spec_entry E e m = (if EntryInfo_IsNew e then m(getUri E e \<mapsto> e) else m(getUri E e := None))"

definition spec_update :: "node_env \<Rightarrow> EntryInfo list \<Rightarrow> replica \<Rightarrow> replica" where
  "spec_update E es r = (fst r + 1, forEach (spec_entry E) es (snd r))"

lemma map_of_apply_entry: "map_of (apply_entry E e m) = spec_entry E e (map_of m)"
  by (rule ext) (simp add: apply_entry_def spec_entry_def)

lemma map_of_apply_entries:
  "map_of (forEach (apply_entry E) es m) = forEach (spec_entry E) es (map_of m)"
  by (induction es arbitrary: m) (simp_all add: map_of_apply_entry)

lemma replica_set_info:
  "replica (set_info n v s) n' =
     (if n' = n then (info_nDataVersion v, map_of (info_mEntryInfo v)) else replica s n')"
  by (simp add: replica_def)

lemma replica_frame [simp]:
  "replica (GoTask k s) n = replica s n" "replica (with_routes m s) n = replica s n"
  "replica (s\<lparr>nm_nSequence := q\<rparr>) n = replica s n"
  by (simp_all add: replica_def entries_def GoTask_def)

lemma replica_routes: "replica (forEach (route_change E n) es s) n' = replica s n'"
  by (simp add: route_change_eq)

section \<open>The owner\<close>

text \<open>The owner is in step when its sequence number is the version of its record.\<close>

definition in_step :: "'a NodeManager_scheme \<Rightarrow> bool" where
  "in_step s \<longleftrightarrow> nm_nSequence s = info_nDataVersion (nm_info s (nm_ptrSelf s)) \<and> alive (nm_ptrSelf s) s"

lemma modify_single:
  assumes "ver = info_nDataVersion (nm_info s n) + 1" "alive n s"
  shows "modifyEntry E n [e] ver s = ((False, [e]),
    set_info n ((nm_info s n)\<lparr>info_nDataVersion := ver, info_mEntryInfo := apply_entry E e (entries s n)\<rparr>) s)"
  using modifyEntry_next [OF assms, of E "[e]"] by simp

text \<open>The entry of the own agent as the operations build it.\<close>

definition own_entry :: "string \<Rightarrow> EntryType \<Rightarrow> bool \<Rightarrow> EntryInfo" where
  "own_entry u ty b = \<lparr>EntryInfo_URI = u, EntryInfo_EntryType = ty, EntryInfo_IsNew = b\<rparr>"

definition own_update :: "node_env \<Rightarrow> string \<Rightarrow> EntryType \<Rightarrow> bool \<Rightarrow> 'a NodeManager_scheme \<Rightarrow> 'a NodeManager_scheme" where
  "own_update E u ty b s = (if b then AddEntry E u ty s else RemoveEntry E u ty s)"

lemma own_update_eq:
  assumes "in_step s" "b \<Longrightarrow> \<not> entryExist E (nm_ptrSelf s) (own_entry u ty b) s"
  shows "\<exists>m. own_update E u ty b s = GoTask (TNotifyEntry (own_entry u ty b))
    (set_info (nm_ptrSelf s) ((nm_info s (nm_ptrSelf s))\<lparr>info_nDataVersion := nm_nSequence s + 1,
       info_mEntryInfo := apply_entry E (own_entry u ty b) (entries s (nm_ptrSelf s))\<rparr>)
     ((with_routes m s)\<lparr>nm_nSequence := nm_nSequence s + 1\<rparr>))"
proof -
  have step: "modifyEntry E (nm_ptrSelf s) [e] (nm_nSequence s + 1)
      ((with_routes m s)\<lparr>nm_nSequence := nm_nSequence s + 1\<rparr>)
    = ((False, [e]), set_info (nm_ptrSelf s) ((nm_info s (nm_ptrSelf s))
        \<lparr>info_nDataVersion := nm_nSequence s + 1, info_mEntryInfo := apply_entry E e (entries s (nm_ptrSelf s))\<rparr>)
        ((with_routes m s)\<lparr>nm_nSequence := nm_nSequence s + 1\<rparr>))" for m e
    using modify_single [of "nm_nSequence s + 1" "(with_routes m s)\<lparr>nm_nSequence := nm_nSequence s + 1\<rparr>"
        "nm_ptrSelf s" E e] assms(1)
    by (simp add: in_step_def alive_def entries_def)
  show ?thesis
  proof (cases b)
    case True
    then show ?thesis
      using assms step [of "own_entry u ty True"]
      by (auto simp: own_update_def AddEntry_def Let_def own_entry_def set_route_with in_step_def)
  next
    case False
    then show ?thesis
      using step [of "own_entry u ty False"]
      by (auto simp: own_update_def RemoveEntry_def Let_def own_entry_def set_route_with)
  qed
qed

lemma own_update_refines:
  assumes "in_step s" "b \<Longrightarrow> \<not> entryExist E (nm_ptrSelf s) (own_entry u ty b) s"
  shows "replica (own_update E u ty b s) (nm_ptrSelf s)
           = spec_update E [own_entry u ty b] (replica s (nm_ptrSelf s))"
    and "in_step (own_update E u ty b s)"
    and "nm_ptrSelf (own_update E u ty b s) = nm_ptrSelf s"
    and "nm_task (own_update E u ty b s) = nm_task s @ [TNotifyEntry (own_entry u ty b)]"
proof -
  obtain m where eq: "own_update E u ty b s = GoTask (TNotifyEntry (own_entry u ty b))
    (set_info (nm_ptrSelf s) ((nm_info s (nm_ptrSelf s))\<lparr>info_nDataVersion := nm_nSequence s + 1,
       info_mEntryInfo := apply_entry E (own_entry u ty b) (entries s (nm_ptrSelf s))\<rparr>)
     ((with_routes m s)\<lparr>nm_nSequence := nm_nSequence s + 1\<rparr>))"
    using own_update_eq [OF assms] by blast
  show "replica (own_update E u ty b s) (nm_ptrSelf s)
      = spec_update E [own_entry u ty b] (replica s (nm_ptrSelf s))"
    unfolding eq replica_frame(1) replica_set_info
    using assms(1) by (simp add: map_of_apply_entry spec_update_def replica_def in_step_def)
  show "in_step (own_update E u ty b s)"
    using assms(1) by (simp add: eq in_step_def GoTask_def set_info_def alive_def)
  show "nm_ptrSelf (own_update E u ty b s) = nm_ptrSelf s"
    by (simp add: eq GoTask_def set_info_def)
  show "nm_task (own_update E u ty b s) = nm_task s @ [TNotifyEntry (own_entry u ty b)]"
    by (simp add: eq GoTask_def set_info_def)
qed

section \<open>The peer\<close>

lemma handleNodeEntryNotify_next:
  assumes "Unmarshal_NewEntryNotify (ne_pb E) bs = Some m" "getNode ctx s = Some n"
    and "getState n s = NODE_STATUS_ALIVE"
    and "NewEntryNotify_DataVersion m = info_nDataVersion (nm_info s n) + 1"
    and "handleNodeEntryNotify E bs ctx s = (z, t)"
  shows "z = Ret ''SUCCESS'' \<and> replica t n = spec_update E (NewEntryNotify_EntryInfo m) (replica s n)
    \<and> getState n t = NODE_STATUS_ALIVE"
proof -
  let ?es = "NewEntryNotify_EntryInfo m"
  let ?v = "(nm_info s n)\<lparr>info_nDataVersion := info_nDataVersion (nm_info s n) + 1,
      info_mEntryInfo := forEach (apply_entry E) ?es (entries s n)\<rparr>"
  have "alive n s" using assms(3) by (simp add: alive_def getState_def)
  then have mod: "modifyEntry E n ?es (info_nDataVersion (nm_info s n) + 1) s = ((False, ?es), set_info n ?v s)"
    using modifyEntry_next [OF refl] by blast
  have zt: "z = Ret ''SUCCESS''"
    "t = (if ?es \<noteq> [] then forEach (route_change E n) ?es (set_info n ?v s) else set_info n ?v s)"
    using assms mod by (auto simp: handleNodeEntryNotify_def)
  have "replica t n = (info_nDataVersion ?v, map_of (info_mEntryInfo ?v))"
    unfolding zt(2) by (simp add: replica_routes replica_set_info)
  moreover have "getState n t = NODE_STATUS_ALIVE"
    unfolding zt(2) using assms(3) by (simp add: getState_def route_change_eq)
  ultimately show ?thesis
    using zt(1) by (simp add: map_of_apply_entries spec_update_def replica_def)
qed

text \<open>
  C8. The copy follows the original: when a peer's record of the owner holds what the
  owner holds, the owner adds or removes an entry of its agent, and the notification with
  the owner's version arrives, the peer's record again holds exactly what the owner
  holds, and both move as the abstract offer does.
\<close>

theorem peer_follows_owner:
  assumes "in_step a" "b \<Longrightarrow> \<not> entryExist E (nm_ptrSelf a) (own_entry u ty b) a"
    and "a' = own_update E u ty b a"
    and "getNode ctx p = Some n" "getState n p = NODE_STATUS_ALIVE"
    and "replica p n = replica a (nm_ptrSelf a)"
    and "Unmarshal_NewEntryNotify (ne_pb E) bs = Some \<lparr>NewEntryNotify_EntryInfo = [own_entry u ty b],
           NewEntryNotify_DataVersion = info_nDataVersion (nm_info a' (nm_ptrSelf a'))\<rparr>"
    and "handleNodeEntryNotify E bs ctx p = (z, p')"
  shows "z = Ret ''SUCCESS'' \<and> replica p' n = replica a' (nm_ptrSelf a')
    \<and> replica p' n = spec_update E [own_entry u ty b] (replica p n)
    \<and> getState n p' = NODE_STATUS_ALIVE \<and> in_step a'"
proof -
  note own = own_update_refines [OF assms(1,2), folded assms(3)]
  have ver: "info_nDataVersion (nm_info a' (nm_ptrSelf a')) = info_nDataVersion (nm_info p n) + 1"
    using own(1,3) assms(6) by (simp add: replica_def spec_update_def)
  have "z = Ret ''SUCCESS'' \<and> replica p' n = spec_update E [own_entry u ty b] (replica p n)
      \<and> getState n p' = NODE_STATUS_ALIVE"
    using handleNodeEntryNotify_next [OF assms(7,4,5) _ assms(8)] ver by simp
  then show ?thesis using own(1,2,3) assms(6) by simp
qed

definition node_b :: NodeManager where
  "node_b = (let s = NewManager ''uuid2'' 9 100 ''b'' ''10.0.0.2'' 8800 8900 [];
                 (n, s1) = newNode ''a'' ''10.0.0.1'' 7 8800 8900 100 s
             in bind_ctx 0 (CtxNode n) (s1\<lparr>nm_mNodeInfo := mput ''a'' n (nm_mNodeInfo s1)\<rparr>))"

definition notify_env :: "EntryInfo \<Rightarrow> node_env" where
  "notify_env e = example_env\<lparr>ne_pb := lib_stub\<lparr>Unmarshal_NewEntryNotify := \<lambda>_.
     Some \<lparr>NewEntryNotify_EntryInfo = [e], NewEntryNotify_DataVersion = 1\<rparr>\<rparr>\<rparr>"

lemma node_ab_facts:
  "in_step node_a" "nm_ptrSelf node_a = 0" "\<not> entryExist E 0 e node_a"
  "getNode example_ctx node_b = Some 1" "getState 1 node_b = NODE_STATUS_ALIVE"
  "replica node_b 1 = (0, Map.empty)" "replica node_a 0 = (0, Map.empty)"
  by (simp_all add: node_a_def node_b_def in_step_def alive_def entryExist_def getNode_def
      getNodeByConnection_def bind_ctx_def set_conn_def GetServerConnection_def GetRequestContext_def
      example_ctx_def getState_def replica_def entries_def NewManager_def newNode_def Let_def set_info_def)

theorem peer_follows_owner_witness:
  "replica (snd (handleNodeEntryNotify (notify_env (own_entry ''u'' 2 True)) [] example_ctx node_b)) 1
     = replica (own_update (notify_env (own_entry ''u'' 2 True)) ''u'' 2 True node_a) 0
   \<and> snd (replica (own_update (notify_env (own_entry ''u'' 2 True)) ''u'' 2 True node_a) 0)
       (getUri (notify_env (own_entry ''u'' 2 True)) (own_entry ''u'' 2 True)) = Some (own_entry ''u'' 2 True)"
proof -
  let ?E = "notify_env (own_entry ''u'' 2 True)"
  let ?a' = "own_update ?E ''u'' 2 True node_a"
  have none: "True \<Longrightarrow> \<not> entryExist ?E (nm_ptrSelf node_a) (own_entry ''u'' 2 True) node_a"
    by (simp add: node_ab_facts)
  note own = own_update_refines [OF node_ab_facts(1) none]
  have ver: "info_nDataVersion (nm_info ?a' (nm_ptrSelf ?a')) = 1"
    using own(1,3) node_ab_facts(7) by (simp add: node_ab_facts(2) replica_def spec_update_def)
  have same: "replica node_b 1 = replica node_a (nm_ptrSelf node_a)"
    by (simp add: node_ab_facts del: One_nat_def)
  have msg: "Unmarshal_NewEntryNotify (ne_pb ?E) [] = Some \<lparr>NewEntryNotify_EntryInfo = [own_entry ''u'' 2 True],
      NewEntryNotify_DataVersion = info_nDataVersion (nm_info ?a' (nm_ptrSelf ?a'))\<rparr>"
    unfolding ver by (simp add: notify_env_def)
  have "replica (snd (handleNodeEntryNotify ?E [] example_ctx node_b)) 1 = replica ?a' (nm_ptrSelf ?a')"
    using peer_follows_owner [OF node_ab_facts(1) none refl node_ab_facts(4,5) same msg surjective_pairing]
    by blast
  moreover have "snd (replica ?a' 0) (getUri ?E (own_entry ''u'' 2 True)) = Some (own_entry ''u'' 2 True)"
    using own(1) by (simp add: node_ab_facts(2) spec_update_def spec_entry_def own_entry_def)
  ultimately show ?thesis using own(3) by (simp add: node_ab_facts(2))
qed

section \<open>Missing versions\<close>



section \<open>Synchronising everything\<close>

text \<open>What a node answers to \<^verbatim>\<open>node.getEntry\<close>.\<close>

definition getEntry_answer :: "'a NodeManager_scheme \<Rightarrow> GetEntryResp" where
  "getEntry_answer s = \<lparr>GetEntryResp_EntryInfo = getAllEntry (nm_ptrSelf s) s,
     GetEntryResp_DataVersion = info_nDataVersion (nm_info s (nm_ptrSelf s))\<rparr>"

lemma handleGetEntryReq_answers:
  "Unmarshal_GetEntryReq (ne_pb E) bs = Some q \<Longrightarrow> getNode ctx s = Some n \<Longrightarrow>
     nm_nStatus s = MANAGER_STATUS_STARTED \<Longrightarrow>
     handleGetEntryReq E bs ctx s =
       (case Reply (ne_pb E) (MGetEntryResp (getEntry_answer s)) ctx s of
          (Panics, t) \<Rightarrow> (Panics, t) | (Ret _, t) \<Rightarrow> (Ret ''SUCCESS'', t))"
  by (simp add: handleGetEntryReq_def Let_def getEntry_answer_def)

lemma rebuild_entries:
  "gomap_ok es \<Longrightarrow> (\<forall>k e. (k, e) \<in> set es \<longrightarrow> getUri E e = k \<and> EntryInfo_IsNew e) \<Longrightarrow>
     map_of (forEach (apply_entry E) (map snd es) m) = map_of m ++ map_of es"
proof (induction es arbitrary: m)
  case Nil
  then show ?case by simp
next
  case (Cons p es)
  obtain k e where p: "p = (k, e)" by (cases p)
  have fresh: "map_of es k = None" using Cons.prems(1) p by (simp add: gomap_ok_def map_of_eq_None_iff)
  have "(k, e) \<in> set (p # es)" using p by simp
  then have ke: "getUri E e = k" "EntryInfo_IsNew e" using Cons.prems(2) by blast+
  have "map_of (forEach (apply_entry E) (map snd es) (apply_entry E e m))
      = map_of (apply_entry E e m) ++ map_of es"
  proof (rule Cons.IH)
    show "gomap_ok es" using Cons.prems(1) by (simp add: gomap_ok_def)
    show "\<forall>k e. (k, e) \<in> set es \<longrightarrow> getUri E e = k \<and> EntryInfo_IsNew e"
      using Cons.prems(2) by (metis list.set_intros(2))
  qed
  also have "map_of (apply_entry E e m) = (map_of m)(k \<mapsto> e)"
    using ke by (simp add: map_of_apply_entry spec_entry_def)
  also have "(map_of m)(k \<mapsto> e) ++ map_of es = map_of m ++ map_of (p # es)"
  proof -
    have "map_of (p # es) = (map_of es)(k \<mapsto> e)" by (simp add: p)
    then show ?thesis using fresh map_add_upd_left [of k "map_of es" "map_of m" e]
      by (simp only: domIff map_add_upd) simp
  qed
  finally show ?case by (simp only: list.map forEach.simps p snd_conv)
qed

lemma getEntry_answers_new:
  assumes "entries_ok E s"
  shows "list_all EntryInfo_IsNew (GetEntryResp_EntryInfo (getEntry_answer s))"
proof -
  have k: "keyed E (entries s (nm_ptrSelf s))" using assms by (simp add: entries_ok_def)
  then have "\<forall>(a, e) \<in> set (entries s (nm_ptrSelf s)). EntryInfo_IsNew e"
    by (auto simp: keyed_def gomap_ok_in)
  then show ?thesis by (auto simp: getEntry_answer_def getAllEntry_def list_all_iff entries_def)
qed

text \<open>
  A full synchronisation restores the copy: the answer of an owner lists no
  removals, and when a peer finishes \<^verbatim>\<open>trySyncAll\<close> with it, whatever its record held before,
  the record holds exactly what the owner holds, is alive, and is routed for exactly the
  owner's entries.
\<close>

lemma sync_restores:
  assumes "node_inv E a" "node_inv E p" "n < nm_nNextInfo p" "n \<noteq> nm_ptrSelf p"
  defines "p' \<equiv> trySyncAll_finish E n (Some (getEntry_answer a)) p"
  shows "replica p' n = replica a (nm_ptrSelf a) \<and> getState n p' = NODE_STATUS_ALIVE
    \<and> (n \<in> set (routes p' u) \<longleftrightarrow> mget (entries a (nm_ptrSelf a)) u \<noteq> None)
    \<and> list_all EntryInfo_IsNew (GetEntryResp_EntryInfo (getEntry_answer a))
    \<and> node_inv E p'"
proof -
  let ?r = "getEntry_answer a" and ?self = "nm_ptrSelf a"
  have ok: "entries_ok E a" using assms(1) by (simp add: node_inv_def)
  have k: "keyed E (entries a ?self)" using ok by (simp add: entries_ok_def)
  have new: "list_all EntryInfo_IsNew (GetEntryResp_EntryInfo ?r)" by (rule getEntry_answers_new [OF ok])
  have inv: "node_inv E p'" unfolding p'_def by (rule node_inv_sync [OF assms(2,3) new])
  have ents: "map_of (forEach (apply_entry E) (getAllEntry ?self a) []) = map_of (entries a ?self)"
    using rebuild_entries [of "entries a ?self" E "[]"] k
    by (simp add: getAllEntry_def entries_def keyed_def gomap_ok_in)
  have rep: "replica p' n = replica a ?self"
    using ents by (simp add: p'_def trySyncAll_finish_eq Let_def syncEntry_def replica_def getEntry_answer_def)
      (simp add: entries_def)
  have st: "getState n p' = NODE_STATUS_ALIVE"
    by (simp add: p'_def trySyncAll_finish_eq Let_def syncEntry_def getState_def)
  have self: "nm_ptrSelf p' = nm_ptrSelf p" by (simp add: p'_def trySyncAll_finish_eq Let_def syncEntry_def)
  have "n \<in> set (routes p' u) \<longleftrightarrow> mget (entries a ?self) u \<noteq> None"
  proof
    assume "n \<in> set (routes p' u)"
    then have "mget (entries p' n) u \<noteq> None"
      using inv assms(4) self by (auto simp: node_inv_def routes_ok_def)
    then show "mget (entries a ?self) u \<noteq> None" using rep by (simp add: replica_def)
  next
    assume "mget (entries a ?self) u \<noteq> None"
    then obtain e where "e \<in> set (getAllEntry ?self a)" "getUri E e = u"
      using entry_in_getAllEntry [OF ok] by blast
    then show "n \<in> set (routes p' u)"
      using new unfolding p'_def trySyncAll_finish_eq Let_def
      by (auto simp: set_add_routes getEntry_answer_def list_all_iff)
  qed
  then show ?thesis using rep st new inv by blast
qed

lemma node_b_inv: "node_inv example_env node_b"
proof -
  let ?s = "NewManager ''uuid2'' 9 100 ''b'' ''10.0.0.2'' 8800 8900 []"
  obtain t where t: "newNode ''a'' ''10.0.0.1'' 7 8800 8900 100 ?s = (1, t)"
    by (simp add: NewManager_def newNode_def Let_def)
  then have new: "node_b = bind_ctx 0 (CtxNode 1) (t\<lparr>nm_mNodeInfo := mput ''a'' 1 (nm_mNodeInfo t)\<rparr>)"
    by (simp add: node_b_def)
  have free: "mget (nm_mNodeInfo ?s) ''a'' = None" by (simp add: NewManager_def newNode_def Let_def)
  note found = node_inv_newNode [OF node_inv_NewManager [of example_env] t free]
  show ?thesis unfolding new using found by (auto intro!: node_inv_keeps [OF _ keeps_bind_ctx])
qed

lemma sync_restores_example:
  "1 \<in> set (routes (trySyncAll_finish example_env 1 (Some (getEntry_answer node_a1)) node_b) ''u_RPC'')"
proof -
  have inv: "node_inv example_env node_a1" using node_system.reachable_inv [OF node_a1_reached] .
  have facts: "1 < nm_nNextInfo node_b" "1 \<noteq> nm_ptrSelf node_b"
    by (simp_all add: node_b_def NewManager_def newNode_def Let_def bind_ctx_def set_conn_def set_info_def)
  have "mget (entries node_a1 (nm_ptrSelf node_a1)) ''u_RPC'' \<noteq> None"
    by (simp add: node_a1_def AddEntry_def example_defs entryExist_def alive_def getUri_def
      EntryType_String_def lib_stub_def EntryType_name_def modifyEntry_def modify_one_def set_route_def
      GoTask_def entries_def)
  then show ?thesis using sync_restores [OF inv node_b_inv facts, of "''u_RPC''"] by blast
qed

end
