(* ===== verification/AgentFacts.thy ===== *)
theory AgentFacts
  imports AgentManager Replication
begin

text \<open>
  The contract between the agent and its node, and the invariant of the client manager.

  \<open>outside s t\<close>: t differs from s outside the client manager only, and no connection was
  given to a client.  \<open>ckeeps s t\<close>: the tables of the client manager are the same and
  every record keeps its id, its entries and its life.  The locale \<open>node_handler\<close> is the
  interface \<^verbatim>\<open>NodeHandler\<close> as the agent relies on it, \<open>node_registry\<close> adds what the node
  offers to others.  Both are interpreted on the node manager.
\<close>

section \<open>What operations leave alone\<close>

definition outside :: "'a ClientManager_scheme \<Rightarrow> 'a ClientManager_scheme \<Rightarrow> bool" where
  "outside s t \<longleftrightarrow> NodeManager.more t = NodeManager.more s
     \<and> (\<forall>c n. sc_Ctx (n_conn t c) = Some (CtxClient n) \<longrightarrow> sc_Ctx (n_conn s c) = Some (CtxClient n))"

lemma outside_refl [simp, intro]: "outside s s"
  by (simp add: outside_def)

lemma outside_trans: "outside s t \<Longrightarrow> outside t u \<Longrightarrow> outside s u"
  by (simp add: outside_def)

lemma more_client:
  fixes s t :: "'a ClientManager_scheme"
  assumes "NodeManager.more t = NodeManager.more s"
  shows "cm_info t = cm_info s" "cm_nNextClient t = cm_nNextClient s" "cm_szName t = cm_szName s"
    "cm_mTempConnection t = cm_mTempConnection s" "cm_mClientInfo t = cm_mClientInfo s"
    "cm_mUri2Client t = cm_mUri2Client s" "cm_nStatus t = cm_nStatus s"
    "cm_objNodeHandler t = cm_objNodeHandler s" "cm_task t = cm_task s"
  using assms by (cases s; cases t; simp)+

lemma more_manager_more:
  fixes s t :: "'a NodeManager_scheme"
  assumes "nodes.more t = nodes.more s"
  shows "NodeManager.more t = NodeManager.more s"
  using assms by (cases s; cases t; simp)

lemma outside_quiet:
  fixes s :: "'a ClientManager_scheme"
  assumes "quiet s t"
  shows "outside s t"
proof -
  have "NodeManager.more t = NodeManager.more s"
    using assms more_manager_more [OF more_nodes(6)] unfolding quiet_def by blast
  then show ?thesis using assms unfolding quiet_def outside_def by (metis option.distinct(1))
qed

definition ckeeps :: "'a ClientManager_scheme \<Rightarrow> 'a ClientManager_scheme \<Rightarrow> bool" where
  "ckeeps s t \<longleftrightarrow>
     cm_mClientInfo t = cm_mClientInfo s \<and> cm_mUri2Client t = cm_mUri2Client s
   \<and> cm_nNextClient t = cm_nNextClient s \<and> cm_objNodeHandler t = cm_objNodeHandler s
   \<and> (\<forall>n. getClientInfo n t = getClientInfo n s \<and> ci_mEntryInfo (cm_info t n) = ci_mEntryInfo (cm_info s n)
        \<and> (alive_ci n s \<longrightarrow> alive_ci n t))
   \<and> (\<forall>c n. sc_Ctx (n_conn t c) = Some (CtxClient n) \<longrightarrow>
        sc_Ctx (n_conn s c) = Some (CtxClient n) \<or> 0 < n \<and> n < cm_nNextClient s)"

lemma ckeeps_refl [simp, intro]: "ckeeps s s"
  by (simp add: ckeeps_def)

lemma ckeepsD:
  assumes "ckeeps s t"
  shows "cm_mClientInfo t = cm_mClientInfo s" "cm_mUri2Client t = cm_mUri2Client s"
    "cm_nNextClient t = cm_nNextClient s" "cm_objNodeHandler t = cm_objNodeHandler s"
    "getClientInfo n t = getClientInfo n s" "ci_mEntryInfo (cm_info t n) = ci_mEntryInfo (cm_info s n)"
    "alive_ci n s \<Longrightarrow> alive_ci n t"
    "sc_Ctx (n_conn t c) = Some (CtxClient n) \<Longrightarrow>
       sc_Ctx (n_conn s c) = Some (CtxClient n) \<or> 0 < n \<and> n < cm_nNextClient s"
  using assms by (simp_all add: ckeeps_def)

lemma ckeeps_trans [trans]:
  assumes "ckeeps s t" "ckeeps t u"
  shows "ckeeps s u"
  unfolding ckeeps_def
proof (intro conjI allI impI)
  fix c n
  assume "sc_Ctx (n_conn u c) = Some (CtxClient n)"
  from ckeepsD(8) [OF assms(2) this]
  show "sc_Ctx (n_conn s c) = Some (CtxClient n) \<or> 0 < n \<and> n < cm_nNextClient s"
    by (elim disjE) (drule ckeepsD(8) [OF assms(1)], assumption, simp only: ckeepsD(3) [OF assms(1)] simp_thms)
qed (simp_all add: ckeepsD(1-6) [OF assms(1)] ckeepsD(1-6) [OF assms(2)]
      ckeepsD(7) [OF assms(1)] ckeepsD(7) [OF assms(2)])

lemma ckeeps_outside: "outside s t \<Longrightarrow> ckeeps s t"
  using more_client [of t s] by (simp add: outside_def ckeeps_def getClientInfo_def alive_ci_def)

lemma ckeeps_quiet: "quiet s t \<Longrightarrow> ckeeps s t"
  by (rule ckeeps_outside, rule outside_quiet)

lemma ckeeps_set_client:
  assumes "ci_szInstanceID v = getClientInfo n s" "ci_mEntryInfo v = ci_mEntryInfo (cm_info s n)"
    "alive_ci n s \<Longrightarrow> ci_nStatus v \<noteq> 1"
  shows "ckeeps s (set_client n v s)"
  using assms by (simp add: ckeeps_def set_client_def getClientInfo_def alive_ci_def)

lemma ckeeps_bind: "0 < n \<Longrightarrow> n < cm_nNextClient s \<Longrightarrow> ckeeps s (bind_ctx c (CtxClient n) s)"
  by (simp add: ckeeps_def bind_ctx_def set_conn_def getClientInfo_def alive_ci_def)

lemma ckeeps_misc [simp]:
  "ckeeps s (s\<lparr>cm_mTempConnection := m\<rparr>)" "ckeeps s (s\<lparr>cm_nStatus := z\<rparr>)"
  "ckeeps s (s\<lparr>cm_task := ks\<rparr>)" "ckeeps s (GoTask_cm k s)"
  by (simp_all add: ckeeps_def getClientInfo_def alive_ci_def GoTask_cm_def)

lemma ckeeps_Close: "ckeeps s (Close c s)"
  by (rule ckeeps_quiet, rule quiet_Close)

lemma ckeeps_forEach:
  assumes "\<And>x t. x \<in> set xs \<Longrightarrow> ckeeps s t \<Longrightarrow> ckeeps t (f x t)"
  shows "ckeeps s (forEach f xs s)"
proof -
  have "ckeeps s u \<Longrightarrow> set ys \<subseteq> set xs \<Longrightarrow> ckeeps s (forEach f ys u)" for ys u
  proof (induction ys arbitrary: u)
    case (Cons y ys)
    have "ckeeps s (f y u)" using ckeeps_trans [OF Cons(2) assms] Cons(2,3) by auto
    then show ?case using Cons by simp
  qed simp
  then show ?thesis by blast
qed

lemma ckeeps_Closes: "ckeeps s (forEach Close cs s)"
  by (rule ckeeps_forEach) (rule ckeeps_Close)

lemma ckeeps_onCloseConnection: "ckeeps s (snd (onCloseConnection_ci n c s))"
  by (simp add: onCloseConnection_ci_def Let_def, rule ckeeps_set_client)
    (simp_all add: getClientInfo_def alive_ci_def)

lemma ckeeps_addConnection: "ckeeps s (addConnection_ci A n c s)"
proof -
  have "ckeeps s (set_client n ((cm_info s n)\<lparr>ci_aryConnectionList := cs\<rparr>) s)" for cs
    by (rule ckeeps_set_client) (simp_all add: getClientInfo_def alive_ci_def)
  then show ?thesis by (simp add: addConnection_ci_def Let_def ckeeps_Close)
qed

lemma ckeeps_refresh: "ckeeps s (refreshKeepLiveTime_ci nNow n s)"
  unfolding refreshKeepLiveTime_ci_def
  by (rule ckeeps_set_client) (simp_all add: getClientInfo_def alive_ci_def)

lemma quiet_sendMessage [quiet_intros]: "quiet s (snd (sendMessage A u t q m c s))"
  by (auto simp: sendMessage_def intro: quiet_Write split: prod.splits)

lemma quiet_rpcCall [quiet_intros]: "quiet s (snd (rpcCall A ch n m s))"
  by (auto simp: rpcCall_def intro: quiet_sendMessage split: option.splits)

lemma quiet_rpcResp [quiet_intros]: "quiet s (snd (rpcResp A ch n m cl s))"
  by (auto simp: rpcResp_def intro: quiet_sendMessage split: option.splits)

lemma quiet_cast_ci [quiet_intros]: "quiet s (snd (cast_ci A ch n u m s))"
  by (auto simp: cast_ci_def intro: quiet_Cast_Start split: option.splits)

lemma quiet_reply_cm [quiet_intros]: "quiet s (snd (reply_cm A r m ctx s))"
  using quiet_Reply [of s "ae_pb A" m ctx] by (auto simp: reply_cm_def split: prod.splits outcome.splits)

lemma quiet_call_local [quiet_intros]: "quiet s (snd (call_local A ch m ctx s))"
  using quiet_rpcCall [of s A ch _ m]
  by (auto simp: call_local_def intro: quiet_reply_cm split: option.splits prod.splits) (metis snd_conv)

lemma quiet_respond_local [quiet_intros]: "quiet s (snd (respond_local A ch m s))"
  by (auto simp: respond_local_def intro: quiet_rpcResp split: option.splits prod.splits)

section \<open>The node stays outside\<close>

lemma outside_set_info [simp]: "outside s (set_info n v s)"
  by (simp add: outside_def set_info_def)

lemma outside_GoTask [simp]: "outside s (GoTask k s)"
  by (simp add: outside_def GoTask_def)

lemma outside_set_route [simp]: "outside s (set_route u ns s)"
  by (simp add: outside_def set_route_def)

lemma outside_sequence [simp]: "outside s (s\<lparr>nm_nSequence := q\<rparr>)"
  by (simp add: outside_def)

lemma outside_modifyEntry: "outside s (snd (modifyEntry E n es v s))"
  by (auto simp: modifyEntry_def Let_def split: prod.splits)

lemma outside_AddEntry: "outside s (AddEntry E u ty s)"
proof (cases "entryExist E (nm_ptrSelf s) (own_entry u ty True) s \<or> \<not> alive (nm_ptrSelf s) s")
  case True
  then show ?thesis by (auto simp: AddEntry_def own_entry_def Let_def)
next
  case False
  let ?s1 = "set_route (getUri E (own_entry u ty True))
     (mgets (nm_mRpcFunc2Node s) (getUri E (own_entry u ty True)) @ [nm_ptrSelf s]) s"
  let ?s2 = "?s1\<lparr>nm_nSequence := nm_nSequence ?s1 + 1\<rparr>"
  obtain b ch t where m: "modifyEntry E (nm_ptrSelf ?s2) [own_entry u ty True] (nm_nSequence ?s2) ?s2 = ((b, ch), t)"
    by (metis prod.exhaust)
  have "outside s ?s2" using outside_trans [OF outside_set_route outside_sequence] by blast
  moreover have "outside ?s2 t"
    using outside_modifyEntry [of ?s2 E "nm_ptrSelf ?s2" "[own_entry u ty True]" "nm_nSequence ?s2"]
    unfolding m by simp
  ultimately have "outside s t" by (rule outside_trans)
  moreover have "AddEntry E u ty s = (if ch \<noteq> [] then GoTask (TNotifyEntry (own_entry u ty True)) t else t)"
    using False m by (simp add: AddEntry_def own_entry_def Let_def)
  ultimately show ?thesis using outside_trans [OF _ outside_GoTask, of s t] by auto
qed

lemma outside_RemoveEntry: "outside s (RemoveEntry E u ty s)"
proof -
  let ?s1 = "set_route u (filter (\<lambda>n. nm_name s n \<noteq> nm_name s (nm_ptrSelf s))
                 (mgets (nm_mRpcFunc2Node s) u)) s"
  let ?s2 = "?s1\<lparr>nm_nSequence := nm_nSequence ?s1 + 1\<rparr>"
  obtain b ch t where m: "modifyEntry E (nm_ptrSelf ?s2) [own_entry u ty False] (nm_nSequence ?s2) ?s2 = ((b, ch), t)"
    by (metis prod.exhaust)
  have "outside s ?s2" using outside_trans [OF outside_set_route outside_sequence] by blast
  moreover have "outside ?s2 t"
    using outside_modifyEntry [of ?s2 E "nm_ptrSelf ?s2" "[own_entry u ty False]" "nm_nSequence ?s2"]
    unfolding m by simp
  ultimately have "outside s t" by (rule outside_trans)
  moreover have "RemoveEntry E u ty s = (if ch \<noteq> [] then GoTask (TNotifyEntry (own_entry u ty False)) t else t)"
    using m by (simp add: RemoveEntry_def own_entry_def Let_def)
  ultimately show ?thesis using outside_trans [OF _ outside_GoTask, of s t] by auto
qed

lemma outside_cast_Start: "outside s (snd (cast_Start E ch n u m ctx s))"
proof -
  obtain cc s2 where c: "cast_node ch n u m ctx s = (cc, s2)" by (cases "cast_node ch n u m ctx s")
  have "s2 = GoTask (TReconnect n) s \<or> s2 = snd (nextRequestID n (GoTask (TReconnect n) s))"
    using c by (auto simp: cast_node_def getConnection_def Let_def split: if_splits prod.splits)
  moreover have "outside s (snd (nextRequestID n (GoTask (TReconnect n) s)))"
    unfolding nextRequestID_def Let_def snd_conv
    by (rule outside_trans [OF outside_GoTask outside_set_info])
  ultimately have "outside s s2" by auto
  moreover have "outside s2 (snd (Cast_Start (ne_pb E) cc s2))" by (rule outside_quiet, rule quiet_Cast_Start)
  ultimately show ?thesis using c outside_trans by (simp add: cast_Start_def) blast
qed

lemma outside_DispatchReq: "outside s (snd (DispatchReq E ch m ctx s))"
  by (auto simp: DispatchReq_def cast_request_def Let_def outside_cast_Start split: option.splits)

lemma outside_DispatchRsp: "outside s (snd (DispatchRsp E ch m ctx s))"
  by (auto simp: DispatchRsp_def Let_def outside_cast_Start split: option.splits prod.splits)

lemma modifyEntry_conn [simp]: "n_conn (snd (modifyEntry E n es v s)) = n_conn s"
  by (simp add: modifyEntry_def Let_def set_info_def split: prod.splits)

lemma AddEntry_conn [simp]: "n_conn (AddEntry E u ty s) = n_conn s"
proof -
  have "n_conn t = n_conn s'" if "modifyEntry E n es v s' = (x, t)" for n es v x t and s' :: "'a NodeManager_scheme"
    using modifyEntry_conn [of E n es v s'] that by simp
  then show ?thesis by (auto simp: AddEntry_def Let_def GoTask_def set_route_def split: prod.splits)
qed

section \<open>The interface of the node\<close>

locale node_handler =
  fixes H :: "('a ClientManager_scheme) NodeHandler"
  assumes nh_req: "outside s (snd (nh_DispatchReq H ch m ctx s))"
    and nh_rsp: "outside s (snd (nh_DispatchRsp H ch r ctx s))"
    and nh_add: "outside s (nh_AddEntry H u ty s)"
    and nh_remove: "outside s (nh_RemoveEntry H u ty s)"
    and nh_add_conn: "n_conn (nh_AddEntry H u ty s) = n_conn s"

interpretation nh: node_handler "objNodeHandler A r" for A r
  by unfold_locales
    (cases r, simp_all add: objNodeHandler_def dummy_node_handler_def node_manager_handler_def
      outside_DispatchReq outside_DispatchRsp outside_AddEntry outside_RemoveEntry)+

end
