(* ===== verification/AgentSystem.thy ===== *)
theory AgentSystem
  imports AgentFacts
begin

text \<open>
  The client manager as a transition system and its invariant.

  A client of the map is alive, stored under its own id, and routed for every entry it
  registered; the lists of the routing table are never empty and hold no client twice.
  The invariant is proved for any node behind the interface, and for the rest of the
  process doing what it likes outside the client manager.
\<close>

section \<open>The invariant\<close>

text \<open>
  Inside an operation some clients D may be dead and some pairs P of a client and a key
  may not be routed yet.
\<close>

definition client_inv_upto ::
  "agent_env \<Rightarrow> clientref set \<Rightarrow> (clientref \<times> string) set \<Rightarrow> 'a ClientManager_scheme \<Rightarrow> bool" where
  "client_inv_upto A D P s \<longleftrightarrow>
     0 < cm_nNextClient s
   \<and> (\<forall>u ns. mget (cm_mUri2Client s) u = Some ns \<longrightarrow>
        ns \<noteq> [] \<and> distinct ns \<and> (\<forall>n \<in> set ns. 0 < n \<and> n < cm_nNextClient s))
   \<and> (\<forall>k n. mget (cm_mClientInfo s) k = Some n \<longrightarrow>
        0 < n \<and> n < cm_nNextClient s \<and> getClientInfo n s = k \<and> (n \<in> D \<or> alive_ci n s))
   \<and> (\<forall>k n u e. mget (cm_mClientInfo s) k = Some n \<longrightarrow> mget (ci_mEntryInfo (cm_info s n)) u = Some e \<longrightarrow>
        getUri_ci A e = u \<and> ((n, u) \<in> P \<or> n \<in> set (mgets (cm_mUri2Client s) u)))
   \<and> (\<forall>c n. sc_Ctx (n_conn s c) = Some (CtxClient n) \<longrightarrow> 0 < n \<and> n < cm_nNextClient s)"

definition client_inv :: "agent_env \<Rightarrow> 'a ClientManager_scheme \<Rightarrow> bool" where
  "client_inv A = client_inv_upto A {} {}"

lemma client_inv_mono:
  "client_inv_upto A D P s \<Longrightarrow> D \<subseteq> D' \<Longrightarrow> P \<subseteq> P' \<Longrightarrow> client_inv_upto A D' P' s"
  unfolding client_inv_upto_def by (elim conjE, intro conjI) (assumption | blast)+

lemma client_invI:
  assumes "0 < cm_nNextClient s"
    "\<And>u ns. mget (cm_mUri2Client s) u = Some ns \<Longrightarrow> ns \<noteq> [] \<and> distinct ns"
    "\<And>u n. n \<in> set (mgets (cm_mUri2Client s) u) \<Longrightarrow> 0 < n \<and> n < cm_nNextClient s"
    "\<And>k n. mget (cm_mClientInfo s) k = Some n \<Longrightarrow>
        0 < n \<and> n < cm_nNextClient s \<and> getClientInfo n s = k \<and> (n \<in> D \<or> alive_ci n s)"
    "\<And>k n u e. mget (cm_mClientInfo s) k = Some n \<Longrightarrow> mget (ci_mEntryInfo (cm_info s n)) u = Some e \<Longrightarrow>
        getUri_ci A e = u \<and> ((n, u) \<in> P \<or> n \<in> set (mgets (cm_mUri2Client s) u))"
    "\<And>c n. sc_Ctx (n_conn s c) = Some (CtxClient n) \<Longrightarrow> 0 < n \<and> n < cm_nNextClient s"
  shows "client_inv_upto A D P s"
proof -
  have "0 < n \<and> n < cm_nNextClient s" if "mget (cm_mUri2Client s) u = Some ns" "n \<in> set ns" for u ns n
    using assms(3) [of n u] that by (simp add: mgets_def)
  then show ?thesis unfolding client_inv_upto_def using assms(1,2,4-6) by blast
qed

lemma client_invD:
  assumes "client_inv_upto A D P s"
  shows client_inv_next: "0 < cm_nNextClient s"
    and client_inv_list: "mget (cm_mUri2Client s) u = Some ns \<Longrightarrow> ns \<noteq> [] \<and> distinct ns"
    and client_inv_known: "mget (cm_mClientInfo s) k = Some n \<Longrightarrow>
        0 < n \<and> n < cm_nNextClient s \<and> getClientInfo n s = k \<and> (n \<in> D \<or> alive_ci n s)"
    and client_inv_routed: "mget (cm_mClientInfo s) k = Some n \<Longrightarrow>
        mget (ci_mEntryInfo (cm_info s n)) u = Some e \<Longrightarrow>
        getUri_ci A e = u \<and> ((n, u) \<in> P \<or> n \<in> set (mgets (cm_mUri2Client s) u))"
    and client_inv_ctx: "sc_Ctx (n_conn s c) = Some (CtxClient n) \<Longrightarrow> 0 < n \<and> n < cm_nNextClient s"
  using assms unfolding client_inv_upto_def by blast+

lemma client_inv_ref:
  assumes "client_inv_upto A D P s" "n \<in> set (mgets (cm_mUri2Client s) u)"
  shows "0 < n \<and> n < cm_nNextClient s"
proof -
  obtain ns where "mget (cm_mUri2Client s) u = Some ns" "n \<in> set ns" using mgets_Some [OF assms(2)] by blast
  then show ?thesis using assms(1) unfolding client_inv_upto_def by blast
qed

lemma client_inv_distinct: "client_inv_upto A D P s \<Longrightarrow> distinct (mgets (cm_mUri2Client s) u)"
  using client_inv_list [of A D P s u] by (cases "mget (cm_mUri2Client s) u") (auto simp: mgets_def)

lemma client_inv_getClient:
  "client_inv_upto A D P s \<Longrightarrow> getClient ctx s = Some n \<Longrightarrow> 0 < n \<and> n < cm_nNextClient s"
  by (auto simp: getClient_def getClientByConnection_def dest: client_inv_ctx
      split: option.splits ctxval.splits)

lemma client_inv_keeps:
  assumes inv: "client_inv_upto A D P s" and k: "ckeeps s t"
  shows "client_inv_upto A D P t"
proof (rule client_invI)
  fix c n
  assume "sc_Ctx (n_conn t c) = Some (CtxClient n)"
  then show "0 < n \<and> n < cm_nNextClient t"
    using ckeepsD(8) [OF k, of c n] client_inv_ctx [OF inv, of c n] by (auto simp: ckeepsD(3) [OF k])
next
  fix k' n
  assume "mget (cm_mClientInfo t) k' = Some n"
  then show "0 < n \<and> n < cm_nNextClient t \<and> getClientInfo n t = k' \<and> (n \<in> D \<or> alive_ci n t)"
    using client_inv_known [OF inv, of k' n] ckeepsD(7) [OF k, of n] by (auto simp: ckeepsD(1-6) [OF k])
qed (use client_inv_next [OF inv] client_inv_list [OF inv] client_inv_ref [OF inv] client_inv_routed [OF inv]
    in \<open>simp_all add: ckeepsD(1-6) [OF k]\<close>)

lemma client_inv_forEach:
  assumes "\<And>x s. x \<in> set xs \<Longrightarrow> client_inv_upto A D P s \<Longrightarrow> client_inv_upto A D P (f x s)"
    and "client_inv_upto A D P s"
  shows "client_inv_upto A D P (forEach f xs s)"
  using assms by (rule forEach_invariant)

lemma set_clients_simps [simp]:
  "cm_mClientInfo (set_clients u ns s) = cm_mClientInfo s"
  "cm_nNextClient (set_clients u ns s) = cm_nNextClient s"
  "getClientInfo n (set_clients u ns s) = getClientInfo n s"
  "cm_info (set_clients u ns s) = cm_info s" "alive_ci n (set_clients u ns s) = alive_ci n s"
  "n_conn (set_clients u ns s) = n_conn s"
  "cm_mUri2Client (set_clients u ns s) = mput u ns (cm_mUri2Client s)"
  by (simp_all add: set_clients_def getClientInfo_def alive_ci_def)

text \<open>Replacing the list of one key.\<close>

lemma client_inv_set_clients:
  assumes inv: "client_inv_upto A D P s"
    and "ns \<noteq> []" "distinct ns" "\<And>n. n \<in> set ns \<Longrightarrow> 0 < n \<and> n < cm_nNextClient s"
    and rest: "\<And>n v. (n, v) \<in> P \<Longrightarrow> (n, v) \<notin> P' \<Longrightarrow> v = u \<and> n \<in> set ns"
    and less: "\<And>n. n \<in> set (mgets (cm_mUri2Client s) u) \<Longrightarrow> n \<notin> set ns \<Longrightarrow> (n, u) \<in> P'"
  shows "client_inv_upto A D P' (set_clients u ns s)"
proof -
  have routed: "getUri_ci A e = v \<and> ((n, v) \<in> P' \<or> n \<in> set (mgets (mput u ns (cm_mUri2Client s)) v))"
    if "mget (cm_mClientInfo s) k = Some n" "mget (ci_mEntryInfo (cm_info s n)) v = Some e" for k n v e
    using client_inv_routed [OF inv that] rest [of n v] less [of n] by (cases "v = u") auto
  show ?thesis
    by (rule client_invI)
      (use client_inv_next [OF inv] client_inv_list [OF inv] client_inv_ref [OF inv]
        client_inv_known [OF inv] client_inv_ctx [OF inv] assms(2-4) routed in \<open>auto split: if_splits\<close>)
qed

section \<open>Operations keep it\<close>

context node_handler
begin

lemma client_inv_add:
  assumes "client_inv_upto A D P s"
  shows "client_inv_upto A D P (nh_AddEntry H u ty s)"
  by (rule client_inv_keeps [OF assms ckeeps_outside [OF nh_add]])

lemma client_inv_remove:
  assumes "client_inv_upto A D P s"
  shows "client_inv_upto A D P (nh_RemoveEntry H u ty s)"
  by (rule client_inv_keeps [OF assms ckeeps_outside [OF nh_remove]])

lemma client_inv_AddEntry_one:
  assumes inv: "client_inv_upto A D P s" and n: "0 < n" "n < cm_nNextClient s"
  shows "client_inv_upto A D (P - {(n, getUri_ci A e)}) (AddEntry_one A H n e s)
    \<and> cm_nNextClient (AddEntry_one A H n e s) = cm_nNextClient s"
proof (cases "mget (cm_mUri2Client s) (getUri_ci A e)")
  case None
  let ?s1 = "nh_AddEntry H (agent_EntryInfo_URI e) (agent_EntryInfo_EntryType e) s"
  note k = ckeepsD [OF ckeeps_outside [OF nh_add]]
  have "client_inv_upto A D (P - {(n, getUri_ci A e)}) (set_clients (getUri_ci A e) [n] ?s1)"
    by (rule client_inv_set_clients [OF client_inv_add [OF inv]])
      (use n None in \<open>auto simp: k(2,3) mgets_def\<close>)
  then show ?thesis using None k(3) by (simp add: AddEntry_one_def Let_def)
next
  case (Some ns)
  let ?ns = "if n \<in> set ns then ns else ns @ [n]"
  have ok: "ns \<noteq> []" "distinct ns" "\<And>n. n \<in> set ns \<Longrightarrow> 0 < n \<and> n < cm_nNextClient s"
    using client_inv_list [OF inv Some] client_inv_ref [OF inv, of _ "getUri_ci A e"] Some
    by (auto simp: mgets_def)
  have "client_inv_upto A D (P - {(n, getUri_ci A e)}) (set_clients (getUri_ci A e) ?ns s)"
    by (rule client_inv_set_clients [OF inv]) (use n ok Some in \<open>auto simp: mgets_def split: if_splits\<close>)
  then show ?thesis using Some by (simp add: AddEntry_one_def Let_def)
qed

lemma client_inv_AddEntry:
  assumes "client_inv_upto A D P s" "0 < n" "n < cm_nNextClient s"
  shows "client_inv_upto A D (P - {n} \<times> getUri_ci A ` set es) (AddEntry_cm A H es n s)"
  unfolding AddEntry_cm_def using assms
proof (induction es arbitrary: s P)
  case (Cons e es)
  note one = client_inv_AddEntry_one [OF Cons.prems, of e]
  have "P - {n} \<times> getUri_ci A ` set (e # es) = P - {(n, getUri_ci A e)} - {n} \<times> getUri_ci A ` set es" by auto
  then show ?case using Cons.IH [of "P - {(n, getUri_ci A e)}" "AddEntry_one A H n e s"] one Cons.prems
    by simp
qed simp

lemma client_inv_RemoveEntry_one:
  assumes inv: "client_inv_upto A D P s" and P: "{n} \<times> UNIV \<subseteq> P"
  shows "client_inv_upto A D P (RemoveEntry_one A H n e s)"
proof -
  let ?u = "getUri_ci A e"
  let ?ns = "filter (\<lambda>n'. n' \<noteq> n) (mgets (cm_mUri2Client s) ?u)"
  note old = client_inv_distinct [OF inv, of ?u] client_inv_ref [OF inv, of _ ?u]
  show ?thesis
  proof (cases "?ns = []")
    case False
    have "client_inv_upto A D P (set_clients ?u ?ns s)"
      by (rule client_inv_set_clients [OF inv]) (use False old P in auto)
    then show ?thesis using False by (simp add: RemoveEntry_one_def Let_def)
  next
    case True
    let ?t = "(set_clients ?u ?ns s)\<lparr>cm_mUri2Client := mdel ?u (cm_mUri2Client (set_clients ?u ?ns s))\<rparr>"
    have only: "m = n" if "m \<in> set (mgets (cm_mUri2Client s) ?u)" for m
      using True that by (auto simp: filter_empty_conv)
    have routes: "mgets (mdel ?u (mput ?u ?ns (cm_mUri2Client s))) v
        = (if v = ?u then [] else mgets (cm_mUri2Client s) v)" for v
      by (simp add: mgets_def)
    have same: "cm_mClientInfo ?t = cm_mClientInfo s" "cm_nNextClient ?t = cm_nNextClient s"
      "cm_info ?t = cm_info s" "n_conn ?t = n_conn s" "\<And>m. alive_ci m ?t = alive_ci m s"
      "\<And>m. getClientInfo m ?t = getClientInfo m s"
      "cm_mUri2Client ?t = mdel ?u (mput ?u ?ns (cm_mUri2Client s))"
      by (simp_all add: alive_ci_def getClientInfo_def)
    have "client_inv_upto A D P ?t"
    proof (rule client_invI, unfold same routes)
      fix v ns
      assume "mget (mdel ?u (mput ?u ?ns (cm_mUri2Client s))) v = Some ns"
      then show "ns \<noteq> [] \<and> distinct ns" using client_inv_list [OF inv, of v ns] by (auto split: if_splits)
    next
      fix k m v e'
      assume "mget (cm_mClientInfo s) k = Some m" "mget (ci_mEntryInfo (cm_info s m)) v = Some e'"
      then show "getUri_ci A e' = v \<and>
          ((m, v) \<in> P \<or> m \<in> set (if v = ?u then [] else mgets (cm_mUri2Client s) v))"
        using client_inv_routed [OF inv, of k m v e'] only [of m] P by auto
    qed (use client_inv_next [OF inv] client_inv_ref [OF inv] client_inv_known [OF inv] client_inv_ctx [OF inv]
      in \<open>auto split: if_splits\<close>)
    then show ?thesis using client_inv_remove True by (simp add: RemoveEntry_one_def Let_def)
  qed
qed

lemma client_inv_RemoveEntry:
  assumes "client_inv_upto A D P s" "{n} \<times> UNIV \<subseteq> P"
  shows "client_inv_upto A D P (RemoveEntry_cm A H es n s)"
  unfolding RemoveEntry_cm_def
  by (rule client_inv_forEach [OF client_inv_RemoveEntry_one]) (use assms in auto)

text \<open>A client that goes: dead first, then unrouted, then forgotten.\<close>

lemma client_inv_forget:
  assumes inv: "client_inv_upto A {n} ({n} \<times> UNIV) s"
  shows "client_inv_upto A {} {} (s\<lparr>cm_mClientInfo := mdel (getClientInfo n s) (cm_mClientInfo s)\<rparr>)"
proof -
  let ?t = "s\<lparr>cm_mClientInfo := mdel (getClientInfo n s) (cm_mClientInfo s)\<rparr>"
  have other: "mget (cm_mClientInfo s) k = Some m \<and> m \<noteq> n" if "mget (cm_mClientInfo ?t) k = Some m" for k m
    using that client_inv_known [OF inv, of k m] by (auto split: if_splits)
  have same: "alive_ci m ?t = alive_ci m s" "getClientInfo m ?t = getClientInfo m s" for m
    by (simp_all add: alive_ci_def getClientInfo_def)
  show ?thesis
  proof (rule client_invI)
    fix k m
    assume "mget (cm_mClientInfo ?t) k = Some m"
    then show "0 < m \<and> m < cm_nNextClient ?t \<and> getClientInfo m ?t = k \<and> (m \<in> {} \<or> alive_ci m ?t)"
      using other client_inv_known [OF inv, of k m] unfolding same by fastforce
  next
    fix k m u e
    assume "mget (cm_mClientInfo ?t) k = Some m" "mget (ci_mEntryInfo (cm_info ?t m)) u = Some e"
    then show "getUri_ci A e = u \<and> ((m, u) \<in> {} \<or> m \<in> set (mgets (cm_mUri2Client ?t) u))"
      using other [of k m] client_inv_routed [OF inv, of k m u e] by simp
  qed (use client_inv_next [OF inv] client_inv_list [OF inv] client_inv_ref [OF inv] client_inv_ctx [OF inv]
      in simp_all)
qed

lemma client_inv_set_dead:
  assumes inv: "client_inv_upto A D P s" and v: "ci_szInstanceID v = getClientInfo n s"
    "ci_mEntryInfo v = ci_mEntryInfo (cm_info s n)"
  shows "client_inv_upto A (insert n D) P (set_client n v s)"
proof (rule client_invI)
  let ?t = "set_client n v s"
  have same: "cm_mClientInfo ?t = cm_mClientInfo s" "cm_mUri2Client ?t = cm_mUri2Client s"
    "cm_nNextClient ?t = cm_nNextClient s" "n_conn ?t = n_conn s"
    "\<And>m. getClientInfo m ?t = getClientInfo m s"
    "\<And>m. ci_mEntryInfo (cm_info ?t m) = ci_mEntryInfo (cm_info s m)"
    "\<And>m. m \<noteq> n \<Longrightarrow> alive_ci m ?t = alive_ci m s"
    using v by (simp_all add: set_client_def getClientInfo_def alive_ci_def)
  show "0 < cm_nNextClient ?t" using client_inv_next [OF inv] same by simp
  show "ns \<noteq> [] \<and> distinct ns" if "mget (cm_mUri2Client ?t) u = Some ns" for u ns
    using client_inv_list [OF inv] that same by simp
  show "0 < m \<and> m < cm_nNextClient ?t" if "m \<in> set (mgets (cm_mUri2Client ?t) u)" for u m
    using client_inv_ref [OF inv] that same by simp
  show "0 < m \<and> m < cm_nNextClient ?t" if "sc_Ctx (n_conn ?t c) = Some (CtxClient m)" for c m
    using client_inv_ctx [OF inv] that same by simp
  show "getUri_ci A e = u \<and> ((m, u) \<in> P \<or> m \<in> set (mgets (cm_mUri2Client ?t) u))"
    if "mget (cm_mClientInfo ?t) k = Some m" "mget (ci_mEntryInfo (cm_info ?t m)) u = Some e" for k m u e
    using client_inv_routed [OF inv] that same by simp
  show "0 < m \<and> m < cm_nNextClient ?t \<and> getClientInfo m ?t = k \<and> (m \<in> insert n D \<or> alive_ci m ?t)"
    if "mget (cm_mClientInfo ?t) k = Some m" for k m
    using client_inv_known [OF inv, of k m] that same by auto
qed

lemma client_inv_markDead:
  assumes "client_inv_upto A D P s"
  shows "client_inv_upto A (insert n D) P (snd (markDead_ci n s))"
  using client_inv_keeps [OF client_inv_set_dead [OF assms,
      of "(cm_info s n)\<lparr>ci_nStatus := AGENT_STATUS_DEAD\<rparr>" n] ckeeps_Closes]
  by (simp add: markDead_ci_def Let_def getClientInfo_def)

lemma client_inv_deleteClient:
  assumes "client_inv A s"
  shows "client_inv A (deleteClient A H n s)"
proof -
  obtain es s1 where m: "markDead_ci n s = (es, s1)" by (cases "markDead_ci n s")
  have "client_inv_upto A {n} {} s1"
    using client_inv_markDead [of A "{}" "{}" s n] assms m by (simp add: client_inv_def)
  then have "client_inv_upto A {n} ({n} \<times> UNIV) s1" by (rule client_inv_mono) auto
  then have "client_inv_upto A {n} ({n} \<times> UNIV) (RemoveEntry_cm A H es n s1)"
    by (rule client_inv_RemoveEntry) simp
  from client_inv_forget [OF this] show ?thesis
    by (simp add: deleteClient_def m Let_def client_inv_def getClientInfo_def)
qed

lemma client_inv_OnCloseConnection:
  assumes "client_inv A s"
  shows "client_inv A (OnCloseConnection_cm A H c s)"
proof (cases "getClientByConnection c s")
  case None
  then show ?thesis using client_inv_keeps [of A "{}" "{}" s] assms
    by (simp add: OnCloseConnection_cm_def client_inv_def)
next
  case (Some n)
  obtain l s1 where o: "onCloseConnection_ci n c s = (l, s1)" by (cases "onCloseConnection_ci n c s")
  have "client_inv A s1"
    using client_inv_keeps [OF _ ckeeps_onCloseConnection [of s n c]] assms o by (simp add: client_inv_def)
  then show ?thesis using Some o by (simp add: OnCloseConnection_cm_def client_inv_deleteClient)
qed

lemma client_inv_cleanTimeout:
  assumes "client_inv A s"
  shows "client_inv A (cleanTimeout_cm A H nNow s)"
proof -
  have del: "client_inv A t \<Longrightarrow> client_inv A (forEach (deleteClient A H) ns t)" for ns t
    by (induction ns arbitrary: t) (simp_all add: client_inv_deleteClient)
  have "ckeeps s (forEach Close cs (s\<lparr>cm_mTempConnection := m\<rparr>))" for cs m
    by (rule ckeeps_trans [OF _ ckeeps_Closes]) simp
  then have "client_inv A (forEach Close cs (s\<lparr>cm_mTempConnection := m\<rparr>))" for cs m
    using client_inv_keeps assms unfolding client_inv_def by blast
  then show ?thesis unfolding cleanTimeout_cm_def Let_def by (intro del)
qed

end

text \<open>A client that registers: its new entries are routed last.\<close>

lemma mget_entries:
  "mget (forEach (\<lambda>e. mput (getUri_ci A e) e) es m) u = Some e \<Longrightarrow>
     getUri_ci A e = u \<and> e \<in> set es \<or> mget m u = Some e"
  by (induction es arbitrary: m) (fastforce split: if_splits)+

lemma syncEntry_ci_simps [simp]:
  "cm_mClientInfo (syncEntry_ci A n es s) = cm_mClientInfo s"
  "cm_mUri2Client (syncEntry_ci A n es s) = cm_mUri2Client s"
  "cm_nNextClient (syncEntry_ci A n es s) = cm_nNextClient s"
  "n_conn (syncEntry_ci A n es s) = n_conn s"
  "getClientInfo m (syncEntry_ci A n es s) = getClientInfo m s"
  "ci_mEntryInfo (cm_info (syncEntry_ci A n es s) m) =
     (if m = n then forEach (\<lambda>e. mput (getUri_ci A e) e) es [] else ci_mEntryInfo (cm_info s m))"
  "alive_ci m (syncEntry_ci A n es s) \<longleftrightarrow> m = n \<or> alive_ci m s"
  by (simp_all add: syncEntry_ci_def set_client_def getClientInfo_def alive_ci_def)

lemma client_inv_syncEntry:
  assumes inv: "client_inv_upto A {} {} s"
  shows "client_inv_upto A {} ({n} \<times> getUri_ci A ` set es) (syncEntry_ci A n es s)"
proof (rule client_invI)
  fix k m u e
  assume "mget (cm_mClientInfo (syncEntry_ci A n es s)) k = Some m"
    "mget (ci_mEntryInfo (cm_info (syncEntry_ci A n es s) m)) u = Some e"
  then show "getUri_ci A e = u \<and> ((m, u) \<in> {n} \<times> getUri_ci A ` set es
      \<or> m \<in> set (mgets (cm_mUri2Client (syncEntry_ci A n es s)) u))"
    using client_inv_routed [OF inv, of k m u e] mget_entries [of A es "[]" u e]
    by (auto split: if_splits)
qed (use client_inv_next [OF inv] client_inv_list [OF inv] client_inv_ref [OF inv]
    client_inv_known [OF inv] client_inv_ctx [OF inv] in auto)

lemma client_inv_NewClient:
  assumes inv: "client_inv_upto A {} {} s" and new: "NewClient_ci k nNow s = (n, s1)"
  shows "client_inv_upto A {} {} s1 \<and> 0 < n \<and> n < cm_nNextClient s1 \<and> getClientInfo n s1 = k"
proof -
  have [simp]: "n = cm_nNextClient s" "cm_mClientInfo s1 = cm_mClientInfo s" "cm_mUri2Client s1 = cm_mUri2Client s"
    "cm_nNextClient s1 = Suc n" "n_conn s1 = n_conn s" "getClientInfo (cm_nNextClient s) s1 = k"
    "\<And>m. m \<noteq> n \<Longrightarrow> cm_info s1 m = cm_info s m"
    using new by (auto simp: NewClient_ci_def Let_def set_client_def getClientInfo_def)
  have known: "0 < m \<and> m < n \<and> getClientInfo m s1 = k \<and> alive_ci m s1" if "mget (cm_mClientInfo s) k = Some m" for k m
    using client_inv_known [OF inv that] by (auto simp: getClientInfo_def alive_ci_def)
  have "client_inv_upto A {} {} s1"
  proof (rule client_invI)
    fix k m u e
    assume "mget (cm_mClientInfo s1) k = Some m" "mget (ci_mEntryInfo (cm_info s1 m)) u = Some e"
    then show "getUri_ci A e = u \<and> ((m, u) \<in> {} \<or> m \<in> set (mgets (cm_mUri2Client s1) u))"
      using client_inv_routed [OF inv, of k m u e] known [of k m] by auto
  qed (use client_inv_next [OF inv] client_inv_list [OF inv] client_inv_ref [OF inv] known
      client_inv_ctx [OF inv] in \<open>fastforce simp: less_Suc_eq\<close>)+
  then show ?thesis using client_inv_next [OF inv] by simp
qed

lemma client_inv_put:
  assumes inv: "client_inv_upto A D P s" and n: "0 < n" "n < cm_nNextClient s"
    and "getClientInfo n s = k" "alive_ci n s"
    and "\<And>u e. mget (ci_mEntryInfo (cm_info s n)) u = Some e \<Longrightarrow> getUri_ci A e = u \<and> (n, u) \<in> P"
  shows "client_inv_upto A D P (s\<lparr>cm_mClientInfo := mput k n (cm_mClientInfo s)\<rparr>)"
proof -
  have same: "alive_ci m (s\<lparr>cm_mClientInfo := x\<rparr>) = alive_ci m s"
    "getClientInfo m (s\<lparr>cm_mClientInfo := x\<rparr>) = getClientInfo m s" for m x
    by (simp_all add: alive_ci_def getClientInfo_def)
  show ?thesis
    by (rule client_invI)
      (use client_inv_next [OF inv] client_inv_list [OF inv] client_inv_ref [OF inv] client_inv_ctx [OF inv]
        client_inv_known [OF inv] client_inv_routed [OF inv] assms(2-6)
        in \<open>auto simp: same split: if_splits\<close>)
qed

lemma client_inv_register_admit:
  assumes inv: "client_inv A s" and r: "register_admit A nNow q c s = (n, t)"
  shows "client_inv_upto A {} ({n} \<times> getUri_ci A ` set (AgentRegisterReq_AryEntry q)) t
    \<and> 0 < n \<and> n < cm_nNextClient t"
proof -
  let ?es = "AgentRegisterReq_AryEntry q"
  let ?P = "{n} \<times> getUri_ci A ` set ?es"
  let ?adm = "\<lambda>s. bind_ctx c (CtxClient n) (syncEntry_ci A n ?es (addConnection_ci A n c s))"
  have adm: "client_inv_upto A {} ?P (?adm s)" "cm_nNextClient (?adm s) = cm_nNextClient s"
      "getClientInfo n (?adm s) = getClientInfo n s" "alive_ci n (?adm s)"
      "ci_mEntryInfo (cm_info (?adm s) n) = forEach (\<lambda>e. mput (getUri_ci A e) e) ?es []"
    if i: "client_inv_upto A {} {} s" and n: "0 < n" "n < cm_nNextClient s" for s :: "'a ClientManager_scheme"
  proof -
    note k1 = ckeeps_addConnection [of s A n c]
    let ?s2 = "syncEntry_ci A n ?es (addConnection_ci A n c s)"
    have i2: "client_inv_upto A {} ?P ?s2" by (rule client_inv_syncEntry [OF client_inv_keeps [OF i k1]])
    have next2: "cm_nNextClient ?s2 = cm_nNextClient s" using ckeepsD(3) [OF k1] by simp
    have k2: "ckeeps ?s2 (?adm s)" by (rule ckeeps_bind) (use n next2 in auto)
    show "client_inv_upto A {} ?P (?adm s)" by (rule client_inv_keeps [OF i2 k2])
    show "cm_nNextClient (?adm s) = cm_nNextClient s" using ckeepsD(3) [OF k2] next2 by simp
    show "getClientInfo n (?adm s) = getClientInfo n s"
      using ckeepsD(5) [OF k2, of n] ckeepsD(5) [OF k1, of n] by simp
    show "alive_ci n (?adm s)" by (rule ckeepsD(7) [OF k2]) simp
    show "ci_mEntryInfo (cm_info (?adm s) n) = forEach (\<lambda>e. mput (getUri_ci A e) e) ?es []"
      using ckeepsD(6) [OF k2, of n] by simp
  qed
  show ?thesis
  proof (cases "mget (cm_mClientInfo s) (AgentRegisterReq_InstanceID q)")
    case (Some m)
    then have t: "m = n" "t = ?adm s" using r by (auto simp: register_admit_def Let_def)
    have "0 < n \<and> n < cm_nNextClient s"
      using client_inv_known [OF inv [unfolded client_inv_def] Some] t(1) by simp
    then show ?thesis using adm(1,2) [OF inv [unfolded client_inv_def]] t(2) by simp
  next
    case None
    obtain n' s1 where new: "NewClient_ci (AgentRegisterReq_InstanceID q) nNow s = (n', s1)"
      by (cases "NewClient_ci (AgentRegisterReq_InstanceID q) nNow s")
    then have t: "n' = n"
      "t = (?adm s1)\<lparr>cm_mClientInfo := mput (AgentRegisterReq_InstanceID q) n (cm_mClientInfo (?adm s1))\<rparr>"
      using r None by (auto simp: register_admit_def Let_def)
    note i1 = client_inv_NewClient [OF inv [unfolded client_inv_def] new]
    have n: "0 < n" "n < cm_nNextClient s1" using i1 t(1) by auto
    note a = adm [OF conjunct1 [OF i1] n]
    have "client_inv_upto A {} ?P t"
      unfolding t(2)
    proof (rule client_inv_put [OF a(1)])
      fix u e
      assume "mget (ci_mEntryInfo (cm_info (?adm s1) n)) u = Some e"
      then show "getUri_ci A e = u \<and> (n, u) \<in> ?P"
        using mget_entries [of A ?es "[]" u e] unfolding a(5) by auto
    qed (use a n i1 t(1) in auto)
    then show ?thesis using n a(2) t(2) by simp
  qed
qed

section \<open>Handlers and tasks\<close>

lemma client_inv_quiet: "client_inv A s \<Longrightarrow> quiet s t \<Longrightarrow> client_inv A t" for s :: "'a ClientManager_scheme"
  unfolding client_inv_def by (rule client_inv_keeps [OF _ ckeeps_quiet])

lemma client_inv_ckeeps: "client_inv A s \<Longrightarrow> ckeeps s t \<Longrightarrow> client_inv A t"
  unfolding client_inv_def by (rule client_inv_keeps)

lemma client_inv_outside: "client_inv A s \<Longrightarrow> outside s t \<Longrightarrow> client_inv A t"
  by (rule client_inv_ckeeps [OF _ ckeeps_outside])

lemma client_inv_reply_cm: "client_inv A s \<Longrightarrow> client_inv A (snd (reply_cm A r m ctx s))"
  for s :: "'a ClientManager_scheme"
  by (rule client_inv_quiet [OF _ quiet_reply_cm])

lemma client_inv_not_auth: "client_inv A s \<Longrightarrow> client_inv A (snd (agent_not_auth ctx s))"
  using client_inv_ckeeps [OF _ ckeeps_misc(4)] by (simp add: agent_not_auth_def)

context node_handler
begin

lemma client_inv_handleAgentRegister:
  assumes inv: "client_inv A s" and ctx: "GetServerConnection ctx \<noteq> None"
  shows "client_inv A (snd (handleAgentRegister A H nNow b ctx s))"
proof -
  obtain c where c: "GetServerConnection ctx = Some c" using ctx by auto
  have "client_inv A (AddEntry_cm A H (AgentRegisterReq_AryEntry q) n
      (s1\<lparr>cm_mTempConnection := mdel c (cm_mTempConnection s1)\<rparr>))"
    if "register_admit A nNow q c s = (n, s1)" for q n s1
  proof -
    note r = client_inv_register_admit [OF inv that]
    have "client_inv_upto A {} ({n} \<times> getUri_ci A ` set (AgentRegisterReq_AryEntry q))
        (s1\<lparr>cm_mTempConnection := mdel c (cm_mTempConnection s1)\<rparr>)"
      by (rule client_inv_keeps [OF conjunct1 [OF r]]) simp
    from client_inv_AddEntry [OF this, of n "AgentRegisterReq_AryEntry q"] r
    show ?thesis by (simp add: client_inv_def)
  qed
  then show ?thesis
    using inv c by (auto simp: handleAgentRegister_def client_inv_reply_cm split: option.splits prod.splits)
qed

lemma client_inv_handleAgentUnRegister:
  "client_inv A s \<Longrightarrow> client_inv A (snd (handleAgentUnRegister A H b ctx s))"
  by (simp add: handleAgentUnRegister_def client_inv_not_auth client_inv_deleteClient split: option.split)

lemma client_inv_handleKeepAlive:
  assumes "client_inv A s"
  shows "client_inv A (snd (handleKeepAlive_cm A H ch nNow b ctx s))"
  using client_inv_reply_cm [OF client_inv_ckeeps [OF assms ckeeps_refresh]] client_inv_not_auth [OF assms] assms
  by (auto simp: handleKeepAlive_cm_def Let_def split: option.split)

lemma client_inv_call_local: "client_inv A s \<Longrightarrow> client_inv A (snd (call_local A ch m ctx s))"
  for s :: "'b ClientManager_scheme"
  by (rule client_inv_quiet [OF _ quiet_call_local])

lemma client_inv_respond_local: "client_inv A s \<Longrightarrow> client_inv A (snd (respond_local A ch m s))"
  for s :: "'b ClientManager_scheme"
  by (rule client_inv_quiet [OF _ quiet_respond_local])

lemma client_inv_handleRpcCallReq:
  assumes "client_inv A s"
  shows "client_inv A (snd (handleRpcCallReq_cm A H ch b ctx s))"
proof -
  have "client_inv A t" if "nh_DispatchReq H (ac_node ch) m ctx s = (x, t)" for m x t
    using client_inv_outside [OF assms nh_req] that by (metis snd_conv)
  then show ?thesis
    using assms by (auto simp: handleRpcCallReq_cm_def Let_def client_inv_not_auth client_inv_call_local
        client_inv_reply_cm split: option.splits prod.splits)
qed

lemma client_inv_handleRpcCallResp:
  assumes "client_inv A s"
  shows "client_inv A (snd (handleRpcCallResp_cm A H ch b ctx s))"
proof -
  have "client_inv A t" if "nh_DispatchRsp H (ac_node ch) m ctx s = (x, t)" for m x t
    using client_inv_outside [OF assms nh_rsp] that by (metis snd_conv)
  then show ?thesis
    using assms by (auto simp: handleRpcCallResp_cm_def client_inv_not_auth client_inv_respond_local
        split: option.splits prod.splits)
qed

lemma client_inv_handleEntryCheck:
  "client_inv A s \<Longrightarrow> client_inv A (snd (handleEntryCheckReq A H b ctx s))"
  by (simp add: handleEntryCheckReq_def Let_def client_inv_not_auth client_inv_reply_cm split: option.split)

lemma client_router_handlers:
  "mget (client_router A H ch nNow) u = Some h \<Longrightarrow>
     h \<in> {handleAgentRegister A H nNow, handleAgentUnRegister A H, handleKeepAlive_cm A H ch nNow,
          handleRpcCallReq_cm A H ch, handleRpcCallResp_cm A H ch, handleEntryCheckReq A H}"
  by (simp add: client_router_def RegisterRouter_def NewRouter_def split: if_splits)

lemma client_service: "packet_service (client_router A H ch nNow) (client_inv A)"
proof
  fix s t :: "'a ClientManager_scheme"
  show "client_inv A s \<Longrightarrow> quiet s t \<Longrightarrow> client_inv A t" by (rule client_inv_quiet)
next
  fix u h b ctx and s :: "'a ClientManager_scheme"
  assume h: "mget (client_router A H ch nNow) u = Some h" and inv: "client_inv A s"
    and ctx: "GetServerConnection ctx \<noteq> None"
  show "client_inv A (snd (h b ctx s))"
    using client_router_handlers [OF h] client_inv_handleAgentRegister [OF inv ctx, of nNow b]
      client_inv_handleAgentUnRegister [OF inv, of b ctx] client_inv_handleKeepAlive [OF inv, of ch nNow b ctx]
      client_inv_handleRpcCallReq [OF inv, of ch b ctx] client_inv_handleRpcCallResp [OF inv, of ch b ctx]
      client_inv_handleEntryCheck [OF inv, of b ctx] by auto
qed

lemma client_inv_run_client_task:
  assumes inv: "client_inv A s"
  shows "client_inv A (snd (run_client_task A H ch nNow k s))"
proof (cases k)
  case (CProcess c b ctx)
  obtain z s1 where p: "Process (client_router A H ch nNow) b ctx s = (z, s1)" by fastforce
  have 1: "client_inv A s1"
    using packet_service.Process_inv [OF client_service inv, of ch nNow b ctx] p by simp
  show ?thesis
    using CProcess p 1 client_inv_ckeeps [OF 1 ckeeps_Close] client_inv_ckeeps [OF 1 ckeeps_refresh]
    by (auto simp: run_client_task_def process_task_cm_def split: outcome.splits option.splits)
qed (use inv client_inv_ckeeps [OF inv ckeeps_Close] in
    \<open>auto simp: run_client_task_def split: option.splits\<close>)

end

section \<open>The system\<close>

text \<open>
  One step of the client manager: a connection opens or closes, a packet arrives, a
  worker runs a task, the timer fires, the node hands a message up, or the process stops.
\<close>

datatype client_event =
    CevNewConnection connref
  | CevRead connref bytes ctx
  | CevCloseConnection connref
  | CevTask nat
  | CevCleanTimeout
  | CevHandleRequest RpcCallReq ctx
  | CevHandleResponse RpcCallResp ctx
  | CevStop

fun client_exec ::
  "agent_env \<Rightarrow> agent_choice \<Rightarrow> int64 \<Rightarrow> client_event \<Rightarrow> ClientManager \<Rightarrow> unit outcome \<times> ClientManager"
where
  "client_exec A ch nNow (CevNewConnection c) s = (Ret (), OnNewConnection_cm nNow c s)"
| "client_exec A ch nNow (CevRead c b ctx) s = (Ret (), OnRead_cm c b ctx s)"
| "client_exec A ch nNow (CevCloseConnection c) s =
     (Ret (), OnCloseConnection_cm A (objNodeHandler A (cm_objNodeHandler s)) c s)"
| "client_exec A ch nNow (CevTask i) s =
     (if i < length (cm_task s)
      then run_client_task A (objNodeHandler A (cm_objNodeHandler s)) ch nNow (cm_task s ! i)
             (s\<lparr>cm_task := drop_nth i (cm_task s)\<rparr>)
      else (Ret (), s))"
| "client_exec A ch nNow CevCleanTimeout s =
     (Ret (), cleanTimeout_cm A (objNodeHandler A (cm_objNodeHandler s)) nNow s)"
| "client_exec A ch nNow (CevHandleRequest m ctx) s = HandleRequest_cm A ch m ctx s"
| "client_exec A ch nNow (CevHandleResponse m ctx) s = HandleResponse_cm A ch m ctx s"
| "client_exec A ch nNow CevStop s = (Ret (), Stop_cm A ch s)"

inductive client_step :: "agent_env \<Rightarrow> ClientManager \<Rightarrow> ClientManager \<Rightarrow> bool" for A where
  client_event: "client_exec A ch nNow ev s = (z, t) \<Longrightarrow> client_step A s t"
| client_outside: "outside s t \<Longrightarrow> client_step A s t"

inductive_cases client_stepE: "client_step A s t"

definition client_start :: "ClientManager \<Rightarrow> bool" where
  "client_start s \<longleftrightarrow> (\<exists>uu nm s0 h. node_start s0
     \<and> s = RegisterNodeHandler h (NewClientManager uu nm s0))"

lemma client_inv_start:
  assumes "client_start s"
  shows "client_inv A s"
proof -
  obtain uu nm s0 h where s0: "node_start s0" and s: "s = RegisterNodeHandler h (NewClientManager uu nm s0)"
    using assms unfolding client_start_def by blast
  have conn: "sc_Ctx (n_conn s0 c) = None" for c
    using s0 by (auto simp: node_start_def NewManager_def Let_def newNode_def set_info_def conn_zero_def)
  have tables: "cm_mUri2Client s = []" "cm_mClientInfo s = []" "cm_nNextClient s = 1" "n_conn s = n_conn s0"
    by (simp_all add: s RegisterNodeHandler_def NewClientManager_def NodeManager.extend_def)
  show ?thesis unfolding client_inv_def
    by (rule client_invI) (simp_all add: tables conn)
qed

lemma ckeeps_new: "ckeeps s (OnNewConnection_cm nNow c s)"
proof -
  have "ckeeps s t \<Longrightarrow> ckeeps s (t\<lparr>cm_mTempConnection := m\<rparr>)" for t :: "'a ClientManager_scheme" and m
    by (erule ckeeps_trans, rule ckeeps_misc(1))
  then show ?thesis by (simp add: OnNewConnection_cm_def Let_def)
qed

lemma quiet_Stop_cm: "client_inv A s \<Longrightarrow> client_inv A (Stop_cm A' ch s)"
proof -
  assume inv: "client_inv A s"
  have "client_inv A t \<Longrightarrow>
      client_inv A (forEach (\<lambda>n s. snd (cast_ci A' ch n u m s)) ns t)" for ns u m and t :: "'a ClientManager_scheme"
    by (induction ns arbitrary: t) (simp_all add: client_inv_quiet [OF _ quiet_cast_ci])
  then show ?thesis using client_inv_ckeeps [OF inv ckeeps_misc(2)] by (simp add: Stop_cm_def Let_def)
qed

lemma client_inv_exec:
  assumes inv: "client_inv A s"
  shows "client_inv A (snd (client_exec A ch nNow ev s))"
proof (cases ev)
  case (CevTask i)
  have "client_inv A (s\<lparr>cm_task := drop_nth i (cm_task s)\<rparr>)"
    by (rule client_inv_ckeeps [OF inv]) simp
  then show ?thesis using CevTask inv by (simp add: nh.client_inv_run_client_task)
next
  case (CevRead c b ctx)
  then show ?thesis using client_inv_ckeeps [OF inv ckeeps_misc(4)] by (simp add: OnRead_cm_def)
next
  case (CevHandleRequest m ctx)
  then show ?thesis using nh.client_inv_call_local [OF inv, of ch m ctx]
    by (auto simp: HandleRequest_cm_def split: prod.splits outcome.splits)
next
  case (CevHandleResponse m ctx)
  then show ?thesis using nh.client_inv_respond_local [OF inv, of ch m]
    by (auto simp: HandleResponse_cm_def split: prod.splits outcome.splits)
qed (use inv client_inv_ckeeps [OF inv ckeeps_new] in
    \<open>simp_all add: nh.client_inv_OnCloseConnection nh.client_inv_cleanTimeout quiet_Stop_cm\<close>)

interpretation client_system: inductive_invariant client_start "client_step A" "client_inv A" for A
proof
  fix s
  assume "client_start s"
  then show "client_inv A s" by (rule client_inv_start)
next
  fix s t
  assume inv: "client_inv A s" and "client_step A s t"
  then show "client_inv A t"
  proof (elim client_stepE)
    fix ch nNow ev z
    assume "client_exec A ch nNow ev s = (z, t)"
    then show "client_inv A t" using client_inv_exec [OF inv, of ch nNow ev] by simp
  next
    assume "outside s t"
    then show "client_inv A t" by (rule client_inv_outside [OF inv])
  qed
qed

end
