(* ===== verification/AgentRegistry.thy ===== *)
theory AgentRegistry
  imports AgentSystem
begin

text \<open>
  What the node offers is what the clients of its agent offer.

  The locale \<open>node_registry\<close> adds to the interface the two laws the agent relies on: after
  \<^verbatim>\<open>AddEntry\<close> the node offers the entry too, after \<^verbatim>\<open>RemoveEntry\<close> it does not.  Every
  operation of the client manager that registers or drops clients then keeps the two
  tables in agreement.
\<close>

section \<open>The contract\<close>

text \<open>The two states have the same node records, the same own node and the same version.\<close>

definition same_node :: "'a NodeManager_scheme \<Rightarrow> 'a NodeManager_scheme \<Rightarrow> bool" where
  "same_node s t \<longleftrightarrow> nm_info t = nm_info s \<and> nm_ptrSelf t = nm_ptrSelf s \<and> nm_nSequence t = nm_nSequence s"

lemma same_node_refl [simp, intro]: "same_node s s"
  by (simp add: same_node_def)

lemma same_node_trans [trans]: "same_node s t \<Longrightarrow> same_node t u \<Longrightarrow> same_node s u"
  by (simp add: same_node_def)

lemma same_node_quiet:
  fixes s :: "'a NodeManager_scheme"
  assumes "quiet s t"
  shows "same_node s t"
proof -
  have m: "net.more t = net.more s" using assms by (simp add: quiet_def)
  show ?thesis using more_nodes [OF m] more_manager [OF more_nodes(6) [OF m]] by (simp add: same_node_def)
qed

lemma same_node_client [simp]:
  "same_node s (set_client n v s)" "same_node s (s\<lparr>cm_mClientInfo := m\<rparr>)"
  "same_node s (s\<lparr>cm_mTempConnection := tm\<rparr>)" "same_node s (GoTask_cm k s)"
  "same_node s (bind_ctx c w s)" "same_node s (s\<lparr>cm_nNextClient := i\<rparr>)"
  by (simp_all add: same_node_def set_client_def GoTask_cm_def bind_ctx_def set_conn_def)

lemma quiet_Closes [quiet_intros]: "quiet s (forEach Close cs s)"
proof (induction cs arbitrary: s)
  case (Cons c cs)
  show ?case using quiet_trans [OF quiet_Close [of s c] Cons.IH [of "Close c s"]] by simp
qed simp

lemma same_node_Closes: "same_node s (forEach Close cs s)"
  for s :: "'a NodeManager_scheme"
  by (rule same_node_quiet [OF quiet_Closes])

lemma uri_Closes [simp]: "cm_mUri2Client (forEach Close cs s) = cm_mUri2Client s"
  by (rule ckeepsD(2) [OF ckeeps_Closes])

locale node_registry = node_handler H
  for H :: "('a ClientManager_scheme) NodeHandler" +
  fixes A :: agent_env
    and ok :: "'a ClientManager_scheme \<Rightarrow> bool"
    and offers :: "'a ClientManager_scheme \<Rightarrow> string set"
  assumes add_ok: "ok s \<Longrightarrow> ok (nh_AddEntry H (agent_EntryInfo_URI e) (agent_EntryInfo_EntryType e) s)"
    and add_offers: "ok s \<Longrightarrow>
      offers (nh_AddEntry H (agent_EntryInfo_URI e) (agent_EntryInfo_EntryType e) s)
        = insert (getUri_ci A e) (offers s)"
    and remove_ok: "ok s \<Longrightarrow> ok (nh_RemoveEntry H (agent_EntryInfo_URI e) (agent_EntryInfo_EntryType e) s)"
    and remove_offers: "ok s \<Longrightarrow>
      offers (nh_RemoveEntry H (agent_EntryInfo_URI e) (agent_EntryInfo_EntryType e) s)
        = offers s - {getUri_ci A e}"
    and node_frame: "ok s \<Longrightarrow> same_node s t \<Longrightarrow> ok t \<and> offers t = offers s"
begin

definition agreed :: "'a ClientManager_scheme \<Rightarrow> bool" where
  "agreed s \<longleftrightarrow> ok s \<and> (\<forall>u. u \<in> offers s \<longleftrightarrow> mget (cm_mUri2Client s) u \<noteq> None)"

lemma agreed_frame:
  "agreed s \<Longrightarrow> same_node s t \<Longrightarrow> cm_mUri2Client t = cm_mUri2Client s \<Longrightarrow> agreed t"
  using node_frame [of s t] unfolding agreed_def by simp

lemma agreed_set_clients:
  assumes "ok s" "\<And>v. v \<in> offers s \<longleftrightarrow> v = u \<or> mget (cm_mUri2Client s) v \<noteq> None"
  shows "agreed (set_clients u ns s)"
proof -
  have "same_node s (set_clients u ns s)" by (simp add: same_node_def set_clients_def)
  from node_frame [OF assms(1) this] show ?thesis using assms(2) by (simp add: agreed_def)
qed

lemma agreed_AddEntry_one:
  assumes "agreed s"
  shows "agreed (AddEntry_one A H n e s)"
proof (cases "mget (cm_mUri2Client s) (getUri_ci A e)")
  case None
  let ?s1 = "nh_AddEntry H (agent_EntryInfo_URI e) (agent_EntryInfo_EntryType e) s"
  have same: "cm_mUri2Client ?s1 = cm_mUri2Client s" by (rule ckeepsD(2) [OF ckeeps_outside [OF nh_add]])
  have ok: "ok s" using assms by (simp add: agreed_def)
  have "agreed (set_clients (getUri_ci A e) [n] ?s1)"
    by (rule agreed_set_clients [OF add_ok [OF ok]])
      (use assms in \<open>simp add: add_offers [OF ok] same agreed_def\<close>)
  then show ?thesis using None by (simp add: AddEntry_one_def Let_def)
next
  case (Some ns)
  have "agreed (set_clients (getUri_ci A e) m s)" for m
    by (rule agreed_set_clients) (use assms Some in \<open>auto simp: agreed_def\<close>)
  then show ?thesis using Some by (simp add: AddEntry_one_def Let_def)
qed

lemma agreed_AddEntry: "agreed s \<Longrightarrow> agreed (AddEntry_cm A H es n s)"
  unfolding AddEntry_cm_def by (rule forEach_invariant [where P = agreed]) (auto intro: agreed_AddEntry_one)

lemma agreed_RemoveEntry_one:
  assumes "agreed s"
  shows "agreed (RemoveEntry_one A H n e s)"
proof -
  let ?u = "getUri_ci A e"
  let ?ns = "filter (\<lambda>n'. n' \<noteq> n) (mgets (cm_mUri2Client s) ?u)"
  have ok: "ok s" using assms by (simp add: agreed_def)
  show ?thesis
  proof (cases "?ns = []")
    case False
    then have "mget (cm_mUri2Client s) ?u \<noteq> None" by (auto simp: mgets_def split: option.splits)
    then have "agreed (set_clients ?u ?ns s)"
      by (intro agreed_set_clients ok) (use assms in \<open>auto simp: agreed_def\<close>)
    then show ?thesis using False by (simp add: RemoveEntry_one_def Let_def)
  next
    case True
    let ?s1 = "(set_clients ?u ?ns s)\<lparr>cm_mUri2Client := mdel ?u (cm_mUri2Client (set_clients ?u ?ns s))\<rparr>"
    let ?t = "nh_RemoveEntry H (agent_EntryInfo_URI e) (agent_EntryInfo_EntryType e) ?s1"
    have "same_node s ?s1" by (simp add: same_node_def set_clients_def)
    from node_frame [OF ok this] have 1: "ok ?s1" "offers ?s1 = offers s" by auto
    have "cm_mUri2Client ?t = cm_mUri2Client ?s1" by (rule ckeepsD(2) [OF ckeeps_outside [OF nh_remove]])
    then have "agreed ?t"
      using remove_ok [OF 1(1)] remove_offers [OF 1(1)] 1(2) assms by (auto simp: agreed_def)
    then show ?thesis using True by (simp add: RemoveEntry_one_def Let_def)
  qed
qed

lemma agreed_RemoveEntry: "agreed s \<Longrightarrow> agreed (RemoveEntry_cm A H es n s)"
  unfolding RemoveEntry_cm_def by (rule forEach_invariant [where P = agreed]) (auto intro: agreed_RemoveEntry_one)

lemma agreed_deleteClient:
  assumes "agreed s"
  shows "agreed (deleteClient A H n s)"
proof -
  obtain es s1 where m: "markDead_ci n s = (es, s1)" by (cases "markDead_ci n s")
  let ?s0 = "set_client n ((cm_info s n)\<lparr>ci_nStatus := AGENT_STATUS_DEAD\<rparr>) s"
  have s1: "s1 = forEach Close (ci_aryConnectionList (cm_info ?s0 n)) ?s0"
    using m by (simp add: markDead_ci_def Let_def)
  have "same_node s s1" unfolding s1 by (rule same_node_trans [OF same_node_client(1) same_node_Closes])
  moreover have "cm_mUri2Client s1 = cm_mUri2Client s"
    unfolding s1 uri_Closes by (simp add: set_client_def)
  ultimately have "agreed (RemoveEntry_cm A H es n s1)"
    by (intro agreed_RemoveEntry agreed_frame [OF assms])
  then show ?thesis by (simp add: deleteClient_def m Let_def agreed_frame [OF _ same_node_client(2)])
qed

lemma agreed_OnCloseConnection:
  assumes "agreed s"
  shows "agreed (OnCloseConnection_cm A H c s)"
proof -
  have "agreed (set_client n v s)" for n v
    by (rule agreed_frame [OF assms]) (simp_all add: set_client_def same_node_def)
  then show ?thesis
    using agreed_frame [OF assms same_node_client(3)]
    by (simp add: OnCloseConnection_cm_def onCloseConnection_ci_def Let_def agreed_deleteClient split: option.split)
qed

lemma agreed_cleanTimeout:
  assumes "agreed s"
  shows "agreed (cleanTimeout_cm A H nNow s)"
proof -
  have del: "agreed t \<Longrightarrow> agreed (forEach (deleteClient A H) ns t)" for ns t
    by (induction ns arbitrary: t) (simp_all add: agreed_deleteClient)
  have "agreed (forEach Close cs (s\<lparr>cm_mTempConnection := m\<rparr>))" for cs m
    by (rule agreed_frame [OF assms same_node_trans [OF same_node_client(3) same_node_Closes]])
      simp
  then show ?thesis unfolding cleanTimeout_cm_def Let_def by (intro del)
qed

lemma agreed_reply: "agreed s \<Longrightarrow> agreed (snd (reply_cm A' r m ctx s))"
  by (rule agreed_frame [OF _ same_node_quiet [OF quiet_reply_cm] ckeepsD(2) [OF ckeeps_quiet [OF quiet_reply_cm]]])

lemma agreed_not_auth: "agreed s \<Longrightarrow> agreed (snd (agent_not_auth ctx s))"
  using agreed_frame [OF _ same_node_client(4)] by (simp add: agent_not_auth_def GoTask_cm_def)

lemma agreed_handleAgentUnRegister:
  "agreed s \<Longrightarrow> agreed (snd (handleAgentUnRegister A H b ctx s))"
  by (simp add: handleAgentUnRegister_def agreed_not_auth agreed_deleteClient split: option.split)

lemma register_admit_frame:
  fixes s :: "'a ClientManager_scheme"
  assumes "register_admit A nNow q c s = (n, t)"
  shows "same_node s t \<and> cm_mUri2Client t = cm_mUri2Client s"
proof -
  have add: "same_node s (addConnection_ci A m c s) \<and> cm_mUri2Client (addConnection_ci A m c s) = cm_mUri2Client s"
    for m and s :: "'a ClientManager_scheme"
    using ckeepsD(2) [OF ckeeps_addConnection [of s A m c]] same_node_quiet [OF quiet_Close [of s c]]
    by (simp add: addConnection_ci_def Let_def)
  have admit: "same_node s (bind_ctx c w (syncEntry_ci A m es (addConnection_ci A m c s)))
      \<and> cm_mUri2Client (bind_ctx c w (syncEntry_ci A m es (addConnection_ci A m c s))) = cm_mUri2Client s"
    for m w es and s :: "'a ClientManager_scheme"
    using add [of s m] by (simp add: syncEntry_ci_def set_client_def same_node_def bind_ctx_def set_conn_def)
  have new: "same_node s (snd (NewClient_ci k nNow s)) \<and> cm_mUri2Client (snd (NewClient_ci k nNow s)) = cm_mUri2Client s"
    for k by (simp add: NewClient_ci_def Let_def set_client_def same_node_def)
  show ?thesis
  proof (cases "mget (cm_mClientInfo s) (AgentRegisterReq_InstanceID q)")
    case (Some m)
    then have "t = bind_ctx c (CtxClient m)
        (syncEntry_ci A m (AgentRegisterReq_AryEntry q) (addConnection_ci A m c s))"
      using assms by (auto simp: register_admit_def Let_def)
    then show ?thesis using admit [of s "CtxClient m" m] by simp
  next
    case None
    obtain m s1 where m: "NewClient_ci (AgentRegisterReq_InstanceID q) nNow s = (m, s1)"
      by (cases "NewClient_ci (AgentRegisterReq_InstanceID q) nNow s")
    have 1: "same_node s s1 \<and> cm_mUri2Client s1 = cm_mUri2Client s"
      using new [of "AgentRegisterReq_InstanceID q"] m by simp
    obtain t1 where t1: "t1 = bind_ctx c (CtxClient m)
        (syncEntry_ci A m (AgentRegisterReq_AryEntry q) (addConnection_ci A m c s1))" by simp
    have "t = t1\<lparr>cm_mClientInfo := mput (AgentRegisterReq_InstanceID q) m (cm_mClientInfo t1)\<rparr>"
      using assms None m t1 by (auto simp: register_admit_def Let_def)
    moreover have "same_node s1 t1 \<and> cm_mUri2Client t1 = cm_mUri2Client s1" unfolding t1 by (rule admit)
    ultimately show ?thesis using 1 by (simp add: same_node_def)
  qed
qed

lemma agreed_handleAgentRegister:
  assumes "agreed s"
  shows "agreed (snd (handleAgentRegister A H nNow b ctx s))"
proof -
  have "agreed (AddEntry_cm A H es n (t\<lparr>cm_mTempConnection := m\<rparr>))"
    if "register_admit A nNow q c s = (n, t)" for q c n t es m
    using register_admit_frame [OF that] agreed_frame [OF assms same_node_trans [OF _ same_node_client(3)], of t m]
    by (simp add: agreed_AddEntry)
  then show ?thesis
    using assms by (auto simp: handleAgentRegister_def agreed_reply agreed_AddEntry split: option.splits prod.splits)
qed

end

section \<open>The node manager keeps the contract\<close>

definition own_offers :: "'a NodeManager_scheme \<Rightarrow> string set" where
  "own_offers s = {u. mget (entries s (nm_ptrSelf s)) u \<noteq> None}"

lemma own_update_offers:
  assumes "in_step s" "b \<Longrightarrow> \<not> entryExist E (nm_ptrSelf s) (own_entry u ty b) s"
  shows "own_offers (own_update E u ty b s)
    = (if b then insert (getUri2 E u ty) (own_offers s) else own_offers s - {getUri2 E u ty})"
proof -
  have dom: "own_offers s' = dom (snd (replica s' (nm_ptrSelf s')))" for s' :: "'a NodeManager_scheme"
    by (auto simp: own_offers_def replica_def dom_def)
  have key: "getUri E (own_entry u ty b) = getUri2 E u ty" by (simp add: getUri_def getUri2_def own_entry_def)
  have self: "nm_ptrSelf (own_update E u ty b s) = nm_ptrSelf s"
    by (rule own_update_refines(3)) (use assms in auto)
  have "replica (own_update E u ty b s) (nm_ptrSelf s) = spec_update E [own_entry u ty b] (replica s (nm_ptrSelf s))"
    by (rule own_update_refines(1)) (use assms in auto)
  then have "snd (replica (own_update E u ty b s) (nm_ptrSelf s))
      = spec_entry E (own_entry u ty b) (snd (replica s (nm_ptrSelf s)))"
    by (simp add: spec_update_def)
  then show ?thesis
    unfolding dom self spec_entry_def key by (auto simp: own_entry_def split: if_splits)
qed

lemma AddEntry_offers:
  assumes "in_step s"
  shows "in_step (AddEntry E u ty s) \<and> own_offers (AddEntry E u ty s) = insert (getUri2 E u ty) (own_offers s)"
proof (cases "entryExist E (nm_ptrSelf s) (own_entry u ty True) s")
  case True
  then have "AddEntry E u ty s = s" by (simp add: AddEntry_def own_entry_def Let_def)
  moreover have "getUri2 E u ty \<in> own_offers s"
    using True by (simp add: entryExist_def own_offers_def entries_def getUri_def getUri2_def own_entry_def)
  ultimately show ?thesis using assms by auto
next
  case False
  then show ?thesis
    using own_update_offers [OF assms, of True E u ty] own_update_refines(2) [OF assms, of True E u ty]
    by (simp add: own_update_def)
qed

lemma RemoveEntry_offers:
  assumes "in_step s"
  shows "in_step (RemoveEntry E u ty s) \<and> own_offers (RemoveEntry E u ty s) = own_offers s - {getUri2 E u ty}"
  using own_update_offers [OF assms, of False E u ty] own_update_refines(2) [OF assms, of False E u ty]
  by (simp add: own_update_def)

lemma getUri_ci_eq: "getUri_ci A e = getUri2 (ae_node A) (agent_EntryInfo_URI e) (agent_EntryInfo_EntryType e)"
  by (simp add: getUri_ci_def getUri2_def agent_EntryType_String_def EntryType_String_def
      agent_EntryType_name_def EntryType_name_def)

interpretation nr: node_registry "objNodeHandler A NodeManagerHandler" A in_step own_offers for A
proof unfold_locales
  fix s t :: "'a ClientManager_scheme"
  assume "in_step s" "same_node s t"
  then show "in_step t \<and> own_offers t = own_offers s"
    by (simp add: same_node_def in_step_def own_offers_def entries_def alive_def)
qed (simp_all add: objNodeHandler_def node_manager_handler_def AddEntry_offers RemoveEntry_offers getUri_ci_eq)

end
