(* ===== verification/NodeMessages.thy ===== *)
theory NodeMessages
  imports Replication
begin

text \<open>
  The messages of a node branch by branch: who is let in, what a refused message leaves
  behind, what is gossiped, and when nodes are forgotten.
\<close>

section \<open>Hello\<close>

lemma reply_hello_eq:
  assumes "GetServerConnection ctx = Some c"
  shows "reply_hello E res rsp ctx s =
    (let t = snd (Write c (fst (NewProtocol (ne_pb E) '''' 2 (GetRequestID ctx) (MSayHelloRsp rsp))) s)
     in (Ret res, if res = ''SUCCESS'' then GoTask (THelloKeepAlive ctx) t else t))"
proof -
  obtain b where "NewProtocol (ne_pb E) '''' 2 (GetRequestID ctx) (MSayHelloRsp rsp) = (b, True)"
    by (metis snd_NewProtocol surjective_pairing)
  then show ?thesis using assms by (simp add: reply_hello_def Reply_def Let_def)
qed

text \<open>
  A hello that is not accepted leaves no trace in the node: one that cannot be
  decoded or that arrives at a stopped node changes nothing at all; one whose signature
  does not match, or whose time stamp is more than five seconds old, is answered with
  that reason and otherwise changes nothing but the network.  A hello without node
  information makes the handler panic.
\<close>

lemma hello_refused:
  fixes s :: "'a NodeManager_scheme"
  assumes "GetServerConnection ctx = Some c"
  shows "(Unmarshal_SayHelloReq (ne_pb E) b = None \<longrightarrow>
            handleSayHello E nNow b ctx s = (Ret ''proto_Unmarshal_fail'', s))
    \<and> (Unmarshal_SayHelloReq (ne_pb E) b = Some r \<and> SayHelloReq_NodeInfo r = None \<longrightarrow>
            handleSayHello E nNow b ctx s = (Panics, s))
    \<and> (Unmarshal_SayHelloReq (ne_pb E) b = Some r \<and> SayHelloReq_NodeInfo r = Some i
        \<and> SayHelloReq_Sign r \<noteq> makeSign (ne_szSecretKey E) (NodeInfo_Name i) (SayHelloReq_TimeStamp r) \<longrightarrow>
          (\<exists>t. handleSayHello E nNow b ctx s = (Ret ''ResultCode_SIGN_VALIDATE_FAIL'', t) \<and> quiet s t
            \<and> t = snd (Write c (fst (NewProtocol (ne_pb E) '''' 2 (GetRequestID ctx)
                    (MSayHelloRsp (SayHelloRsp_zero\<lparr>SayHelloRsp_Result := ResultCode_SIGN_VALIDATE_FAIL\<rparr>)))) s)))
    \<and> (Unmarshal_SayHelloReq (ne_pb E) b = Some r \<and> SayHelloReq_NodeInfo r = Some i
        \<and> SayHelloReq_Sign r = makeSign (ne_szSecretKey E) (NodeInfo_Name i) (SayHelloReq_TimeStamp r)
        \<and> gt64 nNow (SayHelloReq_TimeStamp r + 5) \<longrightarrow>
          (\<exists>t. handleSayHello E nNow b ctx s = (Ret ''ResultCode_SIGN_TIMEOUT'', t) \<and> quiet s t))
    \<and> (Unmarshal_SayHelloReq (ne_pb E) b = Some r \<and> SayHelloReq_NodeInfo r = Some i
        \<and> SayHelloReq_Sign r = makeSign (ne_szSecretKey E) (NodeInfo_Name i) (SayHelloReq_TimeStamp r)
        \<and> \<not> gt64 nNow (SayHelloReq_TimeStamp r + 5) \<and> nm_nStatus s \<noteq> 1 \<longrightarrow>
          handleSayHello E nNow b ctx s = (Ret ''node stoped'', s))"
  by (auto simp: handleSayHello_def reply_hello_eq [OF assms] Let_def intro!: quiet_Write)

definition hello_req :: "string \<Rightarrow> SayHelloReq" where
  "hello_req sign = \<lparr>SayHelloReq_NodeInfo = Some \<lparr>NodeInfo_Name = ''b'', NodeInfo_IP = ''10.0.0.2'',
     NodeInfo_Port = 8800, NodeInfo_InstanceID = 9, NodeInfo_AgentPort = 8900\<rparr>,
     SayHelloReq_Sign = sign, SayHelloReq_TimeStamp = 100, SayHelloReq_DataVersion = 0\<rparr>"

definition hello_env :: "string \<Rightarrow> node_env" where
  "hello_env sign = example_env\<lparr>ne_pb := lib_stub\<lparr>Unmarshal_SayHelloReq := \<lambda>_. Some (hello_req sign)\<rparr>\<rparr>"

lemma makeSign_length: "length (makeSign k x t) = 32"
  by (simp add: makeSign_def length_hex_EncodeToString length_hmac_md5)

lemma hello_refused_example:
  "fst (handleSayHello (hello_env ''forged'') 100 [] example_ctx node_a) = Ret ''ResultCode_SIGN_VALIDATE_FAIL''
   \<and> quiet node_a (snd (handleSayHello (hello_env ''forged'') 100 [] example_ctx node_a))"
proof -
  have ctx: "GetServerConnection example_ctx = Some 0"
    by (simp add: example_ctx_def GetServerConnection_def GetRequestContext_def)
  have "makeSign k x t \<noteq> ''forged''" for k x t using makeSign_length [of k x t] by auto
  then have "''forged'' \<noteq> makeSign (ne_szSecretKey (hello_env ''forged'')) ''b'' 100" by metis
  then show ?thesis
    using hello_refused [OF ctx, of "hello_env ''forged''" "[]" 100 node_a "hello_req ''forged''"
        "the (SayHelloReq_NodeInfo (hello_req ''forged''))"]
    by (auto simp: hello_env_def hello_req_def)
qed

text \<open>What admitting a node does.\<close>

lemma sc_Ctx_bind [simp]:
  "sc_Ctx (n_conn (bind_ctx c v s) c') = (if c' = c then Some v else sc_Ctx (n_conn s c'))"
  by (simp add: bind_ctx_def set_conn_def)

lemma bind_ctx_frame [simp]: "net.more (bind_ctx c v s) = net.more s"
  by (simp add: bind_ctx_def set_conn_def)

lemma getInstanceID_setInstanceID [simp]: "getInstanceID n (setInstanceID n i s) = i"
  by (simp add: getInstanceID_def setInstanceID_def)

lemma addConnection_parts:
  "nm_task (addConnection E n c s) = nm_task s"
  "nm_mNodeInfo (addConnection E n c s) = nm_mNodeInfo s"
  "getInstanceID n' (addConnection E n c s) = getInstanceID n' s"
  "nm_mTempConnection (addConnection E n c s) = nm_mTempConnection s"
proof -
  have m: "net.more (Close c s) = net.more s" using quiet_Close [of s c] by (simp add: quiet_def)
  show "nm_task (addConnection E n c s) = nm_task s" "nm_mNodeInfo (addConnection E n c s) = nm_mNodeInfo s"
    "getInstanceID n' (addConnection E n c s) = getInstanceID n' s"
    "nm_mTempConnection (addConnection E n c s) = nm_mTempConnection s"
    using more_nodes [OF m] more_manager [OF more_nodes(6) [OF m]]
    by (simp_all add: addConnection_def set_info_def getInstanceID_def)
qed

lemma bind_ctx_parts [simp]:
  "nm_task (bind_ctx c v s) = nm_task s" "nm_mNodeInfo (bind_ctx c v s) = nm_mNodeInfo s"
  "getInstanceID n (bind_ctx c v s) = getInstanceID n s"
  by (simp_all add: bind_ctx_def set_conn_def getInstanceID_def)

lemma setInstanceID_parts [simp]:
  "nm_task (setInstanceID n i s) = nm_task s" "nm_mNodeInfo (setInstanceID n i s) = nm_mNodeInfo s"
  "n_conn (setInstanceID n i s) = n_conn s"
  by (simp_all add: setInstanceID_def set_info_def)

lemma GoTask_parts [simp]:
  "nm_task (GoTask k s) = nm_task s @ [k]" "nm_mNodeInfo (GoTask k s) = nm_mNodeInfo s"
  "n_conn (GoTask k s) = n_conn s" "getInstanceID n (GoTask k s) = getInstanceID n s"
  by (simp_all add: GoTask_def getInstanceID_def)

lemma newNode_task: "newNode nm ip i p ap now s = (n, t) \<Longrightarrow>
   nm_task t = nm_task s \<and> nm_mNodeInfo t = nm_mNodeInfo s \<and> getInstanceID n t = i"
  by (auto simp: newNode_def Let_def set_info_def getInstanceID_def)

lemma hello_admit_result:
  "\<exists>n. mget (nm_mNodeInfo (hello_admit E nNow i v ctx c s)) (NodeInfo_Name i) = Some n
     \<and> sc_Ctx (n_conn (hello_admit E nNow i v ctx c s) c) = Some (CtxNode n)
     \<and> getInstanceID n (hello_admit E nNow i v ctx c s) = NodeInfo_InstanceID i
     \<and> nm_task (hello_admit E nNow i v ctx c s) = nm_task s @ [TTrySyncAll n v ctx]"
proof (cases "mget (nm_mNodeInfo s) (NodeInfo_Name i)")
  case (Some n)
  then show ?thesis
    by (intro exI [of _ n]) (simp add: hello_admit_def Let_def addConnection_parts)
next
  case None
  obtain n t where new: "newNode (NodeInfo_Name i) (NodeInfo_IP i) (NodeInfo_InstanceID i)
      (ucast (NodeInfo_Port i)) (ucast (NodeInfo_AgentPort i)) nNow s = (n, t)" by fastforce
  have "getInstanceID n (u\<lparr>nm_mNodeInfo := m\<rparr>) = getInstanceID n u" for u :: "'a NodeManager_scheme" and m
    by (simp add: getInstanceID_def)
  then show ?thesis
    using None new newNode_task [OF new]
    by (intro exI [of _ n]) (simp add: hello_admit_def Let_def addConnection_parts)
qed

text \<open>
  C19. A hello that is signed with the shared key and not older than five seconds is
  accepted by a running node: the connection belongs from then on to the one record of
  that name, which carries the sender's instance id, it is no longer among the
  unauthenticated ones, and a synchronisation and the gossip to the sender are due.
\<close>

theorem hello_accepted:
  fixes s :: "'a NodeManager_scheme"
  assumes "GetServerConnection ctx = Some c"
    and "Unmarshal_SayHelloReq (ne_pb E) b = Some r" "SayHelloReq_NodeInfo r = Some i"
    and "SayHelloReq_Sign r = makeSign (ne_szSecretKey E) (NodeInfo_Name i) (SayHelloReq_TimeStamp r)"
    and "\<not> gt64 nNow (SayHelloReq_TimeStamp r + 5)" "nm_nStatus s = 1"
  shows "\<exists>n t. handleSayHello E nNow b ctx s = (Ret ''SUCCESS'', t)
    \<and> mget (nm_mNodeInfo t) (NodeInfo_Name i) = Some n
    \<and> sc_Ctx (n_conn t c) = Some (CtxNode n)
    \<and> getInstanceID n t = NodeInfo_InstanceID i
    \<and> mget (nm_mTempConnection t) c = None
    \<and> nm_task t = nm_task s @ [TTrySyncAll n (SayHelloReq_DataVersion r) ctx, THelloKeepAlive ctx]"
proof -
  let ?h = "hello_admit E nNow i (SayHelloReq_DataVersion r) ctx c s"
  let ?s2 = "?h\<lparr>nm_mTempConnection := mdel c (nm_mTempConnection ?h)\<rparr>"
  let ?t = "snd (Write c (fst (NewProtocol (ne_pb E) '''' 2 (GetRequestID ctx) (MSayHelloRsp
      (SayHelloRsp_zero\<lparr>SayHelloRsp_Sign := makeSign (ne_szSecretKey E) (nm_name s (nm_ptrSelf s)) nNow,
         SayHelloRsp_TimeStamp := nNow, SayHelloRsp_NodeInfo := Some (nm_MyInfo s)\<rparr>)))) ?s2)"
  obtain n where n: "mget (nm_mNodeInfo ?h) (NodeInfo_Name i) = Some n"
    "sc_Ctx (n_conn ?h c) = Some (CtxNode n)" "getInstanceID n ?h = NodeInfo_InstanceID i"
    "nm_task ?h = nm_task s @ [TTrySyncAll n (SayHelloReq_DataVersion r) ctx]"
    using hello_admit_result by blast
  have eq: "handleSayHello E nNow b ctx s = (Ret ''SUCCESS'', GoTask (THelloKeepAlive ctx) ?t)"
    using assms by (simp add: handleSayHello_def reply_hello_eq Let_def)
  have m: "net.more ?t = net.more ?s2" using quiet_Write [of ?s2 c] by (simp add: quiet_def)
  note nm = more_nodes [OF m] more_manager [OF more_nodes(6) [OF m]]
  have ctx: "sc_Ctx (n_conn ?t c) = sc_Ctx (n_conn ?s2 c)"
    by (simp add: Write_def net_upd_defs split: option.split)
  have "getInstanceID n ?t = getInstanceID n ?h" using nm by (simp add: getInstanceID_def)
  then show ?thesis
    unfolding eq using n nm ctx
    by (intro exI [of _ n] exI [of _ "GoTask (THelloKeepAlive ctx) ?t"]) (simp add: GoTask_def getInstanceID_def)
qed

theorem hello_accepted_witness:
  "fst (handleSayHello (hello_env (makeSign ''key'' ''b'' 100)) 104 [] example_ctx node_a) = Ret ''SUCCESS''
   \<and> (\<exists>n. sc_Ctx (n_conn (snd (handleSayHello (hello_env (makeSign ''key'' ''b'' 100)) 104 [] example_ctx node_a)) 0)
        = Some (CtxNode n))"
proof -
  let ?E = "hello_env (makeSign ''key'' ''b'' 100)" and ?r = "hello_req (makeSign ''key'' ''b'' 100)"
  have ctx: "GetServerConnection example_ctx = Some 0"
    by (simp add: example_ctx_def GetServerConnection_def GetRequestContext_def)
  have "\<exists>n t. handleSayHello ?E 104 [] example_ctx node_a = (Ret ''SUCCESS'', t)
      \<and> sc_Ctx (n_conn t 0) = Some (CtxNode n)"
    using hello_accepted [OF ctx, of ?E "[]" ?r "the (SayHelloReq_NodeInfo ?r)" 104 node_a]
    by (auto simp: hello_env_def hello_req_def example_env_def gt64_def node_a_def NewManager_def
        newNode_def Let_def set_info_def)
  then show ?thesis by fastforce
qed

definition hello_good :: "node_env \<Rightarrow> noderef \<Rightarrow> SayHelloRsp \<Rightarrow> 'a nodes_scheme \<Rightarrow> bool" where
  "hello_good E n r s \<longleftrightarrow> SayHelloRsp_Result r = 0 \<and> (\<exists>i. SayHelloRsp_NodeInfo r = Some i
      \<and> SayHelloRsp_Sign r = makeSign (ne_szSecretKey E) (NodeInfo_Name i) (SayHelloRsp_TimeStamp r)
      \<and> NodeInfo_Name i = info_szName (nm_info s n))"

text \<open>
  The other half of the handshake: \<^verbatim>\<open>reconnect\<close> binds the connection to the node only
  when the answer reports success, carries node information signed with the shared key,
  and names the node that was dialled.  Any other answer closes the connection and
  leaves the node's records alone; no answer leaves even the connection open.
\<close>

lemma reconnect_finish_cases:
  shows "reconnect_finish E n c None s = s
    \<and> (\<not> hello_good E n r s \<longrightarrow> reconnect_finish E n c (Some r) s = Close c s)
    \<and> (hello_good E n r s \<longrightarrow> sc_Ctx (n_conn (reconnect_finish E n c (Some r) s) c) = Some (CtxNode n)
        \<and> getInstanceID n (reconnect_finish E n c (Some r) s) = NodeInfo_InstanceID (the (SayHelloRsp_NodeInfo r)))"
proof (intro conjI impI)
  show "reconnect_finish E n c None s = s" by (simp add: reconnect_finish_def)
  show "reconnect_finish E n c (Some r) s = Close c s" if "\<not> hello_good E n r s"
    using that by (auto simp: reconnect_finish_def hello_good_def Let_def split: option.splits)
next
  assume g: "hello_good E n r s"
  then obtain i where i: "SayHelloRsp_NodeInfo r = Some i" "SayHelloRsp_Result r = 0"
    "SayHelloRsp_Sign r = makeSign (ne_szSecretKey E) (NodeInfo_Name i) (SayHelloRsp_TimeStamp r)"
    "NodeInfo_Name i = info_szName (nm_info s n)" by (auto simp: hello_good_def)
  let ?s1 = "addConnection E n c (bind_ctx c (CtxNode n) s)"
  have eq: "reconnect_finish E n c (Some r) s
      = (if NodeInfo_InstanceID i \<noteq> getInstanceID n ?s1 then setInstanceID n (NodeInfo_InstanceID i) ?s1 else ?s1)"
    using i by (simp add: reconnect_finish_def Let_def)
  have "sc_Ctx (n_conn ?s1 c) = Some (CtxNode n)"
    by (simp add: addConnection_def Close_def objConnection_Close_def net_upd_defs set_info_def bind_ctx_def)
  then show "sc_Ctx (n_conn (reconnect_finish E n c (Some r) s) c) = Some (CtxNode n)"
    by (simp add: eq) (simp add: setInstanceID_def set_info_def)
  show "getInstanceID n (reconnect_finish E n c (Some r) s) = NodeInfo_InstanceID (the (SayHelloRsp_NodeInfo r))"
    using i(1) by (simp add: eq)
qed

lemma reconnect_finish_cases_example:
  "reconnect_finish example_env 1 0 (Some (SayHelloRsp_zero\<lparr>SayHelloRsp_Result := 401\<rparr>)) node_b = Close 0 node_b"
  using reconnect_finish_cases [where E = example_env and n = 1 and c = 0 and s = node_b
      and r = "SayHelloRsp_zero\<lparr>SayHelloRsp_Result := 401\<rparr>"] by (simp add: hello_good_def)

section \<open>Connections without a node\<close>

text \<open>
  C29. A connection that has not said hello can do nothing but say hello: every other
  message on it either cannot be decoded and changes nothing, or is refused, and the only
  effect is that closing the connection becomes due.
\<close>

theorem unauthenticated_refused:
  assumes "getNode ctx s = None" "mget (node_router E ch nNow) u = Some h" "u \<noteq> NODE_SAY_HELLO"
  shows "h b ctx s = (Ret ''proto_Unmarshal_fail'', s)
    \<or> h b ctx s = (Ret ''node_not_auth'', GoTask (TCloseConnection ctx) s)"
proof -
  have "h \<in> {handleSayGoodbyeNotify E, handleGetEntryReq E, handleNodeEntryNotify E,
      handleKeepAlive E ch, handleRpcCallReq E, handleRpcCallResp E}"
    using assms(2,3) by (auto simp: node_router_def RegisterRouter_def NewRouter_def split: if_splits)
  then show ?thesis
    using assms(1)
    by (auto simp: handleSayGoodbyeNotify_def handleGetEntryReq_def handleNodeEntryNotify_def
        handleKeepAlive_def handleRpcCallReq_def handleRpcCallResp_def node_not_auth_def split: option.splits)
qed

theorem unauthenticated_refused_witness:
  "handleSayGoodbyeNotify example_env [] example_ctx node_a = (Ret ''proto_Unmarshal_fail'', node_a)
   \<or> handleSayGoodbyeNotify example_env [] example_ctx node_a
       = (Ret ''node_not_auth'', GoTask (TCloseConnection example_ctx) node_a)"
proof (rule unauthenticated_refused)
  show "getNode example_ctx node_a = None"
    by (simp add: getNode_def getNodeByConnection_def example_ctx_def GetServerConnection_def
        GetRequestContext_def node_a_def NewManager_def newNode_def Let_def set_info_def conn_zero_def)
  show "mget (node_router example_env example_choice 0) NODE_SAY_GOOBEY = Some (handleSayGoodbyeNotify example_env)"
    by (simp add: node_router_def RegisterRouter_def NewRouter_def)
qed simp

section \<open>Gossip\<close>

lemma mod_add_inj: "i < N \<Longrightarrow> j < N \<Longrightarrow> (a + i) mod N = (a + j) mod N \<Longrightarrow> i = (j::nat)"
proof (induction i j rule: linorder_wlog)
  case (le i j)
  then have "(a + j) mod N = (a + i) mod N" by simp
  then have "N dvd (a + j) - (a + i)" using le(1) by (simp add: mod_eq_dvd_iff_nat)
  then show ?case using le by (auto dest: dvd_imp_le)
qed simp

text \<open>
  A gossip message carries at most five nodes, all of them known, none twice, and all
  of them when five or fewer are known.
\<close>

lemma gossip_distinct:
  assumes "distinct xs"
  shows "distinct (gossip r xs) \<and> set (gossip r xs) \<subseteq> set xs
    \<and> length (gossip r xs) = min 5 (length xs)
    \<and> (length xs \<le> 5 \<longrightarrow> set (gossip r xs) = set xs)"
proof -
  have len: "length (gossip r xs) = min 5 (length xs)" by (simp add: gossip_def Let_def)
  have sub: "set (gossip r xs) \<subseteq> set xs"
  proof
    fix x assume "x \<in> set (gossip r xs)"
    then obtain i where "i < min 5 (length xs)" "x = xs ! ((rand_Intn r (length xs) + i) mod length xs)"
      by (auto simp: gossip_def Let_def)
    moreover from this have "0 < length xs" by auto
    ultimately show "x \<in> set xs" by (simp add: nth_mem)
  qed
  have "inj_on (\<lambda>i. xs ! ((rand_Intn r (length xs) + i) mod length xs)) {0..<min 5 (length xs)}"
  proof (rule inj_onI)
    fix i j assume ij: "i \<in> {0..<min 5 (length xs)}" "j \<in> {0..<min 5 (length xs)}"
      and eq: "xs ! ((rand_Intn r (length xs) + i) mod length xs) = xs ! ((rand_Intn r (length xs) + j) mod length xs)"
    have "0 < length xs" using ij(1) by auto
    then have "(rand_Intn r (length xs) + i) mod length xs = (rand_Intn r (length xs) + j) mod length xs"
      using eq assms nth_eq_iff_index_eq by (metis mod_less_divisor)
    then show "i = j" using mod_add_inj [of i "length xs" j] ij by auto
  qed
  then have dist: "distinct (gossip r xs)" by (simp add: gossip_def Let_def distinct_map)
  have "length xs \<le> 5 \<Longrightarrow> set (gossip r xs) = set xs"
    using dist sub len assms by (metis card_subset_eq distinct_card List.finite_set min.absorb2)
  then show ?thesis using dist sub len by blast
qed

lemma gossip_distinct_example: "distinct (gossip 4 [1, 2, 3, 4, 5, 6::nat]) \<and> gossip 4 [1, 2, 3, 4, 5, 6::nat] = [5, 6, 1, 2, 3]"
proof -
  have "distinct [1, 2, 3, 4, 5, 6::nat]" by simp
  from gossip_distinct [OF this, of 4] show ?thesis by (simp add: gossip_def rand_Intn_def upt_rec)
qed

section \<open>Forgetting nodes\<close>

lemma deleteNode_parts [simp]:
  "nm_mNodeInfo (deleteNode E n s) = mdel (nm_name s n) (nm_mNodeInfo s)"
  "nm_name (deleteNode E n s) k = nm_name s k"
  "nm_ptrSelf (deleteNode E n s) = nm_ptrSelf s"
  by (simp_all add: deleteNode_def markDead_def Let_def deleteEntry_eq)

lemma deleteNodes_map:
  "mget (nm_mNodeInfo (forEach (deleteNode E) ns s)) k
     = (if k \<in> nm_name s ` set ns then None else mget (nm_mNodeInfo s) k)"
  by (induction ns arbitrary: s) auto

lemma Close_more: "net.more (forEach Close cs s) = net.more s"
  by (induction cs arbitrary: s) (use quiet_Close in \<open>auto simp: quiet_def\<close>)

text \<open>
  The timer forgets exactly the nodes that have been silent for more than fifteen
  seconds, never the own node, and every other node stays in the map under its name.
\<close>

lemma cleanTimeout_exact:
  assumes "node_inv E s"
  shows "mget (nm_mNodeInfo (cleanTimeout E nNow s)) k =
    (case mget (nm_mNodeInfo s) k of
       None \<Rightarrow> None
     | Some n \<Rightarrow> if n \<noteq> nm_ptrSelf s \<and> gt64 nNow (info_nLastKeepAliveTime (nm_info s n) + 15) then None
                 else Some n)"
proof -
  let ?cs = "map fst (filter (\<lambda>(c, nTime). gt64 nNow (nTime + CONNECTION_TIMEOUT)) (nm_mTempConnection s))"
  let ?s1 = "forEach Close ?cs s"
  note m = more_nodes [OF Close_more [of ?cs s]] more_manager [OF more_nodes(6) [OF Close_more [of ?cs s]]]
  let ?ns = "filter (\<lambda>n. n \<noteq> nm_ptrSelf s \<and> timeout nNow 15 n s) (nm_nodes s)"
  have ok: "gomap_ok (nm_mNodeInfo s)" and nm: "\<And>k n. mget (nm_mNodeInfo s) k = Some n \<Longrightarrow> nm_name s n = k"
    using assms by (auto simp: node_inv_def refs_ok_def)
  have "mget (nm_mNodeInfo (cleanTimeout E nNow s)) k
      = (if k \<in> nm_name s ` set ?ns then None else mget (nm_mNodeInfo s) k)"
    using m by (simp add: cleanTimeout_def Let_def deleteNodes_map timeout_def)
  moreover have "k \<in> nm_name s ` set ?ns \<longleftrightarrow>
      (\<exists>n. mget (nm_mNodeInfo s) k = Some n \<and> n \<noteq> nm_ptrSelf s \<and> timeout nNow 15 n s)"
  proof
    assume "k \<in> nm_name s ` set ?ns"
    then obtain n k' where "k = nm_name s n" "n \<noteq> nm_ptrSelf s" "timeout nNow 15 n s" "(k', n) \<in> set (nm_mNodeInfo s)"
      by auto
    then show "\<exists>n. mget (nm_mNodeInfo s) k = Some n \<and> n \<noteq> nm_ptrSelf s \<and> timeout nNow 15 n s"
      using nm gomap_ok_in [OF ok] by metis
  next
    assume "\<exists>n. mget (nm_mNodeInfo s) k = Some n \<and> n \<noteq> nm_ptrSelf s \<and> timeout nNow 15 n s"
    then obtain n where n: "mget (nm_mNodeInfo s) k = Some n" "n \<noteq> nm_ptrSelf s" "timeout nNow 15 n s" by blast
    then have "n \<in> set ?ns" using mget_in_set by force
    then show "k \<in> nm_name s ` set ?ns" using nm [OF n(1)] by blast
  qed
  ultimately show ?thesis by (auto simp: timeout_def split: option.split)
qed

lemma cleanTimeout_exact_example:
  "mget (nm_mNodeInfo (cleanTimeout example_env 1000 node_a)) ''a'' = Some 0"
proof -
  have "node_inv example_env node_a" unfolding node_a_def by (rule node_inv_NewManager)
  moreover have "mget (nm_mNodeInfo node_a) ''a'' = Some 0" "nm_ptrSelf node_a = 0"
    by (simp_all add: example_defs)
  ultimately show ?thesis using cleanTimeout_exact [of example_env node_a 1000 "''a''"] by simp
qed

section \<open>Connections of a node\<close>

text \<open>
  A record never collects more than one connection over the configured maximum: a
  connection is refused, and closed, by a dead record and by one that already holds more
  than the maximum; otherwise it is appended.
\<close>

lemma addConnection_bound:
  "length (info_aryConnectionList (nm_info (addConnection E n c s) n))
     \<le> max (length (info_aryConnectionList (nm_info s n))) (ne_NeighbourMaxConnection E + 1)
   \<and> info_aryConnectionList (nm_info (addConnection E n c s) n) =
       (if alive n s \<and> length (info_aryConnectionList (nm_info s n)) \<le> ne_NeighbourMaxConnection E
        then info_aryConnectionList (nm_info s n) @ [c] else info_aryConnectionList (nm_info s n))
   \<and> sc_bOpen (n_conn (addConnection E n c s) c) =
       (alive n s \<and> length (info_aryConnectionList (nm_info s n)) \<le> ne_NeighbourMaxConnection E
        \<and> sc_bOpen (n_conn s c))"
proof -
  have "nm_info (Close c s) = nm_info s"
    using quiet_Close [of s c] more_nodes(1) [of "Close c s" s] by (simp add: quiet_def)
  moreover have "\<not> sc_bOpen (n_conn (Close c s) c)"
    by (simp add: Close_def objConnection_Close_def net_upd_defs)
  moreover have "n_conn (set_info n v s) = n_conn s" for v by (simp add: set_info_def)
  ultimately show ?thesis by (auto simp: addConnection_def)
qed

section \<open>Records of the same name\<close>

text \<open>
  C34. A goodbye on a connection of a stale record also unroutes the live record of the
  same name: \<^verbatim>\<open>deleteEntry\<close> compares names, not records.  Afterwards the live record still
  holds its entries and its version, so no notification or keep-alive will restore the
  route, and dispatch finds the entry only elsewhere.
\<close>

theorem goodbye_unroutes_namesake:
  assumes "getNode ctx s = Some old" "Unmarshal_SayGoodbyeNotify (ne_pb E) bs = Some m"
    and "old \<noteq> live" "nm_name s old = nm_name s live" "alive live s"
    and "u \<in> getUri E ` set (getAllEntry old s)"
    and "handleSayGoodbyeNotify E bs ctx s = (z, t)"
  shows "live \<notin> set (routes t u) \<and> alive live t \<and> replica t live = replica s live
    \<and> nm_mNodeInfo t = nm_mNodeInfo s"
proof -
  let ?s1 = "set_info old ((nm_info s old)\<lparr>info_nStatus := NODE_STATUS_DEAD\<rparr>) s"
  have all: "getAllEntry old ?s1 = getAllEntry old s" by (simp add: getAllEntry_def)
  have t: "t = deleteEntry E old (getAllEntry old s) ?s1"
    using assms(1,2,7) all by (simp add: handleSayGoodbyeNotify_def markDead_def Let_def)
  have "live \<notin> set (routes t u)"
    unfolding t routes_deleteEntry using assms(3,4,6) by simp
  moreover have "alive live t" "replica t live = replica s live" "nm_mNodeInfo t = nm_mNodeInfo s"
    unfolding t deleteEntry_eq using assms(3,5)
    by (simp_all add: alive_def set_info_def replica_def entries_def)
  ultimately show ?thesis by blast
qed

definition namesake_state :: NodeManager where
  "namesake_state =
     (let e = own_entry ''u'' 2 True;
          s1 = set_info 1 (info_zero\<lparr>info_szName := ''b'', info_nStatus := 1, info_mEntryInfo := [(''u_RPC'', e)]\<rparr>) node_a;
          s2 = set_info 2 (info_zero\<lparr>info_szName := ''b'', info_nStatus := 2, info_mEntryInfo := [(''u_RPC'', e)]\<rparr>) s1
      in bind_ctx 0 (CtxNode 1) (set_route ''u_RPC'' [2] s2))"

theorem goodbye_unroutes_namesake_witness:
  "2 \<in> set (routes namesake_state ''u_RPC'')
   \<and> 2 \<notin> set (routes (snd (handleSayGoodbyeNotify (example_env\<lparr>ne_pb := lib_stub\<lparr>Unmarshal_SayGoodbyeNotify :=
        \<lambda>_. Some SayGoodbyeNotify\<rparr>\<rparr>) [] example_ctx namesake_state)) ''u_RPC'')"
proof -
  let ?E = "example_env\<lparr>ne_pb := lib_stub\<lparr>Unmarshal_SayGoodbyeNotify := \<lambda>_. Some SayGoodbyeNotify\<rparr>\<rparr>"
  have st: "getNode example_ctx namesake_state = Some 1" "nm_name namesake_state 1 = ''b''"
    "nm_name namesake_state 2 = ''b''" "alive 2 namesake_state" "routes namesake_state ''u_RPC'' = [2]"
    "getAllEntry 1 namesake_state = [own_entry ''u'' 2 True]"
    by (simp_all add: namesake_state_def Let_def getNode_def getNodeByConnection_def example_ctx_def
        GetServerConnection_def GetRequestContext_def bind_ctx_def set_conn_def set_route_def alive_def
        routes_def getAllEntry_def set_info_def mgets_def)
  have "getUri ?E (own_entry ''u'' 2 True) = ''u_RPC''"
    by (simp add: getUri_def own_entry_def example_env_def EntryType_String_def lib_stub_def EntryType_name_def)
  then show ?thesis
    using goodbye_unroutes_namesake [OF st(1) _ _ _ st(4) _ surjective_pairing, of ?E "[]" SayGoodbyeNotify "''u_RPC''"]
      st by simp
qed

end
