(* ===== verification/AgentProps.thy ===== *)
theory AgentProps
  imports AgentRegistry NodeMessages
begin

text \<open>
  What the client manager guarantees: which clients are known and routed, what the node
  offers on their behalf, where requests and responses go, and where the code departs
  from that.
\<close>

section \<open>Example states\<close>

definition agent_req :: AgentRegisterReq where
  "agent_req = \<lparr>AgentRegisterReq_InstanceID = ''c1'',
     AgentRegisterReq_AryEntry = [\<lparr>agent_EntryInfo_URI = ''u'', agent_EntryInfo_EntryType = 2\<rparr>],
     AgentRegisterReq_Sign = hex_EncodeToString (hmac_md5 ''key'' (''c1'' @ FormatInt 100)),
     AgentRegisterReq_TimeStamp = 100\<rparr>"

definition agent_env1 :: agent_env where
  "agent_env1 = \<lparr>ae_node = example_env\<lparr>ne_pb := lib_stub\<lparr>Unmarshal_AgentRegisterReq := \<lambda>_. Some agent_req\<rparr>\<rparr>,
     ae_AgentClientMaxConnection = 10, ae_ConnectTimeout = 10, ae_SignTimeout = 5, ae_ClientTimeout = 15\<rparr>"

definition agent_choice1 :: agent_choice where
  "agent_choice1 = \<lparr>ac_node = example_choice, ac_pick = 0, ac_rand = (\<lambda>_. 0), ac_uuid = (\<lambda>_. ''uuid'')\<rparr>"

definition agent_a :: ClientManager where
  "agent_a = RegisterNodeHandler NodeManagerHandler (NewClientManager ''uuid'' ''agent'' node_a)"

definition agent_a1 :: ClientManager where
  "agent_a1 = snd (handleAgentRegister agent_env1 (objNodeHandler agent_env1 NodeManagerHandler) 104 [] example_ctx agent_a)"

lemma agent_a_start: "client_start agent_a"
  unfolding client_start_def agent_a_def using node_a_start by blast

lemma agent_a_reached: "reaches client_start (client_step A) agent_a"
  by (rule reaches_start, rule agent_a_start)

lemma agent_a_parts:
  "cm_mUri2Client agent_a = []" "cm_mClientInfo agent_a = []" "cm_nNextClient agent_a = 1"
  "cm_nStatus agent_a = 1" "cm_objNodeHandler agent_a = NodeManagerHandler" "cm_task agent_a = []"
  "nm_info agent_a = nm_info node_a" "nm_ptrSelf agent_a = nm_ptrSelf node_a"
  "nm_nSequence agent_a = nm_nSequence node_a" "n_conn agent_a = n_conn node_a"
  by (simp_all add: agent_a_def RegisterNodeHandler_def NewClientManager_def NodeManager.extend_def)

lemma example_conn: "GetServerConnection example_ctx = Some 0"
  by (simp add: example_ctx_def GetServerConnection_def GetRequestContext_def)

section \<open>Registration\<close>

lemma reply_cm_eq:
  "GetServerConnection ctx = Some c \<Longrightarrow> reply_cm A r m ctx s
     = (Ret r, snd (Write c (fst (NewProtocol (ae_pb A) '''' 2 (GetRequestID ctx) m)) s))"
  by (simp add: reply_cm_def Reply_def split: prod.split) (metis prod.inject snd_NewProtocol surjective_pairing)

lemma Write_ctx [simp]: "sc_Ctx (n_conn (snd (Write c b s)) c') = sc_Ctx (n_conn s c')"
  by (simp add: Write_def net_upd_defs split: option.split)

lemma Write_client:
  fixes s :: "'a ClientManager_scheme"
  shows "cm_info (snd (Write c b s)) = cm_info s" "cm_mClientInfo (snd (Write c b s)) = cm_mClientInfo s"
    "cm_mUri2Client (snd (Write c b s)) = cm_mUri2Client s"
    "cm_mTempConnection (snd (Write c b s)) = cm_mTempConnection s"
  by (simp_all add: Write_def net_upd_defs split: option.split)

context node_handler
begin

lemma AddEntry_frame:
  "cm_info (AddEntry_cm A H es n s) = cm_info s \<and> cm_mClientInfo (AddEntry_cm A H es n s) = cm_mClientInfo s
   \<and> cm_mTempConnection (AddEntry_cm A H es n s) = cm_mTempConnection s
   \<and> n_conn (AddEntry_cm A H es n s) = n_conn s"
proof -
  have one: "cm_info (AddEntry_one A H n e s) = cm_info s \<and> cm_mClientInfo (AddEntry_one A H n e s) = cm_mClientInfo s
     \<and> cm_mTempConnection (AddEntry_one A H n e s) = cm_mTempConnection s
     \<and> n_conn (AddEntry_one A H n e s) = n_conn s" for e and s :: "'a ClientManager_scheme"
  proof -
    let ?t = "nh_AddEntry H (agent_EntryInfo_URI e) (agent_EntryInfo_EntryType e) s"
    have "NodeManager.more ?t = NodeManager.more s" using nh_add by (simp add: outside_def)
    then show ?thesis
      using more_client [of ?t s] nh_add_conn
      by (simp add: AddEntry_one_def Let_def set_clients_def split: option.split)
  qed
  show ?thesis unfolding AddEntry_cm_def
    by (induction es arbitrary: s) (simp_all add: one)
qed

lemma register_result:
  assumes inv: "client_inv A s" and ctx: "GetServerConnection ctx = Some c"
    and q: "Unmarshal_AgentRegisterReq (ae_pb A) b = Some q"
    and sign: "AgentRegisterReq_Sign q = makeSign_ci A (AgentRegisterReq_InstanceID q) (AgentRegisterReq_TimeStamp q)"
    and new: "\<not> gt64 nNow (AgentRegisterReq_TimeStamp q + ae_SignTimeout A)" "cm_nStatus s = 1"
  shows "\<exists>n t. handleAgentRegister A H nNow b ctx s = (Ret ''SUCCESS'', t)
    \<and> mget (cm_mClientInfo t) (AgentRegisterReq_InstanceID q) = Some n
    \<and> getClient ctx t = Some n \<and> alive_ci n t
    \<and> ci_mEntryInfo (cm_info t n) = forEach (\<lambda>e. mput (getUri_ci A e) e) (AgentRegisterReq_AryEntry q) []
    \<and> (\<forall>e \<in> set (AgentRegisterReq_AryEntry q). n \<in> set (mgets (cm_mUri2Client t) (getUri_ci A e)))
    \<and> mget (cm_mTempConnection t) c = None"
proof -
  let ?es = "AgentRegisterReq_AryEntry q" and ?k = "AgentRegisterReq_InstanceID q"
  obtain n s1 where r: "register_admit A nNow q c s = (n, s1)" by fastforce
  let ?s2 = "s1\<lparr>cm_mTempConnection := mdel c (cm_mTempConnection s1)\<rparr>"
  let ?s3 = "AddEntry_cm A H ?es n ?s2"
  let ?t = "snd (Write c (fst (NewProtocol (ae_pb A) '''' 2 (GetRequestID ctx) (MAgentRegisterRsp
      \<lparr>AgentRegisterRsp_Result = 0, AgentRegisterRsp_Sign = makeSign_ci A (cm_szName s) nNow,
       AgentRegisterRsp_TimeStamp = nNow\<rparr>))) ?s3)"
  have eq: "handleAgentRegister A H nNow b ctx s = (Ret ''SUCCESS'', ?t)"
    using ctx q sign new r by (simp add: handleAgentRegister_def reply_cm_eq [OF ctx])
  have bound: "mget (cm_mClientInfo s1) ?k = Some n \<and> sc_Ctx (n_conn s1 c) = Some (CtxClient n)
      \<and> ci_mEntryInfo (cm_info s1 n) = forEach (\<lambda>e. mput (getUri_ci A e) e) ?es []"
    using r ckeepsD(1) [OF ckeeps_addConnection [of s A n c]]
    by (auto simp: register_admit_def Let_def syncEntry_ci_def set_client_def bind_ctx_def set_conn_def
        split: option.splits prod.splits)
  have inv_t: "client_inv A ?t"
    using client_inv_handleAgentRegister [OF inv, of ctx nNow b] ctx unfolding eq by simp
  have fr: "cm_info ?t = cm_info s1" "cm_mClientInfo ?t = cm_mClientInfo s1"
    "cm_mTempConnection ?t = mdel c (cm_mTempConnection s1)" "sc_Ctx (n_conn ?t c) = sc_Ctx (n_conn s1 c)"
    using AddEntry_frame [of A ?es n ?s2] by (simp_all add: Write_client)
  have known: "mget (cm_mClientInfo ?t) ?k = Some n" using bound fr(2) by simp
  have alive: "alive_ci n ?t"
    using client_inv_known [OF inv_t [unfolded client_inv_def] known] by simp
  have routed: "n \<in> set (mgets (cm_mUri2Client ?t) (getUri_ci A e))" if e: "e \<in> set ?es" for e
  proof -
    have dom: "mget (forEach (\<lambda>e. mput (getUri_ci A e) e) es m) u \<noteq> None"
      if "u \<in> getUri_ci A ` set es \<or> mget m u \<noteq> None" for es m u
      using that by (induction es arbitrary: m) auto
    obtain e' where "mget (ci_mEntryInfo (cm_info ?t n)) (getUri_ci A e) = Some e'"
      using dom [of "getUri_ci A e" ?es "[]"] e bound fr(1) by auto
    from client_inv_routed [OF inv_t [unfolded client_inv_def] known this] show ?thesis by simp
  qed
  have gc: "getClient ctx ?t = Some n"
    using ctx fr(4) bound by (simp add: getClient_def getClientByConnection_def)
  have ents: "ci_mEntryInfo (cm_info ?t n) = forEach (\<lambda>e. mput (getUri_ci A e) e) ?es []"
    using fr(1) bound by simp
  have temp: "mget (cm_mTempConnection ?t) c = None" using fr(3) by simp
  show ?thesis using eq known gc alive ents routed temp by blast
qed

end

text \<open>
  A registration that is signed with the shared key and recent is accepted by a running
  agent: the connection belongs from then on to the one client of that id, the client is
  alive, its entries are exactly the registered ones, it is routed for each of them, and
  the connection is no longer among the unregistered ones.
\<close>

lemma register_accepted:
  assumes "reaches client_start (client_step A) s" and "GetServerConnection ctx = Some c"
    and "Unmarshal_AgentRegisterReq (ae_pb A) b = Some q"
    and "AgentRegisterReq_Sign q = makeSign_ci A (AgentRegisterReq_InstanceID q) (AgentRegisterReq_TimeStamp q)"
    and "\<not> gt64 nNow (AgentRegisterReq_TimeStamp q + ae_SignTimeout A)" "cm_nStatus s = 1"
  shows "\<exists>n t. handleAgentRegister A (objNodeHandler A (cm_objNodeHandler s)) nNow b ctx s = (Ret ''SUCCESS'', t)
    \<and> mget (cm_mClientInfo t) (AgentRegisterReq_InstanceID q) = Some n
    \<and> getClient ctx t = Some n \<and> alive_ci n t
    \<and> ci_mEntryInfo (cm_info t n) = forEach (\<lambda>e. mput (getUri_ci A e) e) (AgentRegisterReq_AryEntry q) []
    \<and> (\<forall>e \<in> set (AgentRegisterReq_AryEntry q). n \<in> set (mgets (cm_mUri2Client t) (getUri_ci A e)))
    \<and> mget (cm_mTempConnection t) c = None"
  using client_system.reachable_inv [OF assms(1)] assms(2-6) by (rule nh.register_result)

lemma agent_req_ok:
  "Unmarshal_AgentRegisterReq (ae_pb agent_env1) b = Some agent_req"
  "AgentRegisterReq_Sign agent_req
     = makeSign_ci agent_env1 (AgentRegisterReq_InstanceID agent_req) (AgentRegisterReq_TimeStamp agent_req)"
  "\<not> gt64 104 (AgentRegisterReq_TimeStamp agent_req + ae_SignTimeout agent_env1)"
  by (simp_all add: agent_env1_def agent_req_def makeSign_ci_def example_env_def gt64_def)

lemma agent_req_key:
  "getUri_ci agent_env1 \<lparr>agent_EntryInfo_URI = ''u'', agent_EntryInfo_EntryType = 2\<rparr> = ''u_RPC''"
  by (simp add: getUri_ci_def agent_env1_def example_env_def lib_stub_def agent_EntryType_String_def
      agent_EntryType_name_def)

lemma register_accepted_example:
  "\<exists>n. mget (cm_mClientInfo agent_a1) ''c1'' = Some n \<and> n \<in> set (mgets (cm_mUri2Client agent_a1) ''u_RPC'')"
  using register_accepted [OF agent_a_reached example_conn agent_req_ok, of "[]"]
  by (auto simp: agent_a_parts agent_a1_def agent_req_def agent_req_key)

section \<open>Which clients are known and routed\<close>

definition agent_packet :: bytes where
  "agent_packet = payload (ae_pb agent_env1) AGENT_REGISTER 1 [] (MAgentRegisterReq agent_req)"

definition agent_a2 :: ClientManager where
  "agent_a2 = snd (client_exec agent_env1 agent_choice1 104 (CevTask 0)
     (snd (client_exec agent_env1 agent_choice1 104 (CevRead 0 agent_packet example_ctx) agent_a)))"

lemma agent_a2_reached: "reaches client_start (client_step agent_env1) agent_a2"
proof -
  let ?s1 = "snd (client_exec agent_env1 agent_choice1 104 (CevRead 0 agent_packet example_ctx) agent_a)"
  have "client_step agent_env1 agent_a ?s1" by (rule client_event [OF prod.collapse [symmetric]])
  moreover have "client_step agent_env1 ?s1 agent_a2"
    unfolding agent_a2_def by (rule client_event [OF prod.collapse [symmetric]])
  ultimately show ?thesis using reaches_step agent_a_reached by metis
qed

lemma agent_a2_eq:
  "agent_a2 = (case getClient example_ctx agent_a1 of
     Some n \<Rightarrow> refreshKeepLiveTime_ci 104 n agent_a1 | None \<Rightarrow> agent_a1)"
proof -
  let ?H = "objNodeHandler agent_env1 NodeManagerHandler"
  let ?rt = "client_router agent_env1 ?H agent_choice1 104 :: ClientManager Router"
  have pk: "read_packet agent_packet = Inr (AGENT_REGISTER, 1, [], Marshal (ae_pb agent_env1) (MAgentRegisterReq agent_req))"
    unfolding agent_packet_def by (rule read_packet_payload) (simp_all add: string_fits_def)
  have idle: "agent_a\<lparr>cm_task := []\<rparr> = agent_a"
    by (simp add: agent_a_def RegisterNodeHandler_def NewClientManager_def NodeManager.extend_def)
  have h: "mget ?rt AGENT_REGISTER = Some (handleAgentRegister agent_env1 ?H 104)"
    by (simp add: client_router_def RegisterRouter_def NewRouter_def)
  have ctx: "GetRequestContext example_ctx = Some (the example_ctx)" "SetRequestID example_ctx [] = example_ctx"
    by (simp_all add: example_ctx_def GetRequestContext_def SetRequestID_def)
  obtain z where reg: "handleAgentRegister agent_env1 ?H 104
      (Marshal (ae_pb agent_env1) (MAgentRegisterReq agent_req)) example_ctx agent_a = (Ret z, agent_a1)"
    using nh.register_result [OF client_system.reachable_inv [OF agent_a_reached] example_conn agent_req_ok,
        of agent_env1 NodeManagerHandler "Marshal (ae_pb agent_env1) (MAgentRegisterReq agent_req)"]
    by (auto simp: agent_a1_def agent_a_parts handleAgentRegister_def agent_req_ok)
  have "Process ?rt agent_packet example_ctx agent_a = (Ret True, agent_a1)"
    using reg by (simp add: Process_def pk ctx fnRouter2Handler_def h)
  then show ?thesis
    by (simp add: agent_a2_def OnRead_cm_def GoTask_cm_def drop_nth_def agent_a_parts run_client_task_def
        process_task_cm_def idle split: option.split)
qed

text \<open>
  Clients are routed soundly: in every reachable state of an agent, whatever the order of
  registrations, losses of connections, timers, requests and whatever the node does, a
  client of the map is alive, carries the id it is stored under, and is on the list of
  every entry it registered; that list holds no client twice.
\<close>

lemma clients_routed:
  assumes "reaches client_start (client_step A) s"
    and "mget (cm_mClientInfo s) k = Some n" "mget (ci_mEntryInfo (cm_info s n)) u = Some e"
  shows "alive_ci n s \<and> getClientInfo n s = k \<and> getUri_ci A e = u
    \<and> n \<in> set (mgets (cm_mUri2Client s) u) \<and> distinct (mgets (cm_mUri2Client s) u)"
proof -
  have inv: "client_inv_upto A {} {} s"
    using client_system.reachable_inv [OF assms(1)] by (simp add: client_inv_def)
  show ?thesis
    using client_inv_known [OF inv assms(2)] client_inv_routed [OF inv assms(2,3)]
      client_inv_distinct [OF inv] by simp
qed

lemma agent_a2_client:
  "\<exists>n e. mget (cm_mClientInfo agent_a2) ''c1'' = Some n
     \<and> mget (ci_mEntryInfo (cm_info agent_a2 n)) ''u_RPC'' = Some e"
proof -
  obtain n where n: "mget (cm_mClientInfo agent_a1) ''c1'' = Some n" "getClient example_ctx agent_a1 = Some n"
    "ci_mEntryInfo (cm_info agent_a1 n)
       = forEach (\<lambda>e. mput (getUri_ci agent_env1 e) e) (AgentRegisterReq_AryEntry agent_req) []"
    using nh.register_result [OF client_system.reachable_inv [OF agent_a_reached] example_conn agent_req_ok,
        of agent_env1 NodeManagerHandler "[]"]
    by (auto simp: agent_a1_def agent_a_parts agent_req_def)
  then show ?thesis
    by (simp add: agent_a2_eq refreshKeepLiveTime_ci_def set_client_def agent_req_def agent_req_key)
qed

lemma clients_routed_example:
  "\<exists>n. mget (cm_mClientInfo agent_a2) ''c1'' = Some n \<and> alive_ci n agent_a2
     \<and> n \<in> set (mgets (cm_mUri2Client agent_a2) ''u_RPC'')"
  using agent_a2_client clients_routed [OF agent_a2_reached] by blast

text \<open>
  A call finds its client: as long as a known client offers the entry, a request for it
  is never answered with \<^verbatim>\<open>ENTRY_NOT_FOUND\<close>; it goes to a client on the list of that
  entry, and requests with the same key go to the same client.
\<close>

lemma call_finds_client:
  assumes "reaches client_start (client_step A) s" "mget (cm_mClientInfo s) k = Some n"
    and "mget (ci_mEntryInfo (cm_info s n))
           (getUri2 (ae_node A) (RpcCallReq_URI r) (RpcCallReq_EntryType r)) = Some e"
  shows "\<exists>m. getClient4RpcCallReq A ch r s = Some m
    \<and> m \<in> set (mgets (cm_mUri2Client s) (getUri2 (ae_node A) (RpcCallReq_URI r) (RpcCallReq_EntryType r)))
    \<and> (RpcCallReq_Key r \<noteq> '''' \<longrightarrow> (\<forall>ch'. getClient4RpcCallReq A ch' r s = Some m))"
proof -
  let ?u = "getUri2 (ae_node A) (RpcCallReq_URI r) (RpcCallReq_EntryType r)"
  have inv: "client_inv_upto A {} {} s"
    using client_system.reachable_inv [OF assms(1)] by (simp add: client_inv_def)
  have "n \<in> set (mgets (cm_mUri2Client s) ?u)" using client_inv_routed [OF inv assms(2,3)] by simp
  then obtain ns where ns: "mget (cm_mUri2Client s) ?u = Some ns" "ns \<noteq> []"
    using mgets_Some by force
  have pos: "m \<noteq> 0" if "m \<in> set ns" for m using client_inv_ref [OF inv, of m ?u] that ns by (simp add: mgets_def)
  let ?pick = "\<lambda>ch. if RpcCallReq_Key r = '''' then pick (ac_pick ch) ns
     else ns ! (string2HashCode (RpcCallReq_Key r) mod length ns)"
  have "?pick c \<in> set ns" for c using ns(2) by simp
  moreover have "getClient4RpcCallReq A c r s = Some (?pick c)" for c
    using ns pos calculation [of c] by (simp add: getClient4RpcCallReq_def getUri2_def Let_def)
  ultimately show ?thesis using ns by (intro exI [of _ "?pick ch"]) (simp add: mgets_def)
qed

definition agent_call :: RpcCallReq where
  "agent_call = \<lparr>RpcCallReq_Data = [], RpcCallReq_URI = ''u'', RpcCallReq_Caller = [], RpcCallReq_RequestMode = 0,
     RpcCallReq_Key = ''key'', RpcCallReq_EntryType = 2\<rparr>"

lemma call_finds_client_example:
  "\<exists>m. \<forall>ch. getClient4RpcCallReq agent_env1 ch agent_call agent_a2 = Some m"
proof -
  have u: "getUri2 (ae_node agent_env1) (RpcCallReq_URI agent_call) (RpcCallReq_EntryType agent_call) = ''u_RPC''"
    by (simp add: agent_call_def agent_env1_def example_env_def getUri2_def lib_stub_def EntryType_String_def
        EntryType_name_def)
  obtain n e where "mget (cm_mClientInfo agent_a2) ''c1'' = Some n"
    "mget (ci_mEntryInfo (cm_info agent_a2 n)) ''u_RPC'' = Some e" using agent_a2_client by blast
  then show ?thesis
    using call_finds_client [OF agent_a2_reached, of "''c1''" n agent_call e agent_choice1] u
    by (auto simp: agent_call_def)
qed

section \<open>What the node offers for them\<close>

text \<open>
  C13. The node offers what its clients offer: when the own node is in step and offers
  exactly the entries that have clients, then so it does after a registration, an
  unregistration, the loss of a connection and the timer, whatever they do: the first
  client of an entry makes the node offer it, and the last one that goes withdraws it.
\<close>

theorem offers_follow_clients:
  fixes s :: "'a ClientManager_scheme"
  assumes "in_step s" "\<And>u. mget (entries s (nm_ptrSelf s)) u \<noteq> None \<longleftrightarrow> mget (cm_mUri2Client s) u \<noteq> None"
    and "t \<in> {snd (handleAgentRegister A (objNodeHandler A NodeManagerHandler) nNow b ctx s),
               snd (handleAgentUnRegister A (objNodeHandler A NodeManagerHandler) b ctx s),
               OnCloseConnection_cm A (objNodeHandler A NodeManagerHandler) c s,
               cleanTimeout_cm A (objNodeHandler A NodeManagerHandler) nNow s}"
  shows "in_step t \<and> (mget (entries t (nm_ptrSelf t)) u \<noteq> None \<longleftrightarrow> mget (cm_mUri2Client t) u \<noteq> None)"
proof -
  have "nr.agreed s" using assms(1,2) by (simp add: nr.agreed_def own_offers_def)
  then have "nr.agreed t"
    using assms(3) nr.agreed_handleAgentRegister [of s A nNow b ctx] nr.agreed_handleAgentUnRegister [of s A b ctx]
      nr.agreed_OnCloseConnection [of s A c] nr.agreed_cleanTimeout [of s A nNow] by blast
  then show ?thesis by (simp add: nr.agreed_def own_offers_def)
qed

theorem offers_follow_clients_witness:
  "in_step agent_a1
   \<and> (mget (entries agent_a1 (nm_ptrSelf agent_a1)) ''u_RPC'' \<noteq> None
        \<longleftrightarrow> mget (cm_mUri2Client agent_a1) ''u_RPC'' \<noteq> None)"
proof -
  have "in_step agent_a" "entries agent_a (nm_ptrSelf agent_a) = []"
    by (simp_all add: in_step_def alive_def agent_a_parts entries_def example_defs)
  then show ?thesis
    using offers_follow_clients [where s = agent_a and t = agent_a1 and A = agent_env1 and nNow = 104
        and b = "[]" and ctx = example_ctx and u = "''u_RPC''"]
    by (simp add: agent_a1_def agent_a_parts)
qed

section \<open>The way back\<close>

lemma find_unique:
  assumes "c \<in> set cs" "P c" "\<And>c'. c' \<in> set cs \<Longrightarrow> P c' \<Longrightarrow> c' = c"
  shows "find P cs = Some c"
proof (cases "find P cs")
  case None
  then show ?thesis using assms(1,2) by (auto simp: find_None_iff)
next
  case (Some x)
  then have "x \<in> set cs \<and> P x" by (auto simp: find_Some_iff)
  then show ?thesis using Some assms(3) by simp
qed

text \<open>A response with the stack entry of an agent is written to the connection that entry names.\<close>

lemma respond_local_returns:
  fixes s :: "'a ClientManager_scheme" and A :: agent_env and c :: connref and r :: RpcCallResp
  assumes "mget (cm_mClientInfo s) k = Some n" "ci_nStatus (cm_info s n) = 2"
    and "c \<in> set (ci_aryConnectionList (cm_info s n))"
    and "\<And>c'. c' \<in> set (ci_aryConnectionList (cm_info s n)) \<Longrightarrow>
           getConnectionID (Some c') s = getConnectionID (Some c) s \<Longrightarrow> c' = c"
    and "utf8_ok k" "utf8_ok q" "utf8_ok (getConnectionID (Some c) s)"
    and "RpcCallResp_Caller r = cs @ [GenAgentCaller k q (getConnectionID (Some c) s)]"
  shows "respond_local A ch r s = (Ret ''SUCCESS'', snd (Write c
     (fst (NewProtocol (ae_pb A) NODE_RPC_RESP 2 q (MRpcCallResp (r\<lparr>RpcCallResp_Caller := cs\<rparr>)))) s))"
proof -
  let ?r = "r\<lparr>RpcCallResp_Caller := cs\<rparr>"
  let ?cl = "Caller_zero\<lparr>Caller_Type := 1, Caller_AgentID := k, Caller_RequestID := q,
      Caller_ConnectionID := getConnectionID (Some c) s\<rparr>"
  have "utf8_ok []" by (simp add: utf8_ok.simps)
  then have json: "json_Unmarshal (GenAgentCaller k q (getConnectionID (Some c) s)) = Some ?cl"
    unfolding GenAgentCaller_def by (intro json_roundtrip) (use assms in \<open>simp add: caller_ok_def Caller_zero_def\<close>)
  have pop: "PopStack r = ((GenAgentCaller k q (getConnectionID (Some c) s), True), ?r)" "snd (GetTopStack r)"
    using assms(8) by (simp_all add: PopStack_def GetTopStack_def)
  have "ci_aryConnectionList (cm_info s n) \<noteq> []" using assms(3) by auto
  then have conn: "getRespConnection (ac_rand ch n) n ?cl s = Some c"
    using find_unique [OF assms(3), of "\<lambda>c'. getConnectionID (Some c') s = getConnectionID (Some c) s"] assms(4)
    by (auto simp: getRespConnection_def Let_def)
  have "rpcResp A ch n ?r ?cl s = Write c (fst (NewProtocol (ae_pb A) NODE_RPC_RESP 2 q (MRpcCallResp ?r))) s"
    using assms(2) conn by (simp add: rpcResp_def sendMessage_def Caller_zero_def split: prod.split)
      (metis fst_conv snd_NewProtocol snd_conv)
  then show ?thesis
    using pop json assms(1) by (simp add: respond_local_def Caller_zero_def)
qed

text \<open>
  C16. A response returns to its caller: when the request of a client came on one of its
  connections and the response carries the caller stack the agent pushed, then, whether the
  response comes from another node or from a client of the same agent, it is written to
  that very connection, with the request id of the request and the caller popped.
\<close>

theorem response_returns:
  fixes s :: "'a ClientManager_scheme" and A :: agent_env and ctx :: ctx and c :: connref
    and r :: RpcCallResp and req :: RpcCallReq
  assumes "mget (cm_mClientInfo s) k = Some n" "getClientInfo n s = k" "ci_nStatus (cm_info s n) = 2"
    and "GetServerConnection ctx = Some c" "c \<in> set (ci_aryConnectionList (cm_info s n))"
    and "\<And>c'. c' \<in> set (ci_aryConnectionList (cm_info s n)) \<Longrightarrow>
           getConnectionID (Some c') s = getConnectionID (Some c) s \<Longrightarrow> c' = c"
    and "utf8_ok k" "utf8_ok (GetRequestID ctx)" "utf8_ok (getConnectionID (Some c) s)"
    and "RpcCallResp_Caller r = RpcCallReq_Caller (PushStack req
           (GenAgentCaller (getClientInfo n s) (GetRequestID ctx) (getConnectionID (GetServerConnection ctx) s)))"
  defines "t \<equiv> snd (Write c (fst (NewProtocol (ae_pb A) NODE_RPC_RESP 2 (GetRequestID ctx)
     (MRpcCallResp (r\<lparr>RpcCallResp_Caller := RpcCallReq_Caller req\<rparr>)))) s)"
  shows "HandleResponse_cm A ch r ctx' s = (Ret (), t) \<and> respond_local A ch r s = (Ret ''SUCCESS'', t)"
proof -
  have "RpcCallResp_Caller r = RpcCallReq_Caller req
      @ [GenAgentCaller k (GetRequestID ctx) (getConnectionID (Some c) s)]"
    using assms(2,4,10) by (simp add: PushStack_def)
  from respond_local_returns [OF assms(1,3,5,6,7,8,9) this] have "respond_local A ch r s = (Ret ''SUCCESS'', t)"
    by (simp add: t_def)
  then show ?thesis by (simp add: HandleResponse_cm_def)
qed

definition agent_b :: ClientManager where
  "agent_b = set_client 1 \<lparr>ci_szInstanceID = ''c1'', ci_aryConnectionList = [0], ci_mEntryInfo = [],
     ci_nStatus = 2, ci_nLastKeepAliveTime = 0\<rparr> (agent_a\<lparr>cm_mClientInfo := [(''c1'', 1)], cm_nNextClient := 2\<rparr>)"

definition agent_answer :: RpcCallResp where
  "agent_answer = (RpcCallResp_failed 0)\<lparr>RpcCallResp_Caller := [GenAgentCaller ''c1'' [] ''_'']\<rparr>"

lemma agent_b_parts:
  "cm_info agent_b 1 = \<lparr>ci_szInstanceID = ''c1'', ci_aryConnectionList = [0], ci_mEntryInfo = [],
     ci_nStatus = 2, ci_nLastKeepAliveTime = 0\<rparr>"
  "cm_mClientInfo agent_b = [(''c1'', 1)]" "getConnectionID (Some 0) agent_b = ''_''"
  by (simp_all add: agent_b_def set_client_def getConnectionID_def agent_a_parts node_a_def NewManager_def Let_def
      newNode_def set_info_def conn_zero_def)

theorem response_returns_witness:
  "HandleResponse_cm agent_env1 agent_choice1 agent_answer None agent_b
     = (Ret (), snd (Write 0 (fst (NewProtocol (ae_pb agent_env1) NODE_RPC_RESP 2 []
          (MRpcCallResp (agent_answer\<lparr>RpcCallResp_Caller := []\<rparr>)))) agent_b))"
proof -
  have "utf8_ok []" "utf8_ok ''c1''" "utf8_ok ''_''" by (simp_all add: utf8_ok.simps utf8_len.simps)
  then show ?thesis
    using response_returns [where s = agent_b and A = agent_env1 and ctx = example_ctx and c = 0
        and r = agent_answer and req = "agent_call" and k = "''c1''" and n = 1 and ch = agent_choice1 and ctx' = None]
    by (simp add: agent_b_parts getClientInfo_def example_conn agent_answer_def PushStack_def agent_call_def
        example_ctx_def GetServerConnection_def GetRequestContext_def GetRequestID_def del: One_nat_def)
qed

section \<open>Where the code departs from its intent\<close>

context node_handler
begin

lemma RemoveEntry_frame:
  "cm_info (RemoveEntry_cm A H es n s) = cm_info s \<and> cm_mClientInfo (RemoveEntry_cm A H es n s) = cm_mClientInfo s
   \<and> (m \<noteq> n \<longrightarrow> m \<in> set (mgets (cm_mUri2Client s) u) \<longrightarrow>
        m \<in> set (mgets (cm_mUri2Client (RemoveEntry_cm A H es n s)) u))"
proof -
  have one: "cm_info (RemoveEntry_one A H n e s) = cm_info s
     \<and> cm_mClientInfo (RemoveEntry_one A H n e s) = cm_mClientInfo s
     \<and> (m \<noteq> n \<longrightarrow> m \<in> set (mgets (cm_mUri2Client s) u) \<longrightarrow>
          m \<in> set (mgets (cm_mUri2Client (RemoveEntry_one A H n e s)) u))" for e and s :: "'a ClientManager_scheme"
  proof -
    let ?u = "getUri_ci A e"
    let ?ns = "filter (\<lambda>n'. n' \<noteq> n) (mgets (cm_mUri2Client s) ?u)"
    let ?s1 = "set_clients ?u ?ns s"
    let ?s2 = "?s1\<lparr>cm_mUri2Client := mdel ?u (cm_mUri2Client ?s1)\<rparr>"
    let ?t = "nh_RemoveEntry H (agent_EntryInfo_URI e) (agent_EntryInfo_EntryType e) ?s2"
    have more: "NodeManager.more ?t = NodeManager.more ?s2" using nh_remove by (simp add: outside_def)
    have t: "cm_info ?t = cm_info s" "cm_mClientInfo ?t = cm_mClientInfo s"
      "cm_mUri2Client ?t = mdel ?u (mput ?u ?ns (cm_mUri2Client s))"
      using more_client [OF more] by (simp_all add: set_clients_def)
    have "m \<in> set (mgets (mdel ?u (mput ?u ?ns (cm_mUri2Client s))) u)"
      if "?ns = []" "m \<noteq> n" "m \<in> set (mgets (cm_mUri2Client s) u)"
      using that by (cases "u = ?u") (auto simp: mgets_def filter_empty_conv)
    moreover have "RemoveEntry_one A H n e s = (if ?ns = [] then ?t else ?s1)"
      by (simp only: RemoveEntry_one_def Let_def)
    ultimately show ?thesis using t by (cases "?ns = []") (simp_all only: if_True if_False, auto)
  qed
  show ?thesis unfolding RemoveEntry_cm_def
    by (induction es arbitrary: s) (simp_all add: one)
qed

lemma deleteClient_stale:
  assumes "getClientInfo n s = k" "m \<noteq> n"
  shows "mget (cm_mClientInfo (deleteClient A H n s)) k = None
    \<and> cm_info (deleteClient A H n s) m = cm_info s m
    \<and> (m \<in> set (mgets (cm_mUri2Client s) u) \<longrightarrow> m \<in> set (mgets (cm_mUri2Client (deleteClient A H n s)) u))"
proof -
  obtain es s1 where mk: "markDead_ci n s = (es, s1)" by (cases "markDead_ci n s")
  let ?s0 = "set_client n ((cm_info s n)\<lparr>ci_nStatus := AGENT_STATUS_DEAD\<rparr>) s"
  let ?cs = "ci_aryConnectionList (cm_info ?s0 n)"
  have s1: "s1 = forEach Close ?cs ?s0" using mk by (simp add: markDead_ci_def Let_def)
  have info: "cm_info s1 = cm_info ?s0"
    using outside_quiet [OF quiet_Closes [of ?s0 ?cs]] more_client [of s1 ?s0] by (simp add: s1 outside_def)
  have "cm_info s1 m = cm_info s m" "ci_szInstanceID (cm_info s1 n) = k" "cm_mUri2Client s1 = cm_mUri2Client s"
    using assms info by (simp_all add: s1 set_client_def getClientInfo_def)
  then show ?thesis
    using RemoveEntry_frame [of A es n s1 m u] assms(2) by (simp add: deleteClient_def mk Let_def)
qed

end

text \<open>
  C35. A late close forgets the live client: when a client has registered again and the last
  connection of its old record closes after that, the agent forgets the client by its id.
  The new record stays alive, with its connections, and stays on the lists of its entries,
  so it still gets requests; but the responses to its own calls are dropped, and the timer
  no longer looks at it.
\<close>

theorem late_close_forgets_client:
  fixes s :: "'a ClientManager_scheme" and A :: agent_env and c :: connref and h :: NodeHandlerRef
  assumes "getClientByConnection c s = Some n" "set (ci_aryConnectionList (cm_info s n)) \<subseteq> {c}"
    and "getClientInfo n s = k" "mget (cm_mClientInfo s) k = Some m" "m \<noteq> n"
  defines "t \<equiv> OnCloseConnection_cm A (objNodeHandler A h) c s"
  shows "mget (cm_mClientInfo t) k = None \<and> cm_info t m = cm_info s m
    \<and> (m \<in> set (mgets (cm_mUri2Client s) u) \<longrightarrow> m \<in> set (mgets (cm_mUri2Client t) u))
    \<and> (RpcCallResp_Caller r = cs @ [GenAgentCaller k q i] \<and> utf8_ok k \<and> utf8_ok q \<and> utf8_ok i \<longrightarrow>
        HandleResponse_cm A ch r ctx t = (Ret (), t))"
proof -
  let ?s1 = "set_client n ((cm_info s n)\<lparr>ci_aryConnectionList := []\<rparr>) s"
  have none: "filter (\<lambda>c'. c' \<noteq> c) (ci_aryConnectionList (cm_info s n)) = []"
    using assms(2) by (auto simp: filter_empty_conv)
  then have t: "t = deleteClient A (objNodeHandler A h) n ?s1"
    using assms(1) by (simp add: t_def OnCloseConnection_cm_def onCloseConnection_ci_def Let_def)
  have gone: "mget (cm_mClientInfo t) k = None \<and> cm_info t m = cm_info s m
      \<and> (m \<in> set (mgets (cm_mUri2Client s) u) \<longrightarrow> m \<in> set (mgets (cm_mUri2Client t) u))"
    using nh.deleteClient_stale [of n ?s1 k m A A h u] assms(3,5)
    by (simp add: t set_client_def getClientInfo_def)
  have "HandleResponse_cm A ch r ctx t = (Ret (), t)"
    if r: "RpcCallResp_Caller r = cs @ [GenAgentCaller k q i]" and u: "utf8_ok k" "utf8_ok q" "utf8_ok i"
  proof -
    have "utf8_ok []" by (simp add: utf8_ok.simps)
    then have "json_Unmarshal (GenAgentCaller k q i) = Some (Caller_zero\<lparr>Caller_Type := 1, Caller_AgentID := k,
        Caller_RequestID := q, Caller_ConnectionID := i\<rparr>)"
      unfolding GenAgentCaller_def by (intro json_roundtrip) (use u in \<open>simp add: caller_ok_def Caller_zero_def\<close>)
    then show ?thesis
      using gone r by (simp add: HandleResponse_cm_def respond_local_def PopStack_def GetTopStack_def Caller_zero_def)
  qed
  then show ?thesis using gone by blast
qed

definition agent_c :: ClientManager where
  "agent_c = bind_ctx 0 (CtxClient 2) (set_client 2 \<lparr>ci_szInstanceID = ''c1'', ci_aryConnectionList = [0], ci_mEntryInfo = [],
     ci_nStatus = 1, ci_nLastKeepAliveTime = 0\<rparr> agent_b)"

theorem late_close_forgets_client_witness:
  "mget (cm_mClientInfo agent_c) ''c1'' = Some 1
   \<and> mget (cm_mClientInfo (OnCloseConnection_cm agent_env1 (objNodeHandler agent_env1 DummyNodeHandler) 0 agent_c)) ''c1''
       = None"
proof -
  have p: "getClientByConnection 0 agent_c = Some 2" "ci_aryConnectionList (cm_info agent_c 2) = [0]"
    "getClientInfo 2 agent_c = ''c1''" "mget (cm_mClientInfo agent_c) ''c1'' = Some 1"
    by (simp_all add: agent_c_def getClientByConnection_def bind_ctx_def set_conn_def set_client_def getClientInfo_def
        agent_b_def)
  show ?thesis
    using late_close_forgets_client [where s = agent_c and A = agent_env1 and c = 0 and h = DummyNodeHandler
        and n = 2 and k = "''c1''" and m = 1] p by simp
qed

text \<open>
  The entry check answers without looking: the reply to a client that asks whether an
  entry exists is the same whatever node stands behind the agent, and always \<^verbatim>\<open>SUCCESS\<close>.
\<close>

lemma entry_check_blind:
  fixes s :: "'a ClientManager_scheme"
  shows "handleEntryCheckReq A H b ctx s = handleEntryCheckReq A H' b ctx s
   \<and> (getClient ctx s = Some n \<and> Unmarshal_AgentEntryCheckReq (ae_pb A) b = Some q \<longrightarrow>
        handleEntryCheckReq A H b ctx s
          = reply_cm A ''SUCCESS'' (MAgentEntryCheckRsp \<lparr>AgentEntryCheckRsp_Result = ResultCode_SUCCESS\<rparr>) ctx s)"
  by (auto simp: handleEntryCheckReq_def Let_def split: option.split)

lemma entry_check_blind_example:
  "handleEntryCheckReq agent_env1 dummy_node_handler [] example_ctx agent_a
     = handleEntryCheckReq agent_env1 (objNodeHandler agent_env1 NodeManagerHandler) [] example_ctx agent_a"
  using entry_check_blind [of agent_env1 dummy_node_handler "[]" example_ctx agent_a] by blast



end
