(* ===== verification/ClientPool.thy ===== *)
theory ClientPool
  imports Rpc
begin

text \<open>
  \<^verbatim>\<open>client/common.go\<close>, \<^verbatim>\<open>client/connect_pool.go\<close> and \<^verbatim>\<open>client/agent_manager.go\<close>: what the
  client library knows about agents.  Each agent has a pool of registered connections;
  one agent is active, and agents that said goodbye are remembered and avoided.

  \<^verbatim>\<open>*AgentConnectPoolInfo\<close> pointers are addresses into a store of the client, and nil is
  \<^term>\<open>None\<close>.  The manager is guarded by a lock, so each of its critical sections is one
  step; where an operation has two, both are definitions of their own.
\<close>

section \<open>Hosts and pools\<close>

record AgentInfo =
  ai_IP :: string
  ai_Port :: uint16

record ConnectionInfo =
  coi_LastKeepaliveTime :: int64
  coi_Connection :: connref
  coi_Host :: string

definition makeHostKeyByIpPort :: "string \<Rightarrow> uint16 \<Rightarrow> string" where
  "makeHostKeyByIpPort szIP nPort = szIP @ '':'' @ FormatUint nPort"

definition makeSign_cl :: "string \<Rightarrow> int64 \<Rightarrow> string \<Rightarrow> string" where
  "makeSign_cl szID nNow szSecretKey = hex_EncodeToString (hmac_md5 szSecretKey (szID @ FormatInt nNow))"

definition ConnectToString :: "connref \<Rightarrow> 'a net_scheme \<Rightarrow> string" where
  "ConnectToString c s = sc_szRemote (n_conn s c) @ ''-'' @ sc_szLocal (n_conn s c)"

record ConnectionPool =
  cp_nInitConnectNum :: int
  cp_nMaxConnectNum :: int
  cp_mConnection :: "(connref, ConnectionInfo) gomap"

record AgentConnectPoolInfo = ConnectionPool +
  cp_AgentInfo :: AgentInfo

definition Init_pool :: "int \<Rightarrow> int \<Rightarrow> AgentInfo \<Rightarrow> AgentConnectPoolInfo" where
  "Init_pool nMaxIdleConnectNum nMaxConnectNum objAgent =
     \<lparr>cp_nInitConnectNum = nMaxIdleConnectNum, cp_nMaxConnectNum = nMaxConnectNum,
      cp_mConnection = [], cp_AgentInfo = objAgent\<rparr>"

definition GetConnectNum :: "'a ConnectionPool_scheme \<Rightarrow> int" where
  "GetConnectNum ptrPool = int (length (cp_mConnection ptrPool))"

definition GetMaxConnectNum :: "'a ConnectionPool_scheme \<Rightarrow> int" where
  "GetMaxConnectNum ptrPool = cp_nMaxConnectNum ptrPool"

definition GetInitConnectNum :: "'a ConnectionPool_scheme \<Rightarrow> int" where
  "GetInitConnectNum ptrPool = cp_nInitConnectNum ptrPool"

text \<open>A \<^verbatim>\<open>range\<close> over the map that stops at the first round yields any of its elements.\<close>

definition GetConnect :: "nat \<Rightarrow> 'a ConnectionPool_scheme \<Rightarrow> ConnectionInfo option" where
  "GetConnect r ptrPool =
     (if cp_mConnection ptrPool = [] then None else Some (pick r (map snd (cp_mConnection ptrPool))))"

definition AddConnect :: "ConnectionInfo \<Rightarrow> 'a ConnectionPool_scheme \<Rightarrow> 'a ConnectionPool_scheme" where
  "AddConnect ptrConnection ptrPool =
     ptrPool\<lparr>cp_mConnection := mput (coi_Connection ptrConnection) ptrConnection (cp_mConnection ptrPool)\<rparr>"

definition ClearConnect_pool :: "connref \<Rightarrow> 'a ConnectionPool_scheme \<Rightarrow> 'a ConnectionPool_scheme" where
  "ClearConnect_pool c ptrPool = ptrPool\<lparr>cp_mConnection := mdel c (cp_mConnection ptrPool)\<rparr>"

definition IsFullConnect :: "'a ConnectionPool_scheme \<Rightarrow> bool" where
  "IsFullConnect ptrPool \<longleftrightarrow> cp_nMaxConnectNum ptrPool \<le> GetConnectNum ptrPool"

definition pool_host :: "AgentConnectPoolInfo \<Rightarrow> string" where
  "pool_host ptrPool = makeHostKeyByIpPort (ai_IP (cp_AgentInfo ptrPool)) (ai_Port (cp_AgentInfo ptrPool))"

section \<open>The agent manager\<close>

type_synonym poolref = nat

record AgentManager =
  am_szActiveAgent :: string
  am_mAgentConnectPool :: "(string, poolref option) gomap"
  am_mAgentGoodByeInfo :: "(string, int64) gomap"
  am_nAgentGoodByeTimeoutS :: int

record pools =
  ps_pool :: "poolref \<Rightarrow> AgentConnectPoolInfo"
  ps_nNextPool :: nat

definition new_pool :: "AgentConnectPoolInfo \<Rightarrow> pools \<Rightarrow> poolref \<times> pools" where
  "new_pool v ps = (ps_nNextPool ps,
     ps\<lparr>ps_pool := (ps_pool ps)(ps_nNextPool ps := v), ps_nNextPool := Suc (ps_nNextPool ps)\<rparr>)"

text \<open>The pool is the value of the map, which may be nil; without a value it is an error.\<close>

definition GetActiveAgentConnectPool :: "AgentManager \<Rightarrow> string + poolref option" where
  "GetActiveAgentConnectPool m =
     (case mget (am_mAgentConnectPool m) (am_szActiveAgent m) of
        Some ptrPool \<Rightarrow> Inr ptrPool
      | None \<Rightarrow>
          if am_szActiveAgent m = '''' then
            Inl (''agent pool not exist agent:'' @ am_szActiveAgent m @ '', need add agent'')
          else Inl (''agent pool not exist agent:'' @ am_szActiveAgent m))"

definition AddAgent :: "string \<Rightarrow> poolref \<Rightarrow> AgentManager \<Rightarrow> bool \<times> AgentManager" where
  "AddAgent szHostKey p m =
     (let m1 = (if am_szActiveAgent m = '''' then m\<lparr>am_szActiveAgent := szHostKey\<rparr> else m);
          bExisted = (mget (am_mAgentConnectPool m1) szHostKey \<noteq> None)
      in (bExisted, if bExisted then m1
                    else m1\<lparr>am_mAgentConnectPool := mput szHostKey (Some p) (am_mAgentConnectPool m1)\<rparr>))"

definition DeleteAgent :: "string \<Rightarrow> AgentManager \<Rightarrow> bool \<times> AgentManager" where
  "DeleteAgent szHostKey m =
     (if am_szActiveAgent m = szHostKey then (False, m)
      else if mget (am_mAgentConnectPool m) szHostKey \<noteq> None then
        (True, m\<lparr>am_mAgentConnectPool := mdel szHostKey (am_mAgentConnectPool m)\<rparr>)
      else (False, m))"

definition GetAgent :: "string \<Rightarrow> AgentManager \<Rightarrow> poolref option option" where
  "GetAgent szHostKey m = mget (am_mAgentConnectPool m) szHostKey"

definition getAgentSize :: "AgentManager \<Rightarrow> nat" where
  "getAgentSize m = length (am_mAgentConnectPool m)"

definition getAllAgentPool :: "AgentManager \<Rightarrow> (string, poolref option) gomap" where
  "getAllAgentPool m = am_mAgentConnectPool m"

text \<open>Taking the address of a field of a nil pointer panics.\<close>

definition getAllAgent :: "AgentManager \<Rightarrow> pools \<Rightarrow> (string, AgentInfo) gomap outcome" where
  "getAllAgent m ps =
     (if None \<in> set (map snd (am_mAgentConnectPool m)) then Panics
      else Ret (map (\<lambda>(szAgent, p). (szAgent, cp_AgentInfo (ps_pool ps (the p)))) (am_mAgentConnectPool m)))"

text \<open>
  \<^verbatim>\<open>UpdateAgent\<close>: the pools of the agents that stay, and a new pool for each new one, are
  gathered from a copy of the map; then, under the lock, the active agent is added if it
  is missing and the map is replaced.
\<close>

definition update_agents :: "AgentInfo list \<Rightarrow> (string, AgentInfo) gomap" where
  "update_agents aryUpdateAgent =
     forEach (\<lambda>a. mput (makeHostKeyByIpPort (ai_IP a) (ai_Port a)) a) aryUpdateAgent []"

definition UpdateAgent_gather ::
  "AgentInfo list \<Rightarrow> int \<Rightarrow> int \<Rightarrow> AgentManager \<Rightarrow> pools \<Rightarrow> (string, poolref option) gomap \<times> pools" where
  "UpdateAgent_gather aryUpdateAgent nMaxIdleConnectNum nMaxConnectNum m ps =
     (let mUpdateAgent = update_agents aryUpdateAgent;
          mCurrentAllAgent = getAllAgentPool m;
          mSame = filter (\<lambda>(k, _). mget mCurrentAllAgent k \<noteq> None) mUpdateAgent;
          mNewAgent = filter (\<lambda>(k, _). mget mCurrentAllAgent k = None) mUpdateAgent;
          mAllAgentPool = map (\<lambda>(k, _). (k, the (mget mCurrentAllAgent k))) mSame
      in forEach (\<lambda>(k, a) (mAll, ps).
           (case new_pool (Init_pool nMaxIdleConnectNum nMaxConnectNum a) ps of
              (p, ps') \<Rightarrow> (mput k (Some p) mAll, ps'))) mNewAgent (mAllAgentPool, ps))"

text \<open>Reading a missing key of a map of pointers gives nil.\<close>

definition UpdateAgent_commit :: "(string, poolref option) gomap \<Rightarrow> AgentManager \<Rightarrow> AgentManager" where
  "UpdateAgent_commit mAllAgentPool m =
     (let szActive = am_szActiveAgent m;
          mAll = (if mget mAllAgentPool szActive = None
                  then mput szActive (case mget (am_mAgentConnectPool m) szActive of
                                        Some ptrPool \<Rightarrow> ptrPool | None \<Rightarrow> None) mAllAgentPool
                  else mAllAgentPool)
      in m\<lparr>am_mAgentConnectPool := mAll\<rparr>)"

definition UpdateAgent ::
  "AgentInfo list \<Rightarrow> int \<Rightarrow> int \<Rightarrow> AgentManager \<Rightarrow> pools \<Rightarrow> AgentManager \<times> pools" where
  "UpdateAgent aryUpdateAgent nMaxIdleConnectNum nMaxConnectNum m ps =
     (case UpdateAgent_gather aryUpdateAgent nMaxIdleConnectNum nMaxConnectNum m ps of
        (mAll, ps') \<Rightarrow> (UpdateAgent_commit mAll m, ps'))"

text \<open>
  \<^verbatim>\<open>SwitchActiveAgent\<close>: any agent of the map that is not active and has not said goodbye is
  found under the read lock, and made active under the write lock.
\<close>

definition SwitchActiveAgent_find :: "nat \<Rightarrow> AgentManager \<Rightarrow> string option" where
  "SwitchActiveAgent_find r m =
     (let others = filter (\<lambda>h. mget (am_mAgentGoodByeInfo m) h = None \<and> h \<noteq> am_szActiveAgent m)
                     (map fst (am_mAgentConnectPool m))
      in if others = [] then None else Some (pick r others))"

definition SwitchActiveAgent_set :: "string \<Rightarrow> AgentManager \<Rightarrow> AgentManager" where
  "SwitchActiveAgent_set szNewAgentHost m = m\<lparr>am_szActiveAgent := szNewAgentHost\<rparr>"

definition SwitchActiveAgent :: "nat \<Rightarrow> AgentManager \<Rightarrow> AgentManager" where
  "SwitchActiveAgent r m =
     (case SwitchActiveAgent_find r m of
        None \<Rightarrow> m | Some szNewAgentHost \<Rightarrow> SwitchActiveAgent_set szNewAgentHost m)"

definition SwitchToOtherAgent :: "nat \<Rightarrow> string \<Rightarrow> AgentManager \<Rightarrow> AgentManager" where
  "SwitchToOtherAgent r szAgentHost m =
     (if szAgentHost = am_szActiveAgent m then SwitchActiveAgent r m else m)"

definition AddGoodByeAgent :: "int64 \<Rightarrow> string \<Rightarrow> AgentManager \<Rightarrow> bool \<times> AgentManager" where
  "AddGoodByeAgent nCurTimestamp szAgentHost m =
     (mget (am_mAgentGoodByeInfo m) szAgentHost \<noteq> None,
      m\<lparr>am_mAgentGoodByeInfo := mput szAgentHost nCurTimestamp (am_mAgentGoodByeInfo m)\<rparr>)"

definition ClearGoodbyeTimeout :: "int64 \<Rightarrow> AgentManager \<Rightarrow> AgentManager" where
  "ClearGoodbyeTimeout nCurTimestamp m =
     (let aryGoodByeTimeoutAgent =
            map fst (filter (\<lambda>(szAgent, nLast).
              gt64 (nLast - nCurTimestamp) (word_of_int (am_nAgentGoodByeTimeoutS m)))
              (am_mAgentGoodByeInfo m))
      in m\<lparr>am_mAgentGoodByeInfo := forEach mdel aryGoodByeTimeoutAgent (am_mAgentGoodByeInfo m)\<rparr>)"

end
