(* ===== verification/ClientLib.thy ===== *)
theory ClientLib
  imports ClientPool
begin

text \<open>
  \<^verbatim>\<open>client/client.go\<close>: the client library.  It keeps registered connections to the active
  agent, calls through them, serves the requests the agent hands it, and moves to another
  agent when one fails or says goodbye.

  Several goroutines run through these functions and block in \<^verbatim>\<open>CallContext.Start\<close>, so the
  functions are cut at their blocking points.  A goroutine between two such points is a
  \<open>ClientThread\<close>, with what its callers still have to do as a continuation; one that
  waits for a response is a \<open>ClientCall\<close>.  A step runs one of them to its next point.
  The results of \<^verbatim>\<open>SyncCall\<close> are appended to \<open>cl_result\<close>.
\<close>

section \<open>State\<close>

text \<open>
  Who called \<^verbatim>\<open>getConnect\<close>: \<^verbatim>\<open>SyncCall\<close> with its URI, marshalled request and time limit,
  \<^verbatim>\<open>agentKeepalive\<close> with the pool it read before, or \<^verbatim>\<open>unregisterSelf\<close>.
\<close>

datatype get_caller = GSyncCall string bytes int64 | GKeepalive poolref | GUnregister

text \<open>
  Who called \<^verbatim>\<open>createConnectAndRegister\<close>: the goroutine that fills the pool,
  \<^verbatim>\<open>getConnect\<close>, or \<^verbatim>\<open>createAgentIdleConnect\<close> with the number still to create and whether
  \<^verbatim>\<open>Start\<close> called it.
\<close>

datatype create_caller = CFill | CGetConnect poolref get_caller | CIdle bool poolref int

datatype ClientThread =
    ThGetConnect get_caller
  | ThGotConnect get_caller "connref option"
  | ThCreate poolref create_caller
  | ThCreated create_caller "connref option"
  | ThIdleConnect bool
  | ThProcess connref bytes ctx
  | ThHandle RpcCallReq ctx
  | ThTimer

datatype client_wait = WaitRegister poolref create_caller | WaitSync | WaitKeepalive poolref

record ClientCall =
  cc_rpc :: nat
  cc_conn :: connref
  cc_szRequestID :: string
  cc_then :: client_wait

record Client = net +
  cl_szInstanceID :: string
  cl_szSecretKey :: string
  cl_ptrRequestContext :: nat
  cl_aryEntry :: "agent_EntryInfo list"
  cl_mRouter :: "(string, bytes \<Rightarrow> ctx \<Rightarrow> bytes) gomap"
  cl_ptrAgentManager :: AgentManager
  cl_pools :: pools
  cl_thread :: "ClientThread list"
  cl_wait :: "ClientCall list"
  cl_result :: "(string \<times> (string + bytes)) list"

definition go :: "ClientThread \<Rightarrow> 'a Client_scheme \<Rightarrow> 'a Client_scheme" where
  "go k s = s\<lparr>cl_thread := cl_thread s @ [k]\<rparr>"

definition wait_call :: "nat \<Rightarrow> connref \<Rightarrow> string \<Rightarrow> client_wait \<Rightarrow> 'a Client_scheme \<Rightarrow> 'a Client_scheme" where
  "wait_call x c q k s =
     s\<lparr>cl_wait := cl_wait s @ [\<lparr>cc_rpc = x, cc_conn = c, cc_szRequestID = q, cc_then = k\<rparr>]\<rparr>"

definition add_result :: "string \<Rightarrow> string + bytes \<Rightarrow> 'a Client_scheme \<Rightarrow> 'a Client_scheme" where
  "add_result szUri r s = s\<lparr>cl_result := cl_result s @ [(szUri, r)]\<rparr>"

abbreviation the_pool :: "'a Client_scheme \<Rightarrow> poolref \<Rightarrow> AgentConnectPoolInfo" where
  "the_pool s p \<equiv> ps_pool (cl_pools s) p"

definition set_pool :: "poolref \<Rightarrow> AgentConnectPoolInfo \<Rightarrow> 'a Client_scheme \<Rightarrow> 'a Client_scheme" where
  "set_pool p v s = s\<lparr>cl_pools := (cl_pools s)\<lparr>ps_pool := (ps_pool (cl_pools s))(p := v)\<rparr>\<rparr>"

definition set_mgr :: "AgentManager \<Rightarrow> 'a Client_scheme \<Rightarrow> 'a Client_scheme" where
  "set_mgr m s = s\<lparr>cl_ptrAgentManager := m\<rparr>"

section \<open>Connections\<close>

text \<open>The pool takes the connection out and closes it; a nil pool in the map panics.\<close>

definition clearConnect :: "connref \<Rightarrow> 'a Client_scheme \<Rightarrow> unit outcome \<times> 'a Client_scheme" where
  "clearConnect c s =
     (case sc_Ctx (n_conn s c) of
        Some (CtxHost szAgentKey) \<Rightarrow>
          (case GetAgent szAgentKey (cl_ptrAgentManager s) of
             None \<Rightarrow> (Ret (), s)
           | Some None \<Rightarrow> (Panics, s)
           | Some (Some p) \<Rightarrow> (Ret (), Close c (set_pool p (ClearConnect_pool c (the_pool s p)) s)))
      | _ \<Rightarrow> (Ret (), s))"

definition register_req :: "int64 \<Rightarrow> 'a Client_scheme \<Rightarrow> AgentRegisterReq" where
  "register_req nNow s =
     \<lparr>AgentRegisterReq_InstanceID = cl_szInstanceID s, AgentRegisterReq_AryEntry = cl_aryEntry s,
      AgentRegisterReq_Sign = makeSign_cl (cl_szInstanceID s) nNow (cl_szSecretKey s),
      AgentRegisterReq_TimeStamp = nNow\<rparr>"

text \<open>\<^verbatim>\<open>register\<close> up to the answer, which it waits for three seconds, and what it makes of the answer.\<close>

definition register_begin ::
  "proto_lib \<Rightarrow> int64 \<Rightarrow> string \<Rightarrow> connref \<Rightarrow> 'a Client_scheme \<Rightarrow> nat option \<times> 'a Client_scheme" where
  [simp]: "register_begin pb nNow szUUID c s =
     (let cc = (NewCall szUUID AGENT_REGISTER (MAgentRegisterReq (register_req nNow s)) (Some c))
                 \<lparr>call_nTimeoutMs := 3000\<rparr>
      in Call_begin pb cc s)"

definition register_failed :: "AgentRegisterRsp option \<Rightarrow> bool" where
  [simp]: "register_failed rsp =
     (case rsp of None \<Rightarrow> True | Some objRsp \<Rightarrow> AgentRegisterRsp_Result objRsp \<noteq> ResultCode_SUCCESS)"

text \<open>
  \<^verbatim>\<open>createConnectAndRegister\<close> up to the answer to the registration: the new connection
  shares the table of waiting calls with all connections of the client.
\<close>

definition createConnectAndRegister ::
  "proto_lib \<Rightarrow> int64 \<Rightarrow> bool \<times> string \<Rightarrow> string \<Rightarrow> poolref \<Rightarrow> create_caller \<Rightarrow> 'a Client_scheme
     \<Rightarrow> 'a Client_scheme" where
  "createConnectAndRegister pb nNow dial szUUID p k s =
     (let a = cp_AgentInfo (the_pool s p);
          fnInit = (\<lambda>c s. (True, SetRequestContext c (cl_ptrRequestContext s) s))
      in case NewClient (fst dial) (snd dial) (ai_IP a) (ai_Port a) [Some fnInit] s of
           (None, s1) \<Rightarrow> go (ThCreated k None) s1
         | (Some c, s1) \<Rightarrow>
             (case register_begin pb nNow szUUID c s1 of
                (None, s2) \<Rightarrow> go (ThCreated k None) (Close c s2)
              | (Some x, s2) \<Rightarrow> wait_call x c szUUID (WaitRegister p k) s2))"

text \<open>The rest of it, for the answer \<^verbatim>\<open>Start\<close> returned (\<^term>\<open>None\<close> for false).\<close>

definition register_finish ::
  "int64 \<Rightarrow> poolref \<Rightarrow> create_caller \<Rightarrow> connref \<Rightarrow> AgentRegisterRsp option \<Rightarrow> 'a Client_scheme
     \<Rightarrow> 'a Client_scheme" where
  "register_finish nNow p k c rsp s =
     (if register_failed rsp
      then go (ThCreated k None) (Close c s)
      else
        let szHost = pool_host (the_pool s p);
            info = \<lparr>coi_LastKeepaliveTime = nNow, coi_Connection = c, coi_Host = szHost\<rparr>;
            s1 = bind_ctx c (CtxHost szHost) (set_pool p (AddConnect info (the_pool s p)) s)
        in go (ThCreated k (Some c)) s1)"

text \<open>The end of \<^verbatim>\<open>getConnect\<close> with a connection: a pool that is not full gets another one.\<close>

definition getConnect_found ::
  "poolref \<Rightarrow> connref \<Rightarrow> get_caller \<Rightarrow> 'a Client_scheme \<Rightarrow> 'a Client_scheme" where
  "getConnect_found p c k s =
     go (ThGotConnect k (Some c)) (if \<not> IsFullConnect (the_pool s p) then go (ThCreate p CFill) s else s)"

definition getConnect ::
  "nat \<Rightarrow> get_caller \<Rightarrow> 'a Client_scheme \<Rightarrow> unit outcome \<times> 'a Client_scheme" where
  "getConnect r k s =
     (case GetActiveAgentConnectPool (cl_ptrAgentManager s) of
        Inl anyErr \<Rightarrow> (Ret (), go (ThGotConnect k None) s)
      | Inr None \<Rightarrow> (Panics, s)
      | Inr (Some p) \<Rightarrow>
          (case GetConnect r (the_pool s p) of
             Some info \<Rightarrow> (Ret (), getConnect_found p (coi_Connection info) k s)
           | None \<Rightarrow> (Ret (), go (ThCreate p (CGetConnect p k)) s)))"

definition createAgentIdleConnect :: "bool \<Rightarrow> 'a Client_scheme \<Rightarrow> unit outcome \<times> 'a Client_scheme" where
  "createAgentIdleConnect bStart s =
     (case GetActiveAgentConnectPool (cl_ptrAgentManager s) of
        Inl anyErr \<Rightarrow> (Ret (), if bStart then go (ThGetConnect GUnregister) s else s)
      | Inr None \<Rightarrow> (Panics, s)
      | Inr (Some p) \<Rightarrow>
          (let nCreatingCount = GetInitConnectNum (the_pool s p) - GetConnectNum (the_pool s p)
           in (Ret (), if 0 < nCreatingCount then go (ThCreate p (CIdle bStart p nCreatingCount)) s else s)))"

text \<open>\<^verbatim>\<open>getConnect\<close> with the connection it asked for, or without one.\<close>

definition connect_created ::
  "nat \<Rightarrow> poolref \<Rightarrow> get_caller \<Rightarrow> connref option \<Rightarrow> 'a Client_scheme \<Rightarrow> 'a Client_scheme" where
  "connect_created r p g res s =
     (case res of
        None \<Rightarrow>
          go (ThGotConnect g None)
            (if GetConnectNum (the_pool s p) \<le> 0
             then set_mgr (SwitchActiveAgent r (cl_ptrAgentManager s)) s else s)
      | Some c \<Rightarrow> getConnect_found p c g s)"

text \<open>A round of the loop of \<^verbatim>\<open>createAgentIdleConnect\<close>; on an error \<^verbatim>\<open>Start\<close> unregisters once more.\<close>

definition idle_created ::
  "bool \<Rightarrow> poolref \<Rightarrow> int \<Rightarrow> connref option \<Rightarrow> 'a Client_scheme \<Rightarrow> 'a Client_scheme" where
  "idle_created bStart p nCreatingCount res s =
     (case res of
        None \<Rightarrow>
          let s1 = go (ThGetConnect GUnregister) s
          in if bStart then go (ThGetConnect GUnregister) s1 else s1
      | Some c \<Rightarrow>
          if 0 < nCreatingCount - 1 then go (ThCreate p (CIdle bStart p (nCreatingCount - 1))) s else s)"

text \<open>Back to whoever called \<^verbatim>\<open>createConnectAndRegister\<close>.\<close>

definition created :: "nat \<Rightarrow> create_caller \<Rightarrow> connref option \<Rightarrow> 'a Client_scheme \<Rightarrow> 'a Client_scheme" where
  "created r k res s =
     (case k of
        CFill \<Rightarrow> s
      | CGetConnect p g \<Rightarrow> connect_created r p g res s
      | CIdle bStart p nCreatingCount \<Rightarrow> idle_created bStart p nCreatingCount res s)"

section \<open>Calls\<close>

definition sync_req :: "string \<Rightarrow> bytes \<Rightarrow> RpcCallReq" where
  "sync_req szUri byteData =
     \<lparr>RpcCallReq_Data = byteData, RpcCallReq_URI = szUri, RpcCallReq_Caller = [],
      RpcCallReq_RequestMode = RequestMode_LOCAL_BETTER, RpcCallReq_Key = '''',
      RpcCallReq_EntryType = EntryType_RPC\<rparr>"

definition SyncCall :: "string \<Rightarrow> bytes \<Rightarrow> int64 \<Rightarrow> 'a Client_scheme \<Rightarrow> 'a Client_scheme" where
  "SyncCall szUri byteData nTimeoutMs s = go (ThGetConnect (GSyncCall szUri byteData nTimeoutMs)) s"

text \<open>\<^verbatim>\<open>SyncCall\<close> after \<^verbatim>\<open>Start\<close>; what it passes to \<^verbatim>\<open>proto.Unmarshal\<close> is the result.\<close>

definition sync_finish ::
  "string \<Rightarrow> connref \<Rightarrow> RpcCallResp option \<Rightarrow> 'a Client_scheme \<Rightarrow> unit outcome \<times> 'a Client_scheme" where
  "sync_finish szUri c rsp s =
     (case rsp of
        None \<Rightarrow>
          (case clearConnect c s of
             (Panics, s1) \<Rightarrow> (Panics, s1)
           | (Ret _, s1) \<Rightarrow> (Ret (), add_result szUri (Inl ''CallContext.Start fail'') s1))
      | Some objAgentRsp \<Rightarrow>
          (Ret (), add_result szUri
             (if RpcCallResp_Result objAgentRsp \<noteq> ResultCode_SUCCESS then Inl ''result not success''
              else Inr (RpcCallResp_Data objAgentRsp)) s))"

definition unregister_req :: "int64 \<Rightarrow> 'a Client_scheme \<Rightarrow> AgentUnRegisterReq" where
  "unregister_req nNow s =
     \<lparr>AgentUnRegisterReq_InstanceID = cl_szInstanceID s, AgentUnRegisterReq_AryEntry = cl_aryEntry s,
      AgentUnRegisterReq_Sign = makeSign_cl (cl_szInstanceID s) nNow (cl_szSecretKey s),
      AgentUnRegisterReq_TimeStamp = nNow\<rparr>"

definition unregister ::
  "proto_lib \<Rightarrow> int64 \<Rightarrow> string \<Rightarrow> connref \<Rightarrow> 'a Client_scheme \<Rightarrow> bool \<times> 'a Client_scheme" where
  "unregister pb nNow szUUID c s =
     Cast_Start pb (NewCast szUUID AGENT_UN_REGISTER (MAgentUnRegisterReq (unregister_req nNow s)) (Some c)) s"

definition clear_goodbyes :: "int64 \<Rightarrow> 'a Client_scheme \<Rightarrow> 'a Client_scheme" where
  "clear_goodbyes nNow s = set_mgr (ClearGoodbyeTimeout nNow (cl_ptrAgentManager s)) s"

definition keepalive_finish ::
  "int64 \<Rightarrow> poolref \<Rightarrow> AgentKeepAliveRsp option \<Rightarrow> 'a Client_scheme \<Rightarrow> 'a Client_scheme" where
  "keepalive_finish nNow p rsp s =
     clear_goodbyes nNow
       (case rsp of
          None \<Rightarrow> s
        | Some objRsp \<Rightarrow>
            let aryUpdateAgent = map (\<lambda>a. \<lparr>ai_IP = agent_AgentInfo_IP a, ai_Port = ucast (agent_AgentInfo_Port a)\<rparr>)
                  (AgentKeepAliveRsp_AryAgent objRsp)
            in (case UpdateAgent aryUpdateAgent (GetInitConnectNum (the_pool s p)) (GetMaxConnectNum (the_pool s p))
                       (cl_ptrAgentManager s) (cl_pools s) of
                  (m, ps) \<Rightarrow> s\<lparr>cl_ptrAgentManager := m, cl_pools := ps\<rparr>))"

text \<open>\<^verbatim>\<open>SyncCall\<close> after \<^verbatim>\<open>getConnect\<close>, up to the answer.\<close>

definition sync_connected ::
  "proto_lib \<Rightarrow> string \<Rightarrow> string \<Rightarrow> bytes \<Rightarrow> int64 \<Rightarrow> connref option \<Rightarrow> 'a Client_scheme
     \<Rightarrow> unit outcome \<times> 'a Client_scheme" where
  "sync_connected pb szUUID szUri byteData nTimeoutMs res s =
     (case res of
        None \<Rightarrow> (Ret (), add_result szUri (Inl ''Client.getConnect err'') s)
      | Some c \<Rightarrow>
          (let cc = (NewCall szUUID NODE_RPC_REQ (MRpcCallReq (sync_req szUri byteData)) (Some c))
                      \<lparr>call_nTimeoutMs := nTimeoutMs\<rparr>
           in case Call_begin pb cc s of
                (None, s1) \<Rightarrow> sync_finish szUri c None s1
              | (Some x, s1) \<Rightarrow> (Ret (), wait_call x c szUUID WaitSync s1)))"

text \<open>\<^verbatim>\<open>keepalive\<close> up to the answer.\<close>

definition keepalive_begin ::
  "proto_lib \<Rightarrow> string \<Rightarrow> connref \<Rightarrow> 'a Client_scheme \<Rightarrow> nat option \<times> 'a Client_scheme" where
  [simp]: "keepalive_begin pb szUUID c s =
     (let cc = (NewCall szUUID AGENT_KEEP_ALIVE
                  (MAgentKeepAliveNotify \<lparr>AgentKeepAliveNotify_AryEntry = cl_aryEntry s\<rparr>) (Some c))
                 \<lparr>call_nTimeoutMs := 3000\<rparr>
      in Call_begin pb cc s)"

text \<open>\<^verbatim>\<open>agentKeepalive\<close> after \<^verbatim>\<open>getConnect\<close>, up to the answer; the timer goes on when it gives up.\<close>

definition keepalive_connected ::
  "proto_lib \<Rightarrow> int64 \<Rightarrow> string \<Rightarrow> poolref \<Rightarrow> connref option \<Rightarrow> 'a Client_scheme \<Rightarrow> 'a Client_scheme" where
  "keepalive_connected pb nNow szUUID p res s =
     (case res of
        None \<Rightarrow> clear_goodbyes nNow s
      | Some c \<Rightarrow>
          (case keepalive_begin pb szUUID c s of
             (None, s1) \<Rightarrow> clear_goodbyes nNow s1
           | (Some x, s1) \<Rightarrow> wait_call x c szUUID (WaitKeepalive p) s1))"

text \<open>\<^verbatim>\<open>unregisterSelf\<close> after \<^verbatim>\<open>getConnect\<close>.\<close>

definition unregister_connected ::
  "proto_lib \<Rightarrow> int64 \<Rightarrow> string \<Rightarrow> connref option \<Rightarrow> 'a Client_scheme \<Rightarrow> 'a Client_scheme" where
  "unregister_connected pb nNow szUUID res s =
     (case res of None \<Rightarrow> s | Some c \<Rightarrow> snd (unregister pb nNow szUUID c s))"

text \<open>Back to whoever called \<^verbatim>\<open>getConnect\<close>.\<close>

definition got_connect ::
  "proto_lib \<Rightarrow> int64 \<Rightarrow> string \<Rightarrow> get_caller \<Rightarrow> connref option \<Rightarrow> 'a Client_scheme
     \<Rightarrow> unit outcome \<times> 'a Client_scheme" where
  "got_connect pb nNow szUUID k res s =
     (case k of
        GSyncCall szUri byteData nTimeoutMs \<Rightarrow> sync_connected pb szUUID szUri byteData nTimeoutMs res s
      | GKeepalive p \<Rightarrow> (Ret (), keepalive_connected pb nNow szUUID p res s)
      | GUnregister \<Rightarrow> (Ret (), unregister_connected pb nNow szUUID res s))"

text \<open>\<^verbatim>\<open>timer\<close>: \<^verbatim>\<open>agentKeepalive\<close> reads the pool first and then asks for a connection.\<close>

definition timer :: "int64 \<Rightarrow> 'a Client_scheme \<Rightarrow> unit outcome \<times> 'a Client_scheme" where
  "timer nNow s =
     (case GetActiveAgentConnectPool (cl_ptrAgentManager s) of
        Inl anyErr \<Rightarrow> (Ret (), clear_goodbyes nNow s)
      | Inr None \<Rightarrow> (Panics, s)
      | Inr (Some p) \<Rightarrow> (Ret (), go (ThGetConnect (GKeepalive p)) s))"

section \<open>Messages of the agent\<close>

text \<open>Not registered URIs are logged and nothing is answered.\<close>

definition handleRpcCallReq_cl ::
  "proto_lib \<Rightarrow> bytes \<Rightarrow> ctx \<Rightarrow> 'a Client_scheme \<Rightarrow> string outcome \<times> 'a Client_scheme" where
  "handleRpcCallReq_cl pb byteData ctx s =
     (case Unmarshal_RpcCallReq pb byteData of
        None \<Rightarrow> (Ret ''proto_Unmarshal_fail'', s)
      | Some objReq \<Rightarrow>
          (Ret ''SUCCESS'',
           if mget (cl_mRouter s) (RpcCallReq_URI objReq) = None then s else go (ThHandle objReq ctx) s))"

definition handle_call ::
  "proto_lib \<Rightarrow> RpcCallReq \<Rightarrow> ctx \<Rightarrow> 'a Client_scheme \<Rightarrow> unit outcome \<times> 'a Client_scheme" where
  "handle_call pb objReq ctx s =
     (case mget (cl_mRouter s) (RpcCallReq_URI objReq) of
        None \<Rightarrow> (Ret (), s)
      | Some fnHandler \<Rightarrow>
          (let aryData = fnHandler (RpcCallReq_Data objReq) ctx;
               objAgentRpcRsp =
                 \<lparr>RpcCallResp_Result = 0, RpcCallResp_Data = aryData, RpcCallResp_URI = RpcCallReq_URI objReq,
                  RpcCallResp_Caller = RpcCallReq_Caller objReq, RpcCallResp_EntryType = RpcCallReq_EntryType objReq\<rparr>
           in case NewProtocol pb NODE_RPC_RESP MSG_TYPE_RESPONE (GetRequestID ctx) (MRpcCallResp objAgentRpcRsp) of
                (byteByte, bSuccess) \<Rightarrow>
                  if bSuccess then
                    (case GetServerConnection ctx of
                       None \<Rightarrow> (Panics, s)
                     | Some c \<Rightarrow> (Ret (), snd (Write c byteByte s)))
                  else (Ret (), s)))"

definition handleSayGoodbyeNotify_cl ::
  "int64 \<Rightarrow> nat \<Rightarrow> bytes \<Rightarrow> ctx \<Rightarrow> 'a Client_scheme \<Rightarrow> string outcome \<times> 'a Client_scheme" where
  "handleSayGoodbyeNotify_cl nNow r byteData ctx s =
     (case GetServerConnection ctx of
        None \<Rightarrow> (Panics, s)
      | Some c \<Rightarrow>
          (let szAgentHost = sc_szRemote (n_conn s c);
               m1 = snd (AddGoodByeAgent nNow szAgentHost (cl_ptrAgentManager s));
               m2 = SwitchToOtherAgent r szAgentHost m1
           in (Ret ''SUCCESS'', go (ThIdleConnect False) (set_mgr m2 s))))"

definition client_routes :: "proto_lib \<Rightarrow> int64 \<Rightarrow> nat \<Rightarrow> ('a Client_scheme) Router" where
  "client_routes pb nNow r =
     snd (RegisterRouter NODE_SAY_GOOBEY (handleSayGoodbyeNotify_cl nNow r)
     (snd (RegisterRouter NODE_RPC_REQ (handleRpcCallReq_cl pb) NewRouter)))"

text \<open>A packet: a response goes to the call that waits for it, anything else to the router.\<close>

definition OnRead_cl :: "connref \<Rightarrow> bytes \<Rightarrow> ctx \<Rightarrow> 'a Client_scheme \<Rightarrow> unit outcome \<times> 'a Client_scheme" where
  "OnRead_cl c byteData ctx s =
     (case read_packet byteData of
        Inl _ \<Rightarrow> (Ret (), s)
      | Inr (szUri, nMsgType, szRequestID, byteBody) \<Rightarrow>
          if nMsgType = MSG_TYPE_RESPONE then
            (case GetServerConnection ctx of
               None \<Rightarrow> (Panics, s)
             | Some c' \<Rightarrow>
                 (case GetRpcContext c' szRequestID s of
                    (Some x, s1) \<Rightarrow> chan_send x byteBody s1
                  | (None, s1) \<Rightarrow> (Ret (), s1)))
          else if nMsgType = MSG_TYPE_REQUEST \<or> nMsgType = MSG_TYPE_CAST then
            (Ret (), go (ThProcess c byteData ctx) s)
          else (Ret (), s))"

definition process_packet ::
  "proto_lib \<Rightarrow> int64 \<Rightarrow> nat \<Rightarrow> connref \<Rightarrow> bytes \<Rightarrow> ctx \<Rightarrow> 'a Client_scheme
     \<Rightarrow> unit outcome \<times> 'a Client_scheme" where
  "process_packet pb nNow r c byteData ctx s =
     (case Process (client_routes pb nNow r) byteData ctx s of
        (Panics, s1) \<Rightarrow> (Panics, s1)
      | (Ret bOk, s1) \<Rightarrow> if bOk then (Ret (), s1) else clearConnect c s1)"

definition OnCloseConnection_cl :: "connref \<Rightarrow> 'a Client_scheme \<Rightarrow> unit outcome \<times> 'a Client_scheme" where
  "OnCloseConnection_cl c s = clearConnect c s"

section \<open>The program around them\<close>

definition HandleRpc ::
  "string \<Rightarrow> (bytes \<Rightarrow> ctx \<Rightarrow> bytes) \<Rightarrow> 'a Client_scheme \<Rightarrow> 'a Client_scheme" where
  "HandleRpc szUri fnHandler s =
     s\<lparr>cl_aryEntry := cl_aryEntry s @ [\<lparr>agent_EntryInfo_URI = szUri, agent_EntryInfo_EntryType = EntryType_RPC\<rparr>],
       cl_mRouter := mput szUri fnHandler (cl_mRouter s)\<rparr>"

text \<open>The manager and the pools \<^verbatim>\<open>NewClient\<close> builds for the agents it is given.\<close>

definition init_agents :: "AgentInfo list \<Rightarrow> int \<Rightarrow> int \<Rightarrow> int \<Rightarrow> AgentManager \<times> pools" where
  "init_agents aryAgentInfo nInitConnectNum nMaxConnectNum nAgentGoodByeTimeoutS =
     forEach (\<lambda>a (m, ps).
         (case new_pool (Init_pool nInitConnectNum nMaxConnectNum a) ps of
            (p, ps') \<Rightarrow> (snd (AddAgent (pool_host (ps_pool ps' p)) p m), ps')))
       aryAgentInfo
       (\<lparr>am_szActiveAgent = '''', am_mAgentConnectPool = [], am_mAgentGoodByeInfo = [],
         am_nAgentGoodByeTimeoutS = nAgentGoodByeTimeoutS\<rparr>,
        \<lparr>ps_pool = (\<lambda>_. Init_pool 0 0 \<lparr>ai_IP = '''', ai_Port = 0\<rparr>), ps_nNextPool = 0\<rparr>)"

definition NewClient_cl ::
  "string \<Rightarrow> string \<Rightarrow> AgentInfo list \<Rightarrow> int \<Rightarrow> int \<Rightarrow> int \<Rightarrow> string + Client" where
  "NewClient_cl szUUID szSecretKey aryAgentInfo nInitConnectNum nMaxConnectNum nAgentGoodByeTimeoutS =
     (case init_agents aryAgentInfo nInitConnectNum nMaxConnectNum nAgentGoodByeTimeoutS of
        (m, ps) \<Rightarrow>
          if getAgentSize m = 0 then Inl ''agent pool list is empty''
          else Inr (net.extend (net_zero\<lparr>n_nextTable := 1\<rparr>)
             \<lparr>cl_szInstanceID = szUUID, cl_szSecretKey = szSecretKey, cl_ptrRequestContext = 0,
              cl_aryEntry = [], cl_mRouter = [], cl_ptrAgentManager = m, cl_pools = ps,
              cl_thread = [], cl_wait = [], cl_result = []\<rparr>))"

definition run_client_thread ::
  "proto_lib \<Rightarrow> int64 \<Rightarrow> bool \<times> string \<Rightarrow> string \<Rightarrow> nat \<Rightarrow> ClientThread \<Rightarrow> 'a Client_scheme
     \<Rightarrow> unit outcome \<times> 'a Client_scheme" where
  "run_client_thread pb nNow dial szUUID r k s =
     (case k of
        ThGetConnect g \<Rightarrow> getConnect r g s
      | ThGotConnect g res \<Rightarrow> got_connect pb nNow szUUID g res s
      | ThCreate p cr \<Rightarrow> (Ret (), createConnectAndRegister pb nNow dial szUUID p cr s)
      | ThCreated cr res \<Rightarrow> (Ret (), created r cr res s)
      | ThIdleConnect bStart \<Rightarrow> createAgentIdleConnect bStart s
      | ThProcess c byteData ctx \<Rightarrow> process_packet pb nNow r c byteData ctx s
      | ThHandle objReq ctx \<Rightarrow> handle_call pb objReq ctx s
      | ThTimer \<Rightarrow> timer nNow s)"

text \<open>
  A waiting call takes a branch of its \<^verbatim>\<open>select\<close> and goes on.  A waiting \<^verbatim>\<open>SyncCall\<close> keeps
  its URI only for its messages, so the result is recorded without it.
\<close>

definition finish_client_call ::
  "proto_lib \<Rightarrow> int64 \<Rightarrow> select \<Rightarrow> ClientCall \<Rightarrow> 'a Client_scheme \<Rightarrow> unit outcome \<times> 'a Client_scheme" where
  "finish_client_call pb nNow sel w s =
     (case cc_then w of
        WaitRegister p k \<Rightarrow>
          (case Call_select (Unmarshal_AgentRegisterRsp pb) sel (cc_conn w) (cc_szRequestID w) (cc_rpc w) s of
             (Panics, s1) \<Rightarrow> (Panics, s1)
           | (Ret rsp, s1) \<Rightarrow> (Ret (), register_finish nNow p k (cc_conn w) rsp s1))
      | WaitSync \<Rightarrow>
          (case Call_select (Unmarshal_RpcCallResp pb) sel (cc_conn w) (cc_szRequestID w) (cc_rpc w) s of
             (Panics, s1) \<Rightarrow> (Panics, s1)
           | (Ret rsp, s1) \<Rightarrow> sync_finish (cc_szRequestID w) (cc_conn w) rsp s1)
      | WaitKeepalive p \<Rightarrow>
          (case Call_select (Unmarshal_AgentKeepAliveRsp pb) sel (cc_conn w) (cc_szRequestID w) (cc_rpc w) s of
             (Panics, s1) \<Rightarrow> (Panics, s1)
           | (Ret rsp, s1) \<Rightarrow> (Ret (), keepalive_finish nNow p rsp s1)))"

end
