(* ===== verification/ClientFacts.thy ===== *)
theory ClientFacts
  imports ClientLib NodeFacts
begin

text \<open>
  What the operations of the client's agent manager do: its well-formedness, the choice
  of another active agent, and the effect of \<^verbatim>\<open>UpdateAgent\<close> on the map of pools.
\<close>

section \<open>What operations of the manager do\<close>

definition manager_ok :: "AgentManager \<Rightarrow> pools \<Rightarrow> bool" where
  "manager_ok m ps \<longleftrightarrow>
     mget (am_mAgentConnectPool m) (am_szActiveAgent m) \<noteq> None
   \<and> (\<forall>h v. mget (am_mAgentConnectPool m) h = Some v \<longrightarrow>
        (\<exists>p. v = Some p \<and> p < ps_nNextPool ps \<and> pool_host (ps_pool ps p) = h))"

lemma manager_okD:
  assumes "manager_ok m ps" "mget (am_mAgentConnectPool m) h = Some v"
  obtains p where "v = Some p" "p < ps_nNextPool ps" "pool_host (ps_pool ps p) = h"
  using assms unfolding manager_ok_def by blast

lemma manager_ok_active:
  assumes "manager_ok m ps"
  obtains p where "GetActiveAgentConnectPool m = Inr (Some p)" "p < ps_nNextPool ps"
    "pool_host (ps_pool ps p) = am_szActiveAgent m"
proof -
  obtain v where v: "mget (am_mAgentConnectPool m) (am_szActiveAgent m) = Some v"
    using assms unfolding manager_ok_def by blast
  obtain p where "v = Some p" "p < ps_nNextPool ps" "pool_host (ps_pool ps p) = am_szActiveAgent m"
    using assms v by (rule manager_okD)
  then show thesis using that [of p] v by (simp add: GetActiveAgentConnectPool_def)
qed

text \<open>The manager may move on to any other set of agents and pools with these laws.\<close>

lemma manager_ok_pools:
  assumes "manager_ok m ps" "ps_nNextPool ps \<le> ps_nNextPool ps'"
    and "\<And>p. p < ps_nNextPool ps \<Longrightarrow> cp_AgentInfo (ps_pool ps' p) = cp_AgentInfo (ps_pool ps p)"
  shows "manager_ok m ps'"
  using assms unfolding manager_ok_def pool_host_def by (metis order_less_le_trans)

lemma SwitchActiveAgent_find_Some:
  "SwitchActiveAgent_find r m = Some h \<Longrightarrow>
     h \<noteq> am_szActiveAgent m \<and> mget (am_mAgentGoodByeInfo m) h = None
     \<and> mget (am_mAgentConnectPool m) h \<noteq> None"
  using pick_in_set [of "filter (\<lambda>h. mget (am_mAgentGoodByeInfo m) h = None \<and> h \<noteq> am_szActiveAgent m)
                     (map fst (am_mAgentConnectPool m))" r]
  by (auto simp: SwitchActiveAgent_find_def Let_def set_mget_dom simp del: pick_in_set split: if_splits)

lemma SwitchActiveAgent_find_None:
  "SwitchActiveAgent_find r m = None \<longleftrightarrow>
     (\<forall>h. h \<noteq> am_szActiveAgent m \<longrightarrow> mget (am_mAgentConnectPool m) h \<noteq> None \<longrightarrow>
        mget (am_mAgentGoodByeInfo m) h \<noteq> None)"
proof -
  have "h \<in> set (map fst (am_mAgentConnectPool m)) \<longleftrightarrow> mget (am_mAgentConnectPool m) h \<noteq> None" for h
    by (simp add: set_mget_dom)
  then show ?thesis
    unfolding SwitchActiveAgent_find_def Let_def filter_empty_conv
    by (simp add: filter_empty_conv del: set_map not_None_eq) blast
qed

lemma SwitchActiveAgent_simps [simp]:
  "am_mAgentConnectPool (SwitchActiveAgent r m) = am_mAgentConnectPool m"
  "am_mAgentGoodByeInfo (SwitchActiveAgent r m) = am_mAgentGoodByeInfo m"
  "am_nAgentGoodByeTimeoutS (SwitchActiveAgent r m) = am_nAgentGoodByeTimeoutS m"
  by (simp_all add: SwitchActiveAgent_def SwitchActiveAgent_set_def split: option.splits)

lemma SwitchActiveAgent_active:
  "am_szActiveAgent (SwitchActiveAgent r m) =
     (case SwitchActiveAgent_find r m of None \<Rightarrow> am_szActiveAgent m | Some h \<Rightarrow> h)"
  by (simp add: SwitchActiveAgent_def SwitchActiveAgent_set_def split: option.splits)

lemma SwitchActiveAgent_goodbye:
  "mget (am_mAgentGoodByeInfo m) h \<noteq> None \<Longrightarrow> am_szActiveAgent m \<noteq> h \<Longrightarrow>
     am_szActiveAgent (SwitchActiveAgent r m) \<noteq> h"
  using SwitchActiveAgent_find_Some [of r m]
  by (auto simp: SwitchActiveAgent_active split: option.splits)

lemma manager_ok_Switch:
  assumes "manager_ok m ps"
  shows "manager_ok (SwitchActiveAgent r m) ps"
  using assms SwitchActiveAgent_find_Some [of r m]
  unfolding manager_ok_def by (auto simp: SwitchActiveAgent_active split: option.splits)

lemma manager_ok_SwitchTo: "manager_ok m ps \<Longrightarrow> manager_ok (SwitchToOtherAgent r h m) ps"
  by (simp add: SwitchToOtherAgent_def manager_ok_Switch)

lemma manager_ok_goodbye: "manager_ok m ps \<Longrightarrow> manager_ok (snd (AddGoodByeAgent n h m)) ps"
  by (simp add: manager_ok_def AddGoodByeAgent_def)

lemma manager_ok_Clear: "manager_ok m ps \<Longrightarrow> manager_ok (ClearGoodbyeTimeout n m) ps"
  by (simp add: manager_ok_def ClearGoodbyeTimeout_def)

text \<open>\<^verbatim>\<open>UpdateAgent\<close>: first the list as a map, then the loop over the new agents.\<close>

definition host_of :: "AgentInfo \<Rightarrow> string" where
  "host_of a = makeHostKeyByIpPort (ai_IP a) (ai_Port a)"

lemma pool_host_Init [simp]: "pool_host (Init_pool i x a) = host_of a"
  by (simp add: pool_host_def Init_pool_def host_of_def)

lemma update_agents_spec:
  shows update_agents_ok: "gomap_ok (update_agents as)"
    and update_agents_Some: "mget (update_agents as) h = Some a \<Longrightarrow> host_of a = h \<and> a \<in> set as"
    and update_agents_None: "mget (update_agents as) h = None \<longleftrightarrow> h \<notin> host_of ` set as"
proof -
  let ?f = "\<lambda>a. mput (host_of a) a"
  have 1: "gomap_ok m \<Longrightarrow> gomap_ok (forEach ?f as m)" for m
    by (induction as arbitrary: m) simp_all
  have 2: "mget (forEach ?f as m) h = Some a \<Longrightarrow> host_of a = h \<and> a \<in> set as \<or> mget m h = Some a" for m
  proof (induction as arbitrary: m)
    case (Cons b as)
    from Cons(1) [of "?f b m"] Cons(2) show ?case by (auto split: if_splits)
  qed simp
  have 3: "mget (forEach ?f as m) h = None \<longleftrightarrow> h \<notin> host_of ` set as \<and> mget m h = None" for m
    by (induction as arbitrary: m) auto
  have eq: "update_agents as = forEach ?f as []"
    unfolding update_agents_def host_of_def ..
  show "gomap_ok (update_agents as)" unfolding eq by (rule 1) simp
  show "mget (update_agents as) h = Some a \<Longrightarrow> host_of a = h \<and> a \<in> set as"
    using 2 [of "[]"] unfolding eq by simp
  show "mget (update_agents as) h = None \<longleftrightarrow> h \<notin> host_of ` set as"
    using 3 [of "[]"] unfolding eq by simp
qed

abbreviation (input) add_new_agent ::
  "int \<Rightarrow> int \<Rightarrow> string \<times> AgentInfo \<Rightarrow> (string, poolref option) gomap \<times> pools
     \<Rightarrow> (string, poolref option) gomap \<times> pools" where
  "add_new_agent i x \<equiv> (\<lambda>(k, a) (mAll, ps).
     case new_pool (Init_pool i x a) ps of (p, ps') \<Rightarrow> (mput k (Some p) mAll, ps'))"

lemma add_new_agents:
  assumes "distinct (map fst xs)" "forEach (add_new_agent i x) xs (m, ps) = (m', ps')"
  shows "ps_nNextPool ps \<le> ps_nNextPool ps'"
    and "p < ps_nNextPool ps \<Longrightarrow> ps_pool ps' p = ps_pool ps p"
    and "h \<notin> fst ` set xs \<Longrightarrow> mget m' h = mget m h"
    and "(h, a) \<in> set xs \<Longrightarrow> \<exists>p. ps_nNextPool ps \<le> p \<and> p < ps_nNextPool ps'
           \<and> mget m' h = Some (Some p) \<and> ps_pool ps' p = Init_pool i x a"
proof -
  have "ps_nNextPool ps \<le> ps_nNextPool ps'
      \<and> (\<forall>p < ps_nNextPool ps. ps_pool ps' p = ps_pool ps p)
      \<and> (\<forall>h. h \<notin> fst ` set xs \<longrightarrow> mget m' h = mget m h)
      \<and> (\<forall>h a. (h, a) \<in> set xs \<longrightarrow> (\<exists>p. ps_nNextPool ps \<le> p \<and> p < ps_nNextPool ps'
           \<and> mget m' h = Some (Some p) \<and> ps_pool ps' p = Init_pool i x a))"
    using assms
  proof (induction xs arbitrary: m ps)
    case (Cons y xs)
    obtain k b where y: "y = (k, b)" by fastforce
    define ps1 where "ps1 = snd (new_pool (Init_pool i x b) ps)"
    have ps1: "ps_nNextPool ps1 = Suc (ps_nNextPool ps)"
      "ps_pool ps1 = (ps_pool ps)(ps_nNextPool ps := Init_pool i x b)"
      by (simp_all add: ps1_def new_pool_def)
    have run: "forEach (add_new_agent i x) xs (mput k (Some (ps_nNextPool ps)) m, ps1) = (m', ps')"
      using Cons(3) by (simp add: y ps1_def new_pool_def)
    have d: "distinct (map fst xs)" "k \<notin> fst ` set xs" using Cons(2) by (simp_all add: y)
    note IH = Cons(1) [OF d(1) run]
    have here: "mget m' k = Some (Some (ps_nNextPool ps))
        \<and> ps_pool ps' (ps_nNextPool ps) = Init_pool i x b \<and> ps_nNextPool ps < ps_nNextPool ps'"
      using IH d(2) by (simp add: ps1)
    show ?case
    proof (intro conjI allI impI)
      show "ps_nNextPool ps \<le> ps_nNextPool ps'" using IH by (simp add: ps1)
      fix p assume "p < ps_nNextPool ps"
      then show "ps_pool ps' p = ps_pool ps p" using IH by (simp add: ps1)
    next
      fix h assume "h \<notin> fst ` set (y # xs)"
      then show "mget m' h = mget m h" using IH by (simp add: y)
    next
      fix h a assume "(h, a) \<in> set (y # xs)"
      then consider "h = k" "a = b" | "(h, a) \<in> set xs" by (auto simp: y)
      then show "\<exists>p. ps_nNextPool ps \<le> p \<and> p < ps_nNextPool ps'
           \<and> mget m' h = Some (Some p) \<and> ps_pool ps' p = Init_pool i x a"
      proof cases
        case 1
        then show ?thesis using here by auto
      next
        case 2
        with IH obtain p where "ps_nNextPool ps1 \<le> p" "p < ps_nNextPool ps'"
          "mget m' h = Some (Some p)" "ps_pool ps' p = Init_pool i x a" by blast
        then show ?thesis by (auto simp: ps1 dest: Suc_leD)
      qed
    qed
  qed simp
  then show "ps_nNextPool ps \<le> ps_nNextPool ps'"
    and "p < ps_nNextPool ps \<Longrightarrow> ps_pool ps' p = ps_pool ps p"
    and "h \<notin> fst ` set xs \<Longrightarrow> mget m' h = mget m h"
    and "(h, a) \<in> set xs \<Longrightarrow> \<exists>p. ps_nNextPool ps \<le> p \<and> p < ps_nNextPool ps'
           \<and> mget m' h = Some (Some p) \<and> ps_pool ps' p = Init_pool i x a"
    by blast+
qed

text \<open>What the loops of \<^verbatim>\<open>UpdateAgent\<close> gather: the pools that stay and a new one for each new agent.\<close>

lemma UpdateAgent_gather_spec:
  assumes g: "UpdateAgent_gather as i x m ps = (mAll, ps')"
  shows "ps_nNextPool ps \<le> ps_nNextPool ps'"
    and "p < ps_nNextPool ps \<Longrightarrow> ps_pool ps' p = ps_pool ps p"
    and "h \<notin> host_of ` set as \<Longrightarrow> mget mAll h = None"
    and "h \<in> host_of ` set as \<Longrightarrow> mget (am_mAgentConnectPool m) h = Some v \<Longrightarrow> mget mAll h = Some v"
    and "h \<in> host_of ` set as \<Longrightarrow> mget (am_mAgentConnectPool m) h = None \<Longrightarrow>
      \<exists>p a. ps_nNextPool ps \<le> p \<and> p < ps_nNextPool ps' \<and> mget mAll h = Some (Some p)
        \<and> ps_pool ps' p = Init_pool i x a \<and> a \<in> set as \<and> host_of a = h"
proof -
  define old new where "old = filter (\<lambda>(k, _). mget (am_mAgentConnectPool m) k \<noteq> None) (update_agents as)"
    and "new = filter (\<lambda>(k, _). mget (am_mAgentConnectPool m) k = None) (update_agents as)"
  define same where "same = map (\<lambda>(k, _). (k, the (mget (am_mAgentConnectPool m) k))) old"
  have ok: "gomap_ok (update_agents as)" by (rule update_agents_ok)
  have sub: "fst ` set (filter P (update_agents as)) \<subseteq> fst ` set (update_agents as)" for P by auto
  have run: "forEach (add_new_agent i x) new (same, ps) = (mAll, ps')"
    using g by (simp add: UpdateAgent_gather_def Let_def getAllAgentPool_def old_def new_def same_def)
  have d: "distinct (map fst new)" "distinct (map fst old)"
    using ok unfolding gomap_ok_def new_def old_def by (simp_all add: distinct_map_filter)
  have in_new: "(h, a) \<in> set new \<longleftrightarrow>
      mget (update_agents as) h = Some a \<and> mget (am_mAgentConnectPool m) h = None" for h a
    using gomap_ok_in [OF ok, of h a] by (auto simp: new_def)
  have in_old: "(h, a) \<in> set old \<longleftrightarrow>
      mget (update_agents as) h = Some a \<and> mget (am_mAgentConnectPool m) h \<noteq> None" for h a
    using gomap_ok_in [OF ok, of h a] by (auto simp: old_def)
  have keys: "map fst same = map fst old" by (simp add: same_def case_prod_beta')
  have same_None: "mget same h = None \<longleftrightarrow> (\<forall>a. (h, a) \<notin> set old)" for h
    using arg_cong [OF keys, of set] by (simp add: map_of_eq_None_iff) force
  note loop = add_new_agents [OF d(1) run]
  show "ps_nNextPool ps \<le> ps_nNextPool ps'" by (rule loop(1))
  show "p < ps_nNextPool ps \<Longrightarrow> ps_pool ps' p = ps_pool ps p" by (rule loop(2))
  have not_new: "mget mAll h = mget same h" if "\<And>a. (h, a) \<notin> set new" for h
    using that by (intro loop(3)) auto
  show "h \<notin> host_of ` set as \<Longrightarrow> mget mAll h = None"
    using not_new [of h] same_None [of h] update_agents_None [of as h] by (simp add: in_new in_old)
  {
    assume "h \<in> host_of ` set as" and v: "mget (am_mAgentConnectPool m) h = Some v"
    then obtain a where a: "mget (update_agents as) h = Some a"
      using update_agents_None [of as h] by auto
    then have "(h, v) \<in> set same"
      using v in_old [of h a] unfolding same_def by force
    moreover have "distinct (map fst same)" using d(2) by (simp add: keys)
    ultimately show "mget mAll h = Some v" using not_new [of h] v by (simp add: in_new)
  }
  {
    assume "h \<in> host_of ` set as" and n: "mget (am_mAgentConnectPool m) h = None"
    then obtain a where a: "mget (update_agents as) h = Some a"
      using update_agents_None [of as h] by auto
    then show "\<exists>p a. ps_nNextPool ps \<le> p \<and> p < ps_nNextPool ps' \<and> mget mAll h = Some (Some p)
        \<and> ps_pool ps' p = Init_pool i x a \<and> a \<in> set as \<and> host_of a = h"
      using loop(4) [of h a] n update_agents_Some [OF a] by (auto simp: in_new)
  }
qed

lemma UpdateAgent_new_pools:
  assumes "UpdateAgent as i x m ps = (m', ps')" "ps_nNextPool ps \<le> p" "p < ps_nNextPool ps'"
  shows "cp_mConnection (ps_pool ps' p) = []"
proof -
  let ?P = "\<lambda>(mAll :: (string, poolref option) gomap, ps1). \<forall>p. ps_nNextPool ps \<le> p \<longrightarrow>
      p < ps_nNextPool ps1 \<longrightarrow> cp_mConnection (ps_pool ps1 p) = []"
  have "?P (forEach (add_new_agent i x) new (mAll, ps))" for new mAll
    by (rule forEach_invariant)
      (auto simp: new_pool_def Init_pool_def less_Suc_eq split: prod.splits)
  then have 1: "forEach (add_new_agent i x) new (mAll, ps) = (m1, ps') \<Longrightarrow> ?thesis" for new mAll m1
    using assms(2,3) by (metis (mono_tags, lifting) case_prod_conv)
  show ?thesis
    using assms(1) unfolding UpdateAgent_def UpdateAgent_gather_def Let_def
    by (auto split: prod.splits dest: 1)
qed

lemma UpdateAgent_simps [simp]:
  "am_szActiveAgent (UpdateAgent_commit mAll m) = am_szActiveAgent m"
  "am_mAgentGoodByeInfo (UpdateAgent_commit mAll m) = am_mAgentGoodByeInfo m"
  "am_nAgentGoodByeTimeoutS (UpdateAgent_commit mAll m) = am_nAgentGoodByeTimeoutS m"
  by (simp_all add: UpdateAgent_commit_def Let_def)

lemma UpdateAgent_commit_pool:
  "mget (am_mAgentConnectPool (UpdateAgent_commit mAll m)) h =
     (if h = am_szActiveAgent m \<and> mget mAll h = None
      then Some (case mget (am_mAgentConnectPool m) h of Some v \<Rightarrow> v | None \<Rightarrow> None)
      else mget mAll h)"
  by (auto simp: UpdateAgent_commit_def Let_def)

lemma manager_ok_UpdateAgent:
  assumes ok: "manager_ok m ps" and u: "UpdateAgent as i x m ps = (m', ps')"
  shows "manager_ok m' ps'"
proof -
  obtain mAll where g: "UpdateAgent_gather as i x m ps = (mAll, ps')" and m': "m' = UpdateAgent_commit mAll m"
    using u by (auto simp: UpdateAgent_def split: prod.splits)
  note gathered = UpdateAgent_gather_spec [OF g]
  have old: "\<exists>p. v = Some p \<and> p < ps_nNextPool ps' \<and> pool_host (ps_pool ps' p) = h"
    if v: "mget (am_mAgentConnectPool m) h = Some v" for h v
  proof -
    obtain p where "v = Some p" "p < ps_nNextPool ps" "pool_host (ps_pool ps p) = h"
      using ok v by (rule manager_okD)
    then show ?thesis using gathered(1) gathered(2) [of p] by auto
  qed
  obtain va where active: "mget (am_mAgentConnectPool m) (am_szActiveAgent m) = Some va"
    using ok unfolding manager_ok_def by blast
  show ?thesis unfolding manager_ok_def
  proof (intro conjI allI impI)
    show "mget (am_mAgentConnectPool m') (am_szActiveAgent m') \<noteq> None"
      by (simp add: m' UpdateAgent_commit_pool)
    fix h v assume v: "mget (am_mAgentConnectPool m') h = Some v"
    show "\<exists>p. v = Some p \<and> p < ps_nNextPool ps' \<and> pool_host (ps_pool ps' p) = h"
    proof (cases "h \<in> host_of ` set as")
      case True
      then show ?thesis
        using v gathered(4) [OF True] gathered(5) [OF True] old [of h]
        by (cases "mget (am_mAgentConnectPool m) h") (auto simp: m' UpdateAgent_commit_pool)
    next
      case False
      then show ?thesis
        using v gathered(3) [OF False] active old [OF active]
        by (auto simp: m' UpdateAgent_commit_pool split: if_splits)
    qed
  qed
qed

end
