(* ===== verification/ClientSystem.thy ===== *)
theory ClientSystem
  imports ClientFacts
begin

text \<open>
  The client library as a transition system, and the invariant of its pools.

  A step runs one goroutine to its next blocking point, completes one waiting call,
  delivers a packet or a lost connection, or is anything the network does by itself.
  The invariant says that no pool pointer dangles or is nil: those held by goroutines
  and waiting calls, and those of the manager, whose keys are the hosts of their pools
  and include the active agent.
\<close>

section \<open>The invariant\<close>

definition get_ok :: "nat \<Rightarrow> get_caller \<Rightarrow> bool" where
  "get_ok N g \<longleftrightarrow> (case g of GKeepalive p \<Rightarrow> p < N | _ \<Rightarrow> True)"

definition create_ok :: "nat \<Rightarrow> create_caller \<Rightarrow> bool" where
  "create_ok N k \<longleftrightarrow> (case k of CFill \<Rightarrow> True | CGetConnect p g \<Rightarrow> p < N \<and> get_ok N g | CIdle _ p _ \<Rightarrow> p < N)"

definition thread_ok :: "nat \<Rightarrow> ClientThread \<Rightarrow> bool" where
  "thread_ok N k \<longleftrightarrow>
     (case k of
        ThGetConnect g \<Rightarrow> get_ok N g
      | ThGotConnect g _ \<Rightarrow> get_ok N g
      | ThCreate p cr \<Rightarrow> p < N \<and> create_ok N cr
      | ThCreated cr _ \<Rightarrow> create_ok N cr
      | _ \<Rightarrow> True)"

definition call_ok :: "nat \<Rightarrow> client_wait \<Rightarrow> bool" where
  "call_ok N w \<longleftrightarrow>
     (case w of WaitRegister p cr \<Rightarrow> p < N \<and> create_ok N cr | WaitSync \<Rightarrow> True | WaitKeepalive p \<Rightarrow> p < N)"

lemmas ref_ok_defs = get_ok_def create_ok_def thread_ok_def call_ok_def

lemma ref_ok_mono:
  "N \<le> M \<Longrightarrow> get_ok N g \<Longrightarrow> get_ok M g"
  "N \<le> M \<Longrightarrow> create_ok N cr \<Longrightarrow> create_ok M cr"
  "N \<le> M \<Longrightarrow> thread_ok N k \<Longrightarrow> thread_ok M k"
  "N \<le> M \<Longrightarrow> call_ok N w \<Longrightarrow> call_ok M w"
  by (auto simp: ref_ok_defs split: get_caller.splits create_caller.splits ClientThread.splits
      client_wait.splits)

definition pools_typed :: "pools \<Rightarrow> bool" where
  "pools_typed ps \<longleftrightarrow> (\<forall>p < ps_nNextPool ps. gomap_ok (cp_mConnection (ps_pool ps p))
     \<and> (\<forall>c info. mget (cp_mConnection (ps_pool ps p)) c = Some info \<longrightarrow>
          coi_Connection info = c \<and> coi_Host info = pool_host (ps_pool ps p)))"

lemma pools_typed_pick:
  assumes "pools_typed ps" "p < ps_nNextPool ps" "GetConnect r (ps_pool ps p) = Some info"
  shows "coi_Host info = pool_host (ps_pool ps p)
    \<and> mget (cp_mConnection (ps_pool ps p)) (coi_Connection info) = Some info"
proof -
  let ?m = "cp_mConnection (ps_pool ps p)"
  have "info \<in> snd ` set ?m"
    using assms(3) pick_in_set [of "map snd ?m" r] by (auto simp: GetConnect_def split: if_splits)
  then obtain c where "(c, info) \<in> set ?m" by force
  moreover have "gomap_ok ?m" using assms(1,2) by (simp add: pools_typed_def)
  ultimately have "mget ?m c = Some info" by (simp add: gomap_ok_in)
  then show ?thesis using assms(1,2) by (auto simp: pools_typed_def)
qed

definition lib_inv :: "'a Client_scheme \<Rightarrow> bool" where
  "lib_inv s \<longleftrightarrow>
     manager_ok (cl_ptrAgentManager s) (cl_pools s) \<and> pools_typed (cl_pools s)
   \<and> (\<forall>k \<in> set (cl_thread s). thread_ok (ps_nNextPool (cl_pools s)) k)
   \<and> (\<forall>w \<in> set (cl_wait s). call_ok (ps_nNextPool (cl_pools s)) (cc_then w))"

lemma lib_invI:
  "manager_ok (cl_ptrAgentManager s) (cl_pools s) \<Longrightarrow> pools_typed (cl_pools s) \<Longrightarrow>
   (\<And>k. k \<in> set (cl_thread s) \<Longrightarrow> thread_ok (ps_nNextPool (cl_pools s)) k) \<Longrightarrow>
   (\<And>w. w \<in> set (cl_wait s) \<Longrightarrow> call_ok (ps_nNextPool (cl_pools s)) (cc_then w)) \<Longrightarrow> lib_inv s"
  by (simp add: lib_inv_def)

lemma lib_invD:
  assumes "lib_inv s"
  shows "manager_ok (cl_ptrAgentManager s) (cl_pools s)" "pools_typed (cl_pools s)"
    "k \<in> set (cl_thread s) \<Longrightarrow> thread_ok (ps_nNextPool (cl_pools s)) k"
    "w \<in> set (cl_wait s) \<Longrightarrow> call_ok (ps_nNextPool (cl_pools s)) (cc_then w)"
  using assms by (simp_all add: lib_inv_def)

text \<open>The active pool of a state that satisfies the invariant.\<close>

lemma lib_inv_active:
  assumes "lib_inv s"
  obtains p where "GetActiveAgentConnectPool (cl_ptrAgentManager s) = Inr (Some p)"
    "p < ps_nNextPool (cl_pools s)" "pool_host (the_pool s p) = am_szActiveAgent (cl_ptrAgentManager s)"
  using lib_invD(1) [OF assms] by (rule manager_ok_active)

section \<open>Every operation keeps it\<close>

lemma more_lib:
  fixes s t :: "'a Client_scheme"
  assumes "net.more t = net.more s"
  shows "cl_ptrAgentManager t = cl_ptrAgentManager s" "cl_pools t = cl_pools s"
    "cl_thread t = cl_thread s" "cl_wait t = cl_wait s" "cl_result t = cl_result s"
    "cl_mRouter t = cl_mRouter s" "cl_ptrRequestContext t = cl_ptrRequestContext s"
  using assms by (cases s; cases t; simp)+

abbreviation nPools :: "'a Client_scheme \<Rightarrow> nat" where
  "nPools s \<equiv> ps_nNextPool (cl_pools s)"

lemma nPools_quiet:
  fixes s :: "'a Client_scheme"
  shows "quiet s t \<Longrightarrow> nPools t = nPools s"
  using more_lib [of t s] by (simp add: quiet_def)

lemma lib_inv_quiet:
  fixes s :: "'a Client_scheme"
  assumes "lib_inv s" "quiet s t"
  shows "lib_inv t"
  using assms more_lib [of t s] by (simp add: quiet_def lib_inv_def)

named_theorems lib_intros \<open>operations keep the invariant of the client library\<close>

lemma lib_inv_go [lib_intros]: "lib_inv s \<Longrightarrow> thread_ok (nPools s) k \<Longrightarrow> lib_inv (go k s)"
  by (auto simp: lib_inv_def go_def)

lemma lib_inv_wait_call [lib_intros]:
  "lib_inv s \<Longrightarrow> call_ok (nPools s) k \<Longrightarrow> lib_inv (wait_call x c q k s)"
  by (auto simp: lib_inv_def wait_call_def)

lemma lib_inv_misc [lib_intros]:
  "lib_inv s \<Longrightarrow> lib_inv (add_result u r s)"
  "lib_inv s \<Longrightarrow> lib_inv (HandleRpc u f s)"
  "lib_inv s \<Longrightarrow> lib_inv (Close c s)"
  "lib_inv s \<Longrightarrow> lib_inv (bind_ctx c v s)"
  by (simp_all add: lib_inv_def add_result_def HandleRpc_def Close_def objConnection_Close_def
      bind_ctx_def net_upd_defs)

lemma nPools_simps [simp]:
  "nPools (go k s) = nPools s" "nPools (wait_call x c q w s) = nPools s" "nPools (add_result u r s) = nPools s"
  "nPools (Close c s) = nPools s" "nPools (set_pool p v s) = nPools s" "nPools (set_mgr m s) = nPools s"
  by (simp_all add: go_def wait_call_def add_result_def Close_def objConnection_Close_def set_pool_def
      set_mgr_def net_upd_defs)

lemma lib_inv_set_mgr [lib_intros]: "lib_inv s \<Longrightarrow> manager_ok m (cl_pools s) \<Longrightarrow> lib_inv (set_mgr m s)"
  by (simp add: lib_inv_def set_mgr_def)

lemma lib_inv_set_pool [lib_intros]:
  assumes inv: "lib_inv s" and a: "cp_AgentInfo v = cp_AgentInfo (the_pool s p)"
    and g: "gomap_ok (cp_mConnection (the_pool s p)) \<Longrightarrow> gomap_ok (cp_mConnection v)"
    and c: "\<And>c info. mget (cp_mConnection v) c = Some info \<Longrightarrow>
      mget (cp_mConnection (the_pool s p)) c = Some info \<and> p < nPools s
      \<or> coi_Connection info = c \<and> coi_Host info = pool_host (the_pool s p)"
  shows "lib_inv (set_pool p v s)"
proof (rule lib_invI)
  show "manager_ok (cl_ptrAgentManager (set_pool p v s)) (cl_pools (set_pool p v s))"
    using manager_ok_pools [OF lib_invD(1) [OF inv], of "cl_pools (set_pool p v s)"] a
    by (simp add: set_pool_def)
  show "pools_typed (cl_pools (set_pool p v s))"
    unfolding pools_typed_def
  proof (intro allI impI, goal_cases)
    case (1 q)
    then show ?case
      using lib_invD(2) [OF inv] c a g
      by (cases "q = p") (fastforce simp: pools_typed_def set_pool_def pool_host_def)+
  qed
qed (use lib_invD(3,4) [OF inv] in \<open>simp_all add: set_pool_def\<close>)

lemma lib_inv_clearConnect [lib_intros]:
  assumes inv: "lib_inv s"
  shows "fst (clearConnect c s) = Ret () \<and> lib_inv (snd (clearConnect c s))"
proof (cases "\<exists>h v. sc_Ctx (n_conn s c) = Some (CtxHost h) \<and> mget (am_mAgentConnectPool (cl_ptrAgentManager s)) h = Some v")
  case False
  then show ?thesis using inv by (auto simp: clearConnect_def GetAgent_def split: option.splits ctxval.splits)
next
  case True
  then obtain h v where h: "sc_Ctx (n_conn s c) = Some (CtxHost h)"
      "mget (am_mAgentConnectPool (cl_ptrAgentManager s)) h = Some v" by blast
  obtain p where p: "v = Some p" "p < nPools s"
    using lib_invD(1) [OF inv] h(2) by (rule manager_okD)
  have "lib_inv (set_pool p (ClearConnect_pool c (the_pool s p)) s)"
    using p(2) by (intro lib_intros inv) (auto simp: ClearConnect_pool_def split: if_splits)
  then show ?thesis using h p by (simp add: clearConnect_def GetAgent_def lib_intros)
qed

lemma lib_inv_create [lib_intros]:
  fixes s :: "'a Client_scheme"
  assumes inv: "lib_inv s" and p: "p < nPools s" and k: "create_ok (nPools s) k"
  shows "lib_inv (createConnectAndRegister pb nNow dial uu p k s)"
proof -
  let ?a = "cp_AgentInfo (the_pool s p)"
  define fn where "fn = (\<lambda>c (s :: 'a Client_scheme). (True, SetRequestContext c (cl_ptrRequestContext s) s))"
  obtain co s1 where new: "NewClient (fst dial) (snd dial) (ai_IP ?a) (ai_Port ?a) [Some fn] s = (co, s1)"
    by fastforce
  have table: "quiet t (SetRequestContext c i t)" for t :: "'a Client_scheme" and c i
    by (simp add: SetRequestContext_def quiet_set_conn)
  have "quiet s s1"
    using new quiet_trans [OF quiet_new_connection [of s "snd dial" "ai_IP ?a @ '':'' @ FormatUint (ai_Port ?a)"] table]
    by (auto simp: NewClient_def fn_def split: if_splits prod.splits)
  note 1 = lib_inv_quiet [OF inv this] nPools_quiet [OF this]
  show ?thesis
  proof (cases co)
    case None
    then show ?thesis
      using new 1 k by (simp add: createConnectAndRegister_def Let_def fn_def lib_inv_go thread_ok_def)
  next
    case (Some c)
    define cc where "cc = (NewCall uu AGENT_REGISTER (MAgentRegisterReq (register_req nNow s1)) (Some c))
                           \<lparr>call_nTimeoutMs := 3000\<rparr>"
    obtain xo s2 where b: "Call_begin pb cc s1 = (xo, s2)" by fastforce
    have "quiet s1 s2" using quiet_Call_begin [of s1 pb cc] b by simp
    note 2 = lib_inv_quiet [OF 1(1) this] nPools_quiet [OF this]
    show ?thesis
      using new 1 2 b p k Some
      by (simp add: createConnectAndRegister_def Let_def fn_def cc_def lib_intros thread_ok_def call_ok_def
          split: option.split)
  qed
qed

lemma lib_inv_register_finish [lib_intros]:
  assumes inv: "lib_inv s" and p: "p < nPools s" and k: "create_ok (nPools s) k"
  shows "lib_inv (register_finish nNow p k c rsp s)"
proof -
  have "lib_inv (set_pool p (AddConnect \<lparr>coi_LastKeepaliveTime = nNow, coi_Connection = c,
      coi_Host = pool_host (the_pool s p)\<rparr> (the_pool s p)) s)"
    using p by (intro lib_inv_set_pool inv) (auto simp: AddConnect_def split: if_splits)
  from lib_inv_misc(4) [OF this] show ?thesis
    using inv p k
    by (simp add: register_finish_def Let_def lib_intros thread_ok_def bind_ctx_def set_conn_def
        split: option.split)
qed

lemma lib_inv_found [lib_intros]:
  assumes "lib_inv s" "p < nPools s" "get_ok (nPools s) g"
  shows "lib_inv (getConnect_found p c g s)"
  using assms by (simp add: getConnect_found_def lib_intros thread_ok_def create_ok_def)

lemma lib_inv_getConnect:
  assumes inv: "lib_inv s" and g: "get_ok (nPools s) g"
  shows "fst (getConnect r g s) = Ret () \<and> lib_inv (snd (getConnect r g s))"
proof -
  obtain p where p: "GetActiveAgentConnectPool (cl_ptrAgentManager s) = Inr (Some p)" "p < nPools s"
    using inv by (rule lib_inv_active)
  then show ?thesis
    using inv g by (simp add: getConnect_def lib_intros thread_ok_def create_ok_def split: option.split)
qed

lemma lib_inv_idle:
  assumes inv: "lib_inv s"
  shows "fst (createAgentIdleConnect b s) = Ret () \<and> lib_inv (snd (createAgentIdleConnect b s))"
proof -
  obtain p where p: "GetActiveAgentConnectPool (cl_ptrAgentManager s) = Inr (Some p)" "p < nPools s"
    using inv by (rule lib_inv_active)
  then show ?thesis
    using inv by (simp add: createAgentIdleConnect_def Let_def lib_intros ref_ok_defs)
qed

lemma lib_inv_timer:
  assumes inv: "lib_inv s"
  shows "fst (timer n s) = Ret () \<and> lib_inv (snd (timer n s))"
proof -
  obtain p where p: "GetActiveAgentConnectPool (cl_ptrAgentManager s) = Inr (Some p)" "p < nPools s"
    using inv by (rule lib_inv_active)
  then show ?thesis using inv by (simp add: timer_def lib_intros ref_ok_defs)
qed

lemma lib_inv_clear_goodbyes [lib_intros]: "lib_inv s \<Longrightarrow> lib_inv (clear_goodbyes n s)"
  unfolding clear_goodbyes_def by (intro lib_intros manager_ok_Clear lib_invD(1))

lemma lib_inv_created [lib_intros]:
  assumes inv: "lib_inv s" and k: "create_ok (nPools s) k"
  shows "lib_inv (created r k res s)"
proof (cases k)
  case CFill
  then show ?thesis using inv by (simp add: created_def)
next
  case (CGetConnect p g)
  have "lib_inv (set_mgr (SwitchActiveAgent r (cl_ptrAgentManager s)) s)"
    by (intro lib_intros inv manager_ok_Switch lib_invD(1))
  then show ?thesis
    using CGetConnect inv k by (simp add: created_def connect_created_def lib_intros ref_ok_defs split: option.split)
next
  case (CIdle b p n)
  then show ?thesis
    using inv k by (simp add: created_def idle_created_def Let_def lib_intros ref_ok_defs split: option.split)
qed

lemma lib_inv_sync_finish [lib_intros]:
  assumes inv: "lib_inv s"
  shows "fst (sync_finish u c rsp s) = Ret () \<and> lib_inv (snd (sync_finish u c rsp s))"
proof (cases rsp)
  case None
  obtain z s1 where cl: "clearConnect c s = (z, s1)" by fastforce
  then have "z = Ret () \<and> lib_inv s1" using lib_inv_clearConnect [OF inv, of c] by simp
  then show ?thesis using None cl by (simp add: sync_finish_def lib_intros)
qed (use inv in \<open>simp add: sync_finish_def lib_intros\<close>)

lemma lib_inv_keepalive_finish [lib_intros]:
  assumes inv: "lib_inv s"
  shows "lib_inv (keepalive_finish n p rsp s)"
proof (cases rsp)
  case None
  then show ?thesis using inv by (simp add: keepalive_finish_def lib_intros)
next
  case (Some objRsp)
  define as where "as = map (\<lambda>a. \<lparr>ai_IP = agent_AgentInfo_IP a, ai_Port = ucast (agent_AgentInfo_Port a)\<rparr>)
                  (AgentKeepAliveRsp_AryAgent objRsp)"
  obtain m ps where u: "UpdateAgent as (GetInitConnectNum (the_pool s p)) (GetMaxConnectNum (the_pool s p))
      (cl_ptrAgentManager s) (cl_pools s) = (m, ps)" by fastforce
  obtain mAll where g: "UpdateAgent_gather as (GetInitConnectNum (the_pool s p))
      (GetMaxConnectNum (the_pool s p)) (cl_ptrAgentManager s) (cl_pools s) = (mAll, ps)"
    using u by (auto simp: UpdateAgent_def split: prod.splits)
  note grow = UpdateAgent_gather_spec(1,2) [OF g]
  have conns: "pools_typed ps"
    unfolding pools_typed_def
  proof (intro allI impI, goal_cases)
    case (1 q)
    then show ?case
      using grow(2) [of q] lib_invD(2) [OF inv] UpdateAgent_new_pools [OF u, of q]
      by (cases "q < nPools s") (simp_all add: pools_typed_def)
  qed
  have "lib_inv (s\<lparr>cl_ptrAgentManager := m, cl_pools := ps\<rparr>)"
    using manager_ok_UpdateAgent [OF lib_invD(1) [OF inv] u] conns
      lib_invD(3,4) [OF inv] ref_ok_mono(3,4) [OF grow(1)]
    by (intro lib_invI) simp_all
  then show ?thesis
    using Some u by (simp add: keepalive_finish_def as_def [symmetric] lib_intros)
qed

lemma lib_inv_got_connect:
  fixes s :: "'a Client_scheme"
  assumes inv: "lib_inv s" and g: "get_ok (nPools s) g"
  shows "fst (got_connect pb nNow uu g res s) = Ret () \<and> lib_inv (snd (got_connect pb nNow uu g res s))"
proof -
  have begin_ok: "lib_inv s1 \<and> nPools s1 = nPools s" if "Call_begin pb cc s = (xo, s1)" for cc xo s1
    using quiet_Call_begin [of s pb cc] that lib_inv_quiet [OF inv] nPools_quiet by (metis snd_conv)
  have un: "lib_inv (snd (unregister pb nNow uu c s))" for c
    unfolding unregister_def by (rule lib_inv_quiet [OF inv quiet_Cast_Start])
  show ?thesis
  proof (cases g)
    case (GSyncCall u b t)
    then show ?thesis
      using inv begin_ok
      by (auto simp: got_connect_def sync_connected_def Let_def lib_intros ref_ok_defs split: option.splits prod.splits)
  next
    case (GKeepalive p)
    then show ?thesis
      using inv g begin_ok
      by (auto simp: got_connect_def keepalive_connected_def Let_def ref_ok_defs intro!: lib_intros split: option.splits prod.splits)
  next
    case GUnregister
    then show ?thesis using inv un by (simp add: got_connect_def unregister_connected_def split: option.split)
  qed
qed

lemma lib_inv_handle_call [lib_intros]:
  fixes s :: "'a Client_scheme"
  assumes inv: "lib_inv s"
  shows "lib_inv (snd (handle_call pb m ctx s))"
  using inv lib_inv_quiet [OF inv quiet_Write]
  by (auto simp: handle_call_def Let_def split: option.splits prod.splits)

text \<open>The handlers the client registers with its router.\<close>

lemma client_routes_handlers:
  "mget (client_routes pb nNow r) u = Some h \<Longrightarrow>
     h = handleRpcCallReq_cl pb \<or> h = handleSayGoodbyeNotify_cl nNow r"
  by (auto simp: client_routes_def RegisterRouter_def NewRouter_def split: if_splits)

interpretation lib_service: packet_service "client_routes pb nNow r" lib_inv for pb nNow r
proof
  fix s t :: "'a Client_scheme"
  assume "lib_inv s" "quiet s t"
  then show "lib_inv t" by (rule lib_inv_quiet)
next
  fix u b ctx and s :: "'a Client_scheme" and h :: "'a Client_scheme handler"
  assume h: "mget (client_routes pb nNow r) u = Some h" and inv: "lib_inv s"
  have "lib_inv (set_mgr (SwitchToOtherAgent r a (snd (AddGoodByeAgent nNow a (cl_ptrAgentManager s)))) s)" for a
    by (intro lib_intros inv manager_ok_SwitchTo manager_ok_goodbye lib_invD(1))
  then have "lib_inv (snd (handleSayGoodbyeNotify_cl nNow r b ctx s))"
    using inv by (simp add: handleSayGoodbyeNotify_cl_def Let_def lib_intros thread_ok_def split: option.split)
  moreover have "lib_inv (snd (handleRpcCallReq_cl pb b ctx s))"
    using inv by (simp add: handleRpcCallReq_cl_def lib_intros thread_ok_def split: option.split)
  ultimately show "lib_inv (snd (h b ctx s))" using client_routes_handlers [OF h] by auto
qed

lemma lib_inv_process_packet [lib_intros]:
  assumes inv: "lib_inv s"
  shows "lib_inv (snd (process_packet pb nNow r c b ctx s))"
proof -
  obtain z s1 where p: "Process (client_routes pb nNow r) b ctx s = (z, s1)" by fastforce
  then have 1: "lib_inv s1" using lib_service.Process_inv [OF inv, of pb nNow r b ctx] by simp
  then show ?thesis
    using p lib_inv_clearConnect [OF 1, of c] by (auto simp: process_packet_def split: outcome.splits)
qed

lemma lib_inv_OnRead [lib_intros]:
  fixes s :: "'a Client_scheme"
  assumes inv: "lib_inv s"
  shows "lib_inv (snd (OnRead_cl c b ctx s))"
proof -
  have get: "lib_inv s1" if "GetRpcContext c' q s = (xo, s1)" for c' q xo s1
    using lib_inv_quiet [OF inv quiet_GetRpcContext [of s c' q]] that by simp
  have "lib_inv (snd (chan_send x body s1))" if "GetRpcContext c' q s = (xo, s1)" for c' q xo s1 x body
    by (rule lib_inv_quiet [OF get [OF that] quiet_chan_send])
  then show ?thesis
    using inv get
    by (auto simp: OnRead_cl_def Let_def intro!: lib_inv_go
        simp: thread_ok_def split: sum.splits prod.splits option.splits if_splits)
qed

lemma lib_inv_run_thread:
  assumes inv: "lib_inv s" and k: "thread_ok (nPools s) k"
  shows "lib_inv (snd (run_client_thread pb nNow dial uu r k s))"
  using k lib_inv_getConnect [OF inv] lib_inv_got_connect [OF inv] lib_inv_idle [OF inv] lib_inv_timer [OF inv]
    lib_inv_process_packet [OF inv] lib_inv_handle_call [OF inv] lib_inv_create [OF inv] lib_inv_created [OF inv]
  by (cases k) (simp_all add: run_client_thread_def thread_ok_def)

lemma lib_inv_select:
  fixes s :: "'a Client_scheme"
  assumes "lib_inv s" "Call_select f sel c q x s = (z, s1)"
  shows "lib_inv s1" "nPools s1 = nPools s"
  using quiet_Call_select [of s f sel c q x] assms(2) lib_inv_quiet [OF assms(1)] nPools_quiet
  by (metis snd_conv)+

lemma lib_inv_finish:
  assumes inv: "lib_inv s" and w: "call_ok (nPools s) (cc_then w)"
  shows "lib_inv (snd (finish_client_call pb nNow sel w s))"
proof (cases "cc_then w")
  case (WaitRegister p k)
  obtain z s1 where sel: "Call_select (Unmarshal_AgentRegisterRsp pb) sel (cc_conn w) (cc_szRequestID w)
      (cc_rpc w) s = (z, s1)" by fastforce
  show ?thesis
    using WaitRegister sel lib_inv_select [OF inv sel] w
    by (simp add: finish_client_call_def call_ok_def lib_intros split: outcome.split)
next
  case WaitSync
  obtain z s1 where sel: "Call_select (Unmarshal_RpcCallResp pb) sel (cc_conn w) (cc_szRequestID w)
      (cc_rpc w) s = (z, s1)" by fastforce
  show ?thesis
    using WaitSync sel lib_inv_select [OF inv sel]
    by (simp add: finish_client_call_def lib_intros split: outcome.split)
next
  case (WaitKeepalive p)
  obtain z s1 where sel: "Call_select (Unmarshal_AgentKeepAliveRsp pb) sel (cc_conn w) (cc_szRequestID w)
      (cc_rpc w) s = (z, s1)" by fastforce
  show ?thesis
    using WaitKeepalive sel lib_inv_select [OF inv sel]
    by (simp add: finish_client_call_def lib_intros split: outcome.split)
qed

section \<open>The system\<close>

datatype lib_event =
    LevThread nat
  | LevFinish nat select
  | LevRead connref bytes ctx
  | LevClosed connref
  | LevTick
  | LevStart
  | LevStop
  | LevSyncCall string bytes int64
  | LevHandleRpc string "bytes \<Rightarrow> ctx \<Rightarrow> bytes"

fun lib_exec ::
  "proto_lib \<Rightarrow> int64 \<Rightarrow> bool \<times> string \<Rightarrow> string \<Rightarrow> nat \<Rightarrow> lib_event \<Rightarrow> Client \<Rightarrow> unit outcome \<times> Client"
where
  "lib_exec pb nNow dial uu r (LevThread i) s =
     (if i < length (cl_thread s)
      then run_client_thread pb nNow dial uu r (cl_thread s ! i) (s\<lparr>cl_thread := drop_nth i (cl_thread s)\<rparr>)
      else (Ret (), s))"
| "lib_exec pb nNow dial uu r (LevFinish i sel) s =
     (if i < length (cl_wait s)
      then finish_client_call pb nNow sel (cl_wait s ! i) (s\<lparr>cl_wait := drop_nth i (cl_wait s)\<rparr>)
      else (Ret (), s))"
| "lib_exec pb nNow dial uu r (LevRead c b ctx) s = OnRead_cl c b ctx s"
| "lib_exec pb nNow dial uu r (LevClosed c) s = OnCloseConnection_cl c s"
| "lib_exec pb nNow dial uu r LevTick s = (Ret (), go ThTimer s)"
| "lib_exec pb nNow dial uu r LevStart s = (Ret (), go (ThIdleConnect True) s)"
| "lib_exec pb nNow dial uu r LevStop s = (Ret (), go (ThGetConnect GUnregister) s)"
| "lib_exec pb nNow dial uu r (LevSyncCall u b t) s = (Ret (), SyncCall u b t s)"
| "lib_exec pb nNow dial uu r (LevHandleRpc u f) s = (Ret (), HandleRpc u f s)"

inductive lib_step :: "proto_lib \<Rightarrow> Client \<Rightarrow> Client \<Rightarrow> bool" for pb where
  lib_event: "lib_exec pb nNow dial uu r ev s = (z, t) \<Longrightarrow> lib_step pb s t"
| lib_network: "quiet s t \<Longrightarrow> lib_step pb s t"

inductive_cases lib_stepE: "lib_step pb s t"

definition lib_start :: "Client \<Rightarrow> bool" where
  "lib_start s \<longleftrightarrow> (\<exists>uu key as i x t. NewClient_cl uu key as i x t = Inr s)"

lemma host_of_not_Nil: "host_of a \<noteq> []"
  by (simp add: host_of_def makeHostKeyByIpPort_def)

definition agents_ok :: "AgentManager \<times> pools \<Rightarrow> bool" where
  "agents_ok mp \<longleftrightarrow> (case mp of (m, ps) \<Rightarrow>
     (am_szActiveAgent m = [] \<and> am_mAgentConnectPool m = [] \<or> manager_ok m ps)
   \<and> (\<forall>p. cp_mConnection (ps_pool ps p) = []))"

lemma agents_ok_add:
  assumes "agents_ok (m, ps)" "new_pool (Init_pool i x a) ps = (p, ps')"
  shows "agents_ok (snd (AddAgent (pool_host (ps_pool ps' p)) p m), ps')"
proof -
  have p: "p = ps_nNextPool ps" "ps_nNextPool ps' = Suc p" "ps_pool ps' = (ps_pool ps)(p := Init_pool i x a)"
    using assms(2) by (auto simp: new_pool_def)
  have old: "ps_pool ps' q = ps_pool ps q" if "q < p" for q using that by (simp add: p(3))
  have conns: "cp_mConnection (ps_pool ps' q) = []" for q
    using assms(1) by (simp add: agents_ok_def p(3) Init_pool_def)
  consider "am_szActiveAgent m = []" "am_mAgentConnectPool m = []" | "manager_ok m ps"
    using assms(1) by (auto simp: agents_ok_def)
  then have "manager_ok (snd (AddAgent (pool_host (ps_pool ps' p)) p m)) ps'"
  proof cases
    case 1
    then show ?thesis by (simp add: manager_ok_def AddAgent_def Let_def p)
  next
    case 2
    have "am_szActiveAgent m \<noteq> []"
      using manager_ok_active [OF 2] host_of_not_Nil by (metis host_of_def pool_host_def)
    moreover have "manager_ok m ps'"
      using manager_ok_pools [OF 2, of ps'] old by (simp add: p)
    ultimately show ?thesis by (auto simp: manager_ok_def AddAgent_def Let_def p)
  qed
  then show ?thesis using conns by (simp add: agents_ok_def)
qed

lemma init_agents_ok: "agents_ok (init_agents as i x t)"
  unfolding init_agents_def
proof (rule forEach_invariant)
  fix a and mp :: "AgentManager \<times> pools"
  assume "agents_ok mp"
  then show "agents_ok (case mp of (m, ps) \<Rightarrow> case new_pool (Init_pool i x a) ps of
      (p, ps') \<Rightarrow> (snd (AddAgent (pool_host (ps_pool ps' p)) p m), ps'))"
    by (cases mp) (auto split: prod.splits intro: agents_ok_add)
qed (simp add: agents_ok_def Init_pool_def)

lemma lib_inv_start:
  assumes "lib_start s"
  shows "lib_inv s"
proof -
  obtain uu key as i x t where s: "NewClient_cl uu key as i x t = Inr s"
    using assms unfolding lib_start_def by blast
  obtain m ps where mp: "init_agents as i x t = (m, ps)" by fastforce
  have "agents_ok (m, ps)" using init_agents_ok [of as i x t] mp by simp
  then show ?thesis
    using s mp
    by (auto simp: NewClient_cl_def getAgentSize_def agents_ok_def lib_inv_def pools_typed_def net.extend_def
        split: if_splits)
qed

lemma lib_inv_exec:
  assumes inv: "lib_inv s"
  shows "lib_inv (snd (lib_exec pb nNow dial uu r ev s))"
proof (cases ev)
  case (LevThread i)
  have "lib_inv (s\<lparr>cl_thread := drop_nth i (cl_thread s)\<rparr>)"
    using inv by (auto simp: lib_inv_def dest: set_drop_nth)
  then show ?thesis
    using LevThread inv lib_invD(3) [OF inv, of "cl_thread s ! i"]
    by (simp add: lib_inv_run_thread)
next
  case (LevFinish i sel)
  have "lib_inv (s\<lparr>cl_wait := drop_nth i (cl_wait s)\<rparr>)"
    using inv by (auto simp: lib_inv_def dest: set_drop_nth)
  then show ?thesis
    using LevFinish inv lib_invD(4) [OF inv, of "cl_wait s ! i"]
    by (simp add: lib_inv_finish)
qed (use inv in \<open>simp_all add: lib_intros OnCloseConnection_cl_def SyncCall_def ref_ok_defs\<close>)

interpretation lib_system: inductive_invariant lib_start "lib_step pb" lib_inv for pb
proof
  fix s
  assume "lib_start s"
  then show "lib_inv s" by (rule lib_inv_start)
next
  fix s t
  assume inv: "lib_inv s" and "lib_step pb s t"
  then show "lib_inv t"
  proof (elim lib_stepE)
    fix nNow dial uu r ev z
    assume "lib_exec pb nNow dial uu r ev s = (z, t)"
    then show "lib_inv t" using lib_inv_exec [OF inv, of pb nNow dial uu r ev] by simp
  next
    assume "quiet s t"
    then show "lib_inv t" by (rule lib_inv_quiet [OF inv])
  qed
qed

end
