(* ===== verification/ClientProps.thy ===== *)
theory ClientProps
  imports ClientSystem
begin

text \<open>
  What holds of the client library: its pools in every reachable state, the choice of
  another agent after a goodbye, the agents a keepalive brings, and three ways in which
  the code fails its purpose.
\<close>

section \<open>A client to compute with\<close>

definition agent_info_a :: AgentInfo where
  "agent_info_a = \<lparr>ai_IP = ''a'', ai_Port = 1\<rparr>"

definition agent_info_b :: AgentInfo where
  "agent_info_b = \<lparr>ai_IP = ''b'', ai_Port = 2\<rparr>"

definition agents_ab :: "AgentManager \<times> pools" where
  "agents_ab = init_agents [agent_info_a, agent_info_b] 1 2 60"

definition lib_ab :: Client where
  "lib_ab = net.extend (net_zero\<lparr>n_nextTable := 1\<rparr>)
     \<lparr>cl_szInstanceID = ''id'', cl_szSecretKey = ''key'', cl_ptrRequestContext = 0,
      cl_aryEntry = [], cl_mRouter = [], cl_ptrAgentManager = fst agents_ab, cl_pools = snd agents_ab,
      cl_thread = [], cl_wait = [], cl_result = []\<rparr>"

lemma host_of_ab [simp]: "host_of agent_info_a = ''a:1''" "host_of agent_info_b = ''b:2''"
  by code_simp+

lemma agents_ab_fst:
  "fst agents_ab = \<lparr>am_szActiveAgent = ''a:1'', am_mAgentConnectPool = [(''a:1'', Some 0), (''b:2'', Some 1)],
     am_mAgentGoodByeInfo = [], am_nAgentGoodByeTimeoutS = 60\<rparr>"
  by (simp add: agents_ab_def init_agents_def new_pool_def AddAgent_def)

lemma lib_ab_new: "NewClient_cl ''id'' ''key'' [agent_info_a, agent_info_b] 1 2 60 = Inr lib_ab"
  using agents_ab_fst
  by (simp add: NewClient_cl_def lib_ab_def agents_ab_def [symmetric] getAgentSize_def case_prod_beta)

lemma lib_ab_simps [simp]:
  "cl_ptrAgentManager lib_ab = fst agents_ab" "cl_pools lib_ab = snd agents_ab"
  "cl_thread lib_ab = []" "cl_wait lib_ab = []"
  by (simp_all add: lib_ab_def net.extend_def)

lemma lib_ab_start: "lib_start lib_ab"
  unfolding lib_start_def using lib_ab_new by blast

section \<open>Pools\<close>


lemma lib_ab_reaches:
  assumes "lib_exec pb n d u r ev lib_ab = (z, t)"
  shows "reaches lib_start (lib_step pb) t"
proof -
  have "lib_step pb lib_ab t" using assms by (rule lib_event)
  with reaches_start [of lib_start, OF lib_ab_start] show ?thesis by (rule reaches_step)
qed




section \<open>Goodbye\<close>

text \<open>
  C20. An agent that says goodbye is remembered and left: when it was the active one, an
  agent of the map that has not said goodbye becomes active if there is one; otherwise,
  and when another agent was active, nothing else changes.  Connections to the agent that
  is then active are being created.
\<close>

theorem goodbye_switches:
  fixes s :: "'a Client_scheme"
  assumes "GetServerConnection ctx = Some c"
    and "handleSayGoodbyeNotify_cl nNow r b ctx s = (z, t)"
  defines "h \<equiv> sc_szRemote (n_conn s c)"
    and "m \<equiv> cl_ptrAgentManager s" and "m' \<equiv> cl_ptrAgentManager t"
  shows "z = Ret ''SUCCESS'' \<and> mget (am_mAgentGoodByeInfo m') h = Some nNow
    \<and> am_mAgentConnectPool m' = am_mAgentConnectPool m
    \<and> cl_thread t = cl_thread s @ [ThIdleConnect False]
    \<and> (if am_szActiveAgent m = h
          \<and> (\<exists>a. a \<noteq> h \<and> mget (am_mAgentConnectPool m) a \<noteq> None \<and> mget (am_mAgentGoodByeInfo m) a = None)
        then am_szActiveAgent m' \<noteq> h \<and> mget (am_mAgentConnectPool m) (am_szActiveAgent m') \<noteq> None
          \<and> mget (am_mAgentGoodByeInfo m) (am_szActiveAgent m') = None
        else am_szActiveAgent m' = am_szActiveAgent m)"
proof -
  define m1 where "m1 = snd (AddGoodByeAgent nNow h m)"
  have m1: "am_szActiveAgent m1 = am_szActiveAgent m" "am_mAgentConnectPool m1 = am_mAgentConnectPool m"
    "mget (am_mAgentGoodByeInfo m1) a = (if a = h then Some nNow else mget (am_mAgentGoodByeInfo m) a)" for a
    by (simp_all add: m1_def AddGoodByeAgent_def)
  have t: "z = Ret ''SUCCESS''" "m' = SwitchToOtherAgent r h m1" "cl_thread t = cl_thread s @ [ThIdleConnect False]"
    using assms(1,2)
    by (auto simp: handleSayGoodbyeNotify_cl_def Let_def h_def m_def m'_def m1_def set_mgr_def go_def)
  have m': "am_mAgentGoodByeInfo m' = am_mAgentGoodByeInfo m1"
    "am_mAgentConnectPool m' = am_mAgentConnectPool m1"
    by (simp_all add: t SwitchToOtherAgent_def)
  show ?thesis
  proof (cases "am_szActiveAgent m = h")
    case False
    then show ?thesis using t m1 m' by (simp add: SwitchToOtherAgent_def)
  next
    case True
    then have "am_szActiveAgent m' = (case SwitchActiveAgent_find r m1 of None \<Rightarrow> h | Some a \<Rightarrow> a)"
      using t(2) m1(1) by (simp add: SwitchToOtherAgent_def SwitchActiveAgent_active split: option.split)
    then show ?thesis
      using True t m1 m' SwitchActiveAgent_find_Some [of r m1] SwitchActiveAgent_find_None [of r m1]
      by (cases "SwitchActiveAgent_find r m1") (auto split: if_splits)
  qed
qed

definition lib_ab_connected :: Client where
  "lib_ab_connected = set_conn 0 ((n_conn lib_ab 0)\<lparr>sc_szRemote := ''a:1''\<rparr>) lib_ab"

definition ctx0 :: ctx where
  "ctx0 = Some \<lparr>rq_szLocalAddress = [], rq_szRemoteAddress = [], rq_ptrServerConnection = 0, rq_szRequestID = ''q''\<rparr>"

theorem goodbye_switches_witness:
  "am_szActiveAgent (cl_ptrAgentManager (snd (handleSayGoodbyeNotify_cl 7 0 [] ctx0 lib_ab_connected))) = ''b:2''"
proof -
  have c: "GetServerConnection ctx0 = Some 0"
    by (simp add: ctx0_def GetServerConnection_def GetRequestContext_def)
  obtain z t where run: "handleSayGoodbyeNotify_cl 7 0 [] ctx0 lib_ab_connected = (z, t)" by fastforce
  have s: "sc_szRemote (n_conn lib_ab_connected 0) = ''a:1''" "cl_ptrAgentManager lib_ab_connected = fst agents_ab"
    by (simp_all add: lib_ab_connected_def set_conn_def)
  have "\<exists>a. a \<noteq> ''a:1'' \<and> mget (am_mAgentConnectPool (fst agents_ab)) a \<noteq> None
      \<and> mget (am_mAgentGoodByeInfo (fst agents_ab)) a = None"
    by (rule exI [of _ "''b:2''"]) (simp add: agents_ab_fst)
  then have "am_szActiveAgent (cl_ptrAgentManager t) \<noteq> ''a:1''
      \<and> mget (am_mAgentConnectPool (fst agents_ab)) (am_szActiveAgent (cl_ptrAgentManager t)) \<noteq> None"
    using goodbye_switches [OF c run] unfolding s by (auto simp: agents_ab_fst split: if_splits)
  then show ?thesis using run by (auto simp: agents_ab_fst split: if_splits)
qed

text \<open>
  \<^verbatim>\<open>UpdateAgent\<close> leaves exactly the agents of the list and the active one, and changes
  neither the active agent nor the goodbyes: an agent it knows keeps its pool, an agent it
  does not know gets a fresh, empty pool of its own host, and all other pools are as
  before.
\<close>

lemma UpdateAgent_map:
  assumes "manager_ok m ps" and "UpdateAgent as i x m ps = (m', ps')"
  shows "am_szActiveAgent m' = am_szActiveAgent m \<and> am_mAgentGoodByeInfo m' = am_mAgentGoodByeInfo m
    \<and> (\<forall>p < ps_nNextPool ps. ps_pool ps' p = ps_pool ps p)
    \<and> (\<forall>h. h \<notin> host_of ` set as \<and> h \<noteq> am_szActiveAgent m \<longrightarrow> GetAgent h m' = None)
    \<and> (\<forall>h v. h \<in> host_of ` set as \<or> h = am_szActiveAgent m \<longrightarrow> GetAgent h m = Some v \<longrightarrow>
         GetAgent h m' = Some v)
    \<and> (\<forall>h. h \<in> host_of ` set as \<longrightarrow> GetAgent h m = None \<longrightarrow>
         (\<exists>p a. ps_nNextPool ps \<le> p \<and> p < ps_nNextPool ps' \<and> GetAgent h m' = Some (Some p)
           \<and> ps_pool ps' p = Init_pool i x a \<and> a \<in> set as \<and> host_of a = h))"
proof -
  obtain mAll where g: "UpdateAgent_gather as i x m ps = (mAll, ps')" and m': "m' = UpdateAgent_commit mAll m"
    using assms(2) by (auto simp: UpdateAgent_def split: prod.splits)
  note gathered = UpdateAgent_gather_spec [OF g]
  have active: "GetAgent (am_szActiveAgent m) m \<noteq> None"
    using assms(1) by (simp add: manager_ok_def GetAgent_def)
  have pool: "GetAgent h m' = (if h = am_szActiveAgent m \<and> mget mAll h = None then GetAgent h m else mget mAll h)" for h
    using active by (auto simp: m' UpdateAgent_commit_pool GetAgent_def split: option.split)
  show ?thesis
  proof (intro conjI allI impI)
    show "am_szActiveAgent m' = am_szActiveAgent m" "am_mAgentGoodByeInfo m' = am_mAgentGoodByeInfo m"
      by (simp_all add: m')
  next
    fix p assume "p < ps_nNextPool ps"
    then show "ps_pool ps' p = ps_pool ps p" by (rule gathered(2))
  next
    fix h assume "h \<notin> host_of ` set as \<and> h \<noteq> am_szActiveAgent m"
    then show "GetAgent h m' = None" using gathered(3) [of h] by (simp add: pool)
  next
    fix h v assume h: "h \<in> host_of ` set as \<or> h = am_szActiveAgent m" and v: "GetAgent h m = Some v"
    show "GetAgent h m' = Some v"
    proof (cases "h \<in> host_of ` set as")
      case True
      then show ?thesis using gathered(4) [OF True] v [unfolded GetAgent_def] by (simp add: pool)
    next
      case False
      then show ?thesis using gathered(3) [OF False] h v by (simp add: pool)
    qed
  next
    fix h assume h: "h \<in> host_of ` set as" and n: "GetAgent h m = None"
    then have "h \<noteq> am_szActiveAgent m" using active by auto
    then show "\<exists>p a. ps_nNextPool ps \<le> p \<and> p < ps_nNextPool ps' \<and> GetAgent h m' = Some (Some p)
           \<and> ps_pool ps' p = Init_pool i x a \<and> a \<in> set as \<and> host_of a = h"
      using gathered(5) [OF h n [unfolded GetAgent_def]] by (simp add: pool)
  qed
qed

lemma UpdateAgent_map_example:
  "GetAgent ''b:2'' (fst (UpdateAgent [agent_info_a] 1 2 (fst agents_ab) (snd agents_ab))) = None
   \<and> GetAgent ''a:1'' (fst (UpdateAgent [agent_info_a] 1 2 (fst agents_ab) (snd agents_ab))) = Some (Some 0)"
proof -
  have ok: "manager_ok (fst agents_ab) (snd agents_ab)"
    using lib_invD(1) [OF lib_inv_start [OF lib_ab_start]] by simp
  obtain m' ps' where u: "UpdateAgent [agent_info_a] 1 2 (fst agents_ab) (snd agents_ab) = (m', ps')" by fastforce
  have "GetAgent ''a:1'' (fst agents_ab) = Some (Some 0)" "am_szActiveAgent (fst agents_ab) = ''a:1''"
    by (simp_all add: GetAgent_def agents_ab_fst)
  moreover have "host_of ` set [agent_info_a] = {''a:1''}" by simp
  ultimately show ?thesis using UpdateAgent_map [OF ok u] u by simp
qed

section \<open>Where the code fails\<close>

text \<open>What the agent manager does over time, one operation after the other.\<close>

datatype mgr_op =
    OpGoodbye string nat
  | OpClearTimeout
  | OpUpdate "AgentInfo list" int int
  | OpSwitch nat

fun mgr_exec :: "int64 \<times> mgr_op \<Rightarrow> AgentManager \<times> pools \<Rightarrow> AgentManager \<times> pools" where
  "mgr_exec (nNow, OpGoodbye h r) (m, ps) = (SwitchToOtherAgent r h (snd (AddGoodByeAgent nNow h m)), ps)"
| "mgr_exec (nNow, OpClearTimeout) (m, ps) = (ClearGoodbyeTimeout nNow m, ps)"
| "mgr_exec (nNow, OpUpdate as i x) (m, ps) = UpdateAgent as i x m ps"
| "mgr_exec (nNow, OpSwitch r) (m, ps) = (SwitchActiveAgent r m, ps)"

definition stamps_until :: "int \<Rightarrow> AgentManager \<Rightarrow> bool" where
  "stamps_until T m \<longleftrightarrow> 0 \<le> T \<and> 0 \<le> am_nAgentGoodByeTimeoutS m \<and> am_nAgentGoodByeTimeoutS m < 2 ^ 63
     \<and> (\<forall>(h, n) \<in> set (am_mAgentGoodByeInfo m). 0 \<le> sint n \<and> sint n \<le> T)"

lemma not_yet_timed_out:
  fixes a b :: int64
  assumes "0 \<le> sint a" "sint a \<le> sint b" "0 \<le> t" "t < 2 ^ 63"
  shows "\<not> gt64 (a - b) (word_of_int t)"
proof -
  have b: "sint b < 2 ^ 63" using sint_lt [of b] by simp
  have "sint (a - b) = sint a - sint b"
    using assms b by (simp add: sint_word_ariths signed_take_bit_int_eq_self)
  moreover have "sint (word_of_int t :: int64) = t"
    using assms by (simp add: signed_of_int signed_take_bit_int_eq_self)
  ultimately show ?thesis using assms by (simp add: gt64_def)
qed

lemma ClearGoodbyeTimeout_id:
  assumes "stamps_until (sint nNow) m"
  shows "ClearGoodbyeTimeout nNow m = m"
proof -
  have "filter (\<lambda>(h, n). gt64 (n - nNow) (word_of_int (am_nAgentGoodByeTimeoutS m))) (am_mAgentGoodByeInfo m) = []"
    using assms not_yet_timed_out unfolding stamps_until_def by (fastforce simp: filter_empty_conv)
  then show ?thesis by (simp add: ClearGoodbyeTimeout_def)
qed

lemma mgr_exec_goodbye:
  assumes st: "stamps_until T m" and time: "T \<le> sint nNow"
    and bye: "mget (am_mAgentGoodByeInfo m) h \<noteq> None"
    and run: "mgr_exec (nNow, ev) (m, ps) = (m', ps')"
  shows "stamps_until (sint nNow) m' \<and> mget (am_mAgentGoodByeInfo m') h \<noteq> None
    \<and> (am_szActiveAgent m \<noteq> h \<longrightarrow> am_szActiveAgent m' \<noteq> h)"
proof -
  have st': "stamps_until (sint nNow) m"
    using st time unfolding stamps_until_def by fastforce
  show ?thesis
  proof (cases ev)
    case (OpGoodbye g r)
    define m1 where "m1 = snd (AddGoodByeAgent nNow g m)"
    have m1: "am_szActiveAgent m1 = am_szActiveAgent m" "mget (am_mAgentGoodByeInfo m1) h \<noteq> None"
      using bye by (simp_all add: m1_def AddGoodByeAgent_def)
    have "stamps_until (sint nNow) m1"
      using st' set_mput_subset [of g nNow "am_mAgentGoodByeInfo m"] unfolding stamps_until_def m1_def AddGoodByeAgent_def by (auto split: prod.splits)
    then show ?thesis
      using OpGoodbye run m1 SwitchActiveAgent_goodbye [OF m1(2)]
      by (auto simp: SwitchToOtherAgent_def stamps_until_def m1_def [symmetric] split: if_splits)
  next
    case OpClearTimeout
    then show ?thesis using run ClearGoodbyeTimeout_id [OF st'] st' bye by auto
  next
    case (OpUpdate as i x)
    then obtain mAll where "m' = UpdateAgent_commit mAll m"
      using run by (auto simp: UpdateAgent_def split: prod.splits)
    then show ?thesis using st' bye by (auto simp: stamps_until_def)
  next
    case (OpSwitch r)
    then show ?thesis
      using run st' bye SwitchActiveAgent_goodbye [OF bye] by (auto simp: stamps_until_def)
  qed
qed

text \<open>
  Once an agent has said goodbye the client never goes back to it: however the
  operations of the manager follow each other while the clock does not run backwards,
  also after any time limit, \<^verbatim>\<open>ClearGoodbyeTimeout\<close> forgets no agent (it subtracts the
  present from the past), and a switch never picks the agent again.
\<close>

lemma goodbye_never_expires:
  assumes "stamps_until T m" and "mget (am_mAgentGoodByeInfo m) h \<noteq> None" and "am_szActiveAgent m \<noteq> h"
    and "sorted (T # map (\<lambda>ev. sint (fst ev)) evs)"
  shows "mget (am_mAgentGoodByeInfo (fst (forEach mgr_exec evs (m, ps)))) h \<noteq> None
    \<and> am_szActiveAgent (fst (forEach mgr_exec evs (m, ps))) \<noteq> h"
  using assms
proof (induction evs arbitrary: T m ps)
  case (Cons ev evs)
  obtain nNow e where ev: "ev = (nNow, e)" by fastforce
  obtain m1 ps1 where run: "mgr_exec (nNow, e) (m, ps) = (m1, ps1)" by fastforce
  have T: "T \<le> sint nNow" using Cons.prems(4) by (simp add: ev)
  have s: "sorted (sint nNow # map (\<lambda>ev. sint (fst ev)) evs)" using Cons.prems(4) by (simp add: ev)
  show ?case
    using Cons.IH [of "sint nNow" m1 ps1] mgr_exec_goodbye [OF Cons.prems(1) T Cons.prems(2) run]
      Cons.prems(3) s by (simp add: ev run)
qed simp

lemma goodbye_never_expires_example:
  "am_szActiveAgent (fst (forEach mgr_exec [(100, OpGoodbye ''b:2'' 0), (5000, OpClearTimeout), (6000, OpSwitch 0)]
      (fst agents_ab, snd agents_ab))) \<noteq> ''b:2''"
proof -
  define m where "m = (fst agents_ab)\<lparr>am_mAgentGoodByeInfo := [(''b:2'', 100)]\<rparr>"
  have first: "mgr_exec (100, OpGoodbye ''b:2'' 0) (fst agents_ab, snd agents_ab) = (m, snd agents_ab)"
    by (simp add: m_def SwitchToOtherAgent_def AddGoodByeAgent_def agents_ab_fst)
  have st: "stamps_until 100 m" "mget (am_mAgentGoodByeInfo m) ''b:2'' \<noteq> None" "am_szActiveAgent m \<noteq> ''b:2''"
    by (simp_all add: m_def stamps_until_def agents_ab_fst)
  have "sorted (100 # map (\<lambda>ev. sint (fst ev)) [(5000 :: int64, OpClearTimeout), (6000, OpSwitch 0)])"
    by simp
  from goodbye_never_expires [OF st this, of "snd agents_ab"] show ?thesis by (simp only: forEach.simps first simp_thms)
qed

text \<open>
  C39. \<^verbatim>\<open>SwitchActiveAgent\<close> finds the new agent under one lock and sets it under another.
  When \<^verbatim>\<open>UpdateAgent\<close> drops that agent in between, the active agent has no pool and every
  call fails with an error; and the next \<^verbatim>\<open>UpdateAgent\<close> that does not bring the agent back
  stores a nil pool for it, on which the next \<^verbatim>\<open>getConnect\<close>, the timer and
  \<^verbatim>\<open>createAgentIdleConnect\<close> panic.
\<close>

theorem switch_race_panics:
  fixes s :: "'a Client_scheme"
  assumes "SwitchActiveAgent_find r m = Some h"
    and "UpdateAgent as i x m ps = (m1, ps1)" "h \<notin> host_of ` set as"
    and "UpdateAgent as' i' x' (SwitchActiveAgent_set h m1) ps1 = (m2, ps2)" "h \<notin> host_of ` set as'"
  shows "(\<exists>e. GetActiveAgentConnectPool (SwitchActiveAgent_set h m1) = Inl e)
    \<and> GetAgent h m2 = Some None
    \<and> fst (getConnect r' k (set_mgr m2 s)) = Panics \<and> fst (timer nNow (set_mgr m2 s)) = Panics
    \<and> fst (createAgentIdleConnect b (set_mgr m2 s)) = Panics"
proof -
  define m' where "m' = SwitchActiveAgent_set h m1"
  obtain mAll where g: "UpdateAgent_gather as i x m ps = (mAll, ps1)" and m1: "m1 = UpdateAgent_commit mAll m"
    using assms(2) by (auto simp: UpdateAgent_def split: prod.splits)
  obtain mAll' where g': "UpdateAgent_gather as' i' x' m' ps1 = (mAll', ps2)"
      and m2: "m2 = UpdateAgent_commit mAll' m'"
    using assms(4) by (auto simp: UpdateAgent_def m'_def split: prod.splits)
  have "mget (am_mAgentConnectPool m1) h = None"
    using UpdateAgent_gather_spec(3) [OF g assms(3)] SwitchActiveAgent_find_Some [OF assms(1)]
    by (simp add: m1 UpdateAgent_commit_pool)
  then have m': "am_szActiveAgent m' = h" "mget (am_mAgentConnectPool m') h = None"
    by (simp_all add: m'_def SwitchActiveAgent_set_def)
  moreover have "mget (am_mAgentConnectPool m2) h = Some None" "am_szActiveAgent m2 = h"
    using UpdateAgent_gather_spec(3) [OF g' assms(5)] m' by (simp_all add: m2 UpdateAgent_commit_pool)
  ultimately show ?thesis
    by (simp add: m'_def [symmetric] GetActiveAgentConnectPool_def GetAgent_def getConnect_def timer_def
        createAgentIdleConnect_def set_mgr_def)
qed

theorem switch_race_panics_witness:
  "fst (getConnect 0 GUnregister (set_mgr (fst (UpdateAgent [agent_info_a] 1 2
      (SwitchActiveAgent_set ''b:2'' (fst (UpdateAgent [agent_info_a] 1 2 (fst agents_ab) (snd agents_ab))))
      (snd (UpdateAgent [agent_info_a] 1 2 (fst agents_ab) (snd agents_ab))))) lib_ab)) = Panics"
proof -
  have find: "SwitchActiveAgent_find 0 (fst agents_ab) = Some ''b:2''"
    by (simp add: SwitchActiveAgent_find_def agents_ab_fst pick_def rand_Intn_def)
  have no: "''b:2'' \<notin> host_of ` set [agent_info_a]" by simp
  show ?thesis
    using switch_race_panics [OF find surjective_pairing no surjective_pairing no] by blast
qed

lemma clean_contexts_conn: "n_conn (snd (clean_contexts c r es s)) = n_conn s"
  by (induction c r es s rule: clean_contexts.induct)
    (auto simp: chan_close_def CancelFunc_def setErrorMsg_def net_upd_defs
        split: prod.splits outcome.splits if_splits)

text \<open>
  C40. All connections of a client share one table of waiting calls, so losing one
  connection fails the calls that wait on the others: a \<^verbatim>\<open>SyncCall\<close> over c2, whose
  response may be on its way, returns an error when c1 is lost, and then takes the healthy
  connection c2 out of its pool and closes it.
\<close>

theorem lost_connection_fails_others:
  fixes s :: "'a Client_scheme"
  assumes inv: "lib_inv s" and ok: "net_ok s" and r: "r \<noteq> []"
    and shared: "sc_mRequestContext (n_conn s c1) = cl_ptrRequestContext s"
      "sc_mRequestContext (n_conn s c2) = cl_ptrRequestContext s"
    and call: "mget (conn_table c2 s) (cc_szRequestID w) = Some (cc_rpc w)" "cc_conn w = c2" "cc_then w = WaitSync"
    and pool: "sc_Ctx (n_conn s c2) = Some (CtxHost h)" "GetAgent h (cl_ptrAgentManager s) = Some (Some p)"
    and lost: "run_net_task (CleanRpc c1 r) s = (z, t)"
    and fin: "finish_client_call pb nNow sel w t = (z', u)"
  shows "z = Ret () \<and> select_ready sel False (cc_rpc w) t \<and> z' = Ret ()
    \<and> cl_result u = cl_result s @ [(cc_szRequestID w, Inl ''CallContext.Start fail'')]
    \<and> \<not> sc_bOpen (n_conn u c2) \<and> mget (cp_mConnection (the_pool u p)) c2 = None"
proof -
  have t: "clean_contexts c1 r (conn_table c1 s) s = (z, t)"
    using lost by (simp add: run_net_task_def cleanAllRpcContext_def)
  have "mget (conn_table c1 s) (cc_szRequestID w) = Some (cc_rpc w)"
    using call shared by (simp add: conn_table_def)
  note marks = clean_contexts_marks [OF ok refl mget_in_set [OF this], of r]
  have z: "z = Ret ()" using clean_contexts_ok [OF ok refl, of c1 r] t by simp
  have x: "rc_szErrorMsg (n_rpc t (cc_rpc w)) = r" "rc_bCancel (n_rpc t (cc_rpc w))"
      "rc_bClosed (n_rpc t (cc_rpc w))"
    using marks t by simp_all
  have "net.more t = net.more s" using quiet_clean_contexts [of s c1 r "conn_table c1 s"] t by (simp add: quiet_def)
  note lib = more_lib [OF this]
  have conn: "n_conn t = n_conn s" using clean_contexts_conn [of c1 r "conn_table c1 s" s] t by simp
  have ready: "select_ready sel False (cc_rpc w) t"
    using x by (simp add: select_ready_def split: select.split)
  obtain u1 where sel: "Call_select (Unmarshal_RpcCallResp pb) sel c2 (cc_szRequestID w) (cc_rpc w) t = (Ret None, u1)"
      "n_conn u1 = n_conn t"
    using Call_select_error [of t "cc_rpc w" "Unmarshal_RpcCallResp pb" sel c2 "cc_szRequestID w"] x r
    by (metis prod.collapse)
  have "net.more u1 = net.more t"
    using quiet_Call_select [of t "Unmarshal_RpcCallResp pb" sel c2 "cc_szRequestID w" "cc_rpc w"] sel(1)
    by (simp add: quiet_def)
  note lib1 = more_lib [OF this]
  have "clearConnect c2 u1 = (Ret (), Close c2 (set_pool p (ClearConnect_pool c2 (the_pool s p)) u1))"
    using pool sel(2) conn lib lib1 by (simp add: clearConnect_def)
  then have "z' = Ret () \<and> u = add_result (cc_szRequestID w) (Inl ''CallContext.Start fail'')
      (Close c2 (set_pool p (ClearConnect_pool c2 (the_pool s p)) u1))"
    using fin sel call by (simp add: finish_client_call_def sync_finish_def)
  then show ?thesis
    using z ready lib lib1
    by (simp add: add_result_def Close_def objConnection_Close_def set_pool_def ClearConnect_pool_def net_upd_defs)
qed

definition lib_ab_calling :: Client where
  "lib_ab_calling = bind_ctx 2 (CtxHost ''a:1'') (snd (AddRpcContext 2 ''q'' lib_ab))"

definition call_q :: ClientCall where
  "call_q = \<lparr>cc_rpc = 0, cc_conn = 2, cc_szRequestID = ''q'', cc_then = WaitSync\<rparr>"

theorem lost_connection_fails_others_witness:
  "cl_result (snd (finish_client_call lib_stub 0 SelMsg call_q
      (snd (run_net_task (CleanRpc 1 ''lost'') lib_ab_calling)))) = [(''q'', Inl ''CallContext.Start fail'')]"
proof -
  have inv: "lib_inv lib_ab_calling"
    unfolding lib_ab_calling_def
    by (rule lib_inv_misc(4), rule lib_inv_quiet [OF lib_inv_start [OF lib_ab_start] quiet_AddRpcContext])
  have "net_ok lib_ab" by (simp add: net_ok_def lib_ab_def net.extend_def net_zero_def)
  then have "net_ok (snd (AddRpcContext 2 ''q'' lib_ab))" by (rule net_ok_AddRpcContext)
  then have ok: "net_ok lib_ab_calling"
    unfolding lib_ab_calling_def
    by (rule net_ok_frame [rotated 3]) (simp_all add: bind_ctx_def set_conn_def)
  have s: "sc_mRequestContext (n_conn lib_ab_calling c) = cl_ptrRequestContext lib_ab_calling" for c
    by (simp add: lib_ab_calling_def lib_ab_def net.extend_def net_zero_def conn_zero_def bind_ctx_def
        AddRpcContext_def Let_def net_upd_defs)
  have call: "mget (conn_table 2 lib_ab_calling) (cc_szRequestID call_q) = Some (cc_rpc call_q)"
    "sc_Ctx (n_conn lib_ab_calling 2) = Some (CtxHost ''a:1'')" "cl_result lib_ab_calling = []"
    by (simp_all add: call_q_def lib_ab_calling_def lib_ab_def net.extend_def net_zero_def conn_zero_def bind_ctx_def
        AddRpcContext_def Let_def net_upd_defs)
  have pool: "GetAgent ''a:1'' (cl_ptrAgentManager lib_ab_calling) = Some (Some 0)"
    by (simp add: lib_ab_calling_def GetAgent_def bind_ctx_def AddRpcContext_def Let_def net_upd_defs agents_ab_fst)
  have q: "cc_conn call_q = 2" "cc_then call_q = WaitSync" "cc_szRequestID call_q = ''q''"
    by (simp_all add: call_q_def)
  show ?thesis
    using lost_connection_fails_others [OF inv ok _ s s call(1) q(1,2) call(2) pool surjective_pairing
        surjective_pairing, of "''lost''" 1 SelMsg lib_stub 0] call(3) q
    by simp
qed

end
