(* ===== verification/EndToEnd.thy ===== *)
theory EndToEnd
  imports AgentProps ClientProps
begin

text \<open>
  One remote call through the three programs that take part in it: the client library of the
  caller (\<open>ClientLib\<close>), the agent (\<open>AgentManager\<close>, with the node manager behind it) and the
  client library of the provider.  Each of the five steps is a lemma about the program that
  takes it; the property composes them, with the packets passed on as the read loop cuts them
  out of what was written.
\<close>

section \<open>What passes between the programs\<close>

definition sent :: "connref \<Rightarrow> 'a net_scheme \<Rightarrow> bytes list" where
  "sent c s = sc_arySent (n_conn s c)"

text \<open>The read loop of the peer takes the bytes of one write for the one packet p.\<close>

definition delivers :: "bytes \<Rightarrow> bytes \<Rightarrow> bool" where
  "delivers b p \<longleftrightarrow> length b \<le> 4 + PACKET_LIMIT \<and> read_frames None b = ([p], EndEOF)"

lemma delivers_payload:
  assumes "delivers (fst (NewProtocol pb u t q m)) p"
  shows "p = payload pb u t q m"
proof -
  have fits: "frame_fits (payload pb u t q m)"
    using assms by (simp add: delivers_def frame_fits_def fst_NewProtocol_frame)
  then have "fst (NewProtocol pb u t q m) = frame (payload pb u t q m) @ []"
    by (simp add: frame_def frame_fits_def fst_NewProtocol_frame)
  then show ?thesis
    using assms read_frames_Cons [OF fits, of None "[]"] by (simp add: delivers_def read_frames_Nil)
qed

lemma delivers_fits:
  assumes "5 + length u + length q + length (Marshal pb m) \<le> PACKET_LIMIT"
  shows "delivers (fst (NewProtocol pb u t q m)) (payload pb u t q m)"
proof -
  have fits: "frame_fits (payload pb u t q m)" using assms by (simp add: frame_fits_def length_payload)
  then have "fst (NewProtocol pb u t q m) = frame (payload pb u t q m) @ []"
    by (simp add: frame_def frame_fits_def fst_NewProtocol_frame)
  then show ?thesis
    using fits read_frames_Cons [OF fits, of None "[]"]
    by (simp add: delivers_def read_frames_Nil frame_def frame_fits_def)
qed

lemma Write_open:
  assumes "transport_error c s = None"
  shows "Write c b s = (True, snd (Write c b s))" "sent c (snd (Write c b s)) = sent c s @ [b]"
    "n_rpc (snd (Write c b s)) = n_rpc s" "conn_table c' (snd (Write c b s)) = conn_table c' s"
  using assms by (simp_all add: Write_def sent_def net_upd_defs)

lemma Write_transport: "transport_error c (snd (Write c' b s)) = transport_error c s"
  by (auto simp: Write_def transport_error_def net_upd_defs split: option.split)

lemma Process_request:
  assumes "string_fits u" "string_fits q"
  shows "Process rt (payload pb u 1 q m) (Some rc) s
    = fnRouter2Handler rt u (Marshal pb m) (Some (rc\<lparr>rq_szRequestID := q\<rparr>)) s"
  using read_packet_payload [OF assms, of 1 pb m]
  by (simp add: Process_def GetRequestContext_def SetRequestID_def)

lemma Process_late_response:
  assumes "string_fits u" "string_fits q" "mget (conn_table (rq_ptrServerConnection rc) s) q = None"
  shows "Process rt (payload pb u 2 q m) (Some rc) s
    = fnRouter2Handler rt u (Marshal pb m) (Some (rc\<lparr>rq_szRequestID := q\<rparr>)) s"
  using read_packet_payload [OF assms(1,2), of 2 pb m] assms(3)
  by (simp add: Process_def GetRequestContext_def SetRequestID_def GetRpcContext_miss)

lemma rpc_uris_fit: "string_fits NODE_RPC_REQ" "string_fits NODE_RPC_RESP"
  by (simp_all add: string_fits_def)

text \<open>The request as the agent hands it on, and the answer of the provider.\<close>

definition forwarded_req :: "string \<Rightarrow> bytes \<Rightarrow> string list \<Rightarrow> RpcCallReq" where
  "forwarded_req u d cs = (sync_req u d)\<lparr>RpcCallReq_Caller := cs\<rparr>"

lemma forwarded_push [simp]:
  "PushStack (sync_req u d) cl = forwarded_req u d [cl]"
  "PushStack (forwarded_req u d cs) cl = forwarded_req u d (cs @ [cl])"
  by (simp_all add: forwarded_req_def PushStack_def sync_req_def)

definition answer_rsp :: "string \<Rightarrow> bytes \<Rightarrow> string list \<Rightarrow> RpcCallResp" where
  "answer_rsp u d cs = \<lparr>RpcCallResp_Result = 0, RpcCallResp_Data = d, RpcCallResp_URI = u,
     RpcCallResp_Caller = cs, RpcCallResp_EntryType = EntryType_RPC\<rparr>"

section \<open>The caller sends and the provider answers\<close>

text \<open>A call over an open connection writes the request and waits under its id.\<close>

lemma Call_begin_open:
  fixes a :: "'a net_scheme"
  assumes "transport_error c a = None"
  shows "\<exists>x t. Call_begin pb ((NewCall q u m (Some c))\<lparr>call_nTimeoutMs := tmo\<rparr>) a = (Some x, t)
    \<and> sent c t = sent c a @ [fst (NewProtocol pb u 1 q m)] \<and> net.more t = net.more a
    \<and> mget (conn_table c t) q = Some x \<and> n_rpc t x = rpc_zero \<and> transport_error c t = None"
proof -
  let ?b = "fst (NewProtocol pb u 1 q m)"
  obtain x a0 where add: "AddRpcContext c q a = (x, a0)" by fastforce
  have a0: "net.more a0 = net.more a" "n_conn a0 = n_conn a"
    using add by (auto simp: AddRpcContext_def Let_def net_upd_defs)
  have op: "transport_error c a0 = None" using assms(1) unfolding transport_error_def a0(2) .
  let ?t = "snd (Write c ?b a0)"
  have t: "net.more ?t = net.more a" using op a0(1) by (simp add: Write_def net_upd_defs)
  have "Call_begin pb ((NewCall q u m (Some c))\<lparr>call_nTimeoutMs := tmo\<rparr>) a = (Some x, ?t)"
    using Write_open(1) [OF op, of ?b] add
    by (simp add: Call_begin_def NewCall_def split: prod.splits bool.splits) auto
  then show ?thesis
    using AddRpcContext_waits [OF add, THEN conjunct1] AddRpcContext_waits [OF add, THEN conjunct2, THEN conjunct1]
      Write_open(2-4) [OF op] a0(2) t op
    by (intro exI [of _ x] exI [of _ ?t]) (simp add: sent_def conn_table_def Write_transport)
qed

lemma caller_sends:
  fixes a :: "'a Client_scheme"
  assumes "transport_error c a = None"
    and "sync_connected pb q u d tmo (Some c) a = (z, a1)"
  shows "\<exists>x. z = Ret () \<and> sent c a1 = sent c a @ [fst (NewProtocol pb NODE_RPC_REQ 1 q (MRpcCallReq (sync_req u d)))]
    \<and> cl_wait a1 = cl_wait a @ [\<lparr>cc_rpc = x, cc_conn = c, cc_szRequestID = q, cc_then = WaitSync\<rparr>]
    \<and> cl_result a1 = cl_result a \<and> mget (conn_table c a1) q = Some x \<and> n_rpc a1 x = rpc_zero"
proof -
  obtain x t where t: "Call_begin pb ((NewCall q NODE_RPC_REQ (MRpcCallReq (sync_req u d)) (Some c))\<lparr>call_nTimeoutMs := tmo\<rparr>) a
      = (Some x, t)" "sent c t = sent c a @ [fst (NewProtocol pb NODE_RPC_REQ 1 q (MRpcCallReq (sync_req u d)))]"
      "net.more t = net.more a" "mget (conn_table c t) q = Some x" "n_rpc t x = rpc_zero"
    using Call_begin_open [OF assms(1)] by blast
  have "z = Ret ()" "a1 = wait_call x c q WaitSync t"
    using assms(2) t(1) by (simp_all add: sync_connected_def Let_def)
  then show ?thesis using t(2,4,5) more_lib [OF t(3)] by (simp add: wait_call_def sent_def conn_table_def)
qed

lemma provider_takes:
  fixes b :: "'a Client_scheme"
  assumes "mget (cl_mRouter b) (RpcCallReq_URI r) \<noteq> None" "string_fits q"
    and "Unmarshal_RpcCallReq pb (Marshal pb (MRpcCallReq r)) = Some r"
  shows "process_packet pb nNow ra c (payload pb NODE_RPC_REQ 1 q (MRpcCallReq r)) (Some rc) b
    = (Ret (), go (ThHandle r (Some (rc\<lparr>rq_szRequestID := q\<rparr>))) b)"
proof -
  have "mget (client_routes pb nNow ra :: 'a Client_scheme Router) NODE_RPC_REQ = Some (handleRpcCallReq_cl pb)"
    by (simp add: client_routes_def RegisterRouter_def NewRouter_def)
  then show ?thesis
    using assms
    by (auto simp: process_packet_def Process_request [OF rpc_uris_fit(1) assms(2)]
        fnRouter2Handler_def handleRpcCallReq_cl_def simp del: One_nat_def)
qed

lemma provider_answers:
  fixes b :: "'a Client_scheme"
  assumes "mget (cl_mRouter b) u = Some f" "transport_error (rq_ptrServerConnection rc) b = None"
  shows "handle_call pb (forwarded_req u d cs) (Some rc) b
    = (Ret (), snd (Write (rq_ptrServerConnection rc) (fst (NewProtocol pb NODE_RPC_RESP 2 (rq_szRequestID rc)
        (MRpcCallResp (answer_rsp u (f d (Some rc)) cs)))) b))"
proof -
  have "forwarded_req u d cs = \<lparr>RpcCallReq_Data = d, RpcCallReq_URI = u, RpcCallReq_Caller = cs,
      RpcCallReq_RequestMode = RequestMode_LOCAL_BETTER, RpcCallReq_Key = '''', RpcCallReq_EntryType = EntryType_RPC\<rparr>"
    by (simp add: forwarded_req_def sync_req_def)
  then show ?thesis
    using assms(1)
    by (simp add: handle_call_def answer_rsp_def GetRequestID_def GetRequestContext_def
        GetServerConnection_def case_prod_beta)
qed

text \<open>A response reaches the call that waits for it, which decodes it.\<close>

lemma response_taken:
  fixes a :: "'a Client_scheme"
  assumes "mget (conn_table c a) q = Some x" "n_rpc a x = rpc_zero"
    and "string_fits u" "string_fits q" "rq_ptrServerConnection rc = c" "unm (Marshal pb m) = Some r"
  shows "\<exists>a1 a2. OnRead_cl c (payload pb u 2 q m) (Some rc) a = (Ret (), a1) \<and> select_ready SelMsg False x a1
    \<and> Call_select unm SelMsg c q x a1 = (Ret (Some r), a2)
    \<and> net.more a1 = net.more a \<and> net.more a2 = net.more a \<and> sent c' a2 = sent c' a
    \<and> transport_error c' a2 = transport_error c' a"
proof -
  define a1 where "a1 = set_rpc x (rpc_zero\<lparr>rc_aryMsg := [Marshal pb m]\<rparr>)
    (set_conn_table c (mdel q (conn_table c a)) a)"
  have pk: "read_packet (payload pb u 2 q m) = Inr (u, 2, q, Marshal pb m)"
    by (rule read_packet_payload) (use assms(3,4) in simp_all)
  have 1: "OnRead_cl c (payload pb u 2 q m) (Some rc) a = (Ret (), a1)"
    using assms(1,2,5) pk
    by (simp add: OnRead_cl_def GetServerConnection_def GetRequestContext_def GetRpcContext_def chan_send_def
        a1_def net_upd_defs rpc_zero_def)
  let ?a2 = "CancelFunc x (set_rpc x ((n_rpc a1 x)\<lparr>rc_aryMsg := []\<rparr>) a1)"
  have "n_rpc a1 x = rpc_zero\<lparr>rc_aryMsg := [Marshal pb m]\<rparr>" by (simp add: a1_def net_upd_defs)
  then have 2: "Call_select unm SelMsg c q x a1 = (Ret (Some r), ?a2)" "select_ready SelMsg False x a1"
    using assms(6)
    by (simp_all add: Call_select_def chan_recv_def ErrorMsg_def rpc_zero_def net_upd_defs select_ready_def)
  show ?thesis
    by (intro exI [of _ a1] exI [of _ ?a2])
       (use 1 2 in \<open>simp add: a1_def CancelFunc_def net_upd_defs sent_def transport_error_def\<close>)
qed

lemma caller_returns:
  fixes a :: "'a Client_scheme"
  assumes "mget (conn_table c a) q = Some x" "n_rpc a x = rpc_zero"
    and "string_fits q" "rq_ptrServerConnection rc = c"
    and "Unmarshal_RpcCallResp pb (Marshal pb (MRpcCallResp r)) = Some r"
    and "OnRead_cl c (payload pb NODE_RPC_RESP 2 q (MRpcCallResp r)) (Some rc) a = (z, a1)"
    and "finish_client_call pb nNow SelMsg \<lparr>cc_rpc = x, cc_conn = c, cc_szRequestID = q, cc_then = WaitSync\<rparr> a1
      = (z', a2)"
  shows "z = Ret () \<and> select_ready SelMsg False x a1 \<and> z' = Ret () \<and> cl_result a2 = cl_result a @ [(q,
      if RpcCallResp_Result r \<noteq> ResultCode_SUCCESS then Inl ''result not success'' else Inr (RpcCallResp_Data r))]"
proof -
  obtain t t2 where t: "OnRead_cl c (payload pb NODE_RPC_RESP 2 q (MRpcCallResp r)) (Some rc) a = (Ret (), t)"
      "select_ready SelMsg False x t" "Call_select (Unmarshal_RpcCallResp pb) SelMsg c q x t = (Ret (Some r), t2)"
      "net.more t2 = net.more a"
    using response_taken [OF assms(1,2) rpc_uris_fit(2) assms(3,4), of "Unmarshal_RpcCallResp pb" pb "MRpcCallResp r" r] assms(5)
    by blast
  have "a1 = t" "z = Ret ()" using assms(6) t(1) by simp_all
  then show ?thesis
    using assms(7) t(2,3) more_lib(5) [OF t(4)]
    by (auto simp: finish_client_call_def sync_finish_def add_result_def)
qed

section \<open>The agent passes both on\<close>

text \<open>
  The record n of the client k is known, alive and bound to the connection c, which no other
  connection of the client is mistaken for.
\<close>

definition connected :: "clientref \<Rightarrow> string \<Rightarrow> connref \<Rightarrow> 'a ClientManager_scheme \<Rightarrow> bool" where
  "connected n k c s \<longleftrightarrow>
     mget (cm_mClientInfo s) k = Some n \<and> getClientInfo n s = k \<and> ci_nStatus (cm_info s n) = 2
   \<and> c \<in> set (ci_aryConnectionList (cm_info s n)) \<and> getClientByConnection c s = Some n
   \<and> (\<forall>c' \<in> set (ci_aryConnectionList (cm_info s n)).
        getConnectionID (Some c') s = getConnectionID (Some c) s \<longrightarrow> c' = c)"

text \<open>The request of a client for u goes to the client m of this agent, over the connection c.\<close>

definition hosts :: "agent_env \<Rightarrow> agent_choice \<Rightarrow> string \<Rightarrow> clientref \<Rightarrow> connref \<Rightarrow> 'a ClientManager_scheme \<Rightarrow> bool" where
  "hosts A ch u m c s \<longleftrightarrow>
     (\<forall>r. RpcCallReq_URI r = u \<longrightarrow> RpcCallReq_EntryType r = EntryType_RPC \<longrightarrow> RpcCallReq_Key r = '''' \<longrightarrow>
        getClient4RpcCallReq A ch r s = Some m)
   \<and> ci_nStatus (cm_info s m) = 2 \<and> getConnection_ci (ac_rand ch m) m s = Some c"

definition serves :: "agent_env \<Rightarrow> agent_choice \<Rightarrow> string \<Rightarrow> clientref \<Rightarrow> connref \<Rightarrow> 'a ClientManager_scheme \<Rightarrow> bool" where
  "serves A ch u m c s \<longleftrightarrow>
     entryExist2 (ae_node A) (nm_ptrSelf s) u EntryType_RPC False s \<and> hosts A ch u m c s"

lemma forwarded_parts [simp]:
  "RpcCallReq_URI (forwarded_req u d cs) = u" "RpcCallReq_EntryType (forwarded_req u d cs) = EntryType_RPC"
  "RpcCallReq_Key (forwarded_req u d cs) = ''''" "RpcCallReq_Caller (forwarded_req u d cs) = cs"
  "RpcCallReq_RequestMode (forwarded_req u d cs) = RequestMode_LOCAL_BETTER"
  by (simp_all add: forwarded_req_def sync_req_def)

text \<open>A request for u is written to the client that hosts it.\<close>

lemma call_local_hosts:
  fixes s :: "'a ClientManager_scheme"
  assumes "hosts A ch u m c s" "transport_error c s = None"
  shows "call_local A ch (forwarded_req u d cs) ctx s = (Ret ''SUCCESS'', snd (Write c
    (fst (NewProtocol (ae_pb A) NODE_RPC_REQ 1 (ac_uuid ch m) (MRpcCallReq (forwarded_req u d cs)))) s))"
proof -
  have "rpcCall A ch m (forwarded_req u d cs) s
      = Write c (fst (NewProtocol (ae_pb A) NODE_RPC_REQ 1 (ac_uuid ch m) (MRpcCallReq (forwarded_req u d cs)))) s"
    using assms(1) by (simp add: hosts_def rpcCall_def sendMessage_def case_prod_beta)
  then have "rpcCall A ch m (forwarded_req u d cs) s = (True, snd (Write c
      (fst (NewProtocol (ae_pb A) NODE_RPC_REQ 1 (ac_uuid ch m) (MRpcCallReq (forwarded_req u d cs)))) s))"
    using Write_open(1) [OF assms(2)] by simp
  then show ?thesis using assms(1) by (simp add: hosts_def call_local_def)
qed

lemma connected_after:
  fixes s :: "'a ClientManager_scheme" and nNow :: int64 and n' :: clientref and b :: bytes
  assumes "transport_error c' s = None"
  defines "t \<equiv> refreshKeepLiveTime_ci nNow n' (snd (Write c' b s))"
  shows "connected n k c t = connected n k c s" "getConnectionID (Some c) t = getConnectionID (Some c) s"
    "sent c' t = sent c' s @ [b]" "transport_error c t = transport_error c s"
    "getClientByConnection c t = getClientByConnection c s" "conn_table c t = conn_table c s"
proof -
  let ?w = "snd (Write c' b s)"
  have id: "getConnectionID (Some c) t = getConnectionID (Some c) s" for c
    using assms by (simp add: getConnectionID_def refreshKeepLiveTime_ci_def set_client_def Write_def net_upd_defs)
  show "getConnectionID (Some c) t = getConnectionID (Some c) s" by (rule id)
  show "transport_error c t = transport_error c s" "conn_table c t = conn_table c s" "sent c' t = sent c' s @ [b]"
    using assms by (auto simp: transport_error_def sent_def conn_table_def refreshKeepLiveTime_ci_def
        set_client_def Write_def net_upd_defs)
  show bnd: "getClientByConnection c t = getClientByConnection c s"
    using assms by (simp add: getClientByConnection_def refreshKeepLiveTime_ci_def set_client_def)
  show "connected n k c t = connected n k c s"
    unfolding connected_def id bnd
    using assms(1) by (simp add: t_def getClientInfo_def refreshKeepLiveTime_ci_def set_client_def Write_client)
qed

lemma agent_forwards:
  fixes s :: "'a ClientManager_scheme"
  assumes "connected n k c s" "serves A ch u m c' s" "transport_error c' s = None" "string_fits q"
    and "rq_ptrServerConnection rc = c"
    and "Unmarshal_RpcCallReq (ae_pb A) (Marshal (ae_pb A) (MRpcCallReq (sync_req u d))) = Some (sync_req u d)"
    and "process_task_cm A (objNodeHandler A NodeManagerHandler) ch nNow c
      (payload (ae_pb A) NODE_RPC_REQ 1 q (MRpcCallReq (sync_req u d))) (Some rc) s = (z, s1)"
  shows "z = Ret ()" "s1 = refreshKeepLiveTime_ci nNow n (snd (Write c' (fst (NewProtocol (ae_pb A) NODE_RPC_REQ 1
    (ac_uuid ch m) (MRpcCallReq (forwarded_req u d [GenAgentCaller k q (getConnectionID (Some c) s)])))) s))"
proof -
  let ?H = "objNodeHandler A NodeManagerHandler :: 'a ClientManager_scheme NodeHandler"
  let ?rc = "rc\<lparr>rq_szRequestID := q\<rparr>"
  let ?r = "forwarded_req u d [GenAgentCaller k q (getConnectionID (Some c) s)]"
  let ?t = "snd (Write c' (fst (NewProtocol (ae_pb A) NODE_RPC_REQ 1 (ac_uuid ch m) (MRpcCallReq ?r))) s)"
  have here: "nh_DispatchReq ?H (ac_node ch) ?r (Some ?rc) s = ((ResultCode_CALL_YOUR_SELF, ?r), s)"
    using assms(2) by (simp add: serves_def objNodeHandler_def node_manager_handler_def DispatchReq_def Let_def)
  have "call_local A ch ?r (Some ?rc) s = (Ret ''SUCCESS'', ?t)"
    using assms(2,3) by (intro call_local_hosts) (simp_all add: serves_def)
  then have "handleRpcCallReq_cm A ?H ch (Marshal (ae_pb A) (MRpcCallReq (sync_req u d))) (Some ?rc) s = (Ret ''SUCCESS'', ?t)"
    using assms(1,5,6) here
    by (simp add: handleRpcCallReq_cm_def getClient_def GetServerConnection_def GetRequestContext_def
        GetRequestID_def connected_def)
  moreover have "mget (client_router A ?H ch nNow) NODE_RPC_REQ = Some (handleRpcCallReq_cm A ?H ch)"
    by (simp add: client_router_def RegisterRouter_def NewRouter_def)
  ultimately have "process_task_cm A ?H ch nNow c (payload (ae_pb A) NODE_RPC_REQ 1 q (MRpcCallReq (sync_req u d))) (Some rc) s
      = (Ret (), case getClient (Some rc) ?t of Some n \<Rightarrow> refreshKeepLiveTime_ci nNow n ?t | None \<Rightarrow> ?t)"
    by (simp add: process_task_cm_def Process_request [OF rpc_uris_fit(1) assms(4)] fnRouter2Handler_def
        del: One_nat_def)
  moreover have "getClient (Some rc) ?t = Some n"
    using assms(1,5) by (simp add: connected_def getClient_def GetServerConnection_def GetRequestContext_def
        getClientByConnection_def)
  ultimately show "z = Ret ()" "s1 = refreshKeepLiveTime_ci nNow n ?t" using assms(7) by simp_all
qed

lemma agent_returns:
  fixes s :: "'a ClientManager_scheme"
  assumes "connected n k c s" "getClientByConnection c' s \<noteq> None" "transport_error c s = None"
    and "string_fits q'" "mget (conn_table c' s) q' = None" "rq_ptrServerConnection rc = c'"
    and "utf8_ok k" "utf8_ok q" "utf8_ok (getConnectionID (Some c) s)"
    and "RpcCallResp_Caller r = cs @ [GenAgentCaller k q (getConnectionID (Some c) s)]"
    and "Unmarshal_RpcCallResp (ae_pb A) (Marshal (ae_pb A) (MRpcCallResp r)) = Some r"
    and "process_task_cm A (objNodeHandler A NodeManagerHandler) ch nNow c'
      (payload (ae_pb A) NODE_RPC_RESP 2 q' (MRpcCallResp r)) (Some rc) s = (z, s1)"
  shows "z = Ret () \<and> sent c s1 = sent c s @ [fst (NewProtocol (ae_pb A) NODE_RPC_RESP 2 q
    (MRpcCallResp (r\<lparr>RpcCallResp_Caller := cs\<rparr>)))]"
proof -
  let ?H = "objNodeHandler A NodeManagerHandler :: 'a ClientManager_scheme NodeHandler"
  let ?rc = "rc\<lparr>rq_szRequestID := q'\<rparr>"
  let ?t = "snd (Write c (fst (NewProtocol (ae_pb A) NODE_RPC_RESP 2 q (MRpcCallResp (r\<lparr>RpcCallResp_Caller := cs\<rparr>)))) s)"
  have "utf8_ok []" by (simp add: utf8_ok.simps)
  then have json: "json_Unmarshal (GenAgentCaller k q (getConnectionID (Some c) s)) = Some (Caller_zero\<lparr>Caller_Type := 1,
      Caller_AgentID := k, Caller_RequestID := q, Caller_ConnectionID := getConnectionID (Some c) s\<rparr>)"
    unfolding GenAgentCaller_def by (intro json_roundtrip) (use assms in \<open>simp add: caller_ok_def Caller_zero_def\<close>)
  have here: "nh_DispatchRsp ?H (ac_node ch) r (Some ?rc) s = ((ResultCode_CALL_YOUR_SELF, r), s)"
    using json assms(10)
    by (simp add: objNodeHandler_def node_manager_handler_def DispatchRsp_def GetTopStack_def Caller_zero_def)
  have "respond_local A ch r s = (Ret ''SUCCESS'', ?t)"
    by (rule respond_local_returns [OF _ _ _ _ assms(7-10)]) (use assms(1) [unfolded connected_def] in blast)+
  then have "handleRpcCallResp_cm A ?H ch (Marshal (ae_pb A) (MRpcCallResp r)) (Some ?rc) s = (Ret ''SUCCESS'', ?t)"
    using assms(2,6,11) here
    by (auto simp: handleRpcCallResp_cm_def getClient_def GetServerConnection_def GetRequestContext_def)
  moreover have "mget (client_router A ?H ch nNow) NODE_RPC_RESP = Some (handleRpcCallResp_cm A ?H ch)"
    by (simp add: client_router_def RegisterRouter_def NewRouter_def)
  ultimately have "process_task_cm A ?H ch nNow c' (payload (ae_pb A) NODE_RPC_RESP 2 q' (MRpcCallResp r)) (Some rc) s
      = (Ret (), case getClient (Some rc) ?t of Some n \<Rightarrow> refreshKeepLiveTime_ci nNow n ?t | None \<Rightarrow> ?t)"
    using assms(5,6)
    by (simp add: process_task_cm_def Process_late_response [OF rpc_uris_fit(2) assms(4)] fnRouter2Handler_def)
  then show ?thesis
    using assms(12) Write_open(2) [OF assms(3)]
    by (auto simp: sent_def refreshKeepLiveTime_ci_def set_client_def split: option.splits)
qed

section \<open>The whole call\<close>

text \<open>The protobuf runtime decodes the four messages of the call as they were encoded.\<close>

definition rpc_codec :: "proto_lib \<Rightarrow> string \<Rightarrow> bytes \<Rightarrow> bytes \<Rightarrow> string \<Rightarrow> bool" where
  "rpc_codec pb u d y cl \<longleftrightarrow>
     (\<forall>r \<in> {sync_req u d, forwarded_req u d [cl]}. Unmarshal_RpcCallReq pb (Marshal pb (MRpcCallReq r)) = Some r)
   \<and> (\<forall>r \<in> {answer_rsp u y [cl], answer_rsp u y []}.
        Unmarshal_RpcCallResp pb (Marshal pb (MRpcCallResp r)) = Some r)"

lemma answer_parts [simp]:
  "RpcCallResp_Caller (answer_rsp u y cs) = cs" "RpcCallResp_Data (answer_rsp u y cs) = y"
  "RpcCallResp_Result (answer_rsp u y cs) = 0"
  "(answer_rsp u y cs)\<lparr>RpcCallResp_Caller := cs'\<rparr> = answer_rsp u y cs'"
  by (simp_all add: answer_rsp_def)

lemma transport_error_go [simp]: "transport_error c (go k s) = transport_error c s"
  by (simp add: transport_error_def go_def)

text \<open>
  C1. A remote call returns what the handler of the provider makes of the argument.  A caller
  sends a request over its connection c, the agent hands it to the client m that serves the
  URI, the provider runs its handler and answers, the agent passes the answer back, and the
  waiting call of the caller adds exactly this answer to the results; no step panics.  The
  agent may be in any other state when the answer arrives, as long as the caller is still
  connected and the provider known.
\<close>

theorem call_end_to_end:
  fixes a :: "'c Client_scheme" and b :: "'d Client_scheme" and s s2 :: "'a ClientManager_scheme"
    and A :: agent_env and ch :: agent_choice and m :: clientref and sa :: connref and rc2 :: RequestContext
  defines "H \<equiv> objNodeHandler A NodeManagerHandler :: 'a ClientManager_scheme NodeHandler"
  defines "cid \<equiv> getConnectionID (Some sa) s"
  defines "ctx \<equiv> Some (rc2\<lparr>rq_szRequestID := ac_uuid ch m\<rparr>)"
  assumes fits: "string_fits q" "utf8_ok q" "string_fits (ac_uuid ch m)" "utf8_ok k" "utf8_ok cid"
    and codec: "rpc_codec (ae_pb A) u d (f d ctx) (GenAgentCaller k q cid)"
    and caller: "transport_error c a = None" "sync_connected (ae_pb A) q u d tmo (Some c) a = (z1, a1)"
      "delivers (last (sent c a1)) p1"
    and agent: "connected n k sa s" "serves A ch u m sb s" "transport_error sb s = None"
      "rq_ptrServerConnection rc1 = sa" "process_task_cm A H ch t1 sa p1 (Some rc1) s = (z2, s1)"
      "delivers (last (sent sb s1)) p2"
    and provider: "mget (cl_mRouter b) u = Some f" "transport_error (rq_ptrServerConnection rc2) b = None"
      "process_packet (ae_pb A) t2 r2 (rq_ptrServerConnection rc2) p2 (Some rc2) b = (z3, b1)"
      "run_client_thread (ae_pb A) t3 dial i r3 (last (cl_thread b1)) b1 = (z4, b2)"
      "delivers (last (sent (rq_ptrServerConnection rc2) b2)) p3"
    and again: "connected n k sa s2" "getConnectionID (Some sa) s2 = cid" "transport_error sa s2 = None"
      "getClientByConnection sb s2 \<noteq> None" "mget (conn_table sb s2) (ac_uuid ch m) = None"
      "rq_ptrServerConnection rc3 = sb" "process_task_cm A H ch' t4 sb p3 (Some rc3) s2 = (z5, s3)"
      "delivers (last (sent sa s3)) p4"
    and returned: "rq_ptrServerConnection rc4 = c" "OnRead_cl c p4 (Some rc4) a1 = (z6, a2)"
      "finish_client_call (ae_pb A) t5 SelMsg (last (cl_wait a1)) a2 = (z7, a3)"
  shows "set [z1, z2, z3, z4, z5, z6, z7] = {Ret ()}
    \<and> select_ready SelMsg False (cc_rpc (last (cl_wait a1))) a2
    \<and> cl_result a3 = cl_result a @ [(q, Inr (f d ctx))]"
proof -
  let ?pb = "ae_pb A" and ?cb = "rq_ptrServerConnection rc2"
  let ?cl = "GenAgentCaller k q cid"
  note codec = codec [unfolded rpc_codec_def]
  obtain x where 1: "z1 = Ret ()" "last (sent c a1) = fst (NewProtocol ?pb NODE_RPC_REQ 1 q (MRpcCallReq (sync_req u d)))"
    and w: "last (cl_wait a1) = \<lparr>cc_rpc = x, cc_conn = c, cc_szRequestID = q, cc_then = WaitSync\<rparr>"
    and x: "cl_result a1 = cl_result a" "mget (conn_table c a1) q = Some x" "n_rpc a1 x = rpc_zero"
    using caller_sends [OF caller(1,2)] by auto
  have p1: "p1 = payload ?pb NODE_RPC_REQ 1 q (MRpcCallReq (sync_req u d))"
    by (rule delivers_payload) (use caller(3) 1(2) in simp)
  have "Unmarshal_RpcCallReq ?pb (Marshal ?pb (MRpcCallReq (sync_req u d))) = Some (sync_req u d)" using codec by simp
  from agent_forwards [OF agent(1-3) fits(1) agent(4) this, folded H_def cid_def, OF agent(5) [unfolded p1]]
  have 2: "z2 = Ret ()" "last (sent sb s1) = fst (NewProtocol ?pb NODE_RPC_REQ 1 (ac_uuid ch m) (MRpcCallReq (forwarded_req u d [?cl])))"
    by (simp_all add: connected_after(3) [OF agent(3)])
  have p2: "p2 = payload ?pb NODE_RPC_REQ 1 (ac_uuid ch m) (MRpcCallReq (forwarded_req u d [?cl]))"
    by (rule delivers_payload) (use agent(6) 2(2) in simp)
  have 3: "z3 = Ret ()" "b1 = go (ThHandle (forwarded_req u d [?cl]) ctx) b"
    using provider_takes [of b "forwarded_req u d [?cl]" "ac_uuid ch m" ?pb t2 r2 ?cb rc2] provider(1,3) fits(3) codec
    unfolding p2 ctx_def by simp_all
  have b1: "mget (cl_mRouter b1) u = Some f" "last (cl_thread b1) = ThHandle (forwarded_req u d [?cl]) ctx"
    "transport_error ?cb b1 = None"
    using provider(1,2) 3(2) transport_error_go by (simp add: go_def, simp add: go_def, metis)
  have 4: "z4 = Ret ()" "b2 = snd (Write ?cb (fst (NewProtocol ?pb NODE_RPC_RESP 2 (ac_uuid ch m)
        (MRpcCallResp (answer_rsp u (f d ctx) [?cl])))) b1)"
    using provider_answers [OF b1(1), of "rc2\<lparr>rq_szRequestID := ac_uuid ch m\<rparr>" ?pb d "[?cl]", folded ctx_def] b1(2,3) provider(4)
    by (simp_all add: run_client_thread_def)
  have p3: "p3 = payload ?pb NODE_RPC_RESP 2 (ac_uuid ch m) (MRpcCallResp (answer_rsp u (f d ctx) [?cl]))"
    by (rule delivers_payload) (use provider(5) 4(2) Write_open(2) [OF b1(3)] in simp)
  have "RpcCallResp_Caller (answer_rsp u (f d ctx) [?cl]) = [] @ [GenAgentCaller k q (getConnectionID (Some sa) s2)]"
    "Unmarshal_RpcCallResp ?pb (Marshal ?pb (MRpcCallResp (answer_rsp u (f d ctx) [?cl]))) = Some (answer_rsp u (f d ctx) [?cl])"
    using again(2) codec by simp_all
  from agent_returns [OF again(1,4,3) fits(3) again(5,6) fits(4,2) _ this, folded H_def, OF _ again(7) [unfolded p3]]
  have 5: "z5 = Ret ()" "last (sent sa s3) = fst (NewProtocol ?pb NODE_RPC_RESP 2 q (MRpcCallResp (answer_rsp u (f d ctx) [])))"
    using fits(5) again(2) by simp_all
  have p4: "p4 = payload ?pb NODE_RPC_RESP 2 q (MRpcCallResp (answer_rsp u (f d ctx) []))"
    by (rule delivers_payload) (use again(8) 5(2) in simp)
  have "Unmarshal_RpcCallResp ?pb (Marshal ?pb (MRpcCallResp (answer_rsp u (f d ctx) []))) = Some (answer_rsp u (f d ctx) [])"
    using codec by simp
  from caller_returns [OF x(2,3) fits(1) returned(1) this returned(2) [unfolded p4] returned(3) [unfolded w]]
  show ?thesis using 1(1) 2(1) 3(1) 4(1) 5(1) x(1) w by simp
qed

section \<open>A call to compute\<close>

text \<open>A runtime that decodes the messages of one call, two clients of an agent, and the call.\<close>

definition e2e_stack :: string where
  "e2e_stack = GenAgentCaller ''c1'' ''q'' ''_''"

definition e2e_pb :: proto_lib where
  "e2e_pb = lib_stub\<lparr>
     Marshal := \<lambda>m. (case m of
        MRpcCallReq r \<Rightarrow> if RpcCallReq_Caller r = [] then ''1'' else ''2''
      | MRpcCallResp r \<Rightarrow> if RpcCallResp_Caller r = [] then ''1'' else ''2''
      | _ \<Rightarrow> []),
     Unmarshal_RpcCallReq := \<lambda>b. Some (if b = ''1'' then sync_req ''u'' ''d'' else forwarded_req ''u'' ''d'' [e2e_stack]),
     Unmarshal_RpcCallResp := \<lambda>b. Some (answer_rsp ''u'' ''d!'' (if b = ''1'' then [] else [e2e_stack]))\<rparr>"

definition e2e_env :: agent_env where
  "e2e_env = agent_env1\<lparr>ae_node := example_env\<lparr>ne_pb := e2e_pb\<rparr>\<rparr>"

definition e2e_client :: "string \<Rightarrow> connref \<Rightarrow> ClientInfo" where
  "e2e_client k c = \<lparr>ci_szInstanceID = k, ci_aryConnectionList = [c], ci_mEntryInfo = [], ci_nStatus = 2,
     ci_nLastKeepAliveTime = 0\<rparr>"

definition e2e_agent :: ClientManager where
  "e2e_agent = bind_ctx 0 (CtxClient 1) (bind_ctx 1 (CtxClient 2)
     (set_client 1 (e2e_client ''c1'' 0) (set_client 2 (e2e_client ''c2'' 1)
       ((NewClientManager ''uuid'' ''agent'' node_a1)\<lparr>cm_mClientInfo := [(''c1'', 1), (''c2'', 2)],
          cm_mUri2Client := [(''u_RPC'', [2])]\<rparr>))))"

definition e2e_provider :: Client where
  "e2e_provider = HandleRpc ''u'' (\<lambda>d ctx. d @ ''!'') lib_ab"

definition e2e_rc :: "connref \<Rightarrow> RequestContext" where
  "e2e_rc c = \<lparr>rq_szLocalAddress = [], rq_szRemoteAddress = [], rq_ptrServerConnection = c, rq_szRequestID = []\<rparr>"

abbreviation (input) e2e_handler :: "ClientManager NodeHandler" where
  "e2e_handler \<equiv> objNodeHandler e2e_env NodeManagerHandler"

definition e2e_a1 :: Client where
  "e2e_a1 = snd (sync_connected e2e_pb ''q'' ''u'' ''d'' 1000 (Some 0) lib_ab)"

definition e2e_s1 :: ClientManager where
  "e2e_s1 = snd (process_task_cm e2e_env e2e_handler agent_choice1 100 0
     (drop 4 (last (sent 0 e2e_a1))) (Some (e2e_rc 0)) e2e_agent)"

definition e2e_b1 :: Client where
  "e2e_b1 = snd (process_packet e2e_pb 100 0 0 (drop 4 (last (sent 1 e2e_s1))) (Some (e2e_rc 0)) e2e_provider)"

definition e2e_b2 :: Client where
  "e2e_b2 = snd (run_client_thread e2e_pb 100 (True, []) [] 0 (last (cl_thread e2e_b1)) e2e_b1)"

definition e2e_s3 :: ClientManager where
  "e2e_s3 = snd (process_task_cm e2e_env e2e_handler agent_choice1 101 1
     (drop 4 (last (sent 0 e2e_b2))) (Some (e2e_rc 1)) e2e_s1)"

definition e2e_a2 :: Client where
  "e2e_a2 = snd (OnRead_cl 0 (drop 4 (last (sent 0 e2e_s3))) (Some (e2e_rc 0)) e2e_a1)"

definition e2e_a3 :: Client where
  "e2e_a3 = snd (finish_client_call e2e_pb 102 SelMsg (last (cl_wait e2e_a1)) e2e_a2)"

lemma e2e_agent_net:
  "n_conn e2e_agent = (\<lambda>_. conn_zero)(1 := conn_zero\<lparr>sc_Ctx := Some (CtxClient 2)\<rparr>, 0 := conn_zero\<lparr>sc_Ctx := Some (CtxClient 1)\<rparr>)"
  "n_table e2e_agent = (\<lambda>_. [])" "nm_ptrSelf e2e_agent = 0" "nm_info e2e_agent = nm_info node_a1"
  by (simp_all add: e2e_agent_def bind_ctx_def net_upd_defs set_client_def NewClientManager_def NodeManager.extend_def
      node_a1_def AddEntry_def example_defs entryExist_def alive_def getUri_def
      EntryType_String_def lib_stub_def EntryType_name_def modifyEntry_def modify_one_def set_route_def
      GoTask_def net_zero_def getUri2_def mgets_def)

lemma e2e_agent_clients:
  "cm_mClientInfo e2e_agent = [(''c1'', 1), (''c2'', 2)]" "cm_mUri2Client e2e_agent = [(''u_RPC'', [2])]"
  "cm_info e2e_agent 1 = e2e_client ''c1'' 0" "cm_info e2e_agent 2 = e2e_client ''c2'' 1"
  by (simp_all add: e2e_agent_def bind_ctx_def net_upd_defs set_client_def)

lemma e2e_codec: "rpc_codec e2e_pb ''u'' ''d'' ''d!'' e2e_stack"
  by (simp add: rpc_codec_def e2e_pb_def sync_req_def forwarded_req_def PushStack_def answer_rsp_def)

lemma e2e_pb [simp]: "ae_pb e2e_env = e2e_pb" "length (Marshal e2e_pb m) \<le> 1"
  by (simp_all add: e2e_env_def e2e_pb_def split: ProtoMsg.split)

lemma delivers_sent:
  assumes "b = fst (NewProtocol e2e_pb u t q m)" "length u + length q \<le> 100"
  shows "delivers b (drop 4 b)"
proof -
  have "5 + length u + length q + length (Marshal e2e_pb m) \<le> PACKET_LIMIT"
    using assms(2) e2e_pb(2) [of m] by linarith
  moreover have "drop 4 b = payload e2e_pb u t q m" using assms(1) by (simp add: fst_NewProtocol)
  ultimately show ?thesis using delivers_fits assms(1) by metis
qed

lemma e2e_open:
  "transport_error c e2e_agent = None" "getConnectionID (Some c) e2e_agent = ''_''"
  "transport_error c lib_ab = None" "transport_error c e2e_provider = None" "conn_table c e2e_agent = []"
  by (simp_all add: transport_error_def getConnectionID_def conn_table_def e2e_agent_net conn_zero_def
      e2e_provider_def HandleRpc_def lib_ab_def net.extend_def net_zero_def)

lemma e2e_connected: "connected 1 ''c1'' 0 e2e_agent"
  by (simp add: connected_def e2e_agent_clients getClientInfo_def e2e_client_def getClientByConnection_def
      e2e_agent_net del: One_nat_def)

lemma e2e_serves: "serves e2e_env agent_choice1 ''u'' 2 1 e2e_agent"
proof -
  have "mget (info_mEntryInfo (nm_info node_a1 0)) ''u_RPC'' \<noteq> None" "alive 0 node_a1"
    by (simp_all add: node_a1_def AddEntry_def example_defs entryExist_def alive_def getUri_def
      EntryType_String_def lib_stub_def EntryType_name_def modifyEntry_def modify_one_def set_route_def
      GoTask_def getUri2_def mgets_def)
  then have "entryExist2 (ae_node e2e_env) (nm_ptrSelf e2e_agent) ''u'' EntryType_RPC False e2e_agent"
    by (simp add: entryExist2_def e2e_agent_net alive_def getUri2_def e2e_env_def e2e_pb_def lib_stub_def
        EntryType_String_def EntryType_name_def)
  then show ?thesis
    by (simp add: serves_def hosts_def e2e_agent_clients getClient4RpcCallReq_def EntryType_String_def EntryType_name_def
        e2e_pb_def lib_stub_def e2e_client_def getConnection_ci_def pick_def agent_choice1_def rand_Intn_def
        del: One_nat_def)
qed

abbreviation (input) e2e_req :: RpcCallReq where
  "e2e_req \<equiv> forwarded_req ''u'' ''d'' [e2e_stack]"

abbreviation (input) e2e_rsp :: "string list \<Rightarrow> RpcCallResp" where
  "e2e_rsp \<equiv> answer_rsp ''u'' ''d!''"

lemma e2e_step1:
  "\<exists>z. sync_connected e2e_pb ''q'' ''u'' ''d'' 1000 (Some 0) lib_ab = (z, e2e_a1)
    \<and> last (sent 0 e2e_a1) = fst (NewProtocol e2e_pb NODE_RPC_REQ 1 ''q'' (MRpcCallReq (sync_req ''u'' ''d'')))"
proof -
  obtain z where z: "sync_connected e2e_pb ''q'' ''u'' ''d'' 1000 (Some 0) lib_ab = (z, e2e_a1)"
    by (metis e2e_a1_def prod.collapse)
  from caller_sends [OF e2e_open(3) this] show ?thesis using z by auto
qed

lemma e2e_step2:
  "\<exists>z. process_task_cm e2e_env e2e_handler agent_choice1 100 0 (drop 4 (last (sent 0 e2e_a1))) (Some (e2e_rc 0)) e2e_agent
      = (z, e2e_s1)
    \<and> e2e_s1 = refreshKeepLiveTime_ci 100 1 (snd (Write 1
         (fst (NewProtocol e2e_pb NODE_RPC_REQ 1 ''uuid'' (MRpcCallReq e2e_req))) e2e_agent))"
proof -
  obtain z where z: "process_task_cm e2e_env e2e_handler agent_choice1 100 0 (drop 4 (last (sent 0 e2e_a1)))
      (Some (e2e_rc 0)) e2e_agent = (z, e2e_s1)"
    by (metis e2e_s1_def prod.collapse)
  have "drop 4 (last (sent 0 e2e_a1)) = payload e2e_pb NODE_RPC_REQ 1 ''q'' (MRpcCallReq (sync_req ''u'' ''d''))"
    using e2e_step1 by (auto simp: fst_NewProtocol)
  note z' = z [unfolded this]
  have "Unmarshal_RpcCallReq e2e_pb (Marshal e2e_pb (MRpcCallReq (sync_req ''u'' ''d''))) = Some (sync_req ''u'' ''d'')"
    using e2e_codec by (simp add: rpc_codec_def)
  from agent_forwards(2) [OF e2e_connected e2e_serves e2e_open(1), of "''q''" "e2e_rc 0" "''d''" 100, unfolded e2e_pb(1),
      OF _ _ this z'] z
  show ?thesis by (simp add: string_fits_def e2e_rc_def e2e_open e2e_stack_def agent_choice1_def del: One_nat_def)
qed

lemma e2e_s1_parts:
  "connected 1 ''c1'' 0 e2e_s1" "getConnectionID (Some c) e2e_s1 = ''_''" "transport_error c e2e_s1 = None"
  "getClientByConnection 1 e2e_s1 = Some 2" "conn_table c e2e_s1 = []"
  "last (sent 1 e2e_s1) = fst (NewProtocol e2e_pb NODE_RPC_REQ 1 ''uuid'' (MRpcCallReq e2e_req))"
proof -
  have eq: "e2e_s1 = refreshKeepLiveTime_ci 100 1 (snd (Write 1
      (fst (NewProtocol e2e_pb NODE_RPC_REQ 1 ''uuid'' (MRpcCallReq e2e_req))) e2e_agent))"
    using e2e_step2 by blast
  have 2: "getClientByConnection 1 e2e_agent = Some 2" by (simp add: getClientByConnection_def e2e_agent_net)
  note after = connected_after [where c' = 1 and n' = 1 and nNow = 100
      and b = "fst (NewProtocol e2e_pb NODE_RPC_REQ 1 ''uuid'' (MRpcCallReq e2e_req))", OF e2e_open(1), folded eq]
  show "connected 1 ''c1'' 0 e2e_s1" "getConnectionID (Some c) e2e_s1 = ''_''" "transport_error c e2e_s1 = None"
    "getClientByConnection 1 e2e_s1 = Some 2" "conn_table c e2e_s1 = []"
    "last (sent 1 e2e_s1) = fst (NewProtocol e2e_pb NODE_RPC_REQ 1 ''uuid'' (MRpcCallReq e2e_req))"
    using after e2e_connected e2e_open 2 by (simp_all del: One_nat_def)
qed

lemma e2e_step3:
  "\<exists>z z'. process_packet e2e_pb 100 0 0 (drop 4 (last (sent 1 e2e_s1))) (Some (e2e_rc 0)) e2e_provider = (z, e2e_b1)
    \<and> run_client_thread e2e_pb 100 (True, []) [] 0 (last (cl_thread e2e_b1)) e2e_b1 = (z', e2e_b2)
    \<and> last (sent 0 e2e_b2) = fst (NewProtocol e2e_pb NODE_RPC_RESP 2 ''uuid'' (MRpcCallResp (e2e_rsp [e2e_stack])))"
proof -
  let ?rc = "e2e_rc 0\<lparr>rq_szRequestID := ''uuid''\<rparr>"
  have p: "drop 4 (last (sent 1 e2e_s1)) = payload e2e_pb NODE_RPC_REQ 1 ''uuid'' (MRpcCallReq e2e_req)"
    by (simp only: e2e_s1_parts(6)) (simp add: fst_NewProtocol)
  have h: "mget (cl_mRouter e2e_provider) ''u'' = Some (\<lambda>d ctx. d @ ''!'')" by (simp add: e2e_provider_def HandleRpc_def lib_ab_def net.extend_def)
  have "Unmarshal_RpcCallReq e2e_pb (Marshal e2e_pb (MRpcCallReq e2e_req)) = Some e2e_req"
    using e2e_codec by (simp add: rpc_codec_def)
  then have 1: "process_packet e2e_pb 100 0 0 (drop 4 (last (sent 1 e2e_s1))) (Some (e2e_rc 0)) e2e_provider
      = (Ret (), go (ThHandle e2e_req (Some ?rc)) e2e_provider)"
    unfolding p by (intro provider_takes) (simp_all add: h string_fits_def)
  then have b1: "e2e_b1 = go (ThHandle e2e_req (Some ?rc)) e2e_provider" by (simp add: e2e_b1_def)
  have h1: "mget (cl_mRouter e2e_b1) ''u'' = Some (\<lambda>d ctx. d @ ''!'')" "transport_error 0 e2e_b1 = None"
    "last (cl_thread e2e_b1) = ThHandle e2e_req (Some ?rc)"
    by (simp_all add: b1 e2e_open) (simp_all add: go_def h)
  have 2: "run_client_thread e2e_pb 100 (True, []) [] 0 (last (cl_thread e2e_b1)) e2e_b1
      = (Ret (), snd (Write 0 (fst (NewProtocol e2e_pb NODE_RPC_RESP 2 ''uuid'' (MRpcCallResp (e2e_rsp [e2e_stack])))) e2e_b1))"
    using provider_answers [OF h1(1), of ?rc e2e_pb "''d''" "[e2e_stack]"] h1(2,3)
    by (simp add: run_client_thread_def e2e_rc_def)
  then have b2: "e2e_b2 = snd (Write 0 (fst (NewProtocol e2e_pb NODE_RPC_RESP 2 ''uuid'' (MRpcCallResp (e2e_rsp [e2e_stack])))) e2e_b1)"
    by (simp add: e2e_b2_def)
  then show ?thesis using 1 2 b1 Write_open(2) [OF h1(2)] by (simp add: b2)
qed

lemma e2e_step4:
  "\<exists>z. process_task_cm e2e_env e2e_handler agent_choice1 101 1 (drop 4 (last (sent 0 e2e_b2))) (Some (e2e_rc 1)) e2e_s1
      = (z, e2e_s3)
    \<and> last (sent 0 e2e_s3) = fst (NewProtocol e2e_pb NODE_RPC_RESP 2 ''q'' (MRpcCallResp (e2e_rsp [])))"
proof -
  obtain z where z: "process_task_cm e2e_env e2e_handler agent_choice1 101 1 (drop 4 (last (sent 0 e2e_b2)))
      (Some (e2e_rc 1)) e2e_s1 = (z, e2e_s3)"
    by (metis e2e_s3_def prod.collapse)
  have "drop 4 (last (sent 0 e2e_b2)) = payload e2e_pb NODE_RPC_RESP 2 ''uuid'' (MRpcCallResp (e2e_rsp [e2e_stack]))"
    using e2e_step3 by (auto simp: fst_NewProtocol)
  note z' = z [unfolded this]
  have codec: "Unmarshal_RpcCallResp e2e_pb (Marshal e2e_pb (MRpcCallResp (e2e_rsp [e2e_stack]))) = Some (e2e_rsp [e2e_stack])"
    using e2e_codec by (simp add: rpc_codec_def)
  have utf: "utf8_ok ''c1''" "utf8_ok ''q''" "utf8_ok ''_''" by (simp_all add: utf8_ok.simps utf8_len.simps)
  from agent_returns [where A = e2e_env and c' = 1 and q' = "''uuid''" and rc = "e2e_rc 1" and q = "''q''"
      and r = "e2e_rsp [e2e_stack]" and cs = "[]",
      unfolded e2e_pb(1), OF e2e_s1_parts(1) _ e2e_s1_parts(3) _ _ _ _ _ _ _ _ z']
    utf codec z
  show ?thesis by (simp add: e2e_s1_parts(2,4,5) string_fits_def e2e_rc_def e2e_stack_def del: One_nat_def)
qed

text \<open>The client \<open>c1\<close> calls \<open>u\<close> with \<open>d\<close> and gets what the handler of \<open>c2\<close> makes of it.\<close>

theorem call_end_to_end_witness: "cl_result e2e_a3 = [(''q'', Inr ''d!'')]"
proof -
  have utf: "utf8_ok ''c1''" "utf8_ok ''q''" "utf8_ok ''_''" by (simp_all add: utf8_ok.simps utf8_len.simps)
  have fits: "string_fits ''q''" "string_fits ''uuid''" by (simp_all add: string_fits_def)
  have h: "mget (cl_mRouter e2e_provider) ''u'' = Some (\<lambda>d ctx. d @ ''!'')" by (simp add: e2e_provider_def HandleRpc_def lib_ab_def net.extend_def)
  have rc: "rq_ptrServerConnection (e2e_rc c) = c" for c by (simp add: e2e_rc_def)
  obtain z1 where 1: "sync_connected e2e_pb ''q'' ''u'' ''d'' 1000 (Some 0) lib_ab = (z1, e2e_a1)"
    "delivers (last (sent 0 e2e_a1)) (drop 4 (last (sent 0 e2e_a1)))"
    using e2e_step1 delivers_sent by fastforce
  obtain z2 where 2: "process_task_cm e2e_env e2e_handler agent_choice1 100 0 (drop 4 (last (sent 0 e2e_a1))) (Some (e2e_rc 0)) e2e_agent
      = (z2, e2e_s1)" "delivers (last (sent 1 e2e_s1)) (drop 4 (last (sent 1 e2e_s1)))"
    using e2e_step2 delivers_sent [OF e2e_s1_parts(6)] by fastforce
  obtain z3 z4 where 3: "process_packet e2e_pb 100 0 0 (drop 4 (last (sent 1 e2e_s1))) (Some (e2e_rc 0)) e2e_provider = (z3, e2e_b1)"
    "run_client_thread e2e_pb 100 (True, []) [] 0 (last (cl_thread e2e_b1)) e2e_b1 = (z4, e2e_b2)"
    "delivers (last (sent 0 e2e_b2)) (drop 4 (last (sent 0 e2e_b2)))"
    using e2e_step3 delivers_sent by fastforce
  obtain z5 where 4: "process_task_cm e2e_env e2e_handler agent_choice1 101 1 (drop 4 (last (sent 0 e2e_b2))) (Some (e2e_rc 1)) e2e_s1
      = (z5, e2e_s3)" "delivers (last (sent 0 e2e_s3)) (drop 4 (last (sent 0 e2e_s3)))"
    using e2e_step4 delivers_sent by fastforce
  obtain z6 z7 where 5: "OnRead_cl 0 (drop 4 (last (sent 0 e2e_s3))) (Some (e2e_rc 0)) e2e_a1 = (z6, e2e_a2)"
    "finish_client_call e2e_pb 102 SelMsg (last (cl_wait e2e_a1)) e2e_a2 = (z7, e2e_a3)"
    by (metis e2e_a2_def e2e_a3_def prod.collapse)
  have uuid: "ac_uuid agent_choice1 2 = ''uuid''" by (simp add: agent_choice1_def)
  have "getClientByConnection 1 e2e_s1 \<noteq> None" "mget (conn_table 1 e2e_s1) ''uuid'' = None"
    by (simp_all add: e2e_s1_parts(4,5) del: One_nat_def)
  note call = call_end_to_end [of "''q''" agent_choice1 2 "''c1''" 0 e2e_agent e2e_env "''u''" "''d''" "\<lambda>d ctx. d @ ''!''" "e2e_rc 0"
      0 lib_ab, unfolded e2e_pb(1) uuid rc e2e_open(2), folded e2e_stack_def,
      OF fits(1) utf(2) fits(2) utf(1,3) _ e2e_open(3) 1 e2e_connected e2e_serves e2e_open(1) rc 2 h e2e_open(4) 3
        e2e_s1_parts(1,2,3) this rc 4 rc 5]
  have "rpc_codec e2e_pb ''u'' ''d'' (''d'' @ ''!'') e2e_stack" using e2e_codec by simp
  with call show ?thesis by (simp add: lib_ab_def net.extend_def)
qed

end
