(* ===== verification/MeshCall.thy ===== *)
theory MeshCall
  imports EndToEnd
begin

text \<open>
  One remote call across the mesh: caller and provider are clients of different agents, so
  the request goes from the agent of the caller through its node to the node that offers the
  entry and from there to the agent behind it, and the answer takes the way back that the
  stack of callers records.  The steps of the two client libraries are those of \<open>EndToEnd\<close>.
\<close>

section \<open>Casts between nodes\<close>

text \<open>The node manager hands a message to the client manager of its process.\<close>

definition run_upcall ::
  "agent_env \<Rightarrow> agent_choice \<Rightarrow> upcall \<Rightarrow> 'a ClientManager_scheme \<Rightarrow> unit outcome \<times> 'a ClientManager_scheme" where
  "run_upcall A ch k s =
     (case k of
        HandleRequest m ctx \<Rightarrow> HandleRequest_cm A ch m ctx s
      | HandleResponse m ctx \<Rightarrow> HandleResponse_cm A ch m ctx s)"

text \<open>The connection over which the node n would be reached.\<close>

definition reached_by :: "choice \<Rightarrow> noderef \<Rightarrow> connref \<Rightarrow> 'a nodes_scheme \<Rightarrow> bool" where
  "reached_by ch n c s \<longleftrightarrow> fst (getConnection (ch_rand ch n) n s) = Some c"

lemma cast_Start_reached:
  fixes s :: "'a nodes_scheme"
  assumes "reached_by ch n c s" "transport_error c s = None" "GetRequestID ctx \<noteq> ''''"
  shows "sent c (snd (cast_Start E ch n u m ctx s))
    = sent c s @ [fst (NewProtocol (ne_pb E) u 3 (ch_uuid ch n) m)]"
proof -
  obtain s1 where conn: "getConnection (ch_rand ch n) n s = (Some c, s1)" and s1: "s1 = GoTask (TReconnect n) s"
    using assms(1) by (auto simp: reached_by_def getConnection_def Let_def)
  have "transport_error c s1 = None" "sent c s1 = sent c s"
    using assms(2) by (auto simp: s1 GoTask_def transport_error_def sent_def split: if_splits)
  moreover have "snd (cast_Start E ch n u m ctx s)
      = snd (Write c (fst (NewProtocol (ne_pb E) u 3 (ch_uuid ch n) m)) s1)"
    using conn assms(3) by (simp add: cast_Start_def cast_node_def Let_def Cast_Start_def NewCast_def case_prod_beta)
  ultimately show ?thesis using Write_open(2) [of c s1] by simp
qed

lemma Process_cast:
  assumes "string_fits u" "string_fits q"
  shows "Process rt (payload pb u 3 q m) (Some rc) s
    = fnRouter2Handler rt u (Marshal pb m) (Some (rc\<lparr>rq_szRequestID := q\<rparr>)) s"
  using read_packet_payload [OF assms, of 3 pb m]
  by (simp add: Process_def GetRequestContext_def SetRequestID_def)

text \<open>What a node does with a message of another node leaves its clients and connections alone.\<close>

definition upcalled :: "int64 \<Rightarrow> noderef \<Rightarrow> upcall \<Rightarrow> 'a NodeManager_scheme \<Rightarrow> 'a NodeManager_scheme" where
  "upcalled nNow n k s = refreshKeepLiveTime nNow n (add_upcall k s)"

lemma upcalled_simps [simp]:
  fixes s :: "'a ClientManager_scheme"
  shows "hosts A ch u m c (upcalled nNow n k s) = hosts A ch u m c s"
    "connected i j c (upcalled nNow n k s) = connected i j c s"
    "transport_error c (upcalled nNow n k s) = transport_error c s"
    "sent c (upcalled nNow n k s) = sent c s"
    "getConnectionID (Some c) (upcalled nNow n k s) = getConnectionID (Some c) s"
    "last (nm_upcall (upcalled nNow n k s)) = k"
proof -
  have eq: "cm_info (upcalled nNow n k s) = cm_info s" "cm_mClientInfo (upcalled nNow n k s) = cm_mClientInfo s"
    "cm_mUri2Client (upcalled nNow n k s) = cm_mUri2Client s" "n_conn (upcalled nNow n k s) = n_conn s"
    by (simp_all add: upcalled_def refreshKeepLiveTime_def add_upcall_def set_info_def)
  show "hosts A ch u m c (upcalled nNow n k s) = hosts A ch u m c s"
    by (simp add: hosts_def getClient4RpcCallReq_def getConnection_ci_def eq)
  show id: "getConnectionID (Some c) (upcalled nNow n k s) = getConnectionID (Some c) s" for c
    by (simp add: getConnectionID_def eq)
  show "connected i j c (upcalled nNow n k s) = connected i j c s"
    by (simp add: connected_def getClientInfo_def getClientByConnection_def id eq)
  show "transport_error c (upcalled nNow n k s) = transport_error c s" "sent c (upcalled nNow n k s) = sent c s"
    by (simp_all add: transport_error_def sent_def eq)
  show "last (nm_upcall (upcalled nNow n k s)) = k"
    by (simp add: upcalled_def refreshKeepLiveTime_def add_upcall_def set_info_def)
qed

lemma node_takes:
  fixes s :: "'a NodeManager_scheme"
  assumes "getNodeByConnection c s = Some n" "string_fits q" "rq_ptrServerConnection rc = c"
  shows "Unmarshal_RpcCallReq (ne_pb E) (Marshal (ne_pb E) (MRpcCallReq r)) = Some r \<Longrightarrow>
      process_task E ch nNow c (payload (ne_pb E) NODE_RPC_REQ 3 q (MRpcCallReq r)) (Some rc) s
        = (Ret (), upcalled nNow n (HandleRequest r (Some (rc\<lparr>rq_szRequestID := q\<rparr>))) s)"
    and "Unmarshal_RpcCallResp (ne_pb E) (Marshal (ne_pb E) (MRpcCallResp p)) = Some p \<Longrightarrow>
      process_task E ch nNow c (payload (ne_pb E) NODE_RPC_RESP 3 q (MRpcCallResp p)) (Some rc) s
        = (Ret (), upcalled nNow n (HandleResponse p (Some (rc\<lparr>rq_szRequestID := q\<rparr>))) s)"
proof -
  let ?rt = "node_router E ch nNow :: 'a NodeManager_scheme Router"
  have rt: "mget ?rt NODE_RPC_REQ = Some (handleRpcCallReq E)" "mget ?rt NODE_RPC_RESP = Some (handleRpcCallResp E)"
    by (simp_all add: node_router_def RegisterRouter_def NewRouter_def)
  have node: "getNode (Some rc') t = Some n"
    if "rq_ptrServerConnection rc' = c" "n_conn t = n_conn s" for rc' and t :: "'a NodeManager_scheme"
    using assms(1) that by (simp add: getNode_def GetServerConnection_def GetRequestContext_def getNodeByConnection_def)
  show "Unmarshal_RpcCallReq (ne_pb E) (Marshal (ne_pb E) (MRpcCallReq r)) = Some r \<Longrightarrow>
      process_task E ch nNow c (payload (ne_pb E) NODE_RPC_REQ 3 q (MRpcCallReq r)) (Some rc) s
        = (Ret (), upcalled nNow n (HandleRequest r (Some (rc\<lparr>rq_szRequestID := q\<rparr>))) s)"
    using assms(3) by (simp add: process_task_def Process_cast [OF rpc_uris_fit(1) assms(2)] fnRouter2Handler_def rt
        handleRpcCallReq_def node upcalled_def add_upcall_def)
  show "Unmarshal_RpcCallResp (ne_pb E) (Marshal (ne_pb E) (MRpcCallResp p)) = Some p \<Longrightarrow>
      process_task E ch nNow c (payload (ne_pb E) NODE_RPC_RESP 3 q (MRpcCallResp p)) (Some rc) s
        = (Ret (), upcalled nNow n (HandleResponse p (Some (rc\<lparr>rq_szRequestID := q\<rparr>))) s)"
    using assms(3) by (simp add: process_task_def Process_cast [OF rpc_uris_fit(2) assms(2)] fnRouter2Handler_def rt
        handleRpcCallResp_def node upcalled_def add_upcall_def)
qed

section \<open>The agent and its node send the request on\<close>

text \<open>
  The own node does not offer u, and the node its route picks for a request of a client is
  n, reached over the connection c.
\<close>

definition routed :: "agent_env \<Rightarrow> agent_choice \<Rightarrow> string \<Rightarrow> noderef \<Rightarrow> connref \<Rightarrow> 'a ClientManager_scheme \<Rightarrow> bool" where
  "routed A ch u n c s \<longleftrightarrow>
     (let ns = getRemoteNodeByUri (getUri2 (ae_node A) u EntryType_RPC) s in
      \<not> entryExist2 (ae_node A) (nm_ptrSelf s) u EntryType_RPC False s
    \<and> ns \<noteq> [] \<and> pick (ch_pick (ac_node ch)) ns = n \<and> reached_by (ac_node ch) n c s)"

lemma agent_sends_on:
  fixes s :: "'a ClientManager_scheme"
  assumes "connected n k c s" "routed A ch u p c' s" "transport_error c' s = None" "string_fits q" "q \<noteq> ''''"
    and "rq_ptrServerConnection rc = c"
    and "Unmarshal_RpcCallReq (ae_pb A) (Marshal (ae_pb A) (MRpcCallReq (sync_req u d))) = Some (sync_req u d)"
    and "process_task_cm A (objNodeHandler A NodeManagerHandler) ch nNow c
      (payload (ae_pb A) NODE_RPC_REQ 1 q (MRpcCallReq (sync_req u d))) (Some rc) s = (z, s1)"
  shows "z = Ret () \<and> sent c' s1 = sent c' s @ [fst (NewProtocol (ae_pb A) NODE_RPC_REQ 3 (ch_uuid (ac_node ch) p)
    (MRpcCallReq (forwarded_req u d [GenAgentCaller k q (getConnectionID (Some c) s),
       GenNodeCaller (nm_name s (nm_ptrSelf s))])))]"
proof -
  let ?H = "objNodeHandler A NodeManagerHandler :: 'a ClientManager_scheme NodeHandler"
  let ?rc = "rc\<lparr>rq_szRequestID := q\<rparr>"
  let ?cl = "GenAgentCaller k q (getConnectionID (Some c) s)"
  let ?r = "forwarded_req u d [?cl, GenNodeCaller (nm_name s (nm_ptrSelf s))]"
  let ?t = "snd (cast_Start (ae_node A) (ac_node ch) p NODE_RPC_REQ (MRpcCallReq ?r) (Some ?rc) s)"
  have there: "nh_DispatchReq ?H (ac_node ch) (forwarded_req u d [?cl]) (Some ?rc) s = ((ResultCode_SUCCESS, ?r), ?t)"
    using assms(2) by (simp add: routed_def Let_def objNodeHandler_def node_manager_handler_def DispatchReq_def
        cast_request_def pick_node_def)
  then have "handleRpcCallReq_cm A ?H ch (Marshal (ae_pb A) (MRpcCallReq (sync_req u d))) (Some ?rc) s
      = (Ret (ResultCode_String (ae_pb A) ResultCode_SUCCESS), ?t)"
    using assms(1,6,7)
    by (simp add: handleRpcCallReq_cm_def getClient_def GetServerConnection_def GetRequestContext_def
        GetRequestID_def connected_def)
  moreover have "mget (client_router A ?H ch nNow) NODE_RPC_REQ = Some (handleRpcCallReq_cm A ?H ch)"
    by (simp add: client_router_def RegisterRouter_def NewRouter_def)
  ultimately have eq: "process_task_cm A ?H ch nNow c (payload (ae_pb A) NODE_RPC_REQ 1 q (MRpcCallReq (sync_req u d))) (Some rc) s
      = (Ret (), case getClient (Some rc) ?t of Some n \<Rightarrow> refreshKeepLiveTime_ci nNow n ?t | None \<Rightarrow> ?t)"
    by (simp add: process_task_cm_def Process_request [OF rpc_uris_fit(1) assms(4)] fnRouter2Handler_def
        del: One_nat_def)
  have "sent c' ?t = sent c' s @ [fst (NewProtocol (ae_pb A) NODE_RPC_REQ 3 (ch_uuid (ac_node ch) p) (MRpcCallReq ?r))]"
    by (rule cast_Start_reached) (use assms(2,3,5) in \<open>simp_all add: routed_def Let_def GetRequestID_def GetRequestContext_def\<close>)
  then show ?thesis
    using assms(8) eq by (auto simp: sent_def refreshKeepLiveTime_ci_def set_client_def split: option.splits)
qed

text \<open>The agent of the provider gets its answer, finds a node on the stack and casts it there.\<close>

lemma agent_sends_back:
  fixes s :: "'a ClientManager_scheme"
  assumes "mget (nm_mNodeInfo s) nm = Some p" "reached_by (ac_node ch) p c' s" "transport_error c' s = None"
    and "string_fits q" "q \<noteq> ''''" "mget (conn_table c s) q = None" "rq_ptrServerConnection rc = c" "utf8_ok nm"
    and "Unmarshal_RpcCallResp (ae_pb A) (Marshal (ae_pb A) (MRpcCallResp (answer_rsp u y (cs @ [GenNodeCaller nm]))))
      = Some (answer_rsp u y (cs @ [GenNodeCaller nm]))"
    and "process_task_cm A (objNodeHandler A NodeManagerHandler) ch nNow c
      (payload (ae_pb A) NODE_RPC_RESP 2 q (MRpcCallResp (answer_rsp u y (cs @ [GenNodeCaller nm])))) (Some rc) s = (z, s1)"
  shows "z = Ret () \<and> sent c' s1 = sent c' s @ [fst (NewProtocol (ae_pb A) NODE_RPC_RESP 3 (ch_uuid (ac_node ch) p)
    (MRpcCallResp (answer_rsp u y cs)))]"
proof -
  let ?H = "objNodeHandler A NodeManagerHandler :: 'a ClientManager_scheme NodeHandler"
  let ?rc = "rc\<lparr>rq_szRequestID := q\<rparr>"
  let ?r = "answer_rsp u y (cs @ [GenNodeCaller nm])"
  let ?t = "snd (cast_Start (ae_node A) (ac_node ch) p NODE_RPC_RESP (MRpcCallResp (answer_rsp u y cs)) (Some ?rc) s)"
  have json: "json_Unmarshal (GenNodeCaller nm) = Some (Caller_zero\<lparr>Caller_Type := 2, Caller_Node := nm\<rparr>)"
    unfolding GenNodeCaller_def by (rule json_roundtrip) (use assms(8) in \<open>simp add: caller_ok_def Caller_zero_def utf8_ok.simps\<close>)
  have "nh_DispatchRsp ?H (ac_node ch) ?r (Some ?rc) s = ((ResultCode_SUCCESS, answer_rsp u y cs), ?t)"
    using json assms(1)
    by (simp add: objNodeHandler_def node_manager_handler_def DispatchRsp_def GetTopStack_def PopStack_def Let_def)
  then have "handleRpcCallResp_cm A ?H ch (Marshal (ae_pb A) (MRpcCallResp ?r)) (Some ?rc) s
      = (Ret (ResultCode_String (ae_pb A) ResultCode_SUCCESS), ?t)"
    using assms(9) by (simp add: handleRpcCallResp_cm_def)
  moreover have "mget (client_router A ?H ch nNow) NODE_RPC_RESP = Some (handleRpcCallResp_cm A ?H ch)"
    by (simp add: client_router_def RegisterRouter_def NewRouter_def)
  ultimately have eq: "process_task_cm A ?H ch nNow c (payload (ae_pb A) NODE_RPC_RESP 2 q (MRpcCallResp ?r)) (Some rc) s
      = (Ret (), case getClient (Some rc) ?t of Some n \<Rightarrow> refreshKeepLiveTime_ci nNow n ?t | None \<Rightarrow> ?t)"
    using assms(6,7)
    by (simp add: process_task_cm_def Process_late_response [OF rpc_uris_fit(2) assms(4)] fnRouter2Handler_def)
  have "sent c' ?t = sent c' s @ [fst (NewProtocol (ae_pb A) NODE_RPC_RESP 3 (ch_uuid (ac_node ch) p) (MRpcCallResp (answer_rsp u y cs)))]"
    by (rule cast_Start_reached) (use assms(2,3,5) in \<open>simp_all add: GetRequestID_def GetRequestContext_def\<close>)
  then show ?thesis
    using assms(10) eq by (auto simp: sent_def refreshKeepLiveTime_ci_def set_client_def split: option.splits)
qed

section \<open>The whole call\<close>

text \<open>The protobuf runtime decodes the messages of the call as they were encoded.\<close>

definition mesh_codec :: "proto_lib \<Rightarrow> string \<Rightarrow> bytes \<Rightarrow> bytes \<Rightarrow> string \<Rightarrow> string \<Rightarrow> bool" where
  "mesh_codec pb u d y cl nd \<longleftrightarrow>
     (\<forall>r \<in> {sync_req u d, forwarded_req u d [cl, nd]}. Unmarshal_RpcCallReq pb (Marshal pb (MRpcCallReq r)) = Some r)
   \<and> (\<forall>r \<in> {answer_rsp u y [cl, nd], answer_rsp u y [cl], answer_rsp u y []}.
        Unmarshal_RpcCallResp pb (Marshal pb (MRpcCallResp r)) = Some r)"

text \<open>The way there: from the agent of the caller to the client that hosts the entry.\<close>

lemma request_crosses:
  fixes s :: "'a ClientManager_scheme" and t :: "'b ClientManager_scheme"
  defines "r \<equiv> \<lambda>s sa k q d u. forwarded_req u d
     [GenAgentCaller k q (getConnectionID (Some sa) s), GenNodeCaller (nm_name s (nm_ptrSelf s))]"
  assumes codec: "ae_pb B = ae_pb A" "mesh_codec (ae_pb A) u d y (GenAgentCaller k q (getConnectionID (Some sa) s))
      (GenNodeCaller (nm_name s (nm_ptrSelf s)))"
    and fits: "string_fits q" "q \<noteq> ''''" "string_fits (ch_uuid (ac_node ch1) p1)"
    and agent: "connected n k sa s" "routed A ch1 u p1 sn s" "transport_error sn s = None" "rq_ptrServerConnection rc1 = sa"
      "process_task_cm A (objNodeHandler A NodeManagerHandler) ch1 now1 sa
         (payload (ae_pb A) NODE_RPC_REQ 1 q (MRpcCallReq (sync_req u d))) (Some rc1) s = (z2, s1)"
      "delivers (last (sent sn s1)) b2"
    and node: "getNodeByConnection tn t = Some nd" "rq_ptrServerConnection rc2 = tn"
      "process_task (ae_node B) ch3 now2 tn b2 (Some rc2) t = (z3, t1)"
      "hosts B ch2 u m ta t" "transport_error ta t = None"
      "run_upcall B ch2 (last (nm_upcall t1)) t1 = (z4, t2)" "delivers (last (sent ta t2)) b3"
  shows "{z2, z3, z4} = {Ret ()} \<and> b3 = payload (ae_pb A) NODE_RPC_REQ 1 (ac_uuid ch2 m) (MRpcCallReq (r s sa k q d u))"
proof -
  let ?pb = "ae_pb A" and ?r = "r s sa k q d u" and ?id = "ch_uuid (ac_node ch1) p1"
  have dec: "Unmarshal_RpcCallReq ?pb (Marshal ?pb (MRpcCallReq (sync_req u d))) = Some (sync_req u d)"
    "Unmarshal_RpcCallReq ?pb (Marshal ?pb (MRpcCallReq ?r)) = Some ?r"
    using codec(2) by (simp_all add: mesh_codec_def r_def)
  have 2: "z2 = Ret ()" "last (sent sn s1) = fst (NewProtocol ?pb NODE_RPC_REQ 3 ?id (MRpcCallReq ?r))"
    using agent_sends_on [OF agent(1-3) fits(1,2) agent(4) dec(1) agent(5)] by (simp_all add: r_def)
  have b2: "b2 = payload ?pb NODE_RPC_REQ 3 ?id (MRpcCallReq ?r)"
    by (rule delivers_payload) (use agent(6) 2(2) in simp)
  have 3: "z3 = Ret ()" "t1 = upcalled now2 nd (HandleRequest ?r (Some (rc2\<lparr>rq_szRequestID := ?id\<rparr>))) t"
    using node_takes(1) [OF node(1) fits(3) node(2), of "ae_node B" ?r ch3 now2] node(3) codec(1) dec(2)
    unfolding b2 by simp_all
  have "run_upcall B ch2 (last (nm_upcall t1)) t1
      = (Ret (), snd (Write ta (fst (NewProtocol ?pb NODE_RPC_REQ 1 (ac_uuid ch2 m) (MRpcCallReq ?r))) t1))"
    using call_local_hosts [of B ch2 u m ta t1] node(4,5) codec(1)
    by (simp add: run_upcall_def 3(2) HandleRequest_cm_def r_def)
  then have 4: "z4 = Ret ()" "last (sent ta t2) = fst (NewProtocol ?pb NODE_RPC_REQ 1 (ac_uuid ch2 m) (MRpcCallReq ?r))"
    using node(5,6) Write_open(2) [of ta t1] by (auto simp: 3(2))
  have "b3 = payload ?pb NODE_RPC_REQ 1 (ac_uuid ch2 m) (MRpcCallReq ?r)"
    by (rule delivers_payload) (use node(7) 4(2) in simp)
  then show ?thesis using 2(1) 3(1) 4(1) by simp
qed

text \<open>The way back: from the agent of the provider to the connection of the caller.\<close>

lemma answer_crosses:
  fixes t :: "'b ClientManager_scheme" and s :: "'a ClientManager_scheme"
  assumes codec: "ae_pb B = ae_pb A" "mesh_codec (ae_pb A) u d y (GenAgentCaller k q cid) (GenNodeCaller nm)"
    and fits: "string_fits q2" "q2 \<noteq> ''''" "string_fits (ch_uuid (ac_node ch4) p2)" "\<forall>x \<in> {q, k, cid, nm}. utf8_ok x"
    and agent: "mget (nm_mNodeInfo t) nm = Some p2" "reached_by (ac_node ch4) p2 tb t" "transport_error tb t = None"
      "mget (conn_table ta t) q2 = None" "rq_ptrServerConnection rc4 = ta"
      "process_task_cm B (objNodeHandler B NodeManagerHandler) ch4 now5 ta (payload (ae_pb A) NODE_RPC_RESP 2 q2
         (MRpcCallResp (answer_rsp u y [GenAgentCaller k q cid, GenNodeCaller nm]))) (Some rc4) t = (z7, t5)"
      "delivers (last (sent tb t5)) b5"
    and node: "getNodeByConnection sb s = Some nd" "rq_ptrServerConnection rc5 = sb"
      "process_task (ae_node A) ch5 now6 sb b5 (Some rc5) s = (z8, s4)"
      "connected n k sa s" "getConnectionID (Some sa) s = cid" "transport_error sa s = None"
      "run_upcall A ch6 (last (nm_upcall s4)) s4 = (z9, s5)" "delivers (last (sent sa s5)) b6"
  shows "{z7, z8, z9} = {Ret ()} \<and> b6 = payload (ae_pb A) NODE_RPC_RESP 2 q (MRpcCallResp (answer_rsp u y []))"
proof -
  let ?pb = "ae_pb A" and ?cl = "GenAgentCaller k q cid" and ?nd = "GenNodeCaller nm" and ?y = "answer_rsp u y"
  let ?id = "ch_uuid (ac_node ch4) p2"
  have dec: "Unmarshal_RpcCallResp ?pb (Marshal ?pb (MRpcCallResp (?y [?cl, ?nd]))) = Some (?y [?cl, ?nd])"
    "Unmarshal_RpcCallResp ?pb (Marshal ?pb (MRpcCallResp (?y [?cl]))) = Some (?y [?cl])"
    using codec(2) by (simp_all add: mesh_codec_def)
  have 7: "z7 = Ret ()" "last (sent tb t5) = fst (NewProtocol ?pb NODE_RPC_RESP 3 ?id (MRpcCallResp (?y [?cl])))"
    using agent_sends_back [OF agent(1-3) fits(1,2) agent(4,5), of B u y "[?cl]" now5 z7 t5, unfolded codec(1)]
      fits(4) dec(1) agent(6) by simp_all
  have b5: "b5 = payload ?pb NODE_RPC_RESP 3 ?id (MRpcCallResp (?y [?cl]))"
    by (rule delivers_payload) (use agent(7) 7(2) in simp)
  have 8: "z8 = Ret ()" "s4 = upcalled now6 nd (HandleResponse (?y [?cl]) (Some (rc5\<lparr>rq_szRequestID := ?id\<rparr>))) s"
    using node_takes(2) [OF node(1) fits(3) node(2), of "ae_node A" "?y [?cl]" ch5 now6] node(3) dec(2)
    unfolding b5 by simp_all
  have s4: "connected n k sa s4" "getConnectionID (Some sa) s4 = cid" "transport_error sa s4 = None"
    using node(4-6) by (simp_all add: 8(2))
  have "respond_local A ch6 (?y [?cl]) s4 = (Ret ''SUCCESS'', snd (Write sa
      (fst (NewProtocol ?pb NODE_RPC_RESP 2 q (MRpcCallResp ((?y [?cl])\<lparr>RpcCallResp_Caller := []\<rparr>)))) s4))"
    by (rule respond_local_returns [where k = k and n = n]) (use s4 fits(4) in \<open>auto simp: connected_def\<close>)
  then have "run_upcall A ch6 (last (nm_upcall s4)) s4
      = (Ret (), snd (Write sa (fst (NewProtocol ?pb NODE_RPC_RESP 2 q (MRpcCallResp (?y [])))) s4))"
    by (simp add: run_upcall_def 8(2) HandleResponse_cm_def)
  then have 9: "z9 = Ret ()" "last (sent sa s5) = fst (NewProtocol ?pb NODE_RPC_RESP 2 q (MRpcCallResp (?y [])))"
    using node(7) Write_open(2) [OF s4(3)] by auto
  have "b6 = payload ?pb NODE_RPC_RESP 2 q (MRpcCallResp (?y []))"
    by (rule delivers_payload) (use node(8) 9(2) in simp)
  then show ?thesis using 7(1) 8(1) 9(1) by simp
qed

text \<open>
  C2. A remote call reaches a provider at another node and returns.  The agent of the caller
  finds a route for the URI and casts the request to that node, with the own client and the
  own node on the stack of callers; the node there hands it to its agent, which passes it to
  the client that hosts the entry.  The answer of the handler goes back to the node the stack
  names, that node hands it up, and the agent writes it to the connection of the caller, whose
  waiting call adds it to the results.  No step panics.  Each process may be in any other
  state when the answer arrives, as long as the caller, the provider and the two nodes are
  still connected.
\<close>

theorem call_across_nodes:
  fixes a :: "'c Client_scheme" and b :: "'d Client_scheme" and s s3 :: "'a ClientManager_scheme"
    and t t4 :: "'b ClientManager_scheme" and A B :: agent_env and ch1 ch2 ch4 :: agent_choice and m :: clientref
    and sa ta :: connref and rc2 rc3 :: RequestContext and p1 p2 :: noderef
  defines "HA \<equiv> objNodeHandler A NodeManagerHandler :: 'a ClientManager_scheme NodeHandler"
  defines "HB \<equiv> objNodeHandler B NodeManagerHandler :: 'b ClientManager_scheme NodeHandler"
  defines "cid \<equiv> getConnectionID (Some sa) s" and "nm \<equiv> nm_name s (nm_ptrSelf s)"
  defines "id1 \<equiv> ch_uuid (ac_node ch1) p1" and "id2 \<equiv> ac_uuid ch2 m" and "id3 \<equiv> ch_uuid (ac_node ch4) p2"
  defines "ctx \<equiv> Some (rc3\<lparr>rq_szRequestID := id2\<rparr>)"
  assumes fits: "\<forall>x \<in> {q, id1, id2, id3}. string_fits x" "q \<noteq> ''''" "id2 \<noteq> ''''"
      "\<forall>x \<in> {q, k, cid, nm}. utf8_ok x"
    and codec: "ae_pb B = ae_pb A" "mesh_codec (ae_pb A) u d (f d ctx) (GenAgentCaller k q cid) (GenNodeCaller nm)"
    and caller: "transport_error c a = None" "sync_connected (ae_pb A) q u d tmo (Some c) a = (z1, a1)"
      "delivers (last (sent c a1)) b1"
    and agent: "connected n k sa s" "routed A ch1 u p1 sn s" "transport_error sn s = None" "rq_ptrServerConnection rc1 = sa"
      "process_task_cm A HA ch1 now1 sa b1 (Some rc1) s = (z2, s1)" "delivers (last (sent sn s1)) b2"
    and node: "getNodeByConnection tn t = Some nd" "rq_ptrServerConnection rc2 = tn"
      "process_task (ae_node B) (ac_node ch3) now2 tn b2 (Some rc2) t = (z3, t1)"
      "hosts B ch2 u m ta t" "transport_error ta t = None"
      "run_upcall B ch2 (last (nm_upcall t1)) t1 = (z4, t2)" "delivers (last (sent ta t2)) b3"
    and provider: "mget (cl_mRouter b) u = Some f" "transport_error (rq_ptrServerConnection rc3) b = None"
      "process_packet (ae_pb B) now3 r3 (rq_ptrServerConnection rc3) b3 (Some rc3) b = (z5, pb1)"
      "run_client_thread (ae_pb B) now4 dial i r4 (last (cl_thread pb1)) pb1 = (z6, pb2)"
      "delivers (last (sent (rq_ptrServerConnection rc3) pb2)) b4"
    and agent_back: "mget (nm_mNodeInfo t4) nm = Some p2" "reached_by (ac_node ch4) p2 tb t4" "transport_error tb t4 = None"
      "mget (conn_table ta t4) id2 = None" "rq_ptrServerConnection rc4 = ta"
      "process_task_cm B HB ch4 now5 ta b4 (Some rc4) t4 = (z7, t5)" "delivers (last (sent tb t5)) b5"
    and node_back: "getNodeByConnection sb s3 = Some nd'" "rq_ptrServerConnection rc5 = sb"
      "process_task (ae_node A) (ac_node ch5) now6 sb b5 (Some rc5) s3 = (z8, s4)"
      "connected n k sa s3" "getConnectionID (Some sa) s3 = cid" "transport_error sa s3 = None"
      "run_upcall A ch6 (last (nm_upcall s4)) s4 = (z9, s5)" "delivers (last (sent sa s5)) b6"
    and returned: "rq_ptrServerConnection rc6 = c" "OnRead_cl c b6 (Some rc6) a1 = (z10, a2)"
      "finish_client_call (ae_pb A) now7 SelMsg (last (cl_wait a1)) a2 = (z11, a3)"
  shows "set [z1, z2, z3, z4, z5, z6, z7, z8, z9, z10, z11] = {Ret ()}
    \<and> cl_result a3 = cl_result a @ [(q, Inr (f d ctx))]"
proof -
  let ?pb = "ae_pb A" and ?cb = "rq_ptrServerConnection rc3"
  let ?cl = "GenAgentCaller k q cid" and ?nd = "GenNodeCaller nm"
  let ?r = "forwarded_req u d [?cl, ?nd]" and ?y = "answer_rsp u (f d ctx)"
  have dec: "Unmarshal_RpcCallReq ?pb (Marshal ?pb (MRpcCallReq ?r)) = Some ?r"
    "Unmarshal_RpcCallResp ?pb (Marshal ?pb (MRpcCallResp (?y []))) = Some (?y [])"
    using codec(2) by (simp_all add: mesh_codec_def)
  have fit: "string_fits q" "string_fits id1" "string_fits id2" "string_fits id3" using fits(1) by simp_all
  obtain x where 1: "z1 = Ret ()" "last (sent c a1) = fst (NewProtocol ?pb NODE_RPC_REQ 1 q (MRpcCallReq (sync_req u d)))"
    and w: "last (cl_wait a1) = \<lparr>cc_rpc = x, cc_conn = c, cc_szRequestID = q, cc_then = WaitSync\<rparr>"
    and x: "cl_result a1 = cl_result a" "mget (conn_table c a1) q = Some x" "n_rpc a1 x = rpc_zero"
    using caller_sends [OF caller(1,2)] by auto
  have b1: "b1 = payload ?pb NODE_RPC_REQ 1 q (MRpcCallReq (sync_req u d))"
    by (rule delivers_payload) (use caller(3) 1(2) in simp)
  from request_crosses [OF codec(1) codec(2) [unfolded cid_def nm_def] fit(1) fits(2) fit(2) [unfolded id1_def]
      agent(1-4) agent(5) [unfolded b1 HA_def] agent(6) node]
  have 2: "{z2, z3, z4} = {Ret ()}" "b3 = payload ?pb NODE_RPC_REQ 1 id2 (MRpcCallReq ?r)"
    by (simp_all add: cid_def nm_def id2_def)
  have 5: "z5 = Ret ()" "pb1 = go (ThHandle ?r ctx) b"
    using provider_takes [of b ?r id2 ?pb now3 r3 ?cb rc3] provider(1,3) fit(3) dec(1) codec(1)
    unfolding 2(2) ctx_def by simp_all
  have pb1: "mget (cl_mRouter pb1) u = Some f" "last (cl_thread pb1) = ThHandle ?r ctx" "transport_error ?cb pb1 = None"
    using provider(1,2) 5(2) transport_error_go by (simp add: go_def, simp add: go_def, metis)
  have 6: "z6 = Ret ()" "pb2 = snd (Write ?cb (fst (NewProtocol ?pb NODE_RPC_RESP 2 id2 (MRpcCallResp (?y [?cl, ?nd])))) pb1)"
    using provider_answers [OF pb1(1), of "rc3\<lparr>rq_szRequestID := id2\<rparr>" ?pb d "[?cl, ?nd]", folded ctx_def]
      pb1(2,3) provider(4) codec(1) by (simp_all add: run_client_thread_def)
  have b4: "b4 = payload ?pb NODE_RPC_RESP 2 id2 (MRpcCallResp (?y [?cl, ?nd]))"
    by (rule delivers_payload) (use provider(5) 6(2) Write_open(2) [OF pb1(3)] in simp)
  from answer_crosses [OF codec fit(3) fits(3) fit(4) [unfolded id3_def] fits(4)
      agent_back(1-5) agent_back(6) [unfolded b4 HB_def] agent_back(7) node_back]
  have 7: "{z7, z8, z9} = {Ret ()}" "b6 = payload ?pb NODE_RPC_RESP 2 q (MRpcCallResp (?y []))" by simp_all
  from caller_returns [OF x(2,3) fit(1) returned(1) dec(2) returned(2) [unfolded 7(2)] returned(3) [unfolded w]]
  show ?thesis using 1(1) 2(1) 5(1) 6(1) 7(1) x(1) by auto
qed

section \<open>A call to compute\<close>

text \<open>
  Two nodes \<open>a\<close> and \<open>b\<close>, connected; the client \<open>c1\<close> of \<open>a\<close> calls \<open>u\<close>, which the client \<open>c2\<close> of
  \<open>b\<close> serves.
\<close>

definition mesh_pb :: proto_lib where
  "mesh_pb = lib_stub\<lparr>
     Marshal := \<lambda>m. (case m of
        MRpcCallReq r \<Rightarrow> replicate (length (RpcCallReq_Caller r)) CHR ''x''
      | MRpcCallResp r \<Rightarrow> replicate (length (RpcCallResp_Caller r)) CHR ''x''
      | _ \<Rightarrow> []),
     Unmarshal_RpcCallReq := \<lambda>b. Some (forwarded_req ''u'' ''d'' (take (length b) [e2e_stack, GenNodeCaller ''a''])),
     Unmarshal_RpcCallResp := \<lambda>b. Some (answer_rsp ''u'' ''d!'' (take (length b) [e2e_stack, GenNodeCaller ''a'']))\<rparr>"

definition mesh_env :: agent_env where
  "mesh_env = agent_env1\<lparr>ae_node := example_env\<lparr>ne_pb := mesh_pb\<rparr>\<rparr>"

definition mesh_node :: "string \<Rightarrow> connref \<Rightarrow> Info" where
  "mesh_node nm c = info_zero\<lparr>info_szName := nm, info_aryConnectionList := [c], info_nStatus := 2\<rparr>"

definition mesh_s :: ClientManager where
  "mesh_s = bind_ctx 0 (CtxClient 1) (bind_ctx 1 (CtxNode 1)
     (set_client 1 (e2e_client ''c1'' 0) (set_info 1 (mesh_node ''b'' 1)
       ((NewClientManager ''uuid'' ''agent'' node_a)\<lparr>cm_mClientInfo := [(''c1'', 1)],
          nm_mNodeInfo := [(''a'', 0), (''b'', 1)], nm_mRpcFunc2Node := [(''u_RPC'', [1])]\<rparr>))))"

definition mesh_t :: ClientManager where
  "mesh_t = bind_ctx 0 (CtxNode 1) (bind_ctx 1 (CtxClient 1)
     (set_client 1 (e2e_client ''c2'' 1) (set_info 1 (mesh_node ''a'' 0)
       ((NewClientManager ''uuid'' ''agent'' (NewManager ''uuid'' 8 100 ''b'' ''10.0.0.2'' 8800 8900 []))
          \<lparr>cm_mClientInfo := [(''c2'', 1)], cm_mUri2Client := [(''u_RPC'', [1])],
           nm_mNodeInfo := [(''b'', 0), (''a'', 1)]\<rparr>))))"

abbreviation (input) mesh_handler :: "ClientManager NodeHandler" where
  "mesh_handler \<equiv> objNodeHandler mesh_env NodeManagerHandler"

definition mesh_a1 :: Client where
  "mesh_a1 = snd (sync_connected mesh_pb ''q'' ''u'' ''d'' 1000 (Some 0) lib_ab)"

definition mesh_s1 :: ClientManager where
  "mesh_s1 = snd (process_task_cm mesh_env mesh_handler agent_choice1 100 0
     (drop 4 (last (sent 0 mesh_a1))) (Some (e2e_rc 0)) mesh_s)"

definition mesh_t1 :: ClientManager where
  "mesh_t1 = snd (process_task (ae_node mesh_env) (ac_node agent_choice1) 100 0
     (drop 4 (last (sent 1 mesh_s1))) (Some (e2e_rc 0)) mesh_t)"

definition mesh_t2 :: ClientManager where
  "mesh_t2 = snd (run_upcall mesh_env agent_choice1 (last (nm_upcall mesh_t1)) mesh_t1)"

definition mesh_b1 :: Client where
  "mesh_b1 = snd (process_packet mesh_pb 100 0 0 (drop 4 (last (sent 1 mesh_t2))) (Some (e2e_rc 0)) e2e_provider)"

definition mesh_b2 :: Client where
  "mesh_b2 = snd (run_client_thread mesh_pb 100 (True, []) [] 0 (last (cl_thread mesh_b1)) mesh_b1)"

definition mesh_t5 :: ClientManager where
  "mesh_t5 = snd (process_task_cm mesh_env mesh_handler agent_choice1 101 1
     (drop 4 (last (sent 0 mesh_b2))) (Some (e2e_rc 1)) mesh_t)"

definition mesh_s4 :: ClientManager where
  "mesh_s4 = snd (process_task (ae_node mesh_env) (ac_node agent_choice1) 101 1
     (drop 4 (last (sent 0 mesh_t5))) (Some (e2e_rc 1)) mesh_s)"

definition mesh_s5 :: ClientManager where
  "mesh_s5 = snd (run_upcall mesh_env agent_choice1 (last (nm_upcall mesh_s4)) mesh_s4)"

definition mesh_a2 :: Client where
  "mesh_a2 = snd (OnRead_cl 0 (drop 4 (last (sent 0 mesh_s5))) (Some (e2e_rc 0)) mesh_a1)"

definition mesh_a3 :: Client where
  "mesh_a3 = snd (finish_client_call mesh_pb 102 SelMsg (last (cl_wait mesh_a1)) mesh_a2)"

subsection \<open>The states\<close>

lemma mesh_net:
  "n_conn mesh_s = (\<lambda>_. conn_zero)(1 := conn_zero\<lparr>sc_Ctx := Some (CtxNode 1)\<rparr>, 0 := conn_zero\<lparr>sc_Ctx := Some (CtxClient 1)\<rparr>)"
  "n_conn mesh_t = (\<lambda>_. conn_zero)(1 := conn_zero\<lparr>sc_Ctx := Some (CtxClient 1)\<rparr>, 0 := conn_zero\<lparr>sc_Ctx := Some (CtxNode 1)\<rparr>)"
  "n_table mesh_s = (\<lambda>_. [])" "n_table mesh_t = (\<lambda>_. [])" "nm_ptrSelf mesh_s = 0" "nm_ptrSelf mesh_t = 0"
  by (simp_all add: mesh_s_def mesh_t_def bind_ctx_def net_upd_defs set_client_def NewClientManager_def
      NodeManager.extend_def example_defs)

lemma mesh_nodes:
  "nm_info mesh_s 1 = mesh_node ''b'' 1" "nm_info mesh_t 1 = mesh_node ''a'' 0"
  "nm_name mesh_s 0 = ''a''" "info_mEntryInfo (nm_info mesh_s 0) = []" "nm_mRpcFunc2Node mesh_s = [(''u_RPC'', [1])]"
  "nm_mNodeInfo mesh_t = [(''b'', 0), (''a'', 1)]"
  by (simp_all add: mesh_s_def mesh_t_def bind_ctx_def net_upd_defs set_client_def NewClientManager_def
      NodeManager.extend_def example_defs)

lemma mesh_clients:
  "cm_mClientInfo mesh_s = [(''c1'', 1)]" "cm_info mesh_s 1 = e2e_client ''c1'' 0"
  "cm_mUri2Client mesh_t = [(''u_RPC'', [1])]" "cm_info mesh_t 1 = e2e_client ''c2'' 1"
  by (simp_all add: mesh_s_def mesh_t_def bind_ctx_def net_upd_defs set_client_def set_info_def)

lemma mesh_open:
  "transport_error c mesh_s = None" "transport_error c mesh_t = None" "conn_table c mesh_t = []"
  "getConnectionID (Some c) mesh_s = ''_''" "getNodeByConnection 0 mesh_t = Some 1" "getNodeByConnection 1 mesh_s = Some 1"
  by (simp_all add: transport_error_def getConnectionID_def conn_table_def mesh_net conn_zero_def getNodeByConnection_def)

lemma mesh_pb_simps [simp]:
  "ae_pb mesh_env = mesh_pb" "ne_pb (ae_node mesh_env) = mesh_pb"
  by (simp_all add: mesh_env_def)

lemma mesh_codec_ok: "mesh_codec mesh_pb ''u'' ''d'' ''d!'' e2e_stack (GenNodeCaller ''a'')"
  by (simp add: mesh_codec_def mesh_pb_def forwarded_req_def sync_req_def answer_rsp_def)

lemma mesh_connected: "connected 1 ''c1'' 0 mesh_s"
  by (simp add: connected_def mesh_clients getClientInfo_def e2e_client_def getClientByConnection_def
      mesh_net del: One_nat_def)

lemma mesh_uri: "getUri2 (ae_node mesh_env) ''u'' EntryType_RPC = ''u_RPC''"
  by (simp add: getUri2_def mesh_pb_def lib_stub_def EntryType_String_def EntryType_name_def)

lemma mesh_routed: "routed mesh_env agent_choice1 ''u'' 1 1 mesh_s"
  by (simp add: routed_def mesh_uri Let_def getRemoteNodeByUri_def mesh_nodes mesh_net entryExist2_def
      pick_def rand_Intn_def reached_by_def getConnection_def mesh_node_def agent_choice1_def example_choice_def info_zero_def
      del: One_nat_def)

lemma mesh_hosts: "hosts mesh_env agent_choice1 ''u'' 1 1 mesh_t"
  by (simp add: hosts_def mesh_clients getClient4RpcCallReq_def EntryType_String_def EntryType_name_def
      mesh_pb_def lib_stub_def e2e_client_def getConnection_ci_def pick_def agent_choice1_def rand_Intn_def
      del: One_nat_def)

lemma mesh_reached: "reached_by (ac_node agent_choice1) 1 0 mesh_t"
  by (simp add: reached_by_def getConnection_def mesh_nodes mesh_node_def pick_def rand_Intn_def agent_choice1_def
      example_choice_def del: One_nat_def)

subsection \<open>The steps\<close>

abbreviation (input) mesh_req :: RpcCallReq where
  "mesh_req \<equiv> forwarded_req ''u'' ''d'' [e2e_stack, GenNodeCaller ''a'']"

lemma mesh_sent:
  assumes "b = fst (NewProtocol mesh_pb u t q m)" "length u + length q \<le> 100"
    "m = MRpcCallReq r \<and> length (RpcCallReq_Caller r) \<le> 2 \<or> m = MRpcCallResp p \<and> length (RpcCallResp_Caller p) \<le> 2"
  shows "delivers b (drop 4 b)" "drop 4 b = payload mesh_pb u t q m"
proof -
  have "length (Marshal mesh_pb m) \<le> 2" using assms(3) by (auto simp: mesh_pb_def)
  then have "5 + length u + length q + length (Marshal mesh_pb m) \<le> PACKET_LIMIT"
    using assms(2) by linarith
  moreover show "drop 4 b = payload mesh_pb u t q m" using assms(1) by (simp add: fst_NewProtocol)
  ultimately show "delivers b (drop 4 b)" using delivers_fits assms(1) by metis
qed

lemma mesh_dec:
  "Unmarshal_RpcCallReq mesh_pb (Marshal mesh_pb (MRpcCallReq (sync_req ''u'' ''d''))) = Some (sync_req ''u'' ''d'')"
  "Unmarshal_RpcCallReq mesh_pb (Marshal mesh_pb (MRpcCallReq mesh_req)) = Some mesh_req"
  "Unmarshal_RpcCallResp mesh_pb (Marshal mesh_pb (MRpcCallResp (answer_rsp ''u'' ''d!'' [e2e_stack, GenNodeCaller ''a''])))
     = Some (answer_rsp ''u'' ''d!'' [e2e_stack, GenNodeCaller ''a''])"
  "Unmarshal_RpcCallResp mesh_pb (Marshal mesh_pb (MRpcCallResp (answer_rsp ''u'' ''d!'' [e2e_stack])))
     = Some (answer_rsp ''u'' ''d!'' [e2e_stack])"
  using mesh_codec_ok by (simp_all add: mesh_codec_def)

lemma mesh_ids [simp]: "ac_uuid agent_choice1 m = ''uuid''" "ch_uuid (ac_node agent_choice1) n = ''uuid''"
  by (simp_all add: agent_choice1_def example_choice_def)

lemma e2e_rc_conn [simp]: "rq_ptrServerConnection (e2e_rc c) = c"
  by (simp add: e2e_rc_def)

lemma mesh_utf8: "utf8_ok ''q''" "utf8_ok ''c1''" "utf8_ok ''_''" "utf8_ok ''a''"
  by (simp_all add: utf8_ok.simps utf8_len.simps)

lemma mesh_fits: "string_fits ''q''" "string_fits ''uuid''"
  by (simp_all add: string_fits_def)

lemma mesh_step1:
  "\<exists>z. sync_connected mesh_pb ''q'' ''u'' ''d'' 1000 (Some 0) lib_ab = (z, mesh_a1)
    \<and> delivers (last (sent 0 mesh_a1)) (drop 4 (last (sent 0 mesh_a1)))
    \<and> drop 4 (last (sent 0 mesh_a1)) = payload mesh_pb NODE_RPC_REQ 1 ''q'' (MRpcCallReq (sync_req ''u'' ''d''))"
proof -
  obtain z where z: "sync_connected mesh_pb ''q'' ''u'' ''d'' 1000 (Some 0) lib_ab = (z, mesh_a1)"
    by (metis mesh_a1_def prod.collapse)
  from caller_sends [OF e2e_open(3) this] have
    "last (sent 0 mesh_a1) = fst (NewProtocol mesh_pb NODE_RPC_REQ 1 ''q'' (MRpcCallReq (sync_req ''u'' ''d'')))" by auto
  from mesh_sent [OF this] z show ?thesis by (simp add: sync_req_def)
qed

lemma mesh_step2:
  "\<exists>z. process_task_cm mesh_env mesh_handler agent_choice1 100 0 (drop 4 (last (sent 0 mesh_a1))) (Some (e2e_rc 0)) mesh_s
      = (z, mesh_s1)
    \<and> delivers (last (sent 1 mesh_s1)) (drop 4 (last (sent 1 mesh_s1)))
    \<and> drop 4 (last (sent 1 mesh_s1)) = payload mesh_pb NODE_RPC_REQ 3 ''uuid'' (MRpcCallReq mesh_req)"
proof -
  obtain z where z: "process_task_cm mesh_env mesh_handler agent_choice1 100 0 (drop 4 (last (sent 0 mesh_a1)))
      (Some (e2e_rc 0)) mesh_s = (z, mesh_s1)"
    by (metis mesh_s1_def prod.collapse)
  have p: "drop 4 (last (sent 0 mesh_a1)) = payload mesh_pb NODE_RPC_REQ 1 ''q'' (MRpcCallReq (sync_req ''u'' ''d''))"
    using mesh_step1 by blast
  from agent_sends_on [OF mesh_connected mesh_routed mesh_open(1) mesh_fits(1), of "e2e_rc 0" "''d''" 100 z mesh_s1]
  have "last (sent 1 mesh_s1) = fst (NewProtocol mesh_pb NODE_RPC_REQ 3 ''uuid'' (MRpcCallReq mesh_req))"
    using z mesh_dec(1) unfolding p
    by (simp add: mesh_open mesh_nodes mesh_net e2e_stack_def del: One_nat_def)
  from mesh_sent [OF this] z show ?thesis by simp
qed

lemma mesh_t1_eq: "process_task (ae_node mesh_env) (ac_node agent_choice1) 100 0
    (drop 4 (last (sent 1 mesh_s1))) (Some (e2e_rc 0)) mesh_t = (Ret (), mesh_t1)"
  "mesh_t1 = upcalled 100 1 (HandleRequest mesh_req (Some (e2e_rc 0\<lparr>rq_szRequestID := ''uuid''\<rparr>))) mesh_t"
proof -
  have "drop 4 (last (sent 1 mesh_s1)) = payload mesh_pb NODE_RPC_REQ 3 ''uuid'' (MRpcCallReq mesh_req)"
    using mesh_step2 by blast
  with node_takes(1) [OF mesh_open(5) mesh_fits(2), of "e2e_rc 0" "ae_node mesh_env" mesh_req "ac_node agent_choice1" 100]
  show "process_task (ae_node mesh_env) (ac_node agent_choice1) 100 0
    (drop 4 (last (sent 1 mesh_s1))) (Some (e2e_rc 0)) mesh_t = (Ret (), mesh_t1)"
  "mesh_t1 = upcalled 100 1 (HandleRequest mesh_req (Some (e2e_rc 0\<lparr>rq_szRequestID := ''uuid''\<rparr>))) mesh_t"
    using mesh_dec(2) by (simp_all add: mesh_t1_def del: One_nat_def)
qed

lemma mesh_step3:
  "\<exists>z. run_upcall mesh_env agent_choice1 (last (nm_upcall mesh_t1)) mesh_t1 = (z, mesh_t2)
    \<and> delivers (last (sent 1 mesh_t2)) (drop 4 (last (sent 1 mesh_t2)))
    \<and> drop 4 (last (sent 1 mesh_t2)) = payload mesh_pb NODE_RPC_REQ 1 ''uuid'' (MRpcCallReq mesh_req)"
proof -
  have open1: "transport_error 1 mesh_t1 = None" by (simp add: mesh_t1_eq(2) mesh_open)
  have "hosts mesh_env agent_choice1 ''u'' 1 1 mesh_t1" by (simp only: mesh_t1_eq(2) upcalled_simps mesh_hosts)
  from call_local_hosts [OF this open1]
  have up: "run_upcall mesh_env agent_choice1 (last (nm_upcall mesh_t1)) mesh_t1
      = (Ret (), snd (Write 1 (fst (NewProtocol mesh_pb NODE_RPC_REQ 1 ''uuid'' (MRpcCallReq mesh_req))) mesh_t1))"
    by (simp add: run_upcall_def mesh_t1_eq(2) HandleRequest_cm_def)
  then have "last (sent 1 mesh_t2) = fst (NewProtocol mesh_pb NODE_RPC_REQ 1 ''uuid'' (MRpcCallReq mesh_req))"
    using Write_open(2) [OF open1] by (simp add: mesh_t2_def)
  from mesh_sent [OF this] up show ?thesis by (simp add: mesh_t2_def)
qed

abbreviation (input) mesh_rsp :: "string list \<Rightarrow> RpcCallResp" where
  "mesh_rsp \<equiv> answer_rsp ''u'' ''d!''"

lemma e2e_handler: "mget (cl_mRouter e2e_provider) ''u'' = Some (\<lambda>d ctx. d @ ''!'')"
  by (simp add: e2e_provider_def HandleRpc_def lib_ab_def net.extend_def)

lemma mesh_step4:
  "\<exists>z z'. process_packet mesh_pb 100 0 0 (drop 4 (last (sent 1 mesh_t2))) (Some (e2e_rc 0)) e2e_provider = (z, mesh_b1)
    \<and> run_client_thread mesh_pb 100 (True, []) [] 0 (last (cl_thread mesh_b1)) mesh_b1 = (z', mesh_b2)
    \<and> delivers (last (sent 0 mesh_b2)) (drop 4 (last (sent 0 mesh_b2)))
    \<and> drop 4 (last (sent 0 mesh_b2))
        = payload mesh_pb NODE_RPC_RESP 2 ''uuid'' (MRpcCallResp (mesh_rsp [e2e_stack, GenNodeCaller ''a'']))"
proof -
  let ?rc = "e2e_rc 0\<lparr>rq_szRequestID := ''uuid''\<rparr>"
  have p: "drop 4 (last (sent 1 mesh_t2)) = payload mesh_pb NODE_RPC_REQ 1 ''uuid'' (MRpcCallReq mesh_req)"
    using mesh_step3 by blast
  have 1: "process_packet mesh_pb 100 0 0 (drop 4 (last (sent 1 mesh_t2))) (Some (e2e_rc 0)) e2e_provider
      = (Ret (), go (ThHandle mesh_req (Some ?rc)) e2e_provider)"
    unfolding p by (rule provider_takes) (simp_all add: e2e_handler mesh_fits mesh_dec del: One_nat_def)
  then have b1: "mesh_b1 = go (ThHandle mesh_req (Some ?rc)) e2e_provider" by (simp add: mesh_b1_def)
  have h1: "mget (cl_mRouter mesh_b1) ''u'' = Some (\<lambda>d ctx. d @ ''!'')" "transport_error 0 mesh_b1 = None"
    "last (cl_thread mesh_b1) = ThHandle mesh_req (Some ?rc)"
    by (simp_all add: b1 e2e_open) (simp_all add: go_def e2e_handler)
  have 2: "run_client_thread mesh_pb 100 (True, []) [] 0 (last (cl_thread mesh_b1)) mesh_b1 = (Ret (), snd (Write 0
      (fst (NewProtocol mesh_pb NODE_RPC_RESP 2 ''uuid'' (MRpcCallResp (mesh_rsp [e2e_stack, GenNodeCaller ''a''])))) mesh_b1))"
    using provider_answers [OF h1(1), of ?rc mesh_pb "''d''" "[e2e_stack, GenNodeCaller ''a'']"] h1(2,3)
    by (simp add: run_client_thread_def)
  then have "last (sent 0 mesh_b2)
      = fst (NewProtocol mesh_pb NODE_RPC_RESP 2 ''uuid'' (MRpcCallResp (mesh_rsp [e2e_stack, GenNodeCaller ''a''])))"
    using Write_open(2) [OF h1(2)] by (simp add: mesh_b2_def)
  from mesh_sent [OF this] 1 2 show ?thesis by (simp add: mesh_b1_def mesh_b2_def)
qed

lemma mesh_step5:
  "\<exists>z. process_task_cm mesh_env mesh_handler agent_choice1 101 1 (drop 4 (last (sent 0 mesh_b2))) (Some (e2e_rc 1)) mesh_t
      = (z, mesh_t5)
    \<and> delivers (last (sent 0 mesh_t5)) (drop 4 (last (sent 0 mesh_t5)))
    \<and> drop 4 (last (sent 0 mesh_t5)) = payload mesh_pb NODE_RPC_RESP 3 ''uuid'' (MRpcCallResp (mesh_rsp [e2e_stack]))"
proof -
  obtain z where z: "process_task_cm mesh_env mesh_handler agent_choice1 101 1 (drop 4 (last (sent 0 mesh_b2)))
      (Some (e2e_rc 1)) mesh_t = (z, mesh_t5)"
    by (metis mesh_t5_def prod.collapse)
  have p: "drop 4 (last (sent 0 mesh_b2))
      = payload mesh_pb NODE_RPC_RESP 2 ''uuid'' (MRpcCallResp (mesh_rsp ([e2e_stack] @ [GenNodeCaller ''a''])))"
    using mesh_step4 by simp
  have "mget (nm_mNodeInfo mesh_t) ''a'' = Some 1" by (simp add: mesh_nodes del: One_nat_def)
  from agent_sends_back [where c = 1 and rc = "e2e_rc 1" and A = mesh_env and u = "''u''" and y = "''d!''"
      and cs = "[e2e_stack]" and nNow = 101 and z = z and ?s1.0 = mesh_t5,
      OF this mesh_reached mesh_open(2) mesh_fits(2)]
  have "last (sent 0 mesh_t5) = fst (NewProtocol mesh_pb NODE_RPC_RESP 3 ''uuid'' (MRpcCallResp (mesh_rsp [e2e_stack])))"
    using z mesh_dec(3) unfolding p by (simp add: mesh_open mesh_utf8 del: One_nat_def)
  from mesh_sent [OF this] z show ?thesis by simp
qed

lemma mesh_step6:
  "\<exists>z z'. process_task (ae_node mesh_env) (ac_node agent_choice1) 101 1 (drop 4 (last (sent 0 mesh_t5))) (Some (e2e_rc 1)) mesh_s
      = (z, mesh_s4)
    \<and> run_upcall mesh_env agent_choice1 (last (nm_upcall mesh_s4)) mesh_s4 = (z', mesh_s5)
    \<and> delivers (last (sent 0 mesh_s5)) (drop 4 (last (sent 0 mesh_s5)))"
proof -
  let ?k = "HandleResponse (mesh_rsp [e2e_stack]) (Some (e2e_rc 1\<lparr>rq_szRequestID := ''uuid''\<rparr>))"
  have p: "drop 4 (last (sent 0 mesh_t5)) = payload mesh_pb NODE_RPC_RESP 3 ''uuid'' (MRpcCallResp (mesh_rsp [e2e_stack]))"
    using mesh_step5 by blast
  from node_takes(2) [OF mesh_open(6) mesh_fits(2), of "e2e_rc 1" "ae_node mesh_env" "mesh_rsp [e2e_stack]" "ac_node agent_choice1" 101]
  have 1: "process_task (ae_node mesh_env) (ac_node agent_choice1) 101 1 (drop 4 (last (sent 0 mesh_t5))) (Some (e2e_rc 1)) mesh_s
      = (Ret (), upcalled 101 1 ?k mesh_s)"
    using mesh_dec(4) unfolding p by (simp del: One_nat_def)
  then have s4: "mesh_s4 = upcalled 101 1 ?k mesh_s" by (simp add: mesh_s4_def)
  have c4: "connected 1 ''c1'' 0 mesh_s4" "getConnectionID (Some 0) mesh_s4 = ''_''" "transport_error 0 mesh_s4 = None"
    unfolding s4 upcalled_simps by (rule mesh_connected, rule mesh_open, rule mesh_open)
  have "respond_local mesh_env agent_choice1 (mesh_rsp [e2e_stack]) mesh_s4 = (Ret ''SUCCESS'', snd (Write 0
      (fst (NewProtocol (ae_pb mesh_env) NODE_RPC_RESP 2 ''q'' (MRpcCallResp ((mesh_rsp [e2e_stack])\<lparr>RpcCallResp_Caller := []\<rparr>)))) mesh_s4))"
    by (rule respond_local_returns [where k = "''c1''" and n = 1])
      (use c4 mesh_utf8 in \<open>auto simp: connected_def e2e_stack_def\<close>)
  then have 2: "run_upcall mesh_env agent_choice1 (last (nm_upcall mesh_s4)) mesh_s4 = (Ret (), snd (Write 0
      (fst (NewProtocol mesh_pb NODE_RPC_RESP 2 ''q'' (MRpcCallResp (mesh_rsp [])))) mesh_s4))"
    by (simp add: run_upcall_def s4 HandleResponse_cm_def)
  then have "last (sent 0 mesh_s5) = fst (NewProtocol mesh_pb NODE_RPC_RESP 2 ''q'' (MRpcCallResp (mesh_rsp [])))"
    using Write_open(2) [OF c4(3)] by (simp add: mesh_s5_def)
  from mesh_sent [OF this] 1 2 show ?thesis by (simp add: s4 mesh_s5_def)
qed

theorem call_across_nodes_witness: "cl_result mesh_a3 = [(''q'', Inr ''d!'')]"
proof -
  obtain z1 where 1: "sync_connected mesh_pb ''q'' ''u'' ''d'' 1000 (Some 0) lib_ab = (z1, mesh_a1)"
    "delivers (last (sent 0 mesh_a1)) (drop 4 (last (sent 0 mesh_a1)))" using mesh_step1 by blast
  obtain z2 where 2: "process_task_cm mesh_env mesh_handler agent_choice1 100 0 (drop 4 (last (sent 0 mesh_a1))) (Some (e2e_rc 0)) mesh_s
      = (z2, mesh_s1)" "delivers (last (sent 1 mesh_s1)) (drop 4 (last (sent 1 mesh_s1)))" using mesh_step2 by blast
  obtain z4 where 3: "run_upcall mesh_env agent_choice1 (last (nm_upcall mesh_t1)) mesh_t1 = (z4, mesh_t2)"
    "delivers (last (sent 1 mesh_t2)) (drop 4 (last (sent 1 mesh_t2)))" using mesh_step3 by blast
  obtain z5 z6 where 4: "process_packet mesh_pb 100 0 0 (drop 4 (last (sent 1 mesh_t2))) (Some (e2e_rc 0)) e2e_provider = (z5, mesh_b1)"
    "run_client_thread mesh_pb 100 (True, []) [] 0 (last (cl_thread mesh_b1)) mesh_b1 = (z6, mesh_b2)"
    "delivers (last (sent 0 mesh_b2)) (drop 4 (last (sent 0 mesh_b2)))" using mesh_step4 by blast
  obtain z7 where 5: "process_task_cm mesh_env mesh_handler agent_choice1 101 1 (drop 4 (last (sent 0 mesh_b2))) (Some (e2e_rc 1)) mesh_t
      = (z7, mesh_t5)" "delivers (last (sent 0 mesh_t5)) (drop 4 (last (sent 0 mesh_t5)))" using mesh_step5 by blast
  obtain z8 z9 where 6: "process_task (ae_node mesh_env) (ac_node agent_choice1) 101 1 (drop 4 (last (sent 0 mesh_t5))) (Some (e2e_rc 1)) mesh_s
      = (z8, mesh_s4)" "run_upcall mesh_env agent_choice1 (last (nm_upcall mesh_s4)) mesh_s4 = (z9, mesh_s5)"
    "delivers (last (sent 0 mesh_s5)) (drop 4 (last (sent 0 mesh_s5)))" using mesh_step6 by blast
  obtain z10 z11 where 7: "OnRead_cl 0 (drop 4 (last (sent 0 mesh_s5))) (Some (e2e_rc 0)) mesh_a1 = (z10, mesh_a2)"
    "finish_client_call mesh_pb 102 SelMsg (last (cl_wait mesh_a1)) mesh_a2 = (z11, mesh_a3)"
    by (metis mesh_a2_def mesh_a3_def prod.collapse)
  have route: "mget (nm_mNodeInfo mesh_t) ''a'' = Some 1" and table: "mget (conn_table 1 mesh_t) ''uuid'' = None"
    by (simp_all add: mesh_nodes mesh_open del: One_nat_def)
  note call = call_across_nodes [where a = lib_ab and b = e2e_provider and s = mesh_s and t = mesh_t and A = mesh_env
      and B = mesh_env and ?ch1.0 = agent_choice1 and ?ch2.0 = agent_choice1 and ?ch4.0 = agent_choice1 and ?ch3.0 = agent_choice1
      and ?ch5.0 = agent_choice1 and q = "''q''" and u = "''u''" and d = "''d''" and f = "\<lambda>d ctx. d @ ''!''" and k = "''c1''"
      and sa = 0 and ta = 1 and ?rc2.0 = "e2e_rc 0" and ?rc3.0 = "e2e_rc 0" and ?p1.0 = 1 and ?p2.0 = 1 and m = 1,
      unfolded mesh_pb_simps mesh_ids mesh_net(5) mesh_nodes(3) mesh_open(4) e2e_rc_conn, folded e2e_stack_def,
      OF _ _ _ _ _ _ e2e_open(3) 1 mesh_connected mesh_routed mesh_open(1) e2e_rc_conn 2
        mesh_open(5) refl mesh_t1_eq(1) mesh_hosts mesh_open(2) 3 e2e_handler e2e_open(4) 4
        route mesh_reached mesh_open(2) table e2e_rc_conn 5
        mesh_open(6) e2e_rc_conn 6(1) mesh_connected mesh_open(4) mesh_open(1) 6(2,3) e2e_rc_conn 7]
  have "mesh_codec mesh_pb ''u'' ''d'' (''d'' @ ''!'') e2e_stack (GenNodeCaller ''a'')" using mesh_codec_ok by simp
  with call show ?thesis by (simp add: mesh_fits mesh_utf8 lib_ab_def net.extend_def)
qed

end
