(* ===== verification/Registration.thy ===== *)
theory Registration
  imports EndToEnd
begin

text \<open>
  A client registers with an agent: the client library opens a connection and sends the
  registration (\<^verbatim>\<open>createConnectAndRegister\<close>), the agent checks and records it
  (\<^verbatim>\<open>handleAgentRegister\<close>) and replies, and the library puts the connection into its pool.
\<close>

section \<open>The client sends its registration\<close>

lemma transport_error_lib [simp]:
  fixes s :: "'a Client_scheme"
  shows "transport_error c (s\<lparr>cl_wait := w\<rparr>) = transport_error c s"
    "transport_error c (s\<lparr>cl_thread := th\<rparr>) = transport_error c s"
    "transport_error c (s\<lparr>cl_pools := ps\<rparr>) = transport_error c s"
    "transport_error c (bind_ctx c' v s) = transport_error c s"
  by (simp_all add: transport_error_def bind_ctx_def set_conn_def)

lemma transport_error_table [simp]: "transport_error c (SetRequestContext c' t s) = transport_error c s"
  by (simp add: transport_error_def SetRequestContext_def net_upd_defs)

lemma client_registers:
  fixes a :: "'a Client_scheme"
  assumes "createConnectAndRegister pb nNow (True, szLocal) q p k a = a1"
  shows "\<exists>x. sent (n_nextConn a) a1 = [fst (NewProtocol pb AGENT_REGISTER 1 q (MAgentRegisterReq (register_req nNow a)))]
    \<and> cl_wait a1 = cl_wait a @ [\<lparr>cc_rpc = x, cc_conn = n_nextConn a, cc_szRequestID = q, cc_then = WaitRegister p k\<rparr>]
    \<and> mget (conn_table (n_nextConn a) a1) q = Some x \<and> n_rpc a1 x = rpc_zero
    \<and> transport_error (n_nextConn a) a1 = None \<and> cl_pools a1 = cl_pools a \<and> cl_thread a1 = cl_thread a"
proof -
  let ?c = "n_nextConn a"
  let ?a = "cp_AgentInfo (the_pool a p)"
  define a0 where "a0 = SetRequestContext ?c (cl_ptrRequestContext (snd (new_connection szLocal
      (ai_IP ?a @ '':'' @ FormatUint (ai_Port ?a)) a))) (snd (new_connection szLocal (ai_IP ?a @ '':'' @ FormatUint (ai_Port ?a)) a))"
  have new: "NewClient True szLocal (ai_IP ?a) (ai_Port ?a)
      [Some (\<lambda>c s. (True, SetRequestContext c (cl_ptrRequestContext s) s))] a = (Some ?c, a0)"
    by (simp add: NewClient_def new_connection_def Let_def a0_def)
  have a0: "net.more a0 = net.more a" "transport_error ?c a0 = None" "sent ?c a0 = []"
    by (simp_all add: a0_def new_connection_def Let_def SetRequestContext_def transport_error_def sent_def net_upd_defs)
  have req: "register_req nNow a0 = register_req nNow a"
    using a0(1) by (cases a; cases a0) (simp add: register_req_def)
  obtain x t where t: "Call_begin pb ((NewCall q AGENT_REGISTER (MAgentRegisterReq (register_req nNow a0)) (Some ?c))
        \<lparr>call_nTimeoutMs := 3000\<rparr>) a0 = (Some x, t)"
      "sent ?c t = sent ?c a0 @ [fst (NewProtocol pb AGENT_REGISTER 1 q (MAgentRegisterReq (register_req nNow a0)))]"
      "net.more t = net.more a0" "mget (conn_table ?c t) q = Some x" "n_rpc t x = rpc_zero" "transport_error ?c t = None"
    using Call_begin_open [OF a0(2)] by blast
  have more: "net.more t = net.more a" using t(3) a0(1) by simp
  have "a1 = wait_call x ?c q (WaitRegister p k) t"
    using assms new t(1) by (simp add: createConnectAndRegister_def Let_def)
  then show ?thesis
    using t(2,4,5,6) a0(3) more_lib(2,3,4) [OF more]
    by (simp add: wait_call_def sent_def conn_table_def req)
qed

section \<open>The agent accepts it and replies\<close>

lemma AddEntry_transport:
  assumes "n_conn t = n_conn s"
  shows "transport_error c t = transport_error c s" "sent c t = sent c s"
  using assms by (simp_all add: transport_error_def sent_def)

text \<open>The client of a registration has room for one more connection.\<close>

definition has_room :: "agent_env \<Rightarrow> string \<Rightarrow> 'a ClientManager_scheme \<Rightarrow> bool" where
  "has_room A k s \<longleftrightarrow>
     (\<forall>n. mget (cm_mClientInfo s) k = Some n \<longrightarrow> length (ci_aryConnectionList (cm_info s n)) \<le> ae_AgentClientMaxConnection A)"

lemma admit_open:
  assumes inv: "client_inv A s" and room: "has_room A (AgentRegisterReq_InstanceID q) s"
    and r: "register_admit A nNow q c s = (n, s1)"
  shows "transport_error c s1 = transport_error c s" "sent c s1 = sent c s" "c \<in> set (ci_aryConnectionList (cm_info s1 n))"
proof -
  have add: "n_conn (addConnection_ci A n c s) = n_conn s
      \<and> c \<in> set (ci_aryConnectionList (cm_info (addConnection_ci A n c s) n))"
    if "alive_ci n s" "length (ci_aryConnectionList (cm_info s n)) \<le> ae_AgentClientMaxConnection A" for n and s :: "'a ClientManager_scheme"
    using that by (auto simp: addConnection_ci_def Let_def set_client_def)
  have all: "transport_error c s1 = transport_error c s \<and> sent c s1 = sent c s \<and> c \<in> set (ci_aryConnectionList (cm_info s1 n))"
  proof (cases "mget (cm_mClientInfo s) (AgentRegisterReq_InstanceID q)")
    case (Some m)
    then have "alive_ci m s" using client_inv_known [OF inv [unfolded client_inv_def] Some] by simp
    then show ?thesis using add [of m s] Some room r
      by (auto simp: register_admit_def has_room_def syncEntry_ci_def set_client_def bind_ctx_def set_conn_def
          transport_error_def sent_def)
  next
    case None
    obtain m s0 where m: "NewClient_ci (AgentRegisterReq_InstanceID q) nNow s = (m, s0)" by fastforce
    then have "alive_ci m s0 \<and> ci_aryConnectionList (cm_info s0 m) = [] \<and> n_conn s0 = n_conn s"
      by (auto simp: NewClient_ci_def Let_def set_client_def alive_ci_def)
    then show ?thesis using add [of m s0] None m r
      by (auto simp: register_admit_def syncEntry_ci_def set_client_def bind_ctx_def set_conn_def Let_def
          transport_error_def sent_def)
  qed
  then show "transport_error c s1 = transport_error c s" "sent c s1 = sent c s" "c \<in> set (ci_aryConnectionList (cm_info s1 n))"
    by simp_all
qed

context node_handler
begin

lemma register_sent:
  assumes inv: "client_inv A s" and ctx: "GetServerConnection ctx = Some c" "transport_error c s = None"
    and q: "Unmarshal_AgentRegisterReq (ae_pb A) b = Some q"
    and sign: "AgentRegisterReq_Sign q = makeSign_ci A (AgentRegisterReq_InstanceID q) (AgentRegisterReq_TimeStamp q)"
    and new: "\<not> gt64 nNow (AgentRegisterReq_TimeStamp q + ae_SignTimeout A)" "cm_nStatus s = 1"
    and room: "has_room A (AgentRegisterReq_InstanceID q) s"
  shows "sent c (snd (handleAgentRegister A H nNow b ctx s)) = sent c s @
    [fst (NewProtocol (ae_pb A) '''' 2 (GetRequestID ctx) (MAgentRegisterRsp
      \<lparr>AgentRegisterRsp_Result = 0, AgentRegisterRsp_Sign = makeSign_ci A (cm_szName s) nNow,
       AgentRegisterRsp_TimeStamp = nNow\<rparr>))]"
    and "c \<in> set (ci_aryConnectionList (cm_info (snd (handleAgentRegister A H nNow b ctx s)) (fst (register_admit A nNow q c s))))"
    and "mget (cm_mClientInfo (snd (handleAgentRegister A H nNow b ctx s))) (AgentRegisterReq_InstanceID q) = Some (fst (register_admit A nNow q c s))"
proof -
  obtain n s1 where r: "register_admit A nNow q c s = (n, s1)" by fastforce
  let ?s2 = "s1\<lparr>cm_mTempConnection := mdel c (cm_mTempConnection s1)\<rparr>"
  let ?s3 = "AddEntry_cm A H (AgentRegisterReq_AryEntry q) n ?s2"
  note opn = admit_open [OF inv room r]
  have fr: "n_conn ?s3 = n_conn s1" "cm_info ?s3 = cm_info s1" "cm_mClientInfo ?s3 = cm_mClientInfo s1"
    using AddEntry_frame [of A "AgentRegisterReq_AryEntry q" n ?s2] by simp_all
  have s3: "transport_error c ?s3 = None" "sent c ?s3 = sent c s" "cm_info ?s3 = cm_info s1" "cm_mClientInfo ?s3 = cm_mClientInfo s1"
    using AddEntry_transport [OF fr(1), of c] fr(2,3) ctx(2) opn(1,2) by simp_all
  have eq: "handleAgentRegister A H nNow b ctx s = (Ret ''SUCCESS'', snd (Write c (fst (NewProtocol (ae_pb A) '''' 2 (GetRequestID ctx)
      (MAgentRegisterRsp \<lparr>AgentRegisterRsp_Result = 0, AgentRegisterRsp_Sign = makeSign_ci A (cm_szName s) nNow,
        AgentRegisterRsp_TimeStamp = nNow\<rparr>))) ?s3))"
    using ctx q sign new r by (simp add: handleAgentRegister_def reply_cm_eq [OF ctx(1)])
  show "sent c (snd (handleAgentRegister A H nNow b ctx s)) = sent c s @
    [fst (NewProtocol (ae_pb A) '''' 2 (GetRequestID ctx) (MAgentRegisterRsp
      \<lparr>AgentRegisterRsp_Result = 0, AgentRegisterRsp_Sign = makeSign_ci A (cm_szName s) nNow,
       AgentRegisterRsp_TimeStamp = nNow\<rparr>))]"
    using Write_open(2) [OF s3(1)] s3(2) by (simp add: eq)
  show "c \<in> set (ci_aryConnectionList (cm_info (snd (handleAgentRegister A H nNow b ctx s)) (fst (register_admit A nNow q c s))))"
    using opn(3) s3(3) by (simp add: eq r Write_client)
  have "mget (cm_mClientInfo s1) (AgentRegisterReq_InstanceID q) = Some n"
    using r ckeepsD(1) [OF ckeeps_addConnection [of s A n c]]
    by (auto simp: register_admit_def Let_def syncEntry_ci_def set_client_def bind_ctx_def set_conn_def
        split: option.splits prod.splits)
  then show "mget (cm_mClientInfo (snd (handleAgentRegister A H nNow b ctx s))) (AgentRegisterReq_InstanceID q) = Some (fst (register_admit A nNow q c s))"
    using s3(4) by (simp add: eq r Write_client)
qed

end

lemma register_uri_fits: "string_fits AGENT_REGISTER" "string_fits []"
  by (simp_all add: string_fits_def)

definition register_rsp :: "agent_env \<Rightarrow> int64 \<Rightarrow> string \<Rightarrow> AgentRegisterRsp" where
  "register_rsp A nNow szName =
     \<lparr>AgentRegisterRsp_Result = 0, AgentRegisterRsp_Sign = makeSign_ci A szName nNow, AgentRegisterRsp_TimeStamp = nNow\<rparr>"

text \<open>A registration that the agent takes, as the client sends it.\<close>

definition registered :: "agent_env \<Rightarrow> AgentRegisterReq \<Rightarrow> connref \<Rightarrow> 'a ClientManager_scheme \<Rightarrow> bool" where
  "registered A r c t \<longleftrightarrow>
     (\<exists>n. mget (cm_mClientInfo t) (AgentRegisterReq_InstanceID r) = Some n \<and> getClientByConnection c t = Some n \<and> alive_ci n t
      \<and> c \<in> set (ci_aryConnectionList (cm_info t n))
      \<and> ci_mEntryInfo (cm_info t n) = forEach (\<lambda>e. mput (getUri_ci A e) e) (AgentRegisterReq_AryEntry r) []
      \<and> (\<forall>e \<in> set (AgentRegisterReq_AryEntry r). n \<in> set (mgets (cm_mUri2Client t) (getUri_ci A e)))
      \<and> mget (cm_mTempConnection t) c = None)"

lemma registered_refresh [simp]: "registered A r c (refreshKeepLiveTime_ci nNow n t) = registered A r c t"
  by (auto simp: registered_def refreshKeepLiveTime_ci_def set_client_def getClientByConnection_def alive_ci_def)

lemma agent_accepts:
  fixes s :: ClientManager and A :: agent_env
  defines "H \<equiv> objNodeHandler A (cm_objNodeHandler s)"
  assumes inv: "client_inv A s" and conn: "rq_ptrServerConnection rc = c" "transport_error c s = None" "cm_nStatus s = 1"
    and fits: "string_fits q" and room: "has_room A (AgentRegisterReq_InstanceID r) s"
    and codec: "Unmarshal_AgentRegisterReq (ae_pb A) (Marshal (ae_pb A) (MAgentRegisterReq r)) = Some r"
    and sign: "AgentRegisterReq_Sign r = makeSign_ci A (AgentRegisterReq_InstanceID r) (AgentRegisterReq_TimeStamp r)"
    and new: "\<not> gt64 nNow (AgentRegisterReq_TimeStamp r + ae_SignTimeout A)"
    and run: "process_task_cm A H ch nNow c (payload (ae_pb A) AGENT_REGISTER 1 q (MAgentRegisterReq r)) (Some rc) s = (z, s1)"
  shows "z = Ret () \<and> registered A r c s1
    \<and> sent c s1 = sent c s @ [fst (NewProtocol (ae_pb A) '''' 2 q (MAgentRegisterRsp (register_rsp A nNow (cm_szName s))))]"
proof -
  let ?ctx = "Some (rc\<lparr>rq_szRequestID := q\<rparr>)" and ?b = "Marshal (ae_pb A) (MAgentRegisterReq r)"
  have ctx: "GetServerConnection ?ctx = Some c" "GetRequestID ?ctx = q"
    using conn(1) by (simp_all add: GetServerConnection_def GetRequestContext_def GetRequestID_def)
  have "\<exists>n t. handleAgentRegister A H nNow ?b ?ctx s = (Ret ''SUCCESS'', t)
    \<and> mget (cm_mClientInfo t) (AgentRegisterReq_InstanceID r) = Some n \<and> getClient ?ctx t = Some n \<and> alive_ci n t
    \<and> ci_mEntryInfo (cm_info t n) = forEach (\<lambda>e. mput (getUri_ci A e) e) (AgentRegisterReq_AryEntry r) []
    \<and> (\<forall>e \<in> set (AgentRegisterReq_AryEntry r). n \<in> set (mgets (cm_mUri2Client t) (getUri_ci A e)))
    \<and> mget (cm_mTempConnection t) c = None"
    unfolding H_def by (rule nh.register_result [OF inv ctx(1) codec sign new conn(3)])
  then obtain n t where t: "handleAgentRegister A H nNow ?b ?ctx s = (Ret ''SUCCESS'', t)"
    "mget (cm_mClientInfo t) (AgentRegisterReq_InstanceID r) = Some n" "getClient ?ctx t = Some n" "alive_ci n t"
    "ci_mEntryInfo (cm_info t n) = forEach (\<lambda>e. mput (getUri_ci A e) e) (AgentRegisterReq_AryEntry r) []"
    "\<forall>e \<in> set (AgentRegisterReq_AryEntry r). n \<in> set (mgets (cm_mUri2Client t) (getUri_ci A e))"
    "mget (cm_mTempConnection t) c = None" by blast
  note snd = nh.register_sent [OF inv ctx(1) conn(2) codec sign new conn(3) room, of A "cm_objNodeHandler s", folded H_def]
  have snt: "sent c t = sent c s @ [fst (NewProtocol (ae_pb A) '''' 2 q (MAgentRegisterRsp (register_rsp A nNow (cm_szName s))))]"
    "c \<in> set (ci_aryConnectionList (cm_info t n))"
    using snd t(1,2) ctx(2) by (simp_all add: register_rsp_def)
  have gc: "getClientByConnection c t = Some n" "getClient (Some rc) t = Some n"
    using t(3) ctx(1) conn(1) by (simp_all add: getClient_def GetServerConnection_def GetRequestContext_def)
  have "mget (client_router A H ch nNow) AGENT_REGISTER = Some (handleAgentRegister A H nNow)"
    by (simp add: client_router_def RegisterRouter_def NewRouter_def)
  then have "process_task_cm A H ch nNow c (payload (ae_pb A) AGENT_REGISTER 1 q (MAgentRegisterReq r)) (Some rc) s
      = (Ret (), refreshKeepLiveTime_ci nNow n t)"
    using t(1) gc(2)
    by (simp add: process_task_cm_def Process_request [OF register_uri_fits(1) fits] fnRouter2Handler_def del: One_nat_def)
  then have "z = Ret ()" "s1 = refreshKeepLiveTime_ci nNow n t" using run by simp_all
  moreover have "registered A r c t" using t gc snt(2) by (auto simp: registered_def)
  moreover have "sent c (refreshKeepLiveTime_ci nNow n t) = sent c t"
    by (simp add: sent_def refreshKeepLiveTime_ci_def set_client_def)
  ultimately show ?thesis using snt(1) by simp
qed


section \<open>The client takes the answer\<close>

lemma client_registered:
  fixes a :: "'a Client_scheme"
  assumes x: "mget (conn_table c a) q = Some x" "n_rpc a x = rpc_zero"
    and fits: "string_fits q" and rc: "rq_ptrServerConnection rc = c"
    and codec: "Unmarshal_AgentRegisterRsp pb (Marshal pb (MAgentRegisterRsp r)) = Some r"
    and res: "AgentRegisterRsp_Result r = ResultCode_SUCCESS"
    and read: "OnRead_cl c (payload pb '''' 2 q (MAgentRegisterRsp r)) (Some rc) a = (z, a1)"
    and run: "finish_client_call pb nNow SelMsg
      \<lparr>cc_rpc = x, cc_conn = c, cc_szRequestID = q, cc_then = WaitRegister p k\<rparr> a1 = (z', a2)"
  shows "z = Ret () \<and> select_ready SelMsg False x a1 \<and> z' = Ret ()
    \<and> mget (cp_mConnection (the_pool a2 p)) c =
        Some \<lparr>coi_LastKeepaliveTime = nNow, coi_Connection = c, coi_Host = pool_host (the_pool a p)\<rparr>
    \<and> sc_Ctx (n_conn a2 c) = Some (CtxHost (pool_host (the_pool a p)))
    \<and> transport_error c a2 = transport_error c a \<and> cl_thread a2 = cl_thread a @ [ThCreated k (Some c)]"
proof -
  obtain t t2 where t: "OnRead_cl c (payload pb '''' 2 q (MAgentRegisterRsp r)) (Some rc) a = (Ret (), t)"
      "select_ready SelMsg False x t" "Call_select (Unmarshal_AgentRegisterRsp pb) SelMsg c q x t = (Ret (Some r), t2)"
      "net.more t2 = net.more a" "transport_error c t2 = transport_error c a"
    using response_taken [OF x register_uri_fits(2) fits rc, of "Unmarshal_AgentRegisterRsp pb" pb "MAgentRegisterRsp r" r c] codec
    by blast
  have "a1 = t" "z = Ret ()" using read t(1) by simp_all
  then have "z' = Ret ()" "a2 = register_finish nNow p k c (Some r) t2"
    using run t(3) by (simp_all add: finish_client_call_def)
  then show ?thesis
    using \<open>a1 = t\<close> \<open>z = Ret ()\<close> t(2,5) res more_lib(2,3) [OF t(4)]
    by (simp add: register_finish_def Let_def go_def set_pool_def AddConnect_def pool_host_def)
       (simp add: bind_ctx_def set_conn_def)
qed

section \<open>The whole registration\<close>

text \<open>
  C3. A client and an agent with the same secret key agree on a registration.  The library
  opens a connection and sends its entries, signed; the agent, if it runs, its clock is at most
  the time limit ahead of the client's and the client has room for a connection, accepts
  it, binds the connection to the client, which is then alive with exactly these entries and
  routed for each, and answers; the library puts the open connection into the pool and returns
  it to whoever asked for one.  No step panics.
\<close>

theorem registration_end_to_end:
  fixes a :: "'c Client_scheme" and s :: ClientManager and A :: agent_env
  defines "c \<equiv> n_nextConn a" and "H \<equiv> objNodeHandler A (cm_objNodeHandler s)"
  assumes fits: "string_fits q"
    and codec: "Unmarshal_AgentRegisterReq (ae_pb A) (Marshal (ae_pb A) (MAgentRegisterReq (register_req t1 a))) = Some (register_req t1 a)"
      "Unmarshal_AgentRegisterRsp (ae_pb A) (Marshal (ae_pb A) (MAgentRegisterRsp (register_rsp A t2 (cm_szName s)))) = Some (register_rsp A t2 (cm_szName s))"
    and key: "cl_szSecretKey a = ne_szSecretKey (ae_node A)" "\<not> gt64 t2 (t1 + ae_SignTimeout A)"
    and client: "createConnectAndRegister (ae_pb A) t1 (True, szLocal) q p k a = a1" "delivers (last (sent c a1)) p1"
    and agent: "reaches client_start (client_step A) s" "transport_error c' s = None" "cm_nStatus s = 1"
      "has_room A (cl_szInstanceID a) s" "rq_ptrServerConnection rc1 = c'"
      "process_task_cm A H ch t2 c' p1 (Some rc1) s = (z1, s1)" "delivers (last (sent c' s1)) p2"
    and returned: "rq_ptrServerConnection rc2 = c" "OnRead_cl c p2 (Some rc2) a1 = (z2, a2)"
      "finish_client_call (ae_pb A) t3 SelMsg (last (cl_wait a1)) a2 = (z3, a3)"
  shows "set [z1, z2, z3] = {Ret ()} \<and> registered A (register_req t1 a) c' s1
    \<and> select_ready SelMsg False (cc_rpc (last (cl_wait a1))) a2
    \<and> mget (cp_mConnection (the_pool a3 p)) c \<noteq> None \<and> transport_error c a3 = None
    \<and> cl_thread a3 = cl_thread a @ [ThCreated k (Some c)]"
proof -
  let ?pb = "ae_pb A" and ?r = "register_req t1 a"
  obtain x where x: "sent c a1 = [fst (NewProtocol ?pb AGENT_REGISTER 1 q (MAgentRegisterReq ?r))]"
    "cl_wait a1 = cl_wait a @ [\<lparr>cc_rpc = x, cc_conn = c, cc_szRequestID = q, cc_then = WaitRegister p k\<rparr>]"
    "mget (conn_table c a1) q = Some x" "n_rpc a1 x = rpc_zero" "transport_error c a1 = None"
    "cl_pools a1 = cl_pools a" "cl_thread a1 = cl_thread a"
    using client_registers [OF client(1)] unfolding c_def by blast
  have p1: "p1 = payload ?pb AGENT_REGISTER 1 q (MAgentRegisterReq ?r)"
    by (rule delivers_payload) (use client(2) x(1) in simp)
  have inv: "client_inv A s" by (rule client_system.reachable_inv [OF agent(1)])
  have sign: "AgentRegisterReq_Sign ?r = makeSign_ci A (AgentRegisterReq_InstanceID ?r) (AgentRegisterReq_TimeStamp ?r)"
    and new: "\<not> gt64 t2 (AgentRegisterReq_TimeStamp ?r + ae_SignTimeout A)" and room: "has_room A (AgentRegisterReq_InstanceID ?r) s"
    using key agent(4) by (simp_all add: register_req_def makeSign_cl_def makeSign_ci_def)
  have 1: "z1 = Ret () \<and> registered A ?r c' s1
      \<and> sent c' s1 = sent c' s @ [fst (NewProtocol ?pb '''' 2 q (MAgentRegisterRsp (register_rsp A t2 (cm_szName s))))]"
    by (rule agent_accepts [OF inv agent(5,2,3) fits room codec(1) sign new agent(6) [unfolded p1 H_def]])
  have p2: "p2 = payload ?pb '''' 2 q (MAgentRegisterRsp (register_rsp A t2 (cm_szName s)))"
    by (rule delivers_payload) (use agent(7) 1 in simp)
  have w: "last (cl_wait a1) = \<lparr>cc_rpc = x, cc_conn = c, cc_szRequestID = q, cc_then = WaitRegister p k\<rparr>"
    by (simp add: x(2))
  have "AgentRegisterRsp_Result (register_rsp A t2 (cm_szName s)) = ResultCode_SUCCESS" by (simp add: register_rsp_def)
  from client_registered [OF x(3,4) fits returned(1) codec(2) this returned(2) [unfolded p2] returned(3) [unfolded w]]
  show ?thesis using 1 x(5,7) w by simp
qed


section \<open>A registration to compute\<close>

definition reg_lib :: Client where
  "reg_lib = HandleRpc ''u'' (\<lambda>d ctx. d) lib_ab"

definition reg_pb :: proto_lib where
  "reg_pb = lib_stub\<lparr>Unmarshal_AgentRegisterReq := \<lambda>_. Some (register_req 100 reg_lib),
     Unmarshal_AgentRegisterRsp := \<lambda>_. Some (register_rsp agent_env1 102 ''agent'')\<rparr>"

definition reg_env :: agent_env where
  "reg_env = agent_env1\<lparr>ae_node := example_env\<lparr>ne_pb := reg_pb\<rparr>\<rparr>"

definition reg_a1 :: Client where
  "reg_a1 = createConnectAndRegister reg_pb 100 (True, ''me'') ''q'' 0 CFill reg_lib"

definition reg_s1 :: ClientManager where
  "reg_s1 = snd (process_task_cm reg_env (objNodeHandler reg_env (cm_objNodeHandler agent_a)) agent_choice1 102 0
     (drop 4 (last (sent 0 reg_a1))) (Some (e2e_rc 0)) agent_a)"

definition reg_a2 :: Client where
  "reg_a2 = snd (OnRead_cl 0 (drop 4 (last (sent 0 reg_s1))) (Some (e2e_rc 0)) reg_a1)"

definition reg_a3 :: Client where
  "reg_a3 = snd (finish_client_call reg_pb 103 SelMsg (last (cl_wait reg_a1)) reg_a2)"

lemma reg_env_parts [simp]: "ae_pb reg_env = reg_pb" "ne_szSecretKey (ae_node reg_env) = ''key''"
  "ae_SignTimeout reg_env = 5" "ae_AgentClientMaxConnection reg_env = 10" "Marshal reg_pb m = []"
  "register_rsp reg_env t n = register_rsp agent_env1 t n"
  by (simp_all add: reg_env_def agent_env1_def example_env_def reg_pb_def lib_stub_def register_rsp_def makeSign_ci_def)

lemma reg_lib_parts: "n_nextConn reg_lib = 0" "cl_szInstanceID reg_lib = ''id''" "cl_szSecretKey reg_lib = ''key''"
  "cl_thread reg_lib = []"
  "register_req 100 reg_lib = \<lparr>AgentRegisterReq_InstanceID = ''id'',
     AgentRegisterReq_AryEntry = [\<lparr>agent_EntryInfo_URI = ''u'', agent_EntryInfo_EntryType = EntryType_RPC\<rparr>],
     AgentRegisterReq_Sign = makeSign_cl ''id'' 100 ''key'', AgentRegisterReq_TimeStamp = 100\<rparr>"
  by (simp_all add: reg_lib_def HandleRpc_def lib_ab_def net.extend_def net_zero_def register_req_def)

lemma reg_delivers:
  assumes "b = fst (NewProtocol reg_pb u t q m)" "length u + length q \<le> 100"
  shows "delivers b (drop 4 b)"
proof -
  have "5 + length u + length q + length (Marshal reg_pb m) \<le> PACKET_LIMIT" using assms(2) by simp
  moreover have "drop 4 b = payload reg_pb u t q m" using assms(1) by (simp add: fst_NewProtocol)
  ultimately show ?thesis using delivers_fits assms(1) by metis
qed

lemma reg_agent: "transport_error 0 agent_a = None" "cm_szName agent_a = ''agent''" "has_room reg_env k agent_a"
  by (simp_all add: transport_error_def agent_a_parts node_a_def NewManager_def newNode_def Let_def set_info_def net_zero_def conn_zero_def has_room_def
      agent_a_def RegisterNodeHandler_def NewClientManager_def NodeManager.extend_def)

theorem registration_end_to_end_witness:
  "(\<exists>n. mget (cm_mClientInfo reg_s1) ''id'' = Some n \<and> n \<in> set (mgets (cm_mUri2Client reg_s1) ''u_RPC''))
   \<and> mget (cp_mConnection (the_pool reg_a3 0)) 0 \<noteq> None \<and> cl_thread reg_a3 = [ThCreated CFill (Some 0)]"
proof -
  have q: "string_fits ''q''" by (simp add: string_fits_def)
  have codec: "Unmarshal_AgentRegisterReq reg_pb b = Some (register_req 100 reg_lib)"
    "Unmarshal_AgentRegisterRsp reg_pb b = Some (register_rsp agent_env1 102 ''agent'')" for b
    by (simp_all add: reg_pb_def)
  obtain x where x: "sent 0 reg_a1 = [fst (NewProtocol reg_pb AGENT_REGISTER 1 ''q'' (MAgentRegisterReq (register_req 100 reg_lib)))]"
    using client_registers [OF reg_a1_def [symmetric]] reg_lib_parts(1) by auto
  have d1: "delivers (last (sent 0 reg_a1)) (drop 4 (last (sent 0 reg_a1)))"
    by (rule reg_delivers) (use x in simp, code_simp)
  have p1: "drop 4 (last (sent 0 reg_a1)) = payload reg_pb AGENT_REGISTER 1 ''q'' (MAgentRegisterReq (register_req 100 reg_lib))"
    using x by (simp add: fst_NewProtocol)
  obtain z1 where z1: "process_task_cm reg_env (objNodeHandler reg_env (cm_objNodeHandler agent_a)) agent_choice1 102 0
     (drop 4 (last (sent 0 reg_a1))) (Some (e2e_rc 0)) agent_a = (z1, reg_s1)"
    by (metis reg_s1_def prod.collapse)
  have rc: "rq_ptrServerConnection (e2e_rc 0) = 0" by (simp add: e2e_rc_def)
  have new: "\<not> gt64 102 (100 + 5)" by (simp add: gt64_def)
  have sign: "AgentRegisterReq_Sign (register_req 100 reg_lib) = makeSign_ci reg_env
      (AgentRegisterReq_InstanceID (register_req 100 reg_lib)) (AgentRegisterReq_TimeStamp (register_req 100 reg_lib))"
    by (simp add: reg_lib_parts makeSign_cl_def makeSign_ci_def)
  have snt: "sent 0 reg_s1 = sent 0 agent_a @ [fst (NewProtocol reg_pb '''' 2 ''q'' (MAgentRegisterRsp (register_rsp agent_env1 102 ''agent'')))]"
    using agent_accepts [where A = reg_env and s = agent_a and r = "register_req 100 reg_lib", unfolded reg_env_parts(1),
        OF client_system.reachable_inv [OF agent_a_reached] rc reg_agent(1) agent_a_parts(4) q
        reg_agent(3) _ sign _ z1 [unfolded p1]] codec new reg_lib_parts(5) by (simp add: reg_agent(2))
  have d2: "delivers (last (sent 0 reg_s1)) (drop 4 (last (sent 0 reg_s1)))"
    by (rule reg_delivers) (use snt in simp, code_simp)
  have z: "OnRead_cl 0 (drop 4 (last (sent 0 reg_s1))) (Some (e2e_rc 0)) reg_a1
      = (fst (OnRead_cl 0 (drop 4 (last (sent 0 reg_s1))) (Some (e2e_rc 0)) reg_a1), reg_a2)"
    "finish_client_call reg_pb 103 SelMsg (last (cl_wait reg_a1)) reg_a2
      = (fst (finish_client_call reg_pb 103 SelMsg (last (cl_wait reg_a1)) reg_a2), reg_a3)"
    by (simp_all only: reg_a2_def reg_a3_def prod.collapse)
  note reg = registration_end_to_end [where A = reg_env and a = reg_lib and s = agent_a, unfolded reg_lib_parts(1-4) reg_env_parts reg_agent(2),
      OF q codec refl new reg_a1_def [symmetric] d1 agent_a_reached reg_agent(1) agent_a_parts(4) reg_agent(3) rc z1 d2 rc z]
  have "getUri_ci reg_env \<lparr>agent_EntryInfo_URI = ''u'', agent_EntryInfo_EntryType = EntryType_RPC\<rparr> = ''u_RPC''"
    by (simp add: getUri_ci_def reg_pb_def lib_stub_def agent_EntryType_String_def agent_EntryType_name_def)
  then show ?thesis using reg by (auto simp: registered_def reg_lib_parts(5))
qed

end
