(* ===== verification/TaskWorker.thy ===== *)
theory TaskWorker
  imports Prelude "HOL-Library.Multiset"
begin

text \<open>
  \<^verbatim>\<open>taskworker/taskworker.go\<close> and \<^verbatim>\<open>taskworker/taskworker_manager.go\<close>: named workers that
  bound how many tasks run at a time, and the manager that finds a worker by its name.

  The semaphore is third-party code (\<^verbatim>\<open>golang.org/x/sync/semaphore\<close>) and therefore a record
  of its three operations: \<^verbatim>\<open>Acquire\<close> is \<^const>\<open>None\<close> while it has to wait and \<^verbatim>\<open>Release\<close> is
  \<^const>\<open>None\<close> when it panics.  \<^verbatim>\<open>weighted_ok\<close> states its documentation, with what is held and
  the size as functions of its state.

  A call is in the list \<^verbatim>\<open>acquiring\<close> while it waits in \<^verbatim>\<open>Acquire\<close>, and its task in the list
  \<^verbatim>\<open>running\<close> while its goroutine runs.  A call of \<^verbatim>\<open>GoTask\<close> returns when the task starts, one
  of \<^verbatim>\<open>DoTask\<close> when it has ended.  The task itself is any value: what it does to the rest of
  the program is in the theories of the managers, which keep the same tasks in their lists of
  pending tasks; here only its end matters, by a result or by a panic.
\<close>

section \<open>The semaphore\<close>

record 's semaphore =
  sem_NewWeighted :: "int64 \<Rightarrow> 's"
  sem_Acquire :: "'s \<Rightarrow> int64 \<Rightarrow> 's option"
  sem_Release :: "'s \<Rightarrow> int64 \<Rightarrow> 's option"

definition weighted_ok :: "'s semaphore \<Rightarrow> ('s \<Rightarrow> int) \<Rightarrow> ('s \<Rightarrow> int) \<Rightarrow> bool" where
  "weighted_ok S held cap \<longleftrightarrow>
     (\<forall>n. held (sem_NewWeighted S n) = 0 \<and> cap (sem_NewWeighted S n) = sint n) \<and>
     (\<forall>s k. 0 < sint k \<longrightarrow> (case sem_Acquire S s k of
          None \<Rightarrow> cap s < held s + sint k
        | Some s' \<Rightarrow> held s + sint k \<le> cap s \<and> held s' = held s + sint k \<and> cap s' = cap s)) \<and>
     (\<forall>s k. 0 < sint k \<longrightarrow> (case sem_Release S s k of
          None \<Rightarrow> held s < sint k
        | Some s' \<Rightarrow> sint k \<le> held s \<and> held s' = held s - sint k \<and> cap s' = cap s))"

section \<open>Workers\<close>

record WorkerConfig =
  WorkerConfig_Name :: string
  WorkerConfig_Size :: int64

record 's TaskWorker =
  tw_config :: WorkerConfig
  tw_ptrWeight :: 's

definition worker_id :: "'s TaskWorker \<Rightarrow> string" where
  "worker_id t = ''worker_'' @ WorkerConfig_Name (tw_config t)"

definition NewTaskWorker :: "'s semaphore \<Rightarrow> WorkerConfig \<Rightarrow> 's TaskWorker" where
  "NewTaskWorker S config =
     \<lparr>tw_config = config, tw_ptrWeight = sem_NewWeighted S (WorkerConfig_Size config)\<rparr>"

text \<open>A call: the worker, whether the caller waits for the end (\<^verbatim>\<open>DoTask\<close>), and the task.\<close>

record 'f task_call =
  tc_worker :: nat
  tc_waits :: bool
  tc_task :: 'f

record ('s, 'f) workers =
  tw_worker :: "nat \<Rightarrow> 's TaskWorker"
  tw_next :: nat
  tw_taskworkers :: "(string, nat) gomap"
  tw_acquiring :: "'f task_call list"
  tw_running :: "'f task_call list"
  tw_ended :: "'f task_call list"
  tw_returned :: "('f task_call \<times> bool) list"
  tw_log :: "string list"

definition set_weight :: "nat \<Rightarrow> 's \<Rightarrow> ('s, 'f) workers \<Rightarrow> ('s, 'f) workers" where
  "set_weight p x w = w\<lparr>tw_worker := (tw_worker w)(p := (tw_worker w p)\<lparr>tw_ptrWeight := x\<rparr>)\<rparr>"

definition weight_of :: "('s, 'f) workers \<Rightarrow> nat \<Rightarrow> 's" where
  "weight_of w p = tw_ptrWeight (tw_worker w p)"

text \<open>
  \<^verbatim>\<open>GoTask\<close> and \<^verbatim>\<open>DoTask\<close> of a worker up to the call of \<^verbatim>\<open>Acquire\<close>.  They share the way in
  which the task is started, refused and ended.
\<close>

definition GoTask_worker :: "nat \<Rightarrow> 'f \<Rightarrow> ('s, 'f) workers \<Rightarrow> ('s, 'f) workers" where
  "GoTask_worker p f w =
     w\<lparr>tw_acquiring := tw_acquiring w @ [\<lparr>tc_worker = p, tc_waits = False, tc_task = f\<rparr>]\<rparr>"

definition DoTask_worker :: "nat \<Rightarrow> 'f \<Rightarrow> ('s, 'f) workers \<Rightarrow> ('s, 'f) workers" where
  "DoTask_worker p f w =
     w\<lparr>tw_acquiring := tw_acquiring w @ [\<lparr>tc_worker = p, tc_waits = True, tc_task = f\<rparr>]\<rparr>"

text \<open>\<^verbatim>\<open>Acquire\<close> returns nil to the call at position i, which starts the goroutine.\<close>

definition acquired :: "'s semaphore \<Rightarrow> nat \<Rightarrow> ('s, 'f) workers \<Rightarrow> ('s, 'f) workers" where
  "acquired S i w =
     (let c = tw_acquiring w ! i in
      case sem_Acquire S (weight_of w (tc_worker c)) 1 of
        None \<Rightarrow> w
      | Some x \<Rightarrow>
          (set_weight (tc_worker c) x w)
            \<lparr>tw_acquiring := drop_nth i (tw_acquiring w),
             tw_running := tw_running w @ [c],
             tw_returned := tw_returned w @ (if tc_waits c then [] else [(c, True)])\<rparr>)"

text \<open>\<^verbatim>\<open>Acquire\<close> returns an error because the context of the call ended: the task never runs.\<close>

definition acquire_failed :: "nat \<Rightarrow> ('s, 'f) workers \<Rightarrow> ('s, 'f) workers" where
  "acquire_failed i w =
     (let c = tw_acquiring w ! i in
      w\<lparr>tw_acquiring := drop_nth i (tw_acquiring w), tw_returned := tw_returned w @ [(c, False)]\<rparr>)"

text \<open>
  The task at position i ends with the outcome r of its function.  The deferred function
  recovers and logs a panic, releases the semaphore and tells the caller of \<^verbatim>\<open>DoTask\<close>.  A panic
  of \<^verbatim>\<open>Release\<close> itself is not recovered and ends the process.
\<close>

definition end_task :: "'s semaphore \<Rightarrow> nat \<Rightarrow> int outcome \<Rightarrow> ('s, 'f) workers \<Rightarrow> unit outcome \<times> ('s, 'f) workers" where
  "end_task S i r w =
     (let c = tw_running w ! i;
          w1 = (case r of Ret _ \<Rightarrow> w
                | Panics \<Rightarrow> w\<lparr>tw_log := tw_log w @ [worker_id (tw_worker w (tc_worker c)) @ '' panic '']\<rparr>) in
      case sem_Release S (weight_of w1 (tc_worker c)) 1 of
        None \<Rightarrow> (Panics, w1)
      | Some x \<Rightarrow>
          (Ret (), (set_weight (tc_worker c) x w1)
            \<lparr>tw_running := drop_nth i (tw_running w1),
             tw_ended := tw_ended w1 @ [c],
             tw_returned := tw_returned w1 @ (if tc_waits c then [(c, True)] else [])\<rparr>))"

section \<open>The manager\<close>

definition Init_one :: "'s semaphore \<Rightarrow> WorkerConfig \<Rightarrow> ('s, 'f) workers \<Rightarrow> ('s, 'f) workers" where
  "Init_one S c w =
     w\<lparr>tw_worker := (tw_worker w)(tw_next w := NewTaskWorker S c),
       tw_next := Suc (tw_next w),
       tw_taskworkers := mput (WorkerConfig_Name c) (tw_next w) (tw_taskworkers w)\<rparr>"

definition Init_workers :: "'s semaphore \<Rightarrow> WorkerConfig list \<Rightarrow> ('s, 'f) workers \<Rightarrow> ('s, 'f) workers" where
  "Init_workers S configs w = forEach (Init_one S) configs (w\<lparr>tw_taskworkers := []\<rparr>)"

definition GoTask_twm :: "string \<Rightarrow> 'f \<Rightarrow> ('s, 'f) workers \<Rightarrow> unit outcome \<times> ('s, 'f) workers" where
  "GoTask_twm worker f w =
     (case mget (tw_taskworkers w) worker of
        None \<Rightarrow> (Panics, w)
      | Some p \<Rightarrow> (Ret (), GoTask_worker p f w))"

definition DoTask_twm :: "string \<Rightarrow> 'f \<Rightarrow> ('s, 'f) workers \<Rightarrow> unit outcome \<times> ('s, 'f) workers" where
  "DoTask_twm worker f w =
     (case mget (tw_taskworkers w) worker of
        None \<Rightarrow> (Panics, w)
      | Some p \<Rightarrow> (Ret (), DoTask_worker p f w))"

text \<open>The manager of a process before \<^verbatim>\<open>Init\<close>; the contents of unused addresses do not matter.\<close>

definition no_workers :: "'s semaphore \<Rightarrow> ('s, 'f) workers" where
  "no_workers S = \<lparr>tw_worker = \<lambda>_. NewTaskWorker S \<lparr>WorkerConfig_Name = [], WorkerConfig_Size = 0\<rparr>, tw_next = 0,
     tw_taskworkers = [], tw_acquiring = [], tw_running = [], tw_ended = [], tw_returned = [], tw_log = []\<rparr>"

section \<open>The workers as a transition system\<close>

inductive workers_step :: "'s semaphore \<Rightarrow> ('s, 'f) workers \<Rightarrow> ('s, 'f) workers \<Rightarrow> bool" for S where
  step_GoTask: "GoTask_twm name f w = (Ret (), w') \<Longrightarrow> workers_step S w w'"
| step_DoTask: "DoTask_twm name f w = (Ret (), w') \<Longrightarrow> workers_step S w w'"
| step_acquired: "i < length (tw_acquiring w) \<Longrightarrow> workers_step S w (acquired S i w)"
| step_failed: "i < length (tw_acquiring w) \<Longrightarrow> workers_step S w (acquire_failed i w)"
| step_end: "i < length (tw_running w) \<Longrightarrow> end_task S i r w = (Ret (), w') \<Longrightarrow> workers_step S w w'"

inductive_cases workers_stepE: "workers_step S w w'"

definition workers_start :: "'s semaphore \<Rightarrow> WorkerConfig list \<Rightarrow> ('s, 'f) workers \<Rightarrow> bool" where
  "workers_start S configs w \<longleftrightarrow> w = Init_workers S configs (no_workers S)"

abbreviation tasks_of :: "nat \<Rightarrow> 'f task_call list \<Rightarrow> nat" where
  "tasks_of p cs \<equiv> length (filter (\<lambda>c. tc_worker c = p) cs)"

definition workers_inv :: "('s \<Rightarrow> int) \<Rightarrow> ('s \<Rightarrow> int) \<Rightarrow> ('s, 'f) workers \<Rightarrow> bool" where
  "workers_inv held cap w \<longleftrightarrow>
     (\<forall>p. held (weight_of w p) = int (tasks_of p (tw_running w))) \<and>
     (\<forall>p. cap (weight_of w p) = sint (WorkerConfig_Size (tw_config (tw_worker w p)))) \<and>
     (\<forall>p. tasks_of p (tw_running w) \<noteq> 0 \<longrightarrow>
        int (tasks_of p (tw_running w)) \<le> sint (WorkerConfig_Size (tw_config (tw_worker w p))))"

section \<open>What the operations change\<close>

lemma weight_set_weight [simp]: "weight_of (set_weight p x w) q = (if q = p then x else weight_of w q)"
  by (simp add: weight_of_def set_weight_def)

lemma config_set_weight [simp]: "tw_config (tw_worker (set_weight p x w) q) = tw_config (tw_worker w q)"
  by (simp add: set_weight_def)

lemma set_weight_frame [simp]:
  "tw_running (set_weight p x w) = tw_running w" "tw_acquiring (set_weight p x w) = tw_acquiring w"
  "tw_ended (set_weight p x w) = tw_ended w" "tw_returned (set_weight p x w) = tw_returned w"
  "tw_taskworkers (set_weight p x w) = tw_taskworkers w" "tw_next (set_weight p x w) = tw_next w"
  by (simp_all add: set_weight_def)

lemma weight_of_update [simp]:
  "weight_of (w\<lparr>tw_acquiring := a\<rparr>) p = weight_of w p" "weight_of (w\<lparr>tw_running := a\<rparr>) p = weight_of w p"
  "weight_of (w\<lparr>tw_ended := a\<rparr>) p = weight_of w p" "weight_of (w\<lparr>tw_returned := b\<rparr>) p = weight_of w p"
  "weight_of (w\<lparr>tw_log := l\<rparr>) p = weight_of w p"
  by (simp_all add: weight_of_def)

lemma mset_drop_nth:
  assumes "i < length xs"
  shows "mset xs = add_mset (xs ! i) (mset (drop_nth i xs))"
proof -
  have "xs = take i xs @ xs ! i # drop (Suc i) xs" using assms by (rule id_take_nth_drop)
  then have "mset xs = mset (take i xs @ xs ! i # drop (Suc i) xs)" by simp
  then show ?thesis by (simp add: drop_nth_def)
qed

lemma filter_drop_nth:
  assumes "i < length xs"
  shows "length (filter P xs) = length (filter P (drop_nth i xs)) + (if P (xs ! i) then 1 else 0)"
proof -
  have "length (filter P xs) = size (filter_mset P (mset xs))"
    by (metis mset_filter size_mset)
  also have "\<dots> = size (filter_mset P (mset (drop_nth i xs))) + (if P (xs ! i) then 1 else 0)"
    by (subst mset_drop_nth [OF assms]) simp
  also have "size (filter_mset P (mset (drop_nth i xs))) = length (filter P (drop_nth i xs))"
    by (metis mset_filter size_mset)
  finally show ?thesis .
qed

lemma length_drop_nth: "i < length xs \<Longrightarrow> length xs = Suc (length (drop_nth i xs))"
  by (simp add: drop_nth_def)

section \<open>The laws of the semaphore\<close>

lemma sem_new:
  assumes "weighted_ok S held cap"
  shows "held (sem_NewWeighted S n) = 0" "cap (sem_NewWeighted S n) = sint n"
  using assms by (simp_all add: weighted_ok_def)

lemma weighted_one:
  assumes "weighted_ok S held cap"
  shows "case sem_Acquire S s 1 of None \<Rightarrow> cap s < held s + 1
         | Some s' \<Rightarrow> held s + 1 \<le> cap s \<and> held s' = held s + 1 \<and> cap s' = cap s"
    and "case sem_Release S s 1 of None \<Rightarrow> held s < 1
         | Some s' \<Rightarrow> 1 \<le> held s \<and> held s' = held s - 1 \<and> cap s' = cap s"
proof -
  have acq: "case sem_Acquire S s k of None \<Rightarrow> cap s < held s + sint k
         | Some s' \<Rightarrow> held s + sint k \<le> cap s \<and> held s' = held s + sint k \<and> cap s' = cap s"
    and rel: "case sem_Release S s k of None \<Rightarrow> held s < sint k
         | Some s' \<Rightarrow> sint k \<le> held s \<and> held s' = held s - sint k \<and> cap s' = cap s"
    if "0 < sint k" for k :: int64
    using assms that unfolding weighted_ok_def by blast+
  show "case sem_Acquire S s 1 of None \<Rightarrow> cap s < held s + 1
         | Some s' \<Rightarrow> held s + 1 \<le> cap s \<and> held s' = held s + 1 \<and> cap s' = cap s"
    using acq [of 1] by (simp split: option.splits)
  show "case sem_Release S s 1 of None \<Rightarrow> held s < 1
         | Some s' \<Rightarrow> 1 \<le> held s \<and> held s' = held s - 1 \<and> cap s' = cap s"
    using rel [of 1] by (simp split: option.splits)
qed

lemma sem_acquire_Some:
  assumes "weighted_ok S held cap" and "sem_Acquire S s 1 = Some x"
  shows "held s + 1 \<le> cap s" "held x = held s + 1" "cap x = cap s"
  using weighted_one(1) [OF assms(1), of s] assms(2) by simp_all

lemma sem_acquire_None:
  assumes "weighted_ok S held cap"
  shows "sem_Acquire S s 1 = None \<longleftrightarrow> cap s \<le> held s"
  using weighted_one(1) [OF assms, of s] by (auto split: option.splits)

lemma sem_release_Some:
  assumes "weighted_ok S held cap" and "sem_Release S s 1 = Some x"
  shows "0 < held s" "held x = held s - 1" "cap x = cap s"
  using weighted_one(2) [OF assms(1), of s] assms(2) by simp_all

lemma sem_release_None:
  assumes "weighted_ok S held cap"
  shows "sem_Release S s 1 = None \<longleftrightarrow> held s \<le> 0"
  using weighted_one(2) [OF assms, of s] by (auto split: option.splits)

section \<open>The invariant\<close>

lemma worker_Init_one:
  "tw_worker (Init_one S c w) p = (if p = tw_next w then NewTaskWorker S c else tw_worker w p)"
  "tw_running (Init_one S c w) = tw_running w"
  by (simp_all add: Init_one_def)

lemma inv_Init_one:
  assumes "weighted_ok S held cap" and "workers_inv held cap w" and "tw_running w = []"
  shows "workers_inv held cap (Init_one S c w) \<and> tw_running (Init_one S c w) = []"
  using assms by (auto simp: workers_inv_def weight_of_def worker_Init_one NewTaskWorker_def sem_new)

lemma workers_inv_start:
  assumes "weighted_ok S held cap"
  shows "workers_inv held cap (Init_workers S configs (no_workers S))"
proof -
  have "workers_inv held cap w \<and> tw_running w = [] \<Longrightarrow>
      workers_inv held cap (forEach (Init_one S) configs w) \<and> tw_running (forEach (Init_one S) configs w) = []" for w :: "('a, 'b) workers"
    by (rule forEach_invariant) (use inv_Init_one [OF assms] in blast)
  moreover have "workers_inv held cap ((no_workers S)\<lparr>tw_taskworkers := []\<rparr>) \<and> tw_running ((no_workers S)\<lparr>tw_taskworkers := []\<rparr>) = []"
    by (simp add: workers_inv_def no_workers_def weight_of_def NewTaskWorker_def sem_new [OF assms])
  ultimately show ?thesis unfolding Init_workers_def by blast
qed

lemma workers_inv_call:
  assumes "workers_inv held cap w" and "GoTask_twm name f w = (Ret (), w') \<or> DoTask_twm name f w = (Ret (), w')"
  shows "workers_inv held cap w'"
  using assms
  by (auto simp: GoTask_twm_def DoTask_twm_def GoTask_worker_def DoTask_worker_def workers_inv_def split: option.splits)

lemma workers_inv_acquired:
  assumes ok: "weighted_ok S held cap" and inv: "workers_inv held cap w"
  shows "workers_inv held cap (acquired S i w)"
proof (cases "sem_Acquire S (weight_of w (tc_worker (tw_acquiring w ! i))) 1")
  case None
  then show ?thesis using inv by (simp add: acquired_def)
next
  case (Some x)
  note x = sem_acquire_Some [OF ok Some]
  show ?thesis using inv x Some
    by (auto simp: acquired_def Let_def workers_inv_def)
qed

lemma end_task_cases:
  assumes ok: "weighted_ok S held cap" and inv: "workers_inv held cap w" and i: "i < length (tw_running w)"
  obtains x w' where "end_task S i r w = (Ret (), w')"
    "held x = held (weight_of w (tc_worker (tw_running w ! i))) - 1"
    "cap x = cap (weight_of w (tc_worker (tw_running w ! i)))"
    "\<And>p. weight_of w' p = (if p = tc_worker (tw_running w ! i) then x else weight_of w p)"
    "\<And>p. tw_config (tw_worker w' p) = tw_config (tw_worker w p)"
    "tw_running w' = drop_nth i (tw_running w)" "tw_ended w' = tw_ended w @ [tw_running w ! i]"
    "tw_acquiring w' = tw_acquiring w" "tw_taskworkers w' = tw_taskworkers w"
proof -
  define c where "c = tw_running w ! i"
  have "0 < tasks_of (tc_worker c) (tw_running w)"
    using i filter_drop_nth [OF i, of "\<lambda>d. tc_worker d = tc_worker c"] by (simp add: c_def)
  then have "\<not> held (weight_of w (tc_worker c)) \<le> 0" using inv by (simp add: workers_inv_def)
  then obtain x where x: "sem_Release S (weight_of w (tc_worker c)) 1 = Some x"
    using sem_release_None [OF ok] by blast
  show ?thesis
    by (rule that [of "snd (end_task S i r w)" x])
      (use x sem_release_Some [OF ok x] in \<open>cases r; simp add: end_task_def Let_def c_def\<close>)+
qed

lemma workers_inv_end:
  assumes ok: "weighted_ok S held cap" and inv: "workers_inv held cap w" and i: "i < length (tw_running w)"
  shows "workers_inv held cap (snd (end_task S i r w))"
proof -
  obtain x w' where e: "end_task S i r w = (Ret (), w')"
    "held x = held (weight_of w (tc_worker (tw_running w ! i))) - 1"
    "cap x = cap (weight_of w (tc_worker (tw_running w ! i)))"
    "\<And>p. weight_of w' p = (if p = tc_worker (tw_running w ! i) then x else weight_of w p)"
    "\<And>p. tw_config (tw_worker w' p) = tw_config (tw_worker w p)"
    "tw_running w' = drop_nth i (tw_running w)"
    by (rule end_task_cases [OF assms, of r]) (rule that)
  have "held (weight_of w' p) = int (tasks_of p (tw_running w')) \<and>
      cap (weight_of w' p) = sint (WorkerConfig_Size (tw_config (tw_worker w' p))) \<and>
      (tasks_of p (tw_running w') \<noteq> 0 \<longrightarrow>
        int (tasks_of p (tw_running w')) \<le> sint (WorkerConfig_Size (tw_config (tw_worker w' p))))" for p
  proof -
    have "int (tasks_of p (tw_running w)) =
        int (tasks_of p (drop_nth i (tw_running w))) + (if tc_worker (tw_running w ! i) = p then 1 else 0)"
      using filter_drop_nth [OF i, of "\<lambda>c. tc_worker c = p"] by simp
    moreover have "held (weight_of w p) = int (tasks_of p (tw_running w))"
      "cap (weight_of w p) = sint (WorkerConfig_Size (tw_config (tw_worker w p)))"
      "tasks_of p (tw_running w) \<noteq> 0 \<longrightarrow>
        int (tasks_of p (tw_running w)) \<le> sint (WorkerConfig_Size (tw_config (tw_worker w p)))"
      using inv by (simp_all add: workers_inv_def)
    ultimately show ?thesis unfolding e(4,5,6) by (auto simp: e(2,3) split: if_splits)
  qed
  then have "workers_inv held cap w'" unfolding workers_inv_def by blast
  then show ?thesis by (simp add: e(1))
qed

lemma workers_inv_step:
  assumes "weighted_ok S held cap" and "workers_inv held cap w" and "workers_step S w w'"
  shows "workers_inv held cap w'"
  using assms(3)
proof cases
  case (step_GoTask name f) then show ?thesis using workers_inv_call [OF assms(2), of name f w'] by blast
next
  case (step_DoTask name f) then show ?thesis using workers_inv_call [OF assms(2), of name f w'] by blast
next
  case (step_acquired i) then show ?thesis using workers_inv_acquired assms(1,2) by blast
next
  case (step_failed i) then show ?thesis using assms(2) by (simp add: acquire_failed_def Let_def workers_inv_def)
next
  case (step_end i r) then show ?thesis using workers_inv_end [OF assms(1,2) step_end(1), of r] by simp
qed

interpretation taskworkers: inductive_invariant "workers_start S configs" "workers_step S"
    "\<lambda>w. weighted_ok S held cap \<longrightarrow> workers_inv held cap w" for S configs held cap
  by unfold_locales (auto simp: workers_start_def intro: workers_inv_start workers_inv_step)


section \<open>The names of the workers\<close>

text \<open>The worker of a name is that of the last configuration with the name.\<close>

definition config_of :: "WorkerConfig list \<Rightarrow> string \<Rightarrow> WorkerConfig option" where
  "config_of configs name = map_of (map (\<lambda>c. (WorkerConfig_Name c, c)) (rev configs)) name"

definition found_config :: "('s, 'f) workers \<Rightarrow> string \<Rightarrow> WorkerConfig option" where
  "found_config w name = map_option (\<lambda>p. tw_config (tw_worker w p)) (mget (tw_taskworkers w) name)"

definition addresses_ok :: "('s, 'f) workers \<Rightarrow> bool" where
  "addresses_ok w \<longleftrightarrow> (\<forall>name p. mget (tw_taskworkers w) name = Some p \<longrightarrow> p < tw_next w)"

lemma Init_one_found:
  assumes "addresses_ok w"
  shows "addresses_ok (Init_one S c w)"
    and "found_config (Init_one S c w) name =
           (if name = WorkerConfig_Name c then Some c else found_config w name)"
proof -
  show "addresses_ok (Init_one S c w)"
    using assms unfolding addresses_ok_def by (auto simp: Init_one_def less_SucI)
  have "p \<noteq> tw_next w" if "mget (tw_taskworkers w) name = Some p" for p
    using assms that by (auto simp: addresses_ok_def)
  then show "found_config (Init_one S c w) name =
      (if name = WorkerConfig_Name c then Some c else found_config w name)"
    by (cases "mget (tw_taskworkers w) name") (auto simp: found_config_def Init_one_def NewTaskWorker_def)
qed

lemma Init_loop_found:
  "addresses_ok w \<Longrightarrow> addresses_ok (forEach (Init_one S) configs w) \<and>
     found_config (forEach (Init_one S) configs w) name =
       (case config_of configs name of Some c \<Rightarrow> Some c | None \<Rightarrow> found_config w name)"
proof (induction configs arbitrary: w)
  case (Cons c configs)
  have "config_of (c # configs) name =
      (case config_of configs name of Some d \<Rightarrow> Some d | None \<Rightarrow> if name = WorkerConfig_Name c then Some c else None)"
    by (auto simp: config_of_def map_add_def split: option.splits)
  then show ?case
    using Cons.IH [OF Init_one_found(1) [OF Cons.prems], of S c] Init_one_found(2) [OF Cons.prems, of S c]
    by (auto split: option.splits)
qed (simp add: config_of_def)

lemma Init_workers_found: "found_config (Init_workers S configs w) name = config_of configs name"
  using Init_loop_found [of "w\<lparr>tw_taskworkers := []\<rparr>" S configs name]
  by (auto simp: Init_workers_def addresses_ok_def found_config_def split: option.splits)

lemma found_call:
  assumes "GoTask_twm n f w = (Ret (), w') \<or> DoTask_twm n f w = (Ret (), w')"
  shows "found_config w' name = found_config w name"
  using assms
  by (auto simp: GoTask_twm_def DoTask_twm_def GoTask_worker_def DoTask_worker_def found_config_def split: option.splits)

lemma found_acquired: "found_config (acquired S i w) name = found_config w name"
  by (cases "sem_Acquire S (weight_of w (tc_worker (tw_acquiring w ! i))) 1")
     (simp_all add: acquired_def Let_def found_config_def)

lemma found_end: "found_config (snd (end_task S i r w)) name = found_config w name"
  by (cases r; cases "sem_Release S (weight_of w (tc_worker (tw_running w ! i))) 1")
     (simp_all add: end_task_def Let_def found_config_def)

lemma found_step:
  assumes "workers_step S w w'"
  shows "found_config w' name = found_config w name"
  using assms
proof cases
  case (step_GoTask n f) then show ?thesis using found_call [of n f w w'] by blast
next
  case (step_DoTask n f) then show ?thesis using found_call [of n f w w'] by blast
next
  case (step_acquired i) then show ?thesis by (simp add: found_acquired)
next
  case (step_failed i) then show ?thesis by (simp add: acquire_failed_def Let_def found_config_def)
next
  case (step_end i r) then show ?thesis using found_end [of S i r w name] by simp
qed

interpretation worker_names: inductive_invariant "workers_start S configs" "workers_step S"
    "\<lambda>w. \<forall>name. found_config w name = config_of configs name" for S configs
  by unfold_locales (simp_all add: workers_start_def Init_workers_found found_step)


section \<open>Who has been answered\<close>

definition answered :: "'f task_call list \<Rightarrow> 'f task_call list \<Rightarrow> 'f task_call multiset" where
  "answered running ended =
     filter_mset (\<lambda>c. \<not> tc_waits c) (mset running) + mset ended"

definition answered_inv :: "('s, 'f) workers \<Rightarrow> bool" where
  "answered_inv w \<longleftrightarrow>
     mset (map fst (filter snd (tw_returned w))) = answered (tw_running w) (tw_ended w)"

lemma answered_acquired:
  assumes "answered_inv w"
  shows "answered_inv (acquired S i w)"
  using assms
  by (cases "sem_Acquire S (weight_of w (tc_worker (tw_acquiring w ! i))) 1")
     (auto simp: acquired_def Let_def answered_inv_def answered_def)

lemma answered_end:
  assumes "answered_inv w" and i: "i < length (tw_running w)"
  shows "answered_inv (snd (end_task S i r w))"
proof (cases "sem_Release S (weight_of w (tc_worker (tw_running w ! i))) 1")
  case None
  then show ?thesis using assms by (cases r) (auto simp: end_task_def Let_def answered_inv_def)
next
  case (Some x)
  then show ?thesis using assms mset_drop_nth [OF i]
    by (cases r) (auto simp: end_task_def Let_def answered_inv_def answered_def)
qed

lemma answered_step:
  assumes "answered_inv w" and "workers_step S w w'"
  shows "answered_inv w'"
  using assms(2)
proof cases
  case (step_GoTask n f) then show ?thesis using assms(1)
    by (auto simp: GoTask_twm_def GoTask_worker_def answered_inv_def split: option.splits)
next
  case (step_DoTask n f) then show ?thesis using assms(1)
    by (auto simp: DoTask_twm_def DoTask_worker_def answered_inv_def split: option.splits)
next
  case (step_acquired i) then show ?thesis using answered_acquired [OF assms(1)] by simp
next
  case (step_failed i) then show ?thesis using assms(1) by (simp add: acquire_failed_def Let_def answered_inv_def)
next
  case (step_end i r) then show ?thesis using answered_end [OF assms(1) step_end(1), of S r] by simp
qed

lemma Init_lists:
  "tw_running (forEach (Init_one S) configs w) = tw_running w"
  "tw_ended (forEach (Init_one S) configs w) = tw_ended w"
  "tw_returned (forEach (Init_one S) configs w) = tw_returned w"
  by (rule forEach_frame, simp add: Init_one_def)+

lemma answered_start: "workers_start S configs w \<Longrightarrow> answered_inv w"
  by (simp add: workers_start_def Init_workers_def Init_lists no_workers_def answered_inv_def answered_def)

interpretation callers: inductive_invariant "workers_start S configs" "workers_step S" answered_inv for S configs
  by unfold_locales (rule answered_start answered_step; assumption)+

section \<open>Running what was accepted\<close>

lemma run_one:
  assumes ok: "weighted_ok S held cap" and inv: "workers_inv held cap w"
    and idle: "tw_running w = []" and c: "tw_acquiring w = c # cs"
    and room: "0 < sint (WorkerConfig_Size (tw_config (tw_worker w (tc_worker c))))"
  obtains w' where "(workers_step S)\<^sup>*\<^sup>* w w'" "workers_inv held cap w'" "tw_running w' = []" "tw_acquiring w' = cs"
    "mset (tw_ended w') = add_mset c (mset (tw_ended w))" "\<And>p. tw_config (tw_worker w' p) = tw_config (tw_worker w p)"
proof -
  have "held (weight_of w (tc_worker c)) = 0" "0 < cap (weight_of w (tc_worker c))"
    using inv room idle by (simp_all add: workers_inv_def)
  then obtain x where x: "sem_Acquire S (weight_of w (tc_worker c)) 1 = Some x"
    using sem_acquire_None [OF ok, of "weight_of w (tc_worker c)"] by fastforce
  let ?v = "acquired S 0 w"
  have v: "tw_running ?v = [c]" "tw_acquiring ?v = cs" "tw_ended ?v = tw_ended w"
    "\<And>p. tw_config (tw_worker ?v p) = tw_config (tw_worker w p)"
    using x idle c by (simp_all add: acquired_def Let_def drop_nth_def)
  have step1: "workers_step S w ?v" by (rule workers_step.step_acquired) (simp add: c)
  have inv1: "workers_inv held cap ?v" by (rule workers_inv_acquired [OF ok inv])
  have "0 < length (tw_running ?v)" by (simp add: v)
  then show ?thesis
  proof (rule end_task_cases [OF ok inv1, where r = "Ret 0"])
    fix y w'
    assume e: "end_task S 0 (Ret 0) ?v = (Ret (), w')"
      "\<And>p. tw_config (tw_worker w' p) = tw_config (tw_worker ?v p)"
      "tw_running w' = drop_nth 0 (tw_running ?v)" "tw_ended w' = tw_ended ?v @ [tw_running ?v ! 0]"
      "tw_acquiring w' = tw_acquiring ?v"
    have step2: "workers_step S ?v w'" by (rule workers_step.step_end [OF _ e(1)]) (simp add: v)
    have "workers_inv held cap w'" by (rule workers_inv_step [OF ok inv1 step2])
    moreover have "(workers_step S)\<^sup>*\<^sup>* w w'" using step1 step2 by auto
    ultimately show ?thesis using that e v by (simp add: drop_nth_def)
  qed
qed

lemma run_acquiring:
  assumes ok: "weighted_ok S held cap" and "workers_inv held cap w"
    and "tw_running w = []"
    and "\<And>c. c \<in> set (tw_acquiring w) \<Longrightarrow> 0 < sint (WorkerConfig_Size (tw_config (tw_worker w (tc_worker c))))"
  shows "\<exists>w'. (workers_step S)\<^sup>*\<^sup>* w w' \<and> tw_running w' = [] \<and> tw_acquiring w' = [] \<and>
      mset (tw_ended w') = mset (tw_ended w) + mset (tw_acquiring w)"
  using assms(2-)
proof (induction "tw_acquiring w" arbitrary: w)
  case (Cons c cs)
  obtain v where v: "(workers_step S)\<^sup>*\<^sup>* w v" "workers_inv held cap v" "tw_running v = []" "tw_acquiring v = cs"
    "mset (tw_ended v) = add_mset c (mset (tw_ended w))" "\<And>p. tw_config (tw_worker v p) = tw_config (tw_worker w p)"
    using run_one [OF ok Cons.prems(1,2) Cons.hyps(2) [symmetric]] Cons.prems(3) [of c] Cons.hyps(2) [symmetric]
    by (metis list.set_intros(1))
  have "\<exists>w'. (workers_step S)\<^sup>*\<^sup>* v w' \<and> tw_running w' = [] \<and> tw_acquiring w' = [] \<and>
      mset (tw_ended w') = mset (tw_ended v) + mset (tw_acquiring v)"
    by (rule Cons.hyps(1)) (use v Cons.prems(3) Cons.hyps(2) [symmetric] in auto)
  then show ?case using v(1,4,5) Cons.hyps(2) [symmetric] by (auto intro: rtranclp_trans)
qed auto

lemma run_running:
  assumes ok: "weighted_ok S held cap" and "workers_inv held cap w"
  shows "\<exists>w'. (workers_step S)\<^sup>*\<^sup>* w w' \<and> workers_inv held cap w' \<and> tw_running w' = [] \<and>
      tw_acquiring w' = tw_acquiring w \<and> (\<forall>p. tw_config (tw_worker w' p) = tw_config (tw_worker w p)) \<and>
      mset (tw_ended w') = mset (tw_ended w) + mset (tw_running w)"
  using assms(2)
proof (induction "length (tw_running w)" arbitrary: w)
  case (Suc n)
  have i: "0 < length (tw_running w)" using Suc.hyps(2) by linarith
  show ?case
  proof (rule end_task_cases [OF ok Suc.prems i, where r = "Ret 0"])
    fix y v
    assume e: "end_task S 0 (Ret 0) w = (Ret (), v)"
      "\<And>p. tw_config (tw_worker v p) = tw_config (tw_worker w p)"
      "tw_running v = drop_nth 0 (tw_running w)" "tw_ended v = tw_ended w @ [tw_running w ! 0]"
      "tw_acquiring v = tw_acquiring w"
    have step: "workers_step S w v" by (rule workers_step.step_end [OF i e(1)])
    have "\<exists>w'. (workers_step S)\<^sup>*\<^sup>* v w' \<and> workers_inv held cap w' \<and> tw_running w' = [] \<and>
        tw_acquiring w' = tw_acquiring v \<and> (\<forall>p. tw_config (tw_worker w' p) = tw_config (tw_worker v p)) \<and>
        mset (tw_ended w') = mset (tw_ended v) + mset (tw_running v)"
      by (rule Suc.hyps(1) [OF _ workers_inv_step [OF ok Suc.prems step]])
         (use Suc.hyps(2) length_drop_nth [OF i] e(3) in simp)
    then obtain w' where w': "(workers_step S)\<^sup>*\<^sup>* v w'" "workers_inv held cap w'" "tw_running w' = []"
        "tw_acquiring w' = tw_acquiring v" "\<forall>p. tw_config (tw_worker w' p) = tw_config (tw_worker v p)"
        "mset (tw_ended w') = mset (tw_ended v) + mset (tw_running v)" by blast
    have "(workers_step S)\<^sup>*\<^sup>* w w'" using step w'(1) by (rule converse_rtranclp_into_rtranclp)
    moreover have "mset (tw_ended w') = mset (tw_ended w) + mset (tw_running w)"
      using w'(6) e(3,4) mset_drop_nth [OF i] by simp
    ultimately show ?thesis using w' e by auto
  qed
qed auto


section \<open>What the workers promise\<close>

text \<open>A counting semaphore that obeys the laws, for the examples.\<close>

definition counting :: "(int \<times> int) semaphore" where
  "counting = \<lparr>sem_NewWeighted = \<lambda>n. (0, sint n),
     sem_Acquire = \<lambda>(h, c) k. if h + sint k \<le> c then Some (h + sint k, c) else None,
     sem_Release = \<lambda>(h, c) k. if sint k \<le> h then Some (h - sint k, c) else None\<rparr>"

lemma counting_ok: "weighted_ok counting fst snd"
  by (auto simp: weighted_ok_def counting_def split: if_splits)

text \<open>The workers of \<^verbatim>\<open>conf/server.xml\<close>.\<close>

definition shipped_workers :: "WorkerConfig list" where
  "shipped_workers = map (\<lambda>n. \<lparr>WorkerConfig_Name = n, WorkerConfig_Size = 100\<rparr>)
     [''node_introduce'', ''node_manager'', ''tcp_msg'', ''node_connect'', ''network_task_flag'']"

text \<open>
  C27. However calls, starts, refusals and ends of tasks interleave, a worker never runs more
  tasks than its configured size, a waiting call can start exactly when fewer run, and ending
  a task, by a result or by a panic, gives its place back and never panics itself.  A worker
  of size zero, which a configuration without the attribute gives, runs nothing at all.
\<close>

theorem worker_bound:
  assumes ok: "weighted_ok S held cap" and reach: "reaches (workers_start S configs) (workers_step S) w"
  shows "int (tasks_of p (tw_running w)) \<le> max 0 (sint (WorkerConfig_Size (tw_config (tw_worker w p)))) \<and>
    (sem_Acquire S (weight_of w p) 1 \<noteq> None \<longleftrightarrow>
       int (tasks_of p (tw_running w)) < sint (WorkerConfig_Size (tw_config (tw_worker w p)))) \<and>
    (\<forall>i < length (tw_running w). \<forall>r. fst (end_task S i r w) = Ret ())"
proof -
  have inv: "workers_inv held cap w" using taskworkers.reachable_inv [OF reach] ok by blast
  have "fst (end_task S i r w) = Ret ()" if "i < length (tw_running w)" for i r
    by (rule end_task_cases [OF ok inv that, where r = r]) simp
  moreover have "int (tasks_of p (tw_running w)) \<le> max 0 (sint (WorkerConfig_Size (tw_config (tw_worker w p))))"
    using inv unfolding workers_inv_def by (cases "tasks_of p (tw_running w) = 0") (auto simp: max_def)
  moreover have "sem_Acquire S (weight_of w p) 1 \<noteq> None \<longleftrightarrow>
       int (tasks_of p (tw_running w)) < sint (WorkerConfig_Size (tw_config (tw_worker w p)))"
    using inv by (simp add: sem_acquire_None [OF ok] workers_inv_def not_le)
  ultimately show ?thesis by blast
qed

definition one_small :: "((int \<times> int), nat) workers" where
  "one_small = Init_workers counting [\<lparr>WorkerConfig_Name = ''test'', WorkerConfig_Size = 1\<rparr>] (no_workers counting)"

definition two_asked :: "((int \<times> int), nat) workers" where
  "two_asked = acquired counting 0 (snd (DoTask_twm ''test'' 7 (snd (GoTask_twm ''test'' 6 one_small))))"

lemmas tw_eval = one_small_def two_asked_def Init_workers_def Init_one_def no_workers_def NewTaskWorker_def counting_def
  GoTask_twm_def DoTask_twm_def GoTask_worker_def DoTask_worker_def acquired_def weight_of_def set_weight_def drop_nth_def Let_def

lemma two_asked_reached:
  "reaches (workers_start counting [\<lparr>WorkerConfig_Name = ''test'', WorkerConfig_Size = 1\<rparr>]) (workers_step counting) two_asked"
proof -
  have "reaches (workers_start counting [\<lparr>WorkerConfig_Name = ''test'', WorkerConfig_Size = 1\<rparr>]) (workers_step counting) one_small"
    by (rule reaches_start) (simp add: workers_start_def one_small_def)
  then have "reaches (workers_start counting [\<lparr>WorkerConfig_Name = ''test'', WorkerConfig_Size = 1\<rparr>]) (workers_step counting)
      (snd (GoTask_twm ''test'' 6 one_small))"
    by (rule reaches_step) (rule step_GoTask [where name = "''test''" and f = 6], simp add: tw_eval)
  then have "reaches (workers_start counting [\<lparr>WorkerConfig_Name = ''test'', WorkerConfig_Size = 1\<rparr>]) (workers_step counting)
      (snd (DoTask_twm ''test'' 7 (snd (GoTask_twm ''test'' 6 one_small))))"
    by (rule reaches_step) (rule step_DoTask [where name = "''test''" and f = 7], simp add: tw_eval)
  then show ?thesis unfolding two_asked_def
    by (rule reaches_step) (rule step_acquired, simp add: tw_eval)
qed

theorem worker_bound_witness:
  "length (tw_running two_asked) = 1 \<and> length (tw_acquiring two_asked) = 1 \<and>
   sem_Acquire counting (weight_of two_asked 0) 1 = None \<and> fst (end_task counting 0 Panics two_asked) = Ret ()"
proof -
  have n: "length (tw_running two_asked) = 1" "length (tw_acquiring two_asked) = 1"
    "tasks_of 0 (tw_running two_asked) = 1" "WorkerConfig_Size (tw_config (tw_worker two_asked 0)) = 1"
    by (simp_all add: tw_eval)
  note b = worker_bound [OF counting_ok two_asked_reached, of 0]
  have "sem_Acquire counting (weight_of two_asked 0) 1 = None"
    using conjunct1 [OF conjunct2 [OF b]] unfolding n(3,4) by (simp del: not_None_eq)
  moreover have "fst (end_task counting 0 Panics two_asked) = Ret ()"
    using conjunct2 [OF conjunct2 [OF b]] n(1) by auto
  ultimately show ?thesis using n(1,2) by blast
qed

text \<open>
  C28. No accepted task is lost or stuck: from every reachable state in which the workers of
  the waiting calls have a positive size, ending the running tasks and starting the waiting
  ones leads to a state where nothing waits or runs, and in between exactly those tasks ended,
  each once.  (Tasks end by themselves; tasks that wait for each other are not meant.)
\<close>

theorem workers_drain:
  assumes ok: "weighted_ok S held cap" and reach: "reaches (workers_start S configs) (workers_step S) w"
    and room: "\<forall>c \<in> set (tw_acquiring w). 0 < sint (WorkerConfig_Size (tw_config (tw_worker w (tc_worker c))))"
  shows "\<exists>w'. (workers_step S)\<^sup>*\<^sup>* w w' \<and> tw_running w' = [] \<and> tw_acquiring w' = [] \<and>
      mset (tw_ended w') = mset (tw_ended w) + mset (tw_running w) + mset (tw_acquiring w)"
proof -
  have inv: "workers_inv held cap w" using taskworkers.reachable_inv [OF reach] ok by blast
  obtain v where v: "(workers_step S)\<^sup>*\<^sup>* w v" "workers_inv held cap v" "tw_running v = []"
      "tw_acquiring v = tw_acquiring w" "\<forall>p. tw_config (tw_worker v p) = tw_config (tw_worker w p)"
      "mset (tw_ended v) = mset (tw_ended w) + mset (tw_running w)"
    using run_running [OF ok inv] by blast
  obtain w' where "(workers_step S)\<^sup>*\<^sup>* v w'" "tw_running w' = []" "tw_acquiring w' = []"
      "mset (tw_ended w') = mset (tw_ended v) + mset (tw_acquiring v)"
    using run_acquiring [OF ok v(2,3)] room v(4,5) by auto
  then show ?thesis using v by (auto intro: rtranclp_trans)
qed

theorem workers_drain_witness:
  "\<exists>w'. (workers_step counting)\<^sup>*\<^sup>* two_asked w' \<and> tw_running w' = [] \<and> map tc_task (tw_running two_asked @ tw_acquiring two_asked) = [6, 7] \<and>
     image_mset tc_task (mset (tw_ended w')) = {#6, 7#}"
proof -
  have e: "map tc_task (tw_running two_asked @ tw_acquiring two_asked) = [6, 7]" "tw_ended two_asked = []"
    "tw_running two_asked = [\<lparr>tc_worker = 0, tc_waits = False, tc_task = 6\<rparr>]"
    "tw_acquiring two_asked = [\<lparr>tc_worker = 0, tc_waits = True, tc_task = 7\<rparr>]"
    "WorkerConfig_Size (tw_config (tw_worker two_asked 0)) = 1"
    by (simp_all add: tw_eval)
  then show ?thesis using workers_drain [OF counting_ok two_asked_reached] by (auto simp: add_mset_commute)
qed

text \<open>
  A call of an unknown worker panics, and of a known one it is queued at the worker of
  the last configuration with the name; no step ever changes which names are known.
\<close>

lemma unknown_worker_panics:
  assumes reach: "reaches (workers_start S configs) (workers_step S) w"
  shows "(fst (GoTask_twm name f w) = Panics \<longleftrightarrow> name \<notin> WorkerConfig_Name ` set configs) \<and>
    (fst (DoTask_twm name f w) = Panics \<longleftrightarrow> name \<notin> WorkerConfig_Name ` set configs) \<and>
    (\<forall>c. config_of configs name = Some c \<longrightarrow>
       (\<exists>p. tw_config (tw_worker w p) = c \<and>
          tw_acquiring (snd (GoTask_twm name f w)) = tw_acquiring w @ [\<lparr>tc_worker = p, tc_waits = False, tc_task = f\<rparr>] \<and>
          tw_acquiring (snd (DoTask_twm name f w)) = tw_acquiring w @ [\<lparr>tc_worker = p, tc_waits = True, tc_task = f\<rparr>]))"
proof -
  have found: "found_config w name = config_of configs name"
    using worker_names.reachable_inv [OF reach] by blast
  have "config_of configs name = None \<longleftrightarrow> name \<notin> WorkerConfig_Name ` set configs"
    by (simp add: config_of_def map_of_eq_None_iff image_image)
  then show ?thesis using found
    by (cases "mget (tw_taskworkers w) name")
       (auto simp: found_config_def GoTask_twm_def DoTask_twm_def GoTask_worker_def DoTask_worker_def)
qed

lemma unknown_worker_panics_example:
  "fst (GoTask_twm ''agent_manager'' (0 :: nat) (Init_workers counting shipped_workers (no_workers counting))) = Panics \<and>
   fst (GoTask_twm ''tcp_msg'' (0 :: nat) (Init_workers counting shipped_workers (no_workers counting))) = Ret ()"
proof -
  have "reaches (workers_start counting shipped_workers) (workers_step counting)
      (Init_workers counting shipped_workers (no_workers counting) :: (int \<times> int, nat) workers)"
    by (rule reaches_start) (simp add: workers_start_def)
  note h = unknown_worker_panics [OF this, of _ 0]
  have names: "WorkerConfig_Name ` set shipped_workers =
      {''node_introduce'', ''node_manager'', ''tcp_msg'', ''node_connect'', ''network_task_flag''}"
    by (simp add: shipped_workers_def)
  have "fst (GoTask_twm ''agent_manager'' (0 :: nat) (Init_workers counting shipped_workers (no_workers counting))) = Panics"
    using conjunct1 [OF h [of "''agent_manager''"]] unfolding names by simp
  moreover have "fst (GoTask_twm ''tcp_msg'' (0 :: nat) (Init_workers counting shipped_workers (no_workers counting))) \<noteq> Panics"
    using conjunct1 [OF h [of "''tcp_msg''"]] unfolding names by simp
  ultimately show ?thesis by (metis (full_types) old.unit.exhaust outcome.exhaust)
qed

text \<open>
  Every call is answered in time and once: the calls that have returned without an error
  are those of \<^verbatim>\<open>GoTask\<close> whose task has started and those of \<^verbatim>\<open>DoTask\<close> whose task has ended, each
  as often as it was started, whether the task panicked or not.
\<close>

lemma calls_answered:
  assumes reach: "reaches (workers_start S configs) (workers_step S) w"
  shows "mset (map fst (filter snd (tw_returned w))) =
    filter_mset (\<lambda>c. \<not> tc_waits c) (mset (tw_running w)) + mset (tw_ended w)"
  using callers.reachable_inv [OF reach] by (simp add: answered_inv_def answered_def)

lemma calls_answered_example:
  "mset (map (tc_task \<circ> fst) (filter snd (tw_returned two_asked))) = {#6#}"
proof -
  have "image_mset tc_task (mset (map fst (filter snd (tw_returned two_asked)))) = {#6#}"
    by (subst calls_answered [OF two_asked_reached]) (simp add: tw_eval)
  then show ?thesis by (simp add: image_mset.compositionality flip: mset_map)
qed

end
