(* ===== verification/Server.thy ===== *)
theory Server
  imports AgentProps TaskWorker
begin

text \<open>
  The server process: the configuration (\<^verbatim>\<open>config/config.go\<close>), the listening socket
  (\<^verbatim>\<open>NewServer\<close> of \<^verbatim>\<open>network/server.go\<close>) and \<^verbatim>\<open>nbserver/server.go\<close>, which makes the node
  manager and the client manager, ties them together and stops both on a signal.

  The process is one state: the \<^typ>\<open>ClientManager\<close> record extends the \<^typ>\<open>NodeManager\<close> record,
  which extends the network.  \<open>server_exec\<close> is one event of it: an event of the node, an
  event of the client manager's server, a message the node hands up to the client manager,
  or the signal that ends \<^verbatim>\<open>Run\<close>.
\<close>

section \<open>The configuration\<close>

record NeighbourConfig =
  NeighbourConfig_Name :: string
  NeighbourConfig_IP :: string
  NeighbourConfig_Port :: uint32
  NeighbourConfig_AgentPort :: uint32

record NodeConfig =
  NodeConfig_Name :: string
  NodeConfig_Port :: uint32
  NodeConfig_Neighbours :: "NeighbourConfig list"
  NodeConfig_NeighbourMaxConnection :: int64

record AgentConfig =
  AgentConfig_Name :: string
  AgentConfig_Port :: uint32
  AgentConfig_ClientMaxConnection :: int64

record Config =
  Config_LogLevel :: string
  Config_LogMode :: string
  Config_LogPath :: string
  Config_SecretKey :: string
  Config_Workers :: "WorkerConfig list"
  Config_Host :: string
  Config_HostEnv :: string
  Config_NodeConf :: NodeConfig
  Config_AgentConf :: AgentConfig
  Config_TimeoutCheckInterval :: int64
  Config_ConnectTimeout :: int64
  Config_SignTimeout :: int64
  Config_ClientTimeout :: int64
  Config_StopTimeout :: int64

definition Config_zero :: Config where
  "Config_zero = \<lparr>Config_LogLevel = '''', Config_LogMode = '''', Config_LogPath = '''',
     Config_SecretKey = '''', Config_Workers = [], Config_Host = '''', Config_HostEnv = '''',
     Config_NodeConf = \<lparr>NodeConfig_Name = '''', NodeConfig_Port = 0, NodeConfig_Neighbours = [],
       NodeConfig_NeighbourMaxConnection = 0\<rparr>,
     Config_AgentConf = \<lparr>AgentConfig_Name = '''', AgentConfig_Port = 0, AgentConfig_ClientMaxConnection = 0\<rparr>,
     Config_TimeoutCheckInterval = 0, Config_ConnectTimeout = 0, Config_SignTimeout = 0,
     Config_ClientTimeout = 0, Config_StopTimeout = 0\<rparr>"

text \<open>
  The files are a function from their paths, \<^term>\<open>None\<close> when one cannot be opened, and
  \<open>xml\<close> is \<^verbatim>\<open>xml.Unmarshal\<close>: the structure it leaves, and whether it returned no error.
  It fills in the structure it is given, so a file is read on top of the ones before it.
\<close>

definition config_dirs :: "string list" where
  "config_dirs = [''./'', ''./conf/'', ''../conf/'', ''../../conf/'']"

fun load_configs ::
  "(string \<Rightarrow> bytes option) \<Rightarrow> (bytes \<Rightarrow> Config \<Rightarrow> Config \<times> bool) \<Rightarrow> string list \<Rightarrow> Config
     \<Rightarrow> Config outcome" where
  "load_configs fs xml [] ServerConf = Ret ServerConf"
| "load_configs fs xml (dir # dirs) ServerConf =
     (case fs (dir @ ''server.xml'') of
        None \<Rightarrow> load_configs fs xml dirs ServerConf
      | Some b \<Rightarrow>
          (case xml b ServerConf of
             (conf, err_nil) \<Rightarrow> if \<not> err_nil then Panics else load_configs fs xml dirs conf))"

definition config_init ::
  "(string \<Rightarrow> bytes option) \<Rightarrow> (bytes \<Rightarrow> Config \<Rightarrow> Config \<times> bool) \<Rightarrow> (string \<Rightarrow> string) \<Rightarrow> Config outcome" where
  "config_init fs xml getenv =
     (case load_configs fs xml config_dirs Config_zero of
        Panics \<Rightarrow> Panics
      | Ret conf \<Rightarrow>
          Ret (if Config_Host conf = '''' then conf\<lparr>Config_Host := getenv (Config_HostEnv conf)\<rparr> else conf))"

text \<open>What the two managers read from the configuration.\<close>

definition node_env_of :: "proto_lib \<Rightarrow> Config \<Rightarrow> node_env" where
  "node_env_of pb conf =
     \<lparr>ne_pb = pb, ne_szSecretKey = Config_SecretKey conf,
      ne_NeighbourMaxConnection =
        NeighbourMaxConnection (sint (NodeConfig_NeighbourMaxConnection (Config_NodeConf conf)))\<rparr>"

definition agent_env_of :: "proto_lib \<Rightarrow> Config \<Rightarrow> agent_env" where
  "agent_env_of pb conf =
     \<lparr>ae_node = node_env_of pb conf,
      ae_AgentClientMaxConnection =
        AgentClientMaxConnection (sint (AgentConfig_ClientMaxConnection (Config_AgentConf conf))),
      ae_ConnectTimeout = Config_ConnectTimeout conf, ae_SignTimeout = Config_SignTimeout conf,
      ae_ClientTimeout = Config_ClientTimeout conf\<rparr>"

section \<open>The listening socket\<close>

text \<open>
  \<^verbatim>\<open>NewServer\<close> tries to listen and, when it may choose the port, tries the next one for ever;
  the port is 16 bits wide and wraps.  \<open>listen i a\<close> says whether the attempt number i, at the
  address a, succeeds: it may change from one attempt to the next.
\<close>

record Server =
  srv_szIP :: string
  srv_nPort :: uint16

definition szAddress :: "string \<Rightarrow> uint16 \<Rightarrow> string" where
  "szAddress szIP nPort = szIP @ '':'' @ FormatUint nPort"

partial_function (option) NewServer_loop ::
  "(nat \<Rightarrow> string \<Rightarrow> bool) \<Rightarrow> nat \<Rightarrow> string \<Rightarrow> uint16 \<Rightarrow> bool \<Rightarrow> Server outcome option" where
  "NewServer_loop listen i szIP nPort bStartDynamic =
     (if \<not> listen i (szAddress szIP nPort) \<and> \<not> bStartDynamic then Some Panics
      else if \<not> listen i (szAddress szIP nPort) \<and> bStartDynamic then
        NewServer_loop listen (Suc i) szIP (nPort + 1) bStartDynamic
      else Some (Ret \<lparr>srv_szIP = szIP, srv_nPort = nPort\<rparr>))"

definition NewServer ::
  "(nat \<Rightarrow> string \<Rightarrow> bool) \<Rightarrow> string \<Rightarrow> uint16 \<Rightarrow> bool \<Rightarrow> Server outcome option" where
  "NewServer listen szIP nPort bStartDynamic = NewServer_loop listen 0 szIP nPort bStartDynamic"

definition GetPort :: "Server \<Rightarrow> uint16" where
  "GetPort this = srv_nPort this"

definition GetIP :: "Server \<Rightarrow> string" where
  "GetIP this = srv_szIP this"

section \<open>The process\<close>

definition GetNeighbour :: "string \<Rightarrow> string \<Rightarrow> uint16 \<Rightarrow> uint16 \<Rightarrow> Neighbour" where
  "GetNeighbour szName szIP nPort nAgentPort =
     \<lparr>neighbour_szName = szName, neighbour_szIP = szIP, neighbour_nPort = nPort,
      neighbour_nAgentPort = nAgentPort\<rparr>"

text \<open>
  The names come from the argument, the host and the ports from the global configuration.
  \<open>szUUID\<close> and \<open>szUUID'\<close> are the identifiers the managers draw, \<open>nInstance\<close> and \<open>nNow\<close> the time.
\<close>

definition NewNBServer ::
  "string \<Rightarrow> string \<Rightarrow> uint64 \<Rightarrow> int64 \<Rightarrow> Config \<Rightarrow> Config \<Rightarrow> ClientManager" where
  "NewNBServer szUUID szUUID' nInstance nNow ServerConf objServerConf =
     (let aryNeighbour = map (\<lambda>b. GetNeighbour (NeighbourConfig_Name b) (NeighbourConfig_IP b)
              (ucast (NeighbourConfig_Port b)) (ucast (NeighbourConfig_AgentPort b)))
            (NodeConfig_Neighbours (Config_NodeConf objServerConf));
          ptrNodeManager = NewManager szUUID nInstance nNow (NodeConfig_Name (Config_NodeConf objServerConf))
            (Config_Host ServerConf) (ucast (NodeConfig_Port (Config_NodeConf ServerConf)))
            (ucast (AgentConfig_Port (Config_AgentConf ServerConf))) aryNeighbour
      in RegisterNodeHandler NodeManagerHandler
           (NewClientManager szUUID' (AgentConfig_Name (Config_AgentConf objServerConf)) ptrNodeManager))"

text \<open>What \<^verbatim>\<open>Run\<close> does when the stop channel or a signal ends it.\<close>

definition Run_stop :: "agent_env \<Rightarrow> agent_choice \<Rightarrow> ClientManager \<Rightarrow> ClientManager" where
  "Run_stop A ch s = Stop_cm A ch (Stop (ae_node A) (ac_node ch) s)"

text \<open>
  One event of the process.  The server of the client manager accepts, reads and closes as
  the server of the node does, with the client manager as the handler; the message a node
  hands up (\<^verbatim>\<open>HandleRequest\<close>, \<^verbatim>\<open>HandleResponse\<close>) goes to the client manager that
  \<^verbatim>\<open>RegisterAgentHandler\<close> put there.
\<close>

datatype server_event =
    SevNode node_event
  | SevUpcall nat
  | SevAccept string string
  | SevRead connref bytes
  | SevCloseConnection connref
  | SevTask nat
  | SevCleanTimeout
  | SevSignal

definition run_upcall ::
  "agent_env \<Rightarrow> agent_choice \<Rightarrow> upcall \<Rightarrow> 'a ClientManager_scheme \<Rightarrow> unit outcome \<times> 'a ClientManager_scheme" where
  "run_upcall A ch u s =
     (case u of
        HandleRequest m ctx \<Rightarrow> HandleRequest_cm A ch m ctx s
      | HandleResponse m ctx \<Rightarrow> HandleResponse_cm A ch m ctx s)"

fun server_exec ::
  "agent_env \<Rightarrow> agent_choice \<Rightarrow> int64 \<Rightarrow> bool \<times> string \<Rightarrow> server_event \<Rightarrow> ClientManager
     \<Rightarrow> unit outcome \<times> ClientManager"
where
  "server_exec A ch nNow dial (SevNode ev) s = node_exec (ae_node A) (ac_node ch) nNow dial ev s"
| "server_exec A ch nNow dial (SevUpcall i) s =
     (if i < length (nm_upcall s)
      then run_upcall A ch (nm_upcall s ! i) (s\<lparr>nm_upcall := drop_nth i (nm_upcall s)\<rparr>)
      else (Ret (), s))"
| "server_exec A ch nNow dial (SevAccept l r) s =
     (case Server_accept l r s of (c, s1) \<Rightarrow> (Ret (), OnNewConnection_cm nNow c s1))"
| "server_exec A ch nNow dial (SevRead c b) s =
     (let s1 = touch (ucast nNow) c s in (Ret (), OnRead_cm c b (Some (newContext c '''' s1)) s1))"
| "server_exec A ch nNow dial (SevCloseConnection c) s =
     (Ret (), Close c (OnCloseConnection_cm A (objNodeHandler A (cm_objNodeHandler s)) c (Close c s)))"
| "server_exec A ch nNow dial (SevTask i) s =
     (if i < length (cm_task s)
      then run_client_task A (objNodeHandler A (cm_objNodeHandler s)) ch nNow (cm_task s ! i)
             (s\<lparr>cm_task := drop_nth i (cm_task s)\<rparr>)
      else (Ret (), s))"
| "server_exec A ch nNow dial SevCleanTimeout s =
     (Ret (), cleanTimeout_cm A (objNodeHandler A (cm_objNodeHandler s)) nNow s)"
| "server_exec A ch nNow dial SevSignal s = (Ret (), Run_stop A ch s)"

definition server_answers_new :: "agent_env \<Rightarrow> server_event \<Rightarrow> ClientManager \<Rightarrow> bool" where
  "server_answers_new A ev s =
     (case ev of SevNode nev \<Rightarrow> answers_new (ae_node A) nev s | _ \<Rightarrow> True)"

inductive server_step :: "agent_env \<Rightarrow> ClientManager \<Rightarrow> ClientManager \<Rightarrow> bool" for A where
  server_stepI: "server_answers_new A ev s \<Longrightarrow> server_exec A ch nNow dial ev s = (z, t) \<Longrightarrow> server_step A s t"

inductive_cases server_stepE: "server_step A s t"

definition server_start :: "ClientManager \<Rightarrow> bool" where
  "server_start s \<longleftrightarrow> (\<exists>u u' inst nNow g conf. s = NewNBServer u u' inst nNow g conf)"

end
