(* ===== verification/ServerSystem.thy ===== *)
theory ServerSystem
  imports Server
begin

text \<open>
  The two managers in one process.  \<open>stays u s\<close>: an operation of the node that led from u to s
  touched neither the client manager nor the status, and gave no connection to a client.
  \<open>tends E u s\<close>: an operation of the client manager that led from u to s kept the invariant of
  the node and both statuses.  Both are followed through the bodies of the operations; with
  them the invariants of the two managers hold together in every reachable state of the
  process.
\<close>

section \<open>The node leaves the client manager alone\<close>

definition stays :: "'a ClientManager_scheme \<Rightarrow> 'a ClientManager_scheme \<Rightarrow> bool" where
  "stays s t \<longleftrightarrow> outside s t \<and> nm_nStatus t = nm_nStatus s"

named_theorems stays_intros \<open>operations of the node stay outside the client manager\<close>

lemma stays_refl [simp, intro, stays_intros]: "stays s s"
  by (simp add: stays_def)

lemma stays_trans: "stays u s \<Longrightarrow> stays s t \<Longrightarrow> stays u t"
  using outside_trans by (auto simp: stays_def)

lemma stays_quiet:
  fixes s t u :: "'a ClientManager_scheme"
  assumes "stays u s" "quiet s t"
  shows "stays u t"
proof -
  have "outside s t" by (rule outside_quiet [OF assms(2)])
  moreover have "nm_nStatus t = nm_nStatus s"
    using assms(2) more_nodes(6) [of t s] more_manager(7) [of t s] by (simp add: quiet_def)
  ultimately show ?thesis using assms(1) outside_trans by (auto simp: stays_def)
qed

lemmas stays_net [stays_intros] =
  stays_quiet [OF _ quiet_Close] stays_quiet [OF _ quiet_run_net_task] stays_quiet [OF _ quiet_NewClient]
  stays_quiet [OF _ quiet_Cast_Start] stays_quiet [OF _ quiet_Reply] stays_quiet [OF _ quiet_Call_begin]
  stays_quiet [OF _ quiet_Call_select]

lemma stays_upd [stays_intros]:
  "stays u s \<Longrightarrow> stays u (set_info n v s)" "stays u s \<Longrightarrow> stays u (GoTask k s)"
  "stays u s \<Longrightarrow> stays u (go_wait x c q w s)" "stays u s \<Longrightarrow> stays u (set_route r ns s)"
  "stays u s \<Longrightarrow> stays u (add_upcall w' s)" "stays u s \<Longrightarrow> stays u (s\<lparr>nm_nSequence := i\<rparr>)"
  "stays u s \<Longrightarrow> stays u (s\<lparr>nm_nNextInfo := j\<rparr>)" "stays u s \<Longrightarrow> stays u (s\<lparr>nm_mNodeInfo := m\<rparr>)"
  "stays u s \<Longrightarrow> stays u (s\<lparr>nm_mTempConnection := tm\<rparr>)" "stays u s \<Longrightarrow> stays u (s\<lparr>nm_task := ks\<rparr>)"
  "stays u s \<Longrightarrow> stays u (s\<lparr>nm_wait := ws\<rparr>)" "stays u s \<Longrightarrow> stays u (bind_ctx c (CtxNode n) s)"
  "stays u s \<Longrightarrow> stays u (drop_task i' s)" "stays u s \<Longrightarrow> stays u (touch t c s)"
  by (auto simp: stays_def outside_def set_info_def GoTask_def go_wait_def set_route_def add_upcall_def
      bind_ctx_def set_conn_def drop_task_def touch_def)

lemma stays_forEach [stays_intros]:
  assumes "stays u s" and "\<And>x t. stays u t \<Longrightarrow> stays u (f x t)"
  shows "stays u (forEach f xs s)"
  using assms(1) by (induction xs arbitrary: s) (simp_all add: assms(2))

lemmas node_bodies = newNode_def removeConnection_def addConnection_def markDead_def setInstanceID_def
  nextRequestID_def getConnection_def cast_node_def cast_Start_def call_node_def syncEntry_def
  modifyEntry_def needSyncAll_def refreshKeepLiveTime_def Let_def case_prod_unfold

lemma stays_node [stays_intros]:
  assumes "stays u s"
  shows "stays u (snd (newNode a b i p q t s))" "stays u (snd (removeConnection n c s))"
    "stays u (addConnection E n c s)" "stays u (snd (markDead n s))" "stays u (setInstanceID n i s)"
    "stays u (snd (nextRequestID n s))" "stays u (snd (cast_Start E ch n w m ctx s))"
    "stays u (snd (call_node ch n w m ctx s))" "stays u (syncEntry E n es v s)"
    "stays u (snd (modifyEntry E n es v s))" "stays u (snd (needSyncAll n v s))"
    "stays u (refreshKeepLiveTime t n s)"
  using assms by (auto simp: node_bodies intro!: stays_intros)

lemma stays_reconnect [stays_intros]:
  assumes "stays u s"
  shows "stays u (snd (reconnect_begin E nNow dial q n s))" "stays u (reconnect_finish E n c rsp s)"
  using assms
  by (auto simp: reconnect_begin_def reconnect_finish_def Let_def case_prod_unfold intro!: stays_intros split: option.splits)

lemma stays_deleteEntry [stays_intros]:
  assumes "stays u s"
  shows "stays u (deleteEntry E n es s)"
  using assms unfolding deleteEntry_def by (intro stays_intros)

lemma stays_manager [stays_intros]:
  assumes "stays u s"
  shows "stays u (OnNewConnection nNow c s)" "stays u (OnRead c b ctx s)" "stays u (OnCloseConnection c s)"
    "stays u (deleteNode E n s)" "stays u (cast_others E ch w m ctx s)"
    "stays u (checkNeighbour nNow s)" "stays u (makefriends is ctx s)" "stays u (makefriends_task nNow is s)"
    "stays u (trySyncAll_finish E n rsp s)"
  using assms
  by (auto simp: OnNewConnection_def OnRead_def OnCloseConnection_def deleteNode_def cast_others_def
      checkNeighbour_def makefriends_def makefriends_task_def trySyncAll_finish_def
      Let_def case_prod_unfold intro!: stays_intros split: option.splits)

lemma stays_timers [stays_intros]:
  assumes "stays u s"
  shows "stays u (snd (keepalive E ch s))" "stays u (snd (hello_keepalive E ch ctx s))"
    "stays u (cleanTimeout E nNow s)" "stays u (trySyncAll E ch n v ctx s)" "stays u (notify_entry E ch e s)"
    "stays u (AddEntry E w ty s)" "stays u (RemoveEntry E w ty s)"
  using assms
  by (auto simp: keepalive_def hello_keepalive_def cleanTimeout_def trySyncAll_def notify_entry_def
      AddEntry_def RemoveEntry_def Let_def case_prod_unfold intro!: stays_intros
      split: option.splits bool.splits)

lemma stays_Dispatch [stays_intros]:
  assumes "stays u s"
  shows "stays u (snd (DispatchReq E ch r ctx s))" "stays u (snd (DispatchRsp E ch r' ctx s))"
  using assms
  by (simp_all add: DispatchReq_def DispatchRsp_def cast_request_def Let_def case_prod_unfold stays_intros
      split: option.split)

lemma stays_hello [stays_intros]:
  assumes "stays u s"
  shows "stays u (hello_admit E nNow i v ctx c s)" "stays u (snd (reply_hello E r m ctx s))"
  using assms
  by (auto simp: hello_admit_def reply_hello_def Let_def case_prod_unfold intro!: stays_intros
      split: option.splits outcome.splits)

lemma stays_handleSayHello [stays_intros]: "stays u s \<Longrightarrow> stays u (snd (handleSayHello E nNow b ctx s))"
  by (simp add: handleSayHello_def Let_def stays_intros split: option.split)

lemma stays_handlers [stays_intros]:
  assumes "stays u s"
  shows "stays u (snd (handleRpcCallReq E b ctx s))"
    "stays u (snd (handleRpcCallResp E b ctx s))" "stays u (snd (handleSayGoodbyeNotify E b ctx s))"
  using assms
  by (simp_all add: handleRpcCallReq_def handleRpcCallResp_def handleSayGoodbyeNotify_def
      node_not_auth_def case_prod_unfold stays_intros split: option.split)

lemma stays_notify [stays_intros]:
  assumes "stays u s"
  shows "stays u (route_change E n e s)" "stays u (snd (handleNodeEntryNotify E b ctx s))"
    "stays u (snd (handleGetEntryReq E b ctx s))" "stays u (snd (handleKeepAlive E ch b ctx s))"
  using assms
  by (simp_all add: route_change_def handleNodeEntryNotify_def handleGetEntryReq_def handleKeepAlive_def
      node_not_auth_def Let_def case_prod_unfold stays_intros split: option.split outcome.split)

lemma stays_Process:
  assumes "stays u s"
  shows "stays u (snd (Process (node_router E ch nNow) b ctx s))"
proof -
  have "packet_service (node_router E ch nNow) (stays u)"
    by unfold_locales (auto dest!: mgets_router intro: stays_intros stays_quiet)
  then show ?thesis using assms by (rule packet_service.Process_inv)
qed

lemma stays_tasks [stays_intros]:
  assumes "stays u s"
  shows "stays u (snd (process_task E ch nNow c b ctx s))" "stays u (snd (run_node_task E ch nNow dial k s))"
    "stays u (snd (finish_call E sel w s))"
  using assms stays_Process [OF assms]
  by (auto simp: process_task_def run_node_task_def finish_call_def case_prod_unfold intro!: stays_intros
      split: outcome.splits option.splits NodeTask.splits NodeWait.splits)

lemma outside_Stop: "outside s (Stop E ch s)"
proof -
  let ?s1 = "s\<lparr>nm_nStatus := MANAGER_STATUS_STOPED\<rparr>"
  have "stays ?s1 (Stop E ch s)"
    by (simp add: Stop_def Let_def case_prod_unfold stays_intros)
  moreover have "outside s ?s1" by (simp add: outside_def)
  ultimately show ?thesis using outside_trans by (auto simp: stays_def)
qed

lemma Stop_status: "nm_nStatus (Stop E ch (s :: 'a ClientManager_scheme)) = MANAGER_STATUS_STOPED"
proof -
  let ?s1 = "s\<lparr>nm_nStatus := MANAGER_STATUS_STOPED\<rparr>"
  have "stays ?s1 (Stop E ch s)"
    by (simp add: Stop_def Let_def case_prod_unfold stays_intros)
  then show ?thesis by (simp add: stays_def)
qed

lemma stays_Server_accept [stays_intros]: "stays u s \<Longrightarrow> stays u (snd (Server_accept l r s))"
  by (erule stays_quiet) (simp add: Server_accept_def quiet_new_connection)

lemma stays_exec:
  assumes "ev \<noteq> EvStop"
  shows "stays s (snd (node_exec E ch nNow dial ev s))"
  using assms by (cases ev) (simp_all add: Let_def case_prod_unfold stays_intros)

lemma outside_exec: "outside s (snd (node_exec E ch nNow dial ev s))"
  using stays_exec [of ev s E ch nNow dial] outside_Stop [of s E ch]
  by (cases "ev = EvStop") (auto simp: stays_def)

section \<open>The client manager tends the node\<close>

definition tends :: "agent_env \<Rightarrow> 'a ClientManager_scheme \<Rightarrow> 'a ClientManager_scheme \<Rightarrow> bool" where
  "tends A s t \<longleftrightarrow> (node_inv (ae_node A) s \<longrightarrow> node_inv (ae_node A) t)
     \<and> nm_nStatus t = nm_nStatus s \<and> cm_nStatus t = cm_nStatus s
     \<and> (cm_nStatus s \<noteq> MANAGER_STATUS_STARTED \<longrightarrow>
          fst ` set (cm_mClientInfo t) \<subseteq> fst ` set (cm_mClientInfo s))"

named_theorems tends_intros \<open>operations of the client manager tend the node\<close>

lemma tends_refl [simp, intro, tends_intros]: "tends A s s"
  by (simp add: tends_def)

lemma tends_stays:
  assumes "tends A u s" "stays s t" "node_inv (ae_node A) s \<Longrightarrow> node_inv (ae_node A) t"
  shows "tends A u t"
  using assms more_client [of t s] by (auto simp: tends_def stays_def outside_def)

lemma tends_quiet: "tends A u s \<Longrightarrow> quiet s t \<Longrightarrow> tends A u t"
  by (erule tends_stays) (auto intro: stays_quiet node_inv_quiet)

lemmas tends_net [tends_intros] =
  tends_quiet [OF _ quiet_Close] tends_quiet [OF _ quiet_reply_cm] tends_quiet [OF _ quiet_cast_ci]
  tends_quiet [OF _ quiet_rpcCall] tends_quiet [OF _ quiet_rpcResp] tends_quiet [OF _ quiet_call_local]
  tends_quiet [OF _ quiet_respond_local]

lemma node_inv_client [simp]:
  "node_inv E (s\<lparr>cm_info := f\<rparr>) = node_inv E s" "node_inv E (s\<lparr>cm_nNextClient := n\<rparr>) = node_inv E s"
  "node_inv E (s\<lparr>cm_mTempConnection := m\<rparr>) = node_inv E s" "node_inv E (s\<lparr>cm_mClientInfo := i\<rparr>) = node_inv E s"
  "node_inv E (s\<lparr>cm_mUri2Client := r\<rparr>) = node_inv E s" "node_inv E (s\<lparr>cm_nStatus := z\<rparr>) = node_inv E s"
  "node_inv E (s\<lparr>cm_task := ks\<rparr>) = node_inv E s"
  for s :: "'a ClientManager_scheme"
  by (simp_all add: node_inv_def refs_ok_def entries_ok_def routes_ok_def routes_def entries_def alive_def)

lemma tends_upd [tends_intros]:
  "tends A u s \<Longrightarrow> tends A u (set_client n v s)" "tends A u s \<Longrightarrow> tends A u (GoTask_cm k s)"
  "tends A u s \<Longrightarrow> tends A u (set_clients w ns s)" "tends A u s \<Longrightarrow> tends A u (s\<lparr>cm_nNextClient := i\<rparr>)"
  "tends A u s \<Longrightarrow> tends A u (s\<lparr>cm_mTempConnection := tm\<rparr>)" "tends A u s \<Longrightarrow> tends A u (s\<lparr>cm_mUri2Client := m\<rparr>)"
  "tends A u s \<Longrightarrow> tends A u (s\<lparr>cm_task := ks\<rparr>)"
  by (simp_all add: tends_def set_client_def GoTask_cm_def set_clients_def)

lemma mdel_keys: "fst ` set (mdel k m) \<subseteq> fst ` set m"
  by (auto simp: AList.delete_eq)

lemma tends_clients [tends_intros]:
  "tends A u s \<Longrightarrow> tends A u (s\<lparr>cm_mClientInfo := mdel k (cm_mClientInfo s)\<rparr>)"
  "tends A u s \<Longrightarrow> cm_nStatus u = MANAGER_STATUS_STARTED \<Longrightarrow> tends A u (s\<lparr>cm_mClientInfo := m\<rparr>)"
  using mdel_keys [of k "cm_mClientInfo s"] by (auto simp: tends_def)

lemma tends_bind [tends_intros]:
  assumes "tends A u s"
  shows "tends A u (bind_ctx c (CtxClient n) s)"
proof -
  have "keeps s (bind_ctx c (CtxClient n) s)"
    by (simp add: keeps_def bind_ctx_def set_conn_def entries_def alive_def)
  then show ?thesis
    using assms node_inv_keeps by (auto simp: tends_def bind_ctx_def set_conn_def)
qed

lemma tends_forEach [tends_intros]:
  assumes "tends A u s" and "\<And>x t. tends A u t \<Longrightarrow> tends A u (f x t)"
  shows "tends A u (forEach f xs s)"
  using assms(1) by (induction xs arbitrary: s) (simp_all add: assms(2))

lemma tends_handler [tends_intros]:
  assumes "tends A u s"
  shows "tends A u (nh_AddEntry (objNodeHandler A r) w ty s)"
    "tends A u (nh_RemoveEntry (objNodeHandler A r) w ty s)"
    "tends A u (snd (nh_DispatchReq (objNodeHandler A r) ch m ctx s))"
    "tends A u (snd (nh_DispatchRsp (objNodeHandler A r) ch m' ctx s))"
  using assms
  by (cases r; simp add: objNodeHandler_def dummy_node_handler_def node_manager_handler_def
      tends_stays stays_intros node_inv_AddEntry node_inv_RemoveEntry node_inv_DispatchReq node_inv_DispatchRsp)+

lemma tends_client [tends_intros]:
  assumes "tends A u s"
  shows "tends A u (snd (NewClient_ci k nNow s))" "tends A u (snd (onCloseConnection_ci n c s))"
    "tends A u (addConnection_ci A n c s)" "tends A u (snd (markDead_ci n s))"
    "tends A u (syncEntry_ci A n es s)" "tends A u (refreshKeepLiveTime_ci nNow n s)"
  using assms
  by (simp_all add: NewClient_ci_def onCloseConnection_ci_def addConnection_ci_def markDead_ci_def
      syncEntry_ci_def refreshKeepLiveTime_ci_def Let_def tends_intros)

lemma tends_entries [tends_intros]:
  assumes "tends A u s"
  shows "tends A u (AddEntry_cm A (objNodeHandler A r) es n s)"
    "tends A u (RemoveEntry_cm A (objNodeHandler A r) es n s)"
  using assms
  by (auto simp: AddEntry_cm_def RemoveEntry_cm_def AddEntry_one_def RemoveEntry_one_def Let_def
      intro!: tends_intros split: option.splits)

lemma tends_delete [tends_intros]:
  assumes "tends A u s"
  shows "tends A u (deleteClient A (objNodeHandler A r) n s)"
  using assms by (simp add: deleteClient_def Let_def case_prod_unfold tends_intros)

lemma tends_manager [tends_intros]:
  assumes "tends A u s"
  shows "tends A u (OnNewConnection_cm nNow c s)" "tends A u (OnRead_cm c b ctx s)"
    "tends A u (OnCloseConnection_cm A (objNodeHandler A r) c s)"
    "tends A u (cleanTimeout_cm A (objNodeHandler A r) nNow s)"
  using assms
  by (auto simp: OnNewConnection_cm_def OnRead_cm_def OnCloseConnection_cm_def cleanTimeout_cm_def
      Let_def case_prod_unfold intro!: tends_intros split: option.splits)

lemma tends_admit:
  assumes "tends A u s" "cm_nStatus u = MANAGER_STATUS_STARTED"
  shows "tends A u (snd (register_admit A nNow r c s))"
  using assms by (simp add: register_admit_def Let_def case_prod_unfold tends_intros split: option.split)

lemma tends_register [tends_intros]:
  assumes u: "tends A u s"
  shows "tends A u (snd (handleAgentRegister A (objNodeHandler A r) nNow b ctx s))"
proof -
  have "cm_nStatus u = MANAGER_STATUS_STARTED" if "cm_nStatus s = MANAGER_STATUS_STARTED"
    using u that by (simp add: tends_def)
  then show ?thesis
    using u by (simp add: handleAgentRegister_def Let_def case_prod_unfold tends_intros tends_admit split: option.split)
qed

lemma tends_messages [tends_intros]:
  assumes "tends A u s"
  shows "tends A u (snd (handleAgentUnRegister A (objNodeHandler A r) b ctx s))"
    "tends A u (snd (handleKeepAlive_cm A (objNodeHandler A r) ch nNow b ctx s))"
    "tends A u (snd (handleEntryCheckReq A (objNodeHandler A r) b ctx s))"
  using assms
  by (simp_all add: handleAgentUnRegister_def handleKeepAlive_cm_def handleEntryCheckReq_def agent_not_auth_def
      Let_def tends_intros split: option.split)

lemma tends_calls [tends_intros]:
  assumes "tends A u s"
  shows "tends A u (snd (handleRpcCallReq_cm A (objNodeHandler A r) ch b ctx s))"
    "tends A u (snd (handleRpcCallResp_cm A (objNodeHandler A r) ch b ctx s))"
  using assms
  by (simp_all add: handleRpcCallReq_cm_def handleRpcCallResp_cm_def agent_not_auth_def
      Let_def case_prod_unfold tends_intros split: option.split)

lemma tends_Process:
  assumes "tends A u s"
  shows "tends A u (snd (Process (client_router A (objNodeHandler A r) ch nNow) b ctx s))"
proof -
  have "packet_service (client_router A (objNodeHandler A r) ch nNow) (tends A u)"
    by unfold_locales (auto dest!: nh.client_router_handlers intro: tends_intros tends_quiet)
  then show ?thesis using assms by (rule packet_service.Process_inv)
qed

lemma tends_tasks [tends_intros]:
  assumes "tends A u s"
  shows "tends A u (snd (run_client_task A (objNodeHandler A r) ch nNow k s))"
    "tends A u (snd (run_upcall A ch w s))"
  using assms tends_Process [OF assms]
  by (auto simp: run_client_task_def process_task_cm_def run_upcall_def HandleRequest_cm_def HandleResponse_cm_def
      case_prod_unfold intro!: tends_intros split: outcome.splits option.splits ClientTask.splits upcall.splits)

lemma tends_network [tends_intros]:
  assumes "tends A u s"
  shows "tends A u (snd (Server_accept l r s))" "tends A u (touch t c s)"
    "tends A u (s\<lparr>nm_upcall := us\<rparr>)"
proof -
  show "tends A u (snd (Server_accept l r s))"
    by (rule tends_quiet [OF assms]) (simp add: Server_accept_def quiet_new_connection)
  show "tends A u (touch t c s)"
    by (rule tends_quiet [OF assms]) (simp add: quiet_def touch_def set_conn_def)
  show "tends A u (s\<lparr>nm_upcall := us\<rparr>)"
    using assms node_inv_keeps [OF _ keeps_misc(4)] by (auto simp: tends_def)
qed

lemma tends_Stop_cm: "tends A (s\<lparr>cm_nStatus := MANAGER_STATUS_STOPED\<rparr>) (Stop_cm A ch s)"
  by (simp add: Stop_cm_def Let_def tends_intros)

section \<open>The process\<close>

lemma server_exec_tends:
  assumes "\<not> (\<exists>nev. ev = SevNode nev)" "ev \<noteq> SevSignal"
  shows "tends A s (snd (server_exec A ch nNow dial ev s))"
  using assms
  by (cases ev) (simp_all add: Let_def case_prod_unfold tends_intros)

lemma node_inv_Run_stop:
  assumes "node_inv (ae_node A) s"
  shows "node_inv (ae_node A) (Run_stop A ch s)"
  using node_inv_Stop [OF assms, of "ac_node ch"] tends_Stop_cm [of A "Stop (ae_node A) (ac_node ch) s" ch]
  by (simp add: Run_stop_def tends_def)

lemma node_inv_server_exec:
  assumes "node_inv (ae_node A) s" "server_answers_new A ev s"
  shows "node_inv (ae_node A) (snd (server_exec A ch nNow dial ev s))"
proof (cases ev)
  case (SevNode nev)
  then show ?thesis using assms by (simp add: server_answers_new_def node_inv_exec)
next
  case SevSignal
  then show ?thesis using node_inv_Run_stop [OF assms(1)] by simp
qed (use assms(1) server_exec_tends [of ev A s ch nNow dial] in \<open>simp_all add: tends_def\<close>)

lemma node_inv_server_start: "server_start s \<Longrightarrow> node_inv E s"
  using node_inv_NewManager [of E]
  by (auto simp: server_start_def NewNBServer_def Let_def RegisterNodeHandler_def NewClientManager_def
      NodeManager.extend_def node_inv_def refs_ok_def entries_ok_def routes_ok_def routes_def entries_def alive_def)

interpretation server_system: inductive_invariant server_start "server_step A" "node_inv (ae_node A)" for A
proof
  show "node_inv (ae_node A) s" if "server_start s" for s
    using that by (rule node_inv_server_start)
  show "node_inv (ae_node A) t" if "node_inv (ae_node A) s" "server_step A s t" for s t
    using that node_inv_server_exec by (auto elim!: server_stepE) (metis snd_conv)
qed

lemma server_start_client: "server_start s \<Longrightarrow> client_start s"
  unfolding server_start_def client_start_def NewNBServer_def Let_def node_start_def by blast

text \<open>Every event is a sequence of steps of the system of the client manager.\<close>

lemma reaches_outside:
  "reaches client_start (client_step A) s \<Longrightarrow> outside s t \<Longrightarrow> reaches client_start (client_step A) t"
  by (rule reaches_step) (auto intro: client_outside)

lemma reaches_exec:
  assumes "reaches client_start (client_step A) s" "snd (client_exec A ch nNow ev s) = t"
  shows "reaches client_start (client_step A) t"
  using assms(1) by (rule reaches_step) (metis assms(2) client_event prod.collapse)

lemma outside_upcall: "outside s (s\<lparr>nm_upcall := us\<rparr>)"
  by (simp add: outside_def)

lemma server_exec_reaches:
  assumes s: "reaches client_start (client_step A) s" and ev: "\<And>i. ev \<noteq> SevUpcall i"
  shows "reaches client_start (client_step A) (snd (server_exec A ch nNow dial ev s))"
proof (cases ev)
  case (SevNode nev)
  then show ?thesis using reaches_outside [OF s outside_exec] by simp
next
  case (SevAccept l r)
  have "outside s (snd (Server_accept l r s))"
    by (rule outside_quiet) (simp add: Server_accept_def quiet_new_connection)
  then show ?thesis
    using SevAccept reaches_exec [OF reaches_outside [OF s] refl, of _ ch nNow "CevNewConnection (fst (Server_accept l r s))"]
    by (simp add: case_prod_unfold)
next
  case (SevRead c b)
  have "outside s (touch (ucast nNow) c s)"
    by (rule outside_quiet) (simp add: quiet_def touch_def set_conn_def)
  then show ?thesis
    using SevRead reaches_exec [OF reaches_outside [OF s] refl, of _ ch nNow
        "CevRead c b (Some (newContext c '''' (touch (ucast nNow) c s)))"]
    by (simp add: Let_def)
next
  case (SevCloseConnection c)
  note closed = reaches_outside [OF s outside_quiet [OF quiet_Close [of s c]]]
  have "cm_objNodeHandler (Close c s) = cm_objNodeHandler s"
    using ckeepsD [OF ckeeps_Close [of s c]] by simp
  then have "reaches client_start (client_step A)
      (OnCloseConnection_cm A (objNodeHandler A (cm_objNodeHandler s)) c (Close c s))"
    using reaches_exec [OF closed refl, of ch nNow "CevCloseConnection c"] by simp
  from reaches_outside [OF this outside_quiet [OF quiet_Close]] show ?thesis
    using SevCloseConnection by simp
next
  case (SevTask i)
  then show ?thesis using s reaches_exec [OF s refl, of ch nNow "CevTask i"] by simp
next
  case SevCleanTimeout
  then show ?thesis using reaches_exec [OF s refl, of ch nNow CevCleanTimeout] by simp
next
  case SevSignal
  then show ?thesis
    using reaches_exec [OF reaches_outside [OF s outside_Stop] refl, of ch nNow CevStop] by (simp add: Run_stop_def)
qed (use ev in simp)

lemma upcall_reaches:
  assumes s: "reaches client_start (client_step A) s"
  shows "reaches client_start (client_step A) (snd (server_exec A ch nNow dial (SevUpcall i) s))"
proof -
  note pop = reaches_outside [OF s outside_upcall [of s "drop_nth i (nm_upcall s)"]]
  show ?thesis
  proof (cases "nm_upcall s ! i")
    case (HandleRequest m ctx)
    then show ?thesis using s reaches_exec [OF pop refl, of ch nNow "CevHandleRequest m ctx"]
      by (simp add: run_upcall_def)
  next
    case (HandleResponse m ctx)
    then show ?thesis using s reaches_exec [OF pop refl, of ch nNow "CevHandleResponse m ctx"]
      by (simp add: run_upcall_def)
  qed
qed

lemma server_reaches_client:
  "reaches server_start (server_step A) s \<Longrightarrow> reaches client_start (client_step A) s"
proof (induction rule: reaches.induct)
  case (reaches_start s)
  then show ?case by (intro reaches.reaches_start server_start_client)
next
  case (reaches_step s t)
  obtain ch nNow dial ev where "t = snd (server_exec A ch nNow dial ev s)"
    using reaches_step(2) by (elim server_stepE) (metis snd_conv)
  then show ?case
    using server_exec_reaches upcall_reaches reaches_step(3) by (cases "\<exists>i. ev = SevUpcall i") auto
qed

end
