(* ===== verification/ServerProps.thy ===== *)
theory ServerProps
  imports ServerSystem
begin

text \<open>
  What the server process guarantees: which configuration it runs with, when a listening
  socket is found, that both managers keep their promises in one process, and that a
  stopped process admits nobody.
\<close>

section \<open>The configuration\<close>

text \<open>
  \<^verbatim>\<open>xml.Unmarshal\<close> appends the elements of a list to the list it finds; whether a text is
  well formed does not depend on the structure it fills in.
\<close>

definition xml_appends :: "(bytes \<Rightarrow> Config \<Rightarrow> Config \<times> bool) \<Rightarrow> bool" where
  "xml_appends xml \<longleftrightarrow> (\<forall>b conf.
     NodeConfig_Neighbours (Config_NodeConf (fst (xml b conf)))
       = NodeConfig_Neighbours (Config_NodeConf conf)
         @ NodeConfig_Neighbours (Config_NodeConf (fst (xml b Config_zero)))
   \<and> Config_Workers (fst (xml b conf)) = Config_Workers conf @ Config_Workers (fst (xml b Config_zero))
   \<and> snd (xml b conf) = snd (xml b Config_zero))"

definition config_files :: "(string \<Rightarrow> bytes option) \<Rightarrow> bytes list" where
  "config_files fs = List.map_filter (\<lambda>dir. fs (dir @ ''server.xml'')) config_dirs"

definition file_neighbours :: "(bytes \<Rightarrow> Config \<Rightarrow> Config \<times> bool) \<Rightarrow> bytes \<Rightarrow> NeighbourConfig list" where
  "file_neighbours xml b = NodeConfig_Neighbours (Config_NodeConf (fst (xml b Config_zero)))"

lemma load_configs_result:
  fixes fs :: "string \<Rightarrow> bytes option"
  assumes law: "xml_appends xml"
  defines "files \<equiv> List.map_filter (\<lambda>dir. fs (dir @ ''server.xml''))"
  shows "(\<exists>b \<in> set (files dirs). \<not> snd (xml b Config_zero)) \<and> load_configs fs xml dirs conf = Panics
    \<or> (\<forall>b \<in> set (files dirs). snd (xml b Config_zero))
      \<and> (\<exists>conf'. load_configs fs xml dirs conf = Ret conf'
        \<and> NodeConfig_Neighbours (Config_NodeConf conf') = NodeConfig_Neighbours (Config_NodeConf conf)
            @ concat (map (file_neighbours xml) (files dirs))
        \<and> Config_Workers conf' = Config_Workers conf
            @ concat (map (\<lambda>b. Config_Workers (fst (xml b Config_zero))) (files dirs)))"
proof (induction dirs arbitrary: conf)
  case Nil
  then show ?case by (simp add: files_def List.map_filter_def)
next
  case (Cons dir dirs)
  show ?case
  proof (cases "fs (dir @ ''server.xml'')")
    case None
    then show ?thesis using Cons [of conf] by (simp add: files_def List.map_filter_def)
  next
    case (Some b)
    obtain conf1 ok where x: "xml b conf = (conf1, ok)" by fastforce
    have ok: "ok = snd (xml b Config_zero)"
      and nb: "NodeConfig_Neighbours (Config_NodeConf conf1)
          = NodeConfig_Neighbours (Config_NodeConf conf) @ file_neighbours xml b"
      and wk: "Config_Workers conf1 = Config_Workers conf @ Config_Workers (fst (xml b Config_zero))"
      using law x unfolding xml_appends_def file_neighbours_def by (metis fst_conv snd_conv)+
    show ?thesis
      using Cons [of conf1] Some x ok nb wk by (cases ok) (auto simp: files_def List.map_filter_def)
  qed
qed

lemma checkNeighbour_knows:
  assumes "b \<in> set (nm_aryNeighbour s)"
  shows "mget (nm_mNodeInfo (checkNeighbour nNow s)) (neighbour_szName b) \<noteq> None"
proof -
  have "b \<in> set bs \<or> mget (nm_mNodeInfo t) (neighbour_szName b) \<noteq> None \<Longrightarrow>
      mget (nm_mNodeInfo (forEach (\<lambda>b s. case mget (nm_mNodeInfo s) (neighbour_szName b) of
         Some _ \<Rightarrow> s
       | None \<Rightarrow>
           (case newNode (neighbour_szName b) (neighbour_szIP b) 0 (neighbour_nPort b)
                   (neighbour_nAgentPort b) nNow s of
              (n, s1) \<Rightarrow>
                GoTask (TReconnect n)
                  (s1\<lparr>nm_mNodeInfo := mput (neighbour_szName b) n (nm_mNodeInfo s1)\<rparr>))) bs t))
       (neighbour_szName b) \<noteq> None" for bs and t :: "'a NodeManager_scheme"
  proof (induction bs arbitrary: t)
    case (Cons b' bs)
    show ?case
      by (simp del: not_None_eq, rule Cons.IH)
        (use Cons.prems in \<open>auto simp: newNode_def Let_def set_info_def GoTask_def split: option.split\<close>)
  qed simp
  then show ?thesis using assms by (simp add: checkNeighbour_def)
qed

text \<open>
  The process knows the neighbours of every configuration file: it does not start if one of
  the \<^verbatim>\<open>server.xml\<close> of the four directories is malformed; otherwise the neighbours and the
  workers of all of them count, one file after the other, the manager is made with these
  neighbours, with 16 bits of each port, and after its first round every one of them is
  among its nodes.
\<close>

lemma neighbours_of_all_files:
  assumes law: "xml_appends xml"
  shows "(\<exists>b \<in> set (config_files fs). \<not> snd (xml b Config_zero)) \<and> config_init fs xml getenv = Panics
    \<or> (\<exists>conf. config_init fs xml getenv = Ret conf
        \<and> Config_Workers conf = concat (map (\<lambda>b. Config_Workers (fst (xml b Config_zero))) (config_files fs))
        \<and> nm_aryNeighbour (NewNBServer u u' inst nNow conf conf)
          = map (\<lambda>b. GetNeighbour (NeighbourConfig_Name b) (NeighbourConfig_IP b)
                (ucast (NeighbourConfig_Port b)) (ucast (NeighbourConfig_AgentPort b)))
              (concat (map (file_neighbours xml) (config_files fs)))
        \<and> (\<forall>b \<in> set (concat (map (file_neighbours xml) (config_files fs))).
             mget (nm_mNodeInfo (checkNeighbour nNow' (NewNBServer u u' inst nNow conf conf)))
               (NeighbourConfig_Name b) \<noteq> None))"
proof -
  note parts = load_configs_result [OF law, of fs config_dirs Config_zero, folded config_files_def]
  show ?thesis
  proof (cases "load_configs fs xml config_dirs Config_zero")
    case Panics
    then show ?thesis using parts by (auto simp: config_init_def)
  next
    case (Ret conf0)
    define conf where "conf = (if Config_Host conf0 = '''' then conf0\<lparr>Config_Host := getenv (Config_HostEnv conf0)\<rparr> else conf0)"
    have init: "config_init fs xml getenv = Ret conf" by (simp add: config_init_def Ret conf_def)
    have nb: "NodeConfig_Neighbours (Config_NodeConf conf) = concat (map (file_neighbours xml) (config_files fs))"
      and wk: "Config_Workers conf = concat (map (\<lambda>b. Config_Workers (fst (xml b Config_zero))) (config_files fs))"
      using parts Ret by (auto simp: conf_def Config_zero_def)
    have ary: "nm_aryNeighbour (NewNBServer u u' inst nNow conf conf)
        = map (\<lambda>b. GetNeighbour (NeighbourConfig_Name b) (NeighbourConfig_IP b)
              (ucast (NeighbourConfig_Port b)) (ucast (NeighbourConfig_AgentPort b)))
            (concat (map (file_neighbours xml) (config_files fs)))"
      by (simp add: NewNBServer_def Let_def nb RegisterNodeHandler_def NewClientManager_def NodeManager.extend_def
          NewManager_def newNode_def set_info_def)
    have "mget (nm_mNodeInfo (checkNeighbour nNow' (NewNBServer u u' inst nNow conf conf))) (NeighbourConfig_Name b) \<noteq> None"
      if "b \<in> set (concat (map (file_neighbours xml) (config_files fs)))" for b
      using checkNeighbour_knows [of "GetNeighbour (NeighbourConfig_Name b) (NeighbourConfig_IP b)
          (ucast (NeighbourConfig_Port b)) (ucast (NeighbourConfig_AgentPort b))"
          "NewNBServer u u' inst nNow conf conf" nNow'] that
      unfolding ary by (simp add: GetNeighbour_def del: not_None_eq)
    then show ?thesis using init wk ary by blast
  qed
qed

definition example_xml :: "bytes \<Rightarrow> Config \<Rightarrow> Config \<times> bool" where
  "example_xml b conf =
     (conf\<lparr>Config_Host := ''0.0.0.0'', Config_Workers := Config_Workers conf @ [\<lparr>WorkerConfig_Name = b, WorkerConfig_Size = 100\<rparr>],
        Config_NodeConf := (Config_NodeConf conf)\<lparr>NodeConfig_Neighbours :=
          NodeConfig_Neighbours (Config_NodeConf conf)
            @ [\<lparr>NeighbourConfig_Name = b, NeighbourConfig_IP = ''10.0.0.2'', NeighbourConfig_Port = 74336,
                NeighbourConfig_AgentPort = 8900\<rparr>]\<rparr>\<rparr>, b \<noteq> ''broken'')"

definition example_files :: "string \<Rightarrow> bytes option" where
  "example_files path = (if path = ''./server.xml'' then Some ''b''
     else if path = ''../conf/server.xml'' then Some ''c'' else None)"

lemma example_xml_appends: "xml_appends example_xml"
  by (simp add: xml_appends_def example_xml_def Config_zero_def)

lemma example_files_read: "config_files example_files = [''b'', ''c'']"
  by (simp add: config_files_def config_dirs_def example_files_def List.map_filter_def)

section \<open>Finding a port\<close>

text \<open>The first attempt that succeeds decides.\<close>

lemma NewServer_loop_first:
  assumes "listen (i + k) (szAddress szIP (nPort + of_nat k))"
    and "\<And>j. j < k \<Longrightarrow> \<not> listen (i + j) (szAddress szIP (nPort + of_nat j))"
  shows "NewServer_loop listen i szIP nPort True = Some (Ret \<lparr>srv_szIP = szIP, srv_nPort = nPort + of_nat k\<rparr>)"
  using assms
proof (induction k arbitrary: i nPort)
  case 0
  then show ?case by (simp add: NewServer_loop.simps)
next
  case (Suc k)
  have "\<not> listen i (szAddress szIP nPort)" using Suc.prems(2) [of 0] by simp
  moreover have "NewServer_loop listen (Suc i) szIP (nPort + 1) True
      = Some (Ret \<lparr>srv_szIP = szIP, srv_nPort = nPort + 1 + of_nat k\<rparr>)"
  proof (rule Suc.IH)
    show "listen (Suc i + k) (szAddress szIP (nPort + 1 + of_nat k))"
      using Suc.prems(1) by (simp add: algebra_simps)
    show "\<not> listen (Suc i + j) (szAddress szIP (nPort + 1 + of_nat j))" if "j < k" for j
      using Suc.prems(2) [of "Suc j"] that by (simp add: algebra_simps)
  qed
  ultimately show ?case by (subst NewServer_loop.simps) (simp add: algebra_simps)
qed

lemma NewServer_loop_attempt:
  assumes "NewServer_loop listen i szIP nPort d = Some r"
  shows "\<not> d \<or> (\<exists>k. listen (i + k) (szAddress szIP (nPort + of_nat k)))"
  using assms
proof (induction rule: NewServer_loop.raw_induct [rotated, consumes 1, case_names step])
  case (step loop listen i szIP nPort d r)
  consider (now) "listen i (szAddress szIP nPort)" | (fixed) "\<not> d"
    | (again) "\<not> listen i (szAddress szIP nPort)" "d" by blast
  then show ?case
  proof cases
    case now
    then have "listen (i + 0) (szAddress szIP (nPort + of_nat 0))" by simp
    then show ?thesis by blast
  next
    case again
    then have "loop listen (Suc i) szIP (nPort + 1) d = Some r" using step(2) by simp
    from step(1) [OF this] again obtain k where "listen (Suc i + k) (szAddress szIP (nPort + 1 + of_nat k))" by blast
    then have "listen (i + Suc k) (szAddress szIP (nPort + of_nat (Suc k)))" by (simp add: algebra_simps)
    then show ?thesis by blast
  qed simp
qed

text \<open>Counting up from any port reaches every port within 65536 attempts.\<close>

lemma port_reached:
  fixes p q :: uint16
  shows "\<exists>k < 2 ^ 16. p + of_nat k = q"
  using unsigned_less [of "q - p"] by (intro exI [of _ "unat (q - p)"]) simp

text \<open>
  C25. Opening the listening socket ends: with a fixed port after one attempt, by a server or by
  a panic; with a dynamic one as soon as some attempt succeeds, at the first port from the
  configured one on that can be used, which the port number, as it wraps, reaches within
  65536 attempts if the ports do not change, and never by a panic.  Without a usable port
  it tries for ever.
\<close>

theorem NewServer_returns:
  "NewServer listen szIP nPort False
      = Some (if listen 0 (szAddress szIP nPort) then Ret \<lparr>srv_szIP = szIP, srv_nPort = nPort\<rparr> else Panics)
   \<and> (NewServer listen szIP nPort True = None \<longleftrightarrow> (\<forall>k. \<not> listen k (szAddress szIP (nPort + of_nat k))))
   \<and> (\<forall>r. NewServer listen szIP nPort True = Some r \<longrightarrow> (\<exists>k. listen k (szAddress szIP (nPort + of_nat k))
      \<and> (\<forall>j < k. \<not> listen j (szAddress szIP (nPort + of_nat j)))
      \<and> r = Ret \<lparr>srv_szIP = szIP, srv_nPort = nPort + of_nat k\<rparr>))
   \<and> ((\<forall>i. listen i = free) \<longrightarrow> free (szAddress szIP q) \<longrightarrow> (\<exists>k < 2 ^ 16. \<exists>v.
        NewServer listen szIP nPort True = Some (Ret v) \<and> GetPort v = nPort + of_nat k
      \<and> free (szAddress (GetIP v) (GetPort v))))"
proof (intro conjI impI allI)
  let ?P = "\<lambda>k. listen k (szAddress szIP (nPort + of_nat k))"
  have first: "\<exists>k \<le> k'. ?P k \<and> (\<forall>j < k. \<not> ?P j)
      \<and> NewServer listen szIP nPort True = Some (Ret \<lparr>srv_szIP = szIP, srv_nPort = nPort + of_nat k\<rparr>)"
    if k': "?P k'" for k'
  proof -
    have 1: "?P (LEAST k. ?P k)" using k' by (rule LeastI)
    have 2: "\<not> ?P j" if "j < (LEAST k. ?P k)" for j using not_less_Least [OF that] .
    have 3: "(LEAST k. ?P k) \<le> k'" using k' by (rule Least_le)
    show ?thesis
      using NewServer_loop_first [of listen 0 "LEAST k. ?P k" szIP nPort] 1 2 3
      by (intro exI [of _ "LEAST k. ?P k"]) (simp add: NewServer_def)
  qed
  have attempt: "\<exists>k. ?P k" if "NewServer listen szIP nPort True = Some r" for r
    using NewServer_loop_attempt [of listen 0 szIP nPort True r] that by (simp add: NewServer_def)
  show "NewServer listen szIP nPort False
      = Some (if listen 0 (szAddress szIP nPort) then Ret \<lparr>srv_szIP = szIP, srv_nPort = nPort\<rparr> else Panics)"
    by (simp add: NewServer_def NewServer_loop.simps)
  show "NewServer listen szIP nPort True = None \<longleftrightarrow> (\<forall>k. \<not> ?P k)"
    using first attempt by (metis not_None_eq option.distinct(1))
  show "\<exists>k. ?P k \<and> (\<forall>j < k. \<not> ?P j) \<and> r = Ret \<lparr>srv_szIP = szIP, srv_nPort = nPort + of_nat k\<rparr>"
    if "NewServer listen szIP nPort True = Some r" for r
    using first attempt [OF that] that by (metis option.inject)
  show "\<exists>k < 2 ^ 16. \<exists>v. NewServer listen szIP nPort True = Some (Ret v) \<and> GetPort v = nPort + of_nat k
      \<and> free (szAddress (GetIP v) (GetPort v))"
    if free: "\<forall>i. listen i = free" and q: "free (szAddress szIP q)"
  proof -
    obtain k' where k': "k' < 2 ^ 16" "nPort + of_nat k' = q" using port_reached [of nPort q] by blast
    then obtain k where "k \<le> k'" "?P k"
      "NewServer listen szIP nPort True = Some (Ret \<lparr>srv_szIP = szIP, srv_nPort = nPort + of_nat k\<rparr>)"
      using first [of k'] free q by auto
    then show ?thesis using free k'(1)
      by (intro exI [of _ k] conjI exI [of _ "\<lparr>srv_szIP = szIP, srv_nPort = nPort + of_nat k\<rparr>"])
        (simp_all add: GetPort_def GetIP_def)
  qed
qed

theorem NewServer_returns_witness:
  "\<exists>k < 2 ^ 16. \<exists>v. NewServer (\<lambda>i a. a = ''h:0'') ''h'' 65535 True = Some (Ret v) \<and> GetPort v = 65535 + of_nat k
     \<and> szAddress (GetIP v) (GetPort v) = ''h:0''"
proof -
  have "szAddress ''h'' 0 = ''h:0''" by code_simp
  then show ?thesis
    using NewServer_returns [of "\<lambda>i a. a = ''h:0''" "''h''" 65535 "\<lambda>a. a = ''h:0''" 0] by simp
qed

section \<open>Both managers in one process\<close>

definition process_conf :: Config where
  "process_conf = Config_zero\<lparr>Config_SecretKey := ''key'', Config_Host := ''10.0.0.1'',
     Config_NodeConf := \<lparr>NodeConfig_Name = ''a'', NodeConfig_Port = 8800,
       NodeConfig_Neighbours = [\<lparr>NeighbourConfig_Name = ''b'', NeighbourConfig_IP = ''10.0.0.2'',
         NeighbourConfig_Port = 8800, NeighbourConfig_AgentPort = 8900\<rparr>],
       NodeConfig_NeighbourMaxConnection = 2\<rparr>,
     Config_AgentConf := \<lparr>AgentConfig_Name = ''agent'', AgentConfig_Port = 8900,
       AgentConfig_ClientMaxConnection = 10\<rparr>\<rparr>"

lemma process_conf_agent: "NewNBServer ''uuid'' ''uuid'' 7 100 process_conf process_conf = agent_a"
  by (simp add: NewNBServer_def process_conf_def agent_a_def node_a_def GetNeighbour_def Config_zero_def)

lemma agent_a_server: "reaches server_start (server_step A) agent_a"
  by (rule reaches_start) (unfold server_start_def process_conf_agent [symmetric], blast)

text \<open>The process after a client has registered over an accepted connection.\<close>

definition process_a :: ClientManager where
  "process_a = snd (server_exec agent_env1 agent_choice1 104 (True, []) (SevTask 0)
     (snd (server_exec agent_env1 agent_choice1 104 (True, []) (SevRead 0 agent_packet) agent_a)))"

lemma server_step_exec:
  "\<not> (\<exists>nev. ev = SevNode nev) \<Longrightarrow> server_step A s (snd (server_exec A ch nNow dial ev s))"
  by (rule server_stepI [of _ ev _ ch nNow dial "fst (server_exec A ch nNow dial ev s)"])
    (auto simp: server_answers_new_def split: server_event.split)

lemma process_a_reached: "reaches server_start (server_step agent_env1) process_a"
  unfolding process_a_def
  by (rule reaches_step [OF reaches_step [OF agent_a_server server_step_exec] server_step_exec]) auto

lemma process_a_client:
  "\<exists>n e. mget (cm_mClientInfo process_a) ''c1'' = Some n
     \<and> mget (ci_mEntryInfo (cm_info process_a n)) ''u_RPC'' = Some e"
proof -
  let ?H = "objNodeHandler agent_env1 NodeManagerHandler" and ?s = "touch 104 0 agent_a"
  let ?rt = "client_router agent_env1 ?H agent_choice1 104 :: ClientManager Router"
  let ?b = "Marshal (ae_pb agent_env1) (MAgentRegisterReq agent_req)"
  have pk: "read_packet agent_packet = Inr (AGENT_REGISTER, 1, [], ?b)"
    unfolding agent_packet_def by (rule read_packet_payload) (simp_all add: string_fits_def)
  have q: "quiet agent_a ?s" by (simp add: quiet_def touch_def set_conn_def)
  have ctx: "Some (newContext 0 '''' ?s) = example_ctx"
    by (simp add: newContext_def example_ctx_def touch_def set_conn_def agent_a_parts node_a_def NewManager_def
        newNode_def Let_def set_info_def conn_zero_def)
  have same: "cm_nStatus ?s = 1" "cm_objNodeHandler ?s = NodeManagerHandler" "cm_task ?s = []"
    by (simp_all add: touch_def set_conn_def agent_a_parts)
  have inv: "client_inv agent_env1 ?s"
    by (rule client_inv_quiet [OF client_system.reachable_inv [OF agent_a_reached] q])
  obtain n t where reg: "handleAgentRegister agent_env1 ?H 104 ?b example_ctx ?s = (Ret ''SUCCESS'', t)"
    and t: "mget (cm_mClientInfo t) ''c1'' = Some n" "getClient example_ctx t = Some n"
      "ci_mEntryInfo (cm_info t n)
        = forEach (\<lambda>e. mput (getUri_ci agent_env1 e) e) (AgentRegisterReq_AryEntry agent_req) []"
    using nh.register_result [OF inv example_conn agent_req_ok same(1), of agent_env1 NodeManagerHandler ?b]
    by (auto simp: agent_req_def)
  have h: "mget ?rt AGENT_REGISTER = Some (handleAgentRegister agent_env1 ?H 104)"
    by (simp add: client_router_def RegisterRouter_def NewRouter_def)
  have rc: "GetRequestContext example_ctx = Some (the example_ctx)" "SetRequestID example_ctx [] = example_ctx"
    by (simp_all add: example_ctx_def GetRequestContext_def SetRequestID_def)
  have idle: "?s\<lparr>cm_task := []\<rparr> = ?s" using same(3) by simp
  have "Process ?rt agent_packet example_ctx ?s = (Ret True, t)"
    using reg by (simp add: Process_def pk rc fnRouter2Handler_def h)
  then have eq: "process_a = refreshKeepLiveTime_ci 104 n t"
    using t(2) by (simp add: process_a_def Let_def OnRead_cm_def GoTask_cm_def drop_nth_def same run_client_task_def
        process_task_cm_def idle ctx)
  then show ?thesis unfolding eq using t(1,3)
    by (simp add: refreshKeepLiveTime_ci_def set_client_def agent_req_def agent_req_key)
qed



section \<open>A stopped process\<close>

definition stopped_below :: "ClientManager \<Rightarrow> ClientManager \<Rightarrow> bool" where
  "stopped_below s t \<longleftrightarrow> nm_nStatus t = MANAGER_STATUS_STOPED \<and> cm_nStatus t = MANAGER_STATUS_STOPED
     \<and> fst ` set (cm_mClientInfo t) \<subseteq> fst ` set (cm_mClientInfo s)"

lemma outside_parts:
  "outside s t \<Longrightarrow> cm_nStatus t = cm_nStatus s \<and> cm_mClientInfo t = cm_mClientInfo s"
  using more_client [of t s] by (simp add: outside_def)

lemma stopped_Run_stop: "stopped_below s (Run_stop A ch s)"
  using tends_Stop_cm [of A "Stop (ae_node A) (ac_node ch) s" ch] Stop_status [of "ae_node A" "ac_node ch" s]
    outside_parts [OF outside_Stop [of s "ae_node A" "ac_node ch"]]
  by (simp add: stopped_below_def Run_stop_def tends_def)

lemma stopped_tends:
  assumes "stopped_below s t" "tends A t u"
  shows "stopped_below s u"
proof -
  have "fst ` set (cm_mClientInfo u) \<subseteq> fst ` set (cm_mClientInfo t)"
    using assms by (simp add: stopped_below_def tends_def)
  also have "\<dots> \<subseteq> fst ` set (cm_mClientInfo s)" using assms(1) by (simp add: stopped_below_def)
  finally show ?thesis using assms by (simp add: stopped_below_def tends_def)
qed

lemma stopped_exec:
  assumes "stopped_below s t"
  shows "stopped_below s (snd (server_exec A ch nNow dial ev t))"
proof (cases ev)
  case (SevNode nev)
  have "nm_nStatus (snd (node_exec (ae_node A) (ac_node ch) nNow dial nev t)) = MANAGER_STATUS_STOPED"
    using assms stays_exec [of nev t "ae_node A" "ac_node ch" nNow dial] Stop_status [of _ _ t]
    by (cases "nev = EvStop") (auto simp: stays_def stopped_below_def)
  then show ?thesis
    using SevNode assms outside_parts [OF outside_exec [of t "ae_node A" "ac_node ch" nNow dial nev]]
    by (simp add: stopped_below_def)
next
  case SevSignal
  then show ?thesis using assms stopped_Run_stop [of t A ch] subset_trans by (simp add: stopped_below_def) blast
qed (rule stopped_tends [OF assms server_exec_tends]; simp)+

interpretation stopped: inductive_invariant "\<lambda>x. x = Run_stop A ch s" "server_step A" "stopped_below s" for A ch s
proof
  show "stopped_below s t" if "t = Run_stop A ch s" for t
    using stopped_Run_stop that by simp
  show "stopped_below s u" if "stopped_below s t" "server_step A t u" for t u
    using that stopped_exec by (auto elim!: server_stepE) (metis snd_conv)
qed



end
