(* ===== verification/Reregistration.thy ===== *)
theory Reregistration
  imports ServerProps
begin

text \<open>
  What becomes of an entry a client registered and later left out: a second registration
  replaces the entries of the client's record, but not the lists that requests are routed by.
\<close>

section \<open>The lists of clients\<close>

abbreviation serving :: "string \<Rightarrow> 'a ClientManager_scheme \<Rightarrow> clientref set" where
  "serving u s \<equiv> set (mgets (cm_mUri2Client s) u)"

abbreviation keys_of :: "agent_env \<Rightarrow> agent_EntryInfo list \<Rightarrow> string set" where
  "keys_of A es \<equiv> getUri_ci A ` set es"

lemma register_admit_uri: "register_admit A nNow q c s = (n, t) \<Longrightarrow> cm_mUri2Client t = cm_mUri2Client s"
  by (rule conjunct2 [OF nr.register_admit_frame])

context node_handler
begin

lemma serving_AddEntry:
  "serving u (AddEntry_cm A H es n s) = serving u s \<union> (if u \<in> keys_of A es then {n} else {})"
proof -
  have one: "serving u (AddEntry_one A H n e s) = serving u s \<union> (if u = getUri_ci A e then {n} else {})"
    for e and s :: "'a ClientManager_scheme"
  proof -
    let ?t = "nh_AddEntry H (agent_EntryInfo_URI e) (agent_EntryInfo_EntryType e) s"
    have "cm_mUri2Client ?t = cm_mUri2Client s" by (rule ckeepsD(2) [OF ckeeps_outside [OF nh_add]])
    then show ?thesis
      by (auto simp: AddEntry_one_def Let_def set_clients_def mgets_def split: option.split)
  qed
  show ?thesis unfolding AddEntry_cm_def by (induction es arbitrary: s) (auto simp: one)
qed

lemma serving_RemoveEntry:
  "serving u (RemoveEntry_cm A H es n s) = serving u s - (if u \<in> keys_of A es then {n} else {})"
proof -
  have one: "serving u (RemoveEntry_one A H n e s) = serving u s - (if u = getUri_ci A e then {n} else {})"
    for e and s :: "'a ClientManager_scheme"
  proof -
    let ?u = "getUri_ci A e"
    let ?ns = "filter (\<lambda>n'. n' \<noteq> n) (mgets (cm_mUri2Client s) ?u)"
    let ?s1 = "set_clients ?u ?ns s"
    let ?s2 = "?s1\<lparr>cm_mUri2Client := mdel ?u (cm_mUri2Client ?s1)\<rparr>"
    let ?t = "nh_RemoveEntry H (agent_EntryInfo_URI e) (agent_EntryInfo_EntryType e) ?s2"
    have t: "cm_mUri2Client ?t = mdel ?u (mput ?u ?ns (cm_mUri2Client s))"
      using ckeepsD(2) [OF ckeeps_outside [OF nh_remove [of ?s2]]] by (simp add: set_clients_def)
    have "RemoveEntry_one A H n e s = (if ?ns = [] then ?t else ?s1)"
      by (simp only: RemoveEntry_one_def Let_def)
    moreover have "serving u ?t = serving u s - (if u = ?u then {n} else {})" if "?ns = []"
      unfolding t using that by (auto simp: mgets_def filter_empty_conv split: option.splits)
    moreover have "serving u ?s1 = serving u s - (if u = ?u then {n} else {})"
      by (auto simp: set_clients_def mgets_def)
    ultimately show ?thesis by (cases "?ns = []") simp_all
  qed
  show ?thesis unfolding RemoveEntry_cm_def by (induction es arbitrary: s) (auto simp: one)
qed

text \<open>An accepted registration: the client joins the lists of its entries and leaves none.\<close>

lemma register_serving:
  assumes inv: "client_inv A s" and ctx: "GetServerConnection ctx = Some c"
    and q: "Unmarshal_AgentRegisterReq (ae_pb A) b = Some q"
    and sign: "AgentRegisterReq_Sign q = makeSign_ci A (AgentRegisterReq_InstanceID q) (AgentRegisterReq_TimeStamp q)"
    and new: "\<not> gt64 nNow (AgentRegisterReq_TimeStamp q + ae_SignTimeout A)" "cm_nStatus s = 1"
  shows "\<exists>n t. handleAgentRegister A H nNow b ctx s = (Ret ''SUCCESS'', t)
    \<and> mget (cm_mClientInfo t) (AgentRegisterReq_InstanceID q) = Some n \<and> getClient ctx t = Some n
    \<and> ci_mEntryInfo (cm_info t n) = forEach (\<lambda>e. mput (getUri_ci A e) e) (AgentRegisterReq_AryEntry q) []
    \<and> (\<forall>m. mget (cm_mClientInfo s) (AgentRegisterReq_InstanceID q) = Some m \<longrightarrow> n = m)
    \<and> (\<forall>u. serving u t = serving u s \<union> (if u \<in> keys_of A (AgentRegisterReq_AryEntry q) then {n} else {}))"
proof -
  let ?es = "AgentRegisterReq_AryEntry q" and ?k = "AgentRegisterReq_InstanceID q"
  obtain n t where t: "handleAgentRegister A H nNow b ctx s = (Ret ''SUCCESS'', t)"
    "mget (cm_mClientInfo t) ?k = Some n" "getClient ctx t = Some n"
    "ci_mEntryInfo (cm_info t n) = forEach (\<lambda>e. mput (getUri_ci A e) e) ?es []"
    using register_result [OF inv ctx q sign new] by blast
  obtain m s1 where r: "register_admit A nNow q c s = (m, s1)" by fastforce
  let ?s3 = "AddEntry_cm A H ?es m (s1\<lparr>cm_mTempConnection := mdel c (cm_mTempConnection s1)\<rparr>)"
  obtain rsp where eq: "t = snd (Write c rsp ?s3)"
    using t(1) ctx q sign new r by (auto simp: handleAgentRegister_def reply_cm_eq [OF ctx])
  have clients: "cm_mClientInfo t = cm_mClientInfo s1" "cm_mUri2Client t = cm_mUri2Client ?s3"
    using AddEntry_frame [of A ?es m "s1\<lparr>cm_mTempConnection := mdel c (cm_mTempConnection s1)\<rparr>"]
    by (simp_all add: eq Write_client)
  have m: "mget (cm_mClientInfo s1) ?k = Some m"
    and old: "\<forall>m'. mget (cm_mClientInfo s) ?k = Some m' \<longrightarrow> m = m'"
    using r ckeepsD(1) [OF ckeeps_addConnection [of s A m c]]
    by (auto simp: register_admit_def Let_def syncEntry_ci_def set_client_def bind_ctx_def set_conn_def
        split: option.splits prod.splits)
  have "n = m" using t(2) m clients(1) by simp
  moreover have "cm_mUri2Client s1 = cm_mUri2Client s" by (rule register_admit_uri [OF r])
  ultimately show ?thesis
    using t old by (intro exI [of _ n] exI [of _ t]) (simp add: clients(2) serving_AddEntry)
qed

text \<open>An unregistration: the client is dead and forgotten, and leaves the lists of its entries.\<close>

lemma unregister_serving:
  assumes ctx: "getClient ctx s = Some n" and u: "Unmarshal_AgentUnRegisterReq (ae_pb A) b = Some q"
  shows "\<exists>t. handleAgentUnRegister A H b ctx s = (Ret ''SUCCESS'', t)
    \<and> ci_nStatus (cm_info t n) = AGENT_STATUS_DEAD \<and> mget (cm_mClientInfo t) (getClientInfo n s) = None
    \<and> (\<forall>u. serving u t = serving u s - (if u \<in> keys_of A (getAllEntry_ci n s) then {n} else {}))"
proof -
  let ?s0 = "set_client n ((cm_info s n)\<lparr>ci_nStatus := AGENT_STATUS_DEAD\<rparr>) s"
  let ?s1 = "forEach Close (ci_aryConnectionList (cm_info ?s0 n)) ?s0"
  let ?s2 = "RemoveEntry_cm A H (getAllEntry_ci n ?s1) n ?s1"
  have info: "cm_info ?s1 = cm_info ?s0"
    using outside_quiet [OF quiet_Closes [of ?s0]] more_client [of ?s1 ?s0] by (simp add: outside_def)
  have ents: "getAllEntry_ci n ?s1 = getAllEntry_ci n s" unfolding getAllEntry_ci_def info by (simp add: set_client_def)
  have s2: "cm_info ?s2 = cm_info ?s0" using RemoveEntry_frame [of A "getAllEntry_ci n ?s1" n ?s1] info by simp
  have srv: "serving u ?s2 = serving u s - (if u \<in> keys_of A (getAllEntry_ci n s) then {n} else {})" for u
    by (simp add: serving_RemoveEntry ents) (simp add: set_client_def)
  have "handleAgentUnRegister A H b ctx s
      = (Ret ''SUCCESS'', ?s2\<lparr>cm_mClientInfo := mdel (ci_szInstanceID (cm_info ?s2 n)) (cm_mClientInfo ?s2)\<rparr>)"
    using assms by (simp add: handleAgentUnRegister_def deleteClient_def markDead_ci_def Let_def)
  then show ?thesis
    using s2 srv by (simp add: getClientInfo_def) (simp add: set_client_def)
qed

end

text \<open>A request for which the agent finds only a client that is not alive gets no answer.\<close>

definition request_key :: "agent_env \<Rightarrow> RpcCallReq \<Rightarrow> string" where
  "request_key A m = RpcCallReq_URI m @ ''_'' @ EntryType_String (ae_pb A) (RpcCallReq_EntryType m)"

lemma call_local_dead:
  assumes only: "serving (request_key A m) s = {n}" and n: "0 < n" "ci_nStatus (cm_info s n) = AGENT_STATUS_DEAD"
  shows "call_local A ch m ctx s = (Ret ''agent call fail'', s)"
proof -
  obtain ns where ns: "mget (cm_mUri2Client s) (request_key A m) = Some ns" "set ns = {n}"
    using only by (cases "mget (cm_mUri2Client s) (request_key A m)") (auto simp: mgets_def)
  then have ne: "ns \<noteq> []" by auto
  then have "ns ! (k mod length ns) = n" for k using ns(2) nth_mem [of "k mod length ns" ns] by simp
  moreover have "pick r ns = n" for r using pick_in_set [OF ne, of r] ns(2) by simp
  ultimately have "getClient4RpcCallReq A ch m s = Some n"
    using ns ne n(1) by (simp add: getClient4RpcCallReq_def Let_def request_key_def)
  then show ?thesis using n(2) by (simp add: call_local_def rpcCall_def)
qed

lemma entry_values: "snd ` set (forEach (\<lambda>e. mput (getUri_ci A e) e) es m) \<subseteq> set es \<union> snd ` set m"
proof (induction es arbitrary: m)
  case (Cons e es)
  have "snd ` set (mput k v m) \<subseteq> insert v (snd ` set m)" for k :: string and v and m :: "(string \<times> agent_EntryInfo) list"
    by (induction m) auto
  then have "set es \<union> snd ` set (mput (getUri_ci A e) e m) \<subseteq> set (e # es) \<union> snd ` set m" by fastforce
  from subset_trans [OF Cons.IH this] show ?case by simp
qed simp

text \<open>
  C36. A client that registers again with fewer entries leaves the agent with a stale
  list.  The record of the client has the new entries only, but the client stays on the list of
  each entry it no longer offers, and a later unregistration takes it off the lists of its
  record alone.  It is then dead and forgotten but still listed; if nobody else offered the
  entry, every request for it is given to the dead client, fails and gets no answer, not
  even the one that there is no such entry.
\<close>

theorem stale_entry_unanswered:
  fixes s :: ClientManager and A :: agent_env
  defines "H \<equiv> objNodeHandler A (cm_objNodeHandler s)" and "valid \<equiv> (\<lambda>t q.
      AgentRegisterReq_Sign q = makeSign_ci A (AgentRegisterReq_InstanceID q) (AgentRegisterReq_TimeStamp q)
      \<and> \<not> gt64 t (AgentRegisterReq_TimeStamp q + ae_SignTimeout A))"
  assumes s: "reaches client_start (client_step A) s" "cm_nStatus s = 1" "GetServerConnection ctx = Some c"
    and q1: "Unmarshal_AgentRegisterReq (ae_pb A) b1 = Some q1" "valid t1 q1"
    and q2: "Unmarshal_AgentRegisterReq (ae_pb A) b2 = Some q2" "valid t2 q2"
      "AgentRegisterReq_InstanceID q2 = AgentRegisterReq_InstanceID q1"
    and e: "e \<in> set (AgentRegisterReq_AryEntry q1)" "getUri_ci A e \<notin> keys_of A (AgentRegisterReq_AryEntry q2)"
    and u: "Unmarshal_AgentUnRegisterReq (ae_pb A) b3 = Some q3"
    and run: "handleAgentRegister A H t1 b1 ctx s = (z1, s1)" "handleAgentRegister A H t2 b2 ctx s1 = (z2, s2)"
      "handleAgentUnRegister A H b3 ctx s2 = (z3, s3)"
  shows "set [z1, z2, z3] = {Ret ''SUCCESS''}
    \<and> (\<exists>n. ci_nStatus (cm_info s3 n) = AGENT_STATUS_DEAD
         \<and> mget (cm_mClientInfo s3) (AgentRegisterReq_InstanceID q1) = None
         \<and> n \<in> serving (getUri_ci A e) s3
         \<and> (serving (getUri_ci A e) s = {} \<and> request_key A m = getUri_ci A e \<longrightarrow>
              call_local A ch m ctx' s3 = (Ret ''agent call fail'', s3)))"
proof -
  let ?k = "getUri_ci A e" and ?id = "AgentRegisterReq_InstanceID q1"
  have inv: "client_inv A s" by (rule client_system.reachable_inv [OF s(1)])
  obtain n where 1: "z1 = Ret ''SUCCESS''" "mget (cm_mClientInfo s1) ?id = Some n"
    "\<forall>u. serving u s1 = serving u s \<union> (if u \<in> keys_of A (AgentRegisterReq_AryEntry q1) then {n} else {})"
    using nh.register_serving [OF inv s(3) q1(1) conjunct1 [OF q1(2) [unfolded valid_def]]
        conjunct2 [OF q1(2) [unfolded valid_def]] s(2), of A "cm_objNodeHandler s"] run(1) unfolding H_def by auto
  have inv_t: "client_inv A (snd (handleAgentRegister A H t b ctx s'))" if "client_inv A s'" for t b s'
    unfolding H_def by (rule nh.client_inv_handleAgentRegister [OF that]) (simp add: s(3))
  have inv1: "client_inv A s1" using inv_t [OF inv, of t1 b1] run(1) by simp
  have run1: "cm_nStatus s1 = 1"
    using tends_register [OF tends_refl, of A s "cm_objNodeHandler s" t1 b1 ctx] run(1) s(2) by (simp add: H_def tends_def)
  obtain n2 where 2: "z2 = Ret ''SUCCESS''" "mget (cm_mClientInfo s2) ?id = Some n2" "getClient ctx s2 = Some n2" "n2 = n"
    "ci_mEntryInfo (cm_info s2 n2) = forEach (\<lambda>e. mput (getUri_ci A e) e) (AgentRegisterReq_AryEntry q2) []"
    "\<forall>u. serving u s2 = serving u s1 \<union> (if u \<in> keys_of A (AgentRegisterReq_AryEntry q2) then {n2} else {})"
    using nh.register_serving [OF inv1 s(3) q2(1) conjunct1 [OF q2(2) [unfolded valid_def]]
        conjunct2 [OF q2(2) [unfolded valid_def]] run1, of A "cm_objNodeHandler s"] q2(3) run(2) 1(2) unfolding H_def by auto
  have inv2: "client_inv A s2" using inv_t [OF inv1, of t2 b2] run(2) by simp
  have n: "0 < n" "getClientInfo n s2 = ?id"
    using client_inv_known [OF inv2 [unfolded client_inv_def] 2(2)] 2(4) by simp_all
  have left: "?k \<notin> keys_of A (getAllEntry_ci n s2)"
    using e(2) entry_values [of A "AgentRegisterReq_AryEntry q2" "[]"] 2(4,5) by (auto simp: getAllEntry_ci_def)
  have 3: "z3 = Ret ''SUCCESS''" "ci_nStatus (cm_info s3 n) = AGENT_STATUS_DEAD" "mget (cm_mClientInfo s3) ?id = None"
    "serving ?k s3 = serving ?k s2"
    using nh.unregister_serving [OF 2(3) u, of A "cm_objNodeHandler s"] 2(4) run(3) n(2) left unfolding H_def by auto
  have "?k \<in> keys_of A (AgentRegisterReq_AryEntry q1)" using e(1) by simp
  then have k: "serving ?k s3 = serving ?k s \<union> {n}" using 1(3) 2(6) 3(4) e(2) by simp
  then have "call_local A ch m ctx' s3 = (Ret ''agent call fail'', s3)"
    if "serving ?k s = {}" "request_key A m = ?k"
    using call_local_dead [where A = A and m = m and s = s3 and n = n and ch = ch and ctx = ctx'] that n(1) 3(2) by simp
  then show ?thesis using 1(1) 2(1) 3 k by auto
qed

section \<open>Two registrations to compute\<close>

definition again_req :: AgentRegisterReq where
  "again_req = agent_req\<lparr>AgentRegisterReq_AryEntry := []\<rparr>"

definition again_bye :: AgentUnRegisterReq where
  "again_bye = \<lparr>AgentUnRegisterReq_InstanceID = ''c1'', AgentUnRegisterReq_AryEntry = [],
     AgentUnRegisterReq_Sign = [], AgentUnRegisterReq_TimeStamp = 100\<rparr>"

definition again_env :: agent_env where
  "again_env = agent_env1\<lparr>ae_node := example_env\<lparr>ne_pb := lib_stub\<lparr>
     Unmarshal_AgentRegisterReq := (\<lambda>b. Some (if b = [] then agent_req else again_req)),
     Unmarshal_AgentUnRegisterReq := (\<lambda>_. Some again_bye)\<rparr>\<rparr>\<rparr>"

definition again_call :: RpcCallReq where
  "again_call = \<lparr>RpcCallReq_Data = [], RpcCallReq_URI = ''u'', RpcCallReq_Caller = [],
     RpcCallReq_RequestMode = 0, RpcCallReq_Key = [], RpcCallReq_EntryType = 2\<rparr>"

definition again_s3 :: ClientManager where
  "again_s3 = (let H = objNodeHandler again_env NodeManagerHandler;
     s1 = snd (handleAgentRegister again_env H 104 [] example_ctx agent_a);
     s2 = snd (handleAgentRegister again_env H 104 ''x'' example_ctx s1)
   in snd (handleAgentUnRegister again_env H [] example_ctx s2))"

lemma again_codec:
  "Unmarshal_AgentRegisterReq (ae_pb again_env) b = Some (if b = [] then agent_req else again_req)"
  "Unmarshal_AgentUnRegisterReq (ae_pb again_env) [] = Some again_bye"
  "q \<in> {agent_req, again_req} \<Longrightarrow>
     AgentRegisterReq_Sign q = makeSign_ci again_env (AgentRegisterReq_InstanceID q) (AgentRegisterReq_TimeStamp q)
     \<and> \<not> gt64 104 (AgentRegisterReq_TimeStamp q + ae_SignTimeout again_env)"
  by (auto simp: again_env_def again_req_def agent_env1_def agent_req_def makeSign_ci_def example_env_def gt64_def)

lemma again_key:
  "getUri_ci again_env \<lparr>agent_EntryInfo_URI = ''u'', agent_EntryInfo_EntryType = 2\<rparr> = ''u_RPC''"
  "request_key again_env again_call = ''u_RPC''"
  by (simp_all add: getUri_ci_def request_key_def again_call_def again_env_def agent_env1_def example_env_def lib_stub_def
      agent_EntryType_String_def agent_EntryType_name_def EntryType_String_def EntryType_name_def)

theorem stale_entry_unanswered_witness:
  "\<exists>n. n \<in> serving ''u_RPC'' again_s3 \<and> mget (cm_mClientInfo again_s3) ''c1'' = None
     \<and> call_local again_env agent_choice1 again_call example_ctx again_s3 = (Ret ''agent call fail'', again_s3)"
proof -
  let ?H = "objNodeHandler again_env (cm_objNodeHandler agent_a)"
  let ?r1 = "handleAgentRegister again_env ?H 104 [] example_ctx agent_a"
  let ?r2 = "handleAgentRegister again_env ?H 104 ''x'' example_ctx (snd ?r1)"
  let ?r3 = "handleAgentUnRegister again_env ?H [] example_ctx (snd ?r2)"
  let ?e = "\<lparr>agent_EntryInfo_URI = ''u'', agent_EntryInfo_EntryType = 2\<rparr>"
  have s3: "snd ?r3 = again_s3" by (simp add: again_s3_def Let_def agent_a_parts)
  have q: "Unmarshal_AgentRegisterReq (ae_pb again_env) [] = Some agent_req"
    "Unmarshal_AgentRegisterReq (ae_pb again_env) ''x'' = Some again_req"
    "AgentRegisterReq_InstanceID again_req = AgentRegisterReq_InstanceID agent_req"
    "?e \<in> set (AgentRegisterReq_AryEntry agent_req)" "getUri_ci again_env ?e \<notin> keys_of again_env (AgentRegisterReq_AryEntry again_req)"
    by (simp_all add: again_codec again_req_def agent_req_def)
  have id: "AgentRegisterReq_InstanceID agent_req = ''c1''" by (simp add: agent_req_def)
  note h = stale_entry_unanswered [OF agent_a_reached agent_a_parts(4) example_conn q(1) again_codec(3) q(2) again_codec(3) q(3-5)
      again_codec(2) prod.collapse [symmetric] prod.collapse [symmetric] prod.collapse [symmetric],
      where m = again_call and ctx' = example_ctx and ch = agent_choice1, unfolded s3 again_key id]
  have call: "serving ''u_RPC'' agent_a = {}" by (simp add: agent_a_parts mgets_def)
  from h show ?thesis using call by blast
qed

end
