(* ===== verification/AsyncLog.thy ===== *)
theory AsyncLog
  imports Prelude Complex_Main
begin

text \<open>
  \<^verbatim>\<open>log/asyncfile/log.go\<close> and \<^verbatim>\<open>log/asyncfile/level.go\<close>: log files whose messages wait in
  a queue until a timer has them written.

  The file system is part of the state: a directory from names to inodes and the bytes of
  each inode.  The outcome of each system call is an argument, as are the texts of the
  clock, the random number and the formatted message.  A \<^verbatim>\<open>float32\<close> is only compared, so it
  is the rational number it stands for.
\<close>

section \<open>Levels\<close>

datatype Priority = LevelAll | LevelDebug | LevelInfo | LevelWarn | LevelError | LevelFatal | LevelOff

fun Priority_iota :: "Priority \<Rightarrow> nat" where
  "Priority_iota LevelAll = 0"
| "Priority_iota LevelDebug = 1"
| "Priority_iota LevelInfo = 2"
| "Priority_iota LevelWarn = 3"
| "Priority_iota LevelError = 4"
| "Priority_iota LevelFatal = 5"
| "Priority_iota LevelOff = 6"

lemma Priority_iota_inject: "Priority_iota a = Priority_iota b \<longleftrightarrow> a = b"
  by (cases a; cases b; simp)

instantiation Priority :: linorder
begin

definition less_eq_Priority :: "Priority \<Rightarrow> Priority \<Rightarrow> bool" where
  "less_eq_Priority a b \<longleftrightarrow> Priority_iota a \<le> Priority_iota b"

definition less_Priority :: "Priority \<Rightarrow> Priority \<Rightarrow> bool" where
  "less_Priority a b \<longleftrightarrow> Priority_iota a < Priority_iota b"

instance
  by standard (auto simp: less_eq_Priority_def less_Priority_def Priority_iota_inject)

end

definition levelTitle :: "Priority \<Rightarrow> string" where
  "levelTitle level =
     (case level of
        LevelDebug \<Rightarrow> ''[DEBUG]'' | LevelInfo \<Rightarrow> ''[INFO]'' | LevelWarn \<Rightarrow> ''[WARN]''
      | LevelError \<Rightarrow> ''[ERROR]'' | LevelFatal \<Rightarrow> ''[FATAL]'' | _ \<Rightarrow> '''')"

section \<open>State\<close>

datatype syncStatus = statusInit | statusDoing | statusDone

datatype LogRotate = RotateNone | RotateHour | RotateDate

abbreviation (input) NoFlag :: int where "NoFlag \<equiv> 0"
abbreviation (input) StdFlag :: int where "StdFlag \<equiv> 3"

type_synonym inode = nat

text \<open>\<open>lf_fw\<close> says whether a watcher is set; the start time of a flush is never read.\<close>

record LogFile =
  lf_filename :: string
  lf_flag :: int
  lf_newlinestr :: string
  lf_nDurationMs :: nat
  lf_status :: syncStatus
  lf_level :: Priority
  lf_use :: bool
  lf_data :: "string list"
  lf_datach :: "string list"
  lf_rotate :: LogRotate
  lf_file :: "inode option"
  lf_fw :: bool
  lf_suffix :: string
  lf_probability :: rat

record asyncLogType =
  al_files :: "(string, nat) gomap"
  al_lf :: "nat \<Rightarrow> LogFile"
  al_nNext :: nat
  al_dir :: "(string, inode) gomap"
  al_data :: "inode \<Rightarrow> bytes"
  al_nInode :: nat

definition set_lf :: "nat \<Rightarrow> LogFile \<Rightarrow> asyncLogType \<Rightarrow> asyncLogType" where
  "set_lf l v s = s\<lparr>al_lf := (al_lf s)(l := v)\<rparr>"

text \<open>The capacity of the queue of a log file.\<close>

definition datach_cap :: nat where
  "datach_cap = 100000"

definition NewLogFile :: "string \<Rightarrow> asyncLogType \<Rightarrow> nat \<times> asyncLogType" where
  "NewLogFile filename s =
     (case mget (al_files s) filename of
        Some l \<Rightarrow> (l, s)
      | None \<Rightarrow>
          (let l = al_nNext s;
               lf = \<lparr>lf_filename = filename, lf_flag = StdFlag, lf_newlinestr = [CHR 0x0A], lf_nDurationMs = 1000,
                     lf_status = statusInit, lf_level = LevelAll, lf_use = True, lf_data = [], lf_datach = [],
                     lf_rotate = RotateNone, lf_file = None, lf_fw = False, lf_suffix = '''',
                     lf_probability = 9227469 / 8388608\<rparr>
           in (l, set_lf l lf (s\<lparr>al_nNext := Suc l, al_files := mput filename l (al_files s)\<rparr>))))"

definition NewLevelLog :: "string \<Rightarrow> Priority \<Rightarrow> asyncLogType \<Rightarrow> nat \<times> asyncLogType" where
  "NewLevelLog filename logLevel s =
     (case NewLogFile filename s of
        (l, s1) \<Rightarrow> (l, set_lf l ((al_lf s1 l)\<lparr>lf_level := logLevel\<rparr>) s1))"

definition SetLevel :: "Priority \<Rightarrow> LogFile \<Rightarrow> LogFile" where
  "SetLevel logLevel lf = lf\<lparr>lf_level := logLevel\<rparr>"

definition SetFlags :: "int \<Rightarrow> LogFile \<Rightarrow> LogFile" where
  "SetFlags flag lf = lf\<lparr>lf_flag := flag\<rparr>"

definition SetRotate :: "LogRotate \<Rightarrow> LogFile \<Rightarrow> LogFile" where
  "SetRotate rot lf = lf\<lparr>lf_rotate := rot\<rparr>"

definition SetUseCache :: "bool \<Rightarrow> LogFile \<Rightarrow> LogFile" where
  "SetUseCache useCache lf = lf\<lparr>lf_use := useCache\<rparr>"

definition SetProbability :: "rat \<Rightarrow> LogFile \<Rightarrow> LogFile" where
  "SetProbability probability lf = lf\<lparr>lf_probability := probability\<rparr>"

definition SetNewLineStr :: "string \<Rightarrow> LogFile \<Rightarrow> LogFile" where
  "SetNewLineStr str lf = lf\<lparr>lf_newlinestr := str\<rparr>"

section \<open>Files\<close>

text \<open>The formats of the present time that the code asks for.\<close>

record clock =
  ck_RFC3339 :: string
  ck_Date :: string
  ck_Hour :: string

datatype FsOp = FsCreate | FsRemove | FsRename | FsOther

text \<open>
  What the system answers: whether each of two attempts to open succeeds, whether a
  watcher can be made, the event that waits in the watcher, and for a write \<^term>\<open>None\<close> or
  the number of bytes written before it failed.
\<close>

record sys_result =
  sr_open1 :: bool
  sr_open2 :: bool
  sr_watcher :: bool
  sr_event :: "FsOp option"
  sr_write1 :: "nat option"
  sr_write2 :: "nat option"

text \<open>\<^verbatim>\<open>os.OpenFile\<close> with \<^verbatim>\<open>O_WRONLY | O_CREATE | O_APPEND\<close>.\<close>

definition os_OpenFile :: "bool \<Rightarrow> string \<Rightarrow> asyncLogType \<Rightarrow> inode option \<times> asyncLogType" where
  "os_OpenFile bOk name s =
     (if \<not> bOk then (None, s)
      else case mget (al_dir s) name of
             Some i \<Rightarrow> (Some i, s)
           | None \<Rightarrow> (let i = al_nInode s in
               (Some i, s\<lparr>al_dir := mput name i (al_dir s), al_data := (al_data s)(i := []), al_nInode := Suc i\<rparr>)))"

text \<open>True when the write succeeds.\<close>

definition os_Write :: "nat option \<Rightarrow> inode \<Rightarrow> bytes \<Rightarrow> asyncLogType \<Rightarrow> bool \<times> asyncLogType" where
  "os_Write w i msg s =
     (case w of
        None \<Rightarrow> (True, s\<lparr>al_data := (al_data s)(i := al_data s i @ msg)\<rparr>)
      | Some n \<Rightarrow> (False, s\<lparr>al_data := (al_data s)(i := al_data s i @ take n msg)\<rparr>))"

definition getFilenameSuffix :: "clock \<Rightarrow> LogFile \<Rightarrow> string" where
  "getFilenameSuffix ck lf =
     (case lf_rotate lf of RotateNone \<Rightarrow> '''' | RotateDate \<Rightarrow> ck_Date ck | RotateHour \<Rightarrow> ck_Hour ck)"

definition logFilename :: "clock \<Rightarrow> LogFile \<Rightarrow> string" where
  "logFilename ck lf =
     (let suff = getFilenameSuffix ck lf
      in if suff \<noteq> '''' then lf_filename lf @ ''.'' @ suff else lf_filename lf)"

text \<open>Opening is tried twice.\<close>

definition openFileNoCache ::
  "clock \<Rightarrow> sys_result \<Rightarrow> nat \<Rightarrow> asyncLogType \<Rightarrow> inode option \<times> asyncLogType" where
  "openFileNoCache ck sr l s =
     (let name = logFilename ck (al_lf s l) in
      case os_OpenFile (sr_open1 sr) name s of
        (Some file, s1) \<Rightarrow> (Some file, s1)
      | (None, s1) \<Rightarrow> os_OpenFile (sr_open2 sr) name s1)"

text \<open>
  \<^verbatim>\<open>openFile\<close> keeps the handle while the suffix is the same, unless the watcher reports that
  the file was created, removed or renamed.
\<close>

definition keep_file :: "sys_result \<Rightarrow> string \<Rightarrow> LogFile \<Rightarrow> bool" where
  "keep_file sr suffix lf \<longleftrightarrow>
     suffix = lf_suffix lf \<and> lf_file lf \<noteq> None
   \<and> (lf_fw lf \<longrightarrow>
       (case sr_event sr of
          Some op \<Rightarrow> op \<noteq> FsCreate \<and> op \<noteq> FsRemove \<and> op \<noteq> FsRename
        | None \<Rightarrow> True))"

definition openFile :: "clock \<Rightarrow> sys_result \<Rightarrow> nat \<Rightarrow> asyncLogType \<Rightarrow> inode option \<times> asyncLogType" where
  "openFile ck sr l s =
     (let suffix = getFilenameSuffix ck (al_lf s l) in
      if keep_file sr suffix (al_lf s l) then (lf_file (al_lf s l), s)
      else
        (case openFileNoCache ck sr l s of
           (None, s1) \<Rightarrow> (None, s1)
         | (Some file, s1) \<Rightarrow>
             if \<not> sr_watcher sr then (None, s1)
             else (Some file,
               set_lf l ((al_lf s1 l)\<lparr>lf_file := Some file, lf_suffix := suffix, lf_fw := True\<rparr>) s1)))"

section \<open>Writing\<close>

definition appendCache :: "string \<Rightarrow> nat \<Rightarrow> asyncLogType \<Rightarrow> asyncLogType" where
  "appendCache msg l s = set_lf l ((al_lf s l)\<lparr>lf_data := lf_data (al_lf s l) @ [msg]\<rparr>) s"

text \<open>A message that finds the queue full is dropped.\<close>

definition appendCache2 :: "string \<Rightarrow> nat \<Rightarrow> asyncLogType \<Rightarrow> asyncLogType" where
  "appendCache2 msg l s =
     (if length (lf_datach (al_lf s l)) < datach_cap
      then set_lf l ((al_lf s l)\<lparr>lf_datach := lf_datach (al_lf s l) @ [msg]\<rparr>) s
      else s)"

definition directWrite ::
  "clock \<Rightarrow> sys_result \<Rightarrow> bytes \<Rightarrow> nat \<Rightarrow> asyncLogType \<Rightarrow> bool outcome \<times> asyncLogType" where
  "directWrite ck sr msg l s =
     (case openFile ck sr l s of
        (None, s1) \<Rightarrow> (Panics, s1)
      | (Some file, s1) \<Rightarrow> (case os_Write (sr_write1 sr) file msg s1 of (bOk, s2) \<Rightarrow> (Ret bOk, s2)))"

definition log_line :: "clock \<Rightarrow> LogFile \<Rightarrow> string \<Rightarrow> string" where
  "log_line ck lf msg =
     (if lf_flag lf = StdFlag then ck_RFC3339 ck @ '' '' @ msg @ lf_newlinestr lf else msg @ lf_newlinestr lf)"

definition Write_log ::
  "clock \<Rightarrow> sys_result \<Rightarrow> string \<Rightarrow> nat \<Rightarrow> asyncLogType \<Rightarrow> bool outcome \<times> asyncLogType" where
  "Write_log ck sr msg l s =
     (let msg = log_line ck (al_lf s l) msg
      in if lf_use (al_lf s l) then (Ret True, appendCache2 msg l s) else directWrite ck sr msg l s)"

text \<open>The JSON text is \<^term>\<open>None\<close> when the value cannot be marshalled.\<close>

definition WriteJson ::
  "clock \<Rightarrow> sys_result \<Rightarrow> rat \<Rightarrow> bytes option \<Rightarrow> nat \<Rightarrow> asyncLogType \<Rightarrow> bool outcome \<times> asyncLogType" where
  "WriteJson ck sr rnd data l s =
     (if lf_probability (al_lf s l) < 1 \<and> lf_probability (al_lf s l) < rnd then (Ret True, s)
      else case data of
             None \<Rightarrow> (Ret False, s)
           | Some bts \<Rightarrow>
               let bts = bts @ [CHR 0x0A]
               in if lf_use (al_lf s l) then (Ret True, appendCache2 bts l s) else directWrite ck sr bts l s)"

definition writeLevelMsg ::
  "clock \<Rightarrow> sys_result \<Rightarrow> rat \<Rightarrow> Priority \<Rightarrow> string \<Rightarrow> nat \<Rightarrow> asyncLogType \<Rightarrow> bool outcome \<times> asyncLogType" where
  "writeLevelMsg ck sr rnd level msg l s =
     (if lf_probability (al_lf s l) < 1 \<and> lf_probability (al_lf s l) < rnd then (Ret True, s)
      else if lf_level (al_lf s l) \<le> level then Write_log ck sr (levelTitle level @ '' '' @ msg) l s
      else (Ret True, s))"

definition Debug_lf where "Debug_lf ck sr rnd = writeLevelMsg ck sr rnd LevelDebug"
definition Info_lf where "Info_lf ck sr rnd = writeLevelMsg ck sr rnd LevelInfo"
definition Warn_lf where "Warn_lf ck sr rnd = writeLevelMsg ck sr rnd LevelWarn"
definition Error_lf where "Error_lf ck sr rnd = writeLevelMsg ck sr rnd LevelError"
definition Fatal_lf where "Fatal_lf ck sr rnd = writeLevelMsg ck sr rnd LevelFatal"

section \<open>Flushing\<close>

definition set_status :: "syncStatus \<Rightarrow> nat \<Rightarrow> asyncLogType \<Rightarrow> asyncLogType" where
  "set_status z l s = set_lf l ((al_lf s l)\<lparr>lf_status := z\<rparr>) s"

text \<open>\<^verbatim>\<open>flush\<close> writes the slice of cached messages at once; a failed write is tried again.\<close>

definition flush :: "clock \<Rightarrow> sys_result \<Rightarrow> nat \<Rightarrow> asyncLogType \<Rightarrow> bool outcome \<times> asyncLogType" where
  "flush ck sr l s =
     (case openFileNoCache ck sr l (set_status statusDoing l s) of
        (None, s1) \<Rightarrow> (Panics, set_status statusDone l s1)
      | (Some file, s1) \<Rightarrow>
          (let cache = lf_data (al_lf s1 l);
               s2 = set_lf l ((al_lf s1 l)\<lparr>lf_data := []\<rparr>) s1
           in if cache = [] then (Ret True, set_status statusDone l s2)
              else case os_Write (sr_write1 sr) file (concat cache) s2 of
                     (True, s3) \<Rightarrow> (Ret True, set_status statusDone l s3)
                   | (False, s3) \<Rightarrow>
                       (case os_Write (sr_write2 sr) file (concat cache) s3 of
                          (True, s4) \<Rightarrow> (Ret True, set_status statusDone l s4)
                        | (False, s4) \<Rightarrow> (Panics, set_status statusDone l s4))))"

text \<open>The number of messages one flush may write.\<close>

definition flush_max :: nat where
  "flush_max = 10000"

text \<open>
  The loop of \<^verbatim>\<open>flush2\<close>.  It runs beside the goroutines that log, so before its n-th round
  the messages \<open>env n\<close> are offered to the queue; \<open>wr n\<close> is the result of its n-th write.
  Nothing but the counter ends it while messages keep coming.
\<close>

partial_function (option) flush2_loop ::
  "(nat \<Rightarrow> string list) \<Rightarrow> (nat \<Rightarrow> nat option) \<Rightarrow> nat \<Rightarrow> inode \<Rightarrow> nat \<Rightarrow> asyncLogType
     \<Rightarrow> (bool \<times> asyncLogType) option" where
  "flush2_loop env wr l file count s =
     (let count = count + 1 in
      if flush_max < count then Some (True, s)
      else
        let s1 = forEach (\<lambda>m. appendCache2 m l) (env count) s in
        case lf_datach (al_lf s1 l) of
          [] \<Rightarrow> Some (True, s1)
        | msg # rest \<Rightarrow>
            (case os_Write (wr count) file msg (set_lf l ((al_lf s1 l)\<lparr>lf_datach := rest\<rparr>) s1) of
               (bOk, s2) \<Rightarrow> if bOk then flush2_loop env wr l file count s2 else Some (False, s2)))"

definition flush2 ::
  "clock \<Rightarrow> sys_result \<Rightarrow> (nat \<Rightarrow> string list) \<Rightarrow> (nat \<Rightarrow> nat option) \<Rightarrow> nat \<Rightarrow> asyncLogType
     \<Rightarrow> (bool outcome \<times> asyncLogType) option" where
  "flush2 ck sr env wr l s =
     (case openFileNoCache ck sr l (set_status statusDoing l s) of
        (None, s1) \<Rightarrow> Some (Panics, set_status statusDone l s1)
      | (Some file, s1) \<Rightarrow>
          (case flush2_loop env wr l file 0 s1 of
             None \<Rightarrow> None
           | Some (bOk, s2) \<Rightarrow> Some (Ret bOk, set_status statusDone l s2)))"

text \<open>A tick of the timer starts a flush of every file that is not being flushed.\<close>

definition flush_due :: "asyncLogType \<Rightarrow> nat list" where
  "flush_due s = filter (\<lambda>l. lf_status (al_lf s l) \<noteq> statusDoing) (map snd (al_files s))"

end
