(* ===== verification/AsyncLogProps.thy ===== *)
theory AsyncLogProps
  imports AsyncLog "HOL-Library.Sublist"
begin

text \<open>
  The asynchronous log keeps its promise: a flush always ends, what was accepted reaches
  the file in order, and enough flushes empty the queue.
\<close>

section \<open>Reads after writes\<close>

abbreviation queue :: "asyncLogType \<Rightarrow> nat \<Rightarrow> string list" where
  "queue s l \<equiv> lf_datach (al_lf s l)"

lemma al_simps [simp]:
  "al_lf (set_lf l v s) = (al_lf s)(l := v)" "al_data (set_lf l v s) = al_data s"
  "al_dir (set_lf l v s) = al_dir s" "al_files (set_lf l v s) = al_files s"
  "al_data (appendCache2 m l s) = al_data s" "al_dir (appendCache2 m l s) = al_dir s"
  "al_nInode (set_lf l v s) = al_nInode s"
  by (simp_all add: set_lf_def appendCache2_def)

text \<open>The messages that the queue takes when ms are offered in order.\<close>

definition accepted :: "nat \<Rightarrow> 'a list \<Rightarrow> 'a list" where
  "accepted n ms = take (datach_cap - n) ms"

lemma forEach_appendCache2:
  "queue (forEach (\<lambda>m. appendCache2 m l) ms s) l = queue s l @ accepted (length (queue s l)) ms
   \<and> al_data (forEach (\<lambda>m. appendCache2 m l) ms s) = al_data s
   \<and> al_dir (forEach (\<lambda>m. appendCache2 m l) ms s) = al_dir s"
proof (induction ms arbitrary: s)
  case (Cons m ms)
  show ?case
  proof (cases "length (queue s l) < datach_cap")
    case True
    then have "datach_cap - length (queue s l) = Suc (datach_cap - Suc (length (queue s l)))" by simp
    then show ?thesis
      using True Cons [of "appendCache2 m l s"] by (simp add: accepted_def appendCache2_def)
  next
    case False
    then show ?thesis using Cons [of s] by (simp add: accepted_def appendCache2_def)
  qed
qed (simp add: accepted_def)

section \<open>The loop of a flush\<close>

lemma flush2_loop_end: "flush_max \<le> count \<Longrightarrow> flush2_loop env wr l file count s = Some (True, s)"
  by (subst flush2_loop.simps) (simp add: Let_def)

lemma flush2_loop_step:
  "count < flush_max \<Longrightarrow> flush2_loop env wr l file count s =
     (let s1 = forEach (\<lambda>m. appendCache2 m l) (env (Suc count)) s in
        case queue s1 l of
          [] \<Rightarrow> Some (True, s1)
        | msg # rest \<Rightarrow>
            (case os_Write (wr (Suc count)) file msg (set_lf l ((al_lf s1 l)\<lparr>lf_datach := rest\<rparr>) s1) of
               (bOk, s2) \<Rightarrow> if bOk then flush2_loop env wr l file (Suc count) s2 else Some (False, s2)))"
  by (subst flush2_loop.simps) simp

text \<open>Some counter ends every run of the loop, and it takes at most one message a round.\<close>

lemma flush2_loop_returns:
  "\<exists>bOk t. flush2_loop env wr l file count s = Some (bOk, t)
     \<and> length (queue s l) \<le> length (queue t l) + (flush_max - count)"
proof (induction "flush_max - count" arbitrary: count s)
  case 0
  then show ?case by (intro exI [of _ True]) (simp add: flush2_loop_end)
next
  case (Suc n)
  then have c: "count < flush_max" "n = flush_max - Suc count" by simp_all
  define s1 where "s1 = forEach (\<lambda>m. appendCache2 m l) (env (Suc count)) s"
  have q1: "length (queue s l) \<le> length (queue s1 l)"
    using forEach_appendCache2 [of l "env (Suc count)" s] by (simp add: s1_def)
  show ?case
  proof (cases "queue s1 l")
    case Nil
    then show ?thesis
      using q1 by (intro exI [of _ True]) (simp add: flush2_loop_step [OF c(1)] s1_def [symmetric])
  next
    case (Cons msg rest)
    obtain b s2 where w: "os_Write (wr (Suc count)) file msg (set_lf l ((al_lf s1 l)\<lparr>lf_datach := rest\<rparr>) s1) = (b, s2)"
      by fastforce
    have q2: "queue s2 l = rest" using w by (auto simp: os_Write_def split: option.splits)
    have step: "flush2_loop env wr l file count s =
        (if b then flush2_loop env wr l file (Suc count) s2 else Some (False, s2))"
      using Cons w by (simp add: flush2_loop_step [OF c(1)] s1_def [symmetric] Let_def)
    show ?thesis
    proof (cases b)
      case True
      then show ?thesis using Suc(1) [OF c(2), of s2] c q1 q2 Cons step by fastforce
    next
      case False
      then show ?thesis using q1 q2 Cons step c by auto
    qed
  qed
qed

text \<open>Without failing writes a run of the loop moves messages to the file and keeps their order.\<close>

definition same_log :: "nat \<Rightarrow> asyncLogType \<Rightarrow> asyncLogType \<Rightarrow> bool" where
  "same_log l s t \<longleftrightarrow> al_dir t = al_dir s \<and> al_files t = al_files s
     \<and> (\<exists>q. al_lf t = (al_lf s)(l := (al_lf s l)\<lparr>lf_datach := q\<rparr>))"

lemma same_queue: "queue s l = q \<Longrightarrow> (al_lf s)(l := (al_lf s l)\<lparr>lf_datach := q\<rparr>) = al_lf s"
  by auto

lemma same_log_refl: "same_log l s s"
  unfolding same_log_def using same_queue [OF refl, of s l] by metis

lemma same_log_trans: "same_log l s t \<Longrightarrow> same_log l t u \<Longrightarrow> same_log l s u"
  unfolding same_log_def by fastforce

lemma same_log_offer: "same_log l s (forEach (\<lambda>m. appendCache2 m l) ms s)"
proof (induction ms arbitrary: s)
  case (Cons m ms)
  have "same_log l s (appendCache2 m l s)"
    using same_log_refl by (auto simp: same_log_def appendCache2_def)
  then show ?case using Cons same_log_trans [of l s] by simp
qed (simp add: same_log_refl)

lemma flush2_loop_fifo:
  "\<exists>t acc. flush2_loop env (\<lambda>_. None) l file count s = Some (True, t) \<and> same_log l s t
     \<and> al_data t file @ concat (queue t l) = al_data s file @ concat (queue s l) @ concat acc
     \<and> (\<exists>k. subseq acc (concat (map env [Suc count..<Suc k])))"
proof (induction "flush_max - count" arbitrary: count s)
  case 0
  then show ?case
    by (intro exI [of _ s] exI [of _ "[]"]) (simp add: flush2_loop_end same_log_refl)
next
  case (Suc n)
  then have c: "count < flush_max" "n = flush_max - Suc count" by simp_all
  define ms where "ms = accepted (length (queue s l)) (env (Suc count))"
  define s1 where "s1 = forEach (\<lambda>m. appendCache2 m l) (env (Suc count)) s"
  have s1: "queue s1 l = queue s l @ ms" "al_data s1 = al_data s" "same_log l s s1"
    using forEach_appendCache2 [of l "env (Suc count)" s] same_log_offer by (simp_all add: s1_def ms_def)
  have ms: "subseq ms (env (Suc count))"
    unfolding ms_def accepted_def by (metis append_take_drop_id list_emb_append2 subseq_order.refl subseq_rev_drop_many)
  show ?case
  proof (cases "queue s1 l")
    case Nil
    then show ?thesis
      using s1 ms
      by (intro exI [of _ s1] exI [of _ ms])
        (auto simp: flush2_loop_step [OF c(1)] s1_def [symmetric] intro!: exI [of _ "Suc count"])
  next
    case (Cons msg rest)
    define s2 where "s2 = snd (os_Write None file msg (set_lf l ((al_lf s1 l)\<lparr>lf_datach := rest\<rparr>) s1))"
    have s2: "queue s2 l = rest" "al_data s2 file = al_data s file @ msg" "same_log l s s2"
      using s1 by (auto simp: s2_def os_Write_def same_log_def)
    have step: "flush2_loop env (\<lambda>_. None) l file count s = flush2_loop env (\<lambda>_. None) l file (Suc count) s2"
      using Cons by (simp add: flush2_loop_step [OF c(1)] s1_def [symmetric] Let_def s2_def os_Write_def)
    obtain t acc k where t: "flush2_loop env (\<lambda>_. None) l file (Suc count) s2 = Some (True, t)" "same_log l s2 t"
      "al_data t file @ concat (queue t l) = al_data s2 file @ concat (queue s2 l) @ concat acc"
      "subseq acc (concat (map env [Suc (Suc count)..<Suc k]))"
      using Suc(1) [OF c(2), of s2] by blast
    have "subseq (ms @ acc) (env (Suc count) @ concat (map env [Suc (Suc count)..<Suc k]))"
      using ms t(4) by (rule list_emb_append_mono)
    moreover have "env (Suc count) @ concat (map env [Suc (Suc count)..<Suc k])
        = concat (map env [Suc count..<Suc (max k (Suc count))])"
      by (cases "Suc count \<le> k") (simp_all add: upt_conv_Cons max_def del: upt_Suc)
    moreover have "al_data t file @ concat (queue t l) = al_data s file @ concat (queue s l) @ concat (ms @ acc)"
      using t(3) s2 s1(1) Cons by (metis append.assoc concat.simps(2) concat_append)
    ultimately show ?thesis
      using t(1,2) step same_log_trans [OF s2(3)] by metis
  qed
qed

text \<open>What it does when nobody logs meanwhile.\<close>

lemma flush2_loop_alone:
  "flush2_loop (\<lambda>_. []) (\<lambda>_. None) l file count s =
     Some (True, s\<lparr>al_lf := (al_lf s)(l := (al_lf s l)\<lparr>lf_datach := drop (flush_max - count) (queue s l)\<rparr>),
                   al_data := (al_data s)(file := al_data s file @ concat (take (flush_max - count) (queue s l)))\<rparr>)"
proof (induction "flush_max - count" arbitrary: count s)
  case 0
  then show ?case by (simp add: flush2_loop_end)
next
  case (Suc n)
  then have c: "count < flush_max" "n = flush_max - Suc count" "flush_max - count = Suc n" by simp_all
  show ?case
  proof (cases "queue s l")
    case Nil
    then show ?thesis by (simp add: flush2_loop_step [OF c(1)] same_queue)
  next
    case (Cons msg rest)
    show ?thesis
      using Cons Suc(1) [OF c(2), of "snd (os_Write None file msg (set_lf l ((al_lf s l)\<lparr>lf_datach := rest\<rparr>) s))"]
      by (simp add: flush2_loop_step [OF c(1)] os_Write_def set_lf_def c(3) c(2) [symmetric])
  qed
qed

section \<open>Opening the file\<close>

definition file_text :: "asyncLogType \<Rightarrow> string \<Rightarrow> bytes" where
  "file_text s name = (case mget (al_dir s) name of Some i \<Rightarrow> al_data s i | None \<Rightarrow> [])"

definition opens :: "sys_result \<Rightarrow> bool" where
  "opens sr \<longleftrightarrow> sr_open1 sr \<or> sr_open2 sr"

lemma openFileNoCache_fails: "\<not> opens sr \<Longrightarrow> openFileNoCache ck sr l s = (None, s)"
  by (simp add: opens_def openFileNoCache_def os_OpenFile_def Let_def)

lemma openFileNoCache_opens:
  assumes "opens sr"
  obtains i t where "openFileNoCache ck sr l s = (Some i, t)" "al_lf t = al_lf s" "al_files t = al_files s"
    "mget (al_dir t) (logFilename ck (al_lf s l)) = Some i"
    "al_data t i = file_text s (logFilename ck (al_lf s l))"
proof -
  obtain i t where "openFileNoCache ck sr l s = (Some i, t)"
    using assms by (fastforce simp: opens_def openFileNoCache_def os_OpenFile_def Let_def split: option.splits)
  moreover from this have "al_lf t = al_lf s \<and> al_files t = al_files s
      \<and> mget (al_dir t) (logFilename ck (al_lf s l)) = Some i
      \<and> al_data t i = file_text s (logFilename ck (al_lf s l))"
    using assms
    by (auto simp: openFileNoCache_def os_OpenFile_def Let_def file_text_def split: option.splits if_splits)
  ultimately show thesis using that by blast
qed

lemma logFilename_cong:
  "lf_rotate v = lf_rotate w \<Longrightarrow> lf_filename v = lf_filename w \<Longrightarrow> logFilename ck v = logFilename ck w"
  by (simp add: logFilename_def getFilenameSuffix_def Let_def)

lemma set_status_simps [simp]:
  "al_lf (set_status z l s) = (al_lf s)(l := (al_lf s l)\<lparr>lf_status := z\<rparr>)"
  "al_data (set_status z l s) = al_data s" "al_dir (set_status z l s) = al_dir s"
  "logFilename ck (v\<lparr>lf_status := z\<rparr>) = logFilename ck v" "file_text (set_status z l s) name = file_text s name"
  by (auto simp: set_status_def file_text_def intro: logFilename_cong split: option.split)

section \<open>Properties\<close>

text \<open>
  C24. A flush always returns, also while other goroutines keep logging and whatever the
  file system answers: it takes at most ten thousand messages from the queue and leaves
  the status done.  It panics exactly when the file cannot be opened in two attempts, and
  then loses nothing.
\<close>

theorem flush2_returns:
  "\<exists>z t. flush2 ck sr env wr l s = Some (z, t) \<and> lf_status (al_lf t l) = statusDone
     \<and> length (queue s l) \<le> length (queue t l) + 10000
     \<and> (z = Panics \<longleftrightarrow> \<not> sr_open1 sr \<and> \<not> sr_open2 sr) \<and> (z = Panics \<longrightarrow> queue t l = queue s l)"
proof (cases "opens sr")
  case False
  then show ?thesis
    by (simp add: flush2_def openFileNoCache_fails) (simp add: opens_def)
next
  case True
  obtain i s1 where s1: "openFileNoCache ck sr l (set_status statusDoing l s) = (Some i, s1)"
    "al_lf s1 = al_lf (set_status statusDoing l s)" using openFileNoCache_opens [OF True] by metis
  obtain bOk t where t: "flush2_loop env wr l i 0 s1 = Some (bOk, t)"
    "length (queue s1 l) \<le> length (queue t l) + (flush_max - 0)"
    using flush2_loop_returns by blast
  show ?thesis using s1 t True by (simp add: flush2_def flush_max_def opens_def)
qed

text \<open>The messages of the queue, in the cache instead.\<close>

definition cache_of_queue :: "nat \<Rightarrow> asyncLogType \<Rightarrow> asyncLogType" where
  "cache_of_queue l s = set_lf l ((al_lf s l)\<lparr>lf_data := queue s l, lf_datach := []\<rparr>) s"

lemma cache_of_queue_open:
  "openFileNoCache ck sr l (cache_of_queue l s) = map_prod id (cache_of_queue l) (openFileNoCache ck sr l s)"
proof -
  have name: "logFilename ck (v\<lparr>lf_data := d, lf_datach := q\<rparr>) = logFilename ck v" for v d q
    by (rule logFilename_cong) simp_all
  show ?thesis
    by (auto simp: cache_of_queue_def openFileNoCache_def os_OpenFile_def Let_def name set_lf_def
        split: option.splits)
qed

lemma cache_of_queue_status: "set_status z l (cache_of_queue l s) = cache_of_queue l (set_status z l s)"
  by (cases "al_lf s l") (simp add: cache_of_queue_def set_status_def set_lf_def)


definition ck0 :: clock where
  "ck0 = \<lparr>ck_RFC3339 = ''t'', ck_Date = ''d'', ck_Hour = ''h''\<rparr>"

definition sr0 :: sys_result where
  "sr0 = \<lparr>sr_open1 = True, sr_open2 = True, sr_watcher = True, sr_event = None, sr_write1 = None, sr_write2 = None\<rparr>"

definition log0 :: asyncLogType where
  "log0 = snd (NewLogFile ''f'' \<lparr>al_files = [], al_lf = (\<lambda>_. undefined), al_nNext = 0, al_dir = [],
     al_data = (\<lambda>_. []), al_nInode = 0\<rparr>)"

lemma log0_simps: "queue log0 0 = []" "lf_data (al_lf log0 0) = []" "lf_use (al_lf log0 0)"
  "lf_rotate (al_lf log0 0) = RotateNone" "lf_filename (al_lf log0 0) = ''f''" "lf_newlinestr (al_lf log0 0) = [CHR 0x0A]"
  "al_dir log0 = []"
  by (simp_all add: log0_def NewLogFile_def Let_def)


section \<open>What is logged reaches the file\<close>

text \<open>Operations on one log file, by any goroutines, while the file system works.\<close>

datatype log_op = LogWrite clock string | LogFlush clock "nat \<Rightarrow> string list"

definition log_exec :: "sys_result \<Rightarrow> nat \<Rightarrow> log_op \<Rightarrow> asyncLogType \<Rightarrow> asyncLogType" where
  "log_exec sr l ev s =
     (case ev of
        LogWrite ck msg \<Rightarrow> snd (Write_log ck sr msg l s)
      | LogFlush ck env \<Rightarrow> snd (the (flush2 ck sr env (\<lambda>_. None) l s)))"

text \<open>The messages an operation may hand to the log.\<close>

definition offered :: "LogFile \<Rightarrow> log_op \<Rightarrow> string list set" where
  "offered lf ev =
     (case ev of
        LogWrite ck msg \<Rightarrow> {[log_line ck lf msg]}
      | LogFlush ck env \<Rightarrow> {concat (map env [1..<Suc k]) |k. True})"

text \<open>The specification: a text to which messages are appended.\<close>

definition log_text :: "asyncLogType \<Rightarrow> nat \<Rightarrow> bytes" where
  "log_text s l = file_text s (lf_filename (al_lf s l)) @ concat (queue s l)"

definition plain_log :: "asyncLogType \<Rightarrow> nat \<Rightarrow> bool" where
  "plain_log s l \<longleftrightarrow> lf_rotate (al_lf s l) = RotateNone \<and> lf_use (al_lf s l)"

lemma logFilename_plain: "lf_rotate v = RotateNone \<Longrightarrow> logFilename ck v = lf_filename v"
  by (simp add: logFilename_def getFilenameSuffix_def)

lemma flush2_text:
  assumes "opens sr" "plain_log s l"
  shows "\<exists>z t acc k. flush2 ck sr env (\<lambda>_. None) l s = Some (z, t) \<and> plain_log t l
     \<and> lf_filename (al_lf t l) = lf_filename (al_lf s l)
     \<and> lf_flag (al_lf t l) = lf_flag (al_lf s l) \<and> lf_newlinestr (al_lf t l) = lf_newlinestr (al_lf s l)
     \<and> log_text t l = log_text s l @ concat acc \<and> subseq acc (concat (map env [1..<Suc k]))"
proof -
  have name: "logFilename ck (al_lf (set_status statusDoing l s) l) = lf_filename (al_lf s l)"
    using assms(2) by (simp add: plain_log_def logFilename_plain)
  obtain i s1 where s1: "openFileNoCache ck sr l (set_status statusDoing l s) = (Some i, s1)"
    "al_lf s1 = al_lf (set_status statusDoing l s)" "al_files s1 = al_files (set_status statusDoing l s)"
    "mget (al_dir s1) (lf_filename (al_lf s l)) = Some i"
    "al_data s1 i = file_text (set_status statusDoing l s) (lf_filename (al_lf s l))"
    by (rule openFileNoCache_opens [OF assms(1), of ck l "set_status statusDoing l s", unfolded name])
  obtain t acc k where t: "flush2_loop env (\<lambda>_. None) l i 0 s1 = Some (True, t)" "same_log l s1 t"
    "al_data t i @ concat (queue t l) = al_data s1 i @ concat (queue s1 l) @ concat acc"
    "subseq acc (concat (map env [Suc 0..<Suc k]))"
    using flush2_loop_fifo [of env l i 0 s1] by auto
  have dir: "mget (al_dir t) (lf_filename (al_lf s l)) = Some i" using t(2) s1(4) by (simp add: same_log_def)
  obtain q where lf: "al_lf t l = (al_lf s l)\<lparr>lf_status := statusDoing, lf_datach := q\<rparr>"
    using t(2) s1(2) by (auto simp: same_log_def)
  show ?thesis
    using s1 t dir lf assms(2)
    by (intro exI [of _ "Ret True"] exI [of _ "set_status statusDone l t"] exI [of _ acc] exI [of _ k])
      (simp add: flush2_def log_text_def plain_log_def, simp add: file_text_def)
qed

lemma Write_log_text:
  assumes "plain_log s l" "t = snd (Write_log ck sr msg l s)"
  shows "plain_log t l \<and> lf_filename (al_lf t l) = lf_filename (al_lf s l)
     \<and> lf_flag (al_lf t l) = lf_flag (al_lf s l) \<and> lf_newlinestr (al_lf t l) = lf_newlinestr (al_lf s l)
     \<and> log_text t l = log_text s l @
          (if length (queue s l) < datach_cap then log_line ck (al_lf s l) msg else [])"
proof -
  have "t = appendCache2 (log_line ck (al_lf s l) msg) l s"
    using assms by (simp add: Write_log_def plain_log_def Let_def)
  then show ?thesis
    using assms(1) by (auto simp: plain_log_def log_text_def file_text_def appendCache2_def split: option.split)
qed

lemma flush2_alone:
  assumes "opens sr"
  shows "queue (log_exec sr l (LogFlush ck (\<lambda>_. [])) s) l = drop flush_max (queue s l)"
proof -
  obtain i s1 where s1: "openFileNoCache ck sr l (set_status statusDoing l s) = (Some i, s1)"
    "al_lf s1 = al_lf (set_status statusDoing l s)" using openFileNoCache_opens [OF assms] by metis
  then show ?thesis by (simp add: log_exec_def flush2_def flush2_loop_alone)
qed

lemma log_line_cong:
  "lf_flag v = lf_flag w \<Longrightarrow> lf_newlinestr v = lf_newlinestr w \<Longrightarrow> log_line ck v = log_line ck w"
  by (simp add: log_line_def fun_eq_iff)

lemma offered_cong:
  "lf_flag v = lf_flag w \<Longrightarrow> lf_newlinestr v = lf_newlinestr w \<Longrightarrow> offered v = offered w"
  by (rule ext) (simp add: offered_def log_line_def split: log_op.split)

lemma log_exec_text:
  assumes "opens sr" "plain_log s l" "t = log_exec sr l ev s"
  shows "plain_log t l \<and> offered (al_lf t l) = offered (al_lf s l)
     \<and> lf_filename (al_lf t l) = lf_filename (al_lf s l)
     \<and> (\<exists>acc out. out \<in> offered (al_lf s l) ev \<and> subseq acc out \<and> log_text t l = log_text s l @ concat acc)"
proof (cases ev)
  case (LogWrite ck msg)
  let ?line = "log_line ck (al_lf s l) msg"
  have t: "t = snd (Write_log ck sr msg l s)" by (simp add: assms(3) log_exec_def LogWrite)
  note w = Write_log_text [OF assms(2) t]
  have "\<exists>acc out. out \<in> offered (al_lf s l) ev \<and> subseq acc out \<and> log_text t l = log_text s l @ concat acc"
    using w
    by (intro exI [of _ "if length (queue s l) < datach_cap then [?line] else []"] exI [of _ "[?line]"])
      (auto simp: LogWrite offered_def)
  then show ?thesis
    using w offered_cong [of "al_lf t l" "al_lf s l"] by simp
next
  case (LogFlush ck env)
  obtain z t' acc k where f: "flush2 ck sr env (\<lambda>_. None) l s = Some (z, t')" "plain_log t' l"
     "lf_filename (al_lf t' l) = lf_filename (al_lf s l)"
     "lf_flag (al_lf t' l) = lf_flag (al_lf s l)" "lf_newlinestr (al_lf t' l) = lf_newlinestr (al_lf s l)"
     "log_text t' l = log_text s l @ concat acc" "subseq acc (concat (map env [1..<Suc k]))"
    using flush2_text [OF assms(1,2)] by blast
  have t: "t = t'" using f(1) by (simp add: assms(3) log_exec_def LogFlush)
  have "concat (map env [1..<Suc k]) \<in> offered (al_lf s l) ev" by (auto simp: LogFlush offered_def)
  then show ?thesis
    using f(2-) offered_cong [of "al_lf t' l" "al_lf s l"] unfolding t by blast
qed


lemma log0_plain: "plain_log log0 0"
  by (simp add: plain_log_def log0_simps)


lemma log_writes:
  assumes "plain_log s l" "length (queue s l) + length ms \<le> datach_cap"
    and "t = forEach (\<lambda>(ck, m). log_exec sr l (LogWrite ck m)) ms s"
  shows "plain_log t l \<and> lf_filename (al_lf t l) = lf_filename (al_lf s l)
    \<and> length (queue t l) = length (queue s l) + length ms
    \<and> log_text t l = log_text s l @ concat (map (\<lambda>(ck, m). log_line ck (al_lf s l) m) ms)"
  using assms
proof (induction ms arbitrary: s)
  case (Cons cm ms)
  obtain ck m where cm: "cm = (ck, m)" by fastforce
  let ?u = "log_exec sr l (LogWrite ck m) s"
  have u: "?u = snd (Write_log ck sr m l s)" by (simp add: log_exec_def)
  have room: "length (queue s l) < datach_cap" using Cons.prems(2) by simp
  note w = Write_log_text [OF Cons.prems(1) u]
  have q: "length (queue ?u l) = Suc (length (queue s l))"
    using Cons.prems(1) room by (simp add: u Write_log_def plain_log_def Let_def appendCache2_def)
  have line: "log_line ck' (al_lf ?u l) = log_line ck' (al_lf s l)" for ck'
    using w by (intro log_line_cong) simp_all
  show ?case
    using Cons.IH [of ?u] Cons.prems(2,3) w q room by (simp add: cm line)
qed simp

lemma flushes_drain:
  assumes "plain_log s l" "opens sr" "length (queue s l) \<le> flush_max * length cks"
    and "t = forEach (\<lambda>ck. log_exec sr l (LogFlush ck (\<lambda>_. []))) cks s"
  shows "queue t l = [] \<and> lf_filename (al_lf t l) = lf_filename (al_lf s l) \<and> log_text t l = log_text s l"
  using assms
proof (induction cks arbitrary: s)
  case (Cons ck cks)
  let ?u = "log_exec sr l (LogFlush ck (\<lambda>_. [])) s"
  note u = log_exec_text [OF Cons.prems(2,1) refl, of "LogFlush ck (\<lambda>_. [])"]
  have empty: "concat (map (\<lambda>_. []) ns) = []" for ns :: "nat list" by (induction ns) simp_all
  have "log_text ?u l = log_text s l" using u by (auto simp: offered_def empty dest!: list_emb_Nil2)
  moreover have "length (queue ?u l) \<le> flush_max * length cks"
    using Cons.prems(3) by (simp add: flush2_alone [OF Cons.prems(2)])
  ultimately show ?case using Cons.IH [of ?u] Cons.prems(2,4) u by simp
qed simp

text \<open>
  Every message reaches its file: messages that are logged while the queue has room
  for them are in the file, after what waited before them and in order, once the timer has
  flushed often enough, ten thousand messages a time.
\<close>

lemma logged_reaches_file:
  assumes "plain_log s l" "sr_open1 sr \<or> sr_open2 sr"
    and "length (queue s l) + length ms \<le> 100000"
    and "length (queue s l) + length ms \<le> 10000 * length cks"
  defines "t \<equiv> forEach (\<lambda>ck. log_exec sr l (LogFlush ck (\<lambda>_. []))) cks
                 (forEach (\<lambda>(ck, m). log_exec sr l (LogWrite ck m)) ms s)"
  shows "queue t l = [] \<and> file_text t (lf_filename (al_lf s l))
      = log_text s l @ concat (map (\<lambda>(ck, m). log_line ck (al_lf s l) m) ms)"
proof -
  have op: "opens sr" using assms(2) by (simp add: opens_def)
  have room: "length (queue s l) + length ms \<le> datach_cap" using assms(3) by (simp add: datach_cap_def)
  note w = log_writes [OF assms(1) room refl, of sr]
  define u where "u = forEach (\<lambda>(ck, m). log_exec sr l (LogWrite ck m)) ms s"
  have "plain_log u l" "length (queue u l) \<le> flush_max * length cks"
    using w assms(4) by (simp_all add: u_def flush_max_def)
  note f = flushes_drain [OF this(1) op this(2) refl]
  show ?thesis using f w by (auto simp: t_def u_def log_text_def)
qed

lemma logged_reaches_file_example:
  "file_text (forEach (\<lambda>ck. log_exec sr0 0 (LogFlush ck (\<lambda>_. []))) [ck0]
      (forEach (\<lambda>(ck, m). log_exec sr0 0 (LogWrite ck m)) [(ck0, ''m'')] log0)) ''f'' = ''t m'' @ [CHR 0x0A]"
proof -
  have "log_text log0 0 = []" by (simp add: log_text_def file_text_def log0_simps)
  moreover have "log_line ck0 (al_lf log0 0) ''m'' = ''t m'' @ [CHR 0x0A]"
    by (simp add: log_line_def ck0_def log0_def NewLogFile_def Let_def)
  ultimately show ?thesis
    using logged_reaches_file [OF log0_plain, of sr0 "[(ck0, ''m'')]" "[ck0]"]
    by (simp add: sr0_def log0_simps)
qed

theorem flush2_returns_witness:
  "lf_status (al_lf (snd (the (flush2 ck0 sr0 (\<lambda>n. [''x'']) (\<lambda>_. None) 0 log0))) 0) = statusDone"
  using flush2_returns [of ck0 sr0 "\<lambda>n. [''x'']" "\<lambda>_. None" 0 log0] by auto

end
