(* ===== verification/GoText.thy ===== *)
theory GoText
  imports GoLib
begin

text \<open>
  Text functions of the Go standard library: \<^verbatim>\<open>strings.ToLower\<close>, \<^verbatim>\<open>strings.Title\<close>,
  \<^verbatim>\<open>strings.Split\<close> and \<^verbatim>\<open>path.Join\<close> with \<^verbatim>\<open>path.Clean\<close> (on Unix the same as in
  \<^verbatim>\<open>path/filepath\<close>).
\<close>

section \<open>Case\<close>

text \<open>The two functions on ASCII text; bytes of longer characters count as letters and stay.\<close>

definition ToLower_char :: "char \<Rightarrow> char" where
  "ToLower_char c = (let n = of_char c :: nat in if 65 \<le> n \<and> n \<le> 90 then char_of (n + 32) else c)"

definition ToLower :: "string \<Rightarrow> string" where
  "ToLower s = map ToLower_char s"

definition ToTitle_char :: "char \<Rightarrow> char" where
  "ToTitle_char c = (let n = of_char c :: nat in if 97 \<le> n \<and> n \<le> 122 then char_of (n - 32) else c)"

text \<open>\<^verbatim>\<open>isSeparator\<close>: letters, digits and the underscore are not.\<close>

definition isSeparator :: "char \<Rightarrow> bool" where
  "isSeparator c = (let n = of_char c :: nat in
     \<not> (48 \<le> n \<and> n \<le> 57 \<or> 65 \<le> n \<and> n \<le> 90 \<or> 97 \<le> n \<and> n \<le> 122 \<or> n = 95 \<or> 128 \<le> n))"

fun Title_after :: "char \<Rightarrow> string \<Rightarrow> string" where
  "Title_after prev [] = []"
| "Title_after prev (c # cs) = (if isSeparator prev then ToTitle_char c else c) # Title_after c cs"

definition Title :: "string \<Rightarrow> string" where
  "Title s = Title_after (CHR '' '') s"

text \<open>An identifier is capitalised in its first letter only.\<close>

lemma Title_after_word: "\<not> isSeparator p \<Longrightarrow> \<forall>c\<in>set s. \<not> isSeparator c \<Longrightarrow> Title_after p s = s"
  by (induction s arbitrary: p) auto

lemma Title_identifier:
  assumes "\<forall>c\<in>set s. \<not> isSeparator c"
  shows "Title s = (case s of [] \<Rightarrow> [] | c # cs \<Rightarrow> ToTitle_char c # cs)"
proof (cases s)
  case (Cons c cs)
  have "isSeparator (CHR '' '')" by code_simp
  then show ?thesis using assms Title_after_word [of c cs] by (simp add: Title_def Cons)
qed (simp add: Title_def)

section \<open>Splitting and joining\<close>

text \<open>\<^verbatim>\<open>strings.Split\<close> at a separator of one byte; there is always one part at least.\<close>

fun Split :: "char \<Rightarrow> string \<Rightarrow> string list" where
  "Split sep [] = [[]]"
| "Split sep (c # cs) =
     (if c = sep then [] # Split sep cs
      else (case Split sep cs of [] \<Rightarrow> [[c]] | p # ps \<Rightarrow> (c # p) # ps))"

lemma Split_not_Nil [simp]: "Split sep s \<noteq> []"
  by (cases "(sep, s)" rule: Split.cases) (auto split: list.split)

lemma Split_no_sep: "sep \<notin> set s \<Longrightarrow> Split sep s = [s]"
  by (induction s) auto

lemma Split_append_sep: "Split sep (s @ sep # t) = Split sep s @ Split sep t"
proof (induction s)
  case (Cons c s)
  obtain p ps where "Split sep s = p # ps" by (meson Split_not_Nil neq_Nil_conv)
  then show ?case using Cons by simp
qed simp

lemma last_Split: "sep \<notin> set t \<Longrightarrow> last (Split sep (s @ sep # t)) = t"
  by (simp add: Split_append_sep Split_no_sep)

lemma sep_notin_Split: "p \<in> set (Split sep s) \<Longrightarrow> sep \<notin> set p"
  by (induction s arbitrary: p) (auto split: if_splits list.splits)

definition strings_Join :: "string list \<Rightarrow> char \<Rightarrow> string" where
  "strings_Join elem sep = (case elem of [] \<Rightarrow> [] | x # xs \<Rightarrow> x @ concat (map (\<lambda>y. sep # y) xs))"

lemma Join_Split: "strings_Join (Split sep s) sep = s"
proof (induction s)
  case (Cons c s)
  obtain p ps where "Split sep s = p # ps" by (meson Split_not_Nil neq_Nil_conv)
  then show ?case using Cons by (simp add: strings_Join_def)
qed (simp add: strings_Join_def)

section \<open>Paths\<close>

text \<open>\<^verbatim>\<open>path.Clean\<close>: the elements of the result, in reverse order.\<close>

fun clean_elems :: "bool \<Rightarrow> string list \<Rightarrow> string list \<Rightarrow> string list" where
  "clean_elems rooted out [] = out"
| "clean_elems rooted out (e # es) =
     (if e = '''' \<or> e = ''.'' then clean_elems rooted out es
      else if e = ''..'' then
        (case out of
           [] \<Rightarrow> clean_elems rooted (if rooted then [] else [''..'']) es
         | o1 # out' \<Rightarrow> clean_elems rooted (if o1 = ''..'' then ''..'' # out else out') es)
      else clean_elems rooted (e # out) es)"

definition path_Clean :: "string \<Rightarrow> string" where
  "path_Clean p =
     (let rooted = (p \<noteq> [] \<and> hd p = CHR ''/'');
          t = (if rooted then ''/'' else '''') @ strings_Join (rev (clean_elems rooted [] (Split (CHR ''/'') p))) (CHR ''/'')
      in if t = '''' then ''.'' else t)"

definition path_Join :: "string list \<Rightarrow> string" where
  "path_Join elem =
     (let es = dropWhile (\<lambda>e. e = '''') elem
      in if es = [] then '''' else path_Clean (strings_Join es (CHR ''/'')))"

lemma path_Join_examples:
  "path_Join [''./'', ''/demo.nbagent.go''] = ''demo.nbagent.go''"
  "path_Join [''/go'', ''src'', ''a/../b''] = ''/go/src/b''"
  "path_Join ['''', ''src'', ''a''] = ''src/a''"
  by code_simp+

end
