(* ===== verification/LogFront.thy ===== *)
theory LogFront
  imports AsyncLogProps GoText
begin

text \<open>
  The front end of \<^verbatim>\<open>log\<close>: its options (\<^verbatim>\<open>logconf.go\<close>), the three targets (\<^verbatim>\<open>asyncfile.go\<close>,
  \<^verbatim>\<open>syslog.go\<close>, \<^verbatim>\<open>stdout.go\<close>), the choice among them (\<^verbatim>\<open>loginiter.go\<close>), the functions the
  program logs with (\<^verbatim>\<open>logger.go\<close>) and the session log (\<^verbatim>\<open>sessionlog.go\<close>).

  The package \<^verbatim>\<open>zap\<close> is third-party code and the record \<^verbatim>\<open>zap\<close>: encoders, fields, what a
  configuration builds, and \<^verbatim>\<open>Log\<close>, the method of a logger for a level, which gets the
  operations \<^verbatim>\<open>Check\<close> and \<^verbatim>\<open>Write\<close> of the core as arguments.  \<^verbatim>\<open>zap_ok\<close> states what is
  documented of it.  An atomic level is a cell that its holders share.  \<^verbatim>\<open>Sprintf\<close> and
  \<^verbatim>\<open>Sprint\<close> hand over their result; system calls and the syslog daemon are arguments.
\<close>

section \<open>Levels and the parts of zap that the code uses\<close>

abbreviation (input) DebugLevel :: int where "DebugLevel \<equiv> -1"
abbreviation (input) InfoLevel :: int where "InfoLevel \<equiv> 0"
abbreviation (input) WarnLevel :: int where "WarnLevel \<equiv> 1"
abbreviation (input) ErrorLevel :: int where "ErrorLevel \<equiv> 2"
abbreviation (input) DPanicLevel :: int where "DPanicLevel \<equiv> 3"
abbreviation (input) PanicLevel :: int where "PanicLevel \<equiv> 4"
abbreviation (input) FatalLevel :: int where "FatalLevel \<equiv> 5"

text \<open>A call to log returns, panics, or ends the process.\<close>

datatype log_end = LogReturns | LogPanics | LogExits

text \<open>What logging changes: the asynchronous files, the cells of levels, the syslog and stdout.\<close>

record log_world =
  lw_async :: asyncLogType
  lw_level :: "nat \<Rightarrow> int"
  lw_next :: nat
  lw_syslog :: "(string \<times> string) list"
  lw_stdout :: "string list"

record ('c, 'e, 'f, 'n) zap =
  z_NewJSONEncoder :: 'e
  z_NewConsoleEncoder :: 'e
  z_AddTo :: "'f \<Rightarrow> 'e \<Rightarrow> 'e"
  z_EncodeEntry :: "'e \<Rightarrow> 'n \<Rightarrow> 'f list \<Rightarrow> string option"
  z_Int :: "string \<Rightarrow> int \<Rightarrow> 'f"
  z_String :: "string \<Rightarrow> string \<Rightarrow> 'f"
  z_Level :: "'n \<Rightarrow> int"
  z_UnmarshalText :: "string \<Rightarrow> int option"
  z_Log :: "clock \<Rightarrow> bool \<Rightarrow> int \<Rightarrow> int \<Rightarrow> string \<Rightarrow> 'f list \<Rightarrow> ('n \<Rightarrow> log_world \<Rightarrow> bool)
      \<Rightarrow> ('n \<Rightarrow> 'f list \<Rightarrow> log_world \<Rightarrow> unit outcome \<times> log_world) \<Rightarrow> log_world \<Rightarrow> log_end \<times> log_world"
  z_Build :: "bool \<Rightarrow> string \<Rightarrow> string list \<Rightarrow> 'c option"
  z_ConfigLevel :: "bool \<Rightarrow> int"
  z_CoreWith :: "'f list \<Rightarrow> 'c \<Rightarrow> 'c"
  z_CoreLine :: "'c \<Rightarrow> 'n \<Rightarrow> 'f list \<Rightarrow> string option"

text \<open>After a message the logger panics or exits by its level, also when the level is disabled.\<close>

definition log_end_of :: "bool \<Rightarrow> int \<Rightarrow> log_end" where
  "log_end_of development level =
     (if level = PanicLevel \<or> level = DPanicLevel \<and> development then LogPanics
      else if level = FatalLevel then LogExits else LogReturns)"

text \<open>
  The documentation of zap: a logger makes an entry of the message, which has its level, asks
  \<^verbatim>\<open>Check\<close>, and only then calls \<^verbatim>\<open>Write\<close> with the entry and the fields of the call.  The names of
  the levels are parsed.
\<close>

definition zap_ok :: "('c, 'e, 'f, 'n) zap \<Rightarrow> (clock \<Rightarrow> int \<Rightarrow> int \<Rightarrow> string \<Rightarrow> 'n) \<Rightarrow> bool" where
  "zap_ok Z entry \<longleftrightarrow>
     (\<forall>ck skip level msg. z_Level Z (entry ck skip level msg) = level) \<and>
     (\<forall>ck dev skip level msg flds check write w.
        z_Log Z ck dev skip level msg flds check write w =
          (if check (entry ck skip level msg) w
           then (case write (entry ck skip level msg) flds w of
                   (Ret _, w') \<Rightarrow> (log_end_of dev level, w')
                 | (Panics, w') \<Rightarrow> (LogPanics, w'))
           else (log_end_of dev level, w))) \<and>
     z_UnmarshalText Z ''debug'' = Some DebugLevel \<and> z_UnmarshalText Z ''info'' = Some InfoLevel \<and>
     z_UnmarshalText Z ''warn'' = Some WarnLevel \<and> z_UnmarshalText Z ''error'' = Some ErrorLevel \<and>
     z_UnmarshalText Z ''fatal'' = Some FatalLevel"

section \<open>Options\<close>

record logConf =
  lc_testenv :: bool
  lc_processName :: string
  lc_withPid :: bool
  lc_logPath :: string
  lc_listenAddr :: string
  lc_encodeing :: string
  lc_targetName :: string
  lc_logFilePath :: string
  lc_logFileRotate :: string
  lc_HostName :: string
  lc_ElkTemplateName :: string

text \<open>The argument is \<^verbatim>\<open>path.Base(os.Args[0])\<close>.\<close>

definition defaultLogOptions :: "string \<Rightarrow> logConf" where
  "defaultLogOptions base =
     \<lparr>lc_testenv = False, lc_processName = base, lc_withPid = True, lc_logPath = ''/log'',
      lc_listenAddr = ''127.0.0.1:0'', lc_encodeing = ''json'', lc_targetName = ''syslog'',
      lc_logFilePath = ''../log'', lc_logFileRotate = '''', lc_HostName = '''', lc_ElkTemplateName = base\<rparr>"

type_synonym logOption = "logConf \<Rightarrow> logConf"

definition ListenAddr :: "string \<Rightarrow> logOption" where
  "ListenAddr addr option = option\<lparr>lc_listenAddr := addr\<rparr>"

definition LogApiPath :: "string \<Rightarrow> logOption" where
  "LogApiPath apipath option = option\<lparr>lc_logPath := apipath\<rparr>"

definition SetTarget :: "string \<Rightarrow> logOption" where
  "SetTarget name option = option\<lparr>lc_targetName := name\<rparr>"

definition LogFilePath :: "string \<Rightarrow> logOption" where
  "LogFilePath path option = option\<lparr>lc_logFilePath := path\<rparr>"

definition LogFileRotate :: "string \<Rightarrow> logOption" where
  "LogFileRotate r option =
     (if r = ''hour'' \<or> r = ''date'' then option\<lparr>lc_logFileRotate := r\<rparr> else option)"

definition SetEncode :: "string \<Rightarrow> logOption" where
  "SetEncode enc option = option\<lparr>lc_encodeing := enc\<rparr>"

definition WithPid :: "bool \<Rightarrow> logOption" where
  "WithPid yes option = option\<lparr>lc_withPid := yes\<rparr>"

definition ProcessName :: "string \<Rightarrow> logOption" where
  "ProcessName pname option = option\<lparr>lc_processName := pname\<rparr>"

definition TestEnv :: "bool \<Rightarrow> logOption" where
  "TestEnv yes option = option\<lparr>lc_testenv := yes\<rparr>"

definition HostName :: "string \<Rightarrow> logOption" where
  "HostName hostname option = option\<lparr>lc_HostName := hostname\<rparr>"

definition ElkTmeplateName :: "string \<Rightarrow> logOption" where
  "ElkTmeplateName name option = option\<lparr>lc_ElkTemplateName := name\<rparr>"

section \<open>Cores\<close>

text \<open>
  The two cores of the code and those zap builds itself.  A core refers to the cell of its
  level; a core for files to the log file.  The list \<^verbatim>\<open>fields\<close> of both is never used.
\<close>

record 'e filecore =
  fc_LevelEnabler :: nat
  fc_encoder :: 'e
  fc_logfile :: nat

record 'e syscore =
  sc_LevelEnabler :: nat
  sc_encoder :: 'e

datatype ('c, 'e) Core = CoreFile "'e filecore" | CoreSyslog "'e syscore" | CoreBuilt nat 'c

definition newFileCore :: "nat \<Rightarrow> 'e \<Rightarrow> nat \<Rightarrow> 'e filecore" where
  "newFileCore enab encoder logfile =
     \<lparr>fc_LevelEnabler = enab, fc_encoder = encoder, fc_logfile = logfile\<rparr>"

definition newCore :: "nat \<Rightarrow> 'e \<Rightarrow> 'e syscore" where
  "newCore enab encoder = \<lparr>sc_LevelEnabler = enab, sc_encoder = encoder\<rparr>"

definition With_file :: "('c, 'e, 'f, 'n) zap \<Rightarrow> 'f list \<Rightarrow> 'e filecore \<Rightarrow> 'e filecore" where
  "With_file Z flds core = core\<lparr>fc_encoder := forEach (z_AddTo Z) flds (fc_encoder core)\<rparr>"

definition With_syslog :: "('c, 'e, 'f, 'n) zap \<Rightarrow> 'f list \<Rightarrow> 'e syscore \<Rightarrow> 'e syscore" where
  "With_syslog Z flds core = core\<lparr>sc_encoder := forEach (z_AddTo Z) flds (sc_encoder core)\<rparr>"

definition Check_file :: "('c, 'e, 'f, 'n) zap \<Rightarrow> 'n \<Rightarrow> 'e filecore \<Rightarrow> log_world \<Rightarrow> bool" where
  "Check_file Z entry core w \<longleftrightarrow> lw_level w (fc_LevelEnabler core) \<le> z_Level Z entry"

definition Check_syslog :: "('c, 'e, 'f, 'n) zap \<Rightarrow> 'n \<Rightarrow> 'e syscore \<Rightarrow> log_world \<Rightarrow> bool" where
  "Check_syslog Z entry core w \<longleftrightarrow> lw_level w (sc_LevelEnabler core) \<le> z_Level Z entry"

text \<open>An entry that cannot be encoded is an error that zap reports; nothing is written.\<close>

definition Write_file ::
  "('c, 'e, 'f, 'n) zap \<Rightarrow> clock \<Rightarrow> sys_result \<Rightarrow> 'n \<Rightarrow> 'f list \<Rightarrow> 'e filecore \<Rightarrow> log_world
     \<Rightarrow> unit outcome \<times> log_world" where
  "Write_file Z ck sr entry flds core w =
     (case z_EncodeEntry Z (fc_encoder core) entry flds of
        None \<Rightarrow> (Ret (), w)
      | Some buffer \<Rightarrow>
          (case Write_log ck sr buffer (fc_logfile core) (lw_async w) of
             (Ret _, a) \<Rightarrow> (Ret (), w\<lparr>lw_async := a\<rparr>)
           | (Panics, a) \<Rightarrow> (Panics, w\<lparr>lw_async := a\<rparr>)))"

text \<open>The severity with which the syslog gets an entry; other levels are an error.\<close>

definition syslog_severity :: "int \<Rightarrow> string option" where
  "syslog_severity level =
     (if level = DebugLevel then Some ''Debug''
      else if level = InfoLevel then Some ''Info''
      else if level = WarnLevel then Some ''Warning''
      else if level = ErrorLevel then Some ''Err''
      else if level = DPanicLevel \<or> level = PanicLevel \<or> level = FatalLevel then Some ''Crit''
      else None)"

definition Write_syslog ::
  "('c, 'e, 'f, 'n) zap \<Rightarrow> 'n \<Rightarrow> 'f list \<Rightarrow> 'e syscore \<Rightarrow> log_world \<Rightarrow> unit outcome \<times> log_world" where
  "Write_syslog Z entry flds core w =
     (case z_EncodeEntry Z (sc_encoder core) entry flds of
        None \<Rightarrow> (Ret (), w)
      | Some message \<Rightarrow>
          (case syslog_severity (z_Level Z entry) of
             None \<Rightarrow> (Ret (), w)
           | Some severity \<Rightarrow> (Ret (), w\<lparr>lw_syslog := lw_syslog w @ [(severity, message)]\<rparr>)))"

section \<open>Loggers\<close>

text \<open>A logger of zap: its core, the number of callers to skip, and whether it is for development.\<close>

record ('c, 'e) Logger =
  lg_core :: "('c, 'e) Core"
  lg_skip :: int
  lg_development :: bool

definition core_With :: "('c, 'e, 'f, 'n) zap \<Rightarrow> 'f list \<Rightarrow> ('c, 'e) Core \<Rightarrow> ('c, 'e) Core" where
  "core_With Z flds core =
     (case core of
        CoreFile c \<Rightarrow> CoreFile (With_file Z flds c)
      | CoreSyslog c \<Rightarrow> CoreSyslog (With_syslog Z flds c)
      | CoreBuilt lv c \<Rightarrow> CoreBuilt lv (z_CoreWith Z flds c))"

definition core_Check :: "('c, 'e, 'f, 'n) zap \<Rightarrow> ('c, 'e) Core \<Rightarrow> 'n \<Rightarrow> log_world \<Rightarrow> bool" where
  "core_Check Z core entry w =
     (case core of
        CoreFile c \<Rightarrow> Check_file Z entry c w
      | CoreSyslog c \<Rightarrow> Check_syslog Z entry c w
      | CoreBuilt lv c \<Rightarrow> lw_level w lv \<le> z_Level Z entry)"

definition core_Write ::
  "('c, 'e, 'f, 'n) zap \<Rightarrow> clock \<Rightarrow> sys_result \<Rightarrow> ('c, 'e) Core \<Rightarrow> 'n \<Rightarrow> 'f list \<Rightarrow> log_world
     \<Rightarrow> unit outcome \<times> log_world" where
  "core_Write Z ck sr core entry flds w =
     (case core of
        CoreFile c \<Rightarrow> Write_file Z ck sr entry flds c w
      | CoreSyslog c \<Rightarrow> Write_syslog Z entry flds c w
      | CoreBuilt lv c \<Rightarrow>
          (case z_CoreLine Z c entry flds of
             None \<Rightarrow> (Ret (), w)
           | Some line \<Rightarrow> (Ret (), w\<lparr>lw_stdout := lw_stdout w @ [line]\<rparr>)))"

definition Logger_With :: "('c, 'e, 'f, 'n) zap \<Rightarrow> 'f list \<Rightarrow> ('c, 'e) Logger \<Rightarrow> ('c, 'e) Logger" where
  "Logger_With Z flds lg = lg\<lparr>lg_core := core_With Z flds (lg_core lg)\<rparr>"

definition Logger_log ::
  "('c, 'e, 'f, 'n) zap \<Rightarrow> clock \<Rightarrow> sys_result \<Rightarrow> int \<Rightarrow> string \<Rightarrow> 'f list \<Rightarrow> ('c, 'e) Logger \<Rightarrow> log_world
     \<Rightarrow> log_end \<times> log_world" where
  "Logger_log Z ck sr level msg flds lg w =
     z_Log Z ck (lg_development lg) (lg_skip lg) level msg flds
       (core_Check Z (lg_core lg)) (core_Write Z ck sr (lg_core lg)) w"


section \<open>Building a logger for each target\<close>

text \<open>
  What the system answers while a logger is built: whether the path of the log files is
  missing and can be made, whether the syslog is there, and the number of the process.
\<close>

record init_env =
  ie_missing :: bool
  ie_mkdir :: bool
  ie_syslog :: bool
  ie_pid :: int
  ie_base :: string

definition NewAtomicLevelAt :: "int \<Rightarrow> log_world \<Rightarrow> nat \<times> log_world" where
  "NewAtomicLevelAt level w =
     (lw_next w, w\<lparr>lw_level := (lw_level w)(lw_next w := level), lw_next := Suc (lw_next w)\<rparr>)"

definition logfilename :: "logConf \<Rightarrow> string" where
  "logfilename config =
     (if lc_logFilePath config \<noteq> ''''
      then lc_logFilePath config @ ''/'' @ lc_processName config @ ''.log''
      else lc_processName config @ ''.log'')"

definition rotate_of :: "string \<Rightarrow> LogFile \<Rightarrow> LogFile" where
  "rotate_of r lf =
     (if r = ''date'' then SetRotate RotateDate lf
      else if r = ''hour'' then SetRotate RotateHour lf else lf)"

definition encoder_of :: "('c, 'e, 'f, 'n) zap \<Rightarrow> logConf \<Rightarrow> 'e" where
  "encoder_of Z config =
     (if lc_encodeing config = ''console'' then z_NewConsoleEncoder Z else z_NewJSONEncoder Z)"

definition loginit_file ::
  "('c, 'e, 'f, 'n) zap \<Rightarrow> init_env \<Rightarrow> logConf \<Rightarrow> log_world \<Rightarrow> (nat \<times> ('c, 'e) Logger) option \<times> log_world" where
  "loginit_file Z env config w =
     (if lc_logFilePath config \<noteq> '''' \<and> ie_missing env \<and> \<not> ie_mkdir env then (None, w)
      else
        (case NewLogFile (logfilename config) (lw_async w) of
           (l, a1) \<Rightarrow>
             (let lf1 = rotate_of (lc_logFileRotate config) (al_lf a1 l);
                  lf2 = SetFlags NoFlag lf1;
                  lf3 = SetNewLineStr '''' lf2;
                  encoder = encoder_of Z config
              in case NewAtomicLevelAt (if lc_testenv config then DebugLevel else InfoLevel)
                        (w\<lparr>lw_async := set_lf l lf3 a1\<rparr>) of
                   (llevel, w2) \<Rightarrow>
                     (Some (llevel, \<lparr>lg_core = CoreFile (newFileCore llevel encoder l), lg_skip = 0,
                                     lg_development = False\<rparr>), w2))))"

definition loginit_syslog ::
  "('c, 'e, 'f, 'n) zap \<Rightarrow> init_env \<Rightarrow> logConf \<Rightarrow> log_world \<Rightarrow> (nat \<times> ('c, 'e) Logger) option \<times> log_world" where
  "loginit_syslog Z env config w =
     (if \<not> ie_syslog env then (None, w)
      else
        (let encoder = encoder_of Z config in
         case NewAtomicLevelAt (if lc_testenv config then DebugLevel else InfoLevel) w of
           (llevel, w1) \<Rightarrow>
             (Some (llevel, \<lparr>lg_core = CoreSyslog (newCore llevel encoder), lg_skip = 0,
                             lg_development = False\<rparr>), w1)))"

text \<open>
  Zap builds the core for the standard output; with an encoding it does not know it fails.
  A configuration for development makes a logger for development.
\<close>

definition loginit_std ::
  "('c, 'e, 'f, 'n) zap \<Rightarrow> logConf \<Rightarrow> log_world \<Rightarrow> (nat \<times> ('c, 'e) Logger) option \<times> log_world" where
  "loginit_std Z config w =
     (case z_Build Z (lc_testenv config) (lc_encodeing config) [''stdout''] of
        None \<Rightarrow> (None, w)
      | Some c \<Rightarrow>
          (case NewAtomicLevelAt (z_ConfigLevel Z (lc_testenv config)) w of
             (llevel, w1) \<Rightarrow>
               (Some (llevel, \<lparr>lg_core = CoreBuilt llevel c, lg_skip = 0,
                               lg_development = lc_testenv config\<rparr>), w1)))"

text \<open>
  On Windows the target \<^verbatim>\<open>syslog\<close> is the standard output with another format of times, which
  the parameter does not see; \<^verbatim>\<open>macZapLogInit\<close>, which nothing uses, logs for production where
  zap does by default.
\<close>

definition loginit_syslog_win ::
  "('c, 'e, 'f, 'n) zap \<Rightarrow> logConf \<Rightarrow> log_world \<Rightarrow> (nat \<times> ('c, 'e) Logger) option \<times> log_world" where
  "loginit_syslog_win Z config w =
     (case z_Build Z (lc_testenv config) (lc_encodeing config) [''stdout''] of
        None \<Rightarrow> (None, w)
      | Some c \<Rightarrow>
          (case NewAtomicLevelAt (z_ConfigLevel Z (lc_testenv config)) w of
             (llevel, w1) \<Rightarrow>
               (Some (llevel, \<lparr>lg_core = CoreBuilt llevel c, lg_skip = 0,
                               lg_development = lc_testenv config\<rparr>), w1)))"

definition loginit_mac ::
  "('c, 'e, 'f, 'n) zap \<Rightarrow> logConf \<Rightarrow> log_world \<Rightarrow> (nat \<times> ('c, 'e) Logger) option \<times> log_world" where
  "loginit_mac Z config w =
     (case z_Build Z False (lc_encodeing config) [''stderr''] of
        None \<Rightarrow> (None, w)
      | Some c \<Rightarrow>
          (case NewAtomicLevelAt (z_ConfigLevel Z False) w of
             (llevel, w1) \<Rightarrow>
               (Some (llevel, \<lparr>lg_core = CoreBuilt llevel c, lg_skip = 0, lg_development = False\<rparr>), w1)))"

lemma loginit_syslog_win: "loginit_syslog_win Z config w = loginit_std Z config w"
  by (simp add: loginit_syslog_win_def loginit_std_def)

definition log_fields :: "('c, 'e, 'f, 'n) zap \<Rightarrow> init_env \<Rightarrow> logConf \<Rightarrow> 'f list list" where
  "log_fields Z env config =
     (if lc_withPid config then [[z_Int Z ''pid'' (ie_pid env)]] else []) @
     (if lc_ElkTemplateName config \<noteq> '''' then [[z_String Z ''procname'' (lc_ElkTemplateName config)]] else []) @
     (if lc_HostName config \<noteq> '''' then [[z_String Z ''hostname'' (lc_HostName config)]] else [])"

definition zapLogInit ::
  "('c, 'e, 'f, 'n) zap \<Rightarrow> init_env \<Rightarrow> logConf \<Rightarrow> log_world \<Rightarrow> (nat \<times> ('c, 'e) Logger) option \<times> log_world" where
  "zapLogInit Z env config w =
     (case (if lc_targetName config = ''syslog'' then loginit_syslog Z env config w
            else if lc_targetName config = ''asyncfile'' then loginit_file Z env config w
            else loginit_std Z config w) of
        (None, w1) \<Rightarrow> (None, w1)
      | (Some (level, llog), w1) \<Rightarrow>
          (Some (level, forEach (Logger_With Z) (log_fields Z env config) llog), w1))"

section \<open>The package's logger\<close>

record ('c, 'e) nbloger =
  nl_logger :: "('c, 'e) Logger"
  nl_Level :: nat

text \<open>
  The variables of the package.  Nothing but \<^verbatim>\<open>InitLog\<close> writes the object that \<^verbatim>\<open>defaultLog\<close>
  points to, so it is a value; \<open>ls_stdlog\<close> is the logger that the standard logger writes to.
  The session logs live in a store.
\<close>

record ('c, 'e, 'f) log_state =
  ls_world :: log_world
  ls_defaultLog :: "('c, 'e) nbloger option"
  ls_stdlog :: "('c, 'e) Logger option"
  ls_slog :: "nat \<Rightarrow> 'f list"
  ls_slog_next :: nat

definition add_skip :: "int \<Rightarrow> ('c, 'e) Logger \<Rightarrow> ('c, 'e) Logger" where
  "add_skip skip lg = lg\<lparr>lg_skip := lg_skip lg + skip\<rparr>"

definition InitLog ::
  "('c, 'e, 'f, 'n) zap \<Rightarrow> init_env \<Rightarrow> int \<Rightarrow> logOption list \<Rightarrow> ('c, 'e, 'f) log_state
     \<Rightarrow> bool \<times> ('c, 'e, 'f) log_state" where
  "InitLog Z env skip options s =
     (let config = forEach (\<lambda>option. option) options (defaultLogOptions (ie_base env)) in
      case zapLogInit Z env config (ls_world s) of
        (None, w) \<Rightarrow> (False, s\<lparr>ls_world := w\<rparr>)
      | (Some (level, lg), w) \<Rightarrow>
          (let logger = add_skip skip lg in
           (True, s\<lparr>ls_world := w, ls_defaultLog := Some \<lparr>nl_logger = logger, nl_Level = level\<rparr>,
                    ls_stdlog := Some logger\<rparr>)))"

definition GetLogger :: "('c, 'e, 'f) log_state \<Rightarrow> ('c, 'e) nbloger option" where
  "GetLogger s = ls_defaultLog s"

definition GetStdLogger :: "('c, 'e, 'f) log_state \<Rightarrow> ('c, 'e) Logger option" where
  "GetStdLogger s = ls_stdlog s"

text \<open>The options of zap that change a logger are functions on it.\<close>

definition GetZLog :: "(('c, 'e) Logger \<Rightarrow> ('c, 'e) Logger) list \<Rightarrow> ('c, 'e) nbloger \<Rightarrow> ('c, 'e) Logger" where
  "GetZLog opts l = forEach (\<lambda>opt. opt) opts (nl_logger l)"

definition Clone :: "(('c, 'e) Logger \<Rightarrow> ('c, 'e) Logger) list \<Rightarrow> ('c, 'e) nbloger \<Rightarrow> ('c, 'e) nbloger" where
  "Clone opts l = \<lparr>nl_logger = forEach (\<lambda>opt. opt) opts (nl_logger l), nl_Level = nl_Level l\<rparr>"

definition level_named :: "string \<Rightarrow> int" where
  "level_named level =
     (if level = ''info'' then InfoLevel else if level = ''debug'' then DebugLevel
      else if level = ''warn'' then WarnLevel else if level = ''error'' then ErrorLevel
      else if level = ''panic'' then PanicLevel else if level = ''dpanic'' then DPanicLevel
      else if level = ''fatal'' then FatalLevel else InfoLevel)"

definition writelog ::
  "('c, 'e, 'f, 'n) zap \<Rightarrow> clock \<Rightarrow> sys_result \<Rightarrow> string \<Rightarrow> string \<Rightarrow> 'f list \<Rightarrow> ('c, 'e) nbloger \<Rightarrow> log_world
     \<Rightarrow> log_end \<times> log_world" where
  "writelog Z ck sr level msg flds l w = Logger_log Z ck sr (level_named level) msg flds (nl_logger l) w"

text \<open>\<^verbatim>\<open>Write\<close>, \<^verbatim>\<open>Log\<close> and \<^verbatim>\<open>Logf\<close> of an \<^verbatim>\<open>nbloger\<close>; the message of the last two is already formatted.\<close>

definition Write_nb where
  "Write_nb Z ck sr p l w = (length p, writelog Z ck sr ''info'' p [] l w)"

definition Log_nb where "Log_nb Z ck sr msg l w = writelog Z ck sr ''info'' msg [] l w"
definition Logf_nb where "Logf_nb Z ck sr msg l w = writelog Z ck sr ''info'' msg [] l w"

text \<open>
  The functions of the package log with \<^verbatim>\<open>defaultLog\<close>.  While it is nil they panic, because
  \<^verbatim>\<open>writelog\<close> reads the logger of a nil pointer.
\<close>

definition default_writelog ::
  "('c, 'e, 'f, 'n) zap \<Rightarrow> clock \<Rightarrow> sys_result \<Rightarrow> string \<Rightarrow> string \<Rightarrow> 'f list \<Rightarrow> ('c, 'e, 'f) log_state
     \<Rightarrow> log_end \<times> ('c, 'e, 'f) log_state" where
  "default_writelog Z ck sr level msg flds s =
     (case ls_defaultLog s of
        None \<Rightarrow> (LogPanics, s)
      | Some l \<Rightarrow> (case writelog Z ck sr level msg flds l (ls_world s) of
                    (r, w) \<Rightarrow> (r, s\<lparr>ls_world := w\<rparr>)))"

definition Log where "Log Z ck sr level msg = default_writelog Z ck sr level msg []"

text \<open>
  \<^verbatim>\<open>LogF\<close> and \<^verbatim>\<open>LogMyF\<close> put the name of the calling function before the format; \<^const>\<open>None\<close> is
  a caller that is not known, and the format is then empty.  \<open>sprintf\<close> formats the arguments of
  the call.
\<close>

definition LogF where
  "LogF Z ck sr caller sprintf szLevel szFormat =
     (let szFormatFinal = (case caller of Some szFuncName \<Rightarrow> szFuncName @ '' '' @ szFormat | None \<Rightarrow> '''')
      in default_writelog Z ck sr szLevel (sprintf szFormatFinal) [])"

definition LogMyF where
  "LogMyF Z ck sr caller sprintf szLevel szFormat =
     (let szFormatFinal = (case caller of Some szFuncName \<Rightarrow> szFuncName @ '' '' @ szFormat | None \<Rightarrow> '''')
      in default_writelog Z ck sr szLevel (sprintf szFormatFinal) [])"

definition Debug where "Debug Z ck sr msg flds = default_writelog Z ck sr ''debug'' msg flds"
definition Debugf where "Debugf Z ck sr msg = default_writelog Z ck sr ''debug'' msg []"
definition Info_log where "Info_log Z ck sr msg flds = default_writelog Z ck sr ''info'' msg flds"
definition Infof where "Infof Z ck sr msg = default_writelog Z ck sr ''info'' msg []"
definition Warn where "Warn Z ck sr msg flds = default_writelog Z ck sr ''warn'' msg flds"
definition Warningf where "Warningf Z ck sr msg = default_writelog Z ck sr ''warn'' msg []"
definition Error where "Error Z ck sr msg flds = default_writelog Z ck sr ''error'' msg flds"
definition Errorf where "Errorf Z ck sr msg = default_writelog Z ck sr ''error'' msg []"
definition DPanic where "DPanic Z ck sr msg flds = default_writelog Z ck sr ''dpanic'' msg flds"
definition DPanicf where "DPanicf Z ck sr msg = default_writelog Z ck sr ''dpanic'' msg []"
definition Panic where "Panic Z ck sr msg flds = default_writelog Z ck sr ''panic'' msg flds"
definition Panicf where "Panicf Z ck sr msg = default_writelog Z ck sr ''panic'' msg []"
definition Fatal where "Fatal Z ck sr msg flds = default_writelog Z ck sr ''fatal'' msg flds"
definition Fatalf where "Fatalf Z ck sr msg = default_writelog Z ck sr ''fatal'' msg []"
definition CloudLog where "CloudLog Z ck sr flds = default_writelog Z ck sr ''info'' ''CloudLog'' flds"

definition set_level :: "('c, 'e, 'f, 'n) zap \<Rightarrow> string \<Rightarrow> ('c, 'e, 'f) log_state \<Rightarrow> bool outcome \<times> ('c, 'e, 'f) log_state" where
  "set_level Z level s =
     (case ls_defaultLog s of
        None \<Rightarrow> (Panics, s)
      | Some l \<Rightarrow>
          (case z_UnmarshalText Z level of
             None \<Rightarrow> (Ret True, s)
           | Some n \<Rightarrow> (Ret True, s\<lparr>ls_world := (ls_world s)\<lparr>lw_level := (lw_level (ls_world s))(nl_Level l := n)\<rparr>\<rparr>)))"

definition SetLogLevel :: "('c, 'e, 'f, 'n) zap \<Rightarrow> string \<Rightarrow> ('c, 'e, 'f) log_state \<Rightarrow> bool outcome \<times> ('c, 'e, 'f) log_state" where
  "SetLogLevel Z level s =
     (if ToLower level \<in> {''debug'', ''info'', ''warn'', ''error'', ''fatal''} then set_level Z (ToLower level) s
      else if ToLower level = ''all'' then set_level Z ''debug'' s
      else if ToLower level \<in> {''off'', ''none''} then set_level Z ''fatal'' s
      else (Ret False, s))"

text \<open>The initialisation of the package.\<close>

definition init_log ::
  "('c, 'e, 'f, 'n) zap \<Rightarrow> init_env \<Rightarrow> clock \<Rightarrow> sys_result \<Rightarrow> ('c, 'e, 'f) log_state \<Rightarrow> log_end \<times> ('c, 'e, 'f) log_state" where
  "init_log Z env ck sr s =
     (let s1 = snd (InitLog Z env 2 [ProcessName (ie_base env), SetTarget ''stdout''] s)
      in Info_log Z ck sr ''logger init'' [] s1)"

section \<open>Session logs\<close>

text \<open>A context carries the address of its session log, if it has one.\<close>

type_synonym log_ctx = "nat option"

definition LogStart :: "log_ctx \<Rightarrow> 'f list \<Rightarrow> ('c, 'e, 'f) log_state \<Rightarrow> log_ctx \<times> ('c, 'e, 'f) log_state" where
  "LogStart ctx flds s =
     (case ctx of
        Some p \<Rightarrow> (Some p, s\<lparr>ls_slog := (ls_slog s)(p := ls_slog s p @ flds)\<rparr>)
      | None \<Rightarrow> (Some (ls_slog_next s),
                  s\<lparr>ls_slog := (ls_slog s)(ls_slog_next s := flds), ls_slog_next := Suc (ls_slog_next s)\<rparr>))"

definition LogAppend :: "log_ctx \<Rightarrow> 'f list \<Rightarrow> ('c, 'e, 'f) log_state \<Rightarrow> ('c, 'e, 'f) log_state" where
  "LogAppend ctx flds s =
     (case ctx of
        Some p \<Rightarrow> s\<lparr>ls_slog := (ls_slog s)(p := ls_slog s p @ flds)\<rparr>
      | None \<Rightarrow> s)"

definition LogFlush_s ::
  "('c, 'e, 'f, 'n) zap \<Rightarrow> clock \<Rightarrow> sys_result \<Rightarrow> log_ctx \<Rightarrow> string \<Rightarrow> 'f list \<Rightarrow> ('c, 'e, 'f) log_state
     \<Rightarrow> log_end \<times> ('c, 'e, 'f) log_state" where
  "LogFlush_s Z ck sr ctx mkey flds s =
     (case ctx of
        Some p \<Rightarrow>
          (let s1 = s\<lparr>ls_slog := (ls_slog s)(p := ls_slog s p @ flds)\<rparr>
           in default_writelog Z ck sr ''info'' mkey (ls_slog s1 p) s1)
      | None \<Rightarrow> default_writelog Z ck sr ''info'' mkey flds s)"

end
