(* ===== verification/LogFrontProps.thy ===== *)
theory LogFrontProps
  imports LogFront
begin

text \<open>
  What the front end of the log promises: which calls reach a target, what a level changes,
  what an initialisation replaces, and that what is logged through it is in the file.
\<close>

section \<open>One call of a logger\<close>

text \<open>The cell of the level of a core, and the core of the package's logger.\<close>

fun core_cell :: "('c, 'e) Core \<Rightarrow> nat" where
  "core_cell (CoreFile c) = fc_LevelEnabler c"
| "core_cell (CoreSyslog c) = sc_LevelEnabler c"
| "core_cell (CoreBuilt lv c) = lv"

lemma core_Check_cell: "core_Check Z core entry w \<longleftrightarrow> lw_level w (core_cell core) \<le> z_Level Z entry"
  by (cases core) (simp_all add: core_Check_def Check_file_def Check_syslog_def)

lemma core_cell_With [simp]: "core_cell (core_With Z flds core) = core_cell core"
  by (cases core) (simp_all add: core_With_def With_file_def With_syslog_def)

lemma core_cell_Withs: "core_cell (lg_core (forEach (Logger_With Z) fss lg)) = core_cell (lg_core lg)"
  by (rule forEach_frame) (simp add: Logger_With_def)

lemma zap_ok_level: "zap_ok Z entry \<Longrightarrow> z_Level Z (entry ck skip level msg) = level"
  by (simp add: zap_ok_def)

lemma Logger_log_cases:
  assumes "zap_ok Z entry"
  shows "Logger_log Z ck sr level msg flds lg w =
    (if lw_level w (core_cell (lg_core lg)) \<le> level
     then (case core_Write Z ck sr (lg_core lg) (entry ck (lg_skip lg) level msg) flds w of
             (Ret _, w') \<Rightarrow> (log_end_of (lg_development lg) level, w')
           | (Panics, w') \<Rightarrow> (LogPanics, w'))
     else (log_end_of (lg_development lg) level, w))"
  using assms unfolding zap_ok_def Logger_log_def by (simp add: core_Check_cell)

section \<open>The level\<close>

text \<open>The least level that is logged after \<^verbatim>\<open>SetLogLevel\<close> with a name, if the name is known.\<close>

definition threshold :: "string \<Rightarrow> int option" where
  "threshold name =
     map_of [(''debug'', DebugLevel), (''all'', DebugLevel), (''info'', InfoLevel), (''warn'', WarnLevel),
             (''error'', ErrorLevel), (''fatal'', FatalLevel), (''off'', FatalLevel), (''none'', FatalLevel)]
       (ToLower name)"

lemma SetLogLevel_cases:
  assumes "zap_ok Z entry" and "ls_defaultLog s = Some nl"
  shows "SetLogLevel Z name s =
    (case threshold name of
       None \<Rightarrow> (Ret False, s)
     | Some n \<Rightarrow> (Ret True, s\<lparr>ls_world := (ls_world s)\<lparr>lw_level := (lw_level (ls_world s))(nl_Level nl := n)\<rparr>\<rparr>))"
  using assms by (auto simp: SetLogLevel_def set_level_def threshold_def zap_ok_def)

text \<open>The three ways to build a logger give its level a new cell.\<close>

lemma NewAtomicLevelAt_simps:
  "fst (NewAtomicLevelAt n w) = lw_next w" "lw_level (snd (NewAtomicLevelAt n w)) (lw_next w) = n"
  by (simp_all add: NewAtomicLevelAt_def)

definition config_level :: "('c, 'e, 'f, 'n) zap \<Rightarrow> logConf \<Rightarrow> int" where
  "config_level Z config =
     (if lc_targetName config = ''syslog'' \<or> lc_targetName config = ''asyncfile''
      then (if lc_testenv config then DebugLevel else InfoLevel) else z_ConfigLevel Z (lc_testenv config))"

lemma zapLogInit_level:
  assumes "zapLogInit Z env config w = (Some (lv, lg), w')"
  shows "lv = lw_next w" "core_cell (lg_core lg) = lv" "lw_level w' = (lw_level w)(lv := config_level Z config)"
    "lg_skip lg = 0"
proof -
  have skip: "lg_skip (forEach (Logger_With Z) fss l) = lg_skip l" for fss l
    by (rule forEach_frame) (simp add: Logger_With_def)
  show "lv = lw_next w" "core_cell (lg_core lg) = lv" "lw_level w' = (lw_level w)(lv := config_level Z config)"
    "lg_skip lg = 0"
    using assms
    by (auto simp: zapLogInit_def loginit_syslog_def loginit_file_def loginit_std_def config_level_def Let_def
        NewAtomicLevelAt_def newFileCore_def newCore_def core_cell_Withs skip split: if_splits option.splits prod.splits)
qed

lemma zapLogInit_fails:
  assumes "zapLogInit Z env config w = (None, w')"
  shows "w' = w"
  using assms
  by (auto simp: zapLogInit_def loginit_syslog_def loginit_file_def loginit_std_def Let_def split: if_splits option.splits prod.splits)

lemma InitLog_ok:
  assumes "InitLog Z env skip opts s0 = (True, s)" and "config = forEach (\<lambda>option. option) opts (defaultLogOptions (ie_base env))"
  obtains nl where "ls_defaultLog s = Some nl" "ls_stdlog s = Some (nl_logger nl)"
    "core_cell (lg_core (nl_logger nl)) = nl_Level nl" "lg_skip (nl_logger nl) = skip"
    "nl_Level nl = lw_next (ls_world s0)"
    "lw_level (ls_world s) = (lw_level (ls_world s0))(nl_Level nl := config_level Z config)"
    "zapLogInit Z env config (ls_world s0) = (Some (nl_Level nl, (nl_logger nl)\<lparr>lg_skip := 0\<rparr>), ls_world s)"
proof -
  obtain lv lg w where i: "zapLogInit Z env config (ls_world s0) = (Some (lv, lg), w)"
    and s: "s = s0\<lparr>ls_world := w, ls_defaultLog := Some \<lparr>nl_logger = add_skip skip lg, nl_Level = lv\<rparr>,
              ls_stdlog := Some (add_skip skip lg)\<rparr>"
    using assms by (auto simp: InitLog_def Let_def split: option.splits prod.splits)
  show ?thesis
    by (rule that [of "\<lparr>nl_logger = add_skip skip lg, nl_Level = lv\<rparr>"])
       (use i s zapLogInit_level [OF i] in \<open>simp_all add: add_skip_def\<close>)
qed



section \<open>What is logged through the front end is in the file\<close>

text \<open>A call of the package's logger: the time, the name of the level, the message and the fields.\<close>

type_synonym 'f log_call = "clock \<times> string \<times> string \<times> 'f list"

definition log_calls ::
  "('c, 'e, 'f, 'n) zap \<Rightarrow> sys_result \<Rightarrow> 'f log_call list \<Rightarrow> ('c, 'e, 'f) log_state \<Rightarrow> ('c, 'e, 'f) log_state" where
  "log_calls Z sr = forEach (\<lambda>(ck, level, msg, flds) s. snd (default_writelog Z ck sr level msg flds s))"

text \<open>The text that a call leaves in a file: none below the least level n or when it cannot be encoded.\<close>

definition call_text ::
  "('c, 'e, 'f, 'n) zap \<Rightarrow> (clock \<Rightarrow> int \<Rightarrow> int \<Rightarrow> string \<Rightarrow> 'n) \<Rightarrow> 'e \<Rightarrow> int \<Rightarrow> int \<Rightarrow> 'f log_call \<Rightarrow> (clock \<times> string) list" where
  "call_text Z entry enc skip n c =
     (case c of (ck, level, msg, flds) \<Rightarrow>
        if n \<le> level_named level
        then (case z_EncodeEntry Z enc (entry ck skip (level_named level) msg) flds of
                Some text \<Rightarrow> [(ck, text)] | None \<Rightarrow> [])
        else [])"

definition file_encoder :: "('c, 'e, 'f, 'n) zap \<Rightarrow> init_env \<Rightarrow> logConf \<Rightarrow> 'e" where
  "file_encoder Z env config = forEach (z_AddTo Z) (concat (log_fields Z env config)) (encoder_of Z config)"

text \<open>The package's logger writes to log file l with encoder enc from level n on.\<close>

definition logs_to ::
  "('c, 'e, 'f) log_state \<Rightarrow> ('c, 'e) nbloger \<Rightarrow> nat \<Rightarrow> 'e \<Rightarrow> int \<Rightarrow> bool" where
  "logs_to s nl l enc n \<longleftrightarrow>
     ls_defaultLog s = Some nl \<and> lg_core (nl_logger nl) = CoreFile (newFileCore (nl_Level nl) enc l) \<and>
     lw_level (ls_world s) (nl_Level nl) = n"

lemma core_With_file:
  "lg_core (forEach (Logger_With Z) fss lg) = CoreFile (newFileCore lv (forEach (z_AddTo Z) (concat fss) enc) l)"
  if "lg_core lg = CoreFile (newFileCore lv enc l)"
  using that
  by (induction fss arbitrary: lg enc)
     (simp_all add: Logger_With_def core_With_def With_file_def newFileCore_def forEach_append)

lemma loginit_file_logger:
  assumes "zapLogInit Z env config w = (Some (lv, lg), w')" and "lc_targetName config = ''asyncfile''"
    and "NewLogFile (logfilename config) (lw_async w) = (l, a)"
  shows "lg_core lg = CoreFile (newFileCore lv (file_encoder Z env config) l)"
    and "lw_async w' = set_lf l (SetNewLineStr '''' (SetFlags NoFlag (rotate_of (lc_logFileRotate config) (al_lf a l)))) a"
  using assms
  by (auto simp: zapLogInit_def loginit_file_def Let_def NewAtomicLevelAt_def file_encoder_def
      intro!: core_With_file split: if_splits option.splits prod.splits)

lemma InitLog_logs_to:
  assumes "InitLog Z env skip opts s0 = (True, s)" and "config = forEach (\<lambda>option. option) opts (defaultLogOptions (ie_base env))"
    and "lc_targetName config = ''asyncfile''" and "NewLogFile (logfilename config) (lw_async (ls_world s0)) = (l, a)"
  obtains nl where "logs_to s nl l (file_encoder Z env config) (config_level Z config)" "lg_skip (nl_logger nl) = skip"
    "lw_async (ls_world s) =
       set_lf l (SetNewLineStr '''' (SetFlags NoFlag (rotate_of (lc_logFileRotate config) (al_lf a l)))) a"
proof (rule InitLog_ok [OF assms(1,2)])
  fix nl
  assume nl: "ls_defaultLog s = Some nl" "lg_skip (nl_logger nl) = skip"
    "lw_level (ls_world s) = (lw_level (ls_world s0))(nl_Level nl := config_level Z config)"
    and z: "zapLogInit Z env config (ls_world s0) = (Some (nl_Level nl, (nl_logger nl)\<lparr>lg_skip := 0\<rparr>), ls_world s)"
  have "lg_core (nl_logger nl) = CoreFile (newFileCore (nl_Level nl) (file_encoder Z env config) l)"
    using loginit_file_logger(1) [OF z assms(3,4)] by simp
  then have "logs_to s nl l (file_encoder Z env config) (config_level Z config)"
    using nl by (simp add: logs_to_def)
  then show ?thesis using that nl(2) loginit_file_logger(2) [OF z assms(3,4)] by blast
qed

lemma call_writes:
  fixes ck sr level msg flds
  assumes ok: "zap_ok Z entry" and s: "logs_to s nl l enc n" and k: "lg_skip (nl_logger nl) = skip"
  defines "t \<equiv> snd (default_writelog Z ck sr level msg flds s)"
  shows "logs_to t nl l enc n" and "lw_async (ls_world t) =
    forEach (\<lambda>(ck, m). log_exec sr l (LogWrite ck m)) (call_text Z entry enc skip n (ck, level, msg, flds)) (lw_async (ls_world s))"
proof -
  have t: "t = s\<lparr>ls_world := snd (Logger_log Z ck sr (level_named level) msg flds (nl_logger nl) (ls_world s))\<rparr>"
    using s by (simp add: t_def default_writelog_def logs_to_def writelog_def split: prod.split)
  have core: "lg_core (nl_logger nl) = CoreFile (newFileCore (nl_Level nl) enc l)"
    "lw_level (ls_world s) (nl_Level nl) = n" "ls_defaultLog s = Some nl"
    using s by (simp_all add: logs_to_def)
  have w: "lw_async (ls_world t) =
      forEach (\<lambda>(ck, m). log_exec sr l (LogWrite ck m)) (call_text Z entry enc skip n (ck, level, msg, flds)) (lw_async (ls_world s))
      \<and> lw_level (ls_world t) = lw_level (ls_world s)"
    using core k
    by (simp add: t Logger_log_cases [OF ok] core_Write_def Write_file_def newFileCore_def call_text_def log_exec_def
        split: option.split prod.split outcome.split)
  then show "lw_async (ls_world t) =
      forEach (\<lambda>(ck, m). log_exec sr l (LogWrite ck m)) (call_text Z entry enc skip n (ck, level, msg, flds)) (lw_async (ls_world s))"
    by simp
  show "logs_to t nl l enc n" using w core by (simp add: logs_to_def t)
qed

lemma calls_write:
  assumes "zap_ok Z entry" "logs_to s nl l enc n" "lg_skip (nl_logger nl) = skip"
  shows "lw_async (ls_world (log_calls Z sr cs s)) =
    forEach (\<lambda>(ck, m). log_exec sr l (LogWrite ck m)) (concat (map (call_text Z entry enc skip n) cs)) (lw_async (ls_world s))"
  using assms(2)
proof (induction cs arbitrary: s)
  case (Cons c cs)
  obtain ck level msg flds where c: "c = (ck, level, msg, flds)" by (cases c) auto
  note w = call_writes [OF assms(1) Cons.prems assms(3), of ck sr level msg flds]
  show ?case
    using Cons.IH [OF w(1)] w(2) by (simp add: c log_calls_def forEach_append)
qed (simp add: log_calls_def)

lemma file_text_set_lf [simp]: "file_text (set_lf l v s) name = file_text s name"
  by (simp add: file_text_def split: option.split)

lemma call_text_length: "length (concat (map (call_text Z entry enc skip n) cs)) \<le> length cs"
  by (induction cs) (auto simp: call_text_def split: option.split)



section \<open>Initialising again\<close>

text \<open>
  An initialisation that fails leaves the logger, its level and its files as they were.  One
  that succeeds replaces the logger of the package and that of the standard library, with a
  level of its own that only the configuration decides: what \<^verbatim>\<open>SetLogLevel\<close> set before is lost.
\<close>

lemma InitLog_replaces:
  assumes ok: "zap_ok Z entry" and before: "InitLog Z env0 skip0 opts0 s00 = (True, s0)"
    and set: "SetLogLevel Z name s0 = (Ret b, s1)" and init: "InitLog Z env skip opts s1 = (bDone, s)"
    and config: "config = forEach (\<lambda>option. option) opts (defaultLogOptions (ie_base env))"
  shows "if bDone then
      (\<exists>nl. ls_defaultLog s = Some nl \<and> ls_stdlog s = Some (nl_logger nl) \<and>
         lw_level (ls_world s) (nl_Level nl) = config_level Z config \<and>
         (\<forall>ck sr level msg flds. level_named level < config_level Z config \<longrightarrow>
            snd (default_writelog Z ck sr level msg flds s) = s))
    else s = s1"
proof (cases bDone)
  case False
  then show ?thesis
    using init by (auto simp: InitLog_def Let_def dest!: zapLogInit_fails split: option.splits prod.splits)
next
  case True
  obtain nl where nl: "ls_defaultLog s = Some nl" "ls_stdlog s = Some (nl_logger nl)"
    "core_cell (lg_core (nl_logger nl)) = nl_Level nl"
    "lw_level (ls_world s) = (lw_level (ls_world s1))(nl_Level nl := config_level Z config)"
    using InitLog_ok [OF init [simplified True] config] by metis
  have "snd (default_writelog Z ck sr level msg flds s) = s" if "level_named level < config_level Z config" for ck sr level msg flds
    using that by (simp add: default_writelog_def nl(1) writelog_def Logger_log_cases [OF ok] nl(3,4))
  then show ?thesis using True nl by auto
qed

section \<open>Session logs\<close>

text \<open>
  A session log hands over everything that was started and appended with its context, in
  order, with the fields of the flush at the end.  It is never emptied: flushing the same context
  a second time logs all of it again.
\<close>

lemma session_flush_repeats:
  fixes s :: "('c, 'e, 'f) log_state"
  assumes start: "LogStart None f0 s = (ctx, s1)"
    and s2: "s2 = forEach (LogAppend ctx) fs s1"
    and first: "LogFlush_s Z ck sr ctx key f s2 = (r, s3)"
  shows "\<exists>s2' s3'. (r, s3) = default_writelog Z ck sr ''info'' key (f0 @ concat fs @ f) s2' \<and>
      LogFlush_s Z ck' sr' ctx key' f' s3 =
        default_writelog Z ck' sr' ''info'' key' (f0 @ concat fs @ f @ f') s3' \<and>
      ls_world s2' = ls_world s \<and> ls_defaultLog s2' = ls_defaultLog s \<and>
      ls_world s3' = ls_world s3 \<and> ls_defaultLog s3' = ls_defaultLog s3"
proof -
  define p where "p = ls_slog_next s"
  have ctx: "ctx = Some p" and s1: "ls_slog s1 p = f0" "ls_world s1 = ls_world s" "ls_defaultLog s1 = ls_defaultLog s"
    using start by (auto simp: LogStart_def p_def)
  have "ls_slog (forEach (LogAppend ctx) fs s1) p = ls_slog s1 p @ concat fs
      \<and> ls_world (forEach (LogAppend ctx) fs s1) = ls_world s1
      \<and> ls_defaultLog (forEach (LogAppend ctx) fs s1) = ls_defaultLog s1" for s1 :: "('c, 'e, 'f) log_state"
    by (induction fs arbitrary: s1) (simp_all add: LogAppend_def ctx)
  then have s2': "ls_slog s2 p = f0 @ concat fs" "ls_world s2 = ls_world s" "ls_defaultLog s2 = ls_defaultLog s" using s1 s2 by simp_all
  define t where "t = s2\<lparr>ls_slog := (ls_slog s2)(p := ls_slog s2 p @ f)\<rparr>"
  have t: "(r, s3) = default_writelog Z ck sr ''info'' key (f0 @ concat fs @ f) t" "ls_world t = ls_world s" "ls_defaultLog t = ls_defaultLog s"
    "ls_slog t p = f0 @ concat fs @ f"
    using first s2' by (simp_all add: LogFlush_s_def ctx t_def Let_def)
  have "ls_slog s3 = ls_slog t"
    using t(1) by (auto simp: default_writelog_def split: option.splits prod.splits)
  then have "LogFlush_s Z ck' sr' ctx key' f' s3 =
      default_writelog Z ck' sr' ''info'' key' (f0 @ concat fs @ f @ f') (s3\<lparr>ls_slog := (ls_slog s3)(p := ls_slog s3 p @ f')\<rparr>)"
    using t(4) by (simp add: LogFlush_s_def ctx Let_def)
  then show ?thesis
    using t by (intro exI [of _ t] exI [of _ "s3\<lparr>ls_slog := (ls_slog s3)(p := ls_slog s3 p @ f')\<rparr>"]) simp
qed

section \<open>Examples\<close>

text \<open>A concrete instance of zap: encoders are lists of fields, an entry is its level and message.\<close>

definition log_Z :: "(unit, string list, string, int \<times> string) zap" where
  "log_Z = \<lparr>z_NewJSONEncoder = [''json''], z_NewConsoleEncoder = [''console''], z_AddTo = (\<lambda>f e. e @ [f]),
     z_EncodeEntry = (\<lambda>e n fs. Some (snd n @ concat (e @ fs))), z_Int = (\<lambda>k n. k), z_String = (\<lambda>k v. v),
     z_Level = fst,
     z_UnmarshalText = map_of [(''debug'', DebugLevel), (''info'', InfoLevel), (''warn'', WarnLevel),
       (''error'', ErrorLevel), (''fatal'', FatalLevel)],
     z_Log = (\<lambda>ck dev skip level msg fs check write w.
        if check (level, msg) w
        then (case write (level, msg) fs w of (Ret _, w') \<Rightarrow> (log_end_of dev level, w') | (Panics, w') \<Rightarrow> (LogPanics, w'))
        else (log_end_of dev level, w)),
     z_Build = (\<lambda>dev enc out. if enc = ''json'' then Some () else None), z_ConfigLevel = (\<lambda>dev. if dev then DebugLevel else InfoLevel),
     z_CoreWith = (\<lambda>fs c. c), z_CoreLine = (\<lambda>c n fs. Some (snd n))\<rparr>"

lemma log_Z_ok: "zap_ok log_Z (\<lambda>ck skip level msg. (level, msg))"
  by (simp add: zap_ok_def log_Z_def)

definition log_env :: init_env where
  "log_env = \<lparr>ie_missing = True, ie_mkdir = True, ie_syslog = True, ie_pid = 7, ie_base = ''nb''\<rparr>"

definition log_s0 :: "(unit, string list, string) log_state" where
  "log_s0 = \<lparr>ls_world = \<lparr>lw_async = log0, lw_level = \<lambda>_. 0, lw_next = 0, lw_syslog = [], lw_stdout = []\<rparr>,
     ls_defaultLog = None, ls_stdlog = None, ls_slog = \<lambda>_. [], ls_slog_next = 0\<rparr>"

definition log_opts :: "logOption list" where
  "log_opts = [SetTarget ''asyncfile'', SetEncode ''json'', LogFilePath ''log'']"

definition log_s1 :: "(unit, string list, string) log_state" where
  "log_s1 = snd (InitLog log_Z log_env 2 log_opts log_s0)"

lemma log_s1_init: "InitLog log_Z log_env 2 log_opts log_s0 = (True, log_s1)"
  by (simp add: log_s1_def InitLog_def zapLogInit_def loginit_file_def log_opts_def SetTarget_def SetEncode_def
      LogFilePath_def defaultLogOptions_def log_env_def NewAtomicLevelAt_def Let_def split: prod.split)



lemma InitLog_replaces_example:
  "\<exists>s nl. InitLog log_Z log_env 2 log_opts (snd (SetLogLevel log_Z ''debug'' log_s1)) = (True, s) \<and>
     ls_defaultLog s = Some nl \<and> lw_level (ls_world s) (nl_Level nl) = InfoLevel"
proof -
  obtain nl where nl: "ls_defaultLog log_s1 = Some nl" using InitLog_ok [OF log_s1_init refl] by metis
  obtain b s1 where s1: "SetLogLevel log_Z ''debug'' log_s1 = (Ret b, s1)"
    using SetLogLevel_cases [OF log_Z_ok nl, of "''debug''"] by (cases "threshold ''debug''") auto
  define s where "s = snd (InitLog log_Z log_env 2 log_opts s1)"
  have s: "InitLog log_Z log_env 2 log_opts s1 = (True, s)"
    by (simp add: s_def InitLog_def zapLogInit_def loginit_file_def log_opts_def SetTarget_def SetEncode_def
        LogFilePath_def defaultLogOptions_def log_env_def NewAtomicLevelAt_def Let_def split: prod.split)
  have "config_level log_Z (forEach (\<lambda>option. option) log_opts (defaultLogOptions (ie_base log_env))) = InfoLevel"
    by (simp add: config_level_def log_opts_def SetTarget_def SetEncode_def LogFilePath_def defaultLogOptions_def)
  then show ?thesis using InitLog_replaces [OF log_Z_ok log_s1_init s1 s refl] s s1 by auto
qed

lemma session_flush_repeats_example:
  "\<exists>s. snd (LogFlush_s log_Z ck0 sr0 (Some 0) ''k'' [''c''] (LogAppend (Some 0) [''b''] (snd (LogStart None [''a''] log_s1)))) =
     snd (default_writelog log_Z ck0 sr0 ''info'' ''k'' [''a'', ''b'', ''c''] s)"
proof -
  have n: "ls_slog_next log_s1 = 0"
    by (simp add: log_s1_def log_s0_def InitLog_def zapLogInit_def loginit_file_def log_opts_def SetTarget_def SetEncode_def
        LogFilePath_def defaultLogOptions_def log_env_def NewAtomicLevelAt_def Let_def split: prod.split)
  have st: "LogStart None [''a''] log_s1 = (Some 0, snd (LogStart None [''a''] log_s1))"
    by (simp add: LogStart_def n)
  obtain r s3 where f: "LogFlush_s log_Z ck0 sr0 (Some 0) ''k'' [''c'']
      (forEach (LogAppend (Some 0)) [[''b'']] (snd (LogStart None [''a''] log_s1))) = (r, s3)" by fastforce
  show ?thesis using session_flush_repeats [OF st refl f, of ck0 sr0 "''k''" "[]"] f by auto (metis snd_conv)
qed

end
