(* ===== verification/Boot.thy ===== *)
theory Boot
  imports ServerProps LogFrontProps
begin

text \<open>
  The start of the process, \<^verbatim>\<open>main.go\<close> after the initialisations of the packages it imports:
  the configuration is read, the workers are made (once by \<^verbatim>\<open>node/common.go\<close> and once more by
  \<^verbatim>\<open>main\<close>), the log gets its target and its level, and the server process is made.
\<close>

section \<open>From the files to the running process\<close>

record ('c, 'e, 'f, 's, 't) booted =
  boot_log :: "('c, 'e, 'f) log_state"
  boot_workers :: "('s, 't) workers"
  boot_env :: agent_env
  boot_process :: ClientManager

text \<open>The log options of \<^verbatim>\<open>main\<close>; \<open>base\<close> is \<^verbatim>\<open>path.Base(os.Args[0])\<close>.\<close>

definition main_log_options :: "Config \<Rightarrow> string \<Rightarrow> logOption list" where
  "main_log_options conf base =
     [SetTarget (Config_LogMode conf), SetEncode ''json'',
      LogFilePath (Config_LogPath conf @ base @ ''/''), LogFileRotate ''date'']"

text \<open>The initialisation of package \<^verbatim>\<open>main\<close>; the errors of both calls are dropped.\<close>

definition main_init ::
  "('c, 'e, 'f, 'n) zap \<Rightarrow> init_env \<Rightarrow> Config \<Rightarrow> ('c, 'e, 'f) log_state
     \<Rightarrow> unit outcome \<times> ('c, 'e, 'f) log_state" where
  "main_init Z env conf ls =
     (case SetLogLevel Z (Config_LogLevel conf)
             (snd (InitLog Z env 2 (main_log_options conf (ie_base env)) ls)) of
        (Panics, ls1) \<Rightarrow> (Panics, ls1) | (Ret _, ls1) \<Rightarrow> (Ret (), ls1))"

definition boot ::
  "proto_lib \<Rightarrow> ('c, 'e, 'f, 'n) zap \<Rightarrow> init_env \<Rightarrow> 's semaphore \<Rightarrow> (string \<Rightarrow> bytes option)
     \<Rightarrow> (bytes \<Rightarrow> Config \<Rightarrow> Config \<times> bool) \<Rightarrow> (string \<Rightarrow> string) \<Rightarrow> string \<Rightarrow> string \<Rightarrow> uint64 \<Rightarrow> int64
     \<Rightarrow> ('c, 'e, 'f) log_state \<Rightarrow> ('s, 't) workers \<Rightarrow> ('c, 'e, 'f, 's, 't) booted outcome" where
  "boot pb Z env S fs xml getenv szUUID szUUID' nInstance nNow ls w =
     (case config_init fs xml getenv of
        Panics \<Rightarrow> Panics
      | Ret ServerConf \<Rightarrow>
          let w1 = Init_workers S (Config_Workers ServerConf) w in
          (case main_init Z env ServerConf ls of
             (Panics, _) \<Rightarrow> Panics
           | (Ret _, ls1) \<Rightarrow>
               Ret \<lparr>boot_log = ls1, boot_workers = Init_workers S (Config_Workers ServerConf) w1,
                    boot_env = agent_env_of pb ServerConf,
                    boot_process = NewNBServer szUUID szUUID' nInstance nNow ServerConf ServerConf\<rparr>))"

section \<open>What the process starts with\<close>

lemma Init_workers_names:
  "mget (tw_taskworkers (Init_workers S cs w)) name = None \<longleftrightarrow> name \<notin> WorkerConfig_Name ` set cs"
proof -
  have "mget (tw_taskworkers (forEach (Init_one S) cs v)) name = None
      \<longleftrightarrow> name \<notin> WorkerConfig_Name ` set cs \<and> mget (tw_taskworkers v) name = None" for v :: "('a, 'b) workers"
    by (induction cs arbitrary: v) (auto simp: Init_one_def)
  then show ?thesis by (simp add: Init_workers_def)
qed

lemma GoTask_unknown: "fst (GoTask_twm name f w) = Panics \<longleftrightarrow> mget (tw_taskworkers w) name = None"
  by (simp add: GoTask_twm_def split: option.split)

text \<open>An initialisation leaves a logger, the new one or, when it fails, the one before.\<close>

lemma InitLog_logger:
  "ls_defaultLog ls = Some nl \<Longrightarrow> \<exists>nl'. ls_defaultLog (snd (InitLog Z env skip opts ls)) = Some nl'"
  by (simp add: InitLog_def Let_def split: option.split prod.split)

lemma main_init_level:
  assumes "zap_ok Z entry" "ls_defaultLog ls = Some nl"
  shows "\<exists>ls1. main_init Z env conf ls = (Ret (), ls1)
    \<and> (\<forall>n. threshold (Config_LogLevel conf) = Some n \<longrightarrow>
         (\<exists>nl'. ls_defaultLog ls1 = Some nl' \<and> lw_level (ls_world ls1) (nl_Level nl') = n))"
proof -
  let ?ls0 = "snd (InitLog Z env 2 (main_log_options conf (ie_base env)) ls)"
  obtain nl' where nl': "ls_defaultLog ?ls0 = Some nl'" using InitLog_logger [OF assms(2)] by blast
  show ?thesis
    using SetLogLevel_cases [OF assms(1) nl', of "Config_LogLevel conf"] nl'
    by (simp add: main_init_def split: option.splits)
qed

text \<open>
  C6. From the files to the running process: the process does not start if one of the
  \<^verbatim>\<open>server.xml\<close> of the four directories is malformed.  Otherwise it starts: a task runs
  exactly under the names that some file lists as workers, and any other name panics; a log
  level the configuration names is in force; signatures are made with the configured key;
  the limits on connections are positive whatever is configured; and the neighbours of all files, one file after
  the other and with 16 bits of each port, are the neighbours of the node, which knows every
  one of them after its first round.
\<close>

theorem process_boots:
  assumes law: "xml_appends xml" and zap: "zap_ok Z entry" and logger: "ls_defaultLog ls = Some nl"
  shows "(\<exists>b \<in> set (config_files fs). \<not> snd (xml b Config_zero))
      \<and> boot pb Z env S fs xml getenv u u' inst nNow ls w = Panics
    \<or> (\<exists>conf p. config_init fs xml getenv = Ret conf
        \<and> boot pb Z env S fs xml getenv u u' inst nNow ls w = Ret p
        \<and> (\<forall>name f. fst (GoTask_twm name f (boot_workers p)) = Panics \<longleftrightarrow>
             (\<forall>b \<in> set (config_files fs). name \<notin> WorkerConfig_Name ` set (Config_Workers (fst (xml b Config_zero)))))
        \<and> (\<forall>n. threshold (Config_LogLevel conf) = Some n \<longrightarrow>
             (\<exists>nl'. ls_defaultLog (boot_log p) = Some nl' \<and> lw_level (ls_world (boot_log p)) (nl_Level nl') = n))
        \<and> ne_szSecretKey (ae_node (boot_env p)) = Config_SecretKey conf
        \<and> 0 < ne_NeighbourMaxConnection (ae_node (boot_env p)) \<and> 0 < ae_AgentClientMaxConnection (boot_env p)
        \<and> server_start (boot_process p)
        \<and> nm_aryNeighbour (boot_process p)
          = map (\<lambda>b. GetNeighbour (NeighbourConfig_Name b) (NeighbourConfig_IP b)
                (ucast (NeighbourConfig_Port b)) (ucast (NeighbourConfig_AgentPort b)))
              (concat (map (file_neighbours xml) (config_files fs)))
        \<and> (\<forall>b \<in> set (concat (map (file_neighbours xml) (config_files fs))).
             mget (nm_mNodeInfo (checkNeighbour nNow' (boot_process p))) (NeighbourConfig_Name b) \<noteq> None))"
  using neighbours_of_all_files [OF law, of fs getenv u u' inst nNow nNow']
proof (elim disjE exE conjE)
  assume "config_init fs xml getenv = Panics" "\<exists>b \<in> set (config_files fs). \<not> snd (xml b Config_zero)"
  then show ?thesis by (simp add: boot_def)
next
  fix conf
  let ?names = "\<lambda>b. WorkerConfig_Name ` set (Config_Workers (fst (xml b Config_zero)))"
  assume conf: "config_init fs xml getenv = Ret conf"
    and wk: "Config_Workers conf = concat (map (\<lambda>b. Config_Workers (fst (xml b Config_zero))) (config_files fs))"
    and nb: "nm_aryNeighbour (NewNBServer u u' inst nNow conf conf)
          = map (\<lambda>b. GetNeighbour (NeighbourConfig_Name b) (NeighbourConfig_IP b)
                (ucast (NeighbourConfig_Port b)) (ucast (NeighbourConfig_AgentPort b)))
              (concat (map (file_neighbours xml) (config_files fs)))"
    and known: "\<forall>b \<in> set (concat (map (file_neighbours xml) (config_files fs))).
             mget (nm_mNodeInfo (checkNeighbour nNow' (NewNBServer u u' inst nNow conf conf)))
               (NeighbourConfig_Name b) \<noteq> None"
  obtain ls1 where ls1: "main_init Z env conf ls = (Ret (), ls1)"
    "\<forall>n. threshold (Config_LogLevel conf) = Some n \<longrightarrow>
       (\<exists>nl'. ls_defaultLog ls1 = Some nl' \<and> lw_level (ls_world ls1) (nl_Level nl') = n)"
    using main_init_level [OF zap logger, of env conf] by blast
  let ?p = "\<lparr>boot_log = ls1, boot_workers = Init_workers S (Config_Workers conf) (Init_workers S (Config_Workers conf) w),
     boot_env = agent_env_of pb conf, boot_process = NewNBServer u u' inst nNow conf conf\<rparr>"
  have "boot pb Z env S fs xml getenv u u' inst nNow ls w = Ret ?p"
    by (simp add: boot_def conf ls1(1) Let_def)
  moreover have "fst (GoTask_twm name f (boot_workers ?p)) = Panics \<longleftrightarrow>
      (\<forall>b \<in> set (config_files fs). name \<notin> ?names b)" for name f
    by (simp add: GoTask_unknown Init_workers_names wk) blast
  moreover have "server_start (boot_process ?p)" by (simp add: server_start_def) blast
  moreover have "ne_szSecretKey (ae_node (boot_env ?p)) = Config_SecretKey conf"
    "0 < ne_NeighbourMaxConnection (ae_node (boot_env ?p))" "0 < ae_AgentClientMaxConnection (boot_env ?p)"
    by (simp_all add: agent_env_of_def node_env_of_def NeighbourMaxConnection_def AgentClientMaxConnection_def)
  ultimately show ?thesis
    using conf ls1(2) nb known by (intro disjI2 exI [of _ conf] exI [of _ ?p] conjI) simp_all
qed

theorem process_boots_witness:
  "\<exists>p. boot lib_stub log_Z log_env counting example_files example_xml (\<lambda>_. []) ''u'' ''v'' 7 100 log_s1 (no_workers counting) = Ret p
     \<and> fst (GoTask_twm ''b'' (0 :: nat) (boot_workers p)) \<noteq> Panics
     \<and> fst (GoTask_twm ''agent_manager'' 0 (boot_workers p)) = Panics
     \<and> map neighbour_nPort (nm_aryNeighbour (boot_process p)) = [8800, 8800]
     \<and> mget (nm_mNodeInfo (checkNeighbour 100 (boot_process p))) ''c'' \<noteq> None"
proof -
  obtain nl where nl: "ls_defaultLog log_s1 = Some nl" using InitLog_ok [OF log_s1_init refl] by metis
  show ?thesis
    using process_boots [OF example_xml_appends log_Z_ok nl, of example_files lib_stub log_env counting "\<lambda>_. []"
        "''u''" "''v''" 7 100 "no_workers counting :: (int \<times> int, nat) workers" 100]
    by (auto simp: example_files_read file_neighbours_def example_xml_def Config_zero_def GetNeighbour_def)
qed

end
