(* ===== verification/RawClient.thy ===== *)
theory RawClient
  imports Rpc
begin

text \<open>
  What the programs share that talk to an agent without the client library: the demo of
  \<^verbatim>\<open>examples/rpc_demo\<close> and the commands of \<^verbatim>\<open>benchmark/discovery\<close>.  They read packets
  in the read loop itself, give a response to the call that waits for it and answer requests, if
  at all, on the spot.  Also the setters of \<^verbatim>\<open>rpc.CallContext\<close>, which they use.
\<close>

section \<open>Calls\<close>

definition Timeout_call :: "int64 \<Rightarrow> CallContext \<Rightarrow> CallContext" where
  "Timeout_call nTimeoutMs cc = cc\<lparr>call_nTimeoutMs := nTimeoutMs\<rparr>"

definition RequestID_call :: "string \<Rightarrow> CallContext \<Rightarrow> CallContext" where
  "RequestID_call szRequestID cc = cc\<lparr>call_szRequestID := szRequestID\<rparr>"

lemma NewCall_Timeout [simp]:
  "call_szUri (Timeout_call n (NewCall q u m p)) = u" "call_szRequestID (Timeout_call n (NewCall q u m p)) = q"
  "call_objReq (Timeout_call n (NewCall q u m p)) = m" "call_nTimeoutMs (Timeout_call n (NewCall q u m p)) = n"
  "call_ptrServerConnection (Timeout_call n (NewCall q u m p)) = p"
  by (simp_all add: Timeout_call_def NewCall_def)

section \<open>Responses\<close>

text \<open>A response goes to the call that waits under its id; one nobody waits for is dropped.\<close>

definition raw_response :: "ctx \<Rightarrow> string \<Rightarrow> bytes \<Rightarrow> 'a net_scheme \<Rightarrow> unit outcome \<times> 'a net_scheme" where
  "raw_response ctx szRequestID byteBody s =
     (case GetServerConnection ctx of
        None \<Rightarrow> (Panics, s)
      | Some ptrServerConnection \<Rightarrow>
          (case GetRpcContext ptrServerConnection szRequestID s of
             (Some ptrRpcContext, s1) \<Rightarrow> chan_send ptrRpcContext byteBody s1
           | (None, s1) \<Rightarrow> (Ret (), s1)))"

text \<open>A response that arrives while its call waits wakes it up with the decoded body.\<close>

lemma raw_response_taken:
  fixes a :: "'a net_scheme"
  assumes x: "mget (conn_table c a) q = Some x" "n_rpc a x = rpc_zero" and ctx: "GetServerConnection ctx = Some c"
    and unm: "unm b = Some r"
  shows "\<exists>a1 a2. raw_response ctx q b a = (Ret (), a1) \<and> select_ready SelMsg False x a1
    \<and> Call_select unm SelMsg c q x a1 = (Ret (Some r), a2)
    \<and> net.more a1 = net.more a \<and> net.more a2 = net.more a \<and> n_conn a2 = n_conn a"
proof -
  define a1 where "a1 = set_rpc x (rpc_zero\<lparr>rc_aryMsg := [b]\<rparr>) (set_conn_table c (mdel q (conn_table c a)) a)"
  have 1: "raw_response ctx q b a = (Ret (), a1)"
    using x ctx by (simp add: raw_response_def GetRpcContext_def chan_send_def a1_def net_upd_defs rpc_zero_def)
  let ?a2 = "CancelFunc x (set_rpc x ((n_rpc a1 x)\<lparr>rc_aryMsg := []\<rparr>) a1)"
  have "n_rpc a1 x = rpc_zero\<lparr>rc_aryMsg := [b]\<rparr>" by (simp add: a1_def net_upd_defs)
  then have 2: "Call_select unm SelMsg c q x a1 = (Ret (Some r), ?a2)" "select_ready SelMsg False x a1"
    using unm
    by (simp_all add: Call_select_def chan_recv_def ErrorMsg_def rpc_zero_def net_upd_defs select_ready_def)
  show ?thesis
    by (intro exI [of _ a1] exI [of _ ?a2]) (use 1 2 in \<open>simp add: a1_def CancelFunc_def net_upd_defs\<close>)
qed

end
