(* ===== verification/Demo.thy ===== *)
theory Demo
  imports RawClient LogFront
begin

text \<open>
  \<^verbatim>\<open>examples/common/common.go\<close> and the two programs of \<^verbatim>\<open>examples/rpc_demo\<close>: a server that
  offers \<^verbatim>\<open>rpc.demo\<close> and a client that calls it every five seconds.

  Both programs block in calls, so an operation that calls is split at the \<^verbatim>\<open>select\<close>: the first
  part sends the request and records who waits (\<open>dm_wait\<close>), the second (\<open>finish_demo\<close>) runs
  when the call returns.  The goroutines that sleep and call again are kept in
  \<open>dm_thread\<close> with the seconds they sleep first.  What the programs log of their calls is kept in
  \<open>dm_log\<close>; the tracing of single packets is not.  The generated messages of
  \<^verbatim>\<open>protocol/demo\<close> are a parameter.
\<close>

section \<open>The common part\<close>

definition AgentNameSrc :: string where "AgentNameSrc = ''agent_src''"
definition AgentNameDest :: string where "AgentNameDest = ''agent_dest''"
definition RPC_URI_DEMO :: string where "RPC_URI_DEMO = ''rpc.demo''"
definition AgentSecretKey :: string where "AgentSecretKey = ''node''"
definition AgentIp :: string where "AgentIp = ''127.0.0.1''"
definition AgentPort :: uint16 where "AgentPort = 8800"

definition MakeSign :: "string \<Rightarrow> int64 \<Rightarrow> string" where
  "MakeSign szID nNow = hex_EncodeToString (hmac_md5 AgentSecretKey (szID @ FormatInt nNow))"

section \<open>State\<close>

record TestMsgReq =
  TestMsgReq_TestNumber :: uint32
  TestMsgReq_TestString :: string

record TestMsgRsp =
  TestMsgRsp_TestReply :: string

text \<open>The decoders yield the message as \<^verbatim>\<open>proto.Unmarshal\<close> leaves it and whether it reports no error.\<close>

record demo_lib =
  Marshal_TestMsgReq :: "TestMsgReq \<Rightarrow> bytes"
  Marshal_TestMsgRsp :: "TestMsgRsp \<Rightarrow> bytes"
  Unmarshal_TestMsgReq :: "bytes \<Rightarrow> TestMsgReq \<times> bool"
  Unmarshal_TestMsgRsp :: "bytes \<Rightarrow> TestMsgRsp \<times> bool"

datatype demo_program = DemoClient | DemoServer

datatype demo_then =
    AfterRegister demo_program AgentRegisterReq
  | AfterKeepAlive bool AgentKeepAliveNotify
  | AfterRpc TestMsgReq RpcCallReq

record demo_call =
  dc_rpc :: nat
  dc_conn :: connref
  dc_szRequestID :: string
  dc_then :: demo_then

text \<open>A sleeping goroutine; the flag of the first says that its \<^verbatim>\<open>objOnce\<close> has not fired.\<close>

datatype demo_thread = LoopKeepAlive bool nat | LoopRpc nat

datatype demo_log =
    LogRegistered AgentRegisterReq AgentRegisterRsp
  | LogKeepAlive AgentKeepAliveRsp
  | LogKeepAliveError AgentKeepAliveNotify
  | LogUnRegistered AgentUnRegisterReq
  | LogRpc TestMsgReq string
  | LogRpcError RpcCallReq

record demo = net +
  dm_ptrAgent :: "connref option"
  dm_wait :: "demo_call list"
  dm_thread :: "demo_thread list"
  dm_log :: "demo_log list"

definition demo_log :: "demo_log \<Rightarrow> 'a demo_scheme \<Rightarrow> 'a demo_scheme" where
  "demo_log l s = s\<lparr>dm_log := dm_log s @ [l]\<rparr>"

definition demo_go :: "demo_thread \<Rightarrow> 'a demo_scheme \<Rightarrow> 'a demo_scheme" where
  "demo_go k s = s\<lparr>dm_thread := dm_thread s @ [k]\<rparr>"

section \<open>What follows a call\<close>

text \<open>
  The answer is \<^term>\<open>None\<close> when \<^verbatim>\<open>Start\<close> returned false.  After the registration the client
  starts two loops, the server one.
\<close>

definition client_register_done ::
  "AgentRegisterReq \<Rightarrow> AgentRegisterRsp option \<Rightarrow> 'a demo_scheme \<Rightarrow> 'a demo_scheme" where
  "client_register_done objReq rsp s =
     demo_go (LoopRpc 5) (demo_go (LoopKeepAlive True 1)
       (case rsp of Some objRsp \<Rightarrow> demo_log (LogRegistered objReq objRsp) s | None \<Rightarrow> s))"

definition server_register_done ::
  "AgentRegisterReq \<Rightarrow> AgentRegisterRsp option \<Rightarrow> 'a demo_scheme \<Rightarrow> 'a demo_scheme" where
  "server_register_done objReq rsp s =
     demo_go (LoopKeepAlive True 1)
       (case rsp of Some objRsp \<Rightarrow> demo_log (LogRegistered objReq objRsp) s | None \<Rightarrow> s)"

text \<open>After its first keepalive the loop sleeps twenty seconds more.\<close>

definition keepalive_done ::
  "bool \<Rightarrow> AgentKeepAliveNotify \<Rightarrow> AgentKeepAliveRsp option \<Rightarrow> 'a demo_scheme \<Rightarrow> 'a demo_scheme" where
  "keepalive_done bFirst objReq rsp s =
     demo_go (LoopKeepAlive False ((if bFirst then 20 else 0) + 1))
       (case rsp of
          Some objRsp \<Rightarrow> demo_log (LogKeepAlive objRsp) s
        | None \<Rightarrow> demo_log (LogKeepAliveError objReq) s)"

definition rpc_done ::
  "demo_lib \<Rightarrow> TestMsgReq \<Rightarrow> RpcCallReq \<Rightarrow> RpcCallResp option \<Rightarrow> 'a demo_scheme \<Rightarrow> 'a demo_scheme" where
  "rpc_done dl objDemoReq objReq rsp s =
     demo_go (LoopRpc 5)
       (case rsp of
          Some objRsp \<Rightarrow>
            let objDemoRsp = fst (Unmarshal_TestMsgRsp dl (RpcCallResp_Data objRsp))
            in demo_log (LogRpc objDemoReq (TestMsgRsp_TestReply objDemoRsp)) s
        | None \<Rightarrow> demo_log (LogRpcError objReq) s)"

definition register_done ::
  "demo_program \<Rightarrow> AgentRegisterReq \<Rightarrow> AgentRegisterRsp option \<Rightarrow> 'a demo_scheme \<Rightarrow> 'a demo_scheme" where
  "register_done p = (case p of DemoClient \<Rightarrow> client_register_done | DemoServer \<Rightarrow> server_register_done)"

section \<open>Calls\<close>

text \<open>\<^verbatim>\<open>Start\<close> up to its \<^verbatim>\<open>select\<close>; where it returns false at once, what follows runs at once.\<close>

definition failed_demo :: "demo_lib \<Rightarrow> demo_then \<Rightarrow> 'a demo_scheme \<Rightarrow> 'a demo_scheme" where
  "failed_demo dl k =
     (case k of
        AfterRegister p objReq \<Rightarrow> register_done p objReq None
      | AfterKeepAlive bFirst objReq \<Rightarrow> keepalive_done bFirst objReq None
      | AfterRpc objDemoReq objReq \<Rightarrow> rpc_done dl objDemoReq objReq None)"

definition start_demo ::
  "proto_lib \<Rightarrow> demo_lib \<Rightarrow> CallContext \<Rightarrow> demo_then \<Rightarrow> 'a demo_scheme \<Rightarrow> 'a demo_scheme" where
  "start_demo pb dl cc k s =
     (case Call_begin pb cc s of
        (None, s1) \<Rightarrow> failed_demo dl k s1
      | (Some x, s1) \<Rightarrow>
          s1\<lparr>dm_wait := dm_wait s1 @ [\<lparr>dc_rpc = x, dc_conn = the (call_ptrServerConnection cc),
            dc_szRequestID = call_szRequestID cc, dc_then = k\<rparr>]\<rparr>)"

definition returned_demo ::
  "('r option \<Rightarrow> 'a demo_scheme \<Rightarrow> 'a demo_scheme) \<Rightarrow> 'r option outcome \<times> 'a demo_scheme
     \<Rightarrow> unit outcome \<times> 'a demo_scheme" where
  "returned_demo fnDone r = (case r of (Panics, s) \<Rightarrow> (Panics, s) | (Ret rsp, s) \<Rightarrow> (Ret (), fnDone rsp s))"

definition finish_demo ::
  "proto_lib \<Rightarrow> demo_lib \<Rightarrow> select \<Rightarrow> demo_call \<Rightarrow> 'a demo_scheme \<Rightarrow> unit outcome \<times> 'a demo_scheme" where
  "finish_demo pb dl sel dc s =
     (case dc_then dc of
        AfterRegister p objReq \<Rightarrow>
          returned_demo (register_done p objReq)
            (Call_select (Unmarshal_AgentRegisterRsp pb) sel (dc_conn dc) (dc_szRequestID dc) (dc_rpc dc) s)
      | AfterKeepAlive bFirst objReq \<Rightarrow>
          returned_demo (keepalive_done bFirst objReq)
            (Call_select (Unmarshal_AgentKeepAliveRsp pb) sel (dc_conn dc) (dc_szRequestID dc) (dc_rpc dc) s)
      | AfterRpc objDemoReq objReq \<Rightarrow>
          returned_demo (rpc_done dl objDemoReq objReq)
            (Call_select (Unmarshal_RpcCallResp pb) sel (dc_conn dc) (dc_szRequestID dc) (dc_rpc dc) s))"

section \<open>The client\<close>

text \<open>The flag and the local address are the outcome of the dial.\<close>

definition ClientAddAgent :: "bool \<Rightarrow> string \<Rightarrow> 'a demo_scheme \<Rightarrow> 'a demo_scheme" where
  "ClientAddAgent dialed szLocal s =
     (case NewClient dialed szLocal AgentIp AgentPort [] s of (p, s1) \<Rightarrow> s1\<lparr>dm_ptrAgent := p\<rparr>)"

definition demo_client_req :: "int64 \<Rightarrow> int64 \<Rightarrow> AgentRegisterReq" where
  "demo_client_req nTimeNow nNano =
     (let szInstanceID = AgentNameSrc @ ''_'' @ FormatInt nNano in
      \<lparr>AgentRegisterReq_InstanceID = szInstanceID, AgentRegisterReq_AryEntry = [],
       AgentRegisterReq_Sign = MakeSign szInstanceID nTimeNow, AgentRegisterReq_TimeStamp = nTimeNow\<rparr>)"

definition ClientAgentRegister ::
  "proto_lib \<Rightarrow> demo_lib \<Rightarrow> int64 \<Rightarrow> int64 \<Rightarrow> string \<Rightarrow> 'a demo_scheme \<Rightarrow> 'a demo_scheme" where
  "ClientAgentRegister pb dl nTimeNow nNano szUUID s =
     (let objReq = demo_client_req nTimeNow nNano
      in start_demo pb dl (Timeout_call (10 * 1000) (NewCall szUUID AGENT_REGISTER (MAgentRegisterReq objReq) (dm_ptrAgent s)))
           (AfterRegister DemoClient objReq) s)"

definition ClientAgentKeepAlive ::
  "proto_lib \<Rightarrow> demo_lib \<Rightarrow> bool \<Rightarrow> string \<Rightarrow> 'a demo_scheme \<Rightarrow> 'a demo_scheme" where
  "ClientAgentKeepAlive pb dl bFirst szUUID s =
     (let objReq = \<lparr>AgentKeepAliveNotify_AryEntry = []\<rparr>
      in start_demo pb dl (Timeout_call (10 * 1000)
           (NewCall szUUID AGENT_KEEP_ALIVE (MAgentKeepAliveNotify objReq) (dm_ptrAgent s)))
           (AfterKeepAlive bFirst objReq) s)"

text \<open>Both programs sign the unregistration for an empty id and send it so; neither runs it.\<close>

definition ClienAgentUnRegister :: "proto_lib \<Rightarrow> int64 \<Rightarrow> string \<Rightarrow> 'a demo_scheme \<Rightarrow> 'a demo_scheme" where
  "ClienAgentUnRegister pb nTimeNow szUUID s =
     (let objReq = \<lparr>AgentUnRegisterReq_InstanceID = '''', AgentUnRegisterReq_AryEntry = [],
            AgentUnRegisterReq_Sign = MakeSign '''' nTimeNow, AgentUnRegisterReq_TimeStamp = nTimeNow\<rparr>
      in case Cast_Start pb (NewCast szUUID AGENT_UN_REGISTER (MAgentUnRegisterReq objReq) (dm_ptrAgent s)) s of
           (bRet, s1) \<Rightarrow> if bRet then demo_log (LogUnRegistered objReq) s1 else s1)"

definition demo_msg :: TestMsgReq where
  "demo_msg = \<lparr>TestMsgReq_TestNumber = 1, TestMsgReq_TestString = ''1''\<rparr>"

definition AgentRpcDemo :: "proto_lib \<Rightarrow> demo_lib \<Rightarrow> string \<Rightarrow> 'a demo_scheme \<Rightarrow> 'a demo_scheme" where
  "AgentRpcDemo pb dl szUUID s =
     (let objDemoReq = demo_msg;
          byteData = Marshal_TestMsgReq dl objDemoReq;
          objReq = \<lparr>RpcCallReq_Data = byteData, RpcCallReq_URI = RPC_URI_DEMO, RpcCallReq_Caller = [],
            RpcCallReq_RequestMode = RequestMode_LOCAL_BETTER, RpcCallReq_Key = '''',
            RpcCallReq_EntryType = EntryType_RPC\<rparr>
      in start_demo pb dl (Timeout_call (10 * 1000) (NewCall szUUID NODE_RPC_REQ (MRpcCallReq objReq) (dm_ptrAgent s)))
           (AfterRpc objDemoReq objReq) s)"

text \<open>A loop wakes up and calls again.\<close>

definition run_demo_client ::
  "proto_lib \<Rightarrow> demo_lib \<Rightarrow> string \<Rightarrow> demo_thread \<Rightarrow> 'a demo_scheme \<Rightarrow> 'a demo_scheme" where
  "run_demo_client pb dl szUUID k s =
     (case k of
        LoopKeepAlive bFirst _ \<Rightarrow> ClientAgentKeepAlive pb dl bFirst szUUID s
      | LoopRpc _ \<Rightarrow> AgentRpcDemo pb dl szUUID s)"

text \<open>\<^verbatim>\<open>main\<close> up to the answer to the registration; what follows it is \<open>client_register_done\<close>.\<close>

definition demo_client_main ::
  "proto_lib \<Rightarrow> demo_lib \<Rightarrow> bool \<Rightarrow> string \<Rightarrow> int64 \<Rightarrow> int64 \<Rightarrow> string \<Rightarrow> 'a demo_scheme \<Rightarrow> 'a demo_scheme" where
  "demo_client_main pb dl dialed szLocal nTimeNow nNano szUUID s =
     ClientAgentRegister pb dl nTimeNow nNano szUUID (ClientAddAgent dialed szLocal s)"

text \<open>The initialisation of both programs; the errors of both calls are dropped.\<close>

definition demo_init ::
  "('c, 'e, 'f, 'n) zap \<Rightarrow> init_env \<Rightarrow> ('c, 'e, 'f) log_state \<Rightarrow> unit outcome \<times> ('c, 'e, 'f) log_state" where
  "demo_init Z env ls =
     (case SetLogLevel Z ''info'' ls of
        (Panics, ls1) \<Rightarrow> (Panics, ls1)
      | (Ret _, ls1) \<Rightarrow>
          (Ret (), snd (InitLog Z env 2
             [SetTarget ''asyncfile'', SetEncode ''json'', LogFilePath (''./log/'' @ ie_base env @ ''/''),
              LogFileRotate ''date''] ls1)))"

definition OnRead_dc :: "connref \<Rightarrow> bytes \<Rightarrow> ctx \<Rightarrow> 'a demo_scheme \<Rightarrow> unit outcome \<times> 'a demo_scheme" where
  "OnRead_dc c byteData ctx s =
     (case read_packet byteData of
        Inl _ \<Rightarrow> (Ret (), s)
      | Inr (szUri, nMsgType, szRequestID, byteBody) \<Rightarrow>
          if nMsgType = MSG_TYPE_RESPONE then raw_response ctx szRequestID byteBody s
          else (Ret (), s))"

section \<open>The server\<close>

definition ServerAddAgent :: "bool \<Rightarrow> string \<Rightarrow> 'a demo_scheme \<Rightarrow> 'a demo_scheme" where
  "ServerAddAgent dialed szLocal s =
     (case NewClient dialed szLocal AgentIp AgentPort [] s of (p, s1) \<Rightarrow> s1\<lparr>dm_ptrAgent := p\<rparr>)"

definition demo_server_req :: "int64 \<Rightarrow> int64 \<Rightarrow> AgentRegisterReq" where
  "demo_server_req nTimeNow nNano =
     (let szInstanceID = AgentNameDest @ ''_'' @ FormatInt nNano in
      \<lparr>AgentRegisterReq_InstanceID = szInstanceID,
       AgentRegisterReq_AryEntry = [\<lparr>agent_EntryInfo_URI = RPC_URI_DEMO, agent_EntryInfo_EntryType = EntryType_RPC\<rparr>],
       AgentRegisterReq_Sign = MakeSign szInstanceID nTimeNow, AgentRegisterReq_TimeStamp = nTimeNow\<rparr>)"

definition ServerAgentRegister ::
  "proto_lib \<Rightarrow> demo_lib \<Rightarrow> int64 \<Rightarrow> int64 \<Rightarrow> string \<Rightarrow> 'a demo_scheme \<Rightarrow> 'a demo_scheme" where
  "ServerAgentRegister pb dl nTimeNow nNano szUUID s =
     (let objReq = demo_server_req nTimeNow nNano
      in start_demo pb dl (Timeout_call (10 * 1000) (NewCall szUUID AGENT_REGISTER (MAgentRegisterReq objReq) (dm_ptrAgent s)))
           (AfterRegister DemoServer objReq) s)"

definition ServerAgentKeepAlive ::
  "proto_lib \<Rightarrow> demo_lib \<Rightarrow> bool \<Rightarrow> string \<Rightarrow> 'a demo_scheme \<Rightarrow> 'a demo_scheme" where
  "ServerAgentKeepAlive pb dl bFirst szUUID s =
     (let objReq = \<lparr>AgentKeepAliveNotify_AryEntry = []\<rparr>
      in start_demo pb dl (Timeout_call (10 * 1000)
           (NewCall szUUID AGENT_KEEP_ALIVE (MAgentKeepAliveNotify objReq) (dm_ptrAgent s)))
           (AfterKeepAlive bFirst objReq) s)"

definition ServerAgentUnRegister :: "proto_lib \<Rightarrow> int64 \<Rightarrow> string \<Rightarrow> 'a demo_scheme \<Rightarrow> 'a demo_scheme" where
  "ServerAgentUnRegister pb nTimeNow szUUID s =
     (let objReq = \<lparr>AgentUnRegisterReq_InstanceID = '''', AgentUnRegisterReq_AryEntry = [],
            AgentUnRegisterReq_Sign = MakeSign '''' nTimeNow, AgentUnRegisterReq_TimeStamp = nTimeNow\<rparr>
      in case Cast_Start pb (NewCast szUUID AGENT_UN_REGISTER (MAgentUnRegisterReq objReq) (dm_ptrAgent s)) s of
           (bRet, s1) \<Rightarrow> if bRet then demo_log (LogUnRegistered objReq) s1 else s1)"

text \<open>The answer to a request; the request is answered on the connection it came on.\<close>

definition demo_answer ::
  "proto_lib \<Rightarrow> demo_lib \<Rightarrow> connref \<Rightarrow> string \<Rightarrow> bytes \<Rightarrow> 'a demo_scheme \<Rightarrow> 'a demo_scheme" where
  "demo_answer pb dl c szRequestID byteBody s =
     (case Unmarshal_RpcCallReq pb byteBody of
        None \<Rightarrow> s
      | Some objRpcCallReq \<Rightarrow>
          if RpcCallReq_URI objRpcCallReq = RPC_URI_DEMO then
            (case Unmarshal_TestMsgReq dl (RpcCallReq_Data objRpcCallReq) of
               (objTestMsgReq, bOk) \<Rightarrow>
                 if \<not> bOk then s
                 else
                   let objTestMsgRsp = \<lparr>TestMsgRsp_TestReply = ''Reply: '' @ TestMsgReq_TestString objTestMsgReq\<rparr>;
                       objRpcCallResp = \<lparr>RpcCallResp_Result = ResultCode_SUCCESS,
                         RpcCallResp_Data = Marshal_TestMsgRsp dl objTestMsgRsp,
                         RpcCallResp_URI = RpcCallReq_URI objRpcCallReq,
                         RpcCallResp_Caller = RpcCallReq_Caller objRpcCallReq,
                         RpcCallResp_EntryType = RpcCallReq_EntryType objRpcCallReq\<rparr>
                   in (case NewProtocol pb NODE_RPC_RESP MSG_TYPE_RESPONE szRequestID (MRpcCallResp objRpcCallResp) of
                         (byteResp, bRet) \<Rightarrow> if \<not> bRet then s else snd (Write c byteResp s)))
          else s)"

definition OnRead_ds ::
  "proto_lib \<Rightarrow> demo_lib \<Rightarrow> connref \<Rightarrow> bytes \<Rightarrow> ctx \<Rightarrow> 'a demo_scheme \<Rightarrow> unit outcome \<times> 'a demo_scheme" where
  "OnRead_ds pb dl c byteData ctx s =
     (case read_packet byteData of
        Inl _ \<Rightarrow> (Ret (), s)
      | Inr (szUri, nMsgType, szRequestID, byteBody) \<Rightarrow>
          if nMsgType = MSG_TYPE_RESPONE then raw_response ctx szRequestID byteBody s
          else if nMsgType = MSG_TYPE_REQUEST \<and> szUri = NODE_RPC_REQ then
            (Ret (), demo_answer pb dl c szRequestID byteBody s)
          else (Ret (), s))"

definition run_demo_server ::
  "proto_lib \<Rightarrow> demo_lib \<Rightarrow> string \<Rightarrow> demo_thread \<Rightarrow> 'a demo_scheme \<Rightarrow> 'a demo_scheme" where
  "run_demo_server pb dl szUUID k s =
     (case k of
        LoopKeepAlive bFirst _ \<Rightarrow> ServerAgentKeepAlive pb dl bFirst szUUID s
      | LoopRpc _ \<Rightarrow> s)"

definition demo_server_main ::
  "proto_lib \<Rightarrow> demo_lib \<Rightarrow> bool \<Rightarrow> string \<Rightarrow> int64 \<Rightarrow> int64 \<Rightarrow> string \<Rightarrow> 'a demo_scheme \<Rightarrow> 'a demo_scheme" where
  "demo_server_main pb dl dialed szLocal nTimeNow nNano szUUID s =
     ServerAgentRegister pb dl nTimeNow nNano szUUID (ServerAddAgent dialed szLocal s)"

end
