(* ===== verification/DemoProps.thy ===== *)
theory DemoProps
  imports Demo Registration
begin

text \<open>
  The demo works: its server can register with an agent that has the key \<^verbatim>\<open>node\<close>, and a
  call of its client comes back with the text of the request behind \<^verbatim>\<open>Reply:\<close>.
\<close>

section \<open>Frames\<close>

lemma more_demo:
  fixes s t :: "'a demo_scheme"
  assumes "net.more t = net.more s"
  shows "dm_ptrAgent t = dm_ptrAgent s" "dm_wait t = dm_wait s" "dm_thread t = dm_thread s" "dm_log t = dm_log s"
  using assms by (cases s; cases t; simp)+

lemma Timeout_call_update: "Timeout_call n cc = cc\<lparr>call_nTimeoutMs := n\<rparr>"
  by (simp add: Timeout_call_def)

text \<open>A call over an open connection sends its request and waits.\<close>

lemma start_demo_open:
  fixes a :: "'a demo_scheme"
  assumes "transport_error c a = None"
    and "start_demo pb dl (Timeout_call n (NewCall q u m (Some c))) k a = a1"
  shows "\<exists>x. sent c a1 = sent c a @ [fst (NewProtocol pb u 1 q m)]
    \<and> dm_wait a1 = dm_wait a @ [\<lparr>dc_rpc = x, dc_conn = c, dc_szRequestID = q, dc_then = k\<rparr>]
    \<and> dm_log a1 = dm_log a \<and> mget (conn_table c a1) q = Some x \<and> n_rpc a1 x = rpc_zero"
proof -
  obtain x t where t: "Call_begin pb (Timeout_call n (NewCall q u m (Some c))) a = (Some x, t)"
      "sent c t = sent c a @ [fst (NewProtocol pb u 1 q m)]" "net.more t = net.more a"
      "mget (conn_table c t) q = Some x" "n_rpc t x = rpc_zero"
    using Call_begin_open [OF assms(1)] unfolding Timeout_call_update by blast
  then show ?thesis
    using assms(2) more_demo [OF t(3)] by (auto simp: start_demo_def sent_def conn_table_def)
qed

section \<open>The registration\<close>

text \<open>The demo signs as an agent checks that has its key, so an agent takes its registrations.\<close>

lemma MakeSign_agent: "ne_szSecretKey (ae_node A) = AgentSecretKey \<Longrightarrow> MakeSign k t = makeSign_ci A k t"
  by (simp add: MakeSign_def makeSign_ci_def)

lemma demo_registers:
  fixes s :: ClientManager and A :: agent_env and nTime nNano nNow :: int64
  defines "H \<equiv> objNodeHandler A (cm_objNodeHandler s)"
  assumes r: "r \<in> {demo_client_req nTime nNano, demo_server_req nTime nNano}"
    and inv: "client_inv A s" and conn: "rq_ptrServerConnection rc = c" "transport_error c s = None" "cm_nStatus s = 1"
    and fits: "string_fits q" and room: "has_room A (AgentRegisterReq_InstanceID r) s"
    and codec: "Unmarshal_AgentRegisterReq (ae_pb A) (Marshal (ae_pb A) (MAgentRegisterReq r)) = Some r"
    and key: "ne_szSecretKey (ae_node A) = AgentSecretKey" "\<not> gt64 nNow (nTime + ae_SignTimeout A)"
    and run: "process_task_cm A H ch nNow c (payload (ae_pb A) AGENT_REGISTER 1 q (MAgentRegisterReq r)) (Some rc) s = (z, s1)"
  shows "z = Ret () \<and> registered A r c s1
    \<and> sent c s1 = sent c s @ [fst (NewProtocol (ae_pb A) '''' 2 q (MAgentRegisterRsp (register_rsp A nNow (cm_szName s))))]"
proof -
  have "AgentRegisterReq_Sign r = makeSign_ci A (AgentRegisterReq_InstanceID r) (AgentRegisterReq_TimeStamp r)"
    "AgentRegisterReq_TimeStamp r = nTime"
    using r MakeSign_agent [OF key(1)] by (auto simp: demo_client_req_def demo_server_req_def Let_def)
  then show ?thesis
    using agent_accepts [OF inv conn fits room codec _ _ run [unfolded H_def]] key(2) by simp
qed

section \<open>The keepalives\<close>

text \<open>
  The timer of the agent forgets exactly the clients that were silent for longer than the time
  limit.
\<close>

lemma deleteClient_map:
  "cm_mClientInfo (deleteClient A (objNodeHandler A h) n s) = mdel (getClientInfo n s) (cm_mClientInfo s)
   \<and> getClientInfo m (deleteClient A (objNodeHandler A h) n s) = getClientInfo m s"
proof -
  let ?s0 = "set_client n ((cm_info s n)\<lparr>ci_nStatus := AGENT_STATUS_DEAD\<rparr>) s"
  let ?s1 = "forEach Close (ci_aryConnectionList (cm_info ?s0 n)) ?s0"
  let ?s2 = "RemoveEntry_cm A (objNodeHandler A h) (getAllEntry_ci n ?s1) n ?s1"
  have "cm_info ?s1 = cm_info ?s0" "cm_mClientInfo ?s1 = cm_mClientInfo ?s0"
    using outside_quiet [OF quiet_Closes [of ?s0]] more_client [of ?s1 ?s0] by (simp_all add: outside_def)
  then have "cm_info ?s2 = cm_info ?s0" "cm_mClientInfo ?s2 = cm_mClientInfo s"
    using nh.RemoveEntry_frame [of A A h "getAllEntry_ci n ?s1" n ?s1] by (simp_all add: set_client_def)
  then show ?thesis
    by (simp add: deleteClient_def markDead_ci_def Let_def getClientInfo_def) (simp add: set_client_def)
qed

lemma deleteClients_map:
  "mget (cm_mClientInfo (forEach (deleteClient A (objNodeHandler A h)) ns s)) k
     = (if k \<in> (\<lambda>n. getClientInfo n s) ` set ns then None else mget (cm_mClientInfo s) k)"
  by (induction ns arbitrary: s) (auto simp: deleteClient_map)

lemma cleanTimeout_cm_exact:
  assumes inv: "client_inv A s" and ok: "gomap_ok (cm_mClientInfo s)"
  shows "mget (cm_mClientInfo (cleanTimeout_cm A (objNodeHandler A h) nNow s)) k =
    (case mget (cm_mClientInfo s) k of
       None \<Rightarrow> None | Some n \<Rightarrow> if timeout_ci nNow (ae_ClientTimeout A) n s then None else Some n)"
proof -
  let ?late = "\<lambda>(c, nTime). gt64 nNow (nTime + ae_ConnectTimeout A)"
  let ?s0 = "s\<lparr>cm_mTempConnection := filter (\<lambda>e. \<not> ?late e) (cm_mTempConnection s)\<rparr>"
  let ?s1 = "forEach Close (map fst (filter ?late (cm_mTempConnection s))) ?s0"
  let ?ns = "filter (\<lambda>n. timeout_ci nNow (ae_ClientTimeout A) n s) (map snd (cm_mClientInfo s))"
  have s1: "cm_info ?s1 = cm_info s" "cm_mClientInfo ?s1 = cm_mClientInfo s"
    using outside_quiet [OF quiet_Closes [of ?s0]] more_client [of ?s1 ?s0] by (simp_all add: outside_def)
  have id: "getClientInfo n s = k'" if "mget (cm_mClientInfo s) k' = Some n" for k' n
    using client_inv_known [OF inv [unfolded client_inv_def] that] by simp
  have "mget (cm_mClientInfo (cleanTimeout_cm A (objNodeHandler A h) nNow s)) k
      = (if k \<in> (\<lambda>n. getClientInfo n s) ` set ?ns then None else mget (cm_mClientInfo s) k)"
    by (simp add: cleanTimeout_cm_def Let_def deleteClients_map s1 timeout_ci_def getClientInfo_def)
  moreover have "k \<in> (\<lambda>n. getClientInfo n s) ` set ?ns \<longleftrightarrow>
      (\<exists>n. mget (cm_mClientInfo s) k = Some n \<and> timeout_ci nNow (ae_ClientTimeout A) n s)"
  proof
    assume "k \<in> (\<lambda>n. getClientInfo n s) ` set ?ns"
    then obtain n k' where n: "k = getClientInfo n s" "timeout_ci nNow (ae_ClientTimeout A) n s" "(k', n) \<in> set (cm_mClientInfo s)"
      by auto
    then have "mget (cm_mClientInfo s) k' = Some n" by (simp add: gomap_ok_in [OF ok])
    then show "\<exists>n. mget (cm_mClientInfo s) k = Some n \<and> timeout_ci nNow (ae_ClientTimeout A) n s" using id n by metis
  next
    assume "\<exists>n. mget (cm_mClientInfo s) k = Some n \<and> timeout_ci nNow (ae_ClientTimeout A) n s"
    then obtain n where n: "mget (cm_mClientInfo s) k = Some n" "timeout_ci nNow (ae_ClientTimeout A) n s" by blast
    then have "n \<in> set ?ns" using mget_in_set by force
    then show "k \<in> (\<lambda>n. getClientInfo n s) ` set ?ns" using id [OF n(1)] by blast
  qed
  ultimately show ?thesis by (auto split: option.split)
qed

text \<open>
  After its first keepalive the demo is silent for 21 seconds, six more than the time limit of the
  shipped configuration, so a timer that fires in these seconds drops the demo.
\<close>

lemma demo_falls_silent:
  fixes s :: ClientManager and a :: "'a demo_scheme" and A :: agent_env
  defines "H \<equiv> objNodeHandler A (cm_objNodeHandler s)"
  assumes inv: "client_inv A s" "gomap_ok (cm_mClientInfo s)" and known: "mget (cm_mClientInfo s) k = Some n" "getClient ctx s = Some n"
    and unm: "Unmarshal_AgentKeepAliveNotify (ae_pb A) b = Some m" and handled: "handleKeepAlive_cm A H ch t0 b ctx s = (z, s1)"
    and late: "gt64 t1 (t0 + ae_ClientTimeout A)" and first: "keepalive_done True m rsp a = a1"
  shows "mget (cm_mClientInfo (cleanTimeout_cm A H t1 s1)) k = None \<and> last (dm_thread a1) = LoopKeepAlive False 21"
proof -
  have alive: "ci_nStatus (cm_info s n) \<noteq> AGENT_STATUS_DEAD"
    using client_inv_known [OF inv(1) [unfolded client_inv_def] known(1)] by (simp add: alive_ci_def)
  let ?s0 = "refreshKeepLiveTime_ci t0 n s"
  define rsp' where "rsp' = \<lparr>AgentKeepAliveRsp_AryAgent = map (\<lambda>i. \<lparr>agent_AgentInfo_Name = NodeInfo_Name i,
      agent_AgentInfo_IP = NodeInfo_IP i, agent_AgentInfo_Port = NodeInfo_AgentPort i\<rparr>) (nh_NodeList H (ch_pick (ac_node ch)) ?s0)\<rparr>"
  have s1: "s1 = snd (reply_cm A ''SUCCESS'' (MAgentKeepAliveRsp rsp') ctx ?s0)"
    using handled known(2) unm alive by (simp add: handleKeepAlive_cm_def getState_ci_def Let_def rsp'_def)
  have "cm_info s1 = cm_info ?s0" "cm_mClientInfo s1 = cm_mClientInfo ?s0"
    using outside_quiet [OF quiet_reply_cm [of ?s0 A "''SUCCESS''" "MAgentKeepAliveRsp rsp'" ctx]] more_client [of s1 ?s0]
    unfolding s1 by (simp_all add: outside_def)
  then have "ci_nLastKeepAliveTime (cm_info s1 n) = t0" "cm_mClientInfo s1 = cm_mClientInfo s"
    by (simp_all add: refreshKeepLiveTime_ci_def set_client_def)
  moreover have "client_inv A s1"
    using nh.client_inv_handleKeepAlive [OF inv(1), of A "cm_objNodeHandler s" ch t0 b ctx] handled by (simp add: H_def)
  ultimately have "mget (cm_mClientInfo (cleanTimeout_cm A H t1 s1)) k = None"
    using cleanTimeout_cm_exact [of A s1 "cm_objNodeHandler s" t1 k] known(1) inv(2) late by (simp add: H_def timeout_ci_def)
  moreover have "last (dm_thread a1) = LoopKeepAlive False 21"
    using first by (auto simp: keepalive_done_def demo_go_def)
  ultimately show ?thesis ..
qed

section \<open>The call\<close>

lemma demo_req: "AgentRpcDemo pb dl q a = start_demo pb dl
    (Timeout_call 10000 (NewCall q NODE_RPC_REQ (MRpcCallReq (sync_req RPC_URI_DEMO (Marshal_TestMsgReq dl demo_msg))) (dm_ptrAgent a)))
    (AfterRpc demo_msg (sync_req RPC_URI_DEMO (Marshal_TestMsgReq dl demo_msg))) a"
  by (simp add: AgentRpcDemo_def sync_req_def Let_def)

definition demo_reply :: "TestMsgReq \<Rightarrow> TestMsgRsp" where
  "demo_reply r = \<lparr>TestMsgRsp_TestReply = ''Reply: '' @ TestMsgReq_TestString r\<rparr>"

lemma demo_server_answers:
  fixes b :: "'a demo_scheme"
  assumes fits: "string_fits q" and codec: "Unmarshal_RpcCallReq pb (Marshal pb (MRpcCallReq (forwarded_req RPC_URI_DEMO d cs)))
      = Some (forwarded_req RPC_URI_DEMO d cs)" "Unmarshal_TestMsgReq dl d = (r, True)"
    and op: "transport_error c b = None"
  shows "OnRead_ds pb dl c (payload pb NODE_RPC_REQ 1 q (MRpcCallReq (forwarded_req RPC_URI_DEMO d cs))) ctx b
    = (Ret (), snd (Write c (fst (NewProtocol pb NODE_RPC_RESP 2 q
        (MRpcCallResp (answer_rsp RPC_URI_DEMO (Marshal_TestMsgRsp dl (demo_reply r)) cs)))) b))"
proof -
  have pk: "read_packet (payload pb NODE_RPC_REQ 1 q (MRpcCallReq (forwarded_req RPC_URI_DEMO d cs)))
      = Inr (NODE_RPC_REQ, 1, q, Marshal pb (MRpcCallReq (forwarded_req RPC_URI_DEMO d cs)))"
    by (rule read_packet_payload [OF rpc_uris_fit(1) fits]) simp
  have d: "RpcCallReq_Data (forwarded_req RPC_URI_DEMO d cs) = d" by (simp add: forwarded_req_def sync_req_def)
  show ?thesis
    using codec
    by (simp add: OnRead_ds_def pk demo_answer_def d case_prod_beta answer_rsp_def demo_reply_def Let_def del: One_nat_def)
qed

lemma demo_client_reads:
  fixes a :: "'a demo_scheme"
  assumes "mget (conn_table c a) q = Some x" "n_rpc a x = rpc_zero"
    and "string_fits q" "rq_ptrServerConnection rc = c"
    and "Unmarshal_RpcCallResp pb (Marshal pb (MRpcCallResp r)) = Some r"
    and "OnRead_dc c (payload pb NODE_RPC_RESP 2 q (MRpcCallResp r)) (Some rc) a = (z, a1)"
    and "finish_demo pb dl SelMsg \<lparr>dc_rpc = x, dc_conn = c, dc_szRequestID = q, dc_then = AfterRpc m req\<rparr> a1 = (z', a2)"
  shows "z = Ret () \<and> select_ready SelMsg False x a1 \<and> z' = Ret ()
    \<and> dm_log a2 = dm_log a @ [LogRpc m (TestMsgRsp_TestReply (fst (Unmarshal_TestMsgRsp dl (RpcCallResp_Data r))))]"
proof -
  have pk: "read_packet (payload pb NODE_RPC_RESP 2 q (MRpcCallResp r)) = Inr (NODE_RPC_RESP, 2, q, Marshal pb (MRpcCallResp r))"
    by (rule read_packet_payload [OF rpc_uris_fit(2) assms(3)]) simp
  have ctx: "GetServerConnection (Some rc) = Some c"
    using assms(4) by (simp add: GetServerConnection_def GetRequestContext_def)
  obtain t t2 where t: "raw_response (Some rc) q (Marshal pb (MRpcCallResp r)) a = (Ret (), t)"
      "select_ready SelMsg False x t" "Call_select (Unmarshal_RpcCallResp pb) SelMsg c q x t = (Ret (Some r), t2)"
      "net.more t2 = net.more a"
    using raw_response_taken [OF assms(1,2) ctx, of "Unmarshal_RpcCallResp pb", OF assms(5)] by blast
  have "a1 = t" "z = Ret ()" using assms(6) t(1) by (simp_all add: OnRead_dc_def pk)
  then show ?thesis
    using assms(7) t(2,3) more_demo [OF t(4)]
    by (auto simp: finish_demo_def returned_demo_def rpc_done_def Let_def demo_log_def demo_go_def)
qed

text \<open>
  C37. A call of the demo comes back.  The client sends its request over its connection, the
  agent, which knows the server as the provider of \<^verbatim>\<open>rpc.demo\<close>, hands it on, the server
  answers in its read loop, the agent passes the answer back, and the waiting call logs the
  text of the request behind \<^verbatim>\<open>Reply:\<close>; no step panics.  The agent may be in any other state when
  the answer arrives, as long as the caller is still connected and the provider known.
\<close>

theorem demo_end_to_end:
  fixes a :: "'c demo_scheme" and b :: "'d demo_scheme" and s s2 :: "'a ClientManager_scheme"
    and A :: agent_env and ch :: agent_choice and m :: clientref and sa :: connref
  defines "H \<equiv> objNodeHandler A NodeManagerHandler :: 'a ClientManager_scheme NodeHandler"
  defines "cid \<equiv> getConnectionID (Some sa) s"
  assumes fits: "string_fits q" "utf8_ok q" "string_fits (ac_uuid ch m)" "utf8_ok k" "utf8_ok cid"
    and codec: "rpc_codec (ae_pb A) RPC_URI_DEMO (Marshal_TestMsgReq dl demo_msg)
        (Marshal_TestMsgRsp dl (demo_reply demo_msg)) (GenAgentCaller k q cid)"
      "Unmarshal_TestMsgReq dl (Marshal_TestMsgReq dl demo_msg) = (demo_msg, True)"
      "Unmarshal_TestMsgRsp dl (Marshal_TestMsgRsp dl (demo_reply demo_msg)) = (demo_reply demo_msg, True)"
    and client: "dm_ptrAgent a = Some c" "transport_error c a = None" "AgentRpcDemo (ae_pb A) dl q a = a1"
      "delivers (last (sent c a1)) p1"
    and agent: "connected n k sa s" "serves A ch RPC_URI_DEMO m sb s" "transport_error sb s = None"
      "rq_ptrServerConnection rc1 = sa" "process_task_cm A H ch t1 sa p1 (Some rc1) s = (z1, s1)"
      "delivers (last (sent sb s1)) p2"
    and server: "transport_error d b = None" "OnRead_ds (ae_pb A) dl d p2 ctx b = (z2, b1)" "delivers (last (sent d b1)) p3"
    and again: "connected n k sa s2" "getConnectionID (Some sa) s2 = cid" "transport_error sa s2 = None"
      "getClientByConnection sb s2 \<noteq> None" "mget (conn_table sb s2) (ac_uuid ch m) = None"
      "rq_ptrServerConnection rc3 = sb" "process_task_cm A H ch' t4 sb p3 (Some rc3) s2 = (z3, s3)"
      "delivers (last (sent sa s3)) p4"
    and returned: "rq_ptrServerConnection rc4 = c" "OnRead_dc c p4 (Some rc4) a1 = (z4, a2)"
      "finish_demo (ae_pb A) dl SelMsg (last (dm_wait a1)) a2 = (z5, a3)"
  shows "set [z1, z2, z3, z4, z5] = {Ret ()} \<and> select_ready SelMsg False (dc_rpc (last (dm_wait a1))) a2
    \<and> dm_log a3 = dm_log a @ [LogRpc demo_msg ''Reply: 1'']"
proof -
  let ?pb = "ae_pb A" and ?u = RPC_URI_DEMO and ?d = "Marshal_TestMsgReq dl demo_msg"
  let ?y = "Marshal_TestMsgRsp dl (demo_reply demo_msg)" and ?cl = "GenAgentCaller k q cid"
  note rpc = codec(1) [unfolded rpc_codec_def]
  obtain x where 1: "last (sent c a1) = fst (NewProtocol ?pb NODE_RPC_REQ 1 q (MRpcCallReq (sync_req ?u ?d)))"
    and w: "last (dm_wait a1) = \<lparr>dc_rpc = x, dc_conn = c, dc_szRequestID = q, dc_then = AfterRpc demo_msg (sync_req ?u ?d)\<rparr>"
    and x: "dm_log a1 = dm_log a" "mget (conn_table c a1) q = Some x" "n_rpc a1 x = rpc_zero"
    using start_demo_open [OF client(2) client(3) [unfolded demo_req client(1)]] by auto
  have p1: "p1 = payload ?pb NODE_RPC_REQ 1 q (MRpcCallReq (sync_req ?u ?d))"
    by (rule delivers_payload) (use client(4) 1 in simp)
  have "Unmarshal_RpcCallReq ?pb (Marshal ?pb (MRpcCallReq (sync_req ?u ?d))) = Some (sync_req ?u ?d)" using rpc by simp
  from agent_forwards [OF agent(1-3) fits(1) agent(4) this, folded H_def cid_def, OF agent(5) [unfolded p1]]
  have 2: "z1 = Ret ()" "last (sent sb s1) = fst (NewProtocol ?pb NODE_RPC_REQ 1 (ac_uuid ch m) (MRpcCallReq (forwarded_req ?u ?d [?cl])))"
    by (simp_all add: connected_after(3) [OF agent(3)])
  have p2: "p2 = payload ?pb NODE_RPC_REQ 1 (ac_uuid ch m) (MRpcCallReq (forwarded_req ?u ?d [?cl]))"
    by (rule delivers_payload) (use agent(6) 2(2) in simp)
  have "Unmarshal_RpcCallReq ?pb (Marshal ?pb (MRpcCallReq (forwarded_req ?u ?d [?cl]))) = Some (forwarded_req ?u ?d [?cl])"
    using rpc by simp
  from demo_server_answers [OF fits(3) this codec(2) server(1)]
  have 3: "z2 = Ret ()" "b1 = snd (Write d (fst (NewProtocol ?pb NODE_RPC_RESP 2 (ac_uuid ch m) (MRpcCallResp (answer_rsp ?u ?y [?cl])))) b)"
    using server(2) unfolding p2 by simp_all
  have p3: "p3 = payload ?pb NODE_RPC_RESP 2 (ac_uuid ch m) (MRpcCallResp (answer_rsp ?u ?y [?cl]))"
    by (rule delivers_payload) (use server(3) 3(2) Write_open(2) [OF server(1)] in simp)
  have "RpcCallResp_Caller (answer_rsp ?u ?y [?cl]) = [] @ [GenAgentCaller k q (getConnectionID (Some sa) s2)]"
    "Unmarshal_RpcCallResp ?pb (Marshal ?pb (MRpcCallResp (answer_rsp ?u ?y [?cl]))) = Some (answer_rsp ?u ?y [?cl])"
    using again(2) rpc by simp_all
  from agent_returns [OF again(1,4,3) fits(3) again(5,6) fits(4,2) _ this, folded H_def, OF _ again(7) [unfolded p3]]
  have 4: "z3 = Ret ()" "last (sent sa s3) = fst (NewProtocol ?pb NODE_RPC_RESP 2 q (MRpcCallResp (answer_rsp ?u ?y [])))"
    using fits(5) again(2) by simp_all
  have p4: "p4 = payload ?pb NODE_RPC_RESP 2 q (MRpcCallResp (answer_rsp ?u ?y []))"
    by (rule delivers_payload) (use again(8) 4(2) in simp)
  have "Unmarshal_RpcCallResp ?pb (Marshal ?pb (MRpcCallResp (answer_rsp ?u ?y []))) = Some (answer_rsp ?u ?y [])" using rpc by simp
  from demo_client_reads [OF x(2,3) fits(1) returned(1) this returned(2) [unfolded p4] returned(3) [unfolded w]]
  show ?thesis using 2(1) 3(1) 4(1) x(1) w codec(3) by (simp add: demo_reply_def demo_msg_def)
qed

section \<open>A call to compute\<close>

definition demo_pb :: proto_lib where
  "demo_pb = e2e_pb\<lparr>
     Unmarshal_RpcCallReq := \<lambda>b. Some (if b = ''1'' then sync_req RPC_URI_DEMO ''d'' else forwarded_req RPC_URI_DEMO ''d'' [e2e_stack]),
     Unmarshal_RpcCallResp := \<lambda>b. Some (answer_rsp RPC_URI_DEMO ''y'' (if b = ''1'' then [] else [e2e_stack]))\<rparr>"

definition demo_dl :: demo_lib where
  "demo_dl = \<lparr>Marshal_TestMsgReq = (\<lambda>_. ''d''), Marshal_TestMsgRsp = (\<lambda>_. ''y''),
     Unmarshal_TestMsgReq = (\<lambda>_. (demo_msg, True)), Unmarshal_TestMsgRsp = (\<lambda>_. (demo_reply demo_msg, True))\<rparr>"

definition demo_env :: agent_env where
  "demo_env = agent_env1\<lparr>ae_node := example_env\<lparr>ne_pb := demo_pb\<rparr>\<rparr>"

definition demo_agent :: ClientManager where
  "demo_agent = (AddEntry example_env RPC_URI_DEMO 2 e2e_agent)\<lparr>cm_mUri2Client := [(''rpc.demo_RPC'', [2])]\<rparr>"

definition demo_zero :: demo where
  "demo_zero = net.extend net_zero \<lparr>dm_ptrAgent = Some 0, dm_wait = [], dm_thread = [], dm_log = []\<rparr>"

abbreviation (input) demo_handler :: "ClientManager NodeHandler" where
  "demo_handler \<equiv> objNodeHandler demo_env NodeManagerHandler"

definition demo_a1 :: demo where
  "demo_a1 = AgentRpcDemo demo_pb demo_dl ''q'' demo_zero"

definition demo_s1 :: ClientManager where
  "demo_s1 = snd (process_task_cm demo_env demo_handler agent_choice1 100 0 (drop 4 (last (sent 0 demo_a1))) (Some (e2e_rc 0)) demo_agent)"

definition demo_b1 :: demo where
  "demo_b1 = snd (OnRead_ds demo_pb demo_dl 0 (drop 4 (last (sent 1 demo_s1))) (Some (e2e_rc 0)) demo_zero)"

definition demo_s3 :: ClientManager where
  "demo_s3 = snd (process_task_cm demo_env demo_handler agent_choice1 101 1 (drop 4 (last (sent 0 demo_b1))) (Some (e2e_rc 1)) demo_s1)"

definition demo_a2 :: demo where
  "demo_a2 = snd (OnRead_dc 0 (drop 4 (last (sent 0 demo_s3))) (Some (e2e_rc 0)) demo_a1)"

definition demo_a3 :: demo where
  "demo_a3 = snd (finish_demo demo_pb demo_dl SelMsg (last (dm_wait demo_a1)) demo_a2)"

lemma demo_pb_parts [simp]: "ae_pb demo_env = demo_pb" "length (Marshal demo_pb m) \<le> 1"
  using e2e_pb(2) [of m] by (simp_all add: demo_env_def demo_pb_def)

lemma demo_codec:
  "rpc_codec demo_pb RPC_URI_DEMO (Marshal_TestMsgReq demo_dl demo_msg) (Marshal_TestMsgRsp demo_dl (demo_reply demo_msg)) e2e_stack"
  "Unmarshal_TestMsgReq demo_dl b = (demo_msg, True)" "Unmarshal_TestMsgRsp demo_dl b = (demo_reply demo_msg, True)"
  by (simp_all add: rpc_codec_def demo_pb_def e2e_pb_def demo_dl_def sync_req_def forwarded_req_def PushStack_def answer_rsp_def)

lemma demo_delivers:
  assumes "b = fst (NewProtocol demo_pb u t q m)" "length u + length q \<le> 100"
  shows "delivers b (drop 4 b)"
proof -
  have "5 + length u + length q + length (Marshal demo_pb m) \<le> PACKET_LIMIT"
    using assms(2) demo_pb_parts(2) [of m] by linarith
  moreover have "drop 4 b = payload demo_pb u t q m" using assms(1) by (simp add: fst_NewProtocol)
  ultimately show ?thesis using delivers_fits assms(1) by metis
qed

lemma e2e_agent_sequence: "nm_nSequence e2e_agent = 1"
  by (simp add: e2e_agent_def bind_ctx_def net_upd_defs set_client_def NewClientManager_def NodeManager.extend_def
      node_a1_def AddEntry_def example_defs entryExist_def alive_def getUri_def EntryType_String_def lib_stub_def
      EntryType_name_def modifyEntry_def modify_one_def set_route_def GoTask_def getUri2_def mgets_def)

lemma demo_agent_net:
  "n_conn demo_agent = n_conn e2e_agent" "n_table demo_agent = (\<lambda>_. [])" "cm_info demo_agent = cm_info e2e_agent"
  "cm_mClientInfo demo_agent = cm_mClientInfo e2e_agent" "nm_ptrSelf demo_agent = 0"
  "entryExist2 (ae_node demo_env) 0 RPC_URI_DEMO EntryType_RPC False demo_agent"
  by (simp_all add: demo_agent_def AddEntry_def e2e_agent_net e2e_agent_sequence node_a1_def example_defs entryExist_def alive_def getUri_def
      EntryType_String_def lib_stub_def EntryType_name_def modifyEntry_def modify_one_def set_route_def
      GoTask_def net_zero_def getUri2_def mgets_def RPC_URI_DEMO_def entryExist2_def demo_env_def demo_pb_def e2e_pb_def)

lemma demo_open:
  "transport_error c demo_agent = None" "getConnectionID (Some c) demo_agent = ''_''" "conn_table c demo_agent = []"
  "transport_error c demo_zero = None" "dm_ptrAgent demo_zero = Some 0" "dm_log demo_zero = []"
  "getClientByConnection 1 demo_agent = Some 2"
  using e2e_open(1,2) [of c]
  by (simp_all add: transport_error_def getConnectionID_def conn_table_def demo_agent_net demo_zero_def net.extend_def
      net_zero_def conn_zero_def getClientByConnection_def e2e_agent_net)

lemma demo_connected: "connected 1 ''c1'' 0 demo_agent"
  using e2e_connected
  by (simp add: connected_def demo_agent_net getClientInfo_def getClientByConnection_def getConnectionID_def)

lemma demo_serves: "serves demo_env agent_choice1 RPC_URI_DEMO 2 1 demo_agent"
proof -
  have "mget (cm_mUri2Client demo_agent) ''rpc.demo_RPC'' = Some [2]" by (simp add: demo_agent_def)
  then show ?thesis
    using demo_agent_net(5,6)
    by (simp add: serves_def hosts_def demo_agent_net e2e_agent_clients getClient4RpcCallReq_def EntryType_String_def EntryType_name_def
        RPC_URI_DEMO_def demo_pb_def e2e_pb_def lib_stub_def e2e_client_def getConnection_ci_def pick_def agent_choice1_def rand_Intn_def
        del: One_nat_def)
qed

abbreviation (input) demo_fwd :: RpcCallReq where
  "demo_fwd \<equiv> forwarded_req RPC_URI_DEMO ''d'' [e2e_stack]"

abbreviation (input) demo_rsp :: "string list \<Rightarrow> RpcCallResp" where
  "demo_rsp \<equiv> answer_rsp RPC_URI_DEMO ''y''"

lemma demo_bytes: "Marshal_TestMsgReq demo_dl demo_msg = ''d''" "Marshal_TestMsgRsp demo_dl (demo_reply demo_msg) = ''y''"
  by (simp_all add: demo_dl_def)

lemmas demo_rpc = demo_codec(1) [unfolded demo_bytes rpc_codec_def]

lemma demo_rc: "rq_ptrServerConnection (e2e_rc c) = c" "ac_uuid agent_choice1 2 = ''uuid''" "string_fits ''q''" "string_fits ''uuid''"
  by (simp_all add: e2e_rc_def agent_choice1_def string_fits_def)

lemma demo_step1:
  "last (sent 0 demo_a1) = fst (NewProtocol demo_pb NODE_RPC_REQ 1 ''q'' (MRpcCallReq (sync_req RPC_URI_DEMO ''d'')))"
  using start_demo_open [OF demo_open(4) demo_a1_def [symmetric, unfolded demo_req demo_open(5)]] demo_bytes by auto

lemma demo_step2:
  "process_task_cm demo_env demo_handler agent_choice1 100 0 (drop 4 (last (sent 0 demo_a1))) (Some (e2e_rc 0)) demo_agent
     = (Ret (), demo_s1)"
  "demo_s1 = refreshKeepLiveTime_ci 100 1 (snd (Write 1
     (fst (NewProtocol demo_pb NODE_RPC_REQ 1 ''uuid'' (MRpcCallReq demo_fwd))) demo_agent))"
proof -
  obtain z1 where s1: "process_task_cm demo_env demo_handler agent_choice1 100 0 (drop 4 (last (sent 0 demo_a1))) (Some (e2e_rc 0)) demo_agent
      = (z1, demo_s1)" by (metis demo_s1_def prod.collapse)
  have "drop 4 (last (sent 0 demo_a1)) = payload demo_pb NODE_RPC_REQ 1 ''q'' (MRpcCallReq (sync_req RPC_URI_DEMO ''d''))"
    using demo_step1 by (simp add: fst_NewProtocol)
  note s1' = s1 [unfolded this]
  have "Unmarshal_RpcCallReq demo_pb (Marshal demo_pb (MRpcCallReq (sync_req RPC_URI_DEMO ''d''))) = Some (sync_req RPC_URI_DEMO ''d'')"
    using demo_rpc by simp
  note fwd = agent_forwards [OF demo_connected demo_serves demo_open(1) demo_rc(3,1), unfolded demo_pb_parts(1), OF this s1']
  show "demo_s1 = refreshKeepLiveTime_ci 100 1 (snd (Write 1
     (fst (NewProtocol demo_pb NODE_RPC_REQ 1 ''uuid'' (MRpcCallReq demo_fwd))) demo_agent))"
    using fwd(2) demo_rc(2) demo_open(2) [of 0] by (simp add: e2e_stack_def)
  show "process_task_cm demo_env demo_handler agent_choice1 100 0 (drop 4 (last (sent 0 demo_a1))) (Some (e2e_rc 0)) demo_agent
     = (Ret (), demo_s1)" using fwd(1) s1 by simp
qed

lemma demo_s1_parts:
  "connected 1 ''c1'' 0 demo_s1" "getConnectionID (Some 0) demo_s1 = ''_''" "transport_error 0 demo_s1 = None"
  "getClientByConnection 1 demo_s1 \<noteq> None" "mget (conn_table 1 demo_s1) ''uuid'' = None"
  "last (sent 1 demo_s1) = fst (NewProtocol demo_pb NODE_RPC_REQ 1 ''uuid'' (MRpcCallReq demo_fwd))"
  using connected_after [where c' = 1 and n' = 1 and nNow = 100
      and b = "fst (NewProtocol demo_pb NODE_RPC_REQ 1 ''uuid'' (MRpcCallReq demo_fwd))", OF demo_open(1), folded demo_step2(2)]
    demo_connected demo_open
  by (simp_all del: One_nat_def)

lemma demo_step3:
  "OnRead_ds demo_pb demo_dl 0 (drop 4 (last (sent 1 demo_s1))) (Some (e2e_rc 0)) demo_zero = (Ret (), demo_b1)"
  "last (sent 0 demo_b1) = fst (NewProtocol demo_pb NODE_RPC_RESP 2 ''uuid'' (MRpcCallResp (demo_rsp [e2e_stack])))"
proof -
  let ?b = "fst (NewProtocol demo_pb NODE_RPC_RESP 2 ''uuid'' (MRpcCallResp (demo_rsp [e2e_stack])))"
  have p: "drop 4 (last (sent 1 demo_s1)) = payload demo_pb NODE_RPC_REQ 1 ''uuid'' (MRpcCallReq demo_fwd)"
    unfolding demo_s1_parts(6) by (simp add: fst_NewProtocol)
  have "Unmarshal_RpcCallReq demo_pb (Marshal demo_pb (MRpcCallReq demo_fwd)) = Some demo_fwd" using demo_rpc by simp
  from demo_server_answers [OF demo_rc(4) this demo_codec(2) demo_open(4), of 0 "Some (e2e_rc 0)"]
  have 1: "OnRead_ds demo_pb demo_dl 0 (drop 4 (last (sent 1 demo_s1))) (Some (e2e_rc 0)) demo_zero = (Ret (), snd (Write 0 ?b demo_zero))"
    unfolding p demo_bytes .
  then have eq: "demo_b1 = snd (Write 0 ?b demo_zero)" by (simp add: demo_b1_def)
  show "OnRead_ds demo_pb demo_dl 0 (drop 4 (last (sent 1 demo_s1))) (Some (e2e_rc 0)) demo_zero = (Ret (), demo_b1)"
    unfolding eq by (rule 1)
  show "last (sent 0 demo_b1) = ?b" unfolding eq by (simp add: Write_open(2) [OF demo_open(4)])
qed

lemma demo_step4:
  "process_task_cm demo_env demo_handler agent_choice1 101 1 (drop 4 (last (sent 0 demo_b1))) (Some (e2e_rc 1)) demo_s1 = (Ret (), demo_s3)"
  "last (sent 0 demo_s3) = fst (NewProtocol demo_pb NODE_RPC_RESP 2 ''q'' (MRpcCallResp (demo_rsp [])))"
proof -
  obtain z3 where s3: "process_task_cm demo_env demo_handler agent_choice1 101 1 (drop 4 (last (sent 0 demo_b1))) (Some (e2e_rc 1)) demo_s1
      = (z3, demo_s3)" by (metis demo_s3_def prod.collapse)
  have "drop 4 (last (sent 0 demo_b1)) = payload demo_pb NODE_RPC_RESP 2 ''uuid'' (MRpcCallResp (demo_rsp [e2e_stack]))"
    using demo_step3(2) by (simp add: fst_NewProtocol)
  note s3' = s3 [unfolded this]
  have utf: "utf8_ok ''c1''" "utf8_ok ''q''" "utf8_ok ''_''" by (simp_all add: utf8_ok.simps utf8_len.simps)
  have rsp: "Unmarshal_RpcCallResp demo_pb (Marshal demo_pb (MRpcCallResp (demo_rsp [e2e_stack]))) = Some (demo_rsp [e2e_stack])"
    using demo_rpc by simp
  have stack: "RpcCallResp_Caller (demo_rsp [e2e_stack]) = [] @ [GenAgentCaller ''c1'' ''q'' (getConnectionID (Some 0) demo_s1)]"
    by (simp add: demo_s1_parts(2) e2e_stack_def)
  from agent_returns [where A = demo_env and q = "''q''", unfolded demo_pb_parts(1),
      OF demo_s1_parts(1,4,3) demo_rc(4) demo_s1_parts(5) demo_rc(1) utf(1,2) _ stack rsp s3'] utf(3) demo_s1_parts(2)
  show "process_task_cm demo_env demo_handler agent_choice1 101 1 (drop 4 (last (sent 0 demo_b1))) (Some (e2e_rc 1)) demo_s1 = (Ret (), demo_s3)"
    "last (sent 0 demo_s3) = fst (NewProtocol demo_pb NODE_RPC_RESP 2 ''q'' (MRpcCallResp (demo_rsp [])))"
    using s3 by simp_all
qed

text \<open>The client \<open>c1\<close> calls, the server \<open>c2\<close> answers.\<close>

theorem demo_end_to_end_witness: "dm_log demo_a3 = [LogRpc demo_msg ''Reply: 1'']"
proof -
  have utf: "utf8_ok ''c1''" "utf8_ok ''q''" "utf8_ok ''_''" by (simp_all add: utf8_ok.simps utf8_len.simps)
  have d: "delivers (last (sent 0 demo_a1)) (drop 4 (last (sent 0 demo_a1)))" "delivers (last (sent 1 demo_s1)) (drop 4 (last (sent 1 demo_s1)))"
    "delivers (last (sent 0 demo_b1)) (drop 4 (last (sent 0 demo_b1)))" "delivers (last (sent 0 demo_s3)) (drop 4 (last (sent 0 demo_s3)))"
    by (rule demo_delivers [OF demo_step1], simp, rule demo_delivers [OF demo_s1_parts(6)], simp,
        rule demo_delivers [OF demo_step3(2)], simp, rule demo_delivers [OF demo_step4(2)], simp)
  obtain z4 z5 where r: "OnRead_dc 0 (drop 4 (last (sent 0 demo_s3))) (Some (e2e_rc 0)) demo_a1 = (z4, demo_a2)"
    "finish_demo demo_pb demo_dl SelMsg (last (dm_wait demo_a1)) demo_a2 = (z5, demo_a3)"
    by (metis demo_a2_def demo_a3_def prod.collapse)
  from demo_end_to_end [where A = demo_env and q = "''q''" and ch = agent_choice1 and m = 2 and dl = demo_dl and k = "''c1''" and s = demo_agent and sa = 0,
      unfolded demo_pb_parts(1) demo_rc(2) demo_open(2), folded e2e_stack_def,
      OF demo_rc(3) utf(2) demo_rc(4) utf(1,3) demo_codec demo_open(5,4) demo_a1_def [symmetric] d(1) demo_connected demo_serves
        demo_open(1) demo_rc(1) demo_step2(1) d(2) demo_open(4) demo_step3(1) d(3) demo_s1_parts(1-5) demo_rc(1) demo_step4(1) d(4) demo_rc(1) r]
  show ?thesis by (simp add: demo_open)
qed

end
