(* ===== verification/Handshake.thy ===== *)
theory Handshake
  imports EndToEnd RawClient
begin

text \<open>
  Two nodes become neighbours: one dials the other and says hello (\<^verbatim>\<open>reconnect\<close>), the other
  checks and admits it (\<^verbatim>\<open>handleSayHello\<close>) and replies, and the first binds the connection.
\<close>

text \<open>What a connection can carry and has carried depends on the connections only.\<close>

lemma conn_frame:
  "n_conn t = n_conn s \<Longrightarrow> transport_error c t = transport_error c s"
  "n_conn t = n_conn s \<Longrightarrow> sent c t = sent c s"
  by (simp_all add: transport_error_def sent_def)

section \<open>The dialling node says hello\<close>

definition hello_of :: "node_env \<Rightarrow> int64 \<Rightarrow> 'a nodes_scheme \<Rightarrow> SayHelloReq" where
  "hello_of E nNow s =
     \<lparr>SayHelloReq_NodeInfo = Some (nm_MyInfo s),
      SayHelloReq_Sign = makeSign (ne_szSecretKey E) (NodeInfo_Name (nm_MyInfo s)) nNow,
      SayHelloReq_TimeStamp = nNow, SayHelloReq_DataVersion = 0\<rparr>"

lemma reconnect_sends:
  fixes a :: "'a nodes_scheme" and n :: noderef
  defines "c \<equiv> n_nextConn a" and "q \<equiv> fst (nextRequestID n a)"
  assumes ok: "alive n a" "\<not> connectionAvailable E n a"
    and run: "reconnect_begin E nNow (True, szLocal) szUUID n a = (z, a1)"
  shows "\<exists>x. z = Ret () \<and> sent c a1 = [fst (NewProtocol (ne_pb E) NODE_SAY_HELLO 1 q (MSayHelloReq (hello_of E nNow a)))]
    \<and> nm_wait a1 = nm_wait a @ [\<lparr>wt_rpc = x, wt_conn = c, wt_szRequestID = q, wt_then = WaitHello n\<rparr>]
    \<and> mget (conn_table c a1) q = Some x \<and> n_rpc a1 x = rpc_zero \<and> transport_error c a1 = None
    \<and> sc_Ctx (n_conn a1 c) = None \<and> nm_MyInfo a1 = nm_MyInfo a
    \<and> nm_info a1 = (nm_info a)(n := (nm_info a n)\<lparr>info_nSequence := info_nSequence (nm_info a n) + 1\<rparr>)"
proof -
  let ?ip = "info_szIP (nm_info a n)" and ?port = "info_nPort (nm_info a n)"
  obtain s1 where s1: "NewClient True szLocal ?ip ?port [] a = (Some c, s1)"
    and new: "net.more s1 = net.more a" "transport_error c s1 = None" "sent c s1 = []" "sc_Ctx (n_conn s1 c) = None"
    by (simp add: NewClient_def new_connection_def Let_def c_def net_upd_defs transport_error_def sent_def)
  note m1 = more_nodes [OF new(1)]
  let ?s2 = "set_info n ((nm_info a n)\<lparr>info_nSequence := info_nSequence (nm_info a n) + 1\<rparr>) s1"
  have seq: "nextRequestID n s1 = (q, ?s2)" by (simp add: nextRequestID_def Let_def q_def m1)
  have sc: "n_conn ?s2 = n_conn s1" by (simp add: set_info_def)
  have s2: "transport_error c ?s2 = None" "sent c ?s2 = []" "sc_Ctx (n_conn ?s2 c) = None"
    using new by (simp_all add: conn_frame [OF sc] sc)
  let ?cc = "(NewCall q NODE_SAY_HELLO (MSayHelloReq (hello_of E nNow a)) (Some c))\<lparr>call_nTimeoutMs := 2000\<rparr>"
  obtain x t where t: "Call_begin (ne_pb E) ?cc ?s2 = (Some x, t)"
      "sent c t = sent c ?s2 @ [fst (NewProtocol (ne_pb E) NODE_SAY_HELLO 1 q (MSayHelloReq (hello_of E nNow a)))]"
      "net.more t = net.more ?s2" "mget (conn_table c t) q = Some x" "n_rpc t x = rpc_zero" "transport_error c t = None"
    using Call_begin_open [OF s2(1)] by blast
  have ctx: "sc_Ctx (n_conn t c) = None"
  proof -
    have "n_conn (snd (AddRpcContext c q ?s2)) = n_conn ?s2" by (simp add: AddRpcContext_def Let_def net_upd_defs)
    then have "sc_Ctx (n_conn (snd (Call_begin (ne_pb E) ?cc ?s2)) c) = sc_Ctx (n_conn ?s2 c)"
      by (auto simp: Call_begin_def NewCall_def split: prod.split bool.split) (metis Write_ctx snd_conv)+
    then show ?thesis using t(1) s2(3) by simp
  qed
  have "(NewCall szUUID NODE_SAY_HELLO (MSayHelloReq (hello_of E nNow a)) (Some c))
      \<lparr>call_szRequestID := q, call_nTimeoutMs := 2000\<rparr> = ?cc" by (simp add: NewCall_def)
  then have "reconnect_begin E nNow (True, szLocal) szUUID n a = (Ret (), go_wait x c q (WaitHello n) t)"
    using ok s1 seq t(1) m1 by (simp add: reconnect_begin_def Let_def hello_of_def)
  then have a1: "z = Ret ()" "a1 = go_wait x c q (WaitHello n) t" using run by simp_all
  note mt = more_nodes [OF t(3)]
  have ac: "n_conn a1 = n_conn t" "n_rpc a1 = n_rpc t" "conn_table c a1 = conn_table c t"
    by (simp_all add: a1(2) go_wait_def conn_table_def)
  show ?thesis
    using a1(1) t(2,4-6) s2(2) ctx
    by (intro exI [of _ x]) (simp add: ac conn_frame [OF ac(1)], simp add: a1(2) go_wait_def mt set_info_def m1)
qed

section \<open>The other node admits it\<close>

definition hello_rsp :: "node_env \<Rightarrow> int64 \<Rightarrow> 'a NodeManager_scheme \<Rightarrow> SayHelloRsp" where
  "hello_rsp E nNow s = SayHelloRsp_zero\<lparr>
     SayHelloRsp_Sign := makeSign (ne_szSecretKey E) (nm_name s (nm_ptrSelf s)) nNow,
     SayHelloRsp_TimeStamp := nNow, SayHelloRsp_NodeInfo := Some (nm_MyInfo s)\<rparr>"

text \<open>The node has no record of that name, or a live one with room for a connection.\<close>

definition may_join :: "node_env \<Rightarrow> string \<Rightarrow> 'a NodeManager_scheme \<Rightarrow> bool" where
  "may_join E szName s \<longleftrightarrow>
     (case mget (nm_mNodeInfo s) szName of
        None \<Rightarrow> True
      | Some n \<Rightarrow> alive n s \<and> length (info_aryConnectionList (nm_info s n)) \<le> ne_NeighbourMaxConnection E)"

lemma addConnection_room:
  assumes "alive n s" "length (info_aryConnectionList (nm_info s n)) \<le> ne_NeighbourMaxConnection E"
  shows "addConnection E n c s
    = set_info n ((nm_info s n)\<lparr>info_aryConnectionList := info_aryConnectionList (nm_info s n) @ [c]\<rparr>) s"
  using assms by (simp add: addConnection_def)

text \<open>The connection c is bound to the record n, which is alive and lists it.\<close>

definition joined :: "noderef \<Rightarrow> connref \<Rightarrow> 'a nodes_scheme \<Rightarrow> bool" where
  "joined n c s \<longleftrightarrow> alive n s \<and> c \<in> set (info_aryConnectionList (nm_info s n)) \<and> sc_Ctx (n_conn s c) = Some (CtxNode n)"

lemma joined_frame:
  "n_conn t = n_conn s \<Longrightarrow> nm_info t = nm_info s \<Longrightarrow> joined n c t = joined n c s"
  by (simp add: joined_def alive_def)

lemma joined_setInstanceID [simp]: "joined n c (setInstanceID n' i s) = joined n c s"
  by (simp add: joined_def alive_def setInstanceID_def set_info_def)

lemma hello_admit_open:
  fixes s :: "'a NodeManager_scheme" and E :: node_env and nNow :: int64 and i :: NodeInfo
    and v :: uint64 and ctx :: ctx and c :: connref
  assumes room: "may_join E (NodeInfo_Name i) s"
  defines "h \<equiv> hello_admit E nNow i v ctx c s"
  shows "transport_error c h = transport_error c s \<and> sent c h = sent c s
    \<and> (\<forall>n. mget (nm_mNodeInfo h) (NodeInfo_Name i) = Some n \<longrightarrow> joined n c h)"
proof -
  have add: "joined n c (bind_ctx c (CtxNode n) (addConnection E n c t))
      \<and> transport_error c (bind_ctx c (CtxNode n) (addConnection E n c t)) = transport_error c t
      \<and> sent c (bind_ctx c (CtxNode n) (addConnection E n c t)) = sent c t"
    if "alive n t" "length (info_aryConnectionList (nm_info t n)) \<le> ne_NeighbourMaxConnection E" for n and t :: "'a NodeManager_scheme"
    using that(1) unfolding addConnection_room [OF that]
    by (simp add: joined_def alive_def set_info_def bind_ctx_def set_conn_def transport_error_def sent_def)
  have sid: "transport_error c (setInstanceID n x t) = transport_error c t" "sent c (setInstanceID n x t) = sent c t"
    for n x and t :: "'a NodeManager_scheme" by (simp_all add: setInstanceID_def set_info_def transport_error_def sent_def)
  have go: "transport_error c (GoTask k t) = transport_error c t" "sent c (GoTask k t) = sent c t" "joined n c (GoTask k t) = joined n c t"
    for k n and t :: "'a NodeManager_scheme" by (simp_all add: GoTask_def transport_error_def sent_def joined_def alive_def)
  have put: "transport_error c (t\<lparr>nm_mNodeInfo := m\<rparr>) = transport_error c t" "sent c (t\<lparr>nm_mNodeInfo := m\<rparr>) = sent c t"
    "joined n c (t\<lparr>nm_mNodeInfo := m\<rparr>) = joined n c t"
    for m n and t :: "'a NodeManager_scheme" by (simp_all add: transport_error_def sent_def joined_def alive_def)
  show ?thesis
  proof (cases "mget (nm_mNodeInfo s) (NodeInfo_Name i)")
    case (Some n)
    then have "alive n s" "length (info_aryConnectionList (nm_info s n)) \<le> ne_NeighbourMaxConnection E"
      using room by (simp_all add: may_join_def)
    from add [OF this] show ?thesis
      using Some by (simp add: h_def hello_admit_def Let_def go sid addConnection_parts)
  next
    case None
    obtain n t where new: "newNode (NodeInfo_Name i) (NodeInfo_IP i) (NodeInfo_InstanceID i)
        (ucast (NodeInfo_Port i)) (ucast (NodeInfo_AgentPort i)) nNow s = (n, t)" by fastforce
    have t: "alive n t" "info_aryConnectionList (nm_info t n) = []" "transport_error c t = transport_error c s" "sent c t = sent c s"
      using new by (auto simp: newNode_def Let_def set_info_def alive_def transport_error_def sent_def)
    have "length (info_aryConnectionList (nm_info t n)) \<le> ne_NeighbourMaxConnection E" by (simp add: t(2))
    from add [OF t(1) this] show ?thesis
      using None new t(3,4) by (simp add: h_def hello_admit_def Let_def go put addConnection_parts)
  qed
qed

lemma hello_uri_fits: "string_fits NODE_SAY_HELLO" "string_fits []"
  by (simp_all add: string_fits_def)

lemma hello_answered:
  fixes b :: "'a NodeManager_scheme"
  assumes conn: "rq_ptrServerConnection rc = c" "transport_error c b = None" "nm_nStatus b = 1"
    and fits: "string_fits q" and room: "may_join E (NodeInfo_Name i) b"
    and codec: "Unmarshal_SayHelloReq (ne_pb E) (Marshal (ne_pb E) (MSayHelloReq r)) = Some r"
    and r: "SayHelloReq_NodeInfo r = Some i" "SayHelloReq_Sign r = makeSign (ne_szSecretKey E) (NodeInfo_Name i) (SayHelloReq_TimeStamp r)"
    and new: "\<not> gt64 nNow (SayHelloReq_TimeStamp r + 5)"
    and run: "process_task E ch nNow c (payload (ne_pb E) NODE_SAY_HELLO 1 q (MSayHelloReq r)) (Some rc) b = (z, b1)"
  shows "z = Ret () \<and> sent c b1 = sent c b @ [fst (NewProtocol (ne_pb E) '''' 2 q (MSayHelloRsp (hello_rsp E nNow b)))]
    \<and> transport_error c b1 = None
    \<and> (\<exists>m. mget (nm_mNodeInfo b1) (NodeInfo_Name i) = Some m \<and> joined m c b1 \<and> getInstanceID m b1 = NodeInfo_InstanceID i
        \<and> mget (nm_mTempConnection b1) c = None
        \<and> TTrySyncAll m (SayHelloReq_DataVersion r) (Some (rc\<lparr>rq_szRequestID := q\<rparr>)) \<in> set (nm_task b1))"
proof -
  let ?ctx = "Some (rc\<lparr>rq_szRequestID := q\<rparr>)" and ?b = "Marshal (ne_pb E) (MSayHelloReq r)"
  have ctx: "GetServerConnection ?ctx = Some c" "GetRequestID ?ctx = q"
    using conn(1) by (simp_all add: GetServerConnection_def GetRequestContext_def GetRequestID_def)
  let ?h = "hello_admit E nNow i (SayHelloReq_DataVersion r) ?ctx c b"
  let ?s2 = "?h\<lparr>nm_mTempConnection := mdel c (nm_mTempConnection ?h)\<rparr>"
  let ?t = "snd (Write c (fst (NewProtocol (ne_pb E) '''' 2 q (MSayHelloRsp (hello_rsp E nNow b)))) ?s2)"
  let ?u = "GoTask (THelloKeepAlive ?ctx) ?t"
  have eq: "handleSayHello E nNow ?b ?ctx b = (Ret ''SUCCESS'', ?u)"
    using codec r new conn(3) ctx by (simp add: handleSayHello_def reply_hello_eq Let_def hello_rsp_def)
  obtain m where m: "mget (nm_mNodeInfo ?h) (NodeInfo_Name i) = Some m" "getInstanceID m ?h = NodeInfo_InstanceID i"
    "nm_task ?h = nm_task b @ [TTrySyncAll m (SayHelloReq_DataVersion r) ?ctx]"
    using hello_admit_result by blast
  have opn: "transport_error c ?s2 = None" "sent c ?s2 = sent c b" "joined m c ?h"
    using hello_admit_open [OF room, where nNow = nNow and v = "SayHelloReq_DataVersion r" and ctx = ?ctx and c = c] conn(2) m(1)
    by (simp_all add: conn_frame [of ?s2 ?h])
  note w = Write_open [OF opn(1), where b = "fst (NewProtocol (ne_pb E) '''' 2 q (MSayHelloRsp (hello_rsp E nNow b)))"]
  have mt: "net.more ?t = net.more ?s2" using quiet_Write [of ?s2 c] by (simp add: quiet_def)
  note nm = more_nodes [OF mt] more_manager [OF more_nodes(6) [OF mt]]
  have jt: "joined m c ?u" using opn(3) nm(1) by (simp add: joined_def alive_def GoTask_def)
  have "getNode (Some rc) ?u = Some m"
    using jt conn(1) by (simp add: getNode_def getNodeByConnection_def joined_def GetServerConnection_def GetRequestContext_def)
  moreover have "mget (node_router E ch nNow :: 'a NodeManager_scheme Router) NODE_SAY_HELLO = Some (handleSayHello E nNow)"
    by (simp add: node_router_def RegisterRouter_def NewRouter_def)
  ultimately have "process_task E ch nNow c (payload (ne_pb E) NODE_SAY_HELLO 1 q (MSayHelloReq r)) (Some rc) b
      = (Ret (), refreshKeepLiveTime nNow m ?u)"
    using eq by (simp add: process_task_def Process_request [OF hello_uri_fits(1) fits] fnRouter2Handler_def del: One_nat_def)
  then have b1: "z = Ret ()" "b1 = refreshKeepLiveTime nNow m ?u" using run by simp_all
  have "joined m c b1" using jt by (simp add: b1(2) refreshKeepLiveTime_def joined_def alive_def set_info_def)
  moreover have bc: "n_conn b1 = n_conn ?t" by (simp add: b1(2) refreshKeepLiveTime_def set_info_def GoTask_def)
  have "transport_error c b1 = None" "sent c b1 = sent c b @ [fst (NewProtocol (ne_pb E) '''' 2 q (MSayHelloRsp (hello_rsp E nNow b)))]"
    using opn(1,2) w(2) by (simp_all add: conn_frame [OF bc] Write_transport)
  moreover have "mget (nm_mNodeInfo b1) (NodeInfo_Name i) = Some m" "getInstanceID m b1 = NodeInfo_InstanceID i"
    "mget (nm_mTempConnection b1) c = None" "TTrySyncAll m (SayHelloReq_DataVersion r) ?ctx \<in> set (nm_task b1)"
    using m nm by (auto simp: b1(2) refreshKeepLiveTime_def set_info_def GoTask_def getInstanceID_def)
  ultimately show ?thesis using b1(1) by blast
qed

section \<open>The answer\<close>

lemma empty_uri_fits: "string_fits ''''" by (simp add: string_fits_def)

lemma node_response_taken:
  fixes a :: "'a NodeManager_scheme"
  assumes x: "mget (conn_table c a) q = Some x" "n_rpc a x = rpc_zero" and rc: "rq_ptrServerConnection rc = c"
    and ctx: "sc_Ctx (n_conn a c) = None" and fits: "string_fits q" and unm: "unm (Marshal pb m) = Some r"
  shows "\<exists>a1 a2. process_task E ch nNow c (payload pb '''' 2 q m) (Some rc) a = (Ret (), a1)
    \<and> select_ready SelMsg False x a1 \<and> Call_select unm SelMsg c q x a1 = (Ret (Some r), a2)
    \<and> net.more a1 = net.more a \<and> net.more a2 = net.more a \<and> n_conn a2 = n_conn a"
proof -
  have sc: "GetServerConnection (Some rc) = Some c" using rc by (simp add: GetServerConnection_def GetRequestContext_def)
  obtain a1 a2 where run: "raw_response (Some rc) q (Marshal pb m) a = (Ret (), a1)" "select_ready SelMsg False x a1"
      "Call_select unm SelMsg c q x a1 = (Ret (Some r), a2)" "net.more a1 = net.more a" "net.more a2 = net.more a"
      "n_conn a2 = n_conn a"
    using raw_response_taken [where unm = unm and b = "Marshal pb m" and r = r, OF x sc unm] by blast
  let ?s = "set_conn_table c (mdel q (conn_table c a)) a"
  have send: "chan_send x (Marshal pb m) ?s = (Ret (), a1)"
    using run(1) x(1) sc by (simp add: raw_response_def GetRpcContext_hit)
  have "sc_Ctx (n_conn a1 c) = None"
    using send ctx by (auto simp: chan_send_def net_upd_defs split: if_splits)
  then have "getNode (Some rc) a1 = None" by (simp add: getNode_def sc getNodeByConnection_def)
  then have "process_task E ch nNow c (payload pb '''' 2 q m) (Some rc) a = (Ret (), a1)"
    using read_packet_payload [OF empty_uri_fits fits, of 2 pb m] rc x(1) send
    by (simp add: process_task_def Process_def GetRequestContext_def GetRpcContext_hit)
  then show ?thesis using run(2-) by blast
qed

lemma reconnect_binds:
  fixes s :: "'a nodes_scheme"
  assumes "hello_good E n r s" "alive n s" "\<not> connectionAvailable E n s"
  shows "joined n c (reconnect_finish E n c (Some r) s)
    \<and> transport_error c (reconnect_finish E n c (Some r) s) = transport_error c s
    \<and> getInstanceID n (reconnect_finish E n c (Some r) s) = NodeInfo_InstanceID (the (SayHelloRsp_NodeInfo r))"
proof -
  obtain i where i: "SayHelloRsp_NodeInfo r = Some i" "SayHelloRsp_Result r = 0"
    "SayHelloRsp_Sign r = makeSign (ne_szSecretKey E) (NodeInfo_Name i) (SayHelloRsp_TimeStamp r)"
    "NodeInfo_Name i = info_szName (nm_info s n)" using assms(1) by (auto simp: hello_good_def)
  have room: "length (info_aryConnectionList (nm_info (bind_ctx c (CtxNode n) s) n)) \<le> ne_NeighbourMaxConnection E"
    using assms(3) by (simp add: connectionAvailable_def bind_ctx_def set_conn_def)
  let ?s1 = "addConnection E n c (bind_ctx c (CtxNode n) s)"
  have al: "alive n (bind_ctx c (CtxNode n) s)" using assms(2) by (simp add: alive_def bind_ctx_def set_conn_def)
  have 1: "joined n c ?s1" "transport_error c ?s1 = transport_error c s"
    using assms(2) unfolding addConnection_room [OF al room]
    by (simp_all add: joined_def alive_def set_info_def bind_ctx_def set_conn_def transport_error_def)
  have 2: "transport_error c (setInstanceID n v t) = transport_error c t" for v and t :: "'a nodes_scheme"
    by (simp add: setInstanceID_def set_info_def transport_error_def)
  have "reconnect_finish E n c (Some r) s
      = (if NodeInfo_InstanceID i \<noteq> getInstanceID n ?s1 then setInstanceID n (NodeInfo_InstanceID i) ?s1 else ?s1)"
    using i by (simp add: reconnect_finish_def Let_def)
  then show ?thesis using 1 2 i(1) by simp
qed

section \<open>Two nodes become neighbours\<close>

text \<open>
  C4. Two nodes become neighbours.  A node that has room for another connection to a node dials
  it and says hello; the hello is read, checked with the shared key and admitted by the other
  node, whose answer reaches the waiting call.  No step panics, and then each node has the
  connection bound to its record of the other, which is alive, lists the connection and holds
  the instance id of the other; the connection is open at the dialling node, is not among those
  the other node would drop as unannounced, and the other node is about to send its entries.
  The nodes are in any states in which they know each other's names as configured.
\<close>

theorem nodes_meet:
  fixes a :: "'a NodeManager_scheme" and b :: "'b NodeManager_scheme" and E E' :: node_env and n :: noderef
  defines "q \<equiv> fst (nextRequestID n a)" and "c \<equiv> n_nextConn a" and "me \<equiv> nm_MyInfo a" and "you \<equiv> nm_MyInfo b"
  assumes shared: "ne_pb E' = ne_pb E" "ne_szSecretKey E' = ne_szSecretKey E" "string_fits q"
    "Unmarshal_SayHelloReq (ne_pb E) (Marshal (ne_pb E) (MSayHelloReq (hello_of E t1 a))) = Some (hello_of E t1 a)"
    "Unmarshal_SayHelloRsp (ne_pb E) (Marshal (ne_pb E) (MSayHelloRsp (hello_rsp E' t2 b))) = Some (hello_rsp E' t2 b)"
    and dials: "alive n a" "\<not> connectionAvailable E n a"
      "reconnect_begin E t1 (True, szLocal) szUUID n a = (z1, a1)" "delivers (last (sent c a1)) p1"
    and admits: "rq_ptrServerConnection rc1 = c'" "transport_error c' b = None" "nm_nStatus b = MANAGER_STATUS_STARTED"
      "may_join E' (NodeInfo_Name me) b" "\<not> gt64 t2 (t1 + 5)"
      "process_task E' ch t2 c' p1 (Some rc1) b = (z2, b1)" "delivers (last (sent c' b1)) p2"
    and names: "info_szName (nm_info a n) = NodeInfo_Name you" "nm_name b (nm_ptrSelf b) = NodeInfo_Name you"
    and binds: "rq_ptrServerConnection rc2 = c" "process_task E ch' t3 c p2 (Some rc2) a1 = (z3, a2)"
      "finish_call E SelMsg (last (nm_wait a1)) a2 = (z4, a3)"
  shows "{z1, z2, z3, z4} = {Ret ()} \<and> select_ready SelMsg False (wt_rpc (last (nm_wait a1))) a2
    \<and> joined n c a3 \<and> getInstanceID n a3 = NodeInfo_InstanceID you \<and> transport_error c a3 = None
    \<and> (\<exists>m. mget (nm_mNodeInfo b1) (NodeInfo_Name me) = Some m \<and> joined m c' b1
        \<and> getInstanceID m b1 = NodeInfo_InstanceID me \<and> mget (nm_mTempConnection b1) c' = None
        \<and> TTrySyncAll m 0 (Some (rc1\<lparr>rq_szRequestID := q\<rparr>)) \<in> set (nm_task b1))"
proof -
  let ?pb = "ne_pb E" and ?req = "hello_of E t1 a" and ?rsp = "hello_rsp E' t2 b"
  obtain x where 1: "z1 = Ret ()" "last (sent c a1) = fst (NewProtocol ?pb NODE_SAY_HELLO 1 q (MSayHelloReq ?req))"
      "last (nm_wait a1) = \<lparr>wt_rpc = x, wt_conn = c, wt_szRequestID = q, wt_then = WaitHello n\<rparr>"
    and x: "mget (conn_table c a1) q = Some x" "n_rpc a1 x = rpc_zero" "sc_Ctx (n_conn a1 c) = None" "transport_error c a1 = None"
    and a1: "nm_info a1 = (nm_info a)(n := (nm_info a n)\<lparr>info_nSequence := info_nSequence (nm_info a n) + 1\<rparr>)"
    using reconnect_sends [OF dials(1-3)] by (auto simp: c_def q_def)
  have p1: "p1 = payload ?pb NODE_SAY_HELLO 1 q (MSayHelloReq ?req)"
    by (rule delivers_payload) (use dials(4) 1(2) in simp)
  have req: "SayHelloReq_NodeInfo ?req = Some me" "SayHelloReq_TimeStamp ?req = t1" "SayHelloReq_DataVersion ?req = 0"
    "SayHelloReq_Sign ?req = makeSign (ne_szSecretKey E') (NodeInfo_Name me) (SayHelloReq_TimeStamp ?req)"
    by (simp_all add: hello_of_def me_def shared(2))
  have 2: "z2 = Ret ()" "last (sent c' b1) = fst (NewProtocol ?pb '''' 2 q (MSayHelloRsp ?rsp))"
    "\<exists>m. mget (nm_mNodeInfo b1) (NodeInfo_Name me) = Some m \<and> joined m c' b1
        \<and> getInstanceID m b1 = NodeInfo_InstanceID me \<and> mget (nm_mTempConnection b1) c' = None
        \<and> TTrySyncAll m 0 (Some (rc1\<lparr>rq_szRequestID := q\<rparr>)) \<in> set (nm_task b1)"
    using hello_answered [OF admits(1-3) shared(3) admits(4) _ req(1) req(4), unfolded shared(1) req(2,3),
        OF shared(4) admits(5) admits(6) [unfolded p1]] by auto
  have p2: "p2 = payload ?pb '''' 2 q (MSayHelloRsp ?rsp)"
    by (rule delivers_payload) (use admits(7) 2(2) in simp)
  obtain u v where 3: "process_task E ch' t3 c p2 (Some rc2) a1 = (Ret (), u)" "select_ready SelMsg False x u"
      "Call_select (Unmarshal_SayHelloRsp ?pb) SelMsg c q x u = (Ret (Some ?rsp), v)" "net.more v = net.more a1" "n_conn v = n_conn a1"
    using node_response_taken [where unm = "Unmarshal_SayHelloRsp ?pb" and r = ?rsp, OF x(1,2) binds(1) x(3) shared(3,5)]
    unfolding p2 by blast
  have v: "nm_info v = nm_info a1" using more_nodes(1) [OF 3(4)] by simp
  have good: "hello_good E n ?rsp v" "alive n v" "\<not> connectionAvailable E n v"
    using dials(1,2) names shared(2) by (simp_all add: v a1 hello_good_def hello_rsp_def SayHelloRsp_zero_def you_def
        alive_def connectionAvailable_def)
  have "(z3, a2) = (Ret (), u)" "(z4, a3) = (Ret (), reconnect_finish E n c (Some ?rsp) v)"
    using 3(1,3) binds(2,3) by (simp_all add: finish_call_def 1(3))
  moreover have "SayHelloRsp_NodeInfo ?rsp = Some you" by (simp add: hello_rsp_def you_def)
  ultimately show ?thesis
    using 1(1,3) 2(1,3) 3(2) reconnect_binds [OF good, of c] x(4) conn_frame(1) [OF 3(5), of c] by simp
qed

text \<open>Node a, configured with the neighbour b, and node b, which has not heard of a.\<close>

definition meet_a :: NodeManager where "meet_a = checkNeighbour 100 node_a"

definition meet_b :: NodeManager where
  "meet_b = NewManager ''uuid2'' 9 100 ''b'' ''10.0.0.2'' 8800 8900 []"

definition meet_pb :: proto_lib where
  "meet_pb = lib_stub\<lparr>Unmarshal_SayHelloReq := \<lambda>_. Some (hello_of example_env 100 meet_a),
     Unmarshal_SayHelloRsp := \<lambda>_. Some (hello_rsp example_env 101 meet_b)\<rparr>"

definition meet_env :: node_env where "meet_env = example_env\<lparr>ne_pb := meet_pb\<rparr>"

definition meet_rc :: RequestContext where "meet_rc = the example_ctx"

definition meet_a1 :: NodeManager where
  "meet_a1 = snd (reconnect_begin meet_env 100 (True, ''l'') ''uuid'' 1 meet_a)"

definition meet_b1 :: NodeManager where
  "meet_b1 = snd (process_task meet_env example_choice 101 0 (drop 4 (last (sent 0 meet_a1))) (Some meet_rc) meet_b)"

definition meet_a2 :: NodeManager where
  "meet_a2 = snd (process_task meet_env example_choice 102 0 (drop 4 (last (sent 0 meet_b1))) (Some meet_rc) meet_a1)"

definition meet_a3 :: NodeManager where
  "meet_a3 = snd (finish_call meet_env SelMsg (last (nm_wait meet_a1)) meet_a2)"

lemma meet_pb_eq:
  "Unmarshal_SayHelloReq meet_pb b = Some (hello_of meet_env 100 meet_a)"
  "Unmarshal_SayHelloRsp meet_pb b = Some (hello_rsp meet_env 101 meet_b)"
  "Marshal meet_pb m = []" "ne_pb meet_env = meet_pb"
  by (simp_all add: meet_pb_def meet_env_def lib_stub_def hello_of_def hello_rsp_def)

lemma meet_a_eq: "meet_a = checkNeighbour 100 node_a" "nm_aryNeighbour node_a = [\<lparr>neighbour_szName = ''b'',
    neighbour_szIP = ''10.0.0.2'', neighbour_nPort = 8800, neighbour_nAgentPort = 8900\<rparr>]"
  by (simp_all add: meet_a_def example_defs)

lemma meet_start:
  "alive 1 meet_a" "\<not> connectionAvailable meet_env 1 meet_a" "n_nextConn meet_a = 0" "NodeInfo_Name (nm_MyInfo meet_a) = ''a''"
  "info_szName (nm_info meet_a 1) = ''b''" "info_nSequence (nm_info meet_a 1) = 0"
  by (simp_all add: meet_a_eq(1) checkNeighbour_def example_defs meet_env_def alive_def GoTask_def connectionAvailable_def)

lemma meet_start_b:
  "NodeInfo_Name (nm_MyInfo meet_b) = ''b''" "nm_name meet_b (nm_ptrSelf meet_b) = ''b''"
  "NodeInfo_InstanceID (nm_MyInfo meet_b) = 9" "nm_nStatus meet_b = 1" "transport_error 0 meet_b = None"
  "mget (nm_mNodeInfo meet_b) ''a'' = None"
  by (simp_all add: meet_b_def NewManager_def newNode_def Let_def set_info_def transport_error_def conn_zero_def)

lemma FormatUint_1: "FormatUint (1 :: uint32) = ''1''" by code_simp

lemma meet_id: "fst (nextRequestID 1 meet_a) = ''a_b_1''"
  using meet_start FormatUint_1 by (simp add: nextRequestID_def Let_def)

lemma short_sent:
  assumes "b = fst (NewProtocol pb u t q m)" "Marshal pb m = []" "length u + length q \<le> 100"
  shows "delivers b (drop 4 b)" "drop 4 b = payload pb u t q m"
proof -
  have "5 + length u + length q + length (Marshal pb m) \<le> PACKET_LIMIT"
    using assms(2,3) by simp
  then show "delivers b (drop 4 b)" using delivers_fits assms(1) by (simp add: fst_NewProtocol)
  show "drop 4 b = payload pb u t q m" using assms(1) by (simp add: fst_NewProtocol)
qed

lemmas meet_sent = short_sent [of _ meet_pb, OF _ meet_pb_eq(3)]

lemma meet_step1:
  "\<exists>z. reconnect_begin meet_env 100 (True, ''l'') ''uuid'' 1 meet_a = (z, meet_a1)
    \<and> delivers (last (sent 0 meet_a1)) (drop 4 (last (sent 0 meet_a1)))
    \<and> drop 4 (last (sent 0 meet_a1)) = payload meet_pb NODE_SAY_HELLO 1 ''a_b_1'' (MSayHelloReq (hello_of meet_env 100 meet_a))"
proof -
  obtain z where z: "reconnect_begin meet_env 100 (True, ''l'') ''uuid'' 1 meet_a = (z, meet_a1)"
    by (metis meet_a1_def prod.collapse)
  from reconnect_sends [OF meet_start(1,2) z] have "last (sent 0 meet_a1)
      = fst (NewProtocol meet_pb NODE_SAY_HELLO 1 ''a_b_1'' (MSayHelloReq (hello_of meet_env 100 meet_a)))"
    by (auto simp: meet_start(3) meet_id meet_pb_eq(4) simp del: One_nat_def)
  from meet_sent [OF this] z show ?thesis by simp
qed

lemma meet_rc_conn: "rq_ptrServerConnection meet_rc = 0" by (simp add: meet_rc_def example_ctx_def)

lemma meet_fits: "string_fits ''a_b_1''" by (simp add: string_fits_def)

lemma meet_hello:
  "SayHelloReq_NodeInfo (hello_of meet_env 100 meet_a) = Some (nm_MyInfo meet_a)"
  "SayHelloReq_Sign (hello_of meet_env 100 meet_a) = makeSign (ne_szSecretKey meet_env) (NodeInfo_Name (nm_MyInfo meet_a))
     (SayHelloReq_TimeStamp (hello_of meet_env 100 meet_a))"
  "SayHelloReq_TimeStamp (hello_of meet_env 100 meet_a) = 100"
  by (simp_all add: hello_of_def)

lemma meet_may_join: "may_join meet_env (NodeInfo_Name (nm_MyInfo meet_a)) meet_b"
  by (simp add: may_join_def meet_start(4) meet_start_b(6))

lemma meet_step2:
  "\<exists>z. process_task meet_env example_choice 101 0 (drop 4 (last (sent 0 meet_a1))) (Some meet_rc) meet_b = (z, meet_b1)
    \<and> delivers (last (sent 0 meet_b1)) (drop 4 (last (sent 0 meet_b1)))"
proof -
  obtain z where z: "process_task meet_env example_choice 101 0 (drop 4 (last (sent 0 meet_a1))) (Some meet_rc) meet_b = (z, meet_b1)"
    by (metis meet_b1_def prod.collapse)
  have p: "drop 4 (last (sent 0 meet_a1)) = payload meet_pb NODE_SAY_HELLO 1 ''a_b_1'' (MSayHelloReq (hello_of meet_env 100 meet_a))"
    using meet_step1 by blast
  from hello_answered [OF meet_rc_conn meet_start_b(5,4) meet_fits meet_may_join _ meet_hello(1,2), unfolded meet_pb_eq(4),
      OF meet_pb_eq(1) _ z [unfolded p]]
  have "last (sent 0 meet_b1) = fst (NewProtocol meet_pb '''' 2 ''a_b_1'' (MSayHelloRsp (hello_rsp meet_env 101 meet_b)))"
    by (simp add: meet_hello(3) gt64_def)
  from meet_sent [OF this] z show ?thesis by simp
qed

theorem nodes_meet_witness: "joined 1 0 meet_a3 \<and> getInstanceID 1 meet_a3 = 9"
proof -
  obtain z1 where 1: "reconnect_begin meet_env 100 (True, ''l'') ''uuid'' 1 meet_a = (z1, meet_a1)"
    "delivers (last (sent 0 meet_a1)) (drop 4 (last (sent 0 meet_a1)))" using meet_step1 by blast
  obtain z2 where 2: "process_task meet_env example_choice 101 0 (drop 4 (last (sent 0 meet_a1))) (Some meet_rc) meet_b = (z2, meet_b1)"
    "delivers (last (sent 0 meet_b1)) (drop 4 (last (sent 0 meet_b1)))" using meet_step2 by blast
  obtain z3 z4 where 3: "process_task meet_env example_choice 102 0 (drop 4 (last (sent 0 meet_b1))) (Some meet_rc) meet_a1 = (z3, meet_a2)"
    "finish_call meet_env SelMsg (last (nm_wait meet_a1)) meet_a2 = (z4, meet_a3)" by (metis meet_a2_def meet_a3_def prod.collapse)
  have new: "\<not> gt64 101 (100 + 5)" by (simp add: gt64_def)
  show ?thesis
    using nodes_meet [where a = meet_a and b = meet_b and E = meet_env and E' = meet_env and n = 1 and ?t1.0 = 100 and ?t2.0 = 101,
      unfolded meet_id meet_start(3) meet_pb_eq(4), OF refl refl meet_fits meet_pb_eq(1,2) meet_start(1,2) 1 meet_rc_conn
        meet_start_b(5,4) meet_may_join new 2 _ _ meet_rc_conn 3]
    by (simp add: meet_start meet_start_b del: One_nat_def)
qed

end
