(* ===== verification/Healing.thy ===== *)
theory Healing
  imports Handshake Replication
begin

text \<open>
  Anti-entropy between two nodes: a keepalive tells a peer the version of the sender's
  entries; a peer whose record has another version asks for all entries and takes them over.
  Each step is taken by the model of the node that takes it.
\<close>

section \<open>The keepalive\<close>

text \<open>The connection a record picks for its next message.\<close>

definition picked :: "choice \<Rightarrow> noderef \<Rightarrow> 'a nodes_scheme \<Rightarrow> connref" where
  "picked ch n s = pick (ch_rand ch n) (info_aryConnectionList (nm_info s n))"

definition reachable :: "choice \<Rightarrow> noderef \<Rightarrow> 'a nodes_scheme \<Rightarrow> bool" where
  "reachable ch n s \<longleftrightarrow> info_aryConnectionList (nm_info s n) \<noteq> [] \<and> transport_error (picked ch n s) s = None"

text \<open>What one node keeps of another while messages only pass through it.\<close>

definition unmoved :: "'a NodeManager_scheme \<Rightarrow> 'a NodeManager_scheme \<Rightarrow> bool" where
  "unmoved s t \<longleftrightarrow> nm_info t = nm_info s \<and> nm_ptrSelf t = nm_ptrSelf s \<and> nm_nStatus t = nm_nStatus s"

lemma unmoved_more: "net.more t = net.more s \<Longrightarrow> unmoved s t"
  using more_nodes(1,6) [of t s] more_manager [of t s] by (simp add: unmoved_def)

definition keepalive_notify :: "choice \<Rightarrow> 'a NodeManager_scheme \<Rightarrow> KeepAliveNotify" where
  "keepalive_notify ch s = \<lparr>KeepAliveNotify_DataVersion = info_nDataVersion (nm_info s (nm_ptrSelf s)),
     KeepAliveNotify_Neighbours = gossip (ch_pick ch) (map (node_info False s) (nm_nodes s))\<rparr>"

lemma hello_keepalive_sends:
  fixes a :: "'a NodeManager_scheme"
  assumes "getNode ctx a = Some m" "GetRequestID ctx \<noteq> ''''" "nm_nodes a \<noteq> []" "reachable ch m a"
    and run: "hello_keepalive E ch ctx a = (z, a0)"
  shows "z = Ret () \<and> unmoved a a0 \<and> last (sent (picked ch m a) a0)
    = fst (NewProtocol (ne_pb E) NODE_KEEP_ALIVE 3 (ch_uuid ch m) (MKeepAliveNotify (keepalive_notify ch a)))
    \<and> transport_error c a0 = transport_error c a \<and> getNode ctx' a0 = getNode ctx' a"
proof -
  let ?c = "picked ch m a" and ?s = "GoTask (TReconnect m) a"
  let ?p = "fst (NewProtocol (ne_pb E) NODE_KEEP_ALIVE 3 (ch_uuid ch m) (MKeepAliveNotify (keepalive_notify ch a)))"
  have op: "transport_error ?c ?s = None"
    using assms(4) conn_frame(1) [of ?s a ?c] by (simp add: reachable_def GoTask_def)
  have run': "hello_keepalive E ch ctx a = (Ret (), snd (Write ?c ?p ?s))"
    using assms(1-4)
    by (simp add: hello_keepalive_def Let_def keepalive_notify_def cast_Start_def cast_node_def getConnection_def
        NewCast_def Cast_Start_def picked_def reachable_def case_prod_unfold NewProtocol_def)
  have "net.more (snd (Write ?c ?p ?s)) = net.more ?s" using quiet_Write [of ?s] by (simp add: quiet_def)
  then have "unmoved ?s (snd (Write ?c ?p ?s))" by (rule unmoved_more)
  then have "unmoved a (snd (Write ?c ?p ?s))" by (simp add: unmoved_def GoTask_def)
  moreover have "transport_error c (snd (Write ?c ?p ?s)) = transport_error c a"
    using Write_transport [of c ?c ?p ?s] conn_frame(1) [of ?s a c] by (simp add: GoTask_def)
  moreover have "getNode ctx' (snd (Write ?c ?p ?s)) = getNode ctx' a"
    by (simp add: getNode_def getNodeByConnection_def Write_ctx GoTask_def split: option.split)
  ultimately show ?thesis using run run' Write_open(2) [OF op, of ?p] by auto
qed

section \<open>The peer asks\<close>

lemma getNode_frame: "n_conn t = n_conn s \<Longrightarrow> getNode ctx t = getNode ctx s"
  by (simp add: getNode_def getNodeByConnection_def split: option.split)

lemma node_handlers [simp]:
  "mget (node_router E ch nNow :: 'a NodeManager_scheme Router) NODE_KEEP_ALIVE = Some (handleKeepAlive E ch)"
  "mget (node_router E ch nNow :: 'a NodeManager_scheme Router) NODE_GET_ENTRY = Some (handleGetEntryReq E)"
  by (simp_all add: node_router_def RegisterRouter_def NewRouter_def)

lemma node_uris_fit: "string_fits NODE_KEEP_ALIVE" "string_fits NODE_GET_ENTRY"
  by (simp_all add: string_fits_def)

lemma trySyncAll_asks:
  fixes s :: "'a NodeManager_scheme" and ch :: choice and n :: noderef
  defines "c \<equiv> picked ch n s"
  assumes "info_nDataVersion (nm_info s n) \<noteq> v" "reachable ch n s" "GetRequestID ctx \<noteq> ''''"
  shows "\<exists>x u. trySyncAll E ch n v ctx s = go_wait x c (GetRequestID ctx) (WaitEntry n) u
    \<and> sent c u = sent c s @ [fst (NewProtocol (ne_pb E) NODE_GET_ENTRY 1 (GetRequestID ctx) (MGetEntryReq GetEntryReq))]
    \<and> mget (conn_table c u) (GetRequestID ctx) = Some x \<and> n_rpc u x = rpc_zero
    \<and> nm_nNextInfo u = nm_nNextInfo s \<and> nm_ptrSelf u = nm_ptrSelf s"
proof -
  let ?q = "GetRequestID ctx"
  let ?s1 = "set_info n ((nm_info s n)\<lparr>info_nStatus := NODE_STATUS_SYNCING\<rparr>) s" and ?cc = "NewCall ?q NODE_GET_ENTRY (MGetEntryReq GetEntryReq) (Some c)"
  let ?s2 = "GoTask (TReconnect n) ?s1"
  have sc: "n_conn ?s2 = n_conn s" by (simp add: GoTask_def set_info_def)
  have op: "transport_error c ?s2 = None" using assms(3) conn_frame(1) [OF sc] by (simp add: c_def reachable_def)
  obtain x u where u: "Call_begin (ne_pb E) ?cc ?s2 = (Some x, u)"
    "sent c u = sent c ?s2 @ [fst (NewProtocol (ne_pb E) NODE_GET_ENTRY 1 ?q (MGetEntryReq GetEntryReq))]"
    "mget (conn_table c u) ?q = Some x" "n_rpc u x = rpc_zero" "net.more u = net.more ?s2"
    using Call_begin_open [OF op, where pb = "ne_pb E" and q = ?q and u = NODE_GET_ENTRY and m = "MGetEntryReq GetEntryReq"
      and tmo = DEFAULT_TIMEOUT] by (auto simp: NewCall_def)
  have "info_aryConnectionList (nm_info ?s1 n) \<noteq> []" "pick (ch_rand ch n) (info_aryConnectionList (nm_info ?s1 n)) = c"
    using assms(3) by (simp_all add: reachable_def c_def picked_def)
  then have "call_node ch n NODE_GET_ENTRY (MGetEntryReq GetEntryReq) ctx ?s1 = (?cc, ?s2)"
    using assms(4) by (simp add: call_node_def getConnection_def Let_def NewCall_def)
  then have "trySyncAll E ch n v ctx s = go_wait x c ?q (WaitEntry n) u"
    using assms(2) u(1) by (simp add: trySyncAll_def needSyncAll_def NewCall_def)
  moreover have "nm_nNextInfo u = nm_nNextInfo s" "nm_ptrSelf u = nm_ptrSelf s"
    using more_nodes(2) [OF u(5)] more_manager(4) [OF more_nodes(6) [OF u(5)]] by (simp_all add: GoTask_def set_info_def)
  ultimately show ?thesis using u(2-4) conn_frame(2) [OF sc] by auto
qed

lemma keepalive_asks:
  fixes p :: "'a NodeManager_scheme" and ch :: choice and n :: noderef
  defines "c2 \<equiv> picked ch n p"
  assumes conn: "getNode (Some rc) p = Some n" "alive n p" "info_nDataVersion (nm_info p n) \<noteq> KeepAliveNotify_DataVersion k"
    "reachable ch n p" and fits: "string_fits q" "q \<noteq> ''''"
    and codec: "Unmarshal_KeepAliveNotify (ne_pb E) (Marshal (ne_pb E) (MKeepAliveNotify k)) = Some k"
    and run: "process_task E ch nNow c (payload (ne_pb E) NODE_KEEP_ALIVE 3 q (MKeepAliveNotify k)) (Some rc) p = (z, p1)"
  shows "\<exists>x. z = Ret () \<and> last (sent c2 p1) = fst (NewProtocol (ne_pb E) NODE_GET_ENTRY 1 q (MGetEntryReq GetEntryReq))
    \<and> last (nm_wait p1) = \<lparr>wt_rpc = x, wt_conn = c2, wt_szRequestID = q, wt_then = WaitEntry n\<rparr>
    \<and> mget (conn_table c2 p1) q = Some x \<and> n_rpc p1 x = rpc_zero
    \<and> nm_nNextInfo p1 = nm_nNextInfo p \<and> nm_ptrSelf p1 = nm_ptrSelf p"
proof -
  let ?ctx = "Some (rc\<lparr>rq_szRequestID := q\<rparr>)" and ?p = "makefriends (KeepAliveNotify_Neighbours k) (Some (rc\<lparr>rq_szRequestID := q\<rparr>)) p"
  have ctx: "GetRequestID ?ctx = q" "getNode ?ctx p = getNode (Some rc) p"
    by (simp_all add: GetRequestID_def getNode_def GetServerConnection_def GetRequestContext_def)
  have sc: "n_conn ?p = n_conn p" "nm_info ?p = nm_info p" by (simp_all add: makefriends_def GoTask_def)
  have here: "picked ch n ?p = c2" "reachable ch n ?p" "info_nDataVersion (nm_info ?p n) \<noteq> KeepAliveNotify_DataVersion k"
    using conn(3,4) conn_frame(1) [OF sc(1)] by (simp_all add: picked_def reachable_def c2_def sc(2))
  obtain x u where u: "trySyncAll E ch n (KeepAliveNotify_DataVersion k) ?ctx ?p = go_wait x c2 q (WaitEntry n) u"
    "sent c2 u = sent c2 ?p @ [fst (NewProtocol (ne_pb E) NODE_GET_ENTRY 1 q (MGetEntryReq GetEntryReq))]"
    "mget (conn_table c2 u) q = Some x" "n_rpc u x = rpc_zero" "nm_nNextInfo u = nm_nNextInfo ?p" "nm_ptrSelf u = nm_ptrSelf ?p"
    using trySyncAll_asks [OF here(3,2), of ?ctx E] fits(2) unfolding here(1) ctx(1) by blast
  have h: "handleKeepAlive E ch (Marshal (ne_pb E) (MKeepAliveNotify k)) ?ctx p = (Ret ''SUCCESS'', go_wait x c2 q (WaitEntry n) u)"
    using codec conn(1,2) ctx(2) u(1) by (simp add: handleKeepAlive_def)
  have "Process (node_router E ch nNow) (payload (ne_pb E) NODE_KEEP_ALIVE 3 q (MKeepAliveNotify k)) (Some rc) p
      = (Ret True, go_wait x c2 q (WaitEntry n) u)"
    using read_packet_payload [OF node_uris_fit(1) fits(1), of 3] h
    by (simp add: Process_def GetRequestContext_def SetRequestID_def fnRouter2Handler_def)
  then have p1: "z = Ret ()" "\<exists>t. p1 = t \<and> net.n_conn t = n_conn u \<and> conn_table c2 t = conn_table c2 u \<and> n_rpc t = n_rpc u
      \<and> nm_nNextInfo t = nm_nNextInfo u \<and> nm_ptrSelf t = nm_ptrSelf u
      \<and> nm_wait t = nm_wait u @ [\<lparr>wt_rpc = x, wt_conn = c2, wt_szRequestID = q, wt_then = WaitEntry n\<rparr>]"
    using run by (auto simp: process_task_def refreshKeepLiveTime_def set_info_def go_wait_def conn_table_def split: option.splits)
  then have "last (sent c2 p1) = fst (NewProtocol (ne_pb E) NODE_GET_ENTRY 1 q (MGetEntryReq GetEntryReq))"
    using u(2) conn_frame(2) [of p1 u c2] by auto
  moreover have "nm_nNextInfo ?p = nm_nNextInfo p" "nm_ptrSelf ?p = nm_ptrSelf p" by (simp_all add: makefriends_def GoTask_def)
  ultimately show ?thesis using p1 u(3-6) by auto
qed

section \<open>The owner answers\<close>

lemma entries_answered:
  fixes a :: "'a NodeManager_scheme"
  assumes conn: "rq_ptrServerConnection rc = c" "transport_error c a = None" "getNode (Some rc) a = Some m"
    "nm_nStatus a = MANAGER_STATUS_STARTED" and fits: "string_fits q"
    and codec: "Unmarshal_GetEntryReq (ne_pb E) (Marshal (ne_pb E) (MGetEntryReq GetEntryReq)) = Some GetEntryReq"
    and run: "process_task E ch nNow c (payload (ne_pb E) NODE_GET_ENTRY 1 q (MGetEntryReq GetEntryReq)) (Some rc) a = (z, a1)"
  shows "z = Ret () \<and> last (sent c a1) = fst (NewProtocol (ne_pb E) '''' 2 q (MGetEntryResp (getEntry_answer a)))"
proof -
  let ?ctx = "Some (rc\<lparr>rq_szRequestID := q\<rparr>)" and ?t = "snd (Write c (fst (NewProtocol (ne_pb E) '''' 2 q (MGetEntryResp (getEntry_answer a)))) a)"
  have ctx: "GetRequestID ?ctx = q" "GetServerConnection ?ctx = Some c" "getNode ?ctx a = Some m"
    using conn(1,3) by (simp_all add: GetRequestID_def getNode_def GetServerConnection_def GetRequestContext_def)
  have h: "handleGetEntryReq E (Marshal (ne_pb E) (MGetEntryReq GetEntryReq)) ?ctx a = (Ret ''SUCCESS'', ?t)"
    using handleGetEntryReq_answers [OF codec ctx(3) conn(4)] ctx(1,2) by (simp add: Reply_def case_prod_unfold)
  have "Process (node_router E ch nNow) (payload (ne_pb E) NODE_GET_ENTRY 1 q (MGetEntryReq GetEntryReq)) (Some rc) a
      = (Ret True, ?t)"
    using h by (simp add: Process_request [OF node_uris_fit(2) fits] fnRouter2Handler_def del: One_nat_def)
  then have a1: "z = Ret ()" "n_conn a1 = n_conn ?t"
    using run by (auto simp: process_task_def refreshKeepLiveTime_def set_info_def split: option.splits)
  then show ?thesis using Write_open(2) [OF conn(2)] by (simp add: conn_frame(2) [OF a1(2)])
qed

section \<open>The peer takes the answer\<close>

lemma refresh_frame:
  fixes s :: "'a NodeManager_scheme"
  shows "n_rpc (refreshKeepLiveTime t n s) = n_rpc s" "n_conn (refreshKeepLiveTime t n s) = n_conn s"
    "nm_nNextInfo (refreshKeepLiveTime t n s) = nm_nNextInfo s" "nm_ptrSelf (refreshKeepLiveTime t n s) = nm_ptrSelf s"
  by (simp_all add: refreshKeepLiveTime_def set_info_def)

lemma answer_taken:
  fixes p :: "'a NodeManager_scheme"
  assumes x: "mget (conn_table c p) q = Some x" "n_rpc p x = rpc_zero" and rc: "rq_ptrServerConnection rc = c"
    and fits: "string_fits q" and unm: "unm (Marshal pb m) = Some r"
    and run: "process_task E ch nNow c (payload pb '''' 2 q m) (Some rc) p = (z, u)"
  shows "\<exists>v. z = Ret () \<and> select_ready SelMsg False x u \<and> Call_select unm SelMsg c q x u = (Ret (Some r), v)
    \<and> nm_nNextInfo v = nm_nNextInfo p \<and> nm_ptrSelf v = nm_ptrSelf p"
proof -
  let ?s = "set_conn_table c (mdel q (conn_table c p)) p"
  let ?t = "set_rpc x (rpc_zero\<lparr>rc_aryMsg := [Marshal pb m]\<rparr>) ?s"
  have "chan_send x (Marshal pb m) ?s = (Ret (), ?t)"
    using x by (simp add: chan_send_def net_upd_defs rpc_zero_def)
  then have "Process (node_router E ch nNow) (payload pb '''' 2 q m) (Some rc) p = (Ret True, ?t)"
    using read_packet_payload [OF empty_uri_fits fits, of 2 pb m] rc x(1)
    by (simp add: Process_def GetRequestContext_def GetRpcContext_hit)
  then have u: "z = Ret ()" "n_rpc u x = rpc_zero\<lparr>rc_aryMsg := [Marshal pb m]\<rparr>" "nm_nNextInfo u = nm_nNextInfo p" "nm_ptrSelf u = nm_ptrSelf p"
    using run by (auto simp: process_task_def net_upd_defs refresh_frame split: option.splits)
  let ?v = "CancelFunc x (set_rpc x ((n_rpc u x)\<lparr>rc_aryMsg := []\<rparr>) u)"
  have "Call_select unm SelMsg c q x u = (Ret (Some r), ?v)" "select_ready SelMsg False x u"
    using unm u(2) by (simp_all add: Call_select_def chan_recv_def ErrorMsg_def rpc_zero_def net_upd_defs select_ready_def)
  moreover have "nm_nNextInfo ?v = nm_nNextInfo u" "nm_ptrSelf ?v = nm_ptrSelf u" by (simp_all add: CancelFunc_def net_upd_defs)
  ultimately show ?thesis using u by auto
qed

section \<open>A round heals\<close>

text \<open>
  C9. One keepalive round heals any divergence.  A node greets a peer with the version of its
  entries; if the record the peer keeps of it has another version, the peer asks for all
  entries, the node answers, and the peer takes the answer over.  No step panics, and then the
  record of the peer is equal to what the node offers, version and entries, is alive, and the
  peer routes to the node for exactly these entries.  Both nodes are in any states that keep
  the invariant of reachable nodes, whatever the record held before.
\<close>

theorem keepalive_heals:
  fixes a :: "'a NodeManager_scheme" and p :: "'b NodeManager_scheme" and E :: node_env and ch ch1 :: choice and m n :: noderef
  defines "ca \<equiv> picked ch m a" and "c2 \<equiv> picked ch1 n p" and "q \<equiv> ch_uuid ch m" and "pb \<equiv> ne_pb E"
  assumes inv: "node_inv E a" "node_inv E p" and fits: "string_fits q" "q \<noteq> ''''"
    and codec: "Unmarshal_KeepAliveNotify pb (Marshal pb (MKeepAliveNotify (keepalive_notify ch a))) = Some (keepalive_notify ch a)"
      "Unmarshal_GetEntryReq pb (Marshal pb (MGetEntryReq GetEntryReq)) = Some GetEntryReq"
      "Unmarshal_GetEntryResp pb (Marshal pb (MGetEntryResp (getEntry_answer a))) = Some (getEntry_answer a)"
    and greets: "getNode ctx a = Some m" "GetRequestID ctx \<noteq> ''''" "nm_nodes a \<noteq> []" "reachable ch m a"
      "hello_keepalive E ch ctx a = (z0, a0)" "delivers (last (sent ca a0)) b0"
    and asks: "getNode (Some rc1) p = Some n" "alive n p" "n \<noteq> nm_ptrSelf p" "reachable ch1 n p"
      "info_nDataVersion (nm_info p n) \<noteq> info_nDataVersion (nm_info a (nm_ptrSelf a))"
      "process_task E ch1 t1 c1 b0 (Some rc1) p = (z1, p1)" "delivers (last (sent c2 p1)) b1"
    and answers: "rq_ptrServerConnection rc2 = c3" "transport_error c3 a = None" "getNode (Some rc2) a = Some m'"
      "nm_nStatus a = MANAGER_STATUS_STARTED"
      "process_task E ch2 t2 c3 b1 (Some rc2) a0 = (z2, a1)" "delivers (last (sent c3 a1)) b2"
    and takes: "rq_ptrServerConnection rc3 = c2" "process_task E ch3 t3 c2 b2 (Some rc3) p1 = (z3, p2)"
      "finish_call E SelMsg (last (nm_wait p1)) p2 = (z4, p3)"
  shows "{z0, z1, z2, z3, z4} = {Ret ()} \<and> select_ready SelMsg False (wt_rpc (last (nm_wait p1))) p2
    \<and> replica p3 n = replica a (nm_ptrSelf a) \<and> getState n p3 = NODE_STATUS_ALIVE
    \<and> (n \<in> set (routes p3 u) \<longleftrightarrow> mget (entries a (nm_ptrSelf a)) u \<noteq> None)"
proof -
  let ?k = "keepalive_notify ch a" and ?r = "getEntry_answer a"
  have 0: "z0 = Ret ()" "unmoved a a0" "last (sent ca a0) = fst (NewProtocol pb NODE_KEEP_ALIVE 3 q (MKeepAliveNotify ?k))"
    "transport_error c3 a0 = None" "getNode (Some rc2) a0 = Some m'"
    using hello_keepalive_sends [OF greets(1-5), of c3 "Some rc2"] answers(2,3) by (simp_all add: ca_def q_def pb_def)
  have b0: "b0 = payload pb NODE_KEEP_ALIVE 3 q (MKeepAliveNotify ?k)" by (rule delivers_payload) (use greets(6) 0(3) in simp)
  have other: "info_nDataVersion (nm_info p n) \<noteq> KeepAliveNotify_DataVersion ?k" using asks(5) by (simp add: keepalive_notify_def)
  obtain x where 1: "z1 = Ret ()" "last (sent c2 p1) = fst (NewProtocol pb NODE_GET_ENTRY 1 q (MGetEntryReq GetEntryReq))"
    "last (nm_wait p1) = \<lparr>wt_rpc = x, wt_conn = c2, wt_szRequestID = q, wt_then = WaitEntry n\<rparr>"
    "mget (conn_table c2 p1) q = Some x" "n_rpc p1 x = rpc_zero" "nm_nNextInfo p1 = nm_nNextInfo p" "nm_ptrSelf p1 = nm_ptrSelf p"
    using keepalive_asks [OF asks(1,2) other asks(4) fits codec(1) [unfolded pb_def] asks(6) [unfolded b0 pb_def]]
    unfolding c2_def pb_def by blast
  have b1: "b1 = payload pb NODE_GET_ENTRY 1 q (MGetEntryReq GetEntryReq)" by (rule delivers_payload) (use asks(7) 1(2) in simp)
  have same: "getEntry_answer a0 = ?r" "nm_nStatus a0 = MANAGER_STATUS_STARTED"
    using 0(2) answers(4) by (simp_all add: unmoved_def getEntry_answer_def getAllEntry_def)
  have 2: "z2 = Ret ()" "last (sent c3 a1) = fst (NewProtocol pb '''' 2 q (MGetEntryResp ?r))"
    using entries_answered [OF answers(1) 0(4,5) same(2) fits(1) codec(2) [unfolded pb_def] answers(5) [unfolded b1 pb_def]]
    by (simp_all add: same(1) pb_def)
  have b2: "b2 = payload pb '''' 2 q (MGetEntryResp ?r)" by (rule delivers_payload) (use answers(6) 2(2) in simp)
  obtain v where 3: "z3 = Ret ()" "select_ready SelMsg False x p2"
    "Call_select (Unmarshal_GetEntryResp pb) SelMsg c2 q x p2 = (Ret (Some ?r), v)"
    "nm_nNextInfo v = nm_nNextInfo p1" "nm_ptrSelf v = nm_ptrSelf p1"
    using answer_taken [where unm = "Unmarshal_GetEntryResp pb", OF 1(4,5) takes(1) fits(1) codec(3) takes(2) [unfolded b2]] by blast
  have "node_inv E p2"
    using node_inv_process_task [OF inv(2), of ch1 t1 c1 b0 "Some rc1"] node_inv_process_task [of E p1 ch3 t3 c2 b2 "Some rc3"]
      asks(6) takes(2) by simp
  then have v: "node_inv E v" using node_inv_quiet quiet_Call_select [of p2] 3(3) by (metis snd_conv)
  have n: "n < nm_nNextInfo v" "n \<noteq> nm_ptrSelf v"
    using node_inv_getNode [OF inv(2) asks(1)] asks(3) by (simp_all add: 1(6,7) 3(4,5))
  have 4: "(z4, p3) = (Ret (), trySyncAll_finish E n (Some ?r) v)"
    using 3(3) takes(3) by (simp add: finish_call_def 1(3) pb_def)
  show ?thesis using sync_restores [OF inv(1) v n, of u] 0(1) 1(1,3) 2(1) 3(1,2) 4 by simp
qed

text \<open>Node a, which offers u, and node b, which knows a but none of its entries.\<close>

definition heal_a :: NodeManager where
  "heal_a = bind_ctx 0 (CtxNode 1) (addConnection example_env 1 0 (checkNeighbour 100 node_a1))"

definition heal_p :: NodeManager where "heal_p = addConnection example_env 1 0 node_b"

definition heal_pb :: proto_lib where
  "heal_pb = lib_stub\<lparr>Unmarshal_KeepAliveNotify := \<lambda>_. Some (keepalive_notify example_choice heal_a),
     Unmarshal_GetEntryReq := \<lambda>_. Some GetEntryReq, Unmarshal_GetEntryResp := \<lambda>_. Some (getEntry_answer heal_a)\<rparr>"

definition heal_env :: node_env where "heal_env = example_env\<lparr>ne_pb := heal_pb\<rparr>"

definition heal_ctx :: ctx where "heal_ctx = Some (meet_rc\<lparr>rq_szRequestID := ''g''\<rparr>)"

definition heal_a0 :: NodeManager where "heal_a0 = snd (hello_keepalive heal_env example_choice heal_ctx heal_a)"

definition heal_p1 :: NodeManager where
  "heal_p1 = snd (process_task heal_env example_choice 100 0 (drop 4 (last (sent 0 heal_a0))) (Some meet_rc) heal_p)"

definition heal_a1 :: NodeManager where
  "heal_a1 = snd (process_task heal_env example_choice 100 0 (drop 4 (last (sent 0 heal_p1))) (Some meet_rc) heal_a0)"

definition heal_p2 :: NodeManager where
  "heal_p2 = snd (process_task heal_env example_choice 100 0 (drop 4 (last (sent 0 heal_a1))) (Some meet_rc) heal_p1)"

definition heal_p3 :: NodeManager where
  "heal_p3 = snd (finish_call heal_env SelMsg (last (nm_wait heal_p1)) heal_p2)"

lemma heal_pb_eq:
  "Unmarshal_KeepAliveNotify heal_pb b = Some (keepalive_notify example_choice heal_a)"
  "Unmarshal_GetEntryReq heal_pb b = Some GetEntryReq" "Unmarshal_GetEntryResp heal_pb b = Some (getEntry_answer heal_a)"
  "Marshal heal_pb m = []" "ne_pb heal_env = heal_pb"
  by (simp_all add: heal_pb_def heal_env_def lib_stub_def)

lemma heal_inv: "node_inv heal_env heal_a" "node_inv heal_env heal_p"
proof -
  have env: "node_inv heal_env s = node_inv example_env s" for s :: NodeManager
    by (simp add: node_inv_def entries_ok_def keyed_def getUri_def EntryType_String_def heal_env_def heal_pb_def example_env_def)
  have "node_inv example_env (checkNeighbour 100 node_a1)"
    using node_inv_checkNeighbour node_system.reachable_inv [OF node_a1_reached] by blast
  then have 1: "node_inv example_env (addConnection example_env 1 0 (checkNeighbour 100 node_a1))"
    using node_inv_keeps keeps_addConnection by blast
  have "1 < nm_nNextInfo (addConnection example_env 1 0 (checkNeighbour 100 node_a1))"
    by (simp add: addConnection_def alive_def node_a1_def AddEntry_def example_defs entryExist_def getUri_def
        EntryType_String_def lib_stub_def EntryType_name_def modifyEntry_def modify_one_def set_route_def GoTask_def entries_def
        checkNeighbour_def)
  then show "node_inv heal_env heal_a"
    using node_inv_keeps [OF 1 keeps_bind_ctx] unfolding env heal_a_def by blast
  show "node_inv heal_env heal_p"
    using node_inv_keeps [OF node_b_inv keeps_addConnection] unfolding env heal_p_def .
qed

lemmas heal_defs = node_a1_def AddEntry_def example_defs entryExist_def alive_def getUri_def EntryType_String_def lib_stub_def
  EntryType_name_def modifyEntry_def modify_one_def set_route_def GoTask_def entries_def checkNeighbour_def addConnection_def
  bind_ctx_def set_conn_def

lemma heal_ctx_conn: "GetServerConnection heal_ctx = Some 0" "GetServerConnection (Some meet_rc) = Some 0" "GetRequestID heal_ctx = ''g''"
  by (simp_all add: heal_ctx_def meet_rc_def example_ctx_def GetServerConnection_def GetRequestContext_def GetRequestID_def)

lemma heal_a_start:
  "getNode heal_ctx heal_a = Some 1" "nm_nodes heal_a \<noteq> []" "info_aryConnectionList (nm_info heal_a 1) = [0]"
  "transport_error 0 heal_a = None" "nm_nStatus heal_a = 1" "nm_ptrSelf heal_a = 0" "info_nDataVersion (nm_info heal_a 0) = 1"
  "mget (entries heal_a 0) ''u_RPC'' \<noteq> None"
  by (simp_all add: getNode_def getNodeByConnection_def heal_ctx_conn heal_a_def heal_defs transport_error_def conn_zero_def)

lemma heal_a_open: "getNode (Some meet_rc) heal_a = Some 1"
  using heal_a_start(1) by (simp add: getNode_def heal_ctx_conn)

lemma heal_p_start:
  "getNode (Some meet_rc) heal_p = Some 1" "alive 1 heal_p" "nm_ptrSelf heal_p = 0" "info_aryConnectionList (nm_info heal_p 1) = [0]"
  "transport_error 0 heal_p = None" "info_nDataVersion (nm_info heal_p 1) = 0"
  by (simp_all add: getNode_def getNodeByConnection_def heal_ctx_conn heal_p_def node_b_def NewManager_def newNode_def Let_def
      set_info_def heal_defs transport_error_def conn_zero_def)

lemma heal_picks: "reachable example_choice 1 heal_a" "picked example_choice 1 heal_a = 0"
  "reachable example_choice 1 heal_p" "picked example_choice 1 heal_p = 0"
  by (simp_all add: reachable_def picked_def heal_a_start(3,4) heal_p_start(4,5) pick_def rand_Intn_def del: One_nat_def)

lemma heal_id: "ch_uuid example_choice 1 = ''uuid''" "string_fits ''uuid''" "''uuid'' \<noteq> ''''"
  by (simp_all add: example_choice_def string_fits_def)

lemma heal_step0:
  "\<exists>z. hello_keepalive heal_env example_choice heal_ctx heal_a = (z, heal_a0) \<and> unmoved heal_a heal_a0
    \<and> transport_error 0 heal_a0 = None \<and> getNode (Some meet_rc) heal_a0 = Some 1
    \<and> delivers (last (sent 0 heal_a0)) (drop 4 (last (sent 0 heal_a0)))
    \<and> drop 4 (last (sent 0 heal_a0)) = payload heal_pb NODE_KEEP_ALIVE 3 ''uuid'' (MKeepAliveNotify (keepalive_notify example_choice heal_a))"
proof -
  obtain z where z: "hello_keepalive heal_env example_choice heal_ctx heal_a = (z, heal_a0)" by (metis heal_a0_def prod.collapse)
  have id: "GetRequestID heal_ctx \<noteq> ''''" by (simp add: heal_ctx_conn)
  note s = hello_keepalive_sends [OF heal_a_start(1) id heal_a_start(2) heal_picks(1) z, of 0 "Some meet_rc",
      unfolded heal_picks heal_pb_eq(5) heal_id(1) heal_a_start(4) heal_a_open]
  from s have "last (sent 0 heal_a0)
      = fst (NewProtocol heal_pb NODE_KEEP_ALIVE 3 ''uuid'' (MKeepAliveNotify (keepalive_notify example_choice heal_a)))" by blast
  from short_sent [OF this heal_pb_eq(4)] z s show ?thesis by simp
qed

lemma heal_other: "info_nDataVersion (nm_info heal_p 1) \<noteq> info_nDataVersion (nm_info heal_a (nm_ptrSelf heal_a))"
  by (simp add: heal_a_start heal_p_start del: One_nat_def)

lemma heal_step1:
  "\<exists>z. process_task heal_env example_choice 100 0 (drop 4 (last (sent 0 heal_a0))) (Some meet_rc) heal_p = (z, heal_p1)
    \<and> delivers (last (sent 0 heal_p1)) (drop 4 (last (sent 0 heal_p1)))
    \<and> drop 4 (last (sent 0 heal_p1)) = payload heal_pb NODE_GET_ENTRY 1 ''uuid'' (MGetEntryReq GetEntryReq)"
proof -
  obtain z where z: "process_task heal_env example_choice 100 0 (drop 4 (last (sent 0 heal_a0))) (Some meet_rc) heal_p = (z, heal_p1)"
    by (metis heal_p1_def prod.collapse)
  have p: "drop 4 (last (sent 0 heal_a0))
      = payload heal_pb NODE_KEEP_ALIVE 3 ''uuid'' (MKeepAliveNotify (keepalive_notify example_choice heal_a))"
    using heal_step0 by blast
  have v: "info_nDataVersion (nm_info heal_p 1) \<noteq> KeepAliveNotify_DataVersion (keepalive_notify example_choice heal_a)"
    using heal_other by (simp add: keepalive_notify_def)
  from keepalive_asks [OF heal_p_start(1,2) v heal_picks(3) heal_id(2,3), of heal_env, unfolded heal_pb_eq(5) heal_picks(4),
      OF heal_pb_eq(1) z [unfolded p]]
  have "last (sent 0 heal_p1) = fst (NewProtocol heal_pb NODE_GET_ENTRY 1 ''uuid'' (MGetEntryReq GetEntryReq))" by blast
  from short_sent [OF this heal_pb_eq(4)] z show ?thesis by simp
qed

lemma heal_step2:
  "\<exists>z. process_task heal_env example_choice 100 0 (drop 4 (last (sent 0 heal_p1))) (Some meet_rc) heal_a0 = (z, heal_a1)
    \<and> delivers (last (sent 0 heal_a1)) (drop 4 (last (sent 0 heal_a1)))"
proof -
  obtain z where z: "process_task heal_env example_choice 100 0 (drop 4 (last (sent 0 heal_p1))) (Some meet_rc) heal_a0 = (z, heal_a1)"
    by (metis heal_a1_def prod.collapse)
  have p: "drop 4 (last (sent 0 heal_p1)) = payload heal_pb NODE_GET_ENTRY 1 ''uuid'' (MGetEntryReq GetEntryReq)"
    using heal_step1 by blast
  have st: "nm_nStatus heal_a0 = 1" using heal_step0 heal_a_start(5) by (auto simp: unmoved_def)
  have opn: "transport_error 0 heal_a0 = None" "getNode (Some meet_rc) heal_a0 = Some 1" using heal_step0 by blast+
  from entries_answered [OF meet_rc_conn opn st heal_id(2), of heal_env, unfolded heal_pb_eq(5),
      OF heal_pb_eq(2) z [unfolded p]]
  have "last (sent 0 heal_a1) = fst (NewProtocol heal_pb '''' 2 ''uuid'' (MGetEntryResp (getEntry_answer heal_a0)))" by blast
  from short_sent [OF this heal_pb_eq(4)] z show ?thesis by simp
qed

theorem keepalive_heals_witness: "replica heal_p3 1 = replica heal_a 0 \<and> 1 \<in> set (routes heal_p3 ''u_RPC'')"
proof -
  obtain z0 where 0: "hello_keepalive heal_env example_choice heal_ctx heal_a = (z0, heal_a0)"
    "delivers (last (sent 0 heal_a0)) (drop 4 (last (sent 0 heal_a0)))" using heal_step0 by blast
  obtain z1 where 1: "process_task heal_env example_choice 100 0 (drop 4 (last (sent 0 heal_a0))) (Some meet_rc) heal_p = (z1, heal_p1)"
    "delivers (last (sent 0 heal_p1)) (drop 4 (last (sent 0 heal_p1)))" using heal_step1 by blast
  obtain z2 where 2: "process_task heal_env example_choice 100 0 (drop 4 (last (sent 0 heal_p1))) (Some meet_rc) heal_a0 = (z2, heal_a1)"
    "delivers (last (sent 0 heal_a1)) (drop 4 (last (sent 0 heal_a1)))" using heal_step2 by blast
  obtain z3 z4 where 3: "process_task heal_env example_choice 100 0 (drop 4 (last (sent 0 heal_a1))) (Some meet_rc) heal_p1 = (z3, heal_p2)"
    "finish_call heal_env SelMsg (last (nm_wait heal_p1)) heal_p2 = (z4, heal_p3)" by (metis heal_p2_def heal_p3_def prod.collapse)
  have id: "GetRequestID heal_ctx \<noteq> ''''" and self: "1 \<noteq> nm_ptrSelf heal_p" by (simp_all add: heal_ctx_conn heal_p_start)
  note heals = keepalive_heals [where E = heal_env and ?ch1.0 = example_choice and ch = example_choice and m = 1 and n = 1
      and u = "''u_RPC''", unfolded heal_id(1) heal_pb_eq(5), OF heal_inv heal_id(2,3) heal_pb_eq(1-3) heal_a_start(1) id
        heal_a_start(2) heal_picks(1) _ _ heal_p_start(1,2) self heal_picks(3) heal_other, unfolded heal_picks(2,4),
      OF 0 1 meet_rc_conn heal_a_start(4) heal_a_open heal_a_start(5) 2 meet_rc_conn 3]
  then show ?thesis using heal_a_start(6,8) by (simp del: One_nat_def)
qed

end
