(* ===== verification/Template.thy ===== *)
theory Template
  imports GoText
begin

text \<open>
  The part of \<^verbatim>\<open>text/template\<close> that the generator uses: text, trim markers, variables,
  \<^verbatim>\<open>range\<close> with two variables, field access and calls of the functions of a \<^verbatim>\<open>FuncMap\<close>.
  A template that uses any other action counts as malformed here.
\<close>

section \<open>Items\<close>

text \<open>The text before and after the first place where a delimiter stands.\<close>

fun split_at :: "string \<Rightarrow> string \<Rightarrow> (string \<times> string) option" where
  "split_at d [] = (if d = [] then Some ([], []) else None)"
| "split_at d (c # cs) =
     (if take (length d) (c # cs) = d then Some ([], drop (length d) (c # cs))
      else (case split_at d cs of None \<Rightarrow> None | Some (a, b) \<Rightarrow> Some (c # a, b)))"

lemma split_at_eq: "split_at d s = Some (a, b) \<Longrightarrow> s = a @ d @ b"
proof (induction s arbitrary: a)
  case (Cons c s)
  then show ?case
    by (auto split: if_splits option.splits) (metis append_take_drop_id drop_Suc_Cons take_Suc_Cons)
qed (auto split: if_splits)

definition isSpace :: "char \<Rightarrow> bool" where
  "isSpace c \<longleftrightarrow> c = CHR '' '' \<or> c = CHR 0x09 \<or> c = CHR 0x0D \<or> c = CHR 0x0A"

definition trimLeft :: "string \<Rightarrow> string" where "trimLeft s = dropWhile isSpace s"

definition trimRight :: "string \<Rightarrow> string" where "trimRight s = rev (dropWhile isSpace (rev s))"

text \<open>The words of an action; a comma is a word.\<close>

definition end_word :: "string \<Rightarrow> string list \<Rightarrow> string list" where
  "end_word w ws = (if w = [] then ws else w # ws)"

fun action_words :: "string \<Rightarrow> string list" where
  "action_words [] = []"
| "action_words (c # cs) =
     (if isSpace c then action_words cs
      else if c = CHR '','' then [c] # action_words cs
      else (case cs of
              [] \<Rightarrow> [[c]]
            | c' # _ \<Rightarrow>
                if isSpace c' \<or> c' = CHR '','' then [c] # action_words cs
                else (case action_words cs of [] \<Rightarrow> [[c]] | w # ws \<Rightarrow> (c # w) # ws)))"

datatype item = ItText string | ItAction "string list"

definition text_item :: "string \<Rightarrow> item list" where
  "text_item t = (if t = [] then [] else [ItText t])"

text \<open>\<^verbatim>\<open>lexText\<close> and \<^verbatim>\<open>lexInsideAction\<close>; an action that is not closed is an error.\<close>

function lex_items :: "string \<Rightarrow> item list option" where
  "lex_items s =
     (case split_at ''{{'' s of
        None \<Rightarrow> Some (text_item s)
      | Some (t, r) \<Rightarrow>
          let trimL = (take 2 r = ''- '') in
          (case split_at ''}}'' (if trimL then drop 2 r else r) of
             None \<Rightarrow> None
           | Some (act, rest) \<Rightarrow>
               let trimR = (drop (length act - 2) act = '' -'') in
               (case lex_items (if trimR then trimLeft rest else rest) of
                  None \<Rightarrow> None
                | Some its \<Rightarrow>
                    Some (text_item (if trimL then trimRight t else t)
                      @ ItAction (action_words (if trimR then take (length act - 2) act else act)) # its))))"
  by pat_completeness auto
termination
proof (relation "measure length")
  fix s t r act rest and p :: "string \<times> string" and q :: "string \<times> string" and trimL trimR :: bool
  assume "split_at ''{{'' s = Some p" "(t, r) = p" "split_at ''}}'' (if trimL then drop 2 r else r) = Some q" "(act, rest) = q"
  then have s: "s = t @ ''{{'' @ r" and r: "(if trimL then drop 2 r else r) = act @ ''}}'' @ rest"
    using split_at_eq by blast+
  from r have "length rest \<le> length r" by (metis (full_types) diff_le_self le_add2 le_trans length_append length_drop)
  moreover have "length (trimLeft rest) \<le> length rest" by (simp add: trimLeft_def length_dropWhile_le)
  ultimately show "((if trimR then trimLeft rest else rest), s) \<in> measure length" by (auto simp: s)
qed simp

declare lex_items.simps [simp del]

text \<open>
  The items of a template that is given as a sequence of texts, each followed by an action:
  one piece at a time, with what the trim markers of the action before demand.
\<close>

definition act_body :: "string \<Rightarrow> string" where
  "act_body a = (if take 2 a = ''- '' then drop 2 a else a)"

definition trims_right :: "string \<Rightarrow> bool" where
  "trims_right b \<longleftrightarrow> drop (length b - 2) b = '' -''"

definition trim_if :: "bool \<Rightarrow> string \<Rightarrow> string" where
  "trim_if trim t = (if trim then trimLeft t else t)"

fun render_pieces :: "(string \<times> string) list \<Rightarrow> string \<Rightarrow> string" where
  "render_pieces [] tail = tail"
| "render_pieces ((t, a) # ps) tail = t @ ''{{'' @ a @ ''}}'' @ render_pieces ps tail"

fun pieces_ok :: "bool \<Rightarrow> (string \<times> string) list \<Rightarrow> string \<Rightarrow> bool" where
  "pieces_ok trim [] tail \<longleftrightarrow> split_at ''{{'' (trim_if trim tail) = None"
| "pieces_ok trim ((t, a) # ps) tail \<longleftrightarrow>
     split_at ''{{'' (trim_if trim t @ ''{{'') = Some (trim_if trim t, []) \<and> 2 \<le> length a
     \<and> split_at ''}}'' (act_body a @ ''}}'') = Some (act_body a, []) \<and> pieces_ok (trims_right (act_body a)) ps tail"

fun pieces_items :: "bool \<Rightarrow> (string \<times> string) list \<Rightarrow> string \<Rightarrow> item list" where
  "pieces_items trim [] tail = text_item (trim_if trim tail)"
| "pieces_items trim ((t, a) # ps) tail =
     (let u = trim_if trim t; b = act_body a in
      text_item (if take 2 a = ''- '' then trimRight u else u)
      @ ItAction (action_words (if trims_right b then take (length b - 2) b else b))
      # pieces_items (trims_right b) ps tail)"

lemma split_at_append: "split_at d s = Some (a, b) \<Longrightarrow> split_at d (s @ z) = Some (a, b @ z)"
proof (induction s arbitrary: a)
  case Nil
  then show ?case by (cases z) (auto split: if_splits)
next
  case (Cons c s)
  have len: "length d \<le> length (c # s)" using split_at_eq [OF Cons.prems] by (metis le_add1 le_add2 le_trans length_append)
  then have td: "take (length d) (c # s @ z) = take (length d) (c # s)" "drop (length d) (c # s @ z) = drop (length d) (c # s) @ z"
    using take_append [of "length d" "c # s" z] drop_append [of "length d" "c # s" z] by simp_all
  show ?case using Cons by (auto simp: td split: if_splits option.splits)
qed

lemma trim_if_append: "trim_if trim (t @ ''{{'' @ x) = trim_if trim t @ ''{{'' @ x"
  by (induction t) (auto simp: trim_if_def trimLeft_def isSpace_def)

lemma lex_items_pieces:
  "pieces_ok trim ps tail \<Longrightarrow> lex_items (trim_if trim (render_pieces ps tail)) = Some (pieces_items trim ps tail)"
proof (induction trim ps tail rule: pieces_ok.induct)
  case (1 trim tail)
  then show ?case by (simp add: lex_items.simps)
next
  case (2 trim t a ps tail)
  let ?u = "trim_if trim t" and ?b = "act_body a" and ?r = "render_pieces ps tail"
  have u: "split_at ''{{'' (?u @ ''{{'' @ a @ ''}}'' @ ?r) = Some (?u, a @ ''}}'' @ ?r)"
    using 2(2) split_at_append [of "''{{''" "?u @ ''{{''" ?u "[]" "a @ ''}}'' @ ?r"] by simp
  have l: "take 2 (a @ ''}}'' @ ?r) = take 2 a" "drop 2 (a @ ''}}'' @ ?r) = drop 2 a @ ''}}'' @ ?r"
    using 2(2) by simp_all
  have b: "split_at ''}}'' (?b @ ''}}'' @ ?r) = Some (?b, ?r)"
    using 2(2) split_at_append [of "''}}''" "?b @ ''}}''" ?b "[]" ?r] by simp
  have d: "(if take 2 a = ''- '' then drop 2 a @ ''}}'' @ ?r else a @ ''}}'' @ ?r) = ?b @ ''}}'' @ ?r"
    by (simp add: act_body_def)
  have "lex_items (trim_if (trims_right ?b) ?r) = Some (pieces_items (trims_right ?b) ps tail)"
    using 2 by simp
  then show ?case
    unfolding render_pieces.simps trim_if_append lex_items.simps [of "?u @ _"] u option.case prod.case l d Let_def b
    by (simp add: trims_right_def trim_if_def Let_def)
qed

section \<open>Parsing\<close>

datatype operand = OpVar string "string list" | OpField "string list"

datatype pipe = PArg operand | PCall string "operand list"

datatype tnode = NText string | NSet string pipe | NPrint pipe | NRange string string pipe "tnode list"

text \<open>A variable has to be in scope when it is used.\<close>

definition parse_operand :: "string list \<Rightarrow> string \<Rightarrow> operand option" where
  "parse_operand vs tok =
     (case tok of
        [] \<Rightarrow> None
      | c # cs \<Rightarrow>
          if c = CHR ''$'' then
            (let parts = Split (CHR ''.'') tok
             in if hd parts \<in> set vs then Some (OpVar (hd parts) (tl parts)) else None)
          else if c = CHR ''.'' then Some (OpField (if cs = [] then [] else Split (CHR ''.'') cs))
          else None)"

definition parse_pipe :: "string list \<Rightarrow> string list \<Rightarrow> string list \<Rightarrow> pipe option" where
  "parse_pipe funcs vs toks =
     (case toks of
        [] \<Rightarrow> None
      | f # args \<Rightarrow>
          if f \<in> set funcs then map_option (PCall f) (those (map (parse_operand vs) args))
          else if args = [] then map_option PArg (parse_operand vs f)
          else None)"

text \<open>A \<^verbatim>\<open>range\<close> that waits for its end: what surrounds it and the variables in scope there.\<close>

record range_frame =
  fr_i :: string
  fr_x :: string
  fr_pipe :: pipe
  fr_outer :: "tnode list"
  fr_vars :: "string list"

fun parse_items :: "string list \<Rightarrow> range_frame list \<Rightarrow> string list \<Rightarrow> tnode list \<Rightarrow> item list \<Rightarrow> tnode list option" where
  "parse_items funcs st vs cur [] = (if st = [] then Some (rev cur) else None)"
| "parse_items funcs st vs cur (ItText t # its) = parse_items funcs st vs (NText t # cur) its"
| "parse_items funcs st vs cur (ItAction ws # its) =
     (if ws = [''end''] then
        (case st of
           [] \<Rightarrow> None
         | fr # st' \<Rightarrow>
             parse_items funcs st' (fr_vars fr) (NRange (fr_i fr) (fr_x fr) (fr_pipe fr) (rev cur) # fr_outer fr) its)
      else if take 1 ws = [''range''] then
        (case tl ws of
           i # com # x # asg # toks \<Rightarrow>
             if com = '','' \<and> asg = '':='' then
               (case parse_pipe funcs vs toks of
                  None \<Rightarrow> None
                | Some p \<Rightarrow>
                    parse_items funcs (\<lparr>fr_i = i, fr_x = x, fr_pipe = p, fr_outer = cur, fr_vars = vs\<rparr> # st)
                      (x # i # vs) [] its)
             else None
         | _ \<Rightarrow> None)
      else if take 1 (tl ws) = ['':=''] then
        (case parse_pipe funcs vs (drop 2 ws) of
           None \<Rightarrow> None
         | Some p \<Rightarrow> parse_items funcs st (hd ws # vs) (NSet (hd ws) p # cur) its)
      else
        (case parse_pipe funcs vs ws of
           None \<Rightarrow> None
         | Some p \<Rightarrow> parse_items funcs st vs (NPrint p # cur) its))"

definition Parse_template :: "string list \<Rightarrow> string \<Rightarrow> tnode list option" where
  "Parse_template funcs s =
     (case lex_items s of None \<Rightarrow> None | Some its \<Rightarrow> parse_items funcs [] [''$''] [] its)"

section \<open>Execution\<close>

text \<open>
  The data of a template: a \<^verbatim>\<open>*string\<close>, a string, an index, a structure or a slice.
  \<open>None\<close> is an error, after which the caller throws away what was printed before it.
\<close>

datatype gval = GPtr "string option" | GString string | GInt nat | GStruct "(string \<times> gval) list" | GSlice "gval list"

fun get_fields :: "gval \<Rightarrow> string list \<Rightarrow> gval option" where
  "get_fields v [] = Some v"
| "get_fields (GStruct fs) (f # path) = (case mget fs f of None \<Rightarrow> None | Some v \<Rightarrow> get_fields v path)"
| "get_fields v (f # path) = None"

fun eval_operand :: "gval \<Rightarrow> (string, gval) gomap \<Rightarrow> operand \<Rightarrow> gval option" where
  "eval_operand dot vars (OpVar x fs) = (case mget vars x of None \<Rightarrow> None | Some v \<Rightarrow> get_fields v fs)"
| "eval_operand dot vars (OpField fs) = get_fields dot fs"

text \<open>A function takes one string; a nil pointer cannot be dereferenced for it.\<close>

fun eval_pipe :: "(string, string \<Rightarrow> string) gomap \<Rightarrow> gval \<Rightarrow> (string, gval) gomap \<Rightarrow> pipe \<Rightarrow> gval option" where
  "eval_pipe F dot vars (PArg a) = eval_operand dot vars a"
| "eval_pipe F dot vars (PCall f args) =
     (case (mget F f, map (eval_operand dot vars) args) of
        (Some g, [Some (GString s)]) \<Rightarrow> Some (GString (g s))
      | (Some g, [Some (GPtr (Some s))]) \<Rightarrow> Some (GString (g s))
      | _ \<Rightarrow> None)"

text \<open>\<^verbatim>\<open>printValue\<close>; structures and slices are not printed by any template here.\<close>

fun print_value :: "gval \<Rightarrow> string option" where
  "print_value (GString s) = Some s"
| "print_value (GPtr None) = Some ''<nil>''"
| "print_value (GPtr (Some s)) = Some s"
| "print_value (GInt n) = Some (itoa n)"
| "print_value _ = None"

text \<open>The outputs of the runs of a loop one after the other, with the index of each element.\<close>

fun range_loop :: "(nat \<Rightarrow> gval \<Rightarrow> string option) \<Rightarrow> nat \<Rightarrow> gval list \<Rightarrow> string option" where
  "range_loop body k [] = Some []"
| "range_loop body k (v # vs) =
     (case body k v of None \<Rightarrow> None
      | Some s \<Rightarrow> (case range_loop body (k + 1) vs of None \<Rightarrow> None | Some t \<Rightarrow> Some (s @ t)))"

fun exec_node :: "(string, string \<Rightarrow> string) gomap \<Rightarrow> gval \<Rightarrow> (string, gval) gomap \<Rightarrow> tnode
      \<Rightarrow> (string \<times> (string, gval) gomap) option"
  and exec_nodes :: "(string, string \<Rightarrow> string) gomap \<Rightarrow> gval \<Rightarrow> (string, gval) gomap \<Rightarrow> tnode list
      \<Rightarrow> string option" where
  "exec_node F dot vars (NText t) = Some (t, vars)"
| "exec_node F dot vars (NSet x p) = map_option (\<lambda>v. ([], (x, v) # vars)) (eval_pipe F dot vars p)"
| "exec_node F dot vars (NPrint p) =
     map_option (\<lambda>s. (s, vars)) (Option.bind (eval_pipe F dot vars p) print_value)"
| "exec_node F dot vars (NRange i x p body) =
     (case eval_pipe F dot vars p of
        Some (GSlice vs) \<Rightarrow>
          map_option (\<lambda>s. (s, vars))
            (range_loop (\<lambda>k v. exec_nodes F v ((x, v) # (i, GInt k) # vars) body) 0 vs)
      | _ \<Rightarrow> None)"
| "exec_nodes F dot vars [] = Some []"
| "exec_nodes F dot vars (n # ns) =
     (case exec_node F dot vars n of
        None \<Rightarrow> None
      | Some (s, vars') \<Rightarrow> map_option (\<lambda>t. s @ t) (exec_nodes F dot vars' ns))"

definition Execute :: "(string, string \<Rightarrow> string) gomap \<Rightarrow> tnode list \<Rightarrow> gval \<Rightarrow> string option" where
  "Execute F ns data = exec_nodes F data [(''$'', data)] ns"

text \<open>A loop over data whose body prints \<open>f\<close> of each element, whatever its index, prints them all.\<close>

lemma range_loop_map:
  "(\<And>k t. body k (g t) = Some (f t)) \<Longrightarrow> range_loop body k (map g ts) = Some (concat (map f ts))"
  by (induction ts arbitrary: k) simp_all

end
