(* ===== verification/Generator.thy ===== *)
theory Generator
  imports Template
begin

text \<open>
  The code generator \<^verbatim>\<open>tools/NB_Cli\<close>: it reads a compiled protocol description and writes Go
  source for its services from a template.  The file system is a map with the errors its
  operations report; \<^verbatim>\<open>proto.Unmarshal\<close> of the description is an argument, and so are the
  command line flags that cobra parses.  What the commands print is left out.
\<close>

section \<open>Descriptors\<close>

record MethodDescriptorProto =
  Method_Name :: "string option"
  Method_InputType :: "string option"
  Method_OutputType :: "string option"

record ServiceDescriptorProto =
  Service_Name :: "string option"
  Service_Method :: "MethodDescriptorProto list"

record FileDescriptorProto =
  File_Package :: "string option"
  File_Service :: "ServiceDescriptorProto list"

record ProtoBuilder =
  pb_FileDescProto :: FileDescriptorProto
  pb_TemplatesPath :: string
  pb_OutputPath :: string

definition NewProtoBuilder :: "string \<Rightarrow> string \<Rightarrow> ProtoBuilder" where
  "NewProtoBuilder szTemplatesPath szOutputPath =
     \<lparr>pb_FileDescProto = \<lparr>File_Package = None, File_Service = []\<rparr>,
      pb_TemplatesPath = szTemplatesPath, pb_OutputPath = szOutputPath\<rparr>"

text \<open>
  The types of the methods lose their package; a missing type is a nil pointer.  The code
  writes through pointers, so the descriptor of the caller changes with that of the builder.
\<close>

fun each_Ret :: "('a \<Rightarrow> 'b outcome) \<Rightarrow> 'a list \<Rightarrow> 'b list outcome" where
  "each_Ret f [] = Ret []"
| "each_Ret f (x # xs) =
     (case f x of Panics \<Rightarrow> Panics
      | Ret y \<Rightarrow> (case each_Ret f xs of Panics \<Rightarrow> Panics | Ret ys \<Rightarrow> Ret (y # ys)))"

definition base_type :: "string \<Rightarrow> string" where
  "base_type szType = last (Split (CHR ''.'') szType)"

definition read_method :: "MethodDescriptorProto \<Rightarrow> MethodDescriptorProto outcome" where
  "read_method m =
     (case Method_InputType m of
        None \<Rightarrow> Panics
      | Some szInputType \<Rightarrow>
          (case Method_OutputType m of
             None \<Rightarrow> Panics
           | Some szOutputType \<Rightarrow>
               Ret (m\<lparr>Method_InputType := Some (base_type szInputType),
                      Method_OutputType := Some (base_type szOutputType)\<rparr>)))"

definition read_service :: "ServiceDescriptorProto \<Rightarrow> ServiceDescriptorProto outcome" where
  "read_service v =
     (case each_Ret read_method (Service_Method v) of
        Panics \<Rightarrow> Panics
      | Ret ms \<Rightarrow> Ret (v\<lparr>Service_Method := ms\<rparr>))"

definition ReadProtoFile :: "FileDescriptorProto \<Rightarrow> ProtoBuilder \<Rightarrow> ProtoBuilder outcome" where
  "ReadProtoFile objFileProto b =
     (case each_Ret read_service (File_Service objFileProto) of
        Panics \<Rightarrow> Panics
      | Ret vs \<Rightarrow> Ret (b\<lparr>pb_FileDescProto := objFileProto\<lparr>File_Service := vs\<rparr>\<rparr>))"

section \<open>Files\<close>

text \<open>
  \<open>gf_create\<close> is the error of \<^verbatim>\<open>os.Create\<close> for a path, if any, \<open>gf_write\<close> that of
  \<^verbatim>\<open>ioutil.WriteFile\<close> with the number of bytes written before it.
\<close>

record gen_files =
  gf_files :: "(string, bytes) gomap"
  gf_create :: "string \<Rightarrow> string option"
  gf_write :: "string \<Rightarrow> (nat \<times> string) option"

datatype gen_error = ParseFileError | ExecuteError | CreateError string | WriteError string

definition os_Create :: "string \<Rightarrow> gen_files \<Rightarrow> string option \<times> gen_files" where
  "os_Create path s =
     (case gf_create s path of
        Some e \<Rightarrow> (Some e, s)
      | None \<Rightarrow> (None, s\<lparr>gf_files := mput path [] (gf_files s)\<rparr>))"

definition ioutil_WriteFile :: "string \<Rightarrow> bytes \<Rightarrow> gen_files \<Rightarrow> string option \<times> gen_files" where
  "ioutil_WriteFile path b s =
     (case gf_write s path of
        Some (n, e) \<Rightarrow> (Some e, s\<lparr>gf_files := mput path (take n b) (gf_files s)\<rparr>)
      | None \<Rightarrow> (None, s\<lparr>gf_files := mput path b (gf_files s)\<rparr>))"

section \<open>Building a file\<close>

definition getFuncMap :: "(string, string \<Rightarrow> string) gomap" where
  "getFuncMap = [(''firstUpperCase'', Title), (''loweCase'', ToLower)]"

definition getTemplate :: "string \<Rightarrow> gen_files \<Rightarrow> tnode list option" where
  "getTemplate templatePath s =
     (case mget (gf_files s) templatePath of
        None \<Rightarrow> None
      | Some b \<Rightarrow> Parse_template (map fst getFuncMap) b)"

text \<open>The descriptor as the template sees it.\<close>

definition method_data :: "MethodDescriptorProto \<Rightarrow> gval" where
  "method_data m = GStruct [(''Name'', GPtr (Method_Name m)), (''InputType'', GPtr (Method_InputType m)),
     (''OutputType'', GPtr (Method_OutputType m))]"

definition service_data :: "ServiceDescriptorProto \<Rightarrow> gval" where
  "service_data v = GStruct [(''Name'', GPtr (Service_Name v)),
     (''Method'', GSlice (map method_data (Service_Method v)))]"

definition file_data :: "FileDescriptorProto \<Rightarrow> gval" where
  "file_data f = GStruct [(''Package'', GPtr (File_Package f)),
     (''Service'', GSlice (map service_data (File_Service f)))]"

definition ParseTemplate :: "string \<Rightarrow> FileDescriptorProto \<Rightarrow> gen_files \<Rightarrow> gen_error + string" where
  "ParseTemplate szTemplatePath objData s =
     (case getTemplate szTemplatePath s of
        None \<Rightarrow> Inl ParseFileError
      | Some ptrTemplate \<Rightarrow>
          (case Execute getFuncMap ptrTemplate (file_data objData) of
             None \<Rightarrow> Inl ExecuteError
           | Some out \<Rightarrow> Inr out))"

definition Build :: "string \<Rightarrow> string \<Rightarrow> ProtoBuilder \<Rightarrow> gen_files \<Rightarrow> gen_error option \<times> gen_files" where
  "Build szTemplateFile szOutFile b s =
     (case ParseTemplate (path_Join [pb_TemplatesPath b, szTemplateFile]) (pb_FileDescProto b) s of
        Inl anyErr \<Rightarrow> (Some anyErr, s)
      | Inr out \<Rightarrow>
          let szOutFilePath = path_Join [pb_OutputPath b, szOutFile]
          in (case os_Create szOutFilePath s of
                (Some e, s1) \<Rightarrow> (Some (CreateError e), s1)
              | (None, s1) \<Rightarrow>
                  (case ioutil_WriteFile szOutFilePath out s1 of
                     (Some e, s2) \<Rightarrow> (Some (WriteError e), s2)
                   | (None, s2) \<Rightarrow> (None, s2))))"

section \<open>The command\<close>

record gen_flags =
  szPBFileDescriptor :: string
  szTemplatesPath :: string
  szOutputPath :: string

text \<open>The flags without arguments: \<^verbatim>\<open>init\<close> replaces an empty template path.\<close>

definition szBaseTemplatePath :: "string \<Rightarrow> string" where
  "szBaseTemplatePath szGoPath =
     path_Join [szGoPath, ''src'', ''git.yayafish.com/nbagent/tools/NB_Cli/pb/template_file'']"

definition init_flags :: "string \<Rightarrow> gen_flags" where
  "init_flags szGoPath =
     (let f = \<lparr>szPBFileDescriptor = '''', szTemplatesPath = '''', szOutputPath = ''./''\<rparr>
      in if length (szTemplatesPath f) = 0 then f\<lparr>szTemplatesPath := szBaseTemplatePath szGoPath\<rparr> else f)"

text \<open>The error of \<^verbatim>\<open>Build\<close> is thrown away.\<close>

definition generateFile :: "gen_flags \<Rightarrow> FileDescriptorProto list \<Rightarrow> gen_files \<Rightarrow> unit outcome \<times> gen_files" where
  "generateFile f aryFile s =
     (case aryFile of
        [] \<Rightarrow> (Panics, s)
      | objFile # _ \<Rightarrow>
          (case ReadProtoFile objFile (NewProtoBuilder (szTemplatesPath f) (szOutputPath f)) of
             Panics \<Rightarrow> (Panics, s)
           | Ret objProtoBuilder \<Rightarrow>
               (case File_Package objFile of
                  None \<Rightarrow> (Panics, s)
                | Some szPackage \<Rightarrow>
                    let szOutFile = ''/'' @ szPackage @ ''.nbagent.go''
                    in (Ret (), snd (Build ''/nbagent_pb.tmpl'' szOutFile objProtoBuilder s)))))"

definition GeneratorFunc ::
  "(bytes \<Rightarrow> FileDescriptorProto list option) \<Rightarrow> gen_flags \<Rightarrow> gen_files \<Rightarrow> unit outcome \<times> gen_files" where
  "GeneratorFunc unmarshal f s =
     (case mget (gf_files s) (szPBFileDescriptor f) of
        None \<Rightarrow> (Ret (), s)
      | Some byteProto \<Rightarrow>
          (case unmarshal byteProto of
             None \<Rightarrow> (Ret (), s)
           | Some aryFile \<Rightarrow> generateFile f aryFile s))"

section \<open>The template of the repository\<close>

abbreviation eol :: string where "eol \<equiv> [CHR 0x0A]"

abbreviation tab :: string where "tab \<equiv> [CHR 0x09]"

abbreviation dq :: string where "dq \<equiv> [CHR 0x22]"

text \<open>The file \<^verbatim>\<open>pb/template_file/nbdb_pb.tmpl\<close>, as it is.\<close>

definition nbdb_pb_tmpl :: string where
  "nbdb_pb_tmpl =
       ''{{- $file_package := .Package -}}'' @ eol @
       ''// auto-generate by `gen` don't edit'' @ eol @
       eol @
       ''package {{ $file_package}}'' @ eol @
       eol @
       ''import ('' @ eol @
       tab @ dq @ ''context'' @ dq @ eol @
       eol @
       tab @ dq @ ''git.yayafish.com/nbagent/client'' @ dq @ eol @
       tab @ ''//'' @ dq @ ''github.com/micro/protobuf/proto'' @ dq @ eol @
       '')'' @ eol @
       eol @
       ''//client call'' @ eol @
       ''    {{ range $serviceIndex, $service := .Service }}'' @ eol @
       ''func NewPB{{ firstUpperCase $service.Name}}Client(ptrClient *client.Client) PB{{ firstUpperCase $service.Name}}Client {'' @ eol @
       tab @ ''return PB{{ firstUpperCase $service.Name}}Client{'' @ eol @
       tab @ tab @ ''ptrClient: ptrClient,'' @ eol @
       tab @ ''}'' @ eol @
       ''}'' @ eol @
       eol @
       ''type PB{{ firstUpperCase $service.Name}}Client struct {'' @ eol @
       tab @ ''ptrClient *client.Client'' @ eol @
       ''}'' @ eol @
       ''         {{- range $index, $method := $service.Method }}'' @ eol @
       ''func (ptrClient *PB{{ firstUpperCase $service.Name}}Client) Call{{ $method.Name}}(szUri string, nTimeoutMs int64,'' @ eol @
       ''    ptrReq *{{ $method.InputType}}, ptrRsp *{{ $method.OutputType}}) error {'' @ eol @
       tab @ ''return ptrClient.ptrClient.SyncCall(szUri, ptrReq, ptrRsp, nTimeoutMs)'' @ eol @
       ''}'' @ eol @
       ''         {{- end }}'' @ eol @
       ''     {{- end }}'' @ eol @
       eol @
       ''//service call'' @ eol @
       ''    {{ range $serviceIndex, $service := .Service }}'' @ eol @
       ''func NewPB{{ firstUpperCase $service.Name}}ServiceHandler(ptrClient *client.Client) PB{{ firstUpperCase $service.Name}}ServiceHandler {'' @ eol @
       tab @ ''return PB{{ firstUpperCase $service.Name}}ServiceHandler{'' @ eol @
       tab @ tab @ ''ptrClient: ptrClient,'' @ eol @
       tab @ ''}'' @ eol @
       ''}'' @ eol @
       eol @
       ''type PB{{ firstUpperCase $service.Name}}ServiceHandler struct {'' @ eol @
       tab @ ''ptrClient *client.Client'' @ eol @
       ''}'' @ eol @
       eol @
       ''func (ptrService *PB{{ firstUpperCase $service.Name}}ServiceHandler) RegisterServiceHandler(szUri string,'' @ eol @
       '' fnHandler func(byteData []byte, ctx context.Context) []byte) error {'' @ eol @
       tab @ ''return ptrService.ptrClient.HandleRpc(szUri, fnHandler)'' @ eol @
       ''}'' @ eol @
       ''    {{- end }}''"

text \<open>Its texts and actions, and what the parser makes of them.\<close>

definition nbdb_pieces :: "(string \<times> string) list" where
  "nbdb_pieces = [
     ('''',
       ''- $file_package := .Package -''),
     (eol @
      ''// auto-generate by `gen` don't edit'' @ eol @
      eol @
      ''package '',
       '' $file_package''),
     (eol @
      eol @
      ''import ('' @ eol @
      tab @ dq @ ''context'' @ dq @ eol @
      eol @
      tab @ dq @ ''git.yayafish.com/nbagent/client'' @ dq @ eol @
      tab @ ''//'' @ dq @ ''github.com/micro/protobuf/proto'' @ dq @ eol @
      '')'' @ eol @
      eol @
      ''//client call'' @ eol @
      ''    '',
       '' range $serviceIndex, $service := .Service ''),
     (eol @
      ''func NewPB'',
       '' firstUpperCase $service.Name''),
     (''Client(ptrClient *client.Client) PB'',
       '' firstUpperCase $service.Name''),
     (''Client {'' @ eol @
      tab @ ''return PB'',
       '' firstUpperCase $service.Name''),
     (''Client{'' @ eol @
      tab @ tab @ ''ptrClient: ptrClient,'' @ eol @
      tab @ ''}'' @ eol @
      ''}'' @ eol @
      eol @
      ''type PB'',
       '' firstUpperCase $service.Name''),
     (''Client struct {'' @ eol @
      tab @ ''ptrClient *client.Client'' @ eol @
      ''}'' @ eol @
      ''         '',
       ''- range $index, $method := $service.Method ''),
     (eol @
      ''func (ptrClient *PB'',
       '' firstUpperCase $service.Name''),
     (''Client) Call'',
       '' $method.Name''),
     (''(szUri string, nTimeoutMs int64,'' @ eol @
      ''    ptrReq *'',
       '' $method.InputType''),
     ('', ptrRsp *'',
       '' $method.OutputType''),
     ('') error {'' @ eol @
      tab @ ''return ptrClient.ptrClient.SyncCall(szUri, ptrReq, ptrRsp, nTimeoutMs)'' @ eol @
      ''}'' @ eol @
      ''         '',
       ''- end ''),
     (eol @
      ''     '',
       ''- end ''),
     (eol @
      eol @
      ''//service call'' @ eol @
      ''    '',
       '' range $serviceIndex, $service := .Service ''),
     (eol @
      ''func NewPB'',
       '' firstUpperCase $service.Name''),
     (''ServiceHandler(ptrClient *client.Client) PB'',
       '' firstUpperCase $service.Name''),
     (''ServiceHandler {'' @ eol @
      tab @ ''return PB'',
       '' firstUpperCase $service.Name''),
     (''ServiceHandler{'' @ eol @
      tab @ tab @ ''ptrClient: ptrClient,'' @ eol @
      tab @ ''}'' @ eol @
      ''}'' @ eol @
      eol @
      ''type PB'',
       '' firstUpperCase $service.Name''),
     (''ServiceHandler struct {'' @ eol @
      tab @ ''ptrClient *client.Client'' @ eol @
      ''}'' @ eol @
      eol @
      ''func (ptrService *PB'',
       '' firstUpperCase $service.Name''),
     (''ServiceHandler) RegisterServiceHandler(szUri string,'' @ eol @
      '' fnHandler func(byteData []byte, ctx context.Context) []byte) error {'' @ eol @
      tab @ ''return ptrService.ptrClient.HandleRpc(szUri, fnHandler)'' @ eol @
      ''}'' @ eol @
      ''    '',
       ''- end '')]"

lemma nbdb_pb_tmpl_pieces: "nbdb_pb_tmpl = render_pieces nbdb_pieces ''''"
  by (simp add: nbdb_pb_tmpl_def nbdb_pieces_def)

lemma nbdb_pieces_ok: "pieces_ok False nbdb_pieces ''''"
  by code_simp

definition method_nodes :: "tnode list" where
  "method_nodes = [
     NText (eol @
       ''func (ptrClient *PB''),
     NPrint (PCall ''firstUpperCase'' [OpVar ''$service'' [''Name'']]),
     NText (''Client) Call''),
     NPrint (PArg (OpVar ''$method'' [''Name''])),
     NText (''(szUri string, nTimeoutMs int64,'' @ eol @
       ''    ptrReq *''),
     NPrint (PArg (OpVar ''$method'' [''InputType''])),
     NText ('', ptrRsp *''),
     NPrint (PArg (OpVar ''$method'' [''OutputType''])),
     NText ('') error {'' @ eol @
       tab @ ''return ptrClient.ptrClient.SyncCall(szUri, ptrReq, ptrRsp, nTimeoutMs)'' @ eol @
       ''}'')]"

definition client_nodes :: "tnode list" where
  "client_nodes = [
     NText (eol @
       ''func NewPB''),
     NPrint (PCall ''firstUpperCase'' [OpVar ''$service'' [''Name'']]),
     NText (''Client(ptrClient *client.Client) PB''),
     NPrint (PCall ''firstUpperCase'' [OpVar ''$service'' [''Name'']]),
     NText (''Client {'' @ eol @
       tab @ ''return PB''),
     NPrint (PCall ''firstUpperCase'' [OpVar ''$service'' [''Name'']]),
     NText (''Client{'' @ eol @
       tab @ tab @ ''ptrClient: ptrClient,'' @ eol @
       tab @ ''}'' @ eol @
       ''}'' @ eol @
       eol @
       ''type PB''),
     NPrint (PCall ''firstUpperCase'' [OpVar ''$service'' [''Name'']]),
     NText (''Client struct {'' @ eol @
       tab @ ''ptrClient *client.Client'' @ eol @
       ''}''),
     NRange ''$index'' ''$method'' (PArg (OpVar ''$service'' [''Method''])) method_nodes]"

definition service_nodes :: "tnode list" where
  "service_nodes = [
     NText (eol @
       ''func NewPB''),
     NPrint (PCall ''firstUpperCase'' [OpVar ''$service'' [''Name'']]),
     NText (''ServiceHandler(ptrClient *client.Client) PB''),
     NPrint (PCall ''firstUpperCase'' [OpVar ''$service'' [''Name'']]),
     NText (''ServiceHandler {'' @ eol @
       tab @ ''return PB''),
     NPrint (PCall ''firstUpperCase'' [OpVar ''$service'' [''Name'']]),
     NText (''ServiceHandler{'' @ eol @
       tab @ tab @ ''ptrClient: ptrClient,'' @ eol @
       tab @ ''}'' @ eol @
       ''}'' @ eol @
       eol @
       ''type PB''),
     NPrint (PCall ''firstUpperCase'' [OpVar ''$service'' [''Name'']]),
     NText (''ServiceHandler struct {'' @ eol @
       tab @ ''ptrClient *client.Client'' @ eol @
       ''}'' @ eol @
       eol @
       ''func (ptrService *PB''),
     NPrint (PCall ''firstUpperCase'' [OpVar ''$service'' [''Name'']]),
     NText (''ServiceHandler) RegisterServiceHandler(szUri string,'' @ eol @
       '' fnHandler func(byteData []byte, ctx context.Context) []byte) error {'' @ eol @
       tab @ ''return ptrService.ptrClient.HandleRpc(szUri, fnHandler)'' @ eol @
       ''}'')]"

definition nbdb_template :: "tnode list" where
  "nbdb_template = [
     NSet ''$file_package'' (PArg (OpField [''Package''])),
     NText (''// auto-generate by `gen` don't edit'' @ eol @
       eol @
       ''package ''),
     NPrint (PArg (OpVar ''$file_package'' [])),
     NText (eol @
       eol @
       ''import ('' @ eol @
       tab @ dq @ ''context'' @ dq @ eol @
       eol @
       tab @ dq @ ''git.yayafish.com/nbagent/client'' @ dq @ eol @
       tab @ ''//'' @ dq @ ''github.com/micro/protobuf/proto'' @ dq @ eol @
       '')'' @ eol @
       eol @
       ''//client call'' @ eol @
       ''    ''),
     NRange ''$serviceIndex'' ''$service'' (PArg (OpField [''Service''])) client_nodes,
     NText (eol @
       eol @
       ''//service call'' @ eol @
       ''    ''),
     NRange ''$serviceIndex'' ''$service'' (PArg (OpField [''Service''])) service_nodes]"

lemma nbdb_parsed: "Parse_template (map fst getFuncMap) nbdb_pb_tmpl = Some nbdb_template"
proof -
  have "lex_items nbdb_pb_tmpl = Some (pieces_items False nbdb_pieces '''')"
    using lex_items_pieces [OF nbdb_pieces_ok] by (simp add: nbdb_pb_tmpl_pieces trim_if_def)
  moreover have "parse_items (map fst getFuncMap) [] [''$''] [] (pieces_items False nbdb_pieces '''') = Some nbdb_template"
    by code_simp
  ultimately show ?thesis by (simp add: Parse_template_def)
qed

end
