(* ===== verification/GeneratorProps.thy ===== *)
theory GeneratorProps
  imports Generator
begin

text \<open>What the generator writes: the Go source it is meant to produce, stated without a template.\<close>

section \<open>The generated text\<close>

text \<open>A complete description: its package and, for each service, name and methods with their types.\<close>

type_synonym rpc_method = "string \<times> string \<times> string"
type_synonym rpc_service = "string \<times> rpc_method list"

definition method_of :: "rpc_method \<Rightarrow> MethodDescriptorProto" where
  "method_of = (\<lambda>(m, i, p). \<lparr>Method_Name = Some m, Method_InputType = Some i, Method_OutputType = Some p\<rparr>)"

definition service_of :: "rpc_service \<Rightarrow> ServiceDescriptorProto" where
  "service_of = (\<lambda>(n, ms). \<lparr>Service_Name = Some n, Service_Method = map method_of ms\<rparr>)"

definition file_of :: "string \<Rightarrow> rpc_service list \<Rightarrow> FileDescriptorProto" where
  "file_of pkg svs = \<lparr>File_Package = Some pkg, File_Service = map service_of svs\<rparr>"

definition text_method :: "string \<Rightarrow> rpc_method \<Rightarrow> string" where
  "text_method N = (\<lambda>(m, i, p).
     eol @ ''func (ptrClient *PB'' @ N @ ''Client) Call'' @ m @ ''(szUri string, nTimeoutMs int64,''
     @ eol @ ''    ptrReq *'' @ i @ '', ptrRsp *'' @ p @ '') error {''
     @ eol @ tab @ ''return ptrClient.ptrClient.SyncCall(szUri, ptrReq, ptrRsp, nTimeoutMs)''
     @ eol @ ''}'')"

definition text_struct :: "string \<Rightarrow> string" where
  "text_struct T =
     eol @ ''func New'' @ T @ ''(ptrClient *client.Client) '' @ T @ '' {''
     @ eol @ tab @ ''return '' @ T @ ''{''
     @ eol @ tab @ tab @ ''ptrClient: ptrClient,''
     @ eol @ tab @ ''}''
     @ eol @ ''}''
     @ eol
     @ eol @ ''type '' @ T @ '' struct {''
     @ eol @ tab @ ''ptrClient *client.Client''
     @ eol @ ''}''"

definition text_client :: "rpc_service \<Rightarrow> string" where
  "text_client = (\<lambda>(n, ms).
     text_struct (''PB'' @ Title n @ ''Client'') @ concat (map (text_method (Title n)) ms))"

definition text_service :: "rpc_service \<Rightarrow> string" where
  "text_service = (\<lambda>(n, ms).
     text_struct (''PB'' @ Title n @ ''ServiceHandler'')
     @ eol
     @ eol @ ''func (ptrService *PB'' @ Title n @ ''ServiceHandler) RegisterServiceHandler(szUri string,''
     @ eol @ '' fnHandler func(byteData []byte, ctx context.Context) []byte) error {''
     @ eol @ tab @ ''return ptrService.ptrClient.HandleRpc(szUri, fnHandler)''
     @ eol @ ''}'')"

definition text_file :: "string \<Rightarrow> rpc_service list \<Rightarrow> string" where
  "text_file pkg svs =
     ''// auto-generate by `gen` don't edit'' @ eol @ eol
     @ ''package '' @ pkg @ eol @ eol
     @ ''import ('' @ eol
     @ tab @ dq @ ''context'' @ dq @ eol @ eol
     @ tab @ dq @ ''git.yayafish.com/nbagent/client'' @ dq @ eol
     @ tab @ ''//'' @ dq @ ''github.com/micro/protobuf/proto'' @ dq @ eol
     @ '')'' @ eol @ eol
     @ ''//client call'' @ eol @ ''    '' @ concat (map text_client svs) @ eol @ eol
     @ ''//service call'' @ eol @ ''    '' @ concat (map text_service svs)"

section \<open>Running the template\<close>

lemma funcs [simp]: "mget getFuncMap ''firstUpperCase'' = Some Title"
  by (simp add: getFuncMap_def)

lemma run_method:
  assumes "mget vars ''$service'' = Some (service_data (service_of (n, ms)))"
  shows "exec_nodes getFuncMap v ((''$method'', method_data (method_of t)) # (''$index'', k) # vars) method_nodes
    = Some (text_method (Title n) t)"
  using assms
  by (cases t) (simp add: method_nodes_def method_data_def method_of_def service_data_def service_of_def text_method_def)

lemma run_client:
  "exec_nodes getFuncMap (service_data (service_of v)) ((''$service'', service_data (service_of v)) # (''$serviceIndex'', k) # vars)
     client_nodes = Some (text_client v)"
proof -
  obtain n ms where v: "v = (n, ms)" by (cases v)
  let ?vars = "(''$service'', service_data (service_of v)) # (''$serviceIndex'', k) # vars"
  have loop: "range_loop (\<lambda>k v. exec_nodes getFuncMap v ((''$method'', v) # (''$index'', GInt k) # ?vars) method_nodes) 0
      (map (method_data \<circ> method_of) ms) = Some (concat (map (text_method (Title n)) ms))"
    unfolding comp_def by (rule range_loop_map, rule run_method) (simp add: v)
  have fields: "service_data (service_of v)
      = GStruct [(''Name'', GPtr (Some n)), (''Method'', GSlice (map (method_data \<circ> method_of) ms))]"
    by (simp add: v service_data_def service_of_def)
  show ?thesis using loop by (simp add: client_nodes_def fields) (simp add: v text_client_def text_struct_def)
qed

lemma run_service:
  "exec_nodes getFuncMap (service_data (service_of v)) ((''$service'', service_data (service_of v)) # (''$serviceIndex'', k) # vars)
     service_nodes = Some (text_service v)"
  by (cases v) (simp add: service_nodes_def service_data_def service_of_def text_service_def text_struct_def)

lemma template_runs:
  "Execute getFuncMap nbdb_template (file_data (file_of pkg svs)) = Some (text_file pkg svs)"
proof -
  have loops:
    "range_loop (\<lambda>k v. exec_nodes getFuncMap v ((''$service'', v) # (''$serviceIndex'', GInt k) # vars) client_nodes) 0
      (map (service_data \<circ> service_of) svs) = Some (concat (map text_client svs))"
    "range_loop (\<lambda>k v. exec_nodes getFuncMap v ((''$service'', v) # (''$serviceIndex'', GInt k) # vars) service_nodes) 0
      (map (service_data \<circ> service_of) svs) = Some (concat (map text_service svs))" for vars
    unfolding comp_def by (rule range_loop_map, rule run_client, rule range_loop_map, rule run_service)
  have fields: "file_data (file_of pkg svs)
      = GStruct [(''Package'', GPtr (Some pkg)), (''Service'', GSlice (map (service_data \<circ> service_of) svs))]"
    by (simp add: file_data_def file_of_def)
  show ?thesis by (simp add: Execute_def nbdb_template_def fields loops) (simp add: text_file_def)
qed

section \<open>The command\<close>

text \<open>The types of a service without their packages.\<close>

definition base_service :: "rpc_service \<Rightarrow> rpc_service" where
  "base_service = (\<lambda>(n, ms). (n, map (\<lambda>(m, i, p). (m, base_type i, base_type p)) ms))"

lemma base_type_qualified: "CHR ''.'' \<notin> set t \<Longrightarrow> base_type (pkg @ CHR ''.'' # t) = t"
  by (simp add: base_type_def last_Split)

lemma base_type_idem: "base_type (base_type t) = base_type t"
proof -
  have "CHR ''.'' \<notin> set (base_type t)" unfolding base_type_def by (rule sep_notin_Split [of _ _ t]) simp
  then show ?thesis by (simp add: base_type_def [of "base_type t"] Split_no_sep)
qed

lemma each_Ret_map: "(\<And>x. f (g x) = Ret (g (h x))) \<Longrightarrow> each_Ret f (map g xs) = Ret (map g (map h xs))"
  by (induction xs) simp_all

lemma ReadProtoFile_complete:
  "ReadProtoFile (file_of pkg svs) b = Ret (b\<lparr>pb_FileDescProto := file_of pkg (map base_service svs)\<rparr>)"
proof -
  have "read_method (method_of t) = Ret (method_of (case t of (m, i, p) \<Rightarrow> (m, base_type i, base_type p)))" for t
    by (cases t) (simp add: read_method_def method_of_def)
  note m = each_Ret_map [of read_method method_of, OF this]
  have "read_service (service_of v) = Ret (service_of (base_service v))" for v
    using m by (cases v) (simp add: read_service_def service_of_def base_service_def)
  from each_Ret_map [of read_service service_of, OF this] show ?thesis
    by (simp add: ReadProtoFile_def file_of_def)
qed

text \<open>A method without a type, or a description without files, stops the command.\<close>

lemma each_Ret_Panics: "each_Ret f xs = Panics \<longleftrightarrow> (\<exists>x\<in>set xs. f x = Panics)"
  by (induction xs) (auto split: outcome.splits)

lemma ReadProtoFile_panics:
  "ReadProtoFile d b = Panics \<longleftrightarrow>
     (\<exists>v\<in>set (File_Service d). \<exists>m\<in>set (Service_Method v). Method_InputType m = None \<or> Method_OutputType m = None)"
proof -
  have "read_method m = Panics \<longleftrightarrow> Method_InputType m = None \<or> Method_OutputType m = None" for m
    by (auto simp: read_method_def split: option.splits)
  moreover have "read_service v = Panics \<longleftrightarrow> (\<exists>m\<in>set (Service_Method v). read_method m = Panics)" for v
    by (simp add: read_service_def each_Ret_Panics [symmetric] split: outcome.splits)
  moreover have "ReadProtoFile d b = Panics \<longleftrightarrow> (\<exists>v\<in>set (File_Service d). read_service v = Panics)"
    by (simp add: ReadProtoFile_def each_Ret_Panics [symmetric] split: outcome.splits)
  ultimately show ?thesis by simp
qed

text \<open>An error of \<^verbatim>\<open>Build\<close> before the file is created leaves the files alone.\<close>

lemma Build_errors:
  assumes "Build szTemplateFile szOutFile b s = (Some e, s1)"
  shows "s1 = s \<or> (\<exists>x p. e = WriteError x \<and> s1 = s\<lparr>gf_files := mput (path_Join [pb_OutputPath b, szOutFile]) p (gf_files s)\<rparr>)"
  using assms
  by (auto simp: Build_def Let_def os_Create_def ioutil_WriteFile_def split: sum.splits option.splits)

text \<open>
  C22. The command reads a complete description and writes one file, named after the package in
  the output path, with the Go source of every service: nothing else changes.  It does so only
  if the template path holds a file named \<^verbatim>\<open>nbagent_pb.tmpl\<close>; without it the command returns as
  if it had succeeded and writes nothing.  The template of the repository is read, parsed and
  executed as \<^verbatim>\<open>text/template\<close> does it.
\<close>

theorem generator_writes:
  defines "tp \<equiv> \<lambda>f. path_Join [szTemplatesPath f, ''/nbagent_pb.tmpl'']"
    and "out \<equiv> \<lambda>f pkg. path_Join [szOutputPath f, ''/'' @ pkg @ ''.nbagent.go'']"
  assumes read: "mget (gf_files s) (szPBFileDescriptor f) = Some b" "unmarshal b = Some (file_of pkg svs # rest)"
  shows "(mget (gf_files s) (tp f) = None \<longrightarrow> GeneratorFunc unmarshal f s = (Ret (), s))
    \<and> (mget (gf_files s) (tp f) = Some nbdb_pb_tmpl \<and> gf_create s (out f pkg) = None \<and> gf_write s (out f pkg) = None
       \<longrightarrow> GeneratorFunc unmarshal f s
         = (Ret (), s\<lparr>gf_files := mput (out f pkg) (text_file pkg (map base_service svs)) (gf_files s)\<rparr>))"
proof -
  let ?b = "NewProtoBuilder (szTemplatesPath f) (szOutputPath f)"
  let ?c = "?b\<lparr>pb_FileDescProto := file_of pkg (map base_service svs)\<rparr>"
  have gen: "GeneratorFunc unmarshal f s = (Ret (), snd (Build ''/nbagent_pb.tmpl'' (''/'' @ pkg @ ''.nbagent.go'') ?c s))"
    using read by (simp add: GeneratorFunc_def generateFile_def ReadProtoFile_complete) (simp add: file_of_def)
  have parts: "pb_TemplatesPath ?c = szTemplatesPath f" "pb_OutputPath ?c = szOutputPath f"
    "pb_FileDescProto ?c = file_of pkg (map base_service svs)" by (simp_all add: NewProtoBuilder_def)
  show ?thesis
    unfolding gen by (simp add: Build_def parts tp_def out_def ParseTemplate_def getTemplate_def nbdb_parsed template_runs
        os_Create_def ioutil_WriteFile_def)
qed

text \<open>The demo of the repository: its committed output, and the files next to the command.\<close>

definition demo_nbdb_go :: string where
  "demo_nbdb_go =
       ''// auto-generate by `gen` don't edit'' @ eol @
       eol @
       ''package demo'' @ eol @
       eol @
       ''import ('' @ eol @
       tab @ dq @ ''context'' @ dq @ eol @
       eol @
       tab @ dq @ ''git.yayafish.com/nbagent/client'' @ dq @ eol @
       tab @ ''//'' @ dq @ ''github.com/micro/protobuf/proto'' @ dq @ eol @
       '')'' @ eol @
       eol @
       ''//client call'' @ eol @
       ''    '' @ eol @
       ''func NewPBDemoClient(ptrClient *client.Client) PBDemoClient {'' @ eol @
       tab @ ''return PBDemoClient{'' @ eol @
       tab @ tab @ ''ptrClient: ptrClient,'' @ eol @
       tab @ ''}'' @ eol @
       ''}'' @ eol @
       eol @
       ''type PBDemoClient struct {'' @ eol @
       tab @ ''ptrClient *client.Client'' @ eol @
       ''}'' @ eol @
       ''func (ptrClient *PBDemoClient) CallTestHaha(szUri string, nTimeoutMs int64,'' @ eol @
       ''    ptrReq *TestMsgReq, ptrRsp *TestMsgRsp) error {'' @ eol @
       tab @ ''return ptrClient.ptrClient.SyncCall(szUri, ptrReq, ptrRsp, nTimeoutMs)'' @ eol @
       ''}'' @ eol @
       eol @
       ''//service call'' @ eol @
       ''    '' @ eol @
       ''func NewPBDemoServiceHandler(ptrClient *client.Client) PBDemoServiceHandler {'' @ eol @
       tab @ ''return PBDemoServiceHandler{'' @ eol @
       tab @ tab @ ''ptrClient: ptrClient,'' @ eol @
       tab @ ''}'' @ eol @
       ''}'' @ eol @
       eol @
       ''type PBDemoServiceHandler struct {'' @ eol @
       tab @ ''ptrClient *client.Client'' @ eol @
       ''}'' @ eol @
       eol @
       ''func (ptrService *PBDemoServiceHandler) RegisterServiceHandler(szUri string,'' @ eol @
       '' fnHandler func(byteData []byte, ctx context.Context) []byte) error {'' @ eol @
       tab @ ''return ptrService.ptrClient.HandleRpc(szUri, fnHandler)'' @ eol @
       ''}''"

definition demo_service :: rpc_service where
  "demo_service = (''Demo'', [(''TestHaha'', ''.demo.TestMsgReq'', ''.demo.TestMsgRsp'')])"

definition demo_flags :: gen_flags where
  "demo_flags = (init_flags ''/go'')\<lparr>szPBFileDescriptor := ''demo.txt''\<rparr>"

definition demo_files :: "string \<Rightarrow> gen_files" where
  "demo_files szTemplate = \<lparr>gf_files = [(''demo.txt'', ''d''),
       (''/go/src/git.yayafish.com/nbagent/tools/NB_Cli/pb/template_file/'' @ szTemplate, nbdb_pb_tmpl)],
     gf_create = \<lambda>_. None, gf_write = \<lambda>_. None\<rparr>"

lemma demo_text: "text_file ''demo'' [base_service demo_service] = demo_nbdb_go"
proof -
  have "base_service demo_service = (''Demo'', [(''TestHaha'', ''TestMsgReq'', ''TestMsgRsp'')])" "Title ''Demo'' = ''Demo''"
    by code_simp+
  then show ?thesis
    by (simp add: text_file_def text_client_def text_service_def text_struct_def text_method_def demo_nbdb_go_def)
qed

lemma demo_paths:
  "path_Join [szTemplatesPath demo_flags, ''/nbagent_pb.tmpl'']
     = ''/go/src/git.yayafish.com/nbagent/tools/NB_Cli/pb/template_file/nbagent_pb.tmpl''"
  "path_Join [szOutputPath demo_flags, ''/'' @ ''demo'' @ ''.nbagent.go''] = ''demo.nbagent.go''"
  "szPBFileDescriptor demo_flags = ''demo.txt''"
  by code_simp+

theorem generator_writes_witness:
  "GeneratorFunc (\<lambda>_. Some [file_of ''demo'' [demo_service]]) demo_flags (demo_files ''nbdb_pb.tmpl'') = (Ret (), demo_files ''nbdb_pb.tmpl'')
   \<and> mget (gf_files (snd (GeneratorFunc (\<lambda>_. Some [file_of ''demo'' [demo_service]]) demo_flags (demo_files ''nbagent_pb.tmpl''))))
       ''demo.nbagent.go'' = Some demo_nbdb_go"
proof -
  have 1: "mget (gf_files (demo_files t)) (szPBFileDescriptor demo_flags) = Some ''d''" for t
    by (simp add: demo_files_def demo_paths)
  have 2: "(\<lambda>_ :: bytes. Some [file_of ''demo'' [demo_service]]) ''d'' = Some (file_of ''demo'' [demo_service] # [])" by simp
  show ?thesis
    using generator_writes [OF 1 2, of "''nbdb_pb.tmpl''"] generator_writes [OF 1 2, of "''nbagent_pb.tmpl''"] demo_text
    unfolding demo_paths by (simp add: demo_files_def)
qed

end
