(* ===== verification/Reporter.thy ===== *)
theory Reporter
  imports Prelude
begin

text \<open>
  The package \<^verbatim>\<open>reporter\<close>: what the program counts and times goes to every registered
  reporter, in the order of registration.  A reporter is a parameter (the interface
  \<^verbatim>\<open>realReporter\<close>), its operations change a state of its own.  The program registers none,
  so its reports have no effect and the other theories leave them out.
\<close>

record 's realReporter =
  rp_Count :: "string \<Rightarrow> int64 list \<Rightarrow> 's \<Rightarrow> 's"
  rp_Result :: "string \<Rightarrow> string \<Rightarrow> int64 list \<Rightarrow> 's \<Rightarrow> 's"
  rp_Duration :: "string \<Rightarrow> uint64 \<Rightarrow> int64 list \<Rightarrow> 's \<Rightarrow> 's"

record 's reporting =
  aryReporters :: "'s realReporter list"
  rp_state :: 's

definition report_all :: "('s realReporter \<Rightarrow> 's \<Rightarrow> 's) \<Rightarrow> 's reporting \<Rightarrow> 's reporting" where
  "report_all f s = s\<lparr>rp_state := forEach f (aryReporters s) (rp_state s)\<rparr>"

definition Count_rp :: "string \<Rightarrow> int64 list \<Rightarrow> 's reporting \<Rightarrow> 's reporting" where
  "Count_rp szKey nCount = report_all (\<lambda>r. rp_Count r szKey nCount)"

definition Result_rp :: "string \<Rightarrow> string \<Rightarrow> int64 list \<Rightarrow> 's reporting \<Rightarrow> 's reporting" where
  "Result_rp szKey szResult nDurationAndCount = report_all (\<lambda>r. rp_Result r szKey szResult nDurationAndCount)"

definition Duration_rp :: "string \<Rightarrow> uint64 \<Rightarrow> int64 list \<Rightarrow> 's reporting \<Rightarrow> 's reporting" where
  "Duration_rp szKey nDuration nCount = report_all (\<lambda>r. rp_Duration r szKey nDuration nCount)"

definition Register_rp :: "'s realReporter \<Rightarrow> 's reporting \<Rightarrow> 's reporting" where
  "Register_rp r s = s\<lparr>aryReporters := aryReporters s @ [r]\<rparr>"

section \<open>Timing an operation\<close>

record AutoReportHelper =
  ah_key :: string
  ah_start :: int64

definition NewAutoReportHelper :: "string \<Rightarrow> int64 \<Rightarrow> AutoReportHelper" where
  "NewAutoReportHelper key nNow = \<lparr>ah_key = key, ah_start = nNow\<rparr>"

text \<open>Times are in nanoseconds; the division of a \<^verbatim>\<open>time.Duration\<close> rounds towards zero.\<close>

definition micros :: "int64 \<Rightarrow> int64" where
  "micros d = word_of_int (sgn (sint d) * (\<bar>sint d\<bar> div 1000))"

definition Report_rp :: "string \<Rightarrow> int64 \<Rightarrow> AutoReportHelper \<Rightarrow> 's reporting \<Rightarrow> 's reporting" where
  "Report_rp szResult nNow m =
     Result_rp (ah_key m) szResult [micros (nNow - ah_start m), 1]"

text \<open>A report reaches all reporters; without one it does nothing.\<close>

lemma report_none: "aryReporters s = [] \<Longrightarrow> report_all f s = s"
  by (simp add: report_all_def)

lemma report_registered:
  "report_all f (Register_rp r s) = (report_all f s)\<lparr>aryReporters := aryReporters s @ [r],
     rp_state := f r (rp_state (report_all f s))\<rparr>"
  by (simp add: report_all_def Register_rp_def forEach_append)

end
