(* ===== verification/Spec2Isabelle.thy ===== *)
theory Spec2Isabelle
  imports MeshCall Registration Reregistration Boot DemoProps Healing GeneratorProps Reporter
begin

text \<open>
  nbagent is a mesh of nodes that route remote procedure calls between processes.  A
  process of the mesh (\<^verbatim>\<open>nbserver\<close>) holds a node manager, which talks to the other nodes,
  and a client manager (the agent), to which programs connect with the client library
  (\<^verbatim>\<open>client\<close>) to register the entries they serve and to call those of others.  A call goes
  from a client to its agent, from there to another client of the same agent or through
  the node to the node of the process that offers the entry, and the response takes the
  way back that the callers' stack records.

  \<^bold>\<open>How the code is modelled.\<close>  Every function is a HOL function on the state it changes;
  pointers are addresses into explicit stores, so aliasing is visible; a panic is the
  outcome \<^verbatim>\<open>Panics\<close>.  \<^verbatim>\<open>int64\<close>, \<^verbatim>\<open>uint64\<close>, \<^verbatim>\<open>uint32\<close> and \<^verbatim>\<open>uint16\<close> are words of that width, a
  Go map is an association list whose order is the order of \<^verbatim>\<open>range\<close>.  The clock, random
  numbers, fresh identifiers, dial results and read results are arguments.  A task given
  to the worker pool becomes an element of a list of pending tasks, and a function that
  blocks on a response is cut there; the system theories have a step relation that runs
  pending tasks, waiting calls, packets and timers in any order, and an invariant proved
  for all reachable states.  Critical sections of a lock are single steps.  Loops over
  slices are \<^verbatim>\<open>forEach\<close>; recursion is structural or by a measure, except for the loops of
  \<^verbatim>\<open>flush2\<close> and \<^verbatim>\<open>NewServer\<close>, which only a counter and a free port end and which are therefore
  partial functions with a property that says when they return, and for the reader of JSON
  texts, whose fuel is the length of the text and one more, of which every recursive call uses one unit and at least one byte.

  \<^bold>\<open>Third-party code\<close> is a parameter: \<^verbatim>\<open>proto_lib\<close> holds \<^verbatim>\<open>Marshal\<close>, \<^verbatim>\<open>Unmarshal\<close> and
  \<^verbatim>\<open>EnumName\<close> of the protobuf runtime; properties that need it assume that messages
  survive a round trip or that declared enumeration values have their declared names, and
  have a witness with a concrete instance.  In the same way \<^verbatim>\<open>semaphore\<close> holds the operations of
  \<^verbatim>\<open>golang.org/x/sync/semaphore\<close>, with their documentation as \<^verbatim>\<open>weighted_ok\<close>, and \<^verbatim>\<open>zap\<close> those
  of the logging library, with \<^verbatim>\<open>zap_ok\<close>.  Of the Go library, numbers as text, hex,
  little-endian integers, MD5, HMAC, CRC-32, paths, the JSON of one type and the part of
  \<^verbatim>\<open>text/template\<close> that is used are executable definitions.

  \<^bold>\<open>Theories and sources.\<close>
  \<^item> \<^verbatim>\<open>Prelude\<close>, \<^verbatim>\<open>GoLib\<close>: maps, words, loops, transition systems (locale
    \<^verbatim>\<open>inductive_invariant\<close>); the part of the Go library that the code computes with.
  \<^item> \<^verbatim>\<open>Proto\<close>, \<^verbatim>\<open>Wire\<close>: the messages of \<^verbatim>\<open>protocol/node\<close> and \<^verbatim>\<open>protocol/agent\<close>, and the packet
    and string format of \<^verbatim>\<open>protocol/common.go\<close> (locale \<^verbatim>\<open>prefix_codec\<close>): round trips.
  \<^item> \<^verbatim>\<open>Network\<close>, \<^verbatim>\<open>NetworkSafety\<close>: \<^verbatim>\<open>network\<close>: connections, the read loop, the table of waiting
    calls; the framing of streams, and that no channel is closed twice or written to when
    closed.
  \<^item> \<^verbatim>\<open>Routing\<close>, \<^verbatim>\<open>Rpc\<close>: \<^verbatim>\<open>router\<close> and \<^verbatim>\<open>rpc\<close>: dispatch of a packet, calls, casts, replies, and
    what becomes of a call on a response, a time limit and a lost connection.
  \<^item> \<^verbatim>\<open>Json\<close>, \<^verbatim>\<open>CallerStack\<close>: \<^verbatim>\<open>protocol/caller\<close>: the stack of callers and its JSON text.
  \<^item> \<^verbatim>\<open>Node\<close>, \<^verbatim>\<open>Manager\<close>, \<^verbatim>\<open>Handlers\<close>: \<^verbatim>\<open>node/node.go\<close>, \<^verbatim>\<open>node/manager.go\<close>: the record \<^verbatim>\<open>Info\<close> of a
    known node, the record \<^verbatim>\<open>NodeManager\<close>, the handlers of its messages, its timers and
    the dispatch of requests and responses.
  \<^item> \<^verbatim>\<open>NodeFacts\<close>, \<^verbatim>\<open>NodeSystem\<close>, \<^verbatim>\<open>NodeProps\<close>, \<^verbatim>\<open>Replication\<close>, \<^verbatim>\<open>NodeMessages\<close>: what the
    operations leave alone (locale \<^verbatim>\<open>packet_service\<close>, what a manager promises to the
    router), the node as a transition system with the invariant of its routes, the
    replication of an owner's entries against an abstract versioned set, and the meaning
    of single messages.
  \<^item> \<^verbatim>\<open>AgentClient\<close>, \<^verbatim>\<open>AgentManager\<close>: \<^verbatim>\<open>cli_agent\<close>: the record \<^verbatim>\<open>ClientInfo\<close>, the record
    \<^verbatim>\<open>ClientManager\<close> on top of the node, the interface \<^verbatim>\<open>NodeHandler\<close> as a record of
    functions, all handlers.
  \<^item> \<^verbatim>\<open>AgentFacts\<close>, \<^verbatim>\<open>AgentSystem\<close>, \<^verbatim>\<open>AgentRegistry\<close>, \<^verbatim>\<open>AgentProps\<close>: the contract between
    agent and node (locales \<^verbatim>\<open>node_handler\<close> and \<^verbatim>\<open>node_registry\<close>, interpreted on the node
    manager), the agent as a transition system, and that what the node offers to the mesh
    is what the clients registered.
  \<^item> \<^verbatim>\<open>ClientPool\<close>, \<^verbatim>\<open>ClientLib\<close>, \<^verbatim>\<open>ClientFacts\<close>, \<^verbatim>\<open>ClientSystem\<close>, \<^verbatim>\<open>ClientProps\<close>: the client
    library: pools of connections, the choice of the active agent, registration, calls,
    keepalive; its goroutines as a transition system, and the properties of agents and
    pools.
  \<^item> \<^verbatim>\<open>Registration\<close>: a registration through the client library and the agent and back.
  \<^item> \<^verbatim>\<open>Reregistration\<close>: what becomes of an entry a client registered and later left out.
  \<^item> \<^verbatim>\<open>RawClient\<close>, \<^verbatim>\<open>Demo\<close>, \<^verbatim>\<open>DemoProps\<close>: the programs of \<^verbatim>\<open>examples/rpc_demo\<close>,
    which talk to an agent without the client library, and a call from one to the other.
  \<^item> \<^verbatim>\<open>EndToEnd\<close>, \<^verbatim>\<open>MeshCall\<close>: one remote call through caller, agent and provider, and one
    that crosses the mesh to a provider at another node and returns, each step taken by the
    model of the program that takes it.
  \<^item> \<^verbatim>\<open>Handshake\<close>, \<^verbatim>\<open>Healing\<close>: two nodes become neighbours, from the dial to the two bound
    connections; a keepalive brings the copy of the peer back to what the owner offers.
  \<^item> \<^verbatim>\<open>TaskWorker\<close>: \<^verbatim>\<open>taskworker\<close>: the workers that bound how many tasks run, as a transition
    system over a semaphore whose documented laws are a hypothesis.
  \<^item> \<^verbatim>\<open>Server\<close>, \<^verbatim>\<open>ServerSystem\<close>, \<^verbatim>\<open>ServerProps\<close>: \<^verbatim>\<open>config\<close>, \<^verbatim>\<open>network/server.go\<close>, \<^verbatim>\<open>nbserver\<close>:
    the configuration, the search for a port, and the process as a transition system over
    both managers: what one manager leaves alone of the other (\<open>stays\<close>, \<open>tends\<close>), so that
    their invariants hold together and the process refines the system of the agent.
  \<^item> \<^verbatim>\<open>Boot\<close>: \<^verbatim>\<open>main.go\<close>: from the configuration files to workers, log and process.
  \<^item> \<^verbatim>\<open>AsyncLog\<close>, \<^verbatim>\<open>AsyncLogProps\<close>: \<^verbatim>\<open>log/asyncfile\<close>: the log files, over a small model of the
    file system; termination of a flush, order and arrival of the messages.
  \<^item> \<^verbatim>\<open>LogFront\<close>, \<^verbatim>\<open>LogFrontProps\<close>: the rest of \<^verbatim>\<open>log\<close>: options, targets, levels and the
    functions the program logs with, over zap as a parameter; from a call of \<^verbatim>\<open>Infof\<close> to the
    bytes of the file.
  \<^item> \<^verbatim>\<open>GoText\<close>, \<^verbatim>\<open>Template\<close>, \<^verbatim>\<open>Generator\<close>, \<^verbatim>\<open>GeneratorProps\<close>: \<^verbatim>\<open>tools/NB_Cli\<close>: the
    command that writes the stubs of a protocol, over a lexer, parser and interpreter of the part of
    \<^verbatim>\<open>text/template\<close> that its template uses; the text it writes, stated without a template.
  \<^item> \<^verbatim>\<open>Reporter\<close>: \<^verbatim>\<open>reporter\<close>, the counters and timers; no reporter is ever registered.

  \<^bold>\<open>What the properties say.\<close>  Those of the first kind hold of all reachable states: routes
  lead to live nodes that offer the entry, clients of the agent are routed for exactly
  what they registered, the client library always has a usable active agent, channels are
  used safely.  The second kind relates an implementation to a specification: a peer
  follows its owner, the offers of a node follow its clients, a log file is an
  append-only text.  The third gives the behaviour of an operation on every branch, and of whole
  calls, registrations and greetings across the programs.  The fourth states where the code
  falls short: each is a theorem about the code as it is, with the inputs under which it happens, and is listed as a finding of the manifest.

  \<^bold>\<open>Limits.\<close>  The step relation of the client library runs \<^verbatim>\<open>SwitchActiveAgent\<close> and
  \<^verbatim>\<open>UpdateAgent\<close> as one step each although the code takes their lock twice; the invariant
  of the active agent holds for that interleaving only, and one property shows what
  happens otherwise.  Partial writes on a socket are failures of the connection.  The
  pending tasks of the managers run in any order, which includes every order that the bounds
  of \<^verbatim>\<open>TaskWorker\<close> allow; that a full worker blocks a handler that holds a lock is not modelled.

  \<^bold>\<open>Not modelled.\<close>  Generated getters and descriptors of the messages and the generated
  stubs; the set-up of the command line of \<^verbatim>\<open>tools/NB_Cli\<close>, which is cobra's; the load generators of
  \<^verbatim>\<open>benchmark\<close>, which use the library but are not part of it.
\<close>

end
